(* ===== verification/MO_Prelude.thy ===== *)
theory MO_Prelude
  imports Main
begin

text \<open>
  Shared vocabulary of the development: the collections that carry the component proofs,
  byte strings with the string methods the code calls (\<open>startsWith\<close>, \<open>trim\<close>,
  \<open>join\<close>, decimal printing), and lemmas on association lists and keyed lists.

  A JavaScript string is modelled as the list of the bytes of its UTF-8 encoding. Equality,
  concatenation, \<open>startsWith\<close>, \<open>includes\<close>, \<open>trim\<close> and the
  percent-encoders agree with the source's strings on this representation for every
  well-formed string (one without lone surrogates); \<open>length\<close> would not, and no
  definition uses it as the source's \<open>length\<close>.
\<close>

section \<open>Named collections\<close>

named_theorems io_simps \<open>evaluation rules of the effect combinators\<close>
named_theorems gate_simps \<open>what the authenticated fetch helpers do on each branch\<close>
named_theorems client_defs \<open>definitions of the backend client functions\<close>
named_theorems route_defs \<open>definitions of the route handlers\<close>

section \<open>Strings\<close>

definition starts_with :: "string \<Rightarrow> string \<Rightarrow> bool" where
  "starts_with s p \<longleftrightarrow> take (length p) s = p"

lemma starts_with_append [simp]: "starts_with (p @ s) p"
  by (simp add: starts_with_def)

lemma starts_with_iff: "starts_with s p \<longleftrightarrow> (\<exists>r. s = p @ r)"
  by (metis starts_with_def append_take_drop_id append_eq_conv_conj)

lemma starts_with_Nil [simp]: "starts_with s []"
  by (simp add: starts_with_def)

text \<open>\<open>s.includes(t)\<close>\<close>

fun str_includes :: "string \<Rightarrow> string \<Rightarrow> bool" where
  "str_includes [] t \<longleftrightarrow> t = []"
| "str_includes (c # s) t \<longleftrightarrow> starts_with (c # s) t \<or> str_includes s t"

lemma str_includes_iff: "str_includes s t \<longleftrightarrow> (\<exists>a b. s = a @ t @ b)"
proof (induction s)
  case Nil
  then show ?case by simp
next
  case (Cons c s)
  show ?case
  proof
    assume "str_includes (c # s) t"
    then consider "starts_with (c # s) t" | "str_includes s t" by auto
    then show "\<exists>a b. c # s = a @ t @ b"
    proof cases
      case 1
      then obtain b where "c # s = [] @ t @ b" by (auto simp: starts_with_iff)
      then show ?thesis by blast
    next
      case 2
      then obtain a b where "s = a @ t @ b" using Cons.IH by blast
      then have "c # s = (c # a) @ t @ b" by simp
      then show ?thesis by blast
    qed
  next
    assume "\<exists>a b. c # s = a @ t @ b"
    then obtain a b where ab: "c # s = a @ t @ b" by blast
    show "str_includes (c # s) t"
    proof (cases a)
      case Nil
      with ab have "starts_with (c # s) t" unfolding starts_with_iff by auto
      then show ?thesis by simp
    next
      case (Cons x a')
      with ab have "s = a' @ t @ b" by simp
      then show ?thesis using Cons.IH by auto
    qed
  qed
qed

text \<open>\<open>parts.join(sep)\<close>\<close>

fun join_with :: "string \<Rightarrow> string list \<Rightarrow> string" where
  "join_with sep [] = []"
| "join_with sep [p] = p"
| "join_with sep (p # q # ps) = p @ sep @ join_with sep (q # ps)"

lemma str_includes_append: "str_includes s t \<Longrightarrow> str_includes (a @ s @ b) t"
proof -
  assume "str_includes s t"
  then obtain c d where "s = c @ t @ d" by (auto simp: str_includes_iff)
  then have "a @ s @ b = (a @ c) @ t @ (d @ b)" by simp
  then show ?thesis unfolding str_includes_iff by blast
qed

lemma str_includes_join: "x \<in> set xs \<Longrightarrow> str_includes x t \<Longrightarrow> str_includes (join_with sep xs) t"
proof (induction sep xs rule: join_with.induct)
  case (3 sep p q ps)
  show ?case
  proof (cases "x = p")
    case True
    then show ?thesis using "3.prems"(2) str_includes_append [of p t "[]"] by simp
  next
    case False
    then have "str_includes (join_with sep (q # ps)) t" using 3 by auto
    then show ?thesis using str_includes_append [of _ t "p @ sep" "[]"] by simp
  qed
qed auto

lemma str_includes_refl: "str_includes s s"
  unfolding str_includes_iff by (metis append.left_neutral append.right_neutral)

text \<open>
  \<open>s.trim()\<close>: the white space and line terminator code points of ECMAScript, each as
  its UTF-8 bytes. Stripping repeats until no listed sequence is a prefix.
\<close>

definition ws_seqs :: "string list" where
  "ws_seqs = map (map (char_of :: nat \<Rightarrow> char))
     ([[9], [10], [11], [12], [13], [32], [194, 160], [225, 154, 128]]
      @ map (\<lambda>n. [226, 128, n]) [128, 129, 130, 131, 132, 133, 134, 135, 136, 137, 138, 168, 169, 175]
      @ [[226, 129, 159], [227, 128, 128], [239, 187, 191]])"

function strip_prefixes :: "string list \<Rightarrow> string \<Rightarrow> string" where
  "strip_prefixes ws s =
     (case find (\<lambda>w. w \<noteq> [] \<and> starts_with s w) ws of
        None \<Rightarrow> s
      | Some w \<Rightarrow> strip_prefixes ws (drop (length w) s))"
  by pat_completeness auto
termination
proof (relation "measure (\<lambda>(ws, s). length s)", simp)
  fix ws s w
  assume "find (\<lambda>w. w \<noteq> [] \<and> starts_with s w) ws = Some w"
  then have "w \<noteq> []" "starts_with s w"
    by (auto simp: find_Some_iff)
  then show "((ws, drop (length w) s), (ws, s)) \<in> measure (\<lambda>(ws, s). length s)"
    by (auto simp: starts_with_iff)
qed

declare strip_prefixes.simps [simp del]

definition trim_start :: "string \<Rightarrow> string" where
  "trim_start s = strip_prefixes ws_seqs s"

definition trim_end :: "string \<Rightarrow> string" where
  "trim_end s = rev (strip_prefixes (map rev ws_seqs) (rev s))"

definition js_trim :: "string \<Rightarrow> string" where
  "js_trim s = trim_end (trim_start s)"

lemma strip_prefixes_none:
  "find (\<lambda>w. w \<noteq> [] \<and> starts_with (strip_prefixes ws s) w) ws = None"
proof (induction ws s rule: strip_prefixes.induct)
  case (1 ws s)
  then show ?case
    by (subst strip_prefixes.simps, subst (asm) strip_prefixes.simps)
      (auto split: option.splits simp: strip_prefixes.simps [of ws s])
qed

lemma strip_prefixes_suffix: "\<exists>p. s = p @ strip_prefixes ws s"
proof (induction ws s rule: strip_prefixes.induct)
  case (1 ws s)
  show ?case
  proof (cases "find (\<lambda>w. w \<noteq> [] \<and> starts_with s w) ws")
    case None
    then show ?thesis by (simp add: strip_prefixes.simps [of ws s])
  next
    case (Some w)
    then obtain p where "drop (length w) s = p @ strip_prefixes ws (drop (length w) s)"
      using 1 by blast
    then have "s = (take (length w) s @ p) @ strip_prefixes ws (drop (length w) s)"
      by (metis append_assoc append_take_drop_id)
    with Some show ?thesis
      by (intro exI [of _ "take (length w) s @ p"]) (simp add: strip_prefixes.simps [of ws s])
  qed
qed

lemma js_trim_Nil [simp]: "js_trim [] = []"
proof -
  have "strip_prefixes ws [] = []" for ws
    using strip_prefixes_suffix [of "[]" ws] by auto
  then show ?thesis by (simp add: js_trim_def trim_start_def trim_end_def)
qed

lemma strip_prefixes_fixed: "find (\<lambda>w. w \<noteq> [] \<and> starts_with s w) ws = None \<Longrightarrow> strip_prefixes ws s = s"
  by (simp add: strip_prefixes.simps [of ws s])

lemma strip_prefixes_idem: "strip_prefixes ws (strip_prefixes ws s) = strip_prefixes ws s"
  by (rule strip_prefixes_fixed [OF strip_prefixes_none])

lemma trim_end_prefix: "\<exists>q. s = trim_end s @ q"
proof -
  obtain p where "rev s = p @ strip_prefixes (map rev ws_seqs) (rev s)" using strip_prefixes_suffix by blast
  then have "s = rev (strip_prefixes (map rev ws_seqs) (rev s)) @ rev p" by (metis rev_append rev_rev_ident)
  then show ?thesis unfolding trim_end_def by blast
qed

lemma trim_end_set: "set (trim_end s) \<subseteq> set s"
  using trim_end_prefix [of s] by (metis set_append sup_ge1)

lemma js_trim_idem: "js_trim (js_trim s) = js_trim s"
proof -
  let ?t = "trim_start s"
  obtain q where q: "?t = trim_end ?t @ q" using trim_end_prefix by blast
  have "find (\<lambda>w. w \<noteq> [] \<and> starts_with (trim_end ?t) w) ws_seqs = None"
  proof -
    have "\<not> starts_with (trim_end ?t) w" if "w \<in> set ws_seqs" "w \<noteq> []" for w
    proof
      assume "starts_with (trim_end ?t) w"
      then have "starts_with ?t w" by (subst q) (auto simp: starts_with_iff)
      then show False
        using strip_prefixes_none [of ws_seqs s] that by (auto simp: find_None_iff trim_start_def)
    qed
    then show ?thesis by (auto simp: find_None_iff)
  qed
  then have "trim_start (trim_end ?t) = trim_end ?t" unfolding trim_start_def [of "trim_end ?t"] by (rule strip_prefixes_fixed)
  moreover have "trim_end (trim_end ?t) = trim_end ?t" by (simp add: trim_end_def strip_prefixes_idem)
  ultimately show ?thesis by (simp add: js_trim_def)
qed

lemma js_trim_set: "set (js_trim s) \<subseteq> set s"
proof -
  obtain q where "trim_start s = trim_end (trim_start s) @ q" using trim_end_prefix by blast
  then have "set (js_trim s) \<subseteq> set (trim_start s)" unfolding js_trim_def by (metis set_append Un_upper1)
  moreover obtain p where "s = p @ trim_start s" using strip_prefixes_suffix unfolding trim_start_def by blast
  then have "set (trim_start s) \<subseteq> set s" by (metis set_append Un_upper2)
  ultimately show ?thesis by blast
qed

text \<open>Decimal printing of an integer, as a template literal prints it.\<close>

fun show_nat :: "nat \<Rightarrow> string" where
  "show_nat n = (if n < 10 then [char_of (48 + n)]
                 else show_nat (n div 10) @ [char_of (48 + n mod 10)])"

declare show_nat.simps [simp del]

definition show_int :: "int \<Rightarrow> string" where
  "show_int i = (if i < 0 then ''-'' @ show_nat (nat (- i)) else show_nat (nat i))"

fun read_nat_acc :: "nat \<Rightarrow> string \<Rightarrow> nat" where
  "read_nat_acc a [] = a"
| "read_nat_acc a (c # s) = read_nat_acc (10 * a + (of_char c - 48)) s"

lemma read_nat_acc_append: "read_nat_acc a (s @ t) = read_nat_acc (read_nat_acc a s) t"
  by (induction s arbitrary: a) auto

lemma read_show_nat: "read_nat_acc 0 (show_nat n) = n"
proof (induction n rule: show_nat.induct)
  case (1 n)
  show ?case
  proof (cases "n < 10")
    case True
    then show ?thesis by (simp add: show_nat.simps [of n])
  next
    case False
    with 1 show ?thesis
      by (simp add: show_nat.simps [of n] read_nat_acc_append)
  qed
qed

lemma show_nat_inject: "show_nat m = show_nat n \<longleftrightarrow> m = n"
  by (metis read_show_nat)

lemma show_nat_digits: "c \<in> set (show_nat n) \<Longrightarrow> 48 \<le> (of_char c :: nat) \<and> (of_char c :: nat) \<le> 57"
proof (induction n rule: show_nat.induct)
  case (1 n)
  have b: "n mod 10 \<le> 9" using mod_less_divisor [of 10 n] by linarith
  show ?case
  proof (cases "n < 10")
    case True
    with 1 show ?thesis by (auto simp: show_nat.simps [of n])
  next
    case False
    with 1 b show ?thesis by (auto simp: show_nat.simps [of n])
  qed
qed

text \<open>The em dash, as its three UTF-8 bytes.\<close>

definition em_dash :: string where
  "em_dash = [CHR 0xE2, CHR 0x80, CHR 0x94]"

section \<open>Truthiness of an optional string\<close>

text \<open>\<open>if (!x)\<close> on \<open>string | undefined\<close>: both \<open>undefined\<close> and \<open>""\<close> are falsy.\<close>

definition truthy :: "string option \<Rightarrow> string option" where
  "truthy x = (case x of None \<Rightarrow> None | Some s \<Rightarrow> if s = [] then None else Some s)"

lemma truthy_simps [simp]:
  "truthy None = None" "truthy (Some []) = None" "s \<noteq> [] \<Longrightarrow> truthy (Some s) = Some s"
  by (simp_all add: truthy_def)

lemma truthy_Some_iff: "truthy x = Some s \<longleftrightarrow> x = Some s \<and> s \<noteq> []"
  by (auto simp: truthy_def split: option.splits)

lemma truthy_None_iff: "truthy x = None \<longleftrightarrow> x = None \<or> x = Some []"
  by (auto simp: truthy_def split: option.splits)

section \<open>Association lists: property assignment keeps the position of an existing key\<close>

fun put :: "'k \<Rightarrow> 'v \<Rightarrow> ('k \<times> 'v) list \<Rightarrow> ('k \<times> 'v) list" where
  "put k v [] = [(k, v)]"
| "put k v ((a, b) # ps) = (if a = k then (k, v) # ps else (a, b) # put k v ps)"

lemma map_of_put [simp]: "map_of (put k v ps) = (map_of ps)(k \<mapsto> v)"
  by (induction ps) auto

lemma put_keys: "fst ` set (put k v ps) = insert k (fst ` set ps)"
proof (induction ps)
  case (Cons p ps)
  then show ?case by (cases p) (auto simp: insert_commute)
qed simp

lemma distinct_put: "distinct (map fst ps) \<Longrightarrow> distinct (map fst (put k v ps))"
proof (induction ps)
  case (Cons p ps)
  obtain a b where p: "p = (a, b)" by (cases p)
  show ?case
  proof (cases "a = k")
    case True
    with Cons.prems p show ?thesis by simp
  next
    case False
    with Cons.prems p have "a \<notin> fst ` set (put k v ps)" by (simp add: put_keys)
    then have "a \<notin> set (map fst (put k v ps))" by simp
    moreover have "distinct (map fst (put k v ps))" using Cons p by simp
    ultimately show ?thesis using p False by simp
  qed
qed simp

lemma put_new: "k \<notin> fst ` set ps \<Longrightarrow> put k v ps = ps @ [(k, v)]"
  by (induction ps) auto

section \<open>Lists of keyed items\<close>

text \<open>\<open>xs.some((x) => x.id === k) ? xs : [...xs, x]\<close>\<close>

definition add_once :: "('a \<Rightarrow> 'k) \<Rightarrow> 'a \<Rightarrow> 'a list \<Rightarrow> 'a list" where
  "add_once key x xs = (if \<exists>y \<in> set xs. key y = key x then xs else xs @ [x])"

lemma add_once_distinct: "distinct (map key xs) \<Longrightarrow> distinct (map key (add_once key x xs))"
  by (auto simp: add_once_def)

lemma add_once_set: "set (add_once key x xs) \<subseteq> insert x (set xs)"
  by (auto simp: add_once_def)

lemma add_once_keys: "key ` set (add_once key x xs) = insert (key x) (key ` set xs)"
  by (simp add: add_once_def insert_absorb image_iff) (use image_iff in fastforce)

lemma add_once_new: "key x \<notin> key ` set xs \<Longrightarrow> add_once key x xs = xs @ [x]"
  unfolding add_once_def by (metis imageI)

lemma add_once_member: "key x \<in> key ` set xs \<Longrightarrow> add_once key x xs = xs"
  unfolding add_once_def by (metis imageE)

lemma add_once_idem: "add_once key x (add_once key x xs) = add_once key x xs"
  by (auto simp: add_once_def)

lemma find_map_key:
  "(\<And>x. key (f x) = key x) \<Longrightarrow> find (\<lambda>x. key x = k) (map f xs) = map_option f (find (\<lambda>x. key x = k) xs)"
  by (induction xs) auto

end
