(* ===== verification/Uri_Codec.thy ===== *)
theory Uri_Codec
  imports MO_Prelude
begin

text \<open>
  The percent-encoders the client modules call: \<open>encodeURIComponent\<close> for path segments
  and \<open>URLSearchParams.prototype.toString\<close> for queries, both on UTF-8 bytes, with the
  decoders a server applies. Shown: both encoders are inverted by their decoders, an encoded
  segment holds no delimiter of a URL, and a query parses back into the pairs it was made from.
\<close>

section \<open>Percent escapes\<close>

definition byte :: "char \<Rightarrow> nat" where
  "byte c = of_char c"

definition hex_digit :: "nat \<Rightarrow> char" where
  "hex_digit n = (if n < 10 then char_of (48 + n) else char_of (55 + n))"

definition unhex :: "char \<Rightarrow> nat option" where
  "unhex c =
     (let n = byte c in
      if 48 \<le> n \<and> n \<le> 57 then Some (n - 48)
      else if 65 \<le> n \<and> n \<le> 70 then Some (n - 55)
      else if 97 \<le> n \<and> n \<le> 102 then Some (n - 87)
      else None)"

definition pct :: "char \<Rightarrow> string" where
  "pct c = [CHR ''%'', hex_digit (byte c div 16), hex_digit (byte c mod 16)]"

definition is_alnum :: "char \<Rightarrow> bool" where
  "is_alnum c \<longleftrightarrow> (48 \<le> byte c \<and> byte c \<le> 57) \<or> (65 \<le> byte c \<and> byte c \<le> 90) \<or> (97 \<le> byte c \<and> byte c \<le> 122)"

lemma byte_less: "byte c < 256"
  using nat_of_char_less_256 by (simp add: byte_def)

lemma char_of_byte [simp]: "char_of (byte c) = c"
  by (simp add: byte_def)

lemma byte_inject: "byte c = byte d \<longleftrightarrow> c = d"
  by (simp add: byte_def)

lemma unhex_hex_digit: "n < 16 \<Longrightarrow> unhex (hex_digit n) = Some n"
  by (auto simp: unhex_def hex_digit_def byte_def Let_def)

lemma hex_digit_alnum: "n < 16 \<Longrightarrow> is_alnum (hex_digit n)"
  by (auto simp: is_alnum_def hex_digit_def byte_def)

lemma unhex_pct:
  "unhex (hex_digit (byte c div 16)) = Some (byte c div 16)"
  "unhex (hex_digit (byte c mod 16)) = Some (byte c mod 16)"
  using byte_less [of c] by (auto intro!: unhex_hex_digit)

lemma pct_chars: "d \<in> set (pct c) \<Longrightarrow> d = CHR ''%'' \<or> is_alnum d"
  using byte_less [of c] by (auto simp: pct_def intro!: hex_digit_alnum)

section \<open>encodeURIComponent\<close>

definition uri_unreserved :: "char \<Rightarrow> bool" where
  "uri_unreserved c \<longleftrightarrow> is_alnum c \<or> c \<in> set ''-_.!~*'' \<or> byte c \<in> {39, 40, 41}"

definition encodeURIComponent :: "string \<Rightarrow> string" where
  "encodeURIComponent s = concat (map (\<lambda>c. if uri_unreserved c then [c] else pct c) s)"

text \<open>The decoder the router applies to a path segment: \<open>None\<close> is a malformed escape.\<close>

fun decode_component :: "string \<Rightarrow> string option" where
  "decode_component [] = Some []"
| "decode_component (c # s) =
     (if c = CHR ''%'' then
        (case s of
           h # l # r \<Rightarrow>
             (case (unhex h, unhex l) of
                (Some a, Some b) \<Rightarrow> map_option (Cons (char_of (16 * a + b))) (decode_component r)
              | _ \<Rightarrow> None)
         | _ \<Rightarrow> None)
      else map_option (Cons c) (decode_component s))"

lemma encodeURIComponent_simps [simp]:
  "encodeURIComponent [] = []"
  "encodeURIComponent (c # s) = (if uri_unreserved c then [c] else pct c) @ encodeURIComponent s"
  "encodeURIComponent (s @ t) = encodeURIComponent s @ encodeURIComponent t"
  by (simp_all add: encodeURIComponent_def)

lemma percent_reserved [simp]: "\<not> uri_unreserved (CHR ''%'')"
  by (simp add: uri_unreserved_def is_alnum_def byte_def)

lemma decode_pct [simp]: "decode_component (pct c @ s) = map_option (Cons c) (decode_component s)"
proof -
  have "char_of (16 * (byte c div 16) + byte c mod 16) = c"
    by (simp add: mult.commute [of 16])
  then show ?thesis by (simp add: pct_def unhex_pct)
qed

lemma decode_encode: "decode_component (encodeURIComponent s) = Some s"
proof (induction s)
  case (Cons c s)
  show ?case
  proof (cases "uri_unreserved c")
    case True
    then have "c \<noteq> CHR ''%''" by auto
    with True Cons show ?thesis by simp
  next
    case False
    with Cons show ?thesis by simp
  qed
qed simp

lemma encodeURIComponent_inject: "encodeURIComponent s = encodeURIComponent t \<longleftrightarrow> s = t"
  by (metis decode_encode option.inject)

text \<open>The alphabet of an encoded component: no \<open>/\<close>, \<open>?\<close>, \<open>#\<close>, \<open>&\<close>, space or control byte.\<close>

definition segment_char :: "char \<Rightarrow> bool" where
  "segment_char c \<longleftrightarrow> uri_unreserved c \<or> c = CHR ''%''"

lemma encoded_chars: "c \<in> set (encodeURIComponent s) \<Longrightarrow> segment_char c"
  by (induction s) (auto split: if_splits simp: segment_char_def uri_unreserved_def dest: pct_chars)

lemma delimiters_not_segment_char [simp]:
  "\<not> segment_char (CHR ''/'')" "\<not> segment_char (CHR ''?'')" "\<not> segment_char (CHR ''#'')"
  "\<not> segment_char (CHR ''&'')" "\<not> segment_char (CHR '' '')"
  by (simp_all add: segment_char_def uri_unreserved_def is_alnum_def byte_def)

lemma no_slash_encoded [simp]: "CHR ''/'' \<notin> set (encodeURIComponent s)"
  using encoded_chars delimiters_not_segment_char(1) by blast

lemma no_query_encoded [simp]: "CHR ''?'' \<notin> set (encodeURIComponent s)"
  using encoded_chars delimiters_not_segment_char(2) by blast

lemma encode_unreserved: "list_all uri_unreserved s \<Longrightarrow> encodeURIComponent s = s"
  by (induction s) auto

lemma encode_Nil_iff [simp]: "encodeURIComponent s = [] \<longleftrightarrow> s = []"
  by (cases s) (auto simp: pct_def)

section \<open>Path segments\<close>

text \<open>\<open>path.split("/")\<close>\<close>

fun split_slash :: "string \<Rightarrow> string list" where
  "split_slash [] = [[]]"
| "split_slash (c # s) =
     (if c = CHR ''/'' then [] # split_slash s
      else (case split_slash s of [] \<Rightarrow> [[c]] | p # ps \<Rightarrow> (c # p) # ps))"

lemma split_slash_nonempty [simp]: "split_slash s \<noteq> []"
  by (induction s) (auto split: list.splits)

lemma split_slash_segment: "CHR ''/'' \<notin> set s \<Longrightarrow> split_slash s = [s]"
  by (induction s) auto

lemma split_slash_append_slash:
  "CHR ''/'' \<notin> set s \<Longrightarrow> split_slash (s @ CHR ''/'' # t) = s # split_slash t"
  by (induction s) auto

lemma split_slash_prefix:
  "split_slash (s @ CHR ''/'' # t) = split_slash s @ split_slash t"
proof (induction s)
  case (Cons c s)
  then show ?case by (cases "split_slash s") auto
qed simp

section \<open>URLSearchParams\<close>

definition form_unreserved :: "char \<Rightarrow> bool" where
  "form_unreserved c \<longleftrightarrow> is_alnum c \<or> c \<in> set ''-_.*''"

definition form_enc :: "string \<Rightarrow> string" where
  "form_enc s = concat (map (\<lambda>c. if c = CHR '' '' then ''+'' else if form_unreserved c then [c] else pct c) s)"

fun form_dec :: "string \<Rightarrow> string option" where
  "form_dec [] = Some []"
| "form_dec (c # s) =
     (if c = CHR ''+'' then map_option (Cons (CHR '' '')) (form_dec s)
      else if c = CHR ''%'' then
        (case s of
           h # l # r \<Rightarrow>
             (case (unhex h, unhex l) of
                (Some a, Some b) \<Rightarrow> map_option (Cons (char_of (16 * a + b))) (form_dec r)
              | _ \<Rightarrow> None)
         | _ \<Rightarrow> None)
      else map_option (Cons c) (form_dec s))"

text \<open>\<open>new URLSearchParams(entries).toString()\<close>\<close>

definition query_string :: "(string \<times> string) list \<Rightarrow> string" where
  "query_string ps = join_with ''&'' (map (\<lambda>(k, v). form_enc k @ ''='' @ form_enc v) ps)"

lemma form_enc_simps [simp]:
  "form_enc [] = []"
  "form_enc (c # s) = (if c = CHR '' '' then ''+'' else if form_unreserved c then [c] else pct c) @ form_enc s"
  by (simp_all add: form_enc_def)

lemma form_unreserved_not [simp]:
  "\<not> form_unreserved (CHR ''+'')" "\<not> form_unreserved (CHR ''%'')"
  "\<not> form_unreserved (CHR ''&'')" "\<not> form_unreserved (CHR ''='')"
  by (simp_all add: form_unreserved_def is_alnum_def byte_def)

lemma form_dec_pct [simp]: "form_dec (pct c @ s) = map_option (Cons c) (form_dec s)"
proof -
  have "char_of (16 * (byte c div 16) + byte c mod 16) = c"
    by (simp add: mult.commute [of 16])
  then show ?thesis by (simp add: pct_def unhex_pct)
qed

lemma form_dec_enc: "form_dec (form_enc s) = Some s"
proof (induction s)
  case (Cons c s)
  then show ?case by (cases "form_unreserved c") auto
qed simp

lemma form_enc_chars: "d \<in> set (form_enc s) \<Longrightarrow> form_unreserved d \<or> d = CHR ''+'' \<or> d = CHR ''%''"
  by (induction s) (auto split: if_splits simp: form_unreserved_def dest: pct_chars)

lemma form_enc_no_delimiter [simp]:
  "CHR ''&'' \<notin> set (form_enc s)" "CHR ''='' \<notin> set (form_enc s)"
  using form_enc_chars [of _ s] by force+

text \<open>The server's reading of a query: split at \<open>&\<close>, then at the first \<open>=\<close>, then decode.\<close>

fun split_on :: "char \<Rightarrow> string \<Rightarrow> string list" where
  "split_on d [] = [[]]"
| "split_on d (c # s) =
     (if c = d then [] # split_on d s
      else (case split_on d s of [] \<Rightarrow> [[c]] | p # ps \<Rightarrow> (c # p) # ps))"

definition parse_pair :: "string \<Rightarrow> (string \<times> string) option" where
  "parse_pair s =
     (let k = takeWhile (\<lambda>c. c \<noteq> CHR ''='') s; v = drop (Suc (length k)) s in
      case (form_dec k, form_dec v) of (Some a, Some b) \<Rightarrow> Some (a, b) | _ \<Rightarrow> None)"

definition parse_query :: "string \<Rightarrow> (string \<times> string) option list" where
  "parse_query s = (if s = [] then [] else map parse_pair (split_on (CHR ''&'') s))"

lemma split_on_free: "d \<notin> set s \<Longrightarrow> split_on d s = [s]"
  by (induction s) auto

lemma split_on_sep: "d \<notin> set s \<Longrightarrow> split_on d (s @ d # t) = s # split_on d t"
  by (induction s) auto

lemma split_on_join:
  "ps \<noteq> [] \<Longrightarrow> \<forall>p \<in> set ps. d \<notin> set p \<Longrightarrow> split_on d (join_with [d] ps) = ps"
  by (induction "[d]" ps rule: join_with.induct) (auto simp: split_on_free split_on_sep)

lemma split_on_no_sep: "p \<in> set (split_on d s) \<Longrightarrow> d \<notin> set p"
  by (induction s arbitrary: p) (auto split: if_splits list.splits)

lemma parse_pair_enc: "parse_pair (form_enc k @ ''='' @ form_enc v) = Some (k, v)"
proof -
  have "\<forall>c \<in> set (form_enc k). c \<noteq> CHR ''=''" by auto
  then have "takeWhile (\<lambda>c. c \<noteq> CHR ''='') (form_enc k @ ''='' @ form_enc v) = form_enc k"
    by (simp add: takeWhile_append)
  then show ?thesis by (simp add: parse_pair_def form_dec_enc)
qed

lemma join_with_Nil_iff: "\<forall>p \<in> set ps. p \<noteq> [] \<Longrightarrow> join_with sep ps = [] \<longleftrightarrow> ps = []"
  by (induction sep ps rule: join_with.induct) auto

lemma parse_query_string: "parse_query (query_string ps) = map Some ps"
proof (cases "ps = []")
  case False
  let ?f = "\<lambda>(k, v). form_enc k @ ''='' @ form_enc v"
  have "\<forall>p \<in> set (map ?f ps). CHR ''&'' \<notin> set p" by auto
  with False have s: "split_on (CHR ''&'') (query_string ps) = map ?f ps"
    unfolding query_string_def by (intro split_on_join) auto
  have "\<forall>p \<in> set (map ?f ps). p \<noteq> []" by auto
  then have "query_string ps \<noteq> []"
    using False unfolding query_string_def by (simp only: join_with_Nil_iff) simp
  with s show ?thesis using parse_pair_enc by (auto simp: parse_query_def)
qed (simp add: query_string_def parse_query_def)

end
