(* ===== verification/Http_Fetch.thy ===== *)
theory Http_Fetch
  imports Uri_Codec
begin

text \<open>
  The platform the two Next.js applications run on: JSON values with JavaScript's property
  access and truthiness, requests and responses, and the effects of a server-side handler. A
  handler reads its context (cookies, environment), issues requests and returns a response or
  throws; it is a function of the network, which answers each request. The network (the FastAPI
  backend behind \<open>fetch\<close>) is a parameter everywhere.
\<close>

section \<open>JSON values\<close>

datatype json =
    JNull
  | JBool bool
  | JNum int
  | JStr string
  | JArr "json list"
  | JObj "(string \<times> json) list"

text \<open>\<open>undefined\<close> is \<open>None\<close>. Falsy: undefined, null, false, 0 and the empty string.\<close>

fun truthy_json :: "json option \<Rightarrow> bool" where
  "truthy_json None = False"
| "truthy_json (Some JNull) = False"
| "truthy_json (Some (JBool b)) = b"
| "truthy_json (Some (JNum n)) = (n \<noteq> 0)"
| "truthy_json (Some (JStr s)) = (s \<noteq> [])"
| "truthy_json (Some (JArr xs)) = True"
| "truthy_json (Some (JObj ps)) = True"

text \<open>\<open>a ?? b\<close>\<close>

definition nullish_or :: "json option \<Rightarrow> json \<Rightarrow> json" where
  "nullish_or a b = (case a of None \<Rightarrow> b | Some JNull \<Rightarrow> b | Some v \<Rightarrow> v)"

text \<open>\<open>typeof v === "string"\<close>\<close>

fun is_string :: "json option \<Rightarrow> bool" where
  "is_string (Some (JStr s)) = True"
| "is_string _ = False"

text \<open>An object literal given to \<open>JSON.stringify\<close>: properties that are undefined are left out.\<close>

definition obj :: "(string \<times> json option) list \<Rightarrow> json" where
  "obj ps = JObj (concat (map (\<lambda>(k, v). case v of None \<Rightarrow> [] | Some x \<Rightarrow> [(k, x)]) ps))"

definition detail :: "string \<Rightarrow> json" where
  "detail msg = JObj [(''detail'', JStr msg)]"

section \<open>Requests and responses\<close>

datatype request_body = NoBody | JsonBody json | FormBody "(string \<times> string) list"

record http_request =
  rq_method :: string
  rq_url :: string
  rq_headers :: "(string \<times> string) list"
  rq_body :: request_body
  rq_cache :: "string option"

datatype response_body = BodyEmpty | BodyJson json | BodyRaw string

record cookie_attrs =
  http_only :: bool
  secure :: bool
  same_site :: string
  cookie_path :: string

datatype cookie_op = CSet string "json option" cookie_attrs | CDelete string

record http_response =
  rs_status :: nat
  rs_headers :: "(string \<times> string) list"
  rs_body :: response_body
  rs_cookies :: "cookie_op list"

definition resp_ok :: "http_response \<Rightarrow> bool" where
  "resp_ok r \<longleftrightarrow> 200 \<le> rs_status r \<and> rs_status r \<le> 299"

section \<open>Handlers as functions of the network\<close>

datatype js_error = TypeErr | SyntaxErr | RangeErr

datatype 'a outcome = Returned 'a | Thrown js_error

datatype fetch_result = NetError | Reply http_response

type_synonym network = "http_request \<Rightarrow> fetch_result"

type_synonym 'a io = "network \<Rightarrow> http_request list \<times> 'a outcome"

definition ret :: "'a \<Rightarrow> 'a io" where
  "ret x = (\<lambda>net. ([], Returned x))"

definition throw :: "js_error \<Rightarrow> 'a io" where
  "throw e = (\<lambda>net. ([], Thrown e))"

definition and_then :: "'a io \<Rightarrow> ('a \<Rightarrow> 'b io) \<Rightarrow> 'b io" where
  "and_then p f = (\<lambda>net. case p net of
      (l, Thrown e) \<Rightarrow> (l, Thrown e)
    | (l, Returned x) \<Rightarrow> (case f x net of (l', r) \<Rightarrow> (l @ l', r)))"

definition catch :: "'a io \<Rightarrow> (js_error \<Rightarrow> 'a io) \<Rightarrow> 'a io" where
  "catch p h = (\<lambda>net. case p net of
      (l, Thrown e) \<Rightarrow> (case h e net of (l', r) \<Rightarrow> (l @ l', r))
    | (l, Returned x) \<Rightarrow> (l, Returned x))"

text \<open>\<open>fetch\<close> resolves with the reply, or rejects with a TypeError when there is none.\<close>

definition fetch :: "http_request \<Rightarrow> http_response io" where
  "fetch rq = (\<lambda>net. ([rq], case net rq of NetError \<Rightarrow> Thrown TypeErr | Reply r \<Rightarrow> Returned r))"

definition sent :: "'a io \<Rightarrow> network \<Rightarrow> http_request list" where
  "sent p net = fst (p net)"

definition result :: "'a io \<Rightarrow> network \<Rightarrow> 'a outcome" where
  "result p net = snd (p net)"

lemma io_bind_simps [simp, io_simps]:
  "and_then (ret x) f = f x"
  "and_then (throw e) f = throw e"
  "catch (ret x) h = ret x"
  "catch (throw e) h = h e"
  by (auto simp: ret_def throw_def and_then_def catch_def fun_eq_iff split: prod.splits)

lemma and_then_assoc: "and_then (and_then p f) g = and_then p (\<lambda>x. and_then (f x) g)"
  by (auto simp: and_then_def fun_eq_iff split: prod.splits outcome.splits)

lemma io_run_simps [simp, io_simps]:
  "sent (ret x) net = []" "result (ret x) net = Returned x"
  "sent (throw e) net = []" "result (throw e) net = Thrown e"
  "sent (fetch rq) net = [rq]"
  "result (fetch rq) net = (case net rq of NetError \<Rightarrow> Thrown TypeErr | Reply r \<Rightarrow> Returned r)"
  by (simp_all add: sent_def result_def ret_def throw_def fetch_def)

lemma sent_and_then:
  "sent (and_then p f) net =
     sent p net @ (case result p net of Returned x \<Rightarrow> sent (f x) net | Thrown e \<Rightarrow> [])"
  by (auto simp: sent_def result_def and_then_def split: prod.splits outcome.splits)

lemma result_and_then:
  "result (and_then p f) net =
     (case result p net of Returned x \<Rightarrow> result (f x) net | Thrown e \<Rightarrow> Thrown e)"
  by (auto simp: sent_def result_def and_then_def split: prod.splits outcome.splits)

lemma sent_catch:
  "sent (catch p h) net =
     sent p net @ (case result p net of Returned x \<Rightarrow> [] | Thrown e \<Rightarrow> sent (h e) net)"
  by (auto simp: sent_def result_def catch_def split: prod.splits outcome.splits)

lemma result_catch:
  "result (catch p h) net =
     (case result p net of Returned x \<Rightarrow> Returned x | Thrown e \<Rightarrow> result (h e) net)"
  by (auto simp: sent_def result_def catch_def split: prod.splits outcome.splits)

lemmas run_simps = sent_and_then result_and_then sent_catch result_catch

section \<open>Property access\<close>

text \<open>
  \<open>v.k\<close> for the keys the handlers read, none of which exists on a prototype: null throws,
  an object gives its property or undefined, any other value gives undefined. \<open>v?.k\<close> is
  undefined on null.
\<close>

fun get_prop :: "json \<Rightarrow> string \<Rightarrow> json option io" where
  "get_prop JNull k = throw TypeErr"
| "get_prop (JObj ps) k = ret (map_of ps k)"
| "get_prop v k = ret None"

fun opt_prop :: "json \<Rightarrow> string \<Rightarrow> json option" where
  "opt_prop (JObj ps) k = map_of ps k"
| "opt_prop v k = None"

lemma get_prop_cases: "get_prop v k = throw TypeErr \<or> get_prop v k = ret (opt_prop v k)"
  by (cases v) auto

lemma get_prop_non_null: "v \<noteq> JNull \<Longrightarrow> get_prop v k = ret (opt_prop v k)"
  by (cases v) auto

section \<open>Response constructors\<close>

definition json_response :: "json \<Rightarrow> nat \<Rightarrow> http_response" where
  "json_response j st =
     \<lparr>rs_status = st, rs_headers = [(''content-type'', ''application/json'')],
      rs_body = BodyJson j, rs_cookies = []\<rparr>"

text \<open>
  \<open>new Response(body, {status})\<close>: a status outside 200..599 is a RangeError; a body on
  the null-body statuses 204, 205 and 304 is a TypeError.
\<close>

definition null_body_status :: "nat \<Rightarrow> bool" where
  "null_body_status st \<longleftrightarrow> st \<in> {204, 205, 304}"

definition status_in_range :: "nat \<Rightarrow> bool" where
  "status_in_range st \<longleftrightarrow> 200 \<le> st \<and> st \<le> 599"

definition next_json :: "json \<Rightarrow> nat \<Rightarrow> http_response io" where
  "next_json j st =
     (if \<not> status_in_range st then throw RangeErr
      else if null_body_status st then throw TypeErr
      else ret (json_response j st))"

definition next_empty :: "nat \<Rightarrow> http_response" where
  "next_empty st = \<lparr>rs_status = st, rs_headers = [], rs_body = BodyEmpty, rs_cookies = []\<rparr>"

text \<open>\<open>response.json()\<close> rejects when the body is not JSON (or is empty).\<close>

definition resp_json :: "http_response \<Rightarrow> json io" where
  "resp_json r = (case rs_body r of BodyJson j \<Rightarrow> ret j | _ \<Rightarrow> throw SyntaxErr)"

lemma next_json_sent [simp, io_simps]: "sent (next_json j st) net = []"
  by (simp add: next_json_def)

lemma resp_json_sent [simp, io_simps]: "sent (resp_json r) net = []"
  by (simp add: resp_json_def split: response_body.splits)

lemma get_prop_sent [simp, io_simps]: "sent (get_prop v k) net = []"
  by (cases v) auto

text \<open>A status that can carry a JSON body through \<open>NextResponse.json\<close>.\<close>

definition relayable :: "nat \<Rightarrow> bool" where
  "relayable st \<longleftrightarrow> status_in_range st \<and> \<not> null_body_status st"

lemma next_json_relayable [simp]: "relayable st \<Longrightarrow> next_json j st = ret (json_response j st)"
  by (simp add: next_json_def relayable_def)

lemma relayable_consts [simp]:
  "relayable 200" "relayable 201" "relayable 400" "relayable 401" "relayable 404" "relayable 409"
  "relayable 422" "relayable 429" "relayable 500" "relayable 503"
  by (simp_all add: relayable_def status_in_range_def null_body_status_def)

section \<open>Contexts\<close>

text \<open>
  What a server-side handler reads: the cookie jar of the request and the process environment
  (\<open>MEADOWOPS_API_BASE_URL\<close>, \<open>NODE_ENV === "production"\<close>).
\<close>

record ctx =
  cx_cookies :: "(string \<times> string) list"
  cx_base_url :: "string option"
  cx_production :: bool

definition get_cookie :: "ctx \<Rightarrow> string \<Rightarrow> string option" where
  "get_cookie c name = map_of (cx_cookies c) name"

text \<open>The request a route handler receives: the JSON value of its body (\<open>None\<close>: not JSON) and
  its form data (\<open>None\<close>: not a form).\<close>

record ui_request =
  ui_json :: "json option"
  ui_form :: "(string \<times> string) list option"

definition read_json :: "ui_request \<Rightarrow> json io" where
  "read_json q = (case ui_json q of None \<Rightarrow> throw SyntaxErr | Some j \<Rightarrow> ret j)"

definition read_form :: "ui_request \<Rightarrow> (string \<times> string) list io" where
  "read_form q = (case ui_form q of None \<Rightarrow> throw TypeErr | Some f \<Rightarrow> ret f)"

lemma read_sent [simp, io_simps]:
  "sent (read_json q) net = []" "sent (read_form q) net = []"
  by (simp_all add: read_json_def read_form_def split: option.splits)

end
