(* ===== verification/Session_Proxy.thy ===== *)
theory Session_Proxy
  imports Http_Fetch
begin

text \<open>
  The interface every backend client module of the two applications has: a call that is gated
  on a session cookie and on the backend's base URL, and forwards at most one request with the
  session token as its bearer. The locale \<open>session_gated\<close> states the contract,
  \<open>session_json\<close> extends it for the clients that take a \<open>RequestInit\<close>; the client
  modules interpret them. The second part is a small calculus for handlers built over such
  calls: \<open>silent\<close> (sends nothing) and \<open>gated\<close> (sends at most one request, and only
  an authorised one).
\<close>

section \<open>The common shape of the fetch helpers\<close>

record fetch_init =
  in_method :: "string option"
  in_headers :: "(string \<times> string) list"
  in_body :: request_body

definition no_init :: fetch_init where
  "no_init = \<lparr>in_method = None, in_headers = [], in_body = NoBody\<rparr>"

definition with_method :: "string \<Rightarrow> fetch_init" where
  "with_method m = \<lparr>in_method = Some m, in_headers = [], in_body = NoBody\<rparr>"

definition with_json :: "string \<Rightarrow> json \<Rightarrow> fetch_init" where
  "with_json m j = \<lparr>in_method = Some m, in_headers = [], in_body = JsonBody j\<rparr>"

definition init_method :: "fetch_init \<Rightarrow> string" where
  "init_method i = (case in_method i of None \<Rightarrow> ''GET'' | Some m \<Rightarrow> m)"

lemma init_simps [simp]:
  "in_method no_init = None" "in_headers no_init = []" "in_body no_init = NoBody"
  "in_method (with_method m) = Some m" "in_headers (with_method m) = []" "in_body (with_method m) = NoBody"
  "in_method (with_json m j) = Some m" "in_headers (with_json m j) = []" "in_body (with_json m j) = JsonBody j"
  "init_method no_init = ''GET''" "init_method (with_method m) = m" "init_method (with_json m j) = m"
  by (simp_all add: no_init_def with_method_def with_json_def init_method_def)

text \<open>
  \<open>const token = (await cookies()).get(SESSION_COOKIE)?.value; if (!token) 401; if (!baseUrl) 500\<close>:
  the opening of every fetch helper.
\<close>

definition session_gate :: "string \<Rightarrow> ctx \<Rightarrow> (string \<Rightarrow> string \<Rightarrow> http_response io) \<Rightarrow> http_response io" where
  "session_gate cookie c k =
     (case truthy (get_cookie c cookie) of
        None \<Rightarrow> ret (json_response (detail ''Not authenticated'') 401)
      | Some token \<Rightarrow>
          (case truthy (cx_base_url c) of
             None \<Rightarrow> ret (json_response (detail ''Server is not configured'') 500)
           | Some base \<Rightarrow> k token base))"

text \<open>\<open>fetch(base + path, {...init, headers: {...init.headers, Authorization, Content-Type}, cache})\<close>\<close>

definition bearer_json_request :: "string \<Rightarrow> string \<Rightarrow> string \<Rightarrow> fetch_init \<Rightarrow> http_request" where
  "bearer_json_request token base path i =
     \<lparr>rq_method = init_method i, rq_url = base @ path,
      rq_headers = put ''Content-Type'' ''application/json''
                     (put ''Authorization'' (''Bearer '' @ token) (in_headers i)),
      rq_body = in_body i, rq_cache = Some ''no-store''\<rparr>"

definition bearer_request :: "string \<Rightarrow> string \<Rightarrow> string \<Rightarrow> string \<Rightarrow> request_body \<Rightarrow> string option \<Rightarrow> http_request" where
  "bearer_request m token base path b cache =
     \<lparr>rq_method = m, rq_url = base @ path,
      rq_headers = [(''Authorization'', ''Bearer '' @ token)], rq_body = b, rq_cache = cache\<rparr>"

section \<open>Authorised requests\<close>

text \<open>What a request must satisfy to be the caller's own: it goes below the configured base URL
  and carries exactly the caller's session token.\<close>

definition authorised :: "string \<Rightarrow> ctx \<Rightarrow> http_request \<Rightarrow> bool" where
  "authorised cookie c rq \<longleftrightarrow>
     (case (truthy (get_cookie c cookie), truthy (cx_base_url c)) of
        (Some token, Some base) \<Rightarrow>
          starts_with (rq_url rq) base \<and> map_of (rq_headers rq) ''Authorization'' = Some (''Bearer '' @ token)
      | _ \<Rightarrow> False)"

definition silent :: "'a io \<Rightarrow> bool" where
  "silent p \<longleftrightarrow> (\<forall>net. sent p net = [])"

definition gated :: "string \<Rightarrow> ctx \<Rightarrow> 'a io \<Rightarrow> bool" where
  "gated cookie c p \<longleftrightarrow>
     (\<forall>net. length (sent p net) \<le> 1 \<and> list_all (authorised cookie c) (sent p net))"

named_theorems gated_intros \<open>syntax-directed rules: the shapes handlers are built from\<close>

lemma silent_intros :
  "silent (ret x)" "silent (throw e)" "silent (next_json j st)" "silent (resp_json r)"
  "silent (get_prop v k)" "silent (read_json q)" "silent (read_form q)"
  by (simp_all add: silent_def)

lemma silent_and_then :
  "silent p \<Longrightarrow> (\<And>x. silent (f x)) \<Longrightarrow> silent (and_then p f)"
  by (simp add: silent_def sent_and_then split: outcome.splits)

lemma silent_catch :
  "silent p \<Longrightarrow> (\<And>e. silent (h e)) \<Longrightarrow> silent (catch p h)"
  by (simp add: silent_def sent_catch split: outcome.splits)

lemma silent_gated : "silent p \<Longrightarrow> gated cookie c p"
  by (simp add: silent_def gated_def)

lemma gated_after_silent :
  "silent p \<Longrightarrow> (\<And>x. gated cookie c (f x)) \<Longrightarrow> gated cookie c (and_then p f)"
  by (simp add: silent_def gated_def sent_and_then split: outcome.splits)

lemma gated_then_silent :
  "gated cookie c p \<Longrightarrow> (\<And>x. silent (f x)) \<Longrightarrow> gated cookie c (and_then p f)"
  by (simp add: silent_def gated_def sent_and_then split: outcome.splits)

lemma gated_catch :
  "gated cookie c p \<Longrightarrow> (\<And>e. silent (h e)) \<Longrightarrow> gated cookie c (catch p h)"
  by (simp add: silent_def gated_def sent_catch split: outcome.splits)

lemma gated_sent_authorised:
  "gated cookie c p \<Longrightarrow> rq \<in> set (sent p net) \<Longrightarrow> authorised cookie c rq"
  by (simp add: gated_def list_all_iff)

lemma gated_no_session:
  "gated cookie c p \<Longrightarrow> truthy (get_cookie c cookie) = None \<Longrightarrow> sent p net = []"
  by (cases "sent p net") (auto simp: gated_def authorised_def list_all_iff dest!: spec [of _ net])

section \<open>The contract of a gated client\<close>

locale session_gated =
  fixes cookie :: string
    and call :: "ctx \<Rightarrow> 'q \<Rightarrow> http_response io"
    and path_of :: "'q \<Rightarrow> string"
  assumes anonymous:
      "truthy (get_cookie c cookie) = None \<Longrightarrow>
         call c q = ret (json_response (detail ''Not authenticated'') 401)"
    and unconfigured:
      "truthy (get_cookie c cookie) = Some t \<Longrightarrow> truthy (cx_base_url c) = None \<Longrightarrow>
         call c q = ret (json_response (detail ''Server is not configured'') 500)"
    and forwards:
      "truthy (get_cookie c cookie) = Some t \<Longrightarrow> truthy (cx_base_url c) = Some b \<Longrightarrow>
         \<exists>rq. call c q = fetch rq \<and> rq_url rq = b @ path_of q \<and>
              map_of (rq_headers rq) ''Authorization'' = Some (''Bearer '' @ t)"
begin

lemma call_gated: "gated cookie c (call c q)"
proof (cases "truthy (get_cookie c cookie)")
  case None
  then show ?thesis by (simp add: anonymous silent_gated silent_intros)
next
  case (Some t)
  show ?thesis
  proof (cases "truthy (cx_base_url c)")
    case None
    with Some show ?thesis by (simp add: unconfigured silent_gated silent_intros)
  next
    case (Some b)
    from forwards [OF \<open>truthy (get_cookie c cookie) = Some t\<close> Some, of q] obtain rq
      where rq: "call c q = fetch rq" "rq_url rq = b @ path_of q"
        "map_of (rq_headers rq) ''Authorization'' = Some (''Bearer '' @ t)" by blast
    with Some \<open>truthy (get_cookie c cookie) = Some t\<close> show ?thesis
      by (simp add: gated_def authorised_def)
  qed
qed

lemma handler_gated:
  "(\<And>r. silent (f r)) \<Longrightarrow> gated cookie c (and_then (call c q) f)"
  by (rule gated_then_silent [OF call_gated])

lemma call_returns:
  assumes "truthy (get_cookie c cookie) = Some t" "truthy (cx_base_url c) = Some b"
    and "\<And>rq. rq_url rq = b @ path_of q \<Longrightarrow> net rq = Reply r"
  shows "result (call c q) net = Returned r"
proof -
  from forwards [OF assms(1,2), of q] obtain rq
    where "call c q = fetch rq" "rq_url rq = b @ path_of q" by blast
  with assms(3) show ?thesis by simp
qed

lemma sent_url:
  "rq \<in> set (sent (call c q) net) \<Longrightarrow>
     \<exists>b. truthy (cx_base_url c) = Some b \<and> rq_url rq = b @ path_of q"
proof -
  assume rq: "rq \<in> set (sent (call c q) net)"
  then obtain t b where t: "truthy (get_cookie c cookie) = Some t" and b: "truthy (cx_base_url c) = Some b"
    using gated_sent_authorised [OF call_gated rq]
    by (auto simp: authorised_def split: option.splits)
  from forwards [OF t b, of q] rq b show ?thesis by auto
qed

end

locale session_json = session_gated cookie call fst
  for cookie :: string and call :: "ctx \<Rightarrow> string \<times> fetch_init \<Rightarrow> http_response io" +
  assumes forwards_json:
    "truthy (get_cookie c cookie) = Some t \<Longrightarrow> truthy (cx_base_url c) = Some b \<Longrightarrow>
       call c q = fetch (bearer_json_request t b (fst q) (snd q))"
begin

lemma sent_request:
  "truthy (get_cookie c cookie) = Some t \<Longrightarrow> truthy (cx_base_url c) = Some b \<Longrightarrow>
     sent (call c q) net = [bearer_json_request t b (fst q) (snd q)]"
  by (simp add: forwards_json)

end

lemma bearer_json_request_simps [simp]:
  "rq_method (bearer_json_request t b p i) = init_method i"
  "rq_url (bearer_json_request t b p i) = b @ p"
  "rq_body (bearer_json_request t b p i) = in_body i"
  "rq_cache (bearer_json_request t b p i) = Some ''no-store''"
  "map_of (rq_headers (bearer_json_request t b p i)) ''Authorization'' = Some (''Bearer '' @ t)"
  "map_of (rq_headers (bearer_json_request t b p i)) ''Content-Type'' = Some ''application/json''"
  by (simp_all add: bearer_json_request_def)

lemma bearer_request_simps [simp]:
  "rq_url (bearer_request m t b p x ca) = b @ p"
  "map_of (rq_headers (bearer_request m t b p x ca)) ''Authorization'' = Some (''Bearer '' @ t)"
  by (simp_all add: bearer_request_def)

lemma session_gate_simps [gate_simps]:
  "truthy (get_cookie c k) = None \<Longrightarrow>
     session_gate k c f = ret (json_response (detail ''Not authenticated'') 401)"
  "truthy (get_cookie c k) = Some t \<Longrightarrow> truthy (cx_base_url c) = None \<Longrightarrow>
     session_gate k c f = ret (json_response (detail ''Server is not configured'') 500)"
  "truthy (get_cookie c k) = Some t \<Longrightarrow> truthy (cx_base_url c) = Some b \<Longrightarrow> session_gate k c f = f t b"
  by (simp_all add: session_gate_def)

section \<open>Relaying a reply\<close>

text \<open>\<open>return NextResponse.json(await response.json(), { status: response.status })\<close>\<close>

definition relay :: "http_response \<Rightarrow> http_response io" where
  "relay r = and_then (resp_json r) (\<lambda>j. next_json j (rs_status r))"

text \<open>\<open>if (response.status === 204) return new NextResponse(null, { status: 204 })\<close>, else relay.\<close>

definition relay_or_204 :: "http_response \<Rightarrow> http_response io" where
  "relay_or_204 r = (if rs_status r = 204 then ret (next_empty 204) else relay r)"

text \<open>\<open>response.json().catch(() => ({}))\<close>\<close>

definition resp_json_or_empty :: "http_response \<Rightarrow> json io" where
  "resp_json_or_empty r = catch (resp_json r) (\<lambda>e. ret (JObj []))"

definition relay_lenient :: "http_response \<Rightarrow> http_response io" where
  "relay_lenient r = and_then (resp_json_or_empty r) (\<lambda>j. next_json j (rs_status r))"

text \<open>
  The attachment routes: an error is relayed as JSON; a success passes the bytes and the three
  headers the backend set, each only when it is present and not empty. \<open>arrayBuffer()\<close>
  gives the body whatever it is; an empty one is an empty buffer. A null-body status below 300
  cannot carry the buffer.
\<close>

definition body_bytes :: "http_response \<Rightarrow> response_body" where
  "body_bytes r = (case rs_body r of BodyEmpty \<Rightarrow> BodyRaw [] | b \<Rightarrow> b)"

definition forward_header :: "http_response \<Rightarrow> string \<Rightarrow> string \<Rightarrow> (string \<times> string) list" where
  "forward_header r from_name to_name =
     (case truthy (map_of (rs_headers r) from_name) of None \<Rightarrow> [] | Some v \<Rightarrow> [(to_name, v)])"

definition relay_attachment :: "http_response \<Rightarrow> http_response io" where
  "relay_attachment r =
     (if \<not> resp_ok r then relay r
      else if null_body_status (rs_status r) then throw TypeErr
      else ret \<lparr>rs_status = rs_status r,
                rs_headers = forward_header r ''content-type'' ''Content-Type''
                  @ forward_header r ''content-disposition'' ''Content-Disposition''
                  @ forward_header r ''x-content-type-options'' ''X-Content-Type-Options'',
                rs_body = body_bytes r, rs_cookies = []\<rparr>)"

lemma relay_silent :
  "silent (relay r)" "silent (relay_or_204 r)" "silent (relay_lenient r)" "silent (resp_json_or_empty r)"
  "silent (relay_attachment r)"
  by (auto simp: relay_def relay_or_204_def relay_lenient_def resp_json_or_empty_def relay_attachment_def
      intro!: silent_intros silent_and_then silent_catch)

lemma gated_shapes [gated_intros]:
  "gated k c (ret x)" "gated k c (throw e)" "gated k c (next_json j st)"
  "(\<And>j. gated k c (f j)) \<Longrightarrow> gated k c (and_then (read_json q) f)"
  "(\<And>j. gated k c (f j)) \<Longrightarrow> gated k c (and_then (catch (read_json q) (\<lambda>e. ret d)) f)"
  "(\<And>fd. gated k c (g fd)) \<Longrightarrow> gated k c (and_then (read_form q) g)"
  "(\<And>v. gated k c (h v)) \<Longrightarrow> gated k c (and_then (get_prop j key) h)"
        apply (rule silent_gated, rule silent_intros)+
     apply (erule gated_after_silent [OF silent_intros(6)])
    apply (erule gated_after_silent [OF silent_catch [OF silent_intros(6) silent_intros(1)]])
   apply (erule gated_after_silent [OF silent_intros(7)])
  apply (erule gated_after_silent [OF silent_intros(5)])
  done

lemma gated_relays [gated_intros]:
  assumes "gated k c p"
  shows "gated k c (and_then p relay)" "gated k c (and_then p relay_or_204)"
    "gated k c (and_then p relay_lenient)" "gated k c (and_then p relay_attachment)"
    "gated k c (and_then p (\<lambda>r. if rs_status r = 204 then ret (next_empty 204) else relay_lenient r))"
  using assms by (auto intro!: gated_then_silent relay_silent silent_intros)

text \<open>A JSON reply of a status that can carry a body is passed on unchanged.\<close>

definition json_reply :: "http_response \<Rightarrow> nat \<Rightarrow> json \<Rightarrow> bool" where
  "json_reply r st j \<longleftrightarrow> rs_status r = st \<and> rs_body r = BodyJson j"

lemma relay_json:
  "json_reply r st j \<Longrightarrow> relayable st \<Longrightarrow> relay r = ret (json_response j st)"
  "json_reply r st j \<Longrightarrow> relayable st \<Longrightarrow> relay_or_204 r = ret (json_response j st)"
  "json_reply r st j \<Longrightarrow> relayable st \<Longrightarrow> relay_lenient r = ret (json_response j st)"
  by (auto simp: json_reply_def relay_def relay_or_204_def relay_lenient_def resp_json_or_empty_def
      resp_json_def relayable_def null_body_status_def next_json_def)

lemma relay_refusals [simp]:
  "relay (json_response (detail m) 401) = ret (json_response (detail m) 401)"
  "relay (json_response (detail m) 500) = ret (json_response (detail m) 500)"
  "relay_or_204 (json_response (detail m) 401) = ret (json_response (detail m) 401)"
  "relay_or_204 (json_response (detail m) 500) = ret (json_response (detail m) 500)"
  "relay_lenient (json_response (detail m) 401) = ret (json_response (detail m) 401)"
  "relay_lenient (json_response (detail m) 500) = ret (json_response (detail m) 500)"
  by (simp_all add: relay_json json_reply_def json_response_def)

end
