(* ===== verification/Orbyn_Api.thy ===== *)
theory Orbyn_Api
  imports Session_Proxy
begin

text \<open>
  The server-side backend clients of Subsystem 1 (orbynadmin): \<open>src/lib/admin-api.ts\<close>,
  \<open>chat-api.ts\<close>, \<open>ledger-api.ts\<close>, \<open>dashboard-api.ts\<close> and
  \<open>current-user.ts\<close>. One definition per exported function; each fetch helper is
  interpreted as a \<open>session_gated\<close> or \<open>session_json\<close> client.
\<close>

section \<open>The session cookie (src/lib/session.ts)\<close>

definition orbyn_session :: string where
  "orbyn_session = ''meadowops_session''"

section \<open>src/lib/admin-api.ts\<close>

definition adminFetch :: "ctx \<Rightarrow> string \<Rightarrow> fetch_init \<Rightarrow> http_response io" where
  "adminFetch c path i =
     session_gate orbyn_session c (\<lambda>token base. fetch (bearer_json_request token base path i))"

definition listMasterData :: "ctx \<Rightarrow> string \<Rightarrow> http_response io" where
  "listMasterData c entity = adminFetch c (''/api/v1/admin/'' @ entity) no_init"

definition createMasterData :: "ctx \<Rightarrow> string \<Rightarrow> json \<Rightarrow> http_response io" where
  "createMasterData c entity body = adminFetch c (''/api/v1/admin/'' @ entity) (with_json ''POST'' body)"

definition updateMasterData :: "ctx \<Rightarrow> string \<Rightarrow> string \<Rightarrow> json \<Rightarrow> http_response io" where
  "updateMasterData c entity i body =
     adminFetch c (''/api/v1/admin/'' @ entity @ ''/'' @ encodeURIComponent i) (with_json ''PATCH'' body)"

definition executeQuery :: "ctx \<Rightarrow> json option \<Rightarrow> bool \<Rightarrow> http_response io" where
  "executeQuery c sql confirmed =
     adminFetch c ''/api/v1/query/execute''
       (with_json ''POST'' (obj [(''sql'', sql), (''confirmed'', Some (JBool confirmed))]))"

definition cancelQueryConfirmation :: "ctx \<Rightarrow> json option \<Rightarrow> http_response io" where
  "cancelQueryConfirmation c sql =
     adminFetch c ''/api/v1/query/cancel-confirmation'' (with_json ''POST'' (obj [(''sql'', sql)]))"

definition refreshSandbox :: "ctx \<Rightarrow> http_response io" where
  "refreshSandbox c = adminFetch c ''/api/v1/query/refresh-sandbox'' (with_method ''POST'')"

definition getSandboxSchema :: "ctx \<Rightarrow> http_response io" where
  "getSandboxSchema c = adminFetch c ''/api/v1/query/schema'' no_init"

definition getQueryHistory :: "ctx \<Rightarrow> http_response io" where
  "getQueryHistory c = adminFetch c ''/api/v1/query/history'' no_init"

definition getAdminQueryLog :: "ctx \<Rightarrow> int \<Rightarrow> int \<Rightarrow> http_response io" where
  "getAdminQueryLog c limit offset =
     adminFetch c (''/api/v1/admin/query-log?limit='' @ show_int limit @ ''&offset='' @ show_int offset) no_init"

section \<open>src/lib/chat-api.ts\<close>

definition orbyn_chatFetch :: "ctx \<Rightarrow> string \<Rightarrow> fetch_init \<Rightarrow> http_response io" where
  "orbyn_chatFetch c path i =
     session_gate orbyn_session c (\<lambda>token base. fetch (bearer_json_request token base path i))"

definition thread_path :: "string \<Rightarrow> string \<Rightarrow> string" where
  "thread_path threadId rest = ''/api/v1/chat/threads/'' @ encodeURIComponent threadId @ rest"

definition orbyn_listThreads :: "ctx \<Rightarrow> http_response io" where
  "orbyn_listThreads c = orbyn_chatFetch c ''/api/v1/chat/threads'' no_init"

definition orbyn_listNotificationFeed :: "ctx \<Rightarrow> http_response io" where
  "orbyn_listNotificationFeed c = orbyn_chatFetch c ''/api/v1/chat/notification-feed'' no_init"

definition orbyn_markNotificationRead :: "ctx \<Rightarrow> string \<Rightarrow> http_response io" where
  "orbyn_markNotificationRead c notificationId =
     orbyn_chatFetch c (''/api/v1/chat/notifications/'' @ encodeURIComponent notificationId @ ''/read'')
       (with_method ''POST'')"

definition orbyn_deleteThread :: "ctx \<Rightarrow> string \<Rightarrow> http_response io" where
  "orbyn_deleteThread c threadId = orbyn_chatFetch c (thread_path threadId []) (with_method ''DELETE'')"

definition orbyn_markThreadRead :: "ctx \<Rightarrow> string \<Rightarrow> http_response io" where
  "orbyn_markThreadRead c threadId = orbyn_chatFetch c (thread_path threadId ''/read'') (with_method ''POST'')"

definition orbyn_listMessages :: "ctx \<Rightarrow> string \<Rightarrow> http_response io" where
  "orbyn_listMessages c threadId = orbyn_chatFetch c (thread_path threadId ''/messages'') no_init"

definition orbyn_sendMessage :: "ctx \<Rightarrow> string \<Rightarrow> json option \<Rightarrow> json option \<Rightarrow> http_response io" where
  "orbyn_sendMessage c threadId body attachmentId =
     orbyn_chatFetch c (thread_path threadId ''/messages'')
       (with_json ''POST''
         (if truthy_json attachmentId then obj [(''body'', body), (''attachment_id'', attachmentId)]
          else obj [(''body'', body)]))"

definition orbyn_mintWsTicket :: "ctx \<Rightarrow> http_response io" where
  "orbyn_mintWsTicket c = orbyn_chatFetch c ''/api/v1/chat/ws-ticket'' (with_method ''POST'')"

definition submitReflection :: "ctx \<Rightarrow> string \<Rightarrow> json \<Rightarrow> http_response io" where
  "submitReflection c threadId body =
     orbyn_chatFetch c (''/api/v1/portfolio/threads/'' @ encodeURIComponent threadId @ ''/reflection'')
       (with_json ''POST'' body)"

definition orbyn_saveDraft :: "ctx \<Rightarrow> string \<Rightarrow> string \<Rightarrow> http_response io" where
  "orbyn_saveDraft c threadId body =
     orbyn_chatFetch c (thread_path threadId ''/draft'') (with_json ''PUT'' (obj [(''body'', Some (JStr body))]))"

text \<open>The two calls outside \<open>chatFetch\<close>: no Content-Type header; the upload has no cache mode.\<close>

definition uploadAttachment :: "ctx \<Rightarrow> string \<Rightarrow> (string \<times> string) list \<Rightarrow> http_response io" where
  "uploadAttachment c threadId formData =
     session_gate orbyn_session c (\<lambda>token base.
       fetch (bearer_request ''POST'' token base (thread_path threadId ''/attachments'') (FormBody formData) None))"

definition orbyn_getAttachment :: "ctx \<Rightarrow> string \<Rightarrow> http_response io" where
  "orbyn_getAttachment c messageId =
     session_gate orbyn_session c (\<lambda>token base.
       fetch (bearer_request ''GET'' token base
         (''/api/v1/chat/messages/'' @ encodeURIComponent messageId @ ''/attachment'') NoBody (Some ''no-store'')))"

section \<open>src/lib/ledger-api.ts\<close>

definition ledgerFetch :: "ctx \<Rightarrow> string \<Rightarrow> fetch_init \<Rightarrow> http_response io" where
  "ledgerFetch c path i =
     session_gate orbyn_session c (\<lambda>token base. fetch (bearer_json_request token base path i))"

definition decision_path :: "string \<Rightarrow> string \<Rightarrow> string" where
  "decision_path decisionId rest = ''/api/v1/ledger/decisions/'' @ encodeURIComponent decisionId @ rest"

definition listDecisions :: "ctx \<Rightarrow> http_response io" where
  "listDecisions c = ledgerFetch c ''/api/v1/ledger/decisions'' no_init"

definition proposeDecision :: "ctx \<Rightarrow> json \<Rightarrow> http_response io" where
  "proposeDecision c body = ledgerFetch c ''/api/v1/ledger/decisions'' (with_json ''POST'' body)"

definition requestClarification :: "ctx \<Rightarrow> string \<Rightarrow> http_response io" where
  "requestClarification c d = ledgerFetch c (decision_path d ''/request-clarification'') (with_method ''POST'')"

definition resubmitDecision :: "ctx \<Rightarrow> string \<Rightarrow> http_response io" where
  "resubmitDecision c d = ledgerFetch c (decision_path d ''/resubmit'') (with_method ''POST'')"

definition acceptDecision :: "ctx \<Rightarrow> string \<Rightarrow> json option \<Rightarrow> http_response io" where
  "acceptDecision c d approvalAuthority =
     ledgerFetch c (decision_path d ''/accept'')
       (with_json ''POST'' (if truthy_json approvalAuthority
                             then obj [(''approval_authority'', approvalAuthority)] else obj []))"

definition rejectDecision :: "ctx \<Rightarrow> string \<Rightarrow> http_response io" where
  "rejectDecision c d = ledgerFetch c (decision_path d ''/reject'') (with_method ''POST'')"

definition markImplemented :: "ctx \<Rightarrow> string \<Rightarrow> http_response io" where
  "markImplemented c d = ledgerFetch c (decision_path d ''/implement'') (with_method ''POST'')"

definition markPartiallyImplemented :: "ctx \<Rightarrow> string \<Rightarrow> http_response io" where
  "markPartiallyImplemented c d = ledgerFetch c (decision_path d ''/partially-implement'') (with_method ''POST'')"

definition recordOutcome :: "ctx \<Rightarrow> string \<Rightarrow> json option \<Rightarrow> json \<Rightarrow> http_response io" where
  "recordOutcome c d outcom notes =
     ledgerFetch c (decision_path d ''/outcome'')
       (with_json ''POST'' (obj [(''outcome'', outcom), (''notes'', Some notes)]))"

section \<open>src/lib/dashboard-api.ts\<close>

definition dashboardFetch :: "ctx \<Rightarrow> string \<Rightarrow> http_response io" where
  "dashboardFetch c path =
     session_gate orbyn_session c (\<lambda>token base.
       fetch (bearer_request ''GET'' token base path NoBody (Some ''no-store'')))"

text \<open>\<open>toQuery\<close>: undefined parameters are dropped; no parameter gives the empty string.\<close>

definition toQuery :: "(string \<times> string option) list \<Rightarrow> string" where
  "toQuery params =
     (let entries = [(k, v). (k, Some v) \<leftarrow> params] in
      if entries = [] then [] else ''?'' @ query_string entries)"

definition getExecutiveSummary :: "ctx \<Rightarrow> http_response io" where
  "getExecutiveSummary c = dashboardFetch c ''/api/v1/dashboard/executive''"

definition getExecutiveTrend :: "ctx \<Rightarrow> http_response io" where
  "getExecutiveTrend c = dashboardFetch c ''/api/v1/dashboard/executive/trend''"

definition listInventoryPositions :: "ctx \<Rightarrow> string option \<Rightarrow> http_response io" where
  "listInventoryPositions c warehouseId =
     dashboardFetch c (''/api/v1/dashboard/inventory'' @ toQuery [(''warehouse_id'', warehouseId)])"

definition listInventoryTransactions :: "ctx \<Rightarrow> string \<Rightarrow> string \<Rightarrow> http_response io" where
  "listInventoryTransactions c productId warehouseId =
     dashboardFetch c (''/api/v1/dashboard/inventory/'' @ encodeURIComponent productId @ ''/''
                       @ encodeURIComponent warehouseId @ ''/transactions'')"

definition listSupplierPerformance :: "ctx \<Rightarrow> http_response io" where
  "listSupplierPerformance c = dashboardFetch c ''/api/v1/dashboard/suppliers''"

definition listSupplierPurchaseOrders :: "ctx \<Rightarrow> string \<Rightarrow> http_response io" where
  "listSupplierPurchaseOrders c supplierId =
     dashboardFetch c (''/api/v1/dashboard/suppliers/'' @ encodeURIComponent supplierId @ ''/purchase-orders'')"

definition listPurchaseOrders :: "ctx \<Rightarrow> http_response io" where
  "listPurchaseOrders c = dashboardFetch c ''/api/v1/dashboard/orders/purchase''"

definition getPurchaseOrderDetail :: "ctx \<Rightarrow> string \<Rightarrow> http_response io" where
  "getPurchaseOrderDetail c purchaseOrderId =
     dashboardFetch c (''/api/v1/dashboard/orders/purchase/'' @ encodeURIComponent purchaseOrderId)"

definition listSalesOrders :: "ctx \<Rightarrow> http_response io" where
  "listSalesOrders c = dashboardFetch c ''/api/v1/dashboard/orders/sales''"

definition getSalesOrderDetail :: "ctx \<Rightarrow> string \<Rightarrow> http_response io" where
  "getSalesOrderDetail c salesOrderId =
     dashboardFetch c (''/api/v1/dashboard/orders/sales/'' @ encodeURIComponent salesOrderId)"

definition listShipments :: "ctx \<Rightarrow> http_response io" where
  "listShipments c = dashboardFetch c ''/api/v1/dashboard/shipments''"

definition listExceptions :: "ctx \<Rightarrow> string option \<Rightarrow> bool \<Rightarrow> http_response io" where
  "listExceptions c category includeResolved =
     dashboardFetch c (''/api/v1/dashboard/exceptions''
       @ toQuery [(''category'', category),
                  (''include_resolved'', if includeResolved then Some ''true'' else None)])"

definition getExceptionDrilldown :: "ctx \<Rightarrow> string \<Rightarrow> http_response io" where
  "getExceptionDrilldown c exceptionFlagId =
     dashboardFetch c (''/api/v1/dashboard/exceptions/'' @ encodeURIComponent exceptionFlagId)"

definition getOverview :: "ctx \<Rightarrow> int option \<Rightarrow> http_response io" where
  "getOverview c days =
     dashboardFetch c (''/api/v1/dashboard/overview'' @ toQuery [(''days'', map_option show_int days)])"

section \<open>src/lib/current-user.ts\<close>

definition role_of :: "json \<Rightarrow> string option io" where
  "role_of body = and_then (get_prop body ''role'')
     (\<lambda>r. ret (case r of Some (JStr s) \<Rightarrow> Some s | _ \<Rightarrow> None))"

definition orbyn_getCurrentRole :: "ctx \<Rightarrow> string option io" where
  "orbyn_getCurrentRole c =
     (case truthy (get_cookie c orbyn_session) of
        None \<Rightarrow> ret None
      | Some token \<Rightarrow>
          (case truthy (cx_base_url c) of
             None \<Rightarrow> ret None
           | Some base \<Rightarrow>
               and_then (fetch (bearer_request ''GET'' token base ''/api/v1/me'' NoBody (Some ''no-store'')))
                 (\<lambda>r. if \<not> resp_ok r then ret None
                      else and_then (resp_json r) role_of)))"

lemmas orbyn_client_defs [client_defs] =
  listMasterData_def createMasterData_def updateMasterData_def executeQuery_def
  cancelQueryConfirmation_def refreshSandbox_def getSandboxSchema_def getQueryHistory_def
  getAdminQueryLog_def orbyn_listThreads_def orbyn_listNotificationFeed_def
  orbyn_markNotificationRead_def orbyn_deleteThread_def orbyn_markThreadRead_def
  orbyn_listMessages_def orbyn_sendMessage_def orbyn_mintWsTicket_def submitReflection_def
  orbyn_saveDraft_def listDecisions_def proposeDecision_def requestClarification_def
  resubmitDecision_def acceptDecision_def rejectDecision_def markImplemented_def
  markPartiallyImplemented_def recordOutcome_def

section \<open>The fetch helpers are gated clients\<close>

interpretation orbyn_admin: session_json orbyn_session "\<lambda>c q. adminFetch c (fst q) (snd q)"
  by unfold_locales (auto simp: adminFetch_def gate_simps)

interpretation orbyn_chat: session_json orbyn_session "\<lambda>c q. orbyn_chatFetch c (fst q) (snd q)"
  by unfold_locales (auto simp: orbyn_chatFetch_def gate_simps)

interpretation orbyn_ledger: session_json orbyn_session "\<lambda>c q. ledgerFetch c (fst q) (snd q)"
  by unfold_locales (auto simp: ledgerFetch_def gate_simps)

interpretation orbyn_dashboard: session_gated orbyn_session dashboardFetch "\<lambda>p. p"
  by unfold_locales (auto simp: dashboardFetch_def gate_simps)

interpretation orbyn_upload: session_gated orbyn_session
    "\<lambda>c q. uploadAttachment c (fst q) (snd q)" "\<lambda>q. thread_path (fst q) ''/attachments''"
  by unfold_locales (auto simp: uploadAttachment_def gate_simps)

interpretation orbyn_attachment: session_gated orbyn_session orbyn_getAttachment
    "\<lambda>m. ''/api/v1/chat/messages/'' @ encodeURIComponent m @ ''/attachment''"
  by unfold_locales (auto simp: orbyn_getAttachment_def gate_simps)

lemma orbyn_fetch_gated [gated_intros]:
  "gated orbyn_session c (adminFetch c path i)"
  "gated orbyn_session c (orbyn_chatFetch c path i)"
  "gated orbyn_session c (ledgerFetch c path i)"
  "gated orbyn_session c (dashboardFetch c path)"
  "gated orbyn_session c (uploadAttachment c th fd)"
  "gated orbyn_session c (orbyn_getAttachment c m)"
  using orbyn_admin.call_gated [of c "(path, i)"] orbyn_chat.call_gated [of c "(path, i)"]
    orbyn_ledger.call_gated [of c "(path, i)"] orbyn_dashboard.call_gated [of c path]
    orbyn_upload.call_gated [of c "(th, fd)"] orbyn_attachment.call_gated [of c m]
  by simp_all

section \<open>Query strings\<close>

lemma toQuery_parses:
  "toQuery params = [] \<and> [(k, v). (k, Some v) \<leftarrow> params] = []
   \<or> (\<exists>q. toQuery params = ''?'' @ q \<and> parse_query q = map Some [(k, v). (k, Some v) \<leftarrow> params])"
  by (auto simp: toQuery_def Let_def parse_query_string)

end
