(* ===== verification/Builder_Api.thy ===== *)
theory Builder_Api
  imports Session_Proxy
begin

text \<open>
  The server-side backend clients of Subsystem 2 (the Builder's application):
  \<open>src/lib/chat-api.ts\<close>, \<open>scenario-api.ts\<close>, \<open>evaluation-api.ts\<close> and
  \<open>current-user.ts\<close>, each fetch helper interpreted as a gated client. The session cookie
  is not the one of Subsystem 1.
\<close>

section \<open>The session cookie (src/lib/session.ts)\<close>

definition builder_session :: string where
  "builder_session = ''meadowops_scenarios_session''"

section \<open>src/lib/chat-api.ts\<close>

definition builder_chatFetch :: "ctx \<Rightarrow> string \<Rightarrow> fetch_init \<Rightarrow> http_response io" where
  "builder_chatFetch c path i =
     session_gate builder_session c (\<lambda>token base. fetch (bearer_json_request token base path i))"

definition b_thread_path :: "string \<Rightarrow> string \<Rightarrow> string" where
  "b_thread_path threadId rest = ''/api/v1/chat/threads/'' @ encodeURIComponent threadId @ rest"


definition builder_listThreads :: "ctx \<Rightarrow> http_response io" where
  "builder_listThreads c =
     builder_chatFetch c ''/api/v1/chat/threads'' no_init"

text \<open>\<open>threads.filter((t) => t.scenario_id === scenarioId)\<close>: a value that is not an array
  has no \<open>filter\<close>, a null element has no property.\<close>

fun keep_scenario :: "string \<Rightarrow> json list \<Rightarrow> json list io" where
  "keep_scenario sid [] = ret []"
| "keep_scenario sid (t # ts) =
     and_then (get_prop t ''scenario_id'') (\<lambda>v.
       and_then (keep_scenario sid ts) (\<lambda>rest.
         ret (if v = Some (JStr sid) then t # rest else rest)))"

definition filter_threads :: "string \<Rightarrow> json \<Rightarrow> json list io" where
  "filter_threads sid j = (case j of JArr ts \<Rightarrow> keep_scenario sid ts | _ \<Rightarrow> throw TypeErr)"

definition listThreadsForScenario :: "ctx \<Rightarrow> string \<Rightarrow> http_response io" where
  "listThreadsForScenario c scenarioId =
     and_then (builder_listThreads c) (\<lambda>r.
       if \<not> resp_ok r then ret r
       else and_then (resp_json r) (\<lambda>threads.
              and_then (filter_threads scenarioId threads) (\<lambda>ts. ret (json_response (JArr ts) 200))))"

definition completeThread :: "ctx \<Rightarrow> string \<Rightarrow> http_response io" where
  "completeThread c threadId =
     builder_chatFetch c (b_thread_path threadId ''/complete'') (with_method ''POST'')"

definition createThread :: "ctx \<Rightarrow> json option \<Rightarrow> json option \<Rightarrow> http_response io" where
  "createThread c scenarioId persona =
     builder_chatFetch c ''/api/v1/chat/threads''
       (with_json ''POST'' (obj [(''scenario_id'', scenarioId), (''persona'', persona)])) "

definition builder_markThreadRead :: "ctx \<Rightarrow> string \<Rightarrow> http_response io" where
  "builder_markThreadRead c threadId =
     builder_chatFetch c (b_thread_path threadId ''/read'') (with_method ''POST'')"

definition builder_listMessages :: "ctx \<Rightarrow> string \<Rightarrow> http_response io" where
  "builder_listMessages c threadId =
     builder_chatFetch c (b_thread_path threadId ''/messages'') no_init"

definition builder_sendMessage :: "ctx \<Rightarrow> string \<Rightarrow> json option \<Rightarrow> http_response io" where
  "builder_sendMessage c threadId body =
     builder_chatFetch c (b_thread_path threadId ''/messages'') (with_json ''POST'' (obj [(''body'', body)]))"

definition builder_deleteThread :: "ctx \<Rightarrow> string \<Rightarrow> http_response io" where
  "builder_deleteThread c threadId =
     builder_chatFetch c (b_thread_path threadId []) (with_method ''DELETE'')"

definition builder_mintWsTicket :: "ctx \<Rightarrow> http_response io" where
  "builder_mintWsTicket c =
     builder_chatFetch c ''/api/v1/chat/ws-ticket'' (with_method ''POST'')"

definition suggestOpening :: "ctx \<Rightarrow> string \<Rightarrow> json option \<Rightarrow> http_response io" where
  "suggestOpening c threadId attitude =
     builder_chatFetch c (b_thread_path threadId ''/suggest-opening'') (with_json ''POST'' (obj [(''attitude'', attitude)]))"

definition suggestPushback :: "ctx \<Rightarrow> string \<Rightarrow> json option \<Rightarrow> http_response io" where
  "suggestPushback c threadId attitude =
     builder_chatFetch c (b_thread_path threadId ''/suggest-pushback'') (with_json ''POST'' (obj [(''attitude'', attitude)]))"

definition checkSufficiency :: "ctx \<Rightarrow> string \<Rightarrow> http_response io" where
  "checkSufficiency c threadId =
     builder_chatFetch c (b_thread_path threadId ''/sufficiency-check'') (with_method ''POST'')"

definition listNotifications :: "ctx \<Rightarrow> http_response io" where
  "listNotifications c =
     builder_chatFetch c ''/api/v1/chat/notifications'' no_init"

definition builder_listNotificationFeed :: "ctx \<Rightarrow> http_response io" where
  "builder_listNotificationFeed c =
     builder_chatFetch c ''/api/v1/chat/notification-feed'' no_init"

definition builder_markNotificationRead :: "ctx \<Rightarrow> string \<Rightarrow> http_response io" where
  "builder_markNotificationRead c notificationId =
     builder_chatFetch c (''/api/v1/chat/notifications/'' @ encodeURIComponent notificationId @ ''/read'') (with_method ''POST'')"

definition builder_saveDraft :: "ctx \<Rightarrow> string \<Rightarrow> string \<Rightarrow> http_response io" where
  "builder_saveDraft c threadId body =
     builder_chatFetch c (b_thread_path threadId ''/draft'') (with_json ''PUT'' (obj [(''body'', Some (JStr body))]))"

definition builder_getAttachment :: "ctx \<Rightarrow> string \<Rightarrow> http_response io" where
  "builder_getAttachment c messageId =
     session_gate builder_session c (\<lambda>token base.
       fetch (bearer_request ''GET'' token base
         (''/api/v1/chat/messages/'' @ encodeURIComponent messageId @ ''/attachment'') NoBody (Some ''no-store'')))"

section \<open>src/lib/evaluation-api.ts\<close>

definition evaluationFetch :: "ctx \<Rightarrow> string \<Rightarrow> fetch_init \<Rightarrow> http_response io" where
  "evaluationFetch c path i =
     session_gate builder_session c (\<lambda>token base. fetch (bearer_json_request token base path i))"

definition getEvaluation :: "ctx \<Rightarrow> string \<Rightarrow> http_response io" where
  "getEvaluation c threadId =
     evaluationFetch c (''/api/v1/evaluations/threads/'' @ encodeURIComponent threadId) no_init"

definition getHumanReview :: "ctx \<Rightarrow> string \<Rightarrow> http_response io" where
  "getHumanReview c threadId =
     evaluationFetch c (''/api/v1/evaluations/threads/'' @ encodeURIComponent threadId @ ''/human-review'') no_init"

definition submitHumanReview :: "ctx \<Rightarrow> string \<Rightarrow> json \<Rightarrow> http_response io" where
  "submitHumanReview c threadId body =
     evaluationFetch c (''/api/v1/evaluations/threads/'' @ encodeURIComponent threadId @ ''/human-review'') (with_json ''POST'' body)"

definition getPortfolioExport :: "ctx \<Rightarrow> string \<Rightarrow> http_response io" where
  "getPortfolioExport c threadId =
     evaluationFetch c (''/api/v1/portfolio/threads/'' @ encodeURIComponent threadId) no_init"

section \<open>src/lib/scenario-api.ts\<close>

definition scenarioFetch :: "ctx \<Rightarrow> string \<Rightarrow> fetch_init \<Rightarrow> http_response io" where
  "scenarioFetch c path i =
     session_gate builder_session c (\<lambda>token base. fetch (bearer_json_request token base path i))"

definition scenario_path :: "string \<Rightarrow> string \<Rightarrow> string" where
  "scenario_path i rest = ''/api/v1/admin/scenarios/'' @ encodeURIComponent i @ rest"

definition listScenarios :: "ctx \<Rightarrow> string option \<Rightarrow> http_response io" where
  "listScenarios c statusFilter =
     (let query = (case truthy statusFilter of None \<Rightarrow> [] | Some s \<Rightarrow> ''?status_filter='' @ encodeURIComponent s)
      in scenarioFetch c (''/api/v1/admin/scenarios'' @ query) no_init)"

definition getScenario :: "ctx \<Rightarrow> string \<Rightarrow> http_response io" where
  "getScenario c i =
     scenarioFetch c (scenario_path i []) no_init"

definition createScenario :: "ctx \<Rightarrow> json \<Rightarrow> http_response io" where
  "createScenario c body =
     scenarioFetch c ''/api/v1/admin/scenarios'' (with_json ''POST'' body)"

definition updateGroundTruth :: "ctx \<Rightarrow> string \<Rightarrow> json \<Rightarrow> http_response io" where
  "updateGroundTruth c i body =
     scenarioFetch c (scenario_path i ''/ground-truth'') (with_json ''PATCH'' body)"

definition regenerateScenario :: "ctx \<Rightarrow> string \<Rightarrow> http_response io" where
  "regenerateScenario c i =
     scenarioFetch c (scenario_path i ''/regenerate'') (with_method ''POST'')"

definition regenerateNarrative :: "ctx \<Rightarrow> string \<Rightarrow> http_response io" where
  "regenerateNarrative c i =
     scenarioFetch c (scenario_path i ''/regenerate-narrative'') (with_method ''POST'')"

definition regenerateExpectedQuery :: "ctx \<Rightarrow> string \<Rightarrow> http_response io" where
  "regenerateExpectedQuery c i =
     scenarioFetch c (scenario_path i ''/regenerate-expected-query'') (with_method ''POST'')"

definition runExpectedQuery :: "ctx \<Rightarrow> string \<Rightarrow> http_response io" where
  "runExpectedQuery c i =
     scenarioFetch c (scenario_path i ''/expected-query/run'') (with_method ''POST'')"

definition approveScenario :: "ctx \<Rightarrow> string \<Rightarrow> http_response io" where
  "approveScenario c i =
     scenarioFetch c (scenario_path i ''/approve'') (with_method ''POST'')"

definition activateScenario :: "ctx \<Rightarrow> string \<Rightarrow> http_response io" where
  "activateScenario c i =
     scenarioFetch c (scenario_path i ''/activate'') (with_method ''POST'')"

definition cancelScenario :: "ctx \<Rightarrow> string \<Rightarrow> http_response io" where
  "cancelScenario c i =
     scenarioFetch c (scenario_path i ''/cancel'') (with_method ''POST'')"

definition open_exception_params :: "string option \<Rightarrow> (string \<times> string) list" where
  "open_exception_params category =
     (let ps = [(''include_resolved'', ''false''), (''limit'', ''200'')]
      in case truthy category of None \<Rightarrow> ps | Some k \<Rightarrow> put ''category'' k ps)"

definition listOpenExceptions :: "ctx \<Rightarrow> string option \<Rightarrow> http_response io" where
  "listOpenExceptions c category =
     scenarioFetch c (''/api/v1/dashboard/exceptions?'' @ query_string (open_exception_params category)) no_init"

definition builder_getExecutiveSummary :: "ctx \<Rightarrow> http_response io" where
  "builder_getExecutiveSummary c =
     scenarioFetch c ''/api/v1/dashboard/executive'' no_init"

definition startRepopulate :: "ctx \<Rightarrow> json \<Rightarrow> http_response io" where
  "startRepopulate c body =
     scenarioFetch c ''/api/v1/admin/simulation/repopulate'' (with_json ''POST'' body)"

definition getRepopulateStatus :: "ctx \<Rightarrow> http_response io" where
  "getRepopulateStatus c =
     scenarioFetch c ''/api/v1/admin/simulation/repopulate/status'' no_init"

section \<open>src/lib/current-user.ts\<close>

text \<open>Unlike its sibling in Subsystem 1, every failure past the guards reads as no role.\<close>

definition b_role_of :: "json \<Rightarrow> string option io" where
  "b_role_of body = and_then (get_prop body ''role'')
     (\<lambda>r. ret (case r of Some (JStr s) \<Rightarrow> Some s | _ \<Rightarrow> None))"

definition builder_getCurrentRole :: "ctx \<Rightarrow> string option io" where
  "builder_getCurrentRole c =
     (case truthy (get_cookie c builder_session) of
        None \<Rightarrow> ret None
      | Some token \<Rightarrow>
          (case truthy (cx_base_url c) of
             None \<Rightarrow> ret None
           | Some base \<Rightarrow>
               catch (and_then (fetch (bearer_request ''GET'' token base ''/api/v1/me'' NoBody (Some ''no-store'')))
                       (\<lambda>r. if \<not> resp_ok r then ret None
                            else and_then (resp_json r) b_role_of))
                 (\<lambda>e. ret None)))"

lemmas builder_client_defs [client_defs] =
  builder_listThreads_def completeThread_def createThread_def builder_markThreadRead_def
  builder_listMessages_def builder_sendMessage_def builder_deleteThread_def
  builder_mintWsTicket_def suggestOpening_def suggestPushback_def checkSufficiency_def
  listNotifications_def builder_listNotificationFeed_def builder_markNotificationRead_def
  builder_saveDraft_def getEvaluation_def getHumanReview_def submitHumanReview_def
  getPortfolioExport_def listScenarios_def getScenario_def createScenario_def
  updateGroundTruth_def regenerateScenario_def regenerateNarrative_def
  regenerateExpectedQuery_def runExpectedQuery_def approveScenario_def activateScenario_def
  cancelScenario_def listOpenExceptions_def builder_getExecutiveSummary_def startRepopulate_def
  getRepopulateStatus_def

section \<open>The fetch helpers are gated clients\<close>

interpretation builder_chat: session_json builder_session "\<lambda>c q. builder_chatFetch c (fst q) (snd q)"
  by unfold_locales (auto simp: builder_chatFetch_def gate_simps)

interpretation builder_evaluation: session_json builder_session "\<lambda>c q. evaluationFetch c (fst q) (snd q)"
  by unfold_locales (auto simp: evaluationFetch_def gate_simps)

interpretation builder_scenario: session_json builder_session "\<lambda>c q. scenarioFetch c (fst q) (snd q)"
  by unfold_locales (auto simp: scenarioFetch_def gate_simps)

interpretation builder_attachment: session_gated builder_session builder_getAttachment
    "\<lambda>m. ''/api/v1/chat/messages/'' @ encodeURIComponent m @ ''/attachment''"
  by unfold_locales (auto simp: builder_getAttachment_def gate_simps)

lemma builder_fetch_gated [gated_intros]:
  "gated builder_session c (builder_chatFetch c path i)"
  "gated builder_session c (evaluationFetch c path i)"
  "gated builder_session c (scenarioFetch c path i)"
  "gated builder_session c (builder_getAttachment c m)"
  using builder_chat.call_gated [of c "(path, i)"] builder_evaluation.call_gated [of c "(path, i)"]
    builder_scenario.call_gated [of c "(path, i)"] builder_attachment.call_gated [of c m]
  by simp_all

lemma keep_scenario_silent: "silent (keep_scenario sid ts)"
  by (induction ts) (auto intro!: silent_intros silent_and_then)

lemma listThreadsForScenario_gated [gated_intros]:
  "gated builder_session c (listThreadsForScenario c sid)"
  unfolding listThreadsForScenario_def builder_listThreads_def filter_threads_def
  by (rule gated_then_silent [OF builder_fetch_gated(1)])
    (auto intro!: silent_intros silent_and_then keep_scenario_silent split: json.split)

text \<open>On an array of objects the filter keeps exactly the threads of the scenario, in order.\<close>

lemma keep_scenario_objects:
  "\<forall>t \<in> set ts. \<exists>ps. t = JObj ps \<Longrightarrow>
     keep_scenario sid ts = ret (filter (\<lambda>t. opt_prop t ''scenario_id'' = Some (JStr sid)) ts)"
  by (induction ts) auto

end
