(* ===== verification/Session_Routes.thy ===== *)
theory Session_Routes
  imports Orbyn_Api Builder_Api
begin

text \<open>
  The handlers that begin and end a session: \<open>/api/login\<close> and \<open>/api/logout\<close> of both applications
  and the Builder's \<open>/api/session-expired\<close>. Shown: what a log-in sends, and that the others send
  nothing.
\<close>

section \<open>POST /api/login\<close>

definition login_request :: "string \<Rightarrow> string \<Rightarrow> string \<Rightarrow> http_request" where
  "login_request base email password =
     \<lparr>rq_method = ''POST'', rq_url = base @ ''/api/v1/auth/login'',
      rq_headers = [(''Content-Type'', ''application/json'')],
      rq_body = JsonBody (JObj [(''email'', JStr email), (''password'', JStr password)]),
      rq_cache = Some ''no-store''\<rparr>"

text \<open>\<open>try { ({ email, password } = await request.json()) } catch { 400 }\<close>: the
  destructuring is inside the try, so a JSON \<open>null\<close> is a 400 here.\<close>

definition read_credentials :: "ui_request \<Rightarrow> (json option \<times> json option) option io" where
  "read_credentials q =
     catch (and_then (read_json q) (\<lambda>j.
              and_then (get_prop j ''email'') (\<lambda>email.
                and_then (get_prop j ''password'') (\<lambda>password. ret (Some (email, password))))))
       (\<lambda>e. ret None)"

definition refuse_login :: "http_response \<Rightarrow> http_response io" where
  "refuse_login r =
     and_then (resp_json_or_empty r) (\<lambda>body.
       and_then (get_prop body ''detail'') (\<lambda>d.
         next_json (JObj [(''detail'', nullish_or d (JStr ''Sign in failed''))])
           (if rs_status r = 429 then 429 else 401)))"

definition session_attrs :: "ctx \<Rightarrow> cookie_attrs" where
  "session_attrs c = \<lparr>http_only = True, secure = cx_production c, same_site = ''lax'', cookie_path = ''/''\<rparr>"

definition accept_login :: "string \<Rightarrow> ctx \<Rightarrow> json option \<Rightarrow> http_response io" where
  "accept_login cookie c token =
     ret (json_response (JObj [(''ok'', JBool True)]) 200
            \<lparr>rs_cookies := [CSet cookie token (session_attrs c)]\<rparr>)"

definition orbyn_login_POST :: "ctx \<Rightarrow> ui_request \<Rightarrow> http_response io" where
  "orbyn_login_POST c q =
     (case truthy (cx_base_url c) of
        None \<Rightarrow> next_json (detail ''Server is not configured'') 500
      | Some baseUrl \<Rightarrow>
          and_then (read_credentials q) (\<lambda>creds.
            case creds of
              Some (Some (JStr email), Some (JStr password)) \<Rightarrow>
                and_then (fetch (login_request baseUrl email password)) (\<lambda>r.
                  if \<not> resp_ok r then refuse_login r
                  else and_then (resp_json r) (\<lambda>body.
                    and_then (get_prop body ''access_token'') (\<lambda>token.
                      accept_login orbyn_session c token)))
            | _ \<Rightarrow> next_json (detail ''Invalid request body'') 400))"

definition builder_login_POST :: "ctx \<Rightarrow> ui_request \<Rightarrow> http_response io" where
  "builder_login_POST c q =
     (case truthy (cx_base_url c) of
        None \<Rightarrow> next_json (detail ''Server is not configured'') 500
      | Some baseUrl \<Rightarrow>
          and_then (read_credentials q) (\<lambda>creds.
            case creds of
              Some (Some (JStr email), Some (JStr password)) \<Rightarrow>
                and_then (fetch (login_request baseUrl email password)) (\<lambda>r.
                  if \<not> resp_ok r then refuse_login r
                  else and_then (resp_json r) (\<lambda>body.
                    and_then (get_prop body ''access_token'') (\<lambda>token.
                      and_then (get_prop body ''role'') (\<lambda>role.
                        if role \<noteq> Some (JStr ''admin'')
                        then next_json (detail ''This workspace is available to Builder (admin) accounts only'') 401
                        else accept_login builder_session c token))))
            | _ \<Rightarrow> next_json (detail ''Invalid request body'') 400))"

section \<open>POST /api/logout, GET /api/session-expired\<close>

definition end_session :: "string \<Rightarrow> http_response" where
  "end_session cookie = json_response (JObj [(''ok'', JBool True)]) 200 \<lparr>rs_cookies := [CDelete cookie]\<rparr>"

definition orbyn_logout_POST :: "http_response io" where
  "orbyn_logout_POST = ret (end_session orbyn_session)"

definition builder_logout_POST :: "http_response io" where
  "builder_logout_POST = ret (end_session builder_session)"

definition redirect_to :: "string \<Rightarrow> cookie_op list \<Rightarrow> http_response" where
  "redirect_to path ops =
     \<lparr>rs_status = 307, rs_headers = [(''location'', path)], rs_body = BodyEmpty, rs_cookies = ops\<rparr>"

definition session_expired_GET :: http_response where
  "session_expired_GET = redirect_to ''/sign-in'' [CDelete builder_session]"

section \<open>What a log-in can do\<close>

lemma read_credentials_cases:
  "read_credentials q = ret None \<or> (\<exists>e p. read_credentials q = ret (Some (e, p)))"
proof (cases "ui_json q")
  case None
  then show ?thesis by (simp add: read_credentials_def read_json_def)
next
  case (Some j)
  show ?thesis
    using get_prop_cases [of j "''email''"] get_prop_cases [of j "''password''"] Some
    by (simp add: read_credentials_def read_json_def) (elim disjE; simp; blast)
qed

lemma read_credentials_object:
  "ui_json q = Some (JObj ps) \<Longrightarrow> read_credentials q = ret (Some (map_of ps ''email'', map_of ps ''password''))"
  by (simp add: read_credentials_def read_json_def)

lemma refuse_login_cookies: "result (refuse_login r) net = Returned r' \<Longrightarrow> rs_cookies r' = []"
  by (auto simp: refuse_login_def next_json_def json_response_def run_simps
      split: outcome.splits if_splits)

lemma next_json_result: "result (next_json j st) net = Returned r \<Longrightarrow> r = json_response j st"
  by (auto simp: next_json_def split: if_splits)

lemma json_response_cookies [simp]: "rs_cookies (json_response j st) = []"
  by (simp add: json_response_def)

text \<open>The credential part the two routes share: what reaches the backend.\<close>

definition credentials_of :: "ui_request \<Rightarrow> (string \<times> string) option" where
  "credentials_of q =
     (case snd (read_credentials q (\<lambda>_. NetError)) of
        Returned (Some (Some (JStr e), Some (JStr p))) \<Rightarrow> Some (e, p)
      | _ \<Rightarrow> None)"

lemma login_steps:
  "orbyn_login_POST c q =
     (case truthy (cx_base_url c) of
        None \<Rightarrow> next_json (detail ''Server is not configured'') 500
      | Some b \<Rightarrow>
          (case credentials_of q of
             None \<Rightarrow> next_json (detail ''Invalid request body'') 400
           | Some (e, p) \<Rightarrow>
               and_then (fetch (login_request b e p)) (\<lambda>r.
                  if \<not> resp_ok r then refuse_login r
                  else and_then (resp_json r) (\<lambda>body.
                    and_then (get_prop body ''access_token'') (accept_login orbyn_session c)))))"
  "builder_login_POST c q =
     (case truthy (cx_base_url c) of
        None \<Rightarrow> next_json (detail ''Server is not configured'') 500
      | Some b \<Rightarrow>
          (case credentials_of q of
             None \<Rightarrow> next_json (detail ''Invalid request body'') 400
           | Some (e, p) \<Rightarrow>
               and_then (fetch (login_request b e p)) (\<lambda>r.
                  if \<not> resp_ok r then refuse_login r
                  else and_then (resp_json r) (\<lambda>body.
                    and_then (get_prop body ''access_token'') (\<lambda>token.
                      and_then (get_prop body ''role'') (\<lambda>role.
                        if role \<noteq> Some (JStr ''admin'')
                        then next_json (detail ''This workspace is available to Builder (admin) accounts only'') 401
                        else accept_login builder_session c token))))))"
  using read_credentials_cases [of q]
  by (auto simp: orbyn_login_POST_def builder_login_POST_def credentials_of_def ret_def [symmetric]
      split: option.splits json.splits intro!: arg_cong2 [of _ _ _ _ and_then])
     (auto simp: ret_def split: option.splits json.splits)

lemma accept_login_result [simp]:
  "result (accept_login k c token) net =
     Returned (json_response (JObj [(''ok'', JBool True)]) 200 \<lparr>rs_cookies := [CSet k token (session_attrs c)]\<rparr>)"
  "sent (accept_login k c token) net = []"
  by (simp_all add: accept_login_def)

lemma get_prop_result:
  "result (get_prop v k) net = (if v = JNull then Thrown TypeErr else Returned (opt_prop v k))"
  by (cases v) auto

lemma resp_json_result:
  "result (resp_json r) net = (case rs_body r of BodyJson j \<Rightarrow> Returned j | _ \<Rightarrow> Thrown SyntaxErr)"
  by (simp add: resp_json_def split: response_body.splits)

lemmas login_runs = run_simps get_prop_result resp_json_result

text \<open>
  What a log-in sends: nothing, or the submitted e-mail and password to the configured backend.
\<close>

definition login_attempt :: "ctx \<Rightarrow> ui_request \<Rightarrow> http_request \<Rightarrow> bool" where
  "login_attempt c q rq \<longleftrightarrow>
     (case (truthy (cx_base_url c), credentials_of q) of
        (Some base, Some (email, password)) \<Rightarrow> rq = login_request base email password
      | _ \<Rightarrow> False)"

lemma login_sends:
  "sent (orbyn_login_POST c q) net = [] \<or> (\<exists>rq. sent (orbyn_login_POST c q) net = [rq] \<and> login_attempt c q rq)"
  "sent (builder_login_POST c q) net = [] \<or> (\<exists>rq. sent (builder_login_POST c q) net = [rq] \<and> login_attempt c q rq)"
proof -
  have quiet: "sent (refuse_login r) net = []" "sent (resp_json r) net = []" "sent (get_prop j k) net = []"
      "sent (next_json j st) net = []" for r j k st
    by (simp_all add: refuse_login_def sent_and_then resp_json_or_empty_def resp_json_def next_json_def
        split: outcome.splits response_body.splits)
  show "sent (orbyn_login_POST c q) net = [] \<or> (\<exists>rq. sent (orbyn_login_POST c q) net = [rq] \<and> login_attempt c q rq)"
    by (auto simp: login_steps login_attempt_def sent_and_then quiet split: option.splits fetch_result.splits outcome.splits)
  show "sent (builder_login_POST c q) net = [] \<or> (\<exists>rq. sent (builder_login_POST c q) net = [rq] \<and> login_attempt c q rq)"
    by (auto simp: login_steps login_attempt_def sent_and_then quiet split: option.splits fetch_result.splits outcome.splits)
qed

text \<open>What Subsystem 1's log-in makes of a JSON answer: a cookie with the answer's token, or 401 or 429 with its
  reason; reading a field of \<open>null\<close> throws.\<close>

definition login_outcome :: "string \<Rightarrow> ctx \<Rightarrow> http_response \<Rightarrow> json \<Rightarrow> http_response outcome" where
  "login_outcome cookie c r j =
     (if j = JNull then Thrown TypeErr
      else if resp_ok r then
        Returned (json_response (JObj [(''ok'', JBool True)]) 200
          \<lparr>rs_cookies := [CSet cookie (opt_prop j ''access_token'') (session_attrs c)]\<rparr>)
      else Returned (json_response (JObj [(''detail'', nullish_or (opt_prop j ''detail'') (JStr ''Sign in failed''))])
          (if rs_status r = 429 then 429 else 401)))"

lemma orbyn_login_relays:
  assumes "sent (orbyn_login_POST c q) net = [rq]"
  shows "case net rq of
      NetError \<Rightarrow> result (orbyn_login_POST c q) net = Thrown TypeErr
    | Reply r \<Rightarrow> (\<forall>j. rs_body r = BodyJson j \<longrightarrow> result (orbyn_login_POST c q) net = login_outcome orbyn_session c r j)"
  using assms
  by (auto simp: login_steps login_outcome_def login_runs refuse_login_def resp_json_or_empty_def next_json_def
      status_in_range_def null_body_status_def sent_and_then split: option.splits fetch_result.splits)

end
