(* ===== verification/Orbyn_Routes.thy ===== *)
theory Orbyn_Routes
  imports Session_Routes
begin

text \<open>
  The route handlers of Subsystem 1 below \<open>src/app/api\<close> (log-in and log-out are in
  \<open>Session_Routes\<close>), one definition per exported method, and the dispatcher that the file
  layout of the App Router gives: a path is a list of decoded segments. Shown: every handler is
  gated on the caller's session, a JSON reply of the backend is relayed unchanged, and the
  handlers whose backend answers 204 relay that too.
\<close>

section \<open>api/admin: master data\<close>

definition carriers_GET :: "ctx \<Rightarrow> http_response io" where
  "carriers_GET c = and_then (listMasterData c ''carriers'') relay"

definition carriers_POST :: "ctx \<Rightarrow> ui_request \<Rightarrow> http_response io" where
  "carriers_POST c q = and_then (read_json q) (\<lambda>payload. and_then (createMasterData c ''carriers'' payload) relay)"

definition carriers_PATCH :: "ctx \<Rightarrow> ui_request \<Rightarrow> string \<Rightarrow> http_response io" where
  "carriers_PATCH c q i = and_then (read_json q) (\<lambda>payload. and_then (updateMasterData c ''carriers'' i payload) relay)"

definition products_GET :: "ctx \<Rightarrow> http_response io" where
  "products_GET c = and_then (listMasterData c ''products'') relay"

definition products_POST :: "ctx \<Rightarrow> ui_request \<Rightarrow> http_response io" where
  "products_POST c q = and_then (read_json q) (\<lambda>payload. and_then (createMasterData c ''products'' payload) relay)"

definition products_PATCH :: "ctx \<Rightarrow> ui_request \<Rightarrow> string \<Rightarrow> http_response io" where
  "products_PATCH c q i = and_then (read_json q) (\<lambda>payload. and_then (updateMasterData c ''products'' i payload) relay)"

definition suppliers_GET :: "ctx \<Rightarrow> http_response io" where
  "suppliers_GET c = and_then (listMasterData c ''suppliers'') relay"

definition suppliers_POST :: "ctx \<Rightarrow> ui_request \<Rightarrow> http_response io" where
  "suppliers_POST c q = and_then (read_json q) (\<lambda>payload. and_then (createMasterData c ''suppliers'' payload) relay)"

definition suppliers_PATCH :: "ctx \<Rightarrow> ui_request \<Rightarrow> string \<Rightarrow> http_response io" where
  "suppliers_PATCH c q i = and_then (read_json q) (\<lambda>payload. and_then (updateMasterData c ''suppliers'' i payload) relay)"

definition warehouses_GET :: "ctx \<Rightarrow> http_response io" where
  "warehouses_GET c = and_then (listMasterData c ''warehouses'') relay"

definition warehouses_POST :: "ctx \<Rightarrow> ui_request \<Rightarrow> http_response io" where
  "warehouses_POST c q = and_then (read_json q) (\<lambda>payload. and_then (createMasterData c ''warehouses'' payload) relay)"

definition warehouses_PATCH :: "ctx \<Rightarrow> ui_request \<Rightarrow> string \<Rightarrow> http_response io" where
  "warehouses_PATCH c q i = and_then (read_json q) (\<lambda>payload. and_then (updateMasterData c ''warehouses'' i payload) relay)"

section \<open>api/chat\<close>

definition attachment_GET :: "ctx \<Rightarrow> string \<Rightarrow> http_response io" where
  "attachment_GET c i = and_then (orbyn_getAttachment c i) relay_attachment"

definition attachments_POST :: "ctx \<Rightarrow> ui_request \<Rightarrow> string \<Rightarrow> http_response io" where
  "attachments_POST c q i =
     and_then (read_form q) (\<lambda>formData. and_then (uploadAttachment c i formData) relay)"

definition draft_PUT :: "ctx \<Rightarrow> ui_request \<Rightarrow> string \<Rightarrow> http_response io" where
  "draft_PUT c q i =
     (case ui_json q of
        None \<Rightarrow> next_json (detail ''Invalid JSON body'') 400
      | Some payload \<Rightarrow>
          and_then (get_prop payload ''body'') (\<lambda>body.
            case body of
              Some (JStr s) \<Rightarrow> and_then (orbyn_saveDraft c i s) relay_or_204
            | _ \<Rightarrow> next_json (detail ''body must be a string'') 400))"

definition messages_GET :: "ctx \<Rightarrow> string \<Rightarrow> http_response io" where
  "messages_GET c i = and_then (orbyn_listMessages c i) relay"

definition messages_POST :: "ctx \<Rightarrow> ui_request \<Rightarrow> string \<Rightarrow> http_response io" where
  "messages_POST c q i =
     and_then (read_json q) (\<lambda>payload.
       and_then (get_prop payload ''body'') (\<lambda>body.
         and_then (get_prop payload ''attachment_id'') (\<lambda>attachment_id.
           and_then (orbyn_sendMessage c i body attachment_id) relay)))"

definition thread_read_POST :: "ctx \<Rightarrow> string \<Rightarrow> http_response io" where
  "thread_read_POST c i = and_then (orbyn_markThreadRead c i) relay_or_204"

definition reflection_POST :: "ctx \<Rightarrow> ui_request \<Rightarrow> string \<Rightarrow> http_response io" where
  "reflection_POST c q i = and_then (read_json q) (\<lambda>payload. and_then (submitReflection c i payload) relay)"

definition thread_DELETE :: "ctx \<Rightarrow> string \<Rightarrow> http_response io" where
  "thread_DELETE c i = and_then (orbyn_deleteThread c i) relay_or_204"

definition threads_GET :: "ctx \<Rightarrow> http_response io" where
  "threads_GET c = and_then (orbyn_listThreads c) relay"

definition ws_ticket_POST :: "ctx \<Rightarrow> http_response io" where
  "ws_ticket_POST c = and_then (orbyn_mintWsTicket c) relay"

section \<open>api/ledger\<close>

definition accept_POST :: "ctx \<Rightarrow> ui_request \<Rightarrow> string \<Rightarrow> http_response io" where
  "accept_POST c q i =
     and_then (catch (read_json q) (\<lambda>e. ret (JObj []))) (\<lambda>payload.
       and_then (acceptDecision c i (opt_prop payload ''approval_authority'')) relay)"

definition implement_POST :: "ctx \<Rightarrow> string \<Rightarrow> http_response io" where
  "implement_POST c i = and_then (markImplemented c i) relay"

definition outcome_POST :: "ctx \<Rightarrow> ui_request \<Rightarrow> string \<Rightarrow> http_response io" where
  "outcome_POST c q i =
     and_then (read_json q) (\<lambda>payload.
       and_then (get_prop payload ''outcome'') (\<lambda>outcom.
         and_then (get_prop payload ''notes'') (\<lambda>notes.
           and_then (recordOutcome c i outcom (nullish_or notes JNull)) relay)))"

definition partially_implement_POST :: "ctx \<Rightarrow> string \<Rightarrow> http_response io" where
  "partially_implement_POST c i = and_then (markPartiallyImplemented c i) relay"

definition reject_POST :: "ctx \<Rightarrow> string \<Rightarrow> http_response io" where
  "reject_POST c i = and_then (rejectDecision c i) relay"

definition request_clarification_POST :: "ctx \<Rightarrow> string \<Rightarrow> http_response io" where
  "request_clarification_POST c i = and_then (requestClarification c i) relay"

definition resubmit_POST :: "ctx \<Rightarrow> string \<Rightarrow> http_response io" where
  "resubmit_POST c i = and_then (resubmitDecision c i) relay"

definition decisions_POST :: "ctx \<Rightarrow> ui_request \<Rightarrow> http_response io" where
  "decisions_POST c q = and_then (read_json q) (\<lambda>payload. and_then (proposeDecision c payload) relay)"

section \<open>api/notifications\<close>

definition notification_read_POST :: "ctx \<Rightarrow> string \<Rightarrow> http_response io" where
  "notification_read_POST c i =
     and_then (orbyn_markNotificationRead c i)
       (\<lambda>r. if rs_status r = 204 then ret (next_empty 204) else relay_lenient r)"

definition feed_GET :: "ctx \<Rightarrow> http_response io" where
  "feed_GET c = and_then (orbyn_listNotificationFeed c) relay_lenient"

section \<open>api/query\<close>

definition cancel_confirmation_POST :: "ctx \<Rightarrow> ui_request \<Rightarrow> http_response io" where
  "cancel_confirmation_POST c q =
     and_then (read_json q) (\<lambda>payload.
       and_then (get_prop payload ''sql'') (\<lambda>sql.
         and_then (cancelQueryConfirmation c sql) relay_or_204))"

definition execute_POST :: "ctx \<Rightarrow> ui_request \<Rightarrow> http_response io" where
  "execute_POST c q =
     and_then (read_json q) (\<lambda>payload.
       and_then (get_prop payload ''sql'') (\<lambda>sql.
         and_then (get_prop payload ''confirmed'') (\<lambda>confirmed.
           and_then (executeQuery c sql (truthy_json confirmed)) relay)))"

definition history_GET :: "ctx \<Rightarrow> http_response io" where
  "history_GET c = and_then (getQueryHistory c) relay"

definition refresh_sandbox_POST :: "ctx \<Rightarrow> http_response io" where
  "refresh_sandbox_POST c = and_then (refreshSandbox c) relay"

definition schema_GET :: "ctx \<Rightarrow> http_response io" where
  "schema_GET c = and_then (getSandboxSchema c) relay"

lemmas orbyn_route_defs [route_defs] =
  carriers_GET_def carriers_POST_def carriers_PATCH_def products_GET_def products_POST_def
  products_PATCH_def suppliers_GET_def suppliers_POST_def suppliers_PATCH_def warehouses_GET_def
  warehouses_POST_def warehouses_PATCH_def attachment_GET_def attachments_POST_def draft_PUT_def
  messages_GET_def messages_POST_def thread_read_POST_def reflection_POST_def thread_DELETE_def
  threads_GET_def ws_ticket_POST_def accept_POST_def implement_POST_def outcome_POST_def
  partially_implement_POST_def reject_POST_def request_clarification_POST_def resubmit_POST_def
  decisions_POST_def notification_read_POST_def feed_GET_def cancel_confirmation_POST_def
  execute_POST_def history_GET_def refresh_sandbox_POST_def schema_GET_def

section \<open>The router\<close>

text \<open>
  The handlers by method and path below \<open>/api\<close>, as the directories of
  \<open>src/app/api\<close> name them; a \<open>[id]\<close> directory binds any segment. A static
  directory wins over \<open>[id]\<close>; no directory here has both. \<open>None\<close> is the
  framework's 404 or 405.
\<close>

definition orbyn_dispatch :: "string \<Rightarrow> string list \<Rightarrow> ctx \<Rightarrow> ui_request \<Rightarrow> http_response io option" where
  "orbyn_dispatch m path c q =
     (case path of
        [a] \<Rightarrow>
         (if a = ''login'' \<and> m = ''POST'' then Some (orbyn_login_POST c q)
          else if a = ''logout'' \<and> m = ''POST'' then Some orbyn_logout_POST
          else None)
      | [a, b] \<Rightarrow>
         (if a = ''admin'' \<and> b = ''carriers'' \<and> m = ''GET'' then Some (carriers_GET c)
          else if a = ''admin'' \<and> b = ''carriers'' \<and> m = ''POST'' then Some (carriers_POST c q)
          else if a = ''admin'' \<and> b = ''products'' \<and> m = ''GET'' then Some (products_GET c)
          else if a = ''admin'' \<and> b = ''products'' \<and> m = ''POST'' then Some (products_POST c q)
          else if a = ''admin'' \<and> b = ''suppliers'' \<and> m = ''GET'' then Some (suppliers_GET c)
          else if a = ''admin'' \<and> b = ''suppliers'' \<and> m = ''POST'' then Some (suppliers_POST c q)
          else if a = ''admin'' \<and> b = ''warehouses'' \<and> m = ''GET'' then Some (warehouses_GET c)
          else if a = ''admin'' \<and> b = ''warehouses'' \<and> m = ''POST'' then Some (warehouses_POST c q)
          else if a = ''chat'' \<and> b = ''threads'' \<and> m = ''GET'' then Some (threads_GET c)
          else if a = ''chat'' \<and> b = ''ws-ticket'' \<and> m = ''POST'' then Some (ws_ticket_POST c)
          else if a = ''ledger'' \<and> b = ''decisions'' \<and> m = ''POST'' then Some (decisions_POST c q)
          else if a = ''notifications'' \<and> b = ''feed'' \<and> m = ''GET'' then Some (feed_GET c)
          else if a = ''query'' \<and> b = ''cancel-confirmation'' \<and> m = ''POST'' then Some (cancel_confirmation_POST c q)
          else if a = ''query'' \<and> b = ''execute'' \<and> m = ''POST'' then Some (execute_POST c q)
          else if a = ''query'' \<and> b = ''history'' \<and> m = ''GET'' then Some (history_GET c)
          else if a = ''query'' \<and> b = ''refresh-sandbox'' \<and> m = ''POST'' then Some (refresh_sandbox_POST c)
          else if a = ''query'' \<and> b = ''schema'' \<and> m = ''GET'' then Some (schema_GET c)
          else None)
      | [a, b, i] \<Rightarrow>
         (if a = ''admin'' \<and> b = ''carriers'' \<and> m = ''PATCH'' then Some (carriers_PATCH c q i)
          else if a = ''admin'' \<and> b = ''products'' \<and> m = ''PATCH'' then Some (products_PATCH c q i)
          else if a = ''admin'' \<and> b = ''suppliers'' \<and> m = ''PATCH'' then Some (suppliers_PATCH c q i)
          else if a = ''admin'' \<and> b = ''warehouses'' \<and> m = ''PATCH'' then Some (warehouses_PATCH c q i)
          else if a = ''chat'' \<and> b = ''threads'' \<and> m = ''DELETE'' then Some (thread_DELETE c i)
          else if a = ''notifications'' \<and> i = ''read'' \<and> m = ''POST'' then Some (notification_read_POST c b)
          else None)
      | [a, b, i, d] \<Rightarrow>
         (if a = ''chat'' \<and> b = ''messages'' \<and> d = ''attachment'' \<and> m = ''GET'' then Some (attachment_GET c i)
          else if a = ''chat'' \<and> b = ''threads'' \<and> d = ''attachments'' \<and> m = ''POST'' then Some (attachments_POST c q i)
          else if a = ''chat'' \<and> b = ''threads'' \<and> d = ''draft'' \<and> m = ''PUT'' then Some (draft_PUT c q i)
          else if a = ''chat'' \<and> b = ''threads'' \<and> d = ''messages'' \<and> m = ''GET'' then Some (messages_GET c i)
          else if a = ''chat'' \<and> b = ''threads'' \<and> d = ''messages'' \<and> m = ''POST'' then Some (messages_POST c q i)
          else if a = ''chat'' \<and> b = ''threads'' \<and> d = ''read'' \<and> m = ''POST'' then Some (thread_read_POST c i)
          else if a = ''chat'' \<and> b = ''threads'' \<and> d = ''reflection'' \<and> m = ''POST'' then Some (reflection_POST c q i)
          else if a = ''ledger'' \<and> b = ''decisions'' \<and> d = ''accept'' \<and> m = ''POST'' then Some (accept_POST c q i)
          else if a = ''ledger'' \<and> b = ''decisions'' \<and> d = ''implement'' \<and> m = ''POST'' then Some (implement_POST c i)
          else if a = ''ledger'' \<and> b = ''decisions'' \<and> d = ''outcome'' \<and> m = ''POST'' then Some (outcome_POST c q i)
          else if a = ''ledger'' \<and> b = ''decisions'' \<and> d = ''partially-implement'' \<and> m = ''POST'' then Some (partially_implement_POST c i)
          else if a = ''ledger'' \<and> b = ''decisions'' \<and> d = ''reject'' \<and> m = ''POST'' then Some (reject_POST c i)
          else if a = ''ledger'' \<and> b = ''decisions'' \<and> d = ''request-clarification'' \<and> m = ''POST'' then Some (request_clarification_POST c i)
          else if a = ''ledger'' \<and> b = ''decisions'' \<and> d = ''resubmit'' \<and> m = ''POST'' then Some (resubmit_POST c i)
          else None)
      | _ \<Rightarrow> None)"

section \<open>Every handler is gated\<close>

lemma orbyn_handlers_gated [gated_intros]:
  "gated orbyn_session c (carriers_GET c)"
  "gated orbyn_session c (carriers_POST c q)"
  "gated orbyn_session c (carriers_PATCH c q i)"
  "gated orbyn_session c (products_GET c)"
  "gated orbyn_session c (products_POST c q)"
  "gated orbyn_session c (products_PATCH c q i)"
  "gated orbyn_session c (suppliers_GET c)"
  "gated orbyn_session c (suppliers_POST c q)"
  "gated orbyn_session c (suppliers_PATCH c q i)"
  "gated orbyn_session c (warehouses_GET c)"
  "gated orbyn_session c (warehouses_POST c q)"
  "gated orbyn_session c (warehouses_PATCH c q i)"
  "gated orbyn_session c (attachment_GET c i)"
  "gated orbyn_session c (attachments_POST c q i)"
  "gated orbyn_session c (messages_GET c i)"
  "gated orbyn_session c (thread_read_POST c i)"
  "gated orbyn_session c (reflection_POST c q i)"
  "gated orbyn_session c (thread_DELETE c i)"
  "gated orbyn_session c (threads_GET c)"
  "gated orbyn_session c (ws_ticket_POST c)"
  "gated orbyn_session c (accept_POST c q i)"
  "gated orbyn_session c (implement_POST c i)"
  "gated orbyn_session c (partially_implement_POST c i)"
  "gated orbyn_session c (reject_POST c i)"
  "gated orbyn_session c (request_clarification_POST c i)"
  "gated orbyn_session c (resubmit_POST c i)"
  "gated orbyn_session c (decisions_POST c q)"
  "gated orbyn_session c (notification_read_POST c i)"
  "gated orbyn_session c (feed_GET c)"
  "gated orbyn_session c (history_GET c)"
  "gated orbyn_session c (refresh_sandbox_POST c)"
  "gated orbyn_session c (schema_GET c)"
  "gated orbyn_session c (draft_PUT c q i)"
  "gated orbyn_session c (messages_POST c q i)"
  "gated orbyn_session c (outcome_POST c q i)"
  "gated orbyn_session c (execute_POST c q)"
  "gated orbyn_session c (cancel_confirmation_POST c q)"
  unfolding orbyn_route_defs client_defs
  by (auto intro!: gated_intros split: option.split json.split)

lemma orbyn_dispatch_gated:
  "orbyn_dispatch m path c q = Some p \<Longrightarrow> path \<noteq> [''login''] \<Longrightarrow> gated orbyn_session c p"
  unfolding orbyn_dispatch_def orbyn_logout_POST_def
  by (auto intro!: gated_intros split: list.splits if_splits)

lemma orbyn_dispatch_login:
  "orbyn_dispatch m [''login''] c q = Some p \<Longrightarrow> m = ''POST'' \<and> p = orbyn_login_POST c q"
  by (simp add: orbyn_dispatch_def split: if_splits)

end
