(* ===== verification/Builder_Routes.thy ===== *)
theory Builder_Routes
  imports Session_Routes
begin

text \<open>
  The route handlers of Subsystem 2 below \<open>src/app/api\<close> (log-in, log-out and the
  expired-session route are in \<open>Session_Routes\<close>) and their dispatcher. Shown: every handler is
  gated on the Builder's session.
\<close>

section \<open>api/chat\<close>

definition b_attachment_GET :: "ctx \<Rightarrow> string \<Rightarrow> http_response io" where
  "b_attachment_GET c i = and_then (builder_getAttachment c i) relay_attachment"

definition b_notification_read_POST :: "ctx \<Rightarrow> string \<Rightarrow> http_response io" where
  "b_notification_read_POST c i = and_then (builder_markNotificationRead c i) relay_or_204"

definition b_notifications_GET :: "ctx \<Rightarrow> http_response io" where
  "b_notifications_GET c = and_then (listNotifications c) relay"

definition b_complete_POST :: "ctx \<Rightarrow> string \<Rightarrow> http_response io" where
  "b_complete_POST c i = and_then (completeThread c i) relay"

definition b_draft_PUT :: "ctx \<Rightarrow> ui_request \<Rightarrow> string \<Rightarrow> http_response io" where
  "b_draft_PUT c q i = 
     (case ui_json q of
        None \<Rightarrow> next_json (detail ''Invalid JSON body'') 400
      | Some payload \<Rightarrow>
          and_then (get_prop payload ''body'') (\<lambda>body.
            case body of
              Some (JStr s) \<Rightarrow> and_then (builder_saveDraft c i s) relay_or_204
            | _ \<Rightarrow> next_json (detail ''body must be a string'') 400))"

definition b_messages_GET :: "ctx \<Rightarrow> string \<Rightarrow> http_response io" where
  "b_messages_GET c i = and_then (builder_listMessages c i) relay"

definition b_messages_POST :: "ctx \<Rightarrow> ui_request \<Rightarrow> string \<Rightarrow> http_response io" where
  "b_messages_POST c q i = 
     and_then (read_json q) (\<lambda>payload.
       and_then (get_prop payload ''body'') (\<lambda>body.
         and_then (builder_sendMessage c i body) relay))"

definition b_thread_read_POST :: "ctx \<Rightarrow> string \<Rightarrow> http_response io" where
  "b_thread_read_POST c i = and_then (builder_markThreadRead c i) relay_or_204"

definition b_thread_DELETE :: "ctx \<Rightarrow> string \<Rightarrow> http_response io" where
  "b_thread_DELETE c i = and_then (builder_deleteThread c i) relay_or_204"

definition b_sufficiency_check_POST :: "ctx \<Rightarrow> string \<Rightarrow> http_response io" where
  "b_sufficiency_check_POST c i = and_then (checkSufficiency c i) relay"

definition b_suggest_opening_POST :: "ctx \<Rightarrow> ui_request \<Rightarrow> string \<Rightarrow> http_response io" where
  "b_suggest_opening_POST c q i = 
     and_then (read_json q) (\<lambda>payload.
       and_then (get_prop payload ''attitude'') (\<lambda>attitude.
         and_then (suggestOpening c i attitude) relay))"

definition b_suggest_pushback_POST :: "ctx \<Rightarrow> ui_request \<Rightarrow> string \<Rightarrow> http_response io" where
  "b_suggest_pushback_POST c q i = 
     and_then (read_json q) (\<lambda>payload.
       and_then (get_prop payload ''attitude'') (\<lambda>attitude.
         and_then (suggestPushback c i attitude) relay))"

definition b_threads_GET :: "ctx \<Rightarrow> http_response io" where
  "b_threads_GET c = and_then (builder_listThreads c) relay"

definition b_threads_POST :: "ctx \<Rightarrow> ui_request \<Rightarrow> http_response io" where
  "b_threads_POST c q = 
     and_then (read_json q) (\<lambda>payload.
       and_then (get_prop payload ''scenario_id'') (\<lambda>scenario_id.
         and_then (get_prop payload ''persona'') (\<lambda>persona.
           and_then (createThread c scenario_id persona) relay)))"

definition b_ws_ticket_POST :: "ctx \<Rightarrow> http_response io" where
  "b_ws_ticket_POST c = and_then (builder_mintWsTicket c) relay"

section \<open>api/evaluations and api/portfolio\<close>

definition b_human_review_GET :: "ctx \<Rightarrow> string \<Rightarrow> http_response io" where
  "b_human_review_GET c i = and_then (getHumanReview c i) relay"

definition b_human_review_POST :: "ctx \<Rightarrow> ui_request \<Rightarrow> string \<Rightarrow> http_response io" where
  "b_human_review_POST c q i = 
     and_then (read_json q) (\<lambda>payload. and_then (submitHumanReview c i payload) relay)"

definition b_evaluation_GET :: "ctx \<Rightarrow> string \<Rightarrow> http_response io" where
  "b_evaluation_GET c i = and_then (getEvaluation c i) relay"

definition b_portfolio_GET :: "ctx \<Rightarrow> string \<Rightarrow> http_response io" where
  "b_portfolio_GET c i = and_then (getPortfolioExport c i) relay"

section \<open>api/scenarios and api/simulation\<close>

definition b_activate_POST :: "ctx \<Rightarrow> string \<Rightarrow> http_response io" where
  "b_activate_POST c i = and_then (activateScenario c i) relay"

definition b_approve_POST :: "ctx \<Rightarrow> string \<Rightarrow> http_response io" where
  "b_approve_POST c i = and_then (approveScenario c i) relay"

definition b_cancel_POST :: "ctx \<Rightarrow> string \<Rightarrow> http_response io" where
  "b_cancel_POST c i = and_then (cancelScenario c i) relay"

definition b_expected_query_run_POST :: "ctx \<Rightarrow> string \<Rightarrow> http_response io" where
  "b_expected_query_run_POST c i = and_then (runExpectedQuery c i) relay"

definition b_ground_truth_PATCH :: "ctx \<Rightarrow> ui_request \<Rightarrow> string \<Rightarrow> http_response io" where
  "b_ground_truth_PATCH c q i = 
     (case ui_json q of
        None \<Rightarrow> next_json (detail ''Invalid request body'') 400
      | Some payload \<Rightarrow> and_then (updateGroundTruth c i payload) relay)"

definition b_regenerate_expected_query_POST :: "ctx \<Rightarrow> string \<Rightarrow> http_response io" where
  "b_regenerate_expected_query_POST c i = and_then (regenerateExpectedQuery c i) relay_lenient"

definition b_regenerate_narrative_POST :: "ctx \<Rightarrow> string \<Rightarrow> http_response io" where
  "b_regenerate_narrative_POST c i = and_then (regenerateNarrative c i) relay_lenient"

definition b_regenerate_POST :: "ctx \<Rightarrow> string \<Rightarrow> http_response io" where
  "b_regenerate_POST c i = and_then (regenerateScenario c i) relay"

definition b_scenario_threads_GET :: "ctx \<Rightarrow> string \<Rightarrow> http_response io" where
  "b_scenario_threads_GET c i = and_then (listThreadsForScenario c i) relay"

definition b_scenarios_POST :: "ctx \<Rightarrow> ui_request \<Rightarrow> http_response io" where
  "b_scenarios_POST c q = 
     (case ui_json q of
        None \<Rightarrow> next_json (detail ''Invalid request body'') 400
      | Some payload \<Rightarrow> and_then (createScenario c payload) relay)"

definition b_repopulate_POST :: "ctx \<Rightarrow> ui_request \<Rightarrow> http_response io" where
  "b_repopulate_POST c q = 
     (case ui_json q of
        None \<Rightarrow> next_json (detail ''Invalid request body'') 400
      | Some payload \<Rightarrow> and_then (startRepopulate c payload) relay_lenient)"

definition b_repopulate_status_GET :: "ctx \<Rightarrow> http_response io" where
  "b_repopulate_status_GET c = and_then (getRepopulateStatus c) relay_lenient"

lemmas builder_route_defs [route_defs] =
  b_attachment_GET_def b_notification_read_POST_def b_notifications_GET_def b_complete_POST_def
  b_draft_PUT_def b_messages_GET_def b_messages_POST_def b_thread_read_POST_def
  b_thread_DELETE_def b_sufficiency_check_POST_def b_suggest_opening_POST_def
  b_suggest_pushback_POST_def b_threads_GET_def b_threads_POST_def b_ws_ticket_POST_def
  b_human_review_GET_def b_human_review_POST_def b_evaluation_GET_def b_portfolio_GET_def
  b_activate_POST_def b_approve_POST_def b_cancel_POST_def b_expected_query_run_POST_def
  b_ground_truth_PATCH_def b_regenerate_expected_query_POST_def b_regenerate_narrative_POST_def
  b_regenerate_POST_def b_scenario_threads_GET_def b_scenarios_POST_def b_repopulate_POST_def
  b_repopulate_status_GET_def

section \<open>The router\<close>

text \<open>
  The handlers by method and path below \<open>/api\<close>. \<open>[id]\<close> binds any segment;
  \<open>simulation/repopulate/status\<close> is static.
\<close>

definition builder_dispatch :: "string \<Rightarrow> string list \<Rightarrow> ctx \<Rightarrow> ui_request \<Rightarrow> http_response io option" where
  "builder_dispatch m path c q =
     (case path of
        [a] \<Rightarrow>
         (if a = ''scenarios'' \<and> m = ''POST'' then Some (b_scenarios_POST c q)
          else if a = ''login'' \<and> m = ''POST'' then Some (builder_login_POST c q)
          else if a = ''logout'' \<and> m = ''POST'' then Some builder_logout_POST
          else if a = ''session-expired'' \<and> m = ''GET'' then Some (ret session_expired_GET)
          else None)
      | [a, b] \<Rightarrow>
         (if a = ''chat'' \<and> b = ''notifications'' \<and> m = ''GET'' then Some (b_notifications_GET c)
          else if a = ''chat'' \<and> b = ''threads'' \<and> m = ''GET'' then Some (b_threads_GET c)
          else if a = ''chat'' \<and> b = ''threads'' \<and> m = ''POST'' then Some (b_threads_POST c q)
          else if a = ''chat'' \<and> b = ''ws-ticket'' \<and> m = ''POST'' then Some (b_ws_ticket_POST c)
          else if a = ''simulation'' \<and> b = ''repopulate'' \<and> m = ''POST'' then Some (b_repopulate_POST c q)
          else None)
      | [a, b, i] \<Rightarrow>
         (if a = ''chat'' \<and> b = ''threads'' \<and> m = ''DELETE'' then Some (b_thread_DELETE c i)
          else if a = ''evaluations'' \<and> b = ''threads'' \<and> m = ''GET'' then Some (b_evaluation_GET c i)
          else if a = ''portfolio'' \<and> b = ''threads'' \<and> m = ''GET'' then Some (b_portfolio_GET c i)
          else if a = ''simulation'' \<and> b = ''repopulate'' \<and> i = ''status'' \<and> m = ''GET'' then Some (b_repopulate_status_GET c)
          else if a = ''scenarios'' \<and> i = ''activate'' \<and> m = ''POST'' then Some (b_activate_POST c b)
          else if a = ''scenarios'' \<and> i = ''approve'' \<and> m = ''POST'' then Some (b_approve_POST c b)
          else if a = ''scenarios'' \<and> i = ''cancel'' \<and> m = ''POST'' then Some (b_cancel_POST c b)
          else if a = ''scenarios'' \<and> i = ''ground-truth'' \<and> m = ''PATCH'' then Some (b_ground_truth_PATCH c q b)
          else if a = ''scenarios'' \<and> i = ''regenerate-expected-query'' \<and> m = ''POST'' then Some (b_regenerate_expected_query_POST c b)
          else if a = ''scenarios'' \<and> i = ''regenerate-narrative'' \<and> m = ''POST'' then Some (b_regenerate_narrative_POST c b)
          else if a = ''scenarios'' \<and> i = ''regenerate'' \<and> m = ''POST'' then Some (b_regenerate_POST c b)
          else if a = ''scenarios'' \<and> i = ''threads'' \<and> m = ''GET'' then Some (b_scenario_threads_GET c b)
          else None)
      | [a, b, i, d] \<Rightarrow>
         (if a = ''chat'' \<and> b = ''messages'' \<and> d = ''attachment'' \<and> m = ''GET'' then Some (b_attachment_GET c i)
          else if a = ''chat'' \<and> b = ''notifications'' \<and> d = ''read'' \<and> m = ''POST'' then Some (b_notification_read_POST c i)
          else if a = ''chat'' \<and> b = ''threads'' \<and> d = ''complete'' \<and> m = ''POST'' then Some (b_complete_POST c i)
          else if a = ''chat'' \<and> b = ''threads'' \<and> d = ''draft'' \<and> m = ''PUT'' then Some (b_draft_PUT c q i)
          else if a = ''chat'' \<and> b = ''threads'' \<and> d = ''messages'' \<and> m = ''GET'' then Some (b_messages_GET c i)
          else if a = ''chat'' \<and> b = ''threads'' \<and> d = ''messages'' \<and> m = ''POST'' then Some (b_messages_POST c q i)
          else if a = ''chat'' \<and> b = ''threads'' \<and> d = ''read'' \<and> m = ''POST'' then Some (b_thread_read_POST c i)
          else if a = ''chat'' \<and> b = ''threads'' \<and> d = ''sufficiency-check'' \<and> m = ''POST'' then Some (b_sufficiency_check_POST c i)
          else if a = ''chat'' \<and> b = ''threads'' \<and> d = ''suggest-opening'' \<and> m = ''POST'' then Some (b_suggest_opening_POST c q i)
          else if a = ''chat'' \<and> b = ''threads'' \<and> d = ''suggest-pushback'' \<and> m = ''POST'' then Some (b_suggest_pushback_POST c q i)
          else if a = ''evaluations'' \<and> b = ''threads'' \<and> d = ''human-review'' \<and> m = ''GET'' then Some (b_human_review_GET c i)
          else if a = ''evaluations'' \<and> b = ''threads'' \<and> d = ''human-review'' \<and> m = ''POST'' then Some (b_human_review_POST c q i)
          else if a = ''scenarios'' \<and> i = ''expected-query'' \<and> d = ''run'' \<and> m = ''POST'' then Some (b_expected_query_run_POST c b)
          else None)
      | _ \<Rightarrow> None)"

section \<open>Every handler is gated\<close>

lemma builder_handlers_gated [gated_intros]:
  "gated builder_session c (b_attachment_GET c i)"
  "gated builder_session c (b_notification_read_POST c i)"
  "gated builder_session c (b_notifications_GET c)"
  "gated builder_session c (b_complete_POST c i)"
  "gated builder_session c (b_draft_PUT c q i)"
  "gated builder_session c (b_messages_GET c i)"
  "gated builder_session c (b_messages_POST c q i)"
  "gated builder_session c (b_thread_read_POST c i)"
  "gated builder_session c (b_thread_DELETE c i)"
  "gated builder_session c (b_sufficiency_check_POST c i)"
  "gated builder_session c (b_suggest_opening_POST c q i)"
  "gated builder_session c (b_suggest_pushback_POST c q i)"
  "gated builder_session c (b_threads_GET c)"
  "gated builder_session c (b_threads_POST c q)"
  "gated builder_session c (b_ws_ticket_POST c)"
  "gated builder_session c (b_human_review_GET c i)"
  "gated builder_session c (b_human_review_POST c q i)"
  "gated builder_session c (b_evaluation_GET c i)"
  "gated builder_session c (b_portfolio_GET c i)"
  "gated builder_session c (b_activate_POST c i)"
  "gated builder_session c (b_approve_POST c i)"
  "gated builder_session c (b_cancel_POST c i)"
  "gated builder_session c (b_expected_query_run_POST c i)"
  "gated builder_session c (b_ground_truth_PATCH c q i)"
  "gated builder_session c (b_regenerate_expected_query_POST c i)"
  "gated builder_session c (b_regenerate_narrative_POST c i)"
  "gated builder_session c (b_regenerate_POST c i)"
  "gated builder_session c (b_scenario_threads_GET c i)"
  "gated builder_session c (b_scenarios_POST c q)"
  "gated builder_session c (b_repopulate_POST c q)"
  "gated builder_session c (b_repopulate_status_GET c)"
  unfolding builder_route_defs client_defs Let_def
  by (auto intro!: gated_intros split: option.split json.split)

lemma builder_dispatch_gated:
  "builder_dispatch m path c q = Some p \<Longrightarrow> path \<noteq> [''login''] \<Longrightarrow> gated builder_session c p"
  unfolding builder_dispatch_def builder_logout_POST_def
  by (auto intro!: gated_intros split: list.splits if_splits)

lemma builder_dispatch_login:
  "builder_dispatch m [''login''] c q = Some p \<Longrightarrow> m = ''POST'' \<and> p = builder_login_POST c q"
  by (simp add: builder_dispatch_def split: if_splits)

end
