(* ===== verification/Api_Relay.thy ===== *)
theory Api_Relay
  imports Orbyn_Routes Builder_Routes
begin

text \<open>
  What a route handler does with the backend's answer, over the two dispatchers
  (\<open>src/app/api\<close> of Subsystem 1 and of the Builder): a calculus like that of the gates, for
  programs that make one call at most and pass its reply on.
\<close>

section \<open>One call\<close>

definition one_call :: "http_response io \<Rightarrow> bool" where
  "one_call p \<longleftrightarrow>
     (\<forall>net. sent p net = []
        \<or> (\<exists>rq. sent p net = [rq]
             \<and> result p net = (case net rq of NetError \<Rightarrow> Thrown TypeErr | Reply r \<Rightarrow> Returned r)))"

text \<open>A JSON reply is passed on as it is, with its status; without a reply the handler rejects.\<close>

definition passes_on :: "http_response io \<Rightarrow> bool" where
  "passes_on p \<longleftrightarrow>
     (\<forall>net rq. sent p net = [rq] \<longrightarrow>
        (case net rq of
           NetError \<Rightarrow> result p net = Thrown TypeErr
         | Reply r \<Rightarrow> (\<forall>j. rs_body r = BodyJson j \<longrightarrow> relayable (rs_status r) \<longrightarrow>
                        result p net = Returned (json_response j (rs_status r)))))"

named_theorems passes_intros \<open>handlers that pass the reply on\<close>

lemma one_call_gate: "one_call (session_gate k c (\<lambda>t b. fetch (f t b)))"
  by (auto simp: one_call_def session_gate_def split: option.splits fetch_result.splits)

lemma one_call_clients [passes_intros]:
  "one_call (adminFetch c path i)" "one_call (orbyn_chatFetch c path i)" "one_call (ledgerFetch c path i)"
  "one_call (uploadAttachment c th fd)" "one_call (orbyn_getAttachment c m)"
  "one_call (builder_chatFetch c path i)" "one_call (evaluationFetch c path i)" "one_call (scenarioFetch c path i)"
  "one_call (builder_getAttachment c m)"
  by (simp_all only: adminFetch_def orbyn_chatFetch_def ledgerFetch_def uploadAttachment_def orbyn_getAttachment_def
      builder_chatFetch_def evaluationFetch_def scenarioFetch_def builder_getAttachment_def one_call_gate)

lemma passes_silent: "silent p \<Longrightarrow> passes_on p"
  by (simp add: silent_def passes_on_def)

lemma passes_after_silent:
  "silent p \<Longrightarrow> (\<And>x. passes_on (f x)) \<Longrightarrow> passes_on (and_then p f)"
  unfolding silent_def passes_on_def sent_and_then result_and_then
  by (simp split: outcome.split)

lemma passes_call:
  assumes "one_call p" and "\<And>r. silent (f r)"
    and "\<And>r j. rs_body r = BodyJson j \<Longrightarrow> relayable (rs_status r) \<Longrightarrow> f r = ret (json_response j (rs_status r))"
  shows "passes_on (and_then p f)"
  unfolding passes_on_def
proof (intro allI impI)
  fix net rq
  assume s: "sent (and_then p f) net = [rq]"
  then have sp: "sent p net = [rq]"
    using assms(2) by (auto simp: sent_and_then silent_def split: outcome.splits)
  then have r: "result p net = (case net rq of NetError \<Rightarrow> Thrown TypeErr | Reply r \<Rightarrow> Returned r)"
    using assms(1) by (auto simp: one_call_def dest: spec [of _ net])
  show "case net rq of
          NetError \<Rightarrow> result (and_then p f) net = Thrown TypeErr
        | Reply r \<Rightarrow> (\<forall>j. rs_body r = BodyJson j \<longrightarrow> relayable (rs_status r) \<longrightarrow>
                       result (and_then p f) net = Returned (json_response j (rs_status r)))"
    using r assms(3) by (auto simp: result_and_then split: fetch_result.split)
qed

lemma passes_relays [passes_intros]:
  assumes "one_call p"
  shows "passes_on (and_then p relay)" "passes_on (and_then p relay_or_204)" "passes_on (and_then p relay_lenient)"
    "passes_on (and_then p (\<lambda>r. if rs_status r = 204 then ret (next_empty 204) else relay_lenient r))"
  by (rule passes_call [OF assms];
      auto simp: relay_silent silent_intros relay_json json_reply_def relayable_def null_body_status_def)+

lemma passes_shapes [passes_intros]:
  "passes_on (ret x)" "passes_on (throw e)" "passes_on (next_json j st)"
  "(\<And>j. passes_on (f j)) \<Longrightarrow> passes_on (and_then (read_json q) f)"
  "(\<And>j. passes_on (f j)) \<Longrightarrow> passes_on (and_then (catch (read_json q) (\<lambda>e. ret d)) f)"
  "(\<And>fd. passes_on (g fd)) \<Longrightarrow> passes_on (and_then (read_form q) g)"
  "(\<And>v. passes_on (h v)) \<Longrightarrow> passes_on (and_then (get_prop j key) h)"
        apply (rule passes_silent, rule silent_intros)+
     apply (erule passes_after_silent [OF silent_intros(6)])
    apply (erule passes_after_silent [OF silent_catch [OF silent_intros(6) silent_intros(1)]])
   apply (erule passes_after_silent [OF silent_intros(7)])
  apply (erule passes_after_silent [OF silent_intros(5)])
  done

section \<open>The handlers\<close>

lemma orbyn_handlers_pass [passes_intros]:
  "passes_on (carriers_GET c)" "passes_on (carriers_POST c q)" "passes_on (carriers_PATCH c q i)"
  "passes_on (products_GET c)" "passes_on (products_POST c q)" "passes_on (products_PATCH c q i)"
  "passes_on (suppliers_GET c)" "passes_on (suppliers_POST c q)" "passes_on (suppliers_PATCH c q i)"
  "passes_on (warehouses_GET c)" "passes_on (warehouses_POST c q)" "passes_on (warehouses_PATCH c q i)"
  "passes_on (attachments_POST c q i)" "passes_on (messages_GET c i)" "passes_on (thread_read_POST c i)"
  "passes_on (reflection_POST c q i)" "passes_on (thread_DELETE c i)" "passes_on (threads_GET c)"
  "passes_on (ws_ticket_POST c)" "passes_on (accept_POST c q i)" "passes_on (implement_POST c i)"
  "passes_on (partially_implement_POST c i)" "passes_on (reject_POST c i)" "passes_on (request_clarification_POST c i)"
  "passes_on (resubmit_POST c i)" "passes_on (decisions_POST c q)" "passes_on (notification_read_POST c i)"
  "passes_on (feed_GET c)" "passes_on (history_GET c)" "passes_on (refresh_sandbox_POST c)" "passes_on (schema_GET c)"
  "passes_on (draft_PUT c q i)" "passes_on (messages_POST c q i)" "passes_on (outcome_POST c q i)"
  "passes_on (execute_POST c q)" "passes_on (cancel_confirmation_POST c q)"
  unfolding orbyn_route_defs client_defs
  by (auto intro!: passes_intros split: option.split json.split)

lemma builder_handlers_pass [passes_intros]:
  "passes_on (b_notification_read_POST c i)" "passes_on (b_notifications_GET c)" "passes_on (b_complete_POST c i)"
  "passes_on (b_draft_PUT c q i)" "passes_on (b_messages_GET c i)" "passes_on (b_messages_POST c q i)"
  "passes_on (b_thread_read_POST c i)" "passes_on (b_thread_DELETE c i)" "passes_on (b_sufficiency_check_POST c i)"
  "passes_on (b_suggest_opening_POST c q i)" "passes_on (b_suggest_pushback_POST c q i)" "passes_on (b_threads_GET c)"
  "passes_on (b_threads_POST c q)" "passes_on (b_ws_ticket_POST c)" "passes_on (b_human_review_GET c i)"
  "passes_on (b_human_review_POST c q i)" "passes_on (b_evaluation_GET c i)" "passes_on (b_portfolio_GET c i)"
  "passes_on (b_activate_POST c i)" "passes_on (b_approve_POST c i)" "passes_on (b_cancel_POST c i)"
  "passes_on (b_expected_query_run_POST c i)" "passes_on (b_ground_truth_PATCH c q i)"
  "passes_on (b_regenerate_expected_query_POST c i)" "passes_on (b_regenerate_narrative_POST c i)"
  "passes_on (b_regenerate_POST c i)" "passes_on (b_scenarios_POST c q)" "passes_on (b_repopulate_POST c q)"
  "passes_on (b_repopulate_status_GET c)"
  unfolding builder_route_defs client_defs
  by (auto intro!: passes_intros split: option.split json.split)

lemma orbyn_dispatch_passes:
  "orbyn_dispatch m path c q = Some p \<Longrightarrow> path \<noteq> [''login''] \<Longrightarrow>
     \<forall>i. path \<noteq> [''chat'', ''messages'', i, ''attachment''] \<Longrightarrow> passes_on p"
  unfolding orbyn_dispatch_def orbyn_logout_POST_def
  by (auto intro!: passes_intros split: list.splits if_splits)

lemma builder_dispatch_passes:
  "builder_dispatch m path c q = Some p \<Longrightarrow> path \<noteq> [''login''] \<Longrightarrow> \<forall>i. path \<noteq> [''chat'', ''messages'', i, ''attachment''] \<Longrightarrow>
     \<forall>i. path \<noteq> [''scenarios'', i, ''threads''] \<Longrightarrow> passes_on p"
  unfolding builder_dispatch_def builder_logout_POST_def
  by (auto intro!: passes_intros split: list.splits if_splits)

end
