(* ===== verification/Draft_Buffer.thy ===== *)
theory Draft_Buffer
  imports MO_Prelude
begin

text \<open>
  The browser-local buffer in front of the server's drafts: \<open>composer-draft.ts\<close>, which is
  the same file in both applications. The locale \<open>draft_store\<close> is what the composer
  relies on; the code's functions interpret it.
\<close>

section \<open>window.localStorage\<close>

text \<open>
  Either every access throws (private browsing, disabled by policy), or there is an ordered list
  of items with distinct keys and a quota on its bytes: \<open>setItem\<close> throws when the new
  contents exceed it. \<open>None\<close> as the result of an operation is an exception.
\<close>

datatype storage = Unavailable | Store nat "(string \<times> string) list"

definition items_size :: "(string \<times> string) list \<Rightarrow> nat" where
  "items_size items = sum_list (map (\<lambda>(k, v). length k + length v) items)"

fun getItem :: "storage \<Rightarrow> string \<Rightarrow> string option option" where
  "getItem Unavailable k = None"
| "getItem (Store quota items) k = Some (map_of items k)"

fun setItem :: "storage \<Rightarrow> string \<Rightarrow> string \<Rightarrow> storage option" where
  "setItem Unavailable k v = None"
| "setItem (Store quota items) k v =
     (if items_size (put k v items) \<le> quota then Some (Store quota (put k v items)) else None)"

fun removeItem :: "storage \<Rightarrow> string \<Rightarrow> storage option" where
  "removeItem Unavailable k = None"
| "removeItem (Store quota items) k = Some (Store quota (filter (\<lambda>p. fst p \<noteq> k) items))"

section \<open>composer-draft.ts\<close>

definition storage_prefix :: string where
  "storage_prefix = ''meadowops:composer-draft:''"

definition storageKey :: "string \<Rightarrow> string" where
  "storageKey threadId = storage_prefix @ threadId"

definition loadDraftBuffer :: "storage \<Rightarrow> string \<Rightarrow> string option" where
  "loadDraftBuffer s threadId =
     (case getItem s (storageKey threadId) of Some v \<Rightarrow> v | None \<Rightarrow> None)"

definition saveDraftBuffer :: "storage \<Rightarrow> string \<Rightarrow> string \<Rightarrow> storage" where
  "saveDraftBuffer s threadId body =
     (case setItem s (storageKey threadId) body of Some s' \<Rightarrow> s' | None \<Rightarrow> s)"

definition clearDraftBuffer :: "storage \<Rightarrow> string \<Rightarrow> storage" where
  "clearDraftBuffer s threadId =
     (case removeItem s (storageKey threadId) of Some s' \<Rightarrow> s' | None \<Rightarrow> s)"

text \<open>
  \<open>clearAllDraftBuffers\<close>: the loop \<open>for (i = 0; i < localStorage.length; i++)\<close>
  collects the keys first, a second pass removes them (an index loop that removed as it went
  would skip the key after each removed one).
\<close>

function collect_keys :: "(string \<times> string) list \<Rightarrow> nat \<Rightarrow> string list \<Rightarrow> string list" where
  "collect_keys items i keys =
     (if i < length items then
        (let key = fst (items ! i) in
         collect_keys items (Suc i)
           (if key \<noteq> [] \<and> starts_with key storage_prefix then keys @ [key] else keys))
      else keys)"
  by pat_completeness auto
termination
  by (relation "measure (\<lambda>(items, i, keys). length items - i)") auto

declare collect_keys.simps [simp del]

fun remove_all :: "storage \<Rightarrow> string list \<Rightarrow> storage option" where
  "remove_all s [] = Some s"
| "remove_all s (k # ks) = (case removeItem s k of None \<Rightarrow> None | Some s' \<Rightarrow> remove_all s' ks)"

fun clearAllDraftBuffers :: "storage \<Rightarrow> storage" where
  "clearAllDraftBuffers Unavailable = Unavailable"
| "clearAllDraftBuffers (Store quota items) =
     (case remove_all (Store quota items) (collect_keys items 0 []) of
        Some s' \<Rightarrow> s' | None \<Rightarrow> Store quota items)"

text \<open>The Builder's copy of the file: the same functions over the same keys.\<close>

definition b_storage_prefix :: string where
  "b_storage_prefix = ''meadowops:composer-draft:''"

definition b_storageKey :: "string \<Rightarrow> string" where
  "b_storageKey threadId = b_storage_prefix @ threadId"

definition b_loadDraftBuffer :: "storage \<Rightarrow> string \<Rightarrow> string option" where
  "b_loadDraftBuffer s threadId =
     (case getItem s (b_storageKey threadId) of Some v \<Rightarrow> v | None \<Rightarrow> None)"

definition b_saveDraftBuffer :: "storage \<Rightarrow> string \<Rightarrow> string \<Rightarrow> storage" where
  "b_saveDraftBuffer s threadId body =
     (case setItem s (b_storageKey threadId) body of Some s' \<Rightarrow> s' | None \<Rightarrow> s)"

definition b_clearDraftBuffer :: "storage \<Rightarrow> string \<Rightarrow> storage" where
  "b_clearDraftBuffer s threadId =
     (case removeItem s (b_storageKey threadId) of Some s' \<Rightarrow> s' | None \<Rightarrow> s)"

section \<open>What clearing does\<close>

lemma collect_keys_filter:
  "collect_keys items i keys =
     keys @ filter (\<lambda>k. k \<noteq> [] \<and> starts_with k storage_prefix) (map fst (drop i items))"
proof (induction items i keys rule: collect_keys.induct)
  case (1 items i keys)
  show ?case
  proof (cases "i < length items")
    case True
    then have d: "drop i items = items ! i # drop (Suc i) items"
      by (simp add: Cons_nth_drop_Suc)
    from True 1 show ?thesis
      by (subst collect_keys.simps) (auto simp: d Let_def)
  next
    case False
    then show ?thesis by (subst collect_keys.simps) simp
  qed
qed

lemma remove_all_store:
  "remove_all (Store quota items) ks = Some (Store quota (filter (\<lambda>p. fst p \<notin> set ks) items))"
  by (induction ks arbitrary: items) (auto intro: filter_cong)

lemma prefix_nonempty: "starts_with k storage_prefix \<Longrightarrow> k \<noteq> []"
  by (auto simp: starts_with_def storage_prefix_def)

lemma clearAll_store:
  "clearAllDraftBuffers (Store quota items) =
     Store quota (filter (\<lambda>p. \<not> starts_with (fst p) storage_prefix) items)"
  by (auto simp: collect_keys_filter remove_all_store dest: prefix_nonempty intro!: filter_cong)

section \<open>The interface of the composer\<close>

text \<open>
  \<open>accepts s t b\<close>: the storage takes this write. Where it does not, a save changes nothing
  and the composer goes on in memory only.
\<close>

locale draft_store =
  fixes load :: "'s \<Rightarrow> string \<Rightarrow> string option"
    and save :: "'s \<Rightarrow> string \<Rightarrow> string \<Rightarrow> 's"
    and clear :: "'s \<Rightarrow> string \<Rightarrow> 's"
    and clear_all :: "'s \<Rightarrow> 's"
    and accepts :: "'s \<Rightarrow> string \<Rightarrow> string \<Rightarrow> bool"
  assumes load_save: "accepts s t b \<Longrightarrow> load (save s t b) u = (if u = t then Some b else load s u)"
    and save_rejected: "\<not> accepts s t b \<Longrightarrow> save s t b = s"
    and load_clear: "load (clear s t) u = (if u = t then None else load s u)"
    and load_clear_all: "load (clear_all s) u = None"
begin

lemma save_isolated: "u \<noteq> t \<Longrightarrow> load (save s t b) u = load s u"
  by (cases "accepts s t b") (simp_all add: load_save save_rejected)

fun save_run :: "'s \<Rightarrow> string \<Rightarrow> string list \<Rightarrow> 's" where
  "save_run s t [] = s"
| "save_run s t (b # bs) = save_run (save s t b) t bs"

lemma save_run_isolated: "u \<noteq> t \<Longrightarrow> load (save_run s t bs) u = load s u"
  by (induction bs arbitrary: s) (auto simp: save_isolated)

lemma save_run_snoc: "save_run s t (bs @ [b]) = save (save_run s t bs) t b"
  by (induction bs arbitrary: s) auto

lemma save_run_last:
  "accepts (save_run s t bs) t b \<Longrightarrow> load (save_run s t (bs @ [b])) t = Some b"
  by (simp add: save_run_snoc load_save)

lemma clear_save: "u \<noteq> t \<Longrightarrow> load (clear (save s t b) t) u = load s u"
  by (simp add: load_clear save_isolated)

end

definition storage_accepts :: "storage \<Rightarrow> string \<Rightarrow> string \<Rightarrow> bool" where
  "storage_accepts s threadId body \<longleftrightarrow> setItem s (storageKey threadId) body \<noteq> None"

lemma storageKey_inject [simp]: "storageKey t = storageKey u \<longleftrightarrow> t = u"
  by (simp add: storageKey_def)

lemma storageKey_prefix [simp]: "starts_with (storageKey t) storage_prefix"
  by (simp add: storageKey_def)

lemma map_of_filter_keys: "map_of (filter (\<lambda>p. P (fst p)) items) k = (if P k then map_of items k else None)"
  by (induction items) auto

interpretation drafts: draft_store loadDraftBuffer saveDraftBuffer clearDraftBuffer
    clearAllDraftBuffers storage_accepts
proof unfold_locales
  fix s t b u
  show "storage_accepts s t b \<Longrightarrow>
      loadDraftBuffer (saveDraftBuffer s t b) u = (if u = t then Some b else loadDraftBuffer s u)"
    by (cases s) (auto simp: storage_accepts_def loadDraftBuffer_def saveDraftBuffer_def split: if_splits)
  show "\<not> storage_accepts s t b \<Longrightarrow> saveDraftBuffer s t b = s"
    by (simp add: storage_accepts_def saveDraftBuffer_def)
  show "loadDraftBuffer (clearDraftBuffer s t) u = (if u = t then None else loadDraftBuffer s u)"
  proof (cases s)
    case Unavailable
    then show ?thesis by (simp add: loadDraftBuffer_def clearDraftBuffer_def)
  next
    case (Store quota items)
    then show ?thesis
      using map_of_filter_keys [of "\<lambda>k. k \<noteq> storageKey t" items "storageKey u"]
      by (simp add: loadDraftBuffer_def clearDraftBuffer_def)
  qed
  show "loadDraftBuffer (clearAllDraftBuffers s) u = None"
  proof (cases s)
    case Unavailable
    then show ?thesis by (simp add: loadDraftBuffer_def)
  next
    case (Store quota items)
    have "map_of (filter (\<lambda>p. \<not> starts_with (fst p) storage_prefix) items) (storageKey u) = None"
      by (subst map_of_filter_keys) simp
    then show ?thesis
      unfolding Store clearAll_store by (simp add: loadDraftBuffer_def)
  qed
qed

end
