(* ===== verification/Sessions.thy ===== *)
theory Sessions
  imports Orbyn_Routes Builder_Routes Draft_Buffer
begin

text \<open>
  How a session begins and ends in the two applications: what the handlers of \<open>Session_Routes\<close>
  do to the browser's cookies, and the presence-only gates
  (Subsystem 1's \<open>proxy.ts\<close>, the Builder's \<open>middleware.ts\<close>) with their matcher.
  Page loads and redirects over these are in \<open>Navigation\<close>.
\<close>

section \<open>The browser's cookie jar\<close>

text \<open>
  \<open>stringify\<close> is what the framework's cookie serialiser and the browser make of the value
  given to \<open>cookies.set\<close>; it is a parameter, with the documented fact that a string stays
  itself stated where it is used.
\<close>

fun apply_cookie :: "(json option \<Rightarrow> string) \<Rightarrow> cookie_op \<Rightarrow> (string \<times> string) list \<Rightarrow> (string \<times> string) list" where
  "apply_cookie stringify (CSet name v attrs) jar = put name (stringify v) jar"
| "apply_cookie stringify (CDelete name) jar = filter (\<lambda>p. fst p \<noteq> name) jar"

definition store_cookies :: "(json option \<Rightarrow> string) \<Rightarrow> http_response \<Rightarrow> ctx \<Rightarrow> ctx" where
  "store_cookies stringify r c = c\<lparr>cx_cookies := fold (apply_cookie stringify) (rs_cookies r) (cx_cookies c)\<rparr>"

lemma get_cookie_delete:
  "get_cookie (c\<lparr>cx_cookies := filter (\<lambda>p. fst p \<noteq> name) (cx_cookies c)\<rparr>) n =
     (if n = name then None else get_cookie c n)"
  using map_of_filter_keys [of "\<lambda>k. k \<noteq> name" "cx_cookies c" n] by (simp add: get_cookie_def)

lemma get_cookie_store:
  "get_cookie (store_cookies stringify (end_session name) c) n = (if n = name then None else get_cookie c n)"
  "get_cookie (store_cookies stringify (redirect_to path [CDelete name]) c) n =
     (if n = name then None else get_cookie c n)"
  "rs_cookies r = [CSet name v attrs] \<Longrightarrow>
     get_cookie (store_cookies stringify r c) n = (if n = name then Some (stringify v) else get_cookie c n)"
  by (simp_all add: store_cookies_def end_session_def redirect_to_def get_cookie_delete)
    (simp add: get_cookie_def)

lemma store_cookies_env [simp]:
  "cx_base_url (store_cookies stringify r c) = cx_base_url c"
  "cx_production (store_cookies stringify r c) = cx_production c"
  by (simp_all add: store_cookies_def)

section \<open>The presence-only gates\<close>

definition is_authed :: "string \<Rightarrow> ctx \<Rightarrow> bool" where
  "is_authed cookie c \<longleftrightarrow> truthy (get_cookie c cookie) \<noteq> None"

text \<open>\<open>/((?!api|_next/static|_next/image|favicon.ico).*)\<close>; the dot is any character.\<close>

definition matcher :: "string \<Rightarrow> bool" where
  "matcher path \<longleftrightarrow>
     (case path of
        [] \<Rightarrow> False
      | ch # rest \<Rightarrow>
          ch = CHR ''/'' \<and> \<not> starts_with rest ''api'' \<and> \<not> starts_with rest ''_next/static''
          \<and> \<not> starts_with rest ''_next/image''
          \<and> \<not> (starts_with rest ''favicon'' \<and> starts_with (drop 8 rest) ''ico''))"

text \<open>\<open>None\<close> is \<open>NextResponse.next()\<close>, \<open>Some\<close> a redirect target.\<close>

definition orbyn_proxy :: "ctx \<Rightarrow> string \<Rightarrow> string option" where
  "orbyn_proxy c pathname =
     (if \<not> is_authed orbyn_session c \<and> pathname \<noteq> ''/login'' then Some ''/login''
      else if is_authed orbyn_session c \<and> pathname = ''/login'' then Some ''/dashboard''
      else None)"

definition builder_middleware :: "ctx \<Rightarrow> string \<Rightarrow> string option" where
  "builder_middleware c pathname =
     (if pathname = ''/login'' then Some ''/sign-in''
      else if \<not> is_authed builder_session c \<and> pathname \<noteq> ''/sign-in'' then Some ''/sign-in''
      else if is_authed builder_session c \<and> pathname = ''/sign-in'' then Some ''/dashboard''
      else None)"

section \<open>What a log-in can do\<close>

text \<open>C9: The Builder's log-in route sets a session cookie only when the backend accepted these very
  credentials and answered with the role admin; the cookie is the Builder's own, carries the token
  of that answer, is httpOnly, lax, on every path, and secure exactly in production.\<close>

theorem builder_login_admin_only:
  assumes "result (builder_login_POST c q) net = Returned r"
    and "CSet name token attrs \<in> set (rs_cookies r)"
  shows "name = builder_session \<and> attrs = session_attrs c \<and>
    (\<exists>base email password reply body.
       truthy (cx_base_url c) = Some base \<and> credentials_of q = Some (email, password) \<and>
       net (login_request base email password) = Reply reply \<and> resp_ok reply \<and>
       rs_body reply = BodyJson body \<and> opt_prop body ''role'' = Some (JStr ''admin'') \<and>
       token = opt_prop body ''access_token'')"
  using assms
  by (auto simp: login_steps login_runs dest!: next_json_result refuse_login_cookies
      split: option.splits if_splits fetch_result.splits response_body.splits outcome.splits)

text \<open>Both log-in routes answer a rejected sign-in in the same way: no cookie is set, a rate limit
  of the backend stays 429 and every other failure becomes 401, whatever status the backend used.\<close>

theorem rejected_login_answer:
  assumes "login = orbyn_login_POST \<or> login = builder_login_POST"
    and "truthy (cx_base_url c) = Some base" "credentials_of q = Some (email, password)"
    and "net (login_request base email password) = Reply reply" "\<not> resp_ok reply"
    and "result (login c q) net = Returned r"
  shows "rs_cookies r = [] \<and> rs_status r = (if rs_status reply = 429 then 429 else 401)"
proof -
  from assms have "result (refuse_login reply) net = Returned r"
    by (auto simp: login_steps login_runs)
  then show ?thesis
    by (auto simp: refuse_login_def login_runs json_response_def dest!: next_json_result
        split: outcome.splits if_splits)
qed

definition sample_login :: ui_request where
  "sample_login =
     \<lparr>ui_json = Some (JObj [(''email'', JStr ''b@x''), (''password'', JStr ''pw'')]), ui_form = None\<rparr>"

definition sample_ctx :: ctx where
  "sample_ctx = \<lparr>cx_cookies = [], cx_base_url = Some ''http://api'', cx_production = True\<rparr>"

lemma sample_credentials: "credentials_of sample_login = Some (''b@x'', ''pw'')"
  by (simp add: credentials_of_def sample_login_def read_credentials_object) (simp add: ret_def)

lemma sample_base [simp]: "cx_base_url sample_ctx = Some ''http://api''"
  by (simp add: sample_ctx_def)

definition sample_backend :: "nat \<Rightarrow> json \<Rightarrow> network" where
  "sample_backend st j = (\<lambda>rq. Reply \<lparr>rs_status = st, rs_headers = [], rs_body = BodyJson j, rs_cookies = []\<rparr>)"

definition sample_grant :: json where
  "sample_grant = JObj [(''access_token'', JStr ''tok''), (''role'', JStr ''admin'')]"

lemma sample_admin_login:
  "result (builder_login_POST sample_ctx sample_login) (sample_backend 200 sample_grant) =
     Returned (json_response (JObj [(''ok'', JBool True)]) 200
       \<lparr>rs_cookies := [CSet builder_session (Some (JStr ''tok'')) (session_attrs sample_ctx)]\<rparr>)"
  by (simp add: login_steps sample_credentials login_runs sample_backend_def resp_ok_def sample_grant_def)

lemma sample_rejected_login:
  "result (orbyn_login_POST sample_ctx sample_login) (sample_backend 403 JNull) = Thrown TypeErr"
  "result (orbyn_login_POST sample_ctx sample_login) (sample_backend 403 (detail ''no'')) =
     Returned (json_response (detail ''no'') 401)"
  by (simp_all add: login_steps sample_credentials login_runs sample_backend_def resp_ok_def refuse_login_def
      resp_json_or_empty_def nullish_or_def detail_def)

theorem builder_login_admin_only_witness:
  "\<exists>base email password reply body.
     truthy (cx_base_url sample_ctx) = Some base \<and> credentials_of sample_login = Some (email, password) \<and>
     sample_backend 200 sample_grant (login_request base email password) = Reply reply \<and> resp_ok reply \<and>
     rs_body reply = BodyJson body \<and> opt_prop body ''role'' = Some (JStr ''admin'') \<and>
     Some (JStr ''tok'') = opt_prop body ''access_token''"
  using builder_login_admin_only [OF sample_admin_login, of builder_session "Some (JStr ''tok'')" "session_attrs sample_ctx"]
  by simp

theorem rejected_login_answer_witness:
  "rs_cookies (json_response (detail ''no'') 401) = [] \<and> rs_status (json_response (detail ''no'') 401) = 401"
  using rejected_login_answer [of orbyn_login_POST sample_ctx "''http://api''" sample_login "''b@x''" "''pw''"
      "sample_backend 403 (detail ''no'')" _ "json_response (detail ''no'') 401"]
    sample_rejected_login(2)
  by (simp add: sample_credentials sample_backend_def resp_ok_def)

end
