(* ===== verification/Navigation.thy ===== *)
theory Navigation
  imports Sessions
begin

text \<open>
  Page loads of the two applications: the gate (\<open>proxy.ts\<close>, \<open>middleware.ts\<close>), the
  pages the \<open>app\<close> directories hold, the layouts that look the role up, and the redirects
  among them, followed by a browser with fuel. The locale \<open>site\<close> is what makes following
  redirects end; both applications interpret it. The log-out buttons are at the end.
\<close>

section \<open>Pages\<close>

datatype seg = Lit string | Dyn

fun match_route :: "seg list \<Rightarrow> string list \<Rightarrow> bool" where
  "match_route [] [] \<longleftrightarrow> True"
| "match_route (Lit a # ps) (s # ss) \<longleftrightarrow> s = a \<and> match_route ps ss"
| "match_route (Dyn # ps) (s # ss) \<longleftrightarrow> s \<noteq> [] \<and> match_route ps ss"
| "match_route _ _ \<longleftrightarrow> False"

definition segments :: "string \<Rightarrow> string list" where
  "segments path =
     (case split_slash path of
        [] # s # ss \<Rightarrow> if s = [] \<and> ss = [] then [] else s # ss
      | _ \<Rightarrow> [[]])"

text \<open>The path of a URL begins with a slash; \<open>[[]]\<close>, for anything else, is no page's.\<close>

text \<open>The directories of \<open>src/app\<close> that hold a page, groups left out.\<close>

definition orbyn_app_pages :: "seg list list" where
  "orbyn_app_pages =
     [[Lit ''activity''], [Lit ''admin'', Lit ''query-log''], [Lit ''chat''],
      [Lit ''customers''], [Lit ''customers'', Dyn], [Lit ''customers'', Dyn, Lit ''edit''],
      [Lit ''customers'', Lit ''new''], [Lit ''dashboard''], [Lit ''dashboard'', Lit ''analytics''],
      [Lit ''dashboard'', Lit ''logistics''], [Lit ''inventory''], [Lit ''inventory'', Dyn, Dyn],
      [Lit ''notifications''], [Lit ''orders''], [Lit ''orders'', Dyn], [Lit ''orders'', Dyn, Lit ''edit''],
      [Lit ''orders'', Lit ''new''], [Lit ''orders'', Lit ''sales''], [Lit ''orders'', Lit ''sales'', Dyn],
      [Lit ''query''], [Lit ''reports''], [Lit ''reports'', Dyn], [Lit ''settings''],
      [Lit ''settings'', Lit ''carriers''], [Lit ''settings'', Lit ''products''],
      [Lit ''settings'', Lit ''suppliers''], [Lit ''settings'', Lit ''warehouses''], [Lit ''shipping''],
      [Lit ''suppliers''], [Lit ''suppliers'', Dyn]]"

definition orbyn_open_pages :: "seg list list" where
  "orbyn_open_pages = [[Lit ''login''], [Lit ''errors'', Lit ''404'']]"

definition builder_app_pages :: "seg list list" where
  "builder_app_pages =
     [[Lit ''calendar''], [Lit ''dashboard''], [Lit ''mail''], [Lit ''scenarios''], [Lit ''scenarios'', Dyn],
      [Lit ''scenarios'', Lit ''new''], [Lit ''settings'', Lit ''account''],
      [Lit ''settings'', Lit ''appearance''], [Lit ''settings'', Lit ''notifications''],
      [Lit ''settings'', Lit ''user''], [Lit ''simulation''], [Lit ''tasks''], [Lit ''users'']]"

definition builder_open_pages :: "seg list list" where
  "builder_open_pages = [[Lit ''sign-in''], [Lit ''errors'', Lit ''not-found'']]"

definition is_page :: "seg list list \<Rightarrow> string \<Rightarrow> bool" where
  "is_page pages path \<longleftrightarrow> list_ex (\<lambda>r. match_route r (segments path)) pages"

section \<open>Loading a path\<close>

datatype view = OpenPage string | AppPage string | NotFoundPage | Failed

text \<open>A load shows something, or sends the browser on, possibly deleting cookies by name.\<close>

datatype loaded = Show view | Follow string "string list"

text \<open>
  The layout of Subsystem 1 awaits the role (and does not look at it): a rejected
  \<open>fetch\<close> fails the render. \<open>/\<close>, \<open>/dashboard\<close> and \<open>/settings\<close> only redirect.
\<close>

definition orbyn_page :: "network \<Rightarrow> ctx \<Rightarrow> string \<Rightarrow> loaded" where
  "orbyn_page net c path =
     (if path = ''/'' then Follow ''/dashboard'' []
      else if is_page orbyn_open_pages path then Show (OpenPage path)
      else if is_page orbyn_app_pages path then
        (case result (orbyn_getCurrentRole c) net of
           Thrown e \<Rightarrow> Show Failed
         | Returned role \<Rightarrow>
             if path = ''/dashboard'' then Follow ''/dashboard/logistics'' []
             else if path = ''/settings'' then Follow ''/settings/products'' []
             else Show (AppPage path))
      else Show NotFoundPage)"

definition orbyn_load :: "network \<Rightarrow> ctx \<Rightarrow> string \<Rightarrow> loaded" where
  "orbyn_load net c path =
     (case if matcher path then orbyn_proxy c path else None of
        Some target \<Rightarrow> Follow target []
      | None \<Rightarrow> orbyn_page net c path)"

text \<open>
  The Builder's layout lets only a live admin session through. Its \<open>/\<close> replaces itself
  by \<open>/dashboard\<close> on the client; \<open>/home\<close> is a permanent redirect of
  \<open>next.config.ts\<close>, which runs before the middleware.
\<close>

definition layout_allows :: "network \<Rightarrow> ctx \<Rightarrow> bool" where
  "layout_allows net c \<longleftrightarrow> result (builder_getCurrentRole c) net = Returned (Some ''admin'')"

definition deleted_cookies :: "cookie_op list \<Rightarrow> string list" where
  "deleted_cookies ops = concat (map (\<lambda>o1. case o1 of CDelete n \<Rightarrow> [n] | _ \<Rightarrow> []) ops)"

definition builder_page :: "network \<Rightarrow> ctx \<Rightarrow> string \<Rightarrow> loaded" where
  "builder_page net c path =
     (if path = ''/'' then Follow ''/dashboard'' []
      else if is_page builder_open_pages path then Show (OpenPage path)
      else if is_page builder_app_pages path then
        (if layout_allows net c then Show (AppPage path) else Follow ''/api/session-expired'' [])
      else Show NotFoundPage)"

definition builder_load :: "network \<Rightarrow> ctx \<Rightarrow> string \<Rightarrow> loaded" where
  "builder_load net c path =
     (if path = ''/home'' then Follow ''/dashboard'' []
      else if path = ''/api/session-expired''
        then Follow ''/sign-in'' (deleted_cookies (rs_cookies session_expired_GET))
      else case if matcher path then builder_middleware c path else None of
             Some target \<Rightarrow> Follow target []
           | None \<Rightarrow> builder_page net c path)"

section \<open>Following redirects\<close>

definition expire :: "string list \<Rightarrow> ctx \<Rightarrow> ctx" where
  "expire names c = c\<lparr>cx_cookies := filter (\<lambda>p. fst p \<notin> set names) (cx_cookies c)\<rparr>"

fun browse :: "nat \<Rightarrow> (ctx \<Rightarrow> string \<Rightarrow> loaded) \<Rightarrow> ctx \<Rightarrow> string \<Rightarrow> (view \<times> ctx) option" where
  "browse 0 load c path = None"
| "browse (Suc n) load c path =
     (case load c path of
        Show v \<Rightarrow> Some (v, c)
      | Follow p names \<Rightarrow> browse n load (expire names c) p)"

locale site =
  fixes load :: "ctx \<Rightarrow> string \<Rightarrow> loaded"
    and rank :: "ctx \<Rightarrow> string \<Rightarrow> nat"
  assumes descends: "load c p = Follow q names \<Longrightarrow> rank (expire names c) q < rank c p"
begin

lemma browse_ends: "rank c p < n \<Longrightarrow> \<exists>v c'. browse n load c p = Some (v, c')"
proof (induction n arbitrary: c p)
  case (Suc n)
  show ?case
  proof (cases "load c p")
    case (Follow q names)
    then have "rank (expire names c) q < n"
      using descends [OF Follow] Suc.prems by linarith
    then show ?thesis using Suc.IH Follow by simp
  qed simp
qed simp

lemma browse_settles: "browse n load c p = Some (v, c') \<Longrightarrow> \<exists>q. load c' q = Show v"
  by (induction n arbitrary: c p) (auto split: loaded.splits)

lemma browse_env: "browse n load c p = Some (v, c') \<Longrightarrow> cx_base_url c' = cx_base_url c"
proof (induction n arbitrary: c p)
  case (Suc n)
  show ?case
  proof (cases "load c p")
    case (Follow q names)
    with Suc.prems have "browse n load (expire names c) q = Some (v, c')" by simp
    then have "cx_base_url c' = cx_base_url (expire names c)" by (rule Suc.IH)
    then show ?thesis by (simp add: expire_def)
  qed (use Suc.prems in simp)
qed simp

end

lemma expire_Nil [simp]: "expire [] c = c"
  by (simp add: expire_def)

lemma get_cookie_expire [simp]: "get_cookie (expire [n] c) k = (if k = n then None else get_cookie c k)"
  using get_cookie_delete [where c = c and name = n and n = k] by (simp add: expire_def)

lemma expire_is_stored: "store_cookies f (redirect_to q [CDelete n]) c = expire [n] c"
  by (simp add: store_cookies_def expire_def redirect_to_def)

lemma session_expired_deletes [simp]: "deleted_cookies (rs_cookies session_expired_GET) = [builder_session]"
  by (simp add: session_expired_GET_def redirect_to_def deleted_cookies_def)

section \<open>No page is outside its gate\<close>

lemma split_slash_Cons:
  "split_slash s = p # ps \<Longrightarrow> \<exists>t. s = p @ t \<and> (case ps of [] \<Rightarrow> t = [] | _ \<Rightarrow> \<exists>u. t = CHR ''/'' # u \<and> split_slash u = ps)"
proof (induction s arbitrary: p ps)
  case (Cons c s)
  show ?case
  proof (cases "c = CHR ''/''")
    case True
    with Cons.prems have "p = []" "ps = split_slash s" by auto
    with True show ?thesis by (cases ps) (use split_slash_nonempty [of s] in \<open>auto split: list.splits\<close>)
  next
    case False
    obtain q qs where q: "split_slash s = q # qs" by (cases "split_slash s") auto
    with Cons.prems False have "p = c # q" "ps = qs" by auto
    with Cons.IH [OF q] show ?thesis by (cases qs) auto
  qed
qed simp

lemma segments_first:
  assumes "segments path = s # ss" "s \<noteq> []"
  shows "\<exists>t. path = CHR ''/'' # s @ t"
proof -
  from assms obtain ps where p: "split_slash path = [] # s # ps"
    by (auto simp: segments_def split: list.splits if_splits)
  then obtain u where u: "path = CHR ''/'' # u" "split_slash u = s # ps"
    using split_slash_Cons [OF p] by auto
  from split_slash_Cons [OF u(2)] u(1) show ?thesis by auto
qed

fun gated_route :: "seg list \<Rightarrow> bool" where
  "gated_route (Lit a # r) \<longleftrightarrow>
     (\<forall>t \<in> set [''api'', ''_next/static'', ''_next/image'', ''favicon''].
        take (length a) t \<noteq> a \<and> take (length t) a \<noteq> t) \<and> a \<noteq> []"
| "gated_route _ \<longleftrightarrow> False"

lemma no_prefix: "take (length a) t \<noteq> a \<Longrightarrow> take (length t) a \<noteq> t \<Longrightarrow> \<not> starts_with (a @ r) t"
  by (auto simp: starts_with_iff append_eq_append_conv2)

lemma gated_route_matched:
  assumes "gated_route r" "match_route r (segments path)"
  shows "matcher path"
proof -
  from assms obtain a r' ss where a: "r = Lit a # r'" "segments path = a # ss" "a \<noteq> []"
    by (cases r rule: gated_route.cases; cases "segments path") auto
  from segments_first [OF a(2,3)] obtain t where "path = CHR ''/'' # a @ t" by blast
  with assms(1) a(1) show ?thesis
    by (simp add: matcher_def no_prefix)
qed

lemma pages_gated:
  "list_all gated_route pages \<Longrightarrow> is_page pages path \<Longrightarrow> matcher path"
  by (auto simp: is_page_def list_ex_iff list_all_iff intro: gated_route_matched)

lemma app_pages_gated:
  "list_all gated_route orbyn_app_pages" "list_all gated_route orbyn_open_pages"
  "list_all gated_route builder_app_pages" "list_all gated_route builder_open_pages"
  by (simp_all add: orbyn_app_pages_def orbyn_open_pages_def builder_app_pages_def builder_open_pages_def)

text \<open>No page of either application escapes its cookie gate: every path that the App Router
  resolves to a page, and the root, is matched by the gate's matcher.\<close>

theorem every_page_is_matched:
  assumes "pages \<in> {orbyn_app_pages, orbyn_open_pages, builder_app_pages, builder_open_pages}"
    and "is_page pages path"
  shows "matcher path \<and> matcher ''/''"
  using assms app_pages_gated pages_gated by (auto simp: matcher_def starts_with_def)

theorem every_page_is_matched_witness: "matcher ''/scenarios/42'' \<and> matcher ''/''"
  by (rule every_page_is_matched [of builder_app_pages])
    (simp_all add: is_page_def builder_app_pages_def segments_def)

section \<open>The two applications are sites\<close>

definition orbyn_rank :: "ctx \<Rightarrow> string \<Rightarrow> nat" where
  "orbyn_rank c path =
     (if \<not> is_authed orbyn_session c then (if path = ''/login'' then 0 else 1)
      else if path = ''/login'' \<or> path = ''/'' then 2
      else if path = ''/dashboard'' \<or> path = ''/settings'' then 1 else 0)"

definition builder_rank :: "network \<Rightarrow> ctx \<Rightarrow> string \<Rightarrow> nat" where
  "builder_rank net c path =
     (let d = (if layout_allows net c then 0 else 2);
          s = (if is_authed builder_session c then 1 + d else 0)
      in if path = ''/sign-in'' then s
         else if path = ''/login'' then 1 + s
         else if path = ''/api/session-expired'' then 1
         else if \<not> is_authed builder_session c then (if path = ''/home'' then 2 else 1)
         else if path = ''/'' \<or> path = ''/home'' then 1 + d
         else d)"

lemma is_authed_expire [simp]: "is_authed k (expire [k] c) = False"
  by (simp add: is_authed_def)

lemma no_session_no_layout: "\<not> is_authed builder_session c \<Longrightarrow> \<not> layout_allows net c"
  by (simp add: is_authed_def layout_allows_def builder_getCurrentRole_def)

lemma matcher_consts [simp]:
  "matcher ''/''" "matcher ''/login''" "matcher ''/sign-in''" "matcher ''/dashboard''" "matcher ''/settings''"
  "matcher ''/home''" "matcher ''/dashboard/logistics''" "matcher ''/settings/products''"
  "\<not> matcher ''/api/session-expired''"
  by (simp_all add: matcher_def starts_with_def)

lemma page_consts [simp]:
  "is_page orbyn_open_pages ''/login''" "\<not> is_page orbyn_open_pages ''/dashboard''"
  "\<not> is_page orbyn_open_pages ''/settings''" "is_page orbyn_app_pages ''/dashboard''"
  "is_page builder_open_pages ''/sign-in''" "\<not> is_page builder_open_pages ''/dashboard''"
  "is_page builder_app_pages ''/dashboard''"
  by (simp_all add: is_page_def segments_def orbyn_open_pages_def orbyn_app_pages_def
      builder_open_pages_def builder_app_pages_def)

lemma unmatched_no_page:
  "\<not> matcher path \<Longrightarrow> \<not> is_page orbyn_app_pages path" "\<not> matcher path \<Longrightarrow> \<not> is_page orbyn_open_pages path"
  "\<not> matcher path \<Longrightarrow> \<not> is_page builder_app_pages path" "\<not> matcher path \<Longrightarrow> \<not> is_page builder_open_pages path"
  using app_pages_gated pages_gated by blast+

interpretation orbyn_site: site "orbyn_load net" orbyn_rank for net
proof unfold_locales
  fix c p q names
  assume "orbyn_load net c p = Follow q names"
  then show "orbyn_rank (expire names c) q < orbyn_rank c p"
    by (auto simp: orbyn_load_def orbyn_proxy_def orbyn_page_def orbyn_rank_def unmatched_no_page
        split: if_splits outcome.splits)
qed

lemma builder_load_Follow:
  assumes "builder_load net c p = Follow q names"
  shows "(p = ''/home'' \<and> q = ''/dashboard'' \<and> names = [])
    \<or> (p = ''/api/session-expired'' \<and> q = ''/sign-in'' \<and> names = [builder_session])
    \<or> (p = ''/login'' \<and> q = ''/sign-in'' \<and> names = [])
    \<or> (\<not> is_authed builder_session c \<and> q = ''/sign-in'' \<and> names = []
        \<and> p \<notin> {''/sign-in'', ''/home'', ''/login'', ''/api/session-expired''})
    \<or> (is_authed builder_session c \<and> p \<in> {''/sign-in'', ''/''} \<and> q = ''/dashboard'' \<and> names = [])
    \<or> (is_authed builder_session c \<and> \<not> layout_allows net c \<and> q = ''/api/session-expired'' \<and> names = []
        \<and> is_page builder_app_pages p \<and> p \<notin> {''/sign-in'', ''/'', ''/home'', ''/login'', ''/api/session-expired''})"
proof (cases "matcher p")
  case True
  with assms show ?thesis
    by (simp add: builder_load_def builder_middleware_def builder_page_def split: if_split_asm)
      (cases "p = ''/sign-in''"; auto)+
next
  case False
  then have "p \<noteq> ''/''" by auto
  with False assms show ?thesis
    by (simp add: builder_load_def builder_page_def unmatched_no_page split: if_split_asm)
qed

lemma builder_rank_consts [simp]:
  "builder_rank net c ''/sign-in'' =
     (if is_authed builder_session c then if layout_allows net c then 1 else 3 else 0)"
  "builder_rank net c ''/login'' =
     (if is_authed builder_session c then if layout_allows net c then 2 else 4 else 1)"
  "builder_rank net c ''/api/session-expired'' = 1"
  "builder_rank net c ''/dashboard'' =
     (if is_authed builder_session c then if layout_allows net c then 0 else 2 else 1)"
  "builder_rank net c ''/home'' =
     (if is_authed builder_session c then if layout_allows net c then 1 else 3 else 2)"
  "builder_rank net c ''/'' =
     (if is_authed builder_session c then if layout_allows net c then 1 else 3 else 1)"
  by (simp_all add: builder_rank_def)

lemma builder_rank_other:
  "p \<notin> {''/sign-in'', ''/home'', ''/login'', ''/api/session-expired''} \<Longrightarrow>
     \<not> is_authed builder_session c \<Longrightarrow> builder_rank net c p = 1"
  "p \<notin> {''/sign-in'', ''/'', ''/home'', ''/login'', ''/api/session-expired''} \<Longrightarrow>
     is_authed builder_session c \<Longrightarrow> \<not> layout_allows net c \<Longrightarrow> builder_rank net c p = 2"
  by (simp_all add: builder_rank_def)

interpretation builder_site: site "builder_load net" "builder_rank net" for net
proof unfold_locales
  fix c p q names
  assume "builder_load net c p = Follow q names"
  from builder_load_Follow [OF this]
  show "builder_rank net (expire names c) q < builder_rank net c p"
    by (elim disjE conjE) (simp_all add: builder_rank_other, auto simp: no_session_no_layout)
qed

lemma ranks_bounded: "orbyn_rank c p < 3" "builder_rank net c p < 5"
  by (auto simp: orbyn_rank_def builder_rank_def Let_def)

text \<open>C13: Following redirects always ends: in the Builder within five page loads and in Subsystem 1
  within three, from any path, with any cookies and whatever the backend answers (the loop
  between \<open>/sign-in\<close> and \<open>/dashboard\<close> that an expired cookie could cause does not exist).\<close>

theorem navigation_always_ends:
  "(\<exists>v c'. browse 5 (builder_load net) c path = Some (v, c'))
   \<and> (\<exists>v c'. browse 3 (orbyn_load net) c path = Some (v, c'))"
  using builder_site.browse_ends [OF ranks_bounded(2)] orbyn_site.browse_ends [OF ranks_bounded(1)] by blast

lemma browse_app_page:
  "browse n (builder_load net) c path = Some (AppPage p, c') \<Longrightarrow>
     c' = c \<and> layout_allows net c \<and> is_page builder_app_pages p"
proof (induction n arbitrary: c path)
  case (Suc n)
  show ?case
  proof (cases "builder_load net c path")
    case (Show v)
    with Suc.prems show ?thesis
      by (auto simp: builder_load_def builder_page_def split: if_split_asm option.splits)
  next
    case (Follow q names)
    with Suc.prems have step: "browse n (builder_load net) (expire names c) q = Some (AppPage p, c')" by simp
    from Suc.IH [OF step] builder_load_Follow [OF Follow] no_session_no_layout show ?thesis by fastforce
  qed
qed simp

lemma match_route_iff:
  "match_route [] S \<longleftrightarrow> S = []"
  "match_route (Lit a # r) S \<longleftrightarrow> (\<exists>ss. S = a # ss \<and> match_route r ss)"
  "match_route (Dyn # r) S \<longleftrightarrow> (\<exists>s ss. S = s # ss \<and> s \<noteq> [] \<and> match_route r ss)"
  by (cases S; simp)+

lemma pages_disjoint: "is_page builder_app_pages path \<Longrightarrow> \<not> is_page builder_open_pages path"
  by (auto simp: is_page_def builder_app_pages_def builder_open_pages_def match_route_iff simp del: match_route.simps)

text \<open>What a browser ends up with when it asks the Builder for one of its pages: an admin session
  the backend confirms gets that page, with its cookies unchanged; every other visitor gets the
  sign-in page, and a session cookie that was presented has been removed, no other cookie touched.\<close>

theorem builder_page_visit:
  assumes "is_page builder_app_pages path"
  shows "browse 5 (builder_load net) c path =
    Some (if layout_allows net c then (AppPage path, c)
          else (OpenPage ''/sign-in'', if is_authed builder_session c then expire [builder_session] c else c))"
proof -
  have m: "matcher path" using assms unmatched_no_page by blast
  have n: "path \<noteq> ''/home''" "path \<noteq> ''/''" "path \<noteq> ''/login''" "path \<noteq> ''/sign-in''"
    "path \<noteq> ''/api/session-expired''" "\<not> is_page builder_open_pages path"
    using assms pages_disjoint
    by (auto simp: is_page_def builder_app_pages_def segments_def)
  have se: "builder_load net c1 ''/api/session-expired'' = Follow ''/sign-in'' [builder_session]"
    "\<not> is_authed builder_session c1 \<Longrightarrow> builder_load net c1 ''/sign-in'' = Show (OpenPage ''/sign-in'')" for c1
    by (simp_all add: builder_load_def builder_middleware_def builder_page_def)
  have "builder_load net c path =
      (if layout_allows net c then Show (AppPage path)
       else if is_authed builder_session c then Follow ''/api/session-expired'' [] else Follow ''/sign-in'' [])"
    using m n assms no_session_no_layout by (auto simp: builder_load_def builder_middleware_def builder_page_def)
  then show ?thesis by (simp add: eval_nat_numeral se)
qed

text \<open>C12: A Builder page behind the layout is rendered only for a session whose role the backend has just
  confirmed to be admin, whatever path the browser started from and however it was redirected.\<close>

theorem builder_pages_need_admin:
  assumes "browse n (builder_load net) c path = Some (AppPage p, c')"
  shows "\<exists>token base reply body. get_cookie c builder_session = Some token \<and> cx_base_url c = Some base \<and>
    net (bearer_request ''GET'' token base ''/api/v1/me'' NoBody (Some ''no-store'')) = Reply reply \<and>
    resp_ok reply \<and> rs_body reply = BodyJson body \<and> opt_prop body ''role'' = Some (JStr ''admin'')"
  using browse_app_page [OF assms]
  by (auto simp: layout_allows_def builder_getCurrentRole_def b_role_of_def login_runs truthy_Some_iff
      split: option.splits if_splits fetch_result.splits outcome.splits response_body.splits json.splits)

text \<open>Subsystem 1: without a session cookie every page leads to the log-in page; with one, even one
  the backend rejects, the log-in page is never reached by navigation and the cookie is kept, so
  that only the log-out button leads back there.\<close>

theorem orbyn_login_reached_iff_anonymous:
  assumes "browse n (orbyn_load net) c path = Some (v, c')" "matcher path"
  shows "(v = OpenPage ''/login'') = (\<not> is_authed orbyn_session c) \<and> c' = c"
  using assms
proof (induction n arbitrary: path)
  case (Suc n)
  show ?case
  proof (cases "orbyn_load net c path")
    case (Show v')
    with Suc.prems show ?thesis
      by (auto simp: orbyn_load_def orbyn_proxy_def orbyn_page_def split: if_splits outcome.splits)
  next
    case (Follow q names)
    with Suc.prems(2) have "names = []" "matcher q"
      by (auto simp: orbyn_load_def orbyn_proxy_def orbyn_page_def split: if_splits outcome.splits)
    with Suc Follow show ?thesis by simp
  qed
qed simp

definition visitor :: ctx where
  "visitor = \<lparr>cx_cookies = [(''meadowops_scenarios_session'', ''tok''), (''theme'', ''dark'')],
              cx_base_url = Some ''http://api'', cx_production = True\<rparr>"

lemma visitor_role:
  "result (builder_getCurrentRole visitor) (sample_backend 200 (JObj [(''role'', JStr r)])) = Returned (Some r)"
  by (simp add: builder_getCurrentRole_def visitor_def get_cookie_def builder_session_def login_runs
      sample_backend_def resp_ok_def b_role_of_def)

lemma scenario_page: "is_page builder_app_pages ''/scenarios/42''"
  by (simp add: is_page_def builder_app_pages_def segments_def)

theorem builder_page_visit_witness:
  "browse 5 (builder_load (sample_backend 200 (JObj [(''role'', JStr ''analyst'')]))) visitor ''/scenarios/42'' =
     Some (OpenPage ''/sign-in'', visitor\<lparr>cx_cookies := [(''theme'', ''dark'')]\<rparr>)"
  using builder_page_visit [OF scenario_page, of "sample_backend 200 (JObj [(''role'', JStr ''analyst'')])" visitor]
  by (simp add: layout_allows_def visitor_role is_authed_def expire_def)
    (simp add: visitor_def get_cookie_def builder_session_def)

lemma admin_visit:
  "browse 1 (builder_load (sample_backend 200 (JObj [(''role'', JStr ''admin'')]))) visitor ''/scenarios/42'' =
     Some (AppPage ''/scenarios/42'', visitor)"
  using scenario_page pages_disjoint [OF scenario_page]
  by (simp add: builder_load_def builder_middleware_def builder_page_def layout_allows_def visitor_role is_authed_def)
    (simp add: visitor_def get_cookie_def builder_session_def)

theorem builder_pages_need_admin_witness:
  "\<exists>token base reply body. get_cookie visitor builder_session = Some token \<and> cx_base_url visitor = Some base \<and>
    sample_backend 200 (JObj [(''role'', JStr ''admin'')])
      (bearer_request ''GET'' token base ''/api/v1/me'' NoBody (Some ''no-store'')) = Reply reply \<and>
    resp_ok reply \<and> rs_body reply = BodyJson body \<and> opt_prop body ''role'' = Some (JStr ''admin'')"
  by (rule builder_pages_need_admin [OF admin_visit])

theorem orbyn_login_reached_iff_anonymous_witness:
  "(OpenPage ''/login'' = OpenPage ''/login'') = (\<not> is_authed orbyn_session visitor) \<and> visitor = visitor"
  by (rule orbyn_login_reached_iff_anonymous [of 2 "sample_backend 401 JNull" visitor "''/chat''"])
    (simp_all add: eval_nat_numeral orbyn_load_def orbyn_proxy_def orbyn_page_def is_authed_def matcher_def
      starts_with_def get_cookie_def visitor_def orbyn_session_def)

section \<open>Logging out\<close>

record browser =
  br_ctx :: ctx
  br_storage :: storage
  br_view :: "view option"

text \<open>
  The two handlers of the \<open>nav-user.tsx\<close> menus (Subsystem 1's header has the same one).
  \<open>reached\<close>: the request to \<open>/api/logout\<close> got an answer. Subsystem 1 awaits it without
  a catch, so a failure ends the handler before it navigates; the Builder navigates in a
  \<open>finally\<close>. \<open>router.push\<close> loads the new path with the fuel that is always enough.
\<close>

definition show_after :: "(view \<times> ctx) option \<Rightarrow> browser \<Rightarrow> browser" where
  "show_after r b = (case r of None \<Rightarrow> b | Some (v, c) \<Rightarrow> b\<lparr>br_ctx := c, br_view := Some v\<rparr>)"

definition orbyn_handleLogOut :: "network \<Rightarrow> bool \<Rightarrow> browser \<Rightarrow> browser" where
  "orbyn_handleLogOut net reached b =
     (let b1 = b\<lparr>br_storage := clearAllDraftBuffers (br_storage b)\<rparr>
      in if \<not> reached then b1
         else let c = store_cookies (\<lambda>v. []) (end_session orbyn_session) (br_ctx b1)
              in show_after (browse 3 (orbyn_load net) c ''/login'') (b1\<lparr>br_ctx := c\<rparr>))"

definition builder_handleLogOut :: "network \<Rightarrow> bool \<Rightarrow> browser \<Rightarrow> browser" where
  "builder_handleLogOut net reached b =
     (let b1 = b\<lparr>br_storage := clearAllDraftBuffers (br_storage b)\<rparr>;
          c = (if reached then store_cookies (\<lambda>v. []) (end_session builder_session) (br_ctx b1) else br_ctx b1)
      in show_after (browse 5 (builder_load net) c ''/sign-in'') (b1\<lparr>br_ctx := c\<rparr>))"

lemma end_session_logged_out [simp]: "\<not> is_authed k (store_cookies f (end_session k) c)"
  by (simp add: is_authed_def get_cookie_store)

lemma sign_in_visits:
  "\<not> is_authed builder_session c \<Longrightarrow> browse 5 (builder_load net) c ''/sign-in'' = Some (OpenPage ''/sign-in'', c)"
  "is_authed builder_session c \<Longrightarrow> layout_allows net c \<Longrightarrow>
     browse 5 (builder_load net) c ''/sign-in'' = Some (AppPage ''/dashboard'', c)"
  "\<not> is_authed orbyn_session c \<Longrightarrow> browse 3 (orbyn_load net) c ''/login'' = Some (OpenPage ''/login'', c)"
  by (simp_all add: eval_nat_numeral builder_load_def builder_middleware_def builder_page_def
      orbyn_load_def orbyn_proxy_def orbyn_page_def)

text \<open>C14: A log-out whose request got through shows the application's log-in page, leaves no session
  cookie of that application and no composer draft of any thread in the browser, and does not sign
  the browser out of the other application.\<close>

theorem log_out_complete:
  "br_view (builder_handleLogOut net True b) = Some (OpenPage ''/sign-in'')
   \<and> \<not> is_authed builder_session (br_ctx (builder_handleLogOut net True b))
   \<and> is_authed orbyn_session (br_ctx (builder_handleLogOut net True b)) = is_authed orbyn_session (br_ctx b)
   \<and> loadDraftBuffer (br_storage (builder_handleLogOut net True b)) threadId = None
   \<and> br_view (orbyn_handleLogOut net True b) = Some (OpenPage ''/login'')
   \<and> \<not> is_authed orbyn_session (br_ctx (orbyn_handleLogOut net True b))
   \<and> is_authed builder_session (br_ctx (orbyn_handleLogOut net True b)) = is_authed builder_session (br_ctx b)
   \<and> loadDraftBuffer (br_storage (orbyn_handleLogOut net True b)) threadId = None"
  by (simp add: builder_handleLogOut_def orbyn_handleLogOut_def sign_in_visits show_after_def
      drafts.load_clear_all)
    (simp add: is_authed_def get_cookie_store orbyn_session_def builder_session_def)

text \<open>When the request to \<open>/api/logout\<close> does not get through, the Builder's log-out button
  leaves a live admin session signed in: the navigation to \<open>/sign-in\<close> is bounced to the dashboard.\<close>

theorem offline_log_out_stays_in:
  assumes "layout_allows net (br_ctx b)"
  shows "br_view (builder_handleLogOut net False b) = Some (AppPage ''/dashboard'')
    \<and> is_authed builder_session (br_ctx (builder_handleLogOut net False b))"
proof -
  have "is_authed builder_session (br_ctx b)"
    using assms no_session_no_layout by blast
  with assms show ?thesis
    by (simp add: builder_handleLogOut_def sign_in_visits show_after_def)
qed

theorem offline_log_out_stays_in_witness:
  "br_view (builder_handleLogOut (sample_backend 200 (JObj [(''role'', JStr ''admin'')])) False
      \<lparr>br_ctx = visitor, br_storage = Unavailable, br_view = None\<rparr>) = Some (AppPage ''/dashboard'')"
  using offline_log_out_stays_in [of "sample_backend 200 (JObj [(''role'', JStr ''admin'')])"
      "\<lparr>br_ctx = visitor, br_storage = Unavailable, br_view = None\<rparr>"]
  by (simp add: layout_allows_def visitor_role)

end
