(* ===== verification/Nav.thy ===== *)
theory Nav
  imports Navigation
begin

text \<open>
  The navigation both shells offer: Subsystem 1's \<open>config/nav.ts\<close> with the sidebar's role
  filter, its command palette (\<open>app-header.tsx\<close>) and the role labels; the Builder's sidebar
  and command palette. Their links are checked against the pages of \<open>Navigation\<close>. Icons are
  left out.
\<close>

section \<open>Subsystem 1\<close>

definition roleLabel :: "string option \<Rightarrow> string" where
  "roleLabel role =
     (if role = Some ''admin'' then ''Builder'' else if role = Some ''analyst'' then ''Analyst'' else ''User'')"

definition roleDetail :: "string option \<Rightarrow> string" where
  "roleDetail role =
     (if role = Some ''admin'' then ''Admin account''
      else if role = Some ''analyst'' then ''Analyst account'' else ''Signed in'')"

record nav_child =
  nc_title :: string
  nc_url :: string

record nav_item =
  ni_title :: string
  ni_url :: "string option"
  ni_items :: "nav_child list"
  ni_adminOnly :: bool

record nav_group =
  ng_label :: string
  ng_items :: "nav_item list"

definition link :: "string \<Rightarrow> string \<Rightarrow> nav_item" where
  "link t u = \<lparr>ni_title = t, ni_url = Some u, ni_items = [], ni_adminOnly = False\<rparr>"

definition menu :: "string \<Rightarrow> (string \<times> string) list \<Rightarrow> nav_item" where
  "menu t cs =
     \<lparr>ni_title = t, ni_url = None, ni_items = map (\<lambda>(a, b). \<lparr>nc_title = a, nc_url = b\<rparr>) cs, ni_adminOnly = False\<rparr>"

text \<open>The title of the error page has a middle dot, U+00B7.\<close>

definition navGroups :: "nav_group list" where
  "navGroups =
     [\<lparr>ng_label = ''Dashboards'', ng_items =
         [link ''Overview'' ''/dashboard'', link ''Analytics'' ''/dashboard/analytics'', link ''Reports'' ''/reports'']\<rparr>,
      \<lparr>ng_label = ''Operations'', ng_items =
         [menu ''Orders'' [(''Purchase Orders'', ''/orders''), (''Sales Orders'', ''/orders/sales'')],
          menu ''Customers'' [(''All Customers'', ''/customers''), (''Add Customer'', ''/customers/new'')],
          link ''Inventory'' ''/inventory'', link ''Suppliers'' ''/suppliers'', link ''Shipping'' ''/shipping'',
          link ''Activity'' ''/activity'', link ''Query'' ''/query'',
          (link ''Query Log'' ''/admin/query-log'')\<lparr>ni_adminOnly := True\<rparr>, link ''Chat'' ''/chat'']\<rparr>,
      \<lparr>ng_label = ''Account'', ng_items =
         [link ''Settings'' ''/settings'', link ''Notifications'' ''/notifications'']\<rparr>,
      \<lparr>ng_label = ''Pages'', ng_items =
         [menu ''Error Pages'' [(''404 '' @ [CHR 0xC2, CHR 0xB7] @ '' Not Found'', ''/errors/404'')]]\<rparr>]"

definition visibleGroups :: "string option \<Rightarrow> nav_group list \<Rightarrow> nav_group list" where
  "visibleGroups role groups =
     filter (\<lambda>g. ng_items g \<noteq> [])
       (map (\<lambda>g. g\<lparr>ng_items := filter (\<lambda>i. \<not> ni_adminOnly i \<or> role = Some ''admin'') (ng_items g)\<rparr>) groups)"

text \<open>\<open>NavEntry\<close>: an item with children is a menu of their links, another one a link of its own.\<close>

definition entry_links :: "nav_item \<Rightarrow> string list" where
  "entry_links item =
     (if ni_items item \<noteq> [] then map nc_url (ni_items item)
      else [case ni_url item of Some u \<Rightarrow> u | None \<Rightarrow> ''#''])"

definition sidebar_links :: "string option \<Rightarrow> string list" where
  "sidebar_links role = concat (map (\<lambda>g. concat (map entry_links (ng_items g))) (visibleGroups role navGroups))"

text \<open>Which flat entry is highlighted.\<close>

definition entry_active :: "string \<Rightarrow> nav_item \<Rightarrow> bool" where
  "entry_active pathname item \<longleftrightarrow>
     Some pathname = ni_url item
     \<or> (ni_url item \<noteq> Some ''/dashboard''
        \<and> (case truthy (ni_url item) of None \<Rightarrow> False | Some u \<Rightarrow> starts_with pathname u))"

definition childActive :: "string \<Rightarrow> nav_item \<Rightarrow> bool" where
  "childActive pathname item \<longleftrightarrow> list_ex (\<lambda>c. pathname = nc_url c) (ni_items item)"

text \<open>The command palette of the header: what each listed command navigates to.\<close>

definition palette :: "nav_group list \<Rightarrow> (string \<times> string) list" where
  "palette groups =
     concat (map (\<lambda>g. concat (map (\<lambda>item.
       if ni_items item \<noteq> [] then map (\<lambda>s. (nc_title s, nc_url s)) (ni_items item)
       else [(ni_title item, case ni_url item of Some u \<Rightarrow> u | None \<Rightarrow> ''#'')]) (ng_items g))) groups)"

section \<open>The Builder\<close>

record b_nav_item =
  bn_title :: string
  bn_url :: string
  bn_items :: "(string \<times> string) list"

definition b_link :: "string \<Rightarrow> string \<Rightarrow> b_nav_item" where
  "b_link t u = \<lparr>bn_title = t, bn_url = u, bn_items = []\<rparr>"

definition b_navGroups :: "(string \<times> b_nav_item list) list" where
  "b_navGroups =
     [(''Home'', [b_link ''Home'' ''/dashboard'']),
      (''Work'', [b_link ''Scenarios'' ''/scenarios'', b_link ''Chat'' ''/mail'', b_link ''Tasks'' ''/tasks'',
                 b_link ''Calendar'' ''/calendar'', b_link ''Users'' ''/users'', b_link ''Simulation'' ''/simulation'']),
      (''Pages'', [\<lparr>bn_title = ''Errors'', bn_url = ''#'', bn_items = [(''Not Found'', ''/errors/not-found'')]\<rparr>,
                  \<lparr>bn_title = ''Settings'', bn_url = ''#'', bn_items =
                     [(''User Settings'', ''/settings/user''), (''Account Settings'', ''/settings/account''),
                      (''Appearance'', ''/settings/appearance''), (''Notifications'', ''/settings/notifications'')]\<rparr>])]"

definition b_sidebar_links :: "string list" where
  "b_sidebar_links =
     concat (map (\<lambda>(l, items). concat (map (\<lambda>i. if bn_items i \<noteq> [] then map snd (bn_items i) else [bn_url i]) items))
       b_navGroups)"

definition searchItems :: "(string \<times> string \<times> string) list" where
  "searchItems =
     [(''Dashboard 1'', ''/dashboard'', ''Dashboards''), (''Dashboard 2'', ''/dashboard-2'', ''Dashboards''),
      (''Chat'', ''/mail'', ''Apps''), (''Tasks'', ''/tasks'', ''Apps''), (''Calendar'', ''/calendar'', ''Apps''),
      (''Simulation'', ''/simulation'', ''Apps''),
      (''Sign In 1'', ''/auth/sign-in'', ''Auth Pages''), (''Sign In 2'', ''/auth/sign-in-2'', ''Auth Pages''),
      (''Sign Up 1'', ''/auth/sign-up'', ''Auth Pages''), (''Sign Up 2'', ''/auth/sign-up-2'', ''Auth Pages''),
      (''Forgot Password 1'', ''/auth/forgot-password'', ''Auth Pages''),
      (''Forgot Password 2'', ''/auth/forgot-password-2'', ''Auth Pages''),
      (''Unauthorized'', ''/errors/unauthorized'', ''Errors''), (''Forbidden'', ''/errors/forbidden'', ''Errors''),
      (''Not Found'', ''/errors/not-found'', ''Errors''),
      (''Internal Server Error'', ''/errors/internal-server-error'', ''Errors''),
      (''Under Maintenance'', ''/errors/under-maintenance'', ''Errors''),
      (''User Settings'', ''/settings/user'', ''Settings''), (''Account Settings'', ''/settings/account'', ''Settings''),
      (''Plans & Billing'', ''/settings/billing'', ''Settings''), (''Appearance'', ''/settings/appearance'', ''Settings''),
      (''Notifications'', ''/settings/notifications'', ''Settings''),
      (''Connections'', ''/settings/connections'', ''Settings''),
      (''FAQs'', ''/faqs'', ''Pages''), (''Pricing'', ''/pricing'', ''Pages'')]"

text \<open>The reduce that groups them, in order of first appearance.\<close>

fun groupItems :: "(string \<times> string \<times> string) list \<Rightarrow> (string \<times> (string \<times> string) list) list \<Rightarrow>
    (string \<times> (string \<times> string) list) list" where
  "groupItems [] acc = acc"
| "groupItems ((t, u, g) # items) acc =
     groupItems items
       (put g ((case map_of acc g of None \<Rightarrow> [] | Some xs \<Rightarrow> xs) @ [(t, u)]) acc)"

section \<open>What the menus lead to\<close>

lemma visible_items:
  "g \<in> set (visibleGroups role groups) \<Longrightarrow> i \<in> set (ng_items g) \<Longrightarrow>
     (\<exists>g' \<in> set groups. i \<in> set (ng_items g')) \<and> (ni_adminOnly i \<longrightarrow> role = Some ''admin'')"
  by (auto simp: visibleGroups_def)

text \<open>The sidebar of Subsystem 1 shows an admin-only entry to nobody but the admin role, shows everything
  else to everyone, and never shows an empty group.\<close>

theorem sidebar_role_filter:
  "(\<forall>g \<in> set (visibleGroups role groups). ng_items g \<noteq> []
      \<and> (\<forall>i \<in> set (ng_items g). ni_adminOnly i \<longrightarrow> role = Some ''admin''))
   \<and> (\<forall>g \<in> set groups. \<forall>i \<in> set (ng_items g). (ni_adminOnly i \<longrightarrow> role = Some ''admin'') \<longrightarrow>
        (\<exists>g' \<in> set (visibleGroups role groups). ng_label g' = ng_label g \<and> i \<in> set (ng_items g')))"
proof (intro conjI ballI impI)
  fix g i
  assume g: "g \<in> set groups" "i \<in> set (ng_items g)" "ni_adminOnly i \<longrightarrow> role = Some ''admin''"
  let ?g = "g\<lparr>ng_items := filter (\<lambda>i. \<not> ni_adminOnly i \<or> role = Some ''admin'') (ng_items g)\<rparr>"
  have "i \<in> set (ng_items ?g)" using g by simp
  moreover from this have "ng_items ?g \<noteq> []" by (metis empty_iff list.set(1))
  ultimately show "\<exists>g' \<in> set (visibleGroups role groups). ng_label g' = ng_label g \<and> i \<in> set (ng_items g')"
    using g by (intro bexI [of _ ?g]) (auto simp: visibleGroups_def)
next
  fix g
  assume g: "g \<in> set (visibleGroups role groups)"
  then show "ng_items g \<noteq> []" unfolding visibleGroups_def set_filter by simp
  show "role = Some ''admin''" if "i \<in> set (ng_items g)" "ni_adminOnly i" for i
    using visible_items [OF g that(1)] that(2) by blast
qed

theorem sidebar_role_filter_witness:
  "\<exists>g' \<in> set (visibleGroups (Some ''admin'') navGroups). ng_label g' = ''Operations''
      \<and> (link ''Query Log'' ''/admin/query-log'')\<lparr>ni_adminOnly := True\<rparr> \<in> set (ng_items g')"
proof -
  let ?i = "(link ''Query Log'' ''/admin/query-log'')\<lparr>ni_adminOnly := True\<rparr>"
  have "navGroups ! 1 \<in> set navGroups" "ng_label (navGroups ! 1) = ''Operations''" "?i \<in> set (ng_items (navGroups ! 1))"
    by (simp_all add: navGroups_def)
  with sidebar_role_filter [of "Some ''admin''" navGroups] show ?thesis by metis
qed

definition resolves :: "seg list list \<Rightarrow> string \<Rightarrow> bool" where
  "resolves pages url \<longleftrightarrow> is_page pages url"

lemmas page_eval = resolves_def is_page_def segments_def orbyn_app_pages_def orbyn_open_pages_def
  builder_app_pages_def builder_open_pages_def

text \<open>Every link of both sidebars, for every role, leads to a page that exists.\<close>

theorem sidebar_links_resolve:
  "list_all (resolves (orbyn_app_pages @ orbyn_open_pages)) (sidebar_links role)
   \<and> list_all (resolves (builder_app_pages @ builder_open_pages)) b_sidebar_links"
proof
  have "list_all (resolves (orbyn_app_pages @ orbyn_open_pages))
      (concat (map (\<lambda>g. concat (map entry_links (ng_items g))) navGroups))"
    by (simp add: navGroups_def link_def menu_def entry_links_def page_eval)
  moreover have "set (sidebar_links role) \<subseteq> set (concat (map (\<lambda>g. concat (map entry_links (ng_items g))) navGroups))"
  proof
    fix u
    assume "u \<in> set (sidebar_links role)"
    then obtain g i where gi: "g \<in> set (visibleGroups role navGroups)" "i \<in> set (ng_items g)" "u \<in> set (entry_links i)"
      by (auto simp: sidebar_links_def)
    with visible_items [OF gi(1,2)] show "u \<in> set (concat (map (\<lambda>g. concat (map entry_links (ng_items g))) navGroups))"
      by auto
  qed
  ultimately show "list_all (resolves (orbyn_app_pages @ orbyn_open_pages)) (sidebar_links role)"
    by (auto simp: list_all_iff)
  show "list_all (resolves (builder_app_pages @ builder_open_pages)) b_sidebar_links"
    by (simp add: b_sidebar_links_def b_navGroups_def b_link_def page_eval)
qed

text \<open>The command palettes are not filtered like the sidebars: Subsystem 1's offers the admin-only query
  log to every role, and of the twenty-five commands of the Builder's fifteen lead to no page.\<close>

theorem palettes_unfiltered:
  "(''Query Log'', ''/admin/query-log'') \<in> set (palette navGroups)
   \<and> ''/admin/query-log'' \<notin> set (sidebar_links (Some ''analyst''))
   \<and> length searchItems = 25
   \<and> length (filter (\<lambda>(t, u, g). \<not> resolves (builder_app_pages @ builder_open_pages) u) searchItems) = 15"
  by (simp add: palette_def sidebar_links_def visibleGroups_def navGroups_def link_def menu_def entry_links_def
      searchItems_def page_eval)

end
