(* ===== verification/Composer.thy ===== *)
theory Composer
  imports Draft_Buffer
begin

text \<open>
  The message composer of a thread: \<open>ThreadView\<close> in the Builder's
  \<open>mail/components/thread-view.tsx\<close> (record \<open>composer\<close>, functions \<open>b_\<close>) and in
  Subsystem 1's \<open>chat/components/thread-view.tsx\<close>, which adds attachments (record
  \<open>orbyn_composer\<close>). One function per handler, effect and asynchronous completion; a run is a
  list of events. React renders between events, so a handler sees the state of the last event.
  \<open>b_compose\<close> and \<open>orbyn_compose\<close> are the handlers that both copies have. Around them each view has
  more: in the Builder's the assistance panel calls \<open>handleDraftChange\<close> too, from a closure
  of the thread that was open when it asked (\<open>mail_compose\<close>); in Subsystem 1's a completed thread
  has no text box (\<open>chat_step\<close>).
\<close>

section \<open>State\<close>

text \<open>A call of \<open>syncDraftToServer\<close>: the PUT that carries a draft, until aborted.\<close>

record draft_sync =
  sy_id :: nat
  sy_thread :: string
  sy_body :: string
  sy_aborted :: bool

text \<open>
  \<open>cm_timer\<close> holds the arguments the pending debounce timer closed over, \<open>cm_pending\<close> is
  \<open>pendingSyncRef\<close>, \<open>cm_abort\<close> the controller in \<open>syncAbortRef\<close>. \<open>cm_sent\<close> is
  the send that awaits \<open>onSend\<close>, with the thread and the text its closure captured, and
  \<open>cm_del\<close> the thread of the deletion that awaits \<open>onDelete\<close>.
\<close>

record composer =
  cm_thread :: "string option"
  cm_draft :: string
  cm_sending :: bool
  cm_error :: bool
  cm_confirming :: bool
  cm_deleting :: bool
  cm_deleteFailed :: bool
  cm_timer :: "(string \<times> string) option"
  cm_pending :: "(string \<times> string) option"
  cm_abort :: "nat option"
  cm_syncs :: "draft_sync list"
  cm_sent :: "(string \<times> string) option"
  cm_del :: "string option"
  cm_storage :: storage

record orbyn_composer = composer +
  cm_attachment :: "(string \<times> string) option"
  cm_uploading :: bool
  cm_attachError :: "string option"
  cm_sent_attachment :: "string option"

definition init_composer :: "storage \<Rightarrow> composer" where
  "init_composer s =
     \<lparr>cm_thread = None, cm_draft = [], cm_sending = False, cm_error = False, cm_confirming = False,
      cm_deleting = False, cm_deleteFailed = False, cm_timer = None, cm_pending = None, cm_abort = None,
      cm_syncs = [], cm_sent = None, cm_del = None, cm_storage = s\<rparr>"

definition init_orbyn :: "storage \<Rightarrow> orbyn_composer" where
  "init_orbyn s = composer.extend (init_composer s)
     \<lparr>cm_attachment = None, cm_uploading = False, cm_attachError = None,
      cm_sent_attachment = None\<rparr>"

section \<open>The Builder's composer\<close>

fun abort_sync :: "nat option \<Rightarrow> draft_sync list \<Rightarrow> draft_sync list" where
  "abort_sync None ss = ss"
| "abort_sync (Some i) ss = map (\<lambda>y. if sy_id y = i then y\<lparr>sy_aborted := True\<rparr> else y) ss"

definition b_fireSync :: "string \<Rightarrow> string \<Rightarrow> composer \<Rightarrow> composer" where
  "b_fireSync i body st =
     st\<lparr>cm_abort := Some (length (cm_syncs st)), cm_pending := None,
        cm_syncs := abort_sync (cm_abort st) (cm_syncs st)
          @ [\<lparr>sy_id = length (cm_syncs st), sy_thread = i, sy_body = body, sy_aborted = False\<rparr>]\<rparr>"

text \<open>The clean-up of the restore effect: cancel the timer, flush the edit it was to send.\<close>

definition b_cleanup :: "composer \<Rightarrow> composer" where
  "b_cleanup st =
     (let st1 = st\<lparr>cm_timer := None\<rparr>
      in case cm_pending st1 of None \<Rightarrow> st1 | Some (i, body) \<Rightarrow> b_fireSync i body st1)"

text \<open>The restore effect, keyed on the thread's id; the thread comes with its \<open>draft_body\<close>.\<close>

definition b_openThread :: "(string \<times> string) option \<Rightarrow> composer \<Rightarrow> composer" where
  "b_openThread thread st =
     (if map_option fst thread = cm_thread st then st
      else
        let st1 = (if cm_thread st = None then st else b_cleanup st);
            st2 = st1\<lparr>cm_confirming := False, cm_deleteFailed := False\<rparr>
        in case thread of
             None \<Rightarrow> st2\<lparr>cm_thread := None, cm_draft := []\<rparr>
           | Some (i, draft_body) \<Rightarrow>
               st2\<lparr>cm_thread := Some i,
                   cm_draft := (case b_loadDraftBuffer (cm_storage st2) i of
                                  Some buffered \<Rightarrow> buffered | None \<Rightarrow> draft_body),
                   cm_error := False\<rparr>)"

text \<open>\<open>handleDraftChange\<close>: \<open>threadId\<close> is the thread of the render that made the closure.\<close>

definition b_handleDraftChange :: "string \<Rightarrow> string \<Rightarrow> composer \<Rightarrow> composer" where
  "b_handleDraftChange threadId v st =
     st\<lparr>cm_draft := v, cm_error := False, cm_storage := b_saveDraftBuffer (cm_storage st) threadId v,
        cm_pending := Some (threadId, v), cm_timer := Some (threadId, v)\<rparr>"

text \<open>The text box, there only while a thread is open.\<close>

definition b_edit :: "string \<Rightarrow> composer \<Rightarrow> composer" where
  "b_edit v st = (case cm_thread st of None \<Rightarrow> st | Some threadId \<Rightarrow> b_handleDraftChange threadId v st)"

definition b_timerFires :: "composer \<Rightarrow> composer" where
  "b_timerFires st =
     (case cm_timer st of None \<Rightarrow> st | Some (i, v) \<Rightarrow> b_fireSync i v (st\<lparr>cm_timer := None\<rparr>))"

definition b_handleSend :: "composer \<Rightarrow> composer" where
  "b_handleSend st =
     (case cm_thread st of
        None \<Rightarrow> st
      | Some threadId \<Rightarrow>
          let body = js_trim (cm_draft st)
          in if body = [] \<or> cm_sending st then st
             else st\<lparr>cm_sending := True, cm_timer := None, cm_pending := None,
                     cm_syncs := abort_sync (cm_abort st) (cm_syncs st),
                     cm_sent := Some (threadId, body)\<rparr>)"

text \<open>\<open>await onSend(...)\<close> comes back with a verdict, or rejects (\<open>None\<close>); then only the
  \<open>finally\<close> runs.\<close>

definition b_sendSettles :: "bool option \<Rightarrow> composer \<Rightarrow> composer" where
  "b_sendSettles r st =
     (case cm_sent st of
        None \<Rightarrow> st
      | Some (threadId, body) \<Rightarrow>
          (case r of
             None \<Rightarrow> st
           | Some ok \<Rightarrow>
               let st1 = st\<lparr>cm_error := \<not> ok\<rparr>
               in if ok then st1\<lparr>cm_draft := [], cm_storage := b_clearDraftBuffer (cm_storage st1) threadId\<rparr>
                  else st1)\<lparr>cm_sending := False, cm_sent := None\<rparr>)"

definition b_askDelete :: "composer \<Rightarrow> composer" where
  "b_askDelete st = (if cm_thread st = None then st else st\<lparr>cm_deleteFailed := False, cm_confirming := True\<rparr>)"

definition b_cancelDelete :: "composer \<Rightarrow> composer" where
  "b_cancelDelete st = st\<lparr>cm_confirming := False\<rparr>"

definition b_handleConfirmDelete :: "composer \<Rightarrow> composer" where
  "b_handleConfirmDelete st =
     (case cm_thread st of
        None \<Rightarrow> st
      | Some threadId \<Rightarrow>
          if \<not> cm_confirming st \<or> cm_deleting st then st
          else st\<lparr>cm_deleting := True, cm_deleteFailed := False, cm_del := Some threadId\<rparr>)"

definition b_deleteSettles :: "bool option \<Rightarrow> composer \<Rightarrow> composer" where
  "b_deleteSettles r st =
     (if cm_del st = None then st
      else (case r of
              None \<Rightarrow> st
            | Some ok \<Rightarrow> if ok then st\<lparr>cm_confirming := False\<rparr> else st\<lparr>cm_deleteFailed := True\<rparr>)
           \<lparr>cm_deleting := False, cm_del := None\<rparr>)"

datatype compose_event =
    Open "(string \<times> string) option"
  | Edit string
  | TimerFires
  | Send
  | SendSettles "bool option"
  | AskDelete
  | CancelDelete
  | ConfirmDelete
  | DeleteSettles "bool option"

fun b_compose :: "compose_event \<Rightarrow> composer \<Rightarrow> composer" where
  "b_compose (Open thread) st = b_openThread thread st"
| "b_compose (Edit v) st = b_edit v st"
| "b_compose TimerFires st = b_timerFires st"
| "b_compose Send st = b_handleSend st"
| "b_compose (SendSettles r) st = b_sendSettles r st"
| "b_compose AskDelete st = b_askDelete st"
| "b_compose CancelDelete st = b_cancelDelete st"
| "b_compose ConfirmDelete st = b_handleConfirmDelete st"
| "b_compose (DeleteSettles r) st = b_deleteSettles r st"

section \<open>Subsystem 1's composer\<close>

definition fireSync :: "string \<Rightarrow> string \<Rightarrow> orbyn_composer \<Rightarrow> orbyn_composer" where
  "fireSync i body st =
     st\<lparr>cm_abort := Some (length (cm_syncs st)), cm_pending := None,
        cm_syncs := abort_sync (cm_abort st) (cm_syncs st)
          @ [\<lparr>sy_id = length (cm_syncs st), sy_thread = i, sy_body = body, sy_aborted = False\<rparr>]\<rparr>"

definition cleanup :: "orbyn_composer \<Rightarrow> orbyn_composer" where
  "cleanup st =
     (let st1 = st\<lparr>cm_timer := None\<rparr>
      in case cm_pending st1 of None \<Rightarrow> st1 | Some (i, body) \<Rightarrow> fireSync i body st1)"

definition openThread :: "(string \<times> string) option \<Rightarrow> orbyn_composer \<Rightarrow> orbyn_composer" where
  "openThread thread st =
     (if map_option fst thread = cm_thread st then st
      else
        let st1 = (if cm_thread st = None then st else cleanup st);
            st2 = st1\<lparr>cm_confirming := False, cm_deleteFailed := False\<rparr>
        in case thread of
             None \<Rightarrow> st2\<lparr>cm_thread := None, cm_draft := []\<rparr>
           | Some (i, draft_body) \<Rightarrow>
               st2\<lparr>cm_thread := Some i,
                   cm_draft := (case loadDraftBuffer (cm_storage st2) i of
                                  Some buffered \<Rightarrow> buffered | None \<Rightarrow> draft_body),
                   cm_error := False, cm_attachment := None, cm_attachError := None\<rparr>)"

definition handleDraftChange :: "string \<Rightarrow> string \<Rightarrow> orbyn_composer \<Rightarrow> orbyn_composer" where
  "handleDraftChange threadId v st =
     st\<lparr>cm_draft := v, cm_error := False, cm_storage := saveDraftBuffer (cm_storage st) threadId v,
        cm_pending := Some (threadId, v), cm_timer := Some (threadId, v)\<rparr>"

definition edit_text :: "string \<Rightarrow> orbyn_composer \<Rightarrow> orbyn_composer" where
  "edit_text v st = (case cm_thread st of None \<Rightarrow> st | Some threadId \<Rightarrow> handleDraftChange threadId v st)"

definition timerFires :: "orbyn_composer \<Rightarrow> orbyn_composer" where
  "timerFires st =
     (case cm_timer st of None \<Rightarrow> st | Some (i, v) \<Rightarrow> fireSync i v (st\<lparr>cm_timer := None\<rparr>))"

definition handleSend :: "orbyn_composer \<Rightarrow> orbyn_composer" where
  "handleSend st =
     (case cm_thread st of
        None \<Rightarrow> st
      | Some threadId \<Rightarrow>
          let body = js_trim (cm_draft st)
          in if body = [] \<or> cm_sending st then st
             else st\<lparr>cm_sending := True, cm_timer := None, cm_pending := None,
                     cm_syncs := abort_sync (cm_abort st) (cm_syncs st),
                     cm_sent := Some (threadId, body),
                     cm_sent_attachment := map_option fst (cm_attachment st)\<rparr>)"

definition sendSettles :: "bool option \<Rightarrow> orbyn_composer \<Rightarrow> orbyn_composer" where
  "sendSettles r st =
     (case cm_sent st of
        None \<Rightarrow> st
      | Some (threadId, body) \<Rightarrow>
          (case r of
             None \<Rightarrow> st
           | Some ok \<Rightarrow>
               let st1 = st\<lparr>cm_error := \<not> ok\<rparr>
               in if ok then st1\<lparr>cm_draft := [], cm_storage := clearDraftBuffer (cm_storage st1) threadId,
                                 cm_attachment := None\<rparr>
                  else st1)\<lparr>cm_sending := False, cm_sent := None, cm_sent_attachment := None\<rparr>)"

definition askDelete :: "orbyn_composer \<Rightarrow> orbyn_composer" where
  "askDelete st = (if cm_thread st = None then st else st\<lparr>cm_deleteFailed := False, cm_confirming := True\<rparr>)"

definition cancelDelete :: "orbyn_composer \<Rightarrow> orbyn_composer" where
  "cancelDelete st = st\<lparr>cm_confirming := False\<rparr>"

definition confirmDelete :: "orbyn_composer \<Rightarrow> orbyn_composer" where
  "confirmDelete st =
     (case cm_thread st of
        None \<Rightarrow> st
      | Some threadId \<Rightarrow>
          if \<not> cm_confirming st \<or> cm_deleting st then st
          else st\<lparr>cm_deleting := True, cm_deleteFailed := False, cm_del := Some threadId\<rparr>)"

definition deleteSettles :: "bool option \<Rightarrow> orbyn_composer \<Rightarrow> orbyn_composer" where
  "deleteSettles r st =
     (if cm_del st = None then st
      else (case r of
              None \<Rightarrow> st
            | Some ok \<Rightarrow> if ok then st\<lparr>cm_confirming := False\<rparr> else st\<lparr>cm_deleteFailed := True\<rparr>)
           \<lparr>cm_deleting := False, cm_del := None\<rparr>)"

text \<open>
  Attachments. The button is disabled while an upload runs or an attachment waits. What an upload
  comes back with: the stored attachment, the backend's own detail or none (an unreadable or
  non-string one, or no answer at all).
\<close>

definition attach_failed :: string where
  "attach_failed = ''Couldn't attach that file '' @ em_dash @ '' try again.''"

datatype upload_result = Uploaded string string | Refused "string option"

definition startUpload :: "orbyn_composer \<Rightarrow> orbyn_composer" where
  "startUpload st =
     (if cm_thread st = None \<or> cm_uploading st \<or> cm_attachment st \<noteq> None then st
      else st\<lparr>cm_attachError := None, cm_uploading := True\<rparr>)"

definition uploadSettles :: "upload_result \<Rightarrow> orbyn_composer \<Rightarrow> orbyn_composer" where
  "uploadSettles r st =
     (if \<not> cm_uploading st then st
      else (case r of
              Uploaded i name \<Rightarrow> st\<lparr>cm_attachment := Some (i, name)\<rparr>
            | Refused d \<Rightarrow> st\<lparr>cm_attachError := Some (case d of Some m \<Rightarrow> m | None \<Rightarrow> attach_failed)\<rparr>)
           \<lparr>cm_uploading := False\<rparr>)"

definition removeAttachment :: "orbyn_composer \<Rightarrow> orbyn_composer" where
  "removeAttachment st = st\<lparr>cm_attachment := None\<rparr>"

datatype orbyn_event =
    Core compose_event
  | PickFile
  | UploadSettles upload_result
  | RemoveAttachment

fun orbyn_compose :: "orbyn_event \<Rightarrow> orbyn_composer \<Rightarrow> orbyn_composer" where
  "orbyn_compose (Core (Open thread)) st = openThread thread st"
| "orbyn_compose (Core (Edit v)) st = edit_text v st"
| "orbyn_compose (Core TimerFires) st = timerFires st"
| "orbyn_compose (Core Send) st = handleSend st"
| "orbyn_compose (Core (SendSettles r)) st = sendSettles r st"
| "orbyn_compose (Core AskDelete) st = askDelete st"
| "orbyn_compose (Core CancelDelete) st = cancelDelete st"
| "orbyn_compose (Core ConfirmDelete) st = confirmDelete st"
| "orbyn_compose (Core (DeleteSettles r)) st = deleteSettles r st"
| "orbyn_compose PickFile st = startUpload st"
| "orbyn_compose (UploadSettles r) st = uploadSettles r st"
| "orbyn_compose RemoveAttachment st = removeAttachment st"

section \<open>The two composers agree\<close>

lemma buffers_agree:
  "b_loadDraftBuffer = loadDraftBuffer" "b_saveDraftBuffer = saveDraftBuffer"
  "b_clearDraftBuffer = clearDraftBuffer"
  by (simp_all add: fun_eq_iff b_loadDraftBuffer_def loadDraftBuffer_def b_saveDraftBuffer_def
      saveDraftBuffer_def b_clearDraftBuffer_def clearDraftBuffer_def b_storageKey_def storageKey_def
      b_storage_prefix_def storage_prefix_def)

lemmas b_compose_defs =
  b_fireSync_def b_cleanup_def b_openThread_def b_handleDraftChange_def b_edit_def b_timerFires_def b_handleSend_def
  b_sendSettles_def b_askDelete_def b_cancelDelete_def b_handleConfirmDelete_def b_deleteSettles_def

lemmas orbyn_compose_defs =
  fireSync_def cleanup_def openThread_def handleDraftChange_def edit_text_def timerFires_def handleSend_def
  sendSettles_def askDelete_def cancelDelete_def confirmDelete_def deleteSettles_def
  startUpload_def uploadSettles_def removeAttachment_def

lemma compose_truncate:
  "composer.truncate (orbyn_compose e st) =
     (case e of Core e' \<Rightarrow> b_compose e' (composer.truncate st) | _ \<Rightarrow> composer.truncate st)"
  by (induction e st rule: orbyn_compose.induct)
    (auto simp: composer.truncate_def b_compose_defs orbyn_compose_defs buffers_agree Let_def
      split: option.splits upload_result.splits)

section \<open>Runs and the composer's invariant\<close>

definition b_composed :: "compose_event list \<Rightarrow> composer \<Rightarrow> composer" where
  "b_composed es st = fold b_compose es st"

definition orbyn_composed :: "orbyn_event list \<Rightarrow> orbyn_composer \<Rightarrow> orbyn_composer" where
  "orbyn_composed es st = fold orbyn_compose es st"

text \<open>The events of Subsystem 1's composer that the Builder's has.\<close>

definition core_events :: "orbyn_event list \<Rightarrow> compose_event list" where
  "core_events es = concat (map (\<lambda>e. case e of Core e' \<Rightarrow> [e'] | _ \<Rightarrow> []) es)"

lemma init_truncate: "composer.truncate (init_orbyn s) = init_composer s"
  by (simp add: init_orbyn_def init_composer_def composer.defs)

lemma truncate_run:
  "composer.truncate (orbyn_composed es st) = b_composed (core_events es) (composer.truncate st)"
proof (induction es arbitrary: st)
  case (Cons e es)
  from Cons compose_truncate [of e st] show ?case
    by (cases e) (simp_all add: orbyn_composed_def b_composed_def core_events_def)
qed (simp add: orbyn_composed_def b_composed_def core_events_def)

text \<open>C19: The two applications' composers are the same machine apart from attachments: after any run
  of Subsystem 1's composer, forgetting the attachment fields leaves what the Builder's composer
  reaches on the same events without the attachment ones.\<close>

theorem composers_agree:
  "composer.truncate (orbyn_composed es (init_orbyn s)) = b_composed (core_events es) (init_composer s)"
  by (simp add: truncate_run init_truncate)

text \<open>
  The debounce timer and \<open>pendingSyncRef\<close> agree; every sync but the one whose controller is current
  has been aborted; the flags that disable buttons say exactly whether a call is in flight.
\<close>

definition composer_ok :: "composer \<Rightarrow> bool" where
  "composer_ok st \<longleftrightarrow>
     cm_pending st = cm_timer st
     \<and> (\<forall>y \<in> set (cm_syncs st). sy_aborted y \<or> cm_abort st = Some (sy_id y))
     \<and> map sy_id (cm_syncs st) = [0..<length (cm_syncs st)]
     \<and> (cm_sending st \<longleftrightarrow> cm_sent st \<noteq> None)
     \<and> (cm_deleting st \<longleftrightarrow> cm_del st \<noteq> None)"

text \<open>The waiting draft is that of the thread on screen.\<close>

definition timer_at_home :: "composer \<Rightarrow> bool" where
  "timer_at_home st \<longleftrightarrow> (case cm_timer st of None \<Rightarrow> True | Some (i, v) \<Rightarrow> cm_thread st = Some i)"

lemma abort_sync_ids [simp]: "map sy_id (abort_sync i ss) = map sy_id ss"
  by (cases i) auto

lemma abort_sync_length [simp]: "length (abort_sync i ss) = length ss"
  by (cases i) auto

lemma abort_sync_all:
  "\<forall>y \<in> set ss. sy_aborted y \<or> a = Some (sy_id y) \<Longrightarrow> y \<in> set (abort_sync a ss) \<Longrightarrow> sy_aborted y"
  by (cases a) auto

lemma fireSync_ok:
  "composer_ok st \<Longrightarrow> composer_ok (b_fireSync i v (st\<lparr>cm_timer := None\<rparr>))"
  by (auto simp: composer_ok_def b_fireSync_def dest: abort_sync_all)

lemma cleanup_ok: "composer_ok st \<Longrightarrow> composer_ok (b_cleanup st)"
  by (cases "cm_pending st") (auto simp: b_cleanup_def fireSync_ok, simp add: composer_ok_def)

lemma cleanup_idle: "composer_ok st \<Longrightarrow> cm_timer (b_cleanup st) = None \<and> cm_pending (b_cleanup st) = None"
  by (cases "cm_pending st") (auto simp: b_cleanup_def b_fireSync_def)

lemma idle_ok:
  assumes "composer_ok st"
  shows "composer_ok (st\<lparr>cm_confirming := a, cm_deleteFailed := b, cm_thread := c, cm_draft := d\<rparr>)"
    "composer_ok (st\<lparr>cm_confirming := a, cm_deleteFailed := b, cm_thread := c, cm_draft := d, cm_error := e\<rparr>)"
  using assms by (simp_all add: composer_ok_def)

lemma openThread_ok:
  assumes ok: "composer_ok st"
  shows "composer_ok (b_openThread thread st)"
proof (cases "map_option fst thread = cm_thread st")
  case False
  define st1 where "st1 = (if cm_thread st = None then st else b_cleanup st)"
  have "composer_ok st1" using ok cleanup_ok unfolding st1_def by auto
  then show ?thesis
    using False by (auto simp: b_openThread_def Let_def st1_def [symmetric] idle_ok split: option.splits)
qed (use ok in \<open>simp add: b_openThread_def\<close>)

lemma compose_ok: "composer_ok st \<Longrightarrow> composer_ok (b_compose e st)"
proof (cases e)
  case (Open x1)
  then show "composer_ok st \<Longrightarrow> composer_ok (b_compose e st)" by (simp add: openThread_ok)
next
  case TimerFires
  then show "composer_ok st \<Longrightarrow> composer_ok (b_compose e st)"
    by (auto simp: b_timerFires_def fireSync_ok split: option.splits)
next
  case Send
  then show "composer_ok st \<Longrightarrow> composer_ok (b_compose e st)"
    by (auto simp: b_handleSend_def composer_ok_def Let_def dest: abort_sync_all split: option.splits)
qed (auto simp: b_compose_defs composer_ok_def Let_def split: option.splits if_splits)

lemma init_ok: "composer_ok (init_composer s)"
  by (simp add: composer_ok_def init_composer_def)

lemma composed_ok: "composer_ok (b_composed es (init_composer s))"
proof (induction es rule: rev_induct)
  case (snoc e es)
  then show ?case by (simp add: b_composed_def compose_ok)
qed (simp add: b_composed_def init_ok)

definition live_syncs :: "composer \<Rightarrow> draft_sync list" where
  "live_syncs st = filter (\<lambda>y. \<not> sy_aborted y) (cm_syncs st)"

lemma live_at_most_one: "composer_ok st \<Longrightarrow> length (live_syncs st) \<le> 1"
proof -
  assume ok: "composer_ok st"
  then have "distinct (map sy_id (cm_syncs st))" by (simp add: composer_ok_def)
  then have d: "distinct (map sy_id (live_syncs st))" by (simp add: live_syncs_def distinct_map_filter)
  from ok have "\<forall>y \<in> set (live_syncs st). cm_abort st = Some (sy_id y)"
    by (auto simp: composer_ok_def live_syncs_def)
  then have "set (map sy_id (live_syncs st)) \<subseteq> set_option (cm_abort st)" by auto
  then have "card (set (map sy_id (live_syncs st))) \<le> card (set_option (cm_abort st))"
    by (rule card_mono [rotated]) simp
  also have "\<dots> \<le> 1" by (cases "cm_abort st") auto
  finally show ?thesis using distinct_card [OF d] by simp
qed

section \<open>The whole views\<close>

text \<open>
  The Builder's view: the shared handlers, and a text of the assistance panel, which goes through the
  \<open>handleDraftChange\<close> of the render in which the panel's handler was called, hence with that
  render's thread. Which suggestions arrive when is the panel's (\<open>Mail_Panels\<close>).
\<close>

datatype builder_event = Shared compose_event | Accept string string

fun mail_compose :: "builder_event \<Rightarrow> composer \<Rightarrow> composer" where
  "mail_compose (Shared e) st = b_compose e st"
| "mail_compose (Accept threadId v) st = b_handleDraftChange threadId v st"

definition mail_composed :: "builder_event list \<Rightarrow> composer \<Rightarrow> composer" where
  "mail_composed es st = fold mail_compose es st"

lemma mail_composed_simps [simp]:
  "mail_composed [] st = st" "mail_composed (e # es) st = mail_composed es (mail_compose e st)"
  "mail_composed (es @ es') st = mail_composed es' (mail_composed es st)"
  by (simp_all add: mail_composed_def)

lemma mail_composed_shared: "mail_composed (map Shared es) st = b_composed es st"
  by (induction es arbitrary: st) (simp_all add: b_composed_def)

text \<open>
  Subsystem 1's view: while the thread is completed, the reflection form stands in the place of the text
  box, the attachment controls and the Send button. Timers, uploads and sends under way go on. The
  thread comes with its draft and whether it is completed; a poll can change the latter.
\<close>

record chat_view =
  cv_composer :: orbyn_composer
  cv_completed :: bool

definition init_chat :: "storage \<Rightarrow> chat_view" where
  "init_chat s = \<lparr>cv_composer = init_orbyn s, cv_completed = False\<rparr>"

datatype chat_event =
    Show "(string \<times> string \<times> bool) option"
  | Status bool
  | Did orbyn_event

fun in_message_box :: "orbyn_event \<Rightarrow> bool" where
  "in_message_box (Core (Edit v)) = True"
| "in_message_box (Core Send) = True"
| "in_message_box PickFile = True"
| "in_message_box RemoveAttachment = True"
| "in_message_box e = False"

text \<open>The handlers an event of the view runs: a thread is opened only through \<open>Show\<close>.\<close>

fun chat_handlers :: "chat_event \<Rightarrow> chat_view \<Rightarrow> orbyn_event list" where
  "chat_handlers (Show thread) v = [Core (Open (map_option (\<lambda>(i, d, c). (i, d)) thread))]"
| "chat_handlers (Status c) v = []"
| "chat_handlers (Did (Core (Open thread))) v = []"
| "chat_handlers (Did e) v = (if cv_completed v \<and> in_message_box e then [] else [e])"

definition chat_step :: "chat_event \<Rightarrow> chat_view \<Rightarrow> chat_view" where
  "chat_step e v =
     \<lparr>cv_composer = fold orbyn_compose (chat_handlers e v) (cv_composer v),
      cv_completed = (case e of
                        Show thread \<Rightarrow> (case thread of None \<Rightarrow> False | Some (i, d, c) \<Rightarrow> c)
                      | Status c \<Rightarrow> c | Did e' \<Rightarrow> cv_completed v)\<rparr>"

definition chat_run :: "storage \<Rightarrow> chat_event list \<Rightarrow> chat_view" where
  "chat_run s es = fold chat_step es (init_chat s)"

fun chat_taken :: "chat_view \<Rightarrow> chat_event list \<Rightarrow> orbyn_event list" where
  "chat_taken v [] = []"
| "chat_taken v (e # es) = chat_handlers e v @ chat_taken (chat_step e v) es"

lemma chat_composes: "cv_composer (fold chat_step es v) = orbyn_composed (chat_taken v es) (cv_composer v)"
  by (induction es arbitrary: v) (simp_all add: orbyn_composed_def chat_step_def)

lemma chat_truncate:
  "composer.truncate (cv_composer (chat_run s es)) = b_composed (core_events (chat_taken (init_chat s) es)) (init_composer s)"
  by (simp add: chat_run_def chat_composes truncate_run init_chat_def init_truncate)

section \<open>The invariant in the views\<close>

lemma mail_compose_ok: "composer_ok st \<Longrightarrow> composer_ok (mail_compose e st)"
  by (cases e) (simp_all add: compose_ok del: b_compose.simps, simp add: b_handleDraftChange_def composer_ok_def)

lemma mail_composed_ok: "composer_ok st \<Longrightarrow> composer_ok (mail_composed es st)"
  by (induction es arbitrary: st) (simp_all add: mail_compose_ok del: mail_compose.simps)

lemma compose_thread:
  "cm_thread (b_compose e st) = (case e of Open thread \<Rightarrow> map_option fst thread | _ \<Rightarrow> cm_thread st)"
  by (cases e) (auto simp: b_compose_defs Let_def split: option.splits if_splits)

text \<open>The thread on screen, read off the events.\<close>

fun next_thread :: "builder_event \<Rightarrow> string option \<Rightarrow> string option" where
  "next_thread (Shared (Open thread)) th = map_option fst thread"
| "next_thread e th = th"

lemma mail_compose_thread [simp]: "cm_thread (mail_compose e st) = next_thread e (cm_thread st)"
proof (cases e)
  case (Shared c)
  then show ?thesis by (cases c) (simp_all add: compose_thread del: b_compose.simps)
qed (simp add: b_handleDraftChange_def)

lemma mail_composed_thread: "cm_thread (mail_composed es st) = fold next_thread es (cm_thread st)"
  by (induction es arbitrary: st) (simp_all del: mail_compose.simps)

text \<open>Every suggestion comes while the thread that asked for it is on screen.\<close>

fun on_time :: "string option \<Rightarrow> builder_event list \<Rightarrow> bool" where
  "on_time th [] = True"
| "on_time th (e # es) =
     ((case e of Accept i v \<Rightarrow> th = Some i | _ \<Rightarrow> True) \<and> on_time (next_thread e th) es)"

lemma home_openThread:
  "composer_ok st \<Longrightarrow> timer_at_home st \<Longrightarrow> timer_at_home (b_openThread thread st)"
  using cleanup_idle [of st]
  by (auto simp: b_openThread_def timer_at_home_def Let_def split: option.splits if_splits)

lemma home_compose: "composer_ok st \<Longrightarrow> timer_at_home st \<Longrightarrow> timer_at_home (b_compose e st)"
proof (cases e)
  case (Open thread)
  then show "composer_ok st \<Longrightarrow> timer_at_home st \<Longrightarrow> ?thesis" by (simp add: home_openThread)
next
  case TimerFires
  then show "timer_at_home st \<Longrightarrow> ?thesis"
    by (auto simp: b_timerFires_def b_fireSync_def timer_at_home_def split: option.splits)
qed (auto simp: b_compose_defs timer_at_home_def Let_def split: option.splits if_splits)

lemma home_mail:
  "composer_ok st \<Longrightarrow> timer_at_home st \<Longrightarrow> on_time (cm_thread st) es \<Longrightarrow> timer_at_home (mail_composed es st)"
proof (induction es arbitrary: st)
  case (Cons e es)
  have "timer_at_home (mail_compose e st)"
    using Cons.prems by (cases e) (simp_all add: home_compose del: b_compose.simps, simp add: b_handleDraftChange_def timer_at_home_def)
  with Cons.IH [OF mail_compose_ok [OF Cons.prems(1)], of e] Cons.prems(3) show ?case by simp
qed simp

lemma on_time_shared: "on_time th (map Shared es)"
  by (induction es arbitrary: th) simp_all

lemma init_home: "timer_at_home (init_composer s)"
  by (simp add: timer_at_home_def init_composer_def)

text \<open>C18: In every run of either application's thread view \<open>composer_ok\<close> holds and at most one draft sync is
  live: an older PUT can never overtake a newer one unaborted. The draft that waits to be sent is that of
  the thread on screen: in Subsystem 1 always, in the Builder's view as long as every suggestion of the
  assistance comes while the thread that asked for it is still open.\<close>

theorem composer_invariant:
  "composer_ok (mail_composed es (init_composer s)) \<and> length (live_syncs (mail_composed es (init_composer s))) \<le> 1
   \<and> (on_time None es \<longrightarrow> timer_at_home (mail_composed es (init_composer s)))
   \<and> composer_ok (composer.truncate (cv_composer (chat_run s es')))
   \<and> length (live_syncs (composer.truncate (cv_composer (chat_run s es')))) \<le> 1
   \<and> timer_at_home (composer.truncate (cv_composer (chat_run s es')))"
proof (intro conjI impI)
  show ok: "composer_ok (mail_composed es (init_composer s))" by (rule mail_composed_ok [OF init_ok])
  show "length (live_syncs (mail_composed es (init_composer s))) \<le> 1" by (rule live_at_most_one [OF ok])
  show "on_time None es \<Longrightarrow> timer_at_home (mail_composed es (init_composer s))"
    by (rule home_mail [OF init_ok init_home]) (simp add: init_composer_def)
  show ok': "composer_ok (composer.truncate (cv_composer (chat_run s es')))" by (simp add: chat_truncate composed_ok)
  show "length (live_syncs (composer.truncate (cv_composer (chat_run s es')))) \<le> 1" by (rule live_at_most_one [OF ok'])
  show "timer_at_home (composer.truncate (cv_composer (chat_run s es')))"
    unfolding chat_truncate mail_composed_shared [symmetric]
    by (rule home_mail [OF init_ok init_home on_time_shared])
qed

theorem composer_invariant_witness:
  "timer_at_home (mail_composed [Shared (Open (Some (''t'', []))), Accept ''t'' ''hi''] (init_composer Unavailable))"
  using composer_invariant [of "[Shared (Open (Some (''t'', []))), Accept ''t'' ''hi'']" Unavailable "[]"] by simp

section \<open>Drafts stay with their thread\<close>

text \<open>What was written, with the thread whose handler wrote it, read off the events alone.\<close>

definition writes :: "builder_event \<Rightarrow> string option \<Rightarrow> (string \<times> string) list" where
  "writes e th =
     (case e of
        Shared (Edit v) \<Rightarrow> (case th of None \<Rightarrow> [] | Some t \<Rightarrow> [(t, v)])
      | Accept i v \<Rightarrow> [(i, v)]
      | _ \<Rightarrow> [])"

fun written :: "string option \<Rightarrow> builder_event list \<Rightarrow> (string \<times> string) list" where
  "written th [] = []"
| "written th (e # es) = writes e th @ written (next_thread e th) es"

definition synced :: "composer \<Rightarrow> (string \<times> string) list" where
  "synced st = map (\<lambda>y. (sy_thread y, sy_body y)) (cm_syncs st)"

lemma synced_abort [simp]: "map (\<lambda>y. (sy_thread y, sy_body y)) (abort_sync i ss) = map (\<lambda>y. (sy_thread y, sy_body y)) ss"
  by (cases i) auto

lemma synced_abort_image [simp]:
  "(\<lambda>y. (sy_thread y, sy_body y)) ` set (abort_sync i ss) = (\<lambda>y. (sy_thread y, sy_body y)) ` set ss"
  by (metis list.set_map synced_abort)

lemma synced_fireSync [simp]: "synced (b_fireSync i v st) = synced st @ [(i, v)]"
  by (simp add: synced_def b_fireSync_def)

lemma synced_update [simp]:
  "synced (st\<lparr>cm_timer := x\<rparr>) = synced st" "synced (st\<lparr>cm_thread := a\<rparr>) = synced st"
  "synced (st\<lparr>cm_draft := d\<rparr>) = synced st" "synced (st\<lparr>cm_error := b\<rparr>) = synced st"
  "synced (st\<lparr>cm_confirming := b\<rparr>) = synced st" "synced (st\<lparr>cm_deleteFailed := b\<rparr>) = synced st"
  by (simp_all add: synced_def)

lemma cleanup_synced:
  "cm_pending st = cm_timer st \<Longrightarrow> set (synced (b_cleanup st)) = set (synced st) \<union> set_option (cm_timer st)"
  by (cases "cm_timer st") (auto simp: b_cleanup_def)

lemma open_thread_fields:
  "cm_thread (b_openThread thread st) = map_option fst thread"
  by (auto simp: b_openThread_def Let_def split: option.splits)

lemma open_written:
  "composer_ok st \<Longrightarrow> set (synced (b_openThread thread st)) \<union> set_option (cm_timer (b_openThread thread st))
     \<subseteq> set (synced st) \<union> set_option (cm_timer st)"
  using cleanup_synced [of st] cleanup_idle [of st]
  by (auto simp: b_openThread_def Let_def composer_ok_def split: option.splits if_splits)

lemma mail_compose_written:
  assumes "composer_ok st"
  shows "set (synced (mail_compose e st)) \<union> set_option (cm_timer (mail_compose e st))
      \<subseteq> set (synced st) \<union> set_option (cm_timer st) \<union> set (writes e (cm_thread st))"
proof (cases e)
  case (Accept i v)
  then show ?thesis by (auto simp: b_handleDraftChange_def synced_def writes_def)
next
  case (Shared c)
  show ?thesis
  proof (cases c)
    case (Open thread)
    then show ?thesis using open_written [OF assms, of thread] Shared by auto
  next
    case TimerFires
    with Shared show ?thesis by (auto simp: b_timerFires_def split: option.splits) (auto simp: b_fireSync_def)
  qed (auto simp: Shared b_compose_defs writes_def synced_def Let_def split: option.splits if_splits)
qed

lemma mail_composed_written:
  "composer_ok st \<Longrightarrow> set (synced (mail_composed es st)) \<union> set_option (cm_timer (mail_composed es st))
     \<subseteq> set (synced st) \<union> set_option (cm_timer st) \<union> set (written (cm_thread st) es)"
proof (induction es arbitrary: st)
  case (Cons e es)
  from Cons.IH [OF mail_compose_ok [OF Cons.prems, of e]] mail_compose_written [OF Cons.prems, of e]
  show ?case by auto
qed simp

lemma sent_drafts_written: "set (synced (mail_composed es (init_composer s))) \<subseteq> set (written None es)"
  using mail_composed_written [OF init_ok, of es s] by (simp add: init_composer_def synced_def)

text \<open>What was typed in Subsystem 1's view: a completed thread has no text box to type in.\<close>

fun chat_typed :: "string option \<Rightarrow> bool \<Rightarrow> chat_event list \<Rightarrow> (string \<times> string) list" where
  "chat_typed th c [] = []"
| "chat_typed th c (e # es) =
     (case e of
        Show thread \<Rightarrow> chat_typed (map_option fst thread) (case thread of None \<Rightarrow> False | Some (i, d, b) \<Rightarrow> b) es
      | Status b \<Rightarrow> chat_typed th b es
      | Did (Core (Edit v)) \<Rightarrow> (case th of Some t \<Rightarrow> if c then [] else [(t, v)] | None \<Rightarrow> []) @ chat_typed th c es
      | Did e' \<Rightarrow> chat_typed th c es)"

lemma core_events_simps [simp]:
  "core_events [] = []" "core_events (Core c # es) = c # core_events es" "core_events (PickFile # es) = core_events es"
  "core_events (UploadSettles r # es) = core_events es" "core_events (RemoveAttachment # es) = core_events es"
  "core_events (es @ es') = core_events es @ core_events es'"
  by (simp_all add: core_events_def)

lemma chat_written:
  "written th (map Shared (core_events (chat_taken v es))) = chat_typed th (cv_completed v) es"
proof (induction es arbitrary: th v)
  case (Cons e es)
  show ?case
  proof (cases e)
    case (Did o')
    show ?thesis
    proof (cases o')
      case (Core c)
      then show ?thesis
        using Cons.IH Did by (cases c) (auto simp: writes_def chat_step_def split: option.splits)
    qed (use Cons.IH Did in \<open>auto simp: chat_step_def\<close>)
  qed (use Cons.IH in \<open>auto simp: writes_def chat_step_def option.map_comp comp_def case_prod_beta split: option.splits\<close>)
qed simp

lemma chat_drafts_typed:
  "set (synced (composer.truncate (cv_composer (chat_run s es)))) \<subseteq> set (chat_typed None False es)"
  using sent_drafts_written [of "map Shared (core_events (chat_taken (init_chat s) es))" s]
  unfolding chat_truncate mail_composed_shared chat_written by (simp add: init_chat_def)

section \<open>Leaving a thread and coming back\<close>

text \<open>C16: Leaving a thread right after an edit does not lose the edit: its sync is started at once, as the
  last one, live and for the thread that was left, and the timer is gone.\<close>

theorem leaving_flushes_edit:
  assumes "composer_ok st" "cm_thread st = Some t" "map_option fst thread \<noteq> Some t"
  shows "cm_timer (b_composed [Edit v, Open thread] st) = None
    \<and> (\<exists>ss i. cm_syncs (b_composed [Edit v, Open thread] st) =
          ss @ [\<lparr>sy_id = i, sy_thread = t, sy_body = v, sy_aborted = False\<rparr>])"
  using assms by (cases thread) (auto simp: b_composed_def b_compose_defs Let_def)

theorem leaving_flushes_edit_witness:
  "cm_timer (b_composed [Edit ''hi'', Open None] (b_compose (Open (Some (''t'', []))) (init_composer Unavailable))) = None"
  using leaving_flushes_edit [OF compose_ok [OF init_ok], of "Open (Some (''t'', []))" Unavailable "''t''" None "''hi''"]
  by (simp add: open_thread_fields)

text \<open>Nothing writes or sends thread \<open>t\<close>'s text: no typing and no Send while it is open, and no
  suggestion for it.\<close>

fun leaves_alone :: "string \<Rightarrow> string option \<Rightarrow> builder_event list \<Rightarrow> bool" where
  "leaves_alone t th [] = True"
| "leaves_alone t th (e # es) =
     ((case e of Shared (Edit v) \<Rightarrow> th \<noteq> Some t | Shared Send \<Rightarrow> th \<noteq> Some t | Accept i v \<Rightarrow> i \<noteq> t | _ \<Rightarrow> True)
      \<and> leaves_alone t (next_thread e th) es)"

text \<open>No send of thread \<open>t\<close> is in flight.\<close>

definition not_sending :: "string \<Rightarrow> composer \<Rightarrow> bool" where
  "not_sending t st \<longleftrightarrow> (\<forall>body. cm_sent st \<noteq> Some (t, body))"

lemma open_storage [simp]:
  "cm_storage (b_openThread thread st) = cm_storage st" "cm_sent (b_openThread thread st) = cm_sent st"
  by (auto simp: b_openThread_def b_cleanup_def b_fireSync_def Let_def split: option.splits)

lemma alone_step:
  assumes "leaves_alone t (cm_thread st) [e]" "not_sending t st"
  shows "b_loadDraftBuffer (cm_storage (mail_compose e st)) t = b_loadDraftBuffer (cm_storage st) t
    \<and> not_sending t (mail_compose e st)"
proof (cases e)
  case (Accept i v)
  with assms show ?thesis by (simp add: b_handleDraftChange_def not_sending_def buffers_agree drafts.save_isolated)
next
  case (Shared c)
  show ?thesis
  proof (cases c)
    case (Edit v)
    with assms Shared show ?thesis
      by (auto simp: b_edit_def b_handleDraftChange_def not_sending_def buffers_agree drafts.save_isolated split: option.splits)
  next
    case (SendSettles r)
    with assms Shared show ?thesis
      by (auto simp: b_sendSettles_def not_sending_def buffers_agree drafts.load_clear Let_def split: option.splits)
  qed (use assms Shared in \<open>auto simp: b_compose_defs not_sending_def Let_def split: option.splits\<close>)
qed

lemma alone_run:
  "leaves_alone t (cm_thread st) es \<Longrightarrow> not_sending t st \<Longrightarrow>
     b_loadDraftBuffer (cm_storage (mail_composed es st)) t = b_loadDraftBuffer (cm_storage st) t"
proof (induction es arbitrary: st)
  case (Cons e es)
  with alone_step [of t st e] Cons.IH [of "mail_compose e st"] show ?case by simp
qed simp

lemma open_restores:
  "cm_thread st \<noteq> Some t \<Longrightarrow>
     cm_draft (b_openThread (Some (t, d)) st) =
       (case b_loadDraftBuffer (cm_storage st) t of Some v \<Rightarrow> v | None \<Rightarrow> d)"
  by (auto simp: b_openThread_def b_cleanup_def b_fireSync_def Let_def split: option.splits)

text \<open>C17: What was last written in a thread is what its composer shows when the thread is opened again,
  whatever happens in between: switches, timers, deletions, edits, suggestions and sends of other
  threads, and whatever draft the server holds by then; that includes a draft the user emptied.
  Conditions: the browser's storage took the edit, no send of this thread was in flight, and until then
  nothing else is typed, suggested for or sent in this thread, which is not the one on screen when it
  is opened.\<close>

theorem draft_restored_after_detour:
  assumes "cm_thread st = Some t" "storage_accepts (cm_storage st) t v" "not_sending t st"
    and "leaves_alone t (Some t) es" "cm_thread (mail_composed (Shared (Edit v) # es) st) \<noteq> Some t"
  shows "cm_draft (mail_composed (Shared (Edit v) # es @ [Shared (Open (Some (t, server_draft)))]) st) = v"
proof -
  define st2 where "st2 = b_edit v st"
  have "b_loadDraftBuffer (cm_storage st2) t = Some v" "not_sending t st2" "cm_thread st2 = Some t"
    using assms(1-3)
    by (simp_all add: st2_def b_edit_def b_handleDraftChange_def buffers_agree drafts.load_save not_sending_def)
  with alone_run [of t st2 es] assms(4,5) open_restores [of "mail_composed es st2" t server_draft]
  show ?thesis by (simp add: st2_def)
qed

text \<open>A send in another thread comes back during the detour, and a suggestion for it.\<close>

theorem draft_restored_after_detour_witness:
  "cm_draft (mail_composed [Shared (Edit []), Shared TimerFires, Shared (Open (Some (''u'', []))), Shared (Edit ''x''), Shared Send,
       Shared (SendSettles (Some True)), Accept ''u'' ''y'', Shared (Open (Some (''t'', ''stale'')))]
     (b_compose (Open (Some (''t'', ''stale''))) (init_composer (Store 1000 [])))) = []"
proof -
  let ?st = "b_compose (Open (Some (''t'', ''stale''))) (init_composer (Store 1000 []))"
  have st: "cm_thread ?st = Some ''t''" "storage_accepts (cm_storage ?st) ''t'' []" "not_sending ''t'' ?st"
    by (simp_all add: open_thread_fields)
      (simp_all add: init_composer_def storage_accepts_def items_size_def storageKey_def storage_prefix_def not_sending_def)
  show ?thesis
    using draft_restored_after_detour [OF st, of "[Shared TimerFires, Shared (Open (Some (''u'', []))), Shared (Edit ''x''),
         Shared Send, Shared (SendSettles (Some True)), Accept ''u'' ''y'']" "''stale''"]
    by (simp add: open_thread_fields del: mail_compose.simps b_compose.simps)
qed

section \<open>Sending\<close>

text \<open>A send takes the trimmed text of the thread on screen exactly when there is one, and silences
  draft syncing first: no timer and no live sync is left that could bring the draft back. If the
  send fails the text and the buffer are kept and the error shows.\<close>

theorem send_is_safe:
  assumes "composer_ok st" "cm_thread st = Some t" "js_trim (cm_draft st) \<noteq> []" "\<not> cm_sending st"
  shows "cm_sent (b_compose Send st) = Some (t, js_trim (cm_draft st))
    \<and> cm_timer (b_compose Send st) = None \<and> live_syncs (b_compose Send st) = []
    \<and> cm_draft (b_composed [Send, SendSettles (Some False)] st) = cm_draft st
    \<and> cm_storage (b_composed [Send, SendSettles (Some False)] st) = cm_storage st
    \<and> cm_error (b_composed [Send, SendSettles (Some False)] st)
    \<and> \<not> cm_sending (b_composed [Send, SendSettles (Some False)] st)"
  using assms
  by (auto simp: b_composed_def b_handleSend_def b_sendSettles_def live_syncs_def filter_empty_conv composer_ok_def
      dest: abort_sync_all)

lemma no_space_trim: "js_trim ''hi'' = ''hi''"
  by (simp add: js_trim_def trim_start_def trim_end_def ws_seqs_def strip_prefixes.simps starts_with_def char_of_def)

definition after_typing :: composer where
  "after_typing = b_composed [Open (Some (''t'', [])), Edit ''hi''] (init_composer (Store 1000 []))"

lemma after_typing_fields:
  "cm_thread after_typing = Some ''t''" "cm_draft after_typing = ''hi''" "\<not> cm_sending after_typing"
  "composer_ok after_typing"
  using composed_ok [of "[Open (Some (''t'', [])), Edit ''hi'']" "Store 1000 []"]
  by (simp_all add: after_typing_def)
    (simp_all add: b_composed_def b_compose_defs init_composer_def Let_def)

theorem send_is_safe_witness:
  "cm_sent (b_compose Send after_typing) = Some (''t'', ''hi'') \<and> live_syncs (b_compose Send after_typing) = []
   \<and> cm_draft (b_composed [Send, SendSettles (Some False)] after_typing) = ''hi''"
  using send_is_safe [OF after_typing_fields(4,1)] by (simp add: after_typing_fields no_space_trim)

text \<open>The text box stays editable while a send is in flight, and a successful send then empties it
  whatever it holds: text typed meanwhile, in this thread or in one opened meanwhile, vanishes from
  the screen, and of this thread from the browser's buffer too.\<close>

theorem send_erases_later_text:
  assumes "cm_sent st = Some (t, body)"
  shows "cm_draft (b_composed [Edit v, SendSettles (Some True)] st) = []
    \<and> b_loadDraftBuffer (cm_storage (b_composed [Edit v, SendSettles (Some True)] st)) t = None
    \<and> (u \<noteq> t \<longrightarrow> cm_draft (b_composed [Open (Some (u, d)), Edit v, SendSettles (Some True)] st) = [])"
proof -
  have e: "cm_sent (b_edit v st') = cm_sent st'" for st'
    by (simp add: b_edit_def b_handleDraftChange_def split: option.splits)
  have s: "cm_sent st' = Some (t, body) \<Longrightarrow> cm_draft (b_sendSettles (Some True) st') = []
      \<and> b_loadDraftBuffer (cm_storage (b_sendSettles (Some True) st')) t = None" for st'
    by (simp add: b_sendSettles_def buffers_agree drafts.load_clear)
  show ?thesis using assms by (simp add: b_composed_def s e)
qed

theorem send_erases_later_text_witness:
  "cm_draft (b_composed [Edit ''more'', SendSettles (Some True)] (b_compose Send after_typing)) = []"
  using send_erases_later_text [of "b_compose Send after_typing" "''t''" "''hi''"]
  by (simp add: b_handleSend_def after_typing_fields no_space_trim)

text \<open>An upload is attached to whatever thread is on screen when it ends: started in one thread and
  finished after a switch, it is offered, and sent, with a message of the other thread.\<close>

theorem upload_attaches_to_current_thread:
  assumes "cm_thread st = Some t" "u \<noteq> t" "\<not> cm_uploading st" "cm_attachment st = None"
    and "\<not> cm_sending st" "js_trim v \<noteq> []"
  shows "cm_sent (orbyn_composed [PickFile, Core (Open (Some (u, d))), UploadSettles (Uploaded i name),
            Core (Edit v), Core Send] st) = Some (u, js_trim v)
    \<and> cm_sent_attachment (orbyn_composed [PickFile, Core (Open (Some (u, d))), UploadSettles (Uploaded i name),
            Core (Edit v), Core Send] st) = Some i"
  using assms
  by (auto simp: orbyn_composed_def orbyn_compose_defs Let_def split: option.splits)

theorem upload_attaches_to_current_thread_witness:
  "cm_sent_attachment (orbyn_composed [PickFile, Core (Open (Some (''u'', []))), UploadSettles (Uploaded ''a1'' ''x.pdf''),
      Core (Edit ''hi''), Core Send] (orbyn_composed [Core (Open (Some (''t'', [])))] (init_orbyn Unavailable))) = Some ''a1''"
  using upload_attaches_to_current_thread
    [of "orbyn_composed [Core (Open (Some (''t'', [])))] (init_orbyn Unavailable)" "''t''" "''u''" "''hi''" "[]" "''a1''" "''x.pdf''"]
  by (simp add: no_space_trim)
    (simp add: orbyn_composed_def openThread_def init_orbyn_def init_composer_def composer.defs Let_def)

end
