(* ===== verification/Chat_Data.thy ===== *)
theory Chat_Data
  imports Http_Fetch
begin

text \<open>
  The chat data of the two applications: \<open>chat/types.ts\<close> and \<open>lib/notification-feed.ts\<close>
  of Subsystem 1, \<open>mail/data.tsx\<close> of the Builder, and the notification lists with their
  optimistic mark-read. Times are kept as the strings the API sends.
\<close>

section \<open>Personas and attitudes\<close>

datatype persona =
    operations_manager | procurement_manager | warehouse_manager | it_manager | operations_director | cfo

fun persona_value :: "persona \<Rightarrow> string" where
  "persona_value operations_manager = ''operations_manager''"
| "persona_value procurement_manager = ''procurement_manager''"
| "persona_value warehouse_manager = ''warehouse_manager''"
| "persona_value it_manager = ''it_manager''"
| "persona_value operations_director = ''operations_director''"
| "persona_value cfo = ''cfo''"

definition PERSONAS :: "persona list" where
  "PERSONAS = [operations_manager, procurement_manager, warehouse_manager, it_manager, operations_director, cfo]"

definition PERSONA_LABELS :: "(string \<times> string) list" where
  "PERSONA_LABELS =
     [(''operations_manager'', ''Operations Manager''), (''procurement_manager'', ''Procurement Manager''),
      (''warehouse_manager'', ''Warehouse Manager''), (''it_manager'', ''IT Manager''),
      (''operations_director'', ''Operations Director''), (''cfo'', ''CFO'')]"

definition personaLabel :: "string \<Rightarrow> string" where
  "personaLabel p = (case map_of PERSONA_LABELS p of Some l \<Rightarrow> l | None \<Rightarrow> p)"

definition b_PERSONA_LABELS :: "(string \<times> string) list" where
  "b_PERSONA_LABELS =
     [(''operations_manager'', ''Operations Manager''), (''procurement_manager'', ''Procurement Manager''),
      (''warehouse_manager'', ''Warehouse Manager''), (''it_manager'', ''IT Manager''),
      (''operations_director'', ''Operations Director''), (''cfo'', ''CFO'')]"

definition b_personaLabel :: "string \<Rightarrow> string" where
  "b_personaLabel p = (case map_of b_PERSONA_LABELS p of Some l \<Rightarrow> l | None \<Rightarrow> p)"

datatype attitude = neutral | frustrated | urgent | skeptical | appreciative

fun attitude_value :: "attitude \<Rightarrow> string" where
  "attitude_value neutral = ''neutral''"
| "attitude_value frustrated = ''frustrated''"
| "attitude_value urgent = ''urgent''"
| "attitude_value skeptical = ''skeptical''"
| "attitude_value appreciative = ''appreciative''"

definition ATTITUDES :: "attitude list" where
  "ATTITUDES = [neutral, frustrated, urgent, skeptical, appreciative]"

definition ATTITUDE_LABELS :: "(string \<times> string) list" where
  "ATTITUDE_LABELS =
     [(''neutral'', ''Neutral''), (''frustrated'', ''Frustrated''), (''urgent'', ''Urgent''),
      (''skeptical'', ''Skeptical''), (''appreciative'', ''Appreciative'')]"

definition attitudeLabel :: "string \<Rightarrow> string" where
  "attitudeLabel a = (case map_of ATTITUDE_LABELS a of Some l \<Rightarrow> l | None \<Rightarrow> a)"

section \<open>Threads, messages, frames\<close>

record chat_thread =
  th_id :: string
  th_scenario_id :: string
  th_persona :: string
  th_completed :: bool
  th_created_at :: string
  th_deadline_at :: "string option"
  th_is_overdue :: bool
  th_unread_count :: int
  th_draft_body :: string

record chat_message =
  ms_id :: string
  ms_thread_id :: string
  ms_sender_user_id :: string
  ms_sender_role :: string
  ms_body :: string
  ms_attachment_ref :: "string option"
  ms_sent_at :: string

text \<open>\<open>ChatSocketFrame\<close>: a frame carries no sender id.\<close>

record message_frame =
  fr_thread_id :: string
  fr_message_id :: string
  fr_sender_role :: string
  fr_body :: string
  fr_attachment_ref :: "string option"
  fr_sent_at :: string

datatype chat_frame = ThreadDeleted string | NewMessage message_frame

section \<open>Deadline banner and badges\<close>

text \<open>\<open>if (!thread.deadline_at) return null\<close>: the empty string hides the banner too.\<close>

datatype deadline_view = NoDeadline | Overdue | DueSoon

definition DeadlineBanner :: "chat_thread \<Rightarrow> deadline_view" where
  "DeadlineBanner t =
     (if truthy (th_deadline_at t) = None then NoDeadline else if th_is_overdue t then Overdue else DueSoon)"

definition DeadlineIndicator :: "chat_thread \<Rightarrow> deadline_view" where
  "DeadlineIndicator t =
     (if truthy (th_deadline_at t) = None then NoDeadline else if th_is_overdue t then Overdue else DueSoon)"

section \<open>The notification feed\<close>

datatype feed_kind = deadline_approaching | deadline_missed | new_reply

record feed_item =
  fi_id :: string
  fi_kind :: feed_kind
  fi_thread_id :: string
  fi_persona :: string
  fi_scenario_title :: string
  fi_unread_count :: int
  fi_occurred_at :: string
  fi_is_read :: bool

definition notificationTitle :: "feed_item \<Rightarrow> string" where
  "notificationTitle item =
     (let who = personaLabel (fi_persona item)
      in case fi_kind item of
           new_reply \<Rightarrow>
             if fi_unread_count item > 1 then show_int (fi_unread_count item) @ '' new messages from '' @ who
             else ''New message from '' @ who
         | deadline_approaching \<Rightarrow> ''Response due soon: '' @ who
         | deadline_missed \<Rightarrow> ''Response overdue: '' @ who)"

definition unreadCount :: "feed_item list \<Rightarrow> nat" where
  "unreadCount items = length (filter (\<lambda>item. \<not> fi_is_read item) items)"

text \<open>The Builder's titles.\<close>

definition notificationLabel :: "feed_kind \<Rightarrow> string" where
  "notificationLabel k =
     (case k of
        deadline_approaching \<Rightarrow> ''Response due soon''
      | deadline_missed \<Rightarrow> ''Response overdue''
      | new_reply \<Rightarrow> ''new_reply'')"

definition feedItemTitle :: "feed_item \<Rightarrow> string" where
  "feedItemTitle item =
     (let who = b_personaLabel (fi_persona item)
      in if fi_kind item = new_reply then
           (if fi_unread_count item > 1
            then show_int (fi_unread_count item) @ '' new replies from the Analyst ('' @ who @ '')''
            else ''New reply from the Analyst ('' @ who @ '')'')
         else notificationLabel (fi_kind item) @ '' '' @ em_dash @ '' '' @ who)"

section \<open>The header badge (notifications-menu.tsx)\<close>

definition MENU_ITEM_LIMIT :: nat where
  "MENU_ITEM_LIMIT = 5"

text \<open>\<open>refresh\<close>: what a poll of the feed comes back with; \<open>Feed\<close> is an array.\<close>

datatype feed_reply = FeedUnreachable | FeedNotOk | FeedNotArray | Feed "feed_item list"

fun refresh_feed :: "feed_reply \<Rightarrow> feed_item list \<Rightarrow> feed_item list" where
  "refresh_feed (Feed items') items = items'"
| "refresh_feed r items = items"

definition badge_text :: "feed_item list \<Rightarrow> string option" where
  "badge_text items =
     (let unread = unreadCount items
      in if unread > 0 then Some (if unread > 9 then ''9+'' else show_nat unread) else None)"

definition menu_items :: "feed_item list \<Rightarrow> feed_item list" where
  "menu_items items = take MENU_ITEM_LIMIT items"

section \<open>Marking notifications read\<close>

text \<open>
  \<open>readIds\<close> with the mark-read requests in flight. \<open>ReadReply i (Some ok)\<close> is the answer
  to the request for \<open>i\<close>, \<open>None\<close> a rejected fetch, which nothing catches.
\<close>

record read_state =
  rd_ids :: "string set"
  rd_flight :: "string list"

definition initial_read :: "feed_item list \<Rightarrow> read_state" where
  "initial_read items = \<lparr>rd_ids = fi_id ` set (filter fi_is_read items), rd_flight = []\<rparr>"

definition markRead :: "string \<Rightarrow> read_state \<Rightarrow> read_state" where
  "markRead i st = st\<lparr>rd_ids := insert i (rd_ids st), rd_flight := rd_flight st @ [i]\<rparr>"

definition handleMarkRead :: "string \<Rightarrow> read_state \<Rightarrow> read_state" where
  "handleMarkRead i st =
     (if i \<in> rd_ids st then st
      else st\<lparr>rd_ids := insert i (rd_ids st), rd_flight := rd_flight st @ [i]\<rparr>)"

definition readReply :: "string \<Rightarrow> bool option \<Rightarrow> read_state \<Rightarrow> read_state" where
  "readReply i r st =
     (if i \<notin> set (rd_flight st) then st
      else (if r = Some False then st\<lparr>rd_ids := rd_ids st - {i}\<rparr> else st)\<lparr>rd_flight := remove1 i (rd_flight st)\<rparr>)"

definition canMarkRead :: "feed_item \<Rightarrow> read_state \<Rightarrow> bool" where
  "canMarkRead item st \<longleftrightarrow> fi_kind item \<noteq> new_reply \<and> fi_id item \<notin> rd_ids st"

section \<open>Lemmas\<close>

lemma persona_labels_agree: "b_personaLabel = personaLabel"
  by (simp add: fun_eq_iff b_personaLabel_def personaLabel_def b_PERSONA_LABELS_def PERSONA_LABELS_def)

text \<open>The two personas menus are complete and unambiguous: every persona is listed once, has a label in
  both applications, the same one, and different personas have different labels.\<close>

theorem persona_labels_faithful:
  "set PERSONAS = UNIV \<and> distinct PERSONAS \<and> b_personaLabel = personaLabel
   \<and> (personaLabel (persona_value p) = personaLabel (persona_value q) \<longleftrightarrow> p = q)
   \<and> personaLabel (persona_value p) \<noteq> persona_value p"
proof -
  have "x \<in> set PERSONAS" for x by (cases x) (simp_all add: PERSONAS_def)
  moreover have "personaLabel (persona_value p) = personaLabel (persona_value q) \<longleftrightarrow> p = q"
    by (cases p; cases q) (simp_all add: personaLabel_def PERSONA_LABELS_def)
  moreover have "personaLabel (persona_value p) \<noteq> persona_value p"
    by (cases p) (simp_all add: personaLabel_def PERSONA_LABELS_def)
  ultimately show ?thesis by (auto simp: persona_labels_agree PERSONAS_def)
qed

text \<open>Marking a notification read is optimistic and rolled back: once the backend refuses, exactly what
  was read before is read, in both applications; while the request is in flight and after it
  succeeds the button is gone.\<close>

theorem mark_read_rolls_back:
  assumes "fi_id item = i" "canMarkRead item st"
  shows "rd_ids (readReply i (Some False) (markRead i st)) = rd_ids st
    \<and> rd_ids (readReply i (Some False) (handleMarkRead i st)) = rd_ids st
    \<and> \<not> canMarkRead item (markRead i st) \<and> \<not> canMarkRead item (handleMarkRead i st)
    \<and> \<not> canMarkRead item (readReply i (Some True) (markRead i st))
    \<and> handleMarkRead i (handleMarkRead i st) = handleMarkRead i st"
  using assms by (auto simp: canMarkRead_def readReply_def markRead_def handleMarkRead_def)

definition sample_item :: feed_item where
  "sample_item = \<lparr>fi_id = ''n1'', fi_kind = deadline_missed, fi_thread_id = ''t'', fi_persona = ''cfo'',
     fi_scenario_title = ''S'', fi_unread_count = 0, fi_occurred_at = ''x'', fi_is_read = False\<rparr>"

theorem mark_read_rolls_back_witness:
  "rd_ids (readReply ''n1'' (Some False) (markRead ''n1'' (initial_read [sample_item]))) = {}"
  using mark_read_rolls_back [of sample_item "''n1''" "initial_read [sample_item]"]
  by (simp add: sample_item_def canMarkRead_def initial_read_def)

lemma badge_text_iff: "badge_text items = None \<longleftrightarrow> (\<forall>i \<in> set items. fi_is_read i)"
  by (auto simp: badge_text_def unreadCount_def Let_def filter_empty_conv)

end
