(* ===== verification/Inbox.thy ===== *)
theory Inbox
  imports Chat_Data Draft_Buffer
begin

text \<open>
  The two inboxes: \<open>ChatInbox\<close> of Subsystem 1 and \<open>Mail\<close> of the Builder. Every handler and
  every continuation after an \<open>await\<close> is a function on the state; the requests in flight are
  part of the state, and a run interleaves user actions, socket frames, timers and replies in any
  order. Subsystem 1's runs are the step relation \<open>inbox_step\<close>; the Builder's are the function
  \<open>mail_step\<close> over the state extended by thread creation.
\<close>

section \<open>State\<close>

text \<open>
  \<open>ib_selected\<close> stands for \<open>selectedId\<close> and for \<open>selectedIdRef\<close>, which the effect sets to it
  after each commit. In flight: \<open>ib_history\<close> the threads whose messages \<open>selectThread\<close>
  awaits, \<open>ib_reading\<close> those whose read mark it awaits, \<open>ib_lists\<close> the list fetches,
  \<open>ib_sends\<close> the sends with the thread their closure captured, \<open>ib_deletes\<close> the
  deletions. \<open>ib_read_posts\<close> is the history of debounced mark-read requests.
\<close>

record inbox =
  ib_threads :: "chat_thread list"
  ib_selected :: "string option"
  ib_messages :: "chat_message list"
  ib_deleted :: "string list"
  ib_read_timer :: "string option"
  ib_read_posts :: "string list"
  ib_history :: "string list"
  ib_reading :: "string list"
  ib_lists :: nat
  ib_sends :: "(string \<times> string \<times> string option) list"
  ib_deletes :: "string list"
  ib_storage :: storage

record mail = inbox +
  ml_creates :: "(string \<times> string) list"

definition init_inbox :: "chat_thread list \<Rightarrow> storage \<Rightarrow> inbox" where
  "init_inbox ts s =
     \<lparr>ib_threads = ts, ib_selected = None, ib_messages = [], ib_deleted = [], ib_read_timer = None,
      ib_read_posts = [], ib_history = [], ib_reading = [], ib_lists = 0, ib_sends = [], ib_deletes = [],
      ib_storage = s\<rparr>"

definition init_mail :: "chat_thread list \<Rightarrow> storage \<Rightarrow> mail" where
  "init_mail ts s = inbox.extend (init_inbox ts s) \<lparr>ml_creates = []\<rparr>"

text \<open>The \<open>i\<close>-th request in flight comes back: it leaves the list.\<close>

definition drop_nth :: "nat \<Rightarrow> 'a list \<Rightarrow> 'a list" where
  "drop_nth i xs = take i xs @ drop (Suc i) xs"

lemma set_drop_nth: "set (drop_nth i xs) \<subseteq> set xs"
  by (auto simp: drop_nth_def dest: in_set_takeD in_set_dropD)

section \<open>Subsystem 1: chat-inbox.tsx\<close>

definition selectedThread :: "'a inbox_scheme \<Rightarrow> chat_thread option" where
  "selectedThread st = find (\<lambda>t. Some (th_id t) = ib_selected st) (ib_threads st)"

definition applyThreads :: "chat_thread list \<Rightarrow> 'a inbox_scheme \<Rightarrow> 'a inbox_scheme" where
  "applyThreads fetched st =
     st\<lparr>ib_threads := map (\<lambda>t. if Some (th_id t) = ib_selected st then t\<lparr>th_unread_count := 0\<rparr> else t)
          (filter (\<lambda>t. th_id t \<notin> set (ib_deleted st)) fetched)\<rparr>"

definition markReadDebounced :: "string \<Rightarrow> 'a inbox_scheme \<Rightarrow> 'a inbox_scheme" where
  "markReadDebounced threadId st = st\<lparr>ib_read_timer := Some threadId\<rparr>"

definition markReadTimer :: "'a inbox_scheme \<Rightarrow> 'a inbox_scheme" where
  "markReadTimer st =
     (case ib_read_timer st of
        None \<Rightarrow> st
      | Some threadId \<Rightarrow> st\<lparr>ib_read_timer := None, ib_read_posts := ib_read_posts st @ [threadId]\<rparr>)"

text \<open>\<open>selectThread\<close> up to its first \<open>await\<close>, then after the history (a refused fetch
  is an empty one, a rejected one ends the callback) and after the read mark.\<close>

definition selectThread :: "string \<Rightarrow> 'a inbox_scheme \<Rightarrow> 'a inbox_scheme" where
  "selectThread threadId st = st\<lparr>ib_selected := Some threadId, ib_history := ib_history st @ [threadId]\<rparr>"

definition historyArrives :: "nat \<Rightarrow> chat_message list option \<Rightarrow> 'a inbox_scheme \<Rightarrow> 'a inbox_scheme" where
  "historyArrives i r st =
     (if i < length (ib_history st) then
        (case r of
           None \<Rightarrow> st
         | Some history \<Rightarrow> st\<lparr>ib_messages := history, ib_reading := ib_reading st @ [ib_history st ! i]\<rparr>)
        \<lparr>ib_history := drop_nth i (ib_history st)\<rparr>
      else st)"

definition readMarked :: "nat \<Rightarrow> bool \<Rightarrow> 'a inbox_scheme \<Rightarrow> 'a inbox_scheme" where
  "readMarked i resolved st =
     (if i < length (ib_reading st) then
        (if resolved
         then st\<lparr>ib_threads := map (\<lambda>t. if th_id t = ib_reading st ! i then t\<lparr>th_unread_count := 0\<rparr> else t)
                               (ib_threads st)\<rparr>
         else st)
        \<lparr>ib_reading := drop_nth i (ib_reading st)\<rparr>
      else st)"

text \<open>What a send comes back with; the verdict is what \<open>onSend\<close> hands the composer.\<close>

datatype send_reply = SendOk chat_message | SendRefused | SendUnreachable

fun send_verdict :: "send_reply \<Rightarrow> bool option" where
  "send_verdict (SendOk m) = Some True"
| "send_verdict SendRefused = Some False"
| "send_verdict SendUnreachable = None"

definition handleSend :: "string \<Rightarrow> string option \<Rightarrow> 'a inbox_scheme \<Rightarrow> 'a inbox_scheme" where
  "handleSend body attachmentId st =
     (case ib_selected st of
        None \<Rightarrow> st
      | Some threadId \<Rightarrow> st\<lparr>ib_sends := ib_sends st @ [(threadId, body, truthy attachmentId)]\<rparr>)"

definition sendReplied :: "nat \<Rightarrow> send_reply \<Rightarrow> 'a inbox_scheme \<Rightarrow> 'a inbox_scheme" where
  "sendReplied i r st =
     (if i < length (ib_sends st) then
        (case r of
           SendOk m \<Rightarrow> st\<lparr>ib_messages := add_once ms_id m (ib_messages st)\<rparr>
         | _ \<Rightarrow> st)
        \<lparr>ib_sends := drop_nth i (ib_sends st)\<rparr>
      else st)"

text \<open>A deletion: 404 counts as done.\<close>

definition removeThread :: "string \<Rightarrow> 'a inbox_scheme \<Rightarrow> 'a inbox_scheme" where
  "removeThread threadId st =
     (let st1 = st\<lparr>ib_deleted := threadId # ib_deleted st, ib_storage := clearDraftBuffer (ib_storage st) threadId,
                   ib_threads := filter (\<lambda>t. th_id t \<noteq> threadId) (ib_threads st)\<rparr>
      in if ib_selected st1 = Some threadId then st1\<lparr>ib_selected := None, ib_messages := []\<rparr> else st1)"

definition handleDeleteThread :: "string \<Rightarrow> 'a inbox_scheme \<Rightarrow> 'a inbox_scheme" where
  "handleDeleteThread threadId st = st\<lparr>ib_deletes := ib_deletes st @ [threadId]\<rparr>"

definition deleteReplied :: "nat \<Rightarrow> nat option \<Rightarrow> 'a inbox_scheme \<Rightarrow> 'a inbox_scheme" where
  "deleteReplied i r st =
     (if i < length (ib_deletes st) then
        let threadId = ib_deletes st ! i; st1 = st\<lparr>ib_deletes := drop_nth i (ib_deletes st)\<rparr>
        in case r of
             None \<Rightarrow> st1
           | Some status \<Rightarrow>
               if \<not> (200 \<le> status \<and> status \<le> 299) \<and> status \<noteq> 404 then st1 else removeThread threadId st1
      else st)"

definition fetchThreads :: "'a inbox_scheme \<Rightarrow> 'a inbox_scheme" where
  "fetchThreads st = st\<lparr>ib_lists := Suc (ib_lists st)\<rparr>"

text \<open>\<open>fetchThreads().then(applyThreads)\<close>: a refused fetch is an empty list.\<close>

datatype list_reply = ListOk "chat_thread list" | ListRefused | ListUnreachable

definition threadsFetched :: "list_reply \<Rightarrow> 'a inbox_scheme \<Rightarrow> 'a inbox_scheme" where
  "threadsFetched r st =
     (if ib_lists st = 0 then st
      else let st1 = st\<lparr>ib_lists := ib_lists st - 1\<rparr>
           in case r of
                ListOk ts \<Rightarrow> applyThreads ts st1
              | ListRefused \<Rightarrow> applyThreads [] st1
              | ListUnreachable \<Rightarrow> st1)"

definition message_of_frame :: "message_frame \<Rightarrow> chat_message" where
  "message_of_frame f =
     \<lparr>ms_id = fr_message_id f, ms_thread_id = fr_thread_id f, ms_sender_user_id = [],
      ms_sender_role = fr_sender_role f, ms_body = fr_body f, ms_attachment_ref = fr_attachment_ref f,
      ms_sent_at = fr_sent_at f\<rparr>"

definition handleFrame :: "chat_frame \<Rightarrow> 'a inbox_scheme \<Rightarrow> 'a inbox_scheme" where
  "handleFrame frame st =
     (case frame of
        ThreadDeleted threadId \<Rightarrow> removeThread threadId st
      | NewMessage f \<Rightarrow>
          if Some (fr_thread_id f) = ib_selected st then
            markReadDebounced (fr_thread_id f)
              (st\<lparr>ib_messages := add_once ms_id (message_of_frame f) (ib_messages st)\<rparr>)
          else fetchThreads st)"

section \<open>Subsystem 1: the runs\<close>

text \<open>The list offers only the threads it shows, and deletion only the open thread.\<close>

inductive inbox_step :: "inbox \<Rightarrow> inbox \<Rightarrow> bool" where
  select: "threadId \<in> th_id ` set (ib_threads st) \<Longrightarrow> inbox_step st (selectThread threadId st)"
| history: "inbox_step st (historyArrives i r st)"
| read_marked: "inbox_step st (readMarked i resolved st)"
| send: "inbox_step st (handleSend body attachmentId st)"
| sent: "inbox_step st (sendReplied i reply st)"
| delete: "ib_selected st = Some threadId \<Longrightarrow> inbox_step st (handleDeleteThread threadId st)"
| deleted: "inbox_step st (deleteReplied i status st)"
| poll: "inbox_step st (fetchThreads st)"
| listed: "inbox_step st (threadsFetched lr st)"
| frame: "inbox_step st (handleFrame frame st)"
| read_timer: "inbox_step st (markReadTimer st)"

inductive_cases inbox_stepE: "inbox_step st st'"

inductive inbox_reach :: "inbox \<Rightarrow> inbox \<Rightarrow> bool" for st0 :: inbox where
  start: "inbox_reach st0 st0"
| step: "inbox_reach st0 st \<Longrightarrow> inbox_step st st' \<Longrightarrow> inbox_reach st0 st'"

section \<open>The Builder: mail.tsx\<close>

definition b_applyThreads :: "chat_thread list \<Rightarrow> 'a inbox_scheme \<Rightarrow> 'a inbox_scheme" where
  "b_applyThreads fetched st =
     st\<lparr>ib_threads := map (\<lambda>t. if Some (th_id t) = ib_selected st then t\<lparr>th_unread_count := 0\<rparr> else t)
          (filter (\<lambda>t. th_id t \<notin> set (ib_deleted st)) fetched)\<rparr>"

definition b_markReadDebounced :: "string \<Rightarrow> 'a inbox_scheme \<Rightarrow> 'a inbox_scheme" where
  "b_markReadDebounced threadId st = st\<lparr>ib_read_timer := Some threadId\<rparr>"

definition b_markReadTimer :: "'a inbox_scheme \<Rightarrow> 'a inbox_scheme" where
  "b_markReadTimer st =
     (case ib_read_timer st of
        None \<Rightarrow> st
      | Some threadId \<Rightarrow> st\<lparr>ib_read_timer := None, ib_read_posts := ib_read_posts st @ [threadId]\<rparr>)"

definition b_selectThread :: "string \<Rightarrow> 'a inbox_scheme \<Rightarrow> 'a inbox_scheme" where
  "b_selectThread threadId st = st\<lparr>ib_selected := Some threadId, ib_history := ib_history st @ [threadId]\<rparr>"

definition b_historyArrives :: "nat \<Rightarrow> chat_message list option \<Rightarrow> 'a inbox_scheme \<Rightarrow> 'a inbox_scheme" where
  "b_historyArrives i r st =
     (if i < length (ib_history st) then
        (case r of
           None \<Rightarrow> st
         | Some history \<Rightarrow> st\<lparr>ib_messages := history, ib_reading := ib_reading st @ [ib_history st ! i]\<rparr>)
        \<lparr>ib_history := drop_nth i (ib_history st)\<rparr>
      else st)"

definition b_readMarked :: "nat \<Rightarrow> bool \<Rightarrow> 'a inbox_scheme \<Rightarrow> 'a inbox_scheme" where
  "b_readMarked i resolved st =
     (if i < length (ib_reading st) then
        (if resolved
         then st\<lparr>ib_threads := map (\<lambda>t. if th_id t = ib_reading st ! i then t\<lparr>th_unread_count := 0\<rparr> else t)
                               (ib_threads st)\<rparr>
         else st)
        \<lparr>ib_reading := drop_nth i (ib_reading st)\<rparr>
      else st)"

definition b_handleSend :: "string \<Rightarrow> 'a inbox_scheme \<Rightarrow> 'a inbox_scheme" where
  "b_handleSend body st =
     (case ib_selected st of
        None \<Rightarrow> st
      | Some threadId \<Rightarrow> st\<lparr>ib_sends := ib_sends st @ [(threadId, body, None)]\<rparr>)"

definition b_sendReplied :: "nat \<Rightarrow> send_reply \<Rightarrow> 'a inbox_scheme \<Rightarrow> 'a inbox_scheme" where
  "b_sendReplied i r st =
     (if i < length (ib_sends st) then
        (case r of
           SendOk m \<Rightarrow> st\<lparr>ib_messages := add_once ms_id m (ib_messages st)\<rparr>
         | _ \<Rightarrow> st)
        \<lparr>ib_sends := drop_nth i (ib_sends st)\<rparr>
      else st)"

definition b_removeThread :: "string \<Rightarrow> 'a inbox_scheme \<Rightarrow> 'a inbox_scheme" where
  "b_removeThread threadId st =
     (let st1 = st\<lparr>ib_deleted := threadId # ib_deleted st, ib_storage := b_clearDraftBuffer (ib_storage st) threadId,
                   ib_threads := filter (\<lambda>t. th_id t \<noteq> threadId) (ib_threads st)\<rparr>
      in if ib_selected st1 = Some threadId then st1\<lparr>ib_selected := None, ib_messages := []\<rparr> else st1)"

definition b_handleDeleteThread :: "string \<Rightarrow> 'a inbox_scheme \<Rightarrow> 'a inbox_scheme" where
  "b_handleDeleteThread threadId st = st\<lparr>ib_deletes := ib_deletes st @ [threadId]\<rparr>"

definition b_deleteReplied :: "nat \<Rightarrow> nat option \<Rightarrow> 'a inbox_scheme \<Rightarrow> 'a inbox_scheme" where
  "b_deleteReplied i r st =
     (if i < length (ib_deletes st) then
        let threadId = ib_deletes st ! i; st1 = st\<lparr>ib_deletes := drop_nth i (ib_deletes st)\<rparr>
        in case r of
             None \<Rightarrow> st1
           | Some status \<Rightarrow>
               if \<not> (200 \<le> status \<and> status \<le> 299) \<and> status \<noteq> 404 then st1 else b_removeThread threadId st1
      else st)"

definition b_fetchThreads :: "'a inbox_scheme \<Rightarrow> 'a inbox_scheme" where
  "b_fetchThreads st = st\<lparr>ib_lists := Suc (ib_lists st)\<rparr>"

definition b_threadsFetched :: "list_reply \<Rightarrow> 'a inbox_scheme \<Rightarrow> 'a inbox_scheme" where
  "b_threadsFetched r st =
     (if ib_lists st = 0 then st
      else let st1 = st\<lparr>ib_lists := ib_lists st - 1\<rparr>
           in case r of
                ListOk ts \<Rightarrow> b_applyThreads ts st1
              | ListRefused \<Rightarrow> b_applyThreads [] st1
              | ListUnreachable \<Rightarrow> st1)"

definition b_message_of_frame :: "message_frame \<Rightarrow> chat_message" where
  "b_message_of_frame f =
     \<lparr>ms_id = fr_message_id f, ms_thread_id = fr_thread_id f, ms_sender_user_id = [],
      ms_sender_role = fr_sender_role f, ms_body = fr_body f, ms_attachment_ref = fr_attachment_ref f,
      ms_sent_at = fr_sent_at f\<rparr>"

definition b_handleFrame :: "chat_frame \<Rightarrow> 'a inbox_scheme \<Rightarrow> 'a inbox_scheme" where
  "b_handleFrame frame st =
     (case frame of
        ThreadDeleted threadId \<Rightarrow> b_removeThread threadId st
      | NewMessage f \<Rightarrow>
          if Some (fr_thread_id f) = ib_selected st then
            b_markReadDebounced (fr_thread_id f)
              (st\<lparr>ib_messages := add_once ms_id (b_message_of_frame f) (ib_messages st)\<rparr>)
          else b_fetchThreads st)"

text \<open>
  \<open>handleCreateThread\<close>: the reply has no \<open>unread_count\<close> and \<open>draft_body\<close>, which get
  their defaults; \<open>created_thread\<close> is the thread with the fields as they came, an absent one
  being \<open>None\<close>.
\<close>

record created_thread =
  cr_thread :: chat_thread
  cr_unread_count :: "int option"
  cr_draft_body :: "string option"

definition with_defaults :: "created_thread \<Rightarrow> chat_thread" where
  "with_defaults raw =
     (cr_thread raw)\<lparr>th_unread_count := (case cr_unread_count raw of Some n \<Rightarrow> n | None \<Rightarrow> 0),
                      th_draft_body := (case cr_draft_body raw of Some d \<Rightarrow> d | None \<Rightarrow> [])\<rparr>"

definition handleCreateThread :: "string \<Rightarrow> string \<Rightarrow> mail \<Rightarrow> mail" where
  "handleCreateThread scenarioId p st = st\<lparr>ml_creates := ml_creates st @ [(scenarioId, p)]\<rparr>"

definition created :: "nat \<Rightarrow> created_thread option \<Rightarrow> mail \<Rightarrow> mail" where
  "created i r st =
     (if i < length (ml_creates st) then
        let st1 = st\<lparr>ml_creates := drop_nth i (ml_creates st)\<rparr>
        in case r of
             None \<Rightarrow> st1
           | Some raw \<Rightarrow>
               let thread = with_defaults raw
               in b_selectThread (th_id thread)
                    (st1\<lparr>ib_threads := (if \<exists>t \<in> set (ib_threads st1). th_id t = th_id thread
                                        then ib_threads st1 else thread # ib_threads st1)\<rparr>)
      else st)"

definition unreadThreads :: "'a inbox_scheme \<Rightarrow> chat_thread list" where
  "unreadThreads st = filter (\<lambda>t. th_unread_count t > 0) (ib_threads st)"

datatype mail_event =
    MSelect string | MHistory nat "chat_message list option" | MReadMarked nat bool
  | MSend string | MSent nat send_reply | MDelete string | MDeleted nat "nat option"
  | MPoll | MListed list_reply | MFrame chat_frame | MReadTimer
  | MCreate string string | MCreated nat "created_thread option"

fun mail_step :: "mail_event \<Rightarrow> mail \<Rightarrow> mail" where
  "mail_step (MSelect i) st = (if i \<in> th_id ` set (ib_threads st) then b_selectThread i st else st)"
| "mail_step (MHistory i r) st = b_historyArrives i r st"
| "mail_step (MReadMarked i ok) st = b_readMarked i ok st"
| "mail_step (MSend body) st = b_handleSend body st"
| "mail_step (MSent i r) st = b_sendReplied i r st"
| "mail_step (MDelete i) st = (if ib_selected st = Some i then b_handleDeleteThread i st else st)"
| "mail_step (MDeleted i r) st = b_deleteReplied i r st"
| "mail_step MPoll st = b_fetchThreads st"
| "mail_step (MListed r) st = b_threadsFetched r st"
| "mail_step (MFrame f) st = b_handleFrame f st"
| "mail_step MReadTimer st = b_markReadTimer st"
| "mail_step (MCreate s p) st = handleCreateThread s p st"
| "mail_step (MCreated i r) st = created i r st"

section \<open>The handlers of the two applications are the same\<close>

lemma clear_agree: "b_clearDraftBuffer = clearDraftBuffer"
  by (simp add: fun_eq_iff b_clearDraftBuffer_def clearDraftBuffer_def b_storageKey_def storageKey_def
      b_storage_prefix_def storage_prefix_def)

lemma simple_handlers_agree:
  "b_applyThreads = applyThreads" "b_markReadDebounced = markReadDebounced" "b_markReadTimer = markReadTimer"
  "b_selectThread = selectThread" "b_historyArrives = historyArrives" "b_readMarked = readMarked"
  "b_handleSend body = handleSend body None" "b_sendReplied = sendReplied" "b_removeThread = removeThread"
  "b_handleDeleteThread = handleDeleteThread" "b_fetchThreads = fetchThreads"
  "b_message_of_frame = message_of_frame"
  by (auto simp: fun_eq_iff b_applyThreads_def applyThreads_def b_markReadDebounced_def markReadDebounced_def
      b_markReadTimer_def markReadTimer_def b_selectThread_def selectThread_def b_historyArrives_def
      historyArrives_def b_readMarked_def readMarked_def b_handleSend_def handleSend_def b_sendReplied_def
      sendReplied_def b_removeThread_def removeThread_def clear_agree b_handleDeleteThread_def
      handleDeleteThread_def b_fetchThreads_def fetchThreads_def b_message_of_frame_def message_of_frame_def
      split: option.splits)

lemma handlers_agree:
  "b_deleteReplied = deleteReplied" "b_threadsFetched = threadsFetched" "b_handleFrame = handleFrame"
  by (auto simp: fun_eq_iff b_deleteReplied_def deleteReplied_def b_threadsFetched_def threadsFetched_def
      b_handleFrame_def handleFrame_def simple_handlers_agree Let_def
      split: option.splits chat_frame.splits list_reply.splits)

lemmas handler_defs =
  markReadDebounced_def markReadTimer_def selectThread_def historyArrives_def readMarked_def handleSend_def
  sendReplied_def removeThread_def handleDeleteThread_def deleteReplied_def fetchThreads_def
  threadsFetched_def applyThreads_def handleFrame_def

section \<open>Deleted threads stay deleted\<close>

text \<open>No listed thread is deleted, and the open thread is not either.\<close>

definition inbox_ok :: "'a inbox_scheme \<Rightarrow> bool" where
  "inbox_ok st \<longleftrightarrow>
     (\<forall>t \<in> set (ib_threads st). th_id t \<notin> set (ib_deleted st))
     \<and> (\<forall>i. ib_selected st = Some i \<longrightarrow> i \<notin> set (ib_deleted st))"

lemma removeThread_ok: "inbox_ok st \<Longrightarrow> inbox_ok (removeThread i st)"
  by (auto simp: inbox_ok_def removeThread_def Let_def)

lemma removeThread_deleted [simp]: "ib_deleted (removeThread i st) = i # ib_deleted st"
  by (simp add: removeThread_def Let_def)

lemma applyThreads_ok: "inbox_ok st \<Longrightarrow> inbox_ok (applyThreads ts st)"
  by (auto simp: inbox_ok_def applyThreads_def)

lemma handlers_ok:
  assumes "inbox_ok st"
  shows "inbox_ok (historyArrives n r st)" "inbox_ok (readMarked n ok st)" "inbox_ok (handleSend body a st)"
    "inbox_ok (sendReplied n sr st)" "inbox_ok (handleDeleteThread i st)" "inbox_ok (deleteReplied n dr st)"
    "inbox_ok (fetchThreads st)" "inbox_ok (threadsFetched lr st)" "inbox_ok (handleFrame f st)"
    "inbox_ok (markReadTimer st)"
proof -
  have lists: "inbox_ok (st\<lparr>ib_lists := n\<rparr>)" "inbox_ok (st\<lparr>ib_deletes := xs\<rparr>)" for n xs
    using assms by (simp_all add: inbox_ok_def)
  show "inbox_ok (deleteReplied n dr st)"
    using lists assms by (auto simp: deleteReplied_def Let_def removeThread_ok split: option.splits)
  show "inbox_ok (threadsFetched lr st)"
    using lists assms by (auto simp: threadsFetched_def Let_def applyThreads_ok split: list_reply.splits)
  show "inbox_ok (handleFrame f st)"
    using lists assms
    by (auto simp: handleFrame_def removeThread_ok fetchThreads_def markReadDebounced_def split: chat_frame.splits)
      (simp add: inbox_ok_def)
  show "inbox_ok (readMarked n ok st)"
    using assms by (auto simp: readMarked_def inbox_ok_def)
qed (use assms in \<open>auto simp: handler_defs inbox_ok_def split: option.splits send_reply.splits\<close>)

lemma select_ok: "inbox_ok st \<Longrightarrow> i \<in> th_id ` set (ib_threads st) \<Longrightarrow> inbox_ok (selectThread i st)"
  by (auto simp: inbox_ok_def selectThread_def)

lemma handlers_deleted:
  "ib_deleted (selectThread i st) = ib_deleted st" "ib_deleted (historyArrives n r st) = ib_deleted st"
  "ib_deleted (readMarked n ok st) = ib_deleted st" "ib_deleted (handleSend body a st) = ib_deleted st"
  "ib_deleted (sendReplied n sr st) = ib_deleted st" "ib_deleted (handleDeleteThread i st) = ib_deleted st"
  "ib_deleted (fetchThreads st) = ib_deleted st" "ib_deleted (threadsFetched lr st) = ib_deleted st"
  "ib_deleted (markReadTimer st) = ib_deleted st"
  "set (ib_deleted st) \<subseteq> set (ib_deleted (deleteReplied n dr st))"
  "set (ib_deleted st) \<subseteq> set (ib_deleted (handleFrame f st))"
  by (auto simp: handler_defs Let_def split: option.splits send_reply.splits list_reply.splits chat_frame.splits)

lemma inbox_step_ok:
  assumes "inbox_step st st'" "inbox_ok st"
  shows "inbox_ok st' \<and> set (ib_deleted st) \<subseteq> set (ib_deleted st')"
  using assms by cases (auto simp: handlers_ok select_ok handlers_deleted dest: subsetD [OF handlers_deleted(10)]
      subsetD [OF handlers_deleted(11)])

lemma inbox_reach_ok:
  "inbox_reach st0 st \<Longrightarrow> inbox_ok st0 \<Longrightarrow> inbox_ok st \<and> set (ib_deleted st0) \<subseteq> set (ib_deleted st)"
  by (induction rule: inbox_reach.induct) (use inbox_step_ok in blast)+

text \<open>C20: Subsystem 1's inbox: once a thread has been removed (by the user, or by a broadcast) it is never
  listed or open again, whatever list fetches, replies and frames were under way; nothing is ever
  taken off the deleted list.\<close>

theorem deleted_threads_stay_deleted:
  assumes "inbox_reach (init_inbox ts s) st" "inbox_reach st st'" "i \<in> set (ib_deleted st)"
  shows "i \<notin> th_id ` set (ib_threads st') \<and> ib_selected st' \<noteq> Some i \<and> i \<in> set (ib_deleted st')"
proof -
  have "inbox_ok (init_inbox ts s)" by (simp add: inbox_ok_def init_inbox_def)
  with inbox_reach_ok assms(1) have "inbox_ok st" by blast
  with inbox_reach_ok assms(2) have "inbox_ok st'" "set (ib_deleted st) \<subseteq> set (ib_deleted st')" by blast+
  with assms(3) show ?thesis by (auto simp: inbox_ok_def)
qed

definition sample_thread :: "string \<Rightarrow> chat_thread" where
  "sample_thread i = \<lparr>th_id = i, th_scenario_id = ''s'', th_persona = ''cfo'', th_completed = False,
     th_created_at = ''x'', th_deadline_at = None, th_is_overdue = False, th_unread_count = 2, th_draft_body = []\<rparr>"

definition sample_message :: "string \<Rightarrow> string \<Rightarrow> chat_message" where
  "sample_message i th = \<lparr>ms_id = i, ms_thread_id = th, ms_sender_user_id = ''u'', ms_sender_role = ''admin'',
     ms_body = ''hi'', ms_attachment_ref = None, ms_sent_at = ''x''\<rparr>"

theorem deleted_threads_stay_deleted_witness:
  "''t'' \<notin> th_id ` set (ib_threads (threadsFetched (ListOk [sample_thread ''t'', sample_thread ''u''])
       (handleFrame (ThreadDeleted ''t'') (fetchThreads (init_inbox [sample_thread ''t''] Unavailable)))))"
proof -
  let ?s0 = "init_inbox [sample_thread ''t''] Unavailable"
  let ?s2 = "handleFrame (ThreadDeleted ''t'') (fetchThreads ?s0)"
  have 1: "inbox_reach ?s0 ?s2"
    by (rule inbox_reach.step [OF inbox_reach.step [OF inbox_reach.start inbox_step.poll] inbox_step.frame])
  have 2: "inbox_reach ?s2 (threadsFetched (ListOk [sample_thread ''t'', sample_thread ''u'']) ?s2)"
    by (rule inbox_reach.step [OF inbox_reach.start inbox_step.listed])
  have "''t'' \<in> set (ib_deleted ?s2)" by (simp add: handleFrame_def)
  with deleted_threads_stay_deleted [OF 1 2] show ?thesis by blast
qed

section \<open>The Builder's runs\<close>

lemma created_ok:
  assumes "inbox_ok st" "\<forall>raw. r = Some raw \<longrightarrow> th_id (cr_thread raw) \<notin> set (ib_deleted st)"
  shows "inbox_ok (created n r st) \<and> ib_deleted (created n r st) = ib_deleted st"
  using assms
  by (auto simp: created_def inbox_ok_def with_defaults_def b_selectThread_def Let_def split: option.splits)

lemma create_ok:
  "inbox_ok (handleCreateThread s p st) = inbox_ok st" "ib_deleted (handleCreateThread s p st) = ib_deleted st"
  by (simp_all add: inbox_ok_def handleCreateThread_def)

definition fresh_creation :: "mail_event \<Rightarrow> mail \<Rightarrow> bool" where
  "fresh_creation e st \<longleftrightarrow>
     (case e of MCreated n (Some raw) \<Rightarrow> th_id (cr_thread raw) \<notin> set (ib_deleted st) | _ \<Rightarrow> True)"

lemma mail_step_ok:
  "inbox_ok st \<Longrightarrow> fresh_creation e st \<Longrightarrow>
     inbox_ok (mail_step e st) \<and> set (ib_deleted st) \<subseteq> set (ib_deleted (mail_step e st))"
  by (cases e) (auto simp: simple_handlers_agree handlers_agree handlers_ok select_ok handlers_deleted
      created_ok fresh_creation_def create_ok
      dest: subsetD [OF handlers_deleted(10)] subsetD [OF handlers_deleted(11)] split: option.splits)

definition mail_run :: "mail_event list \<Rightarrow> mail \<Rightarrow> mail" where
  "mail_run es st = fold mail_step es st"

text \<open>The ids the backend gives to new threads are not those of threads deleted at the end of the run.\<close>

definition creates_fresh :: "mail_event list \<Rightarrow> mail \<Rightarrow> bool" where
  "creates_fresh es st \<longleftrightarrow>
     (\<forall>n raw. MCreated n (Some raw) \<in> set es \<longrightarrow> th_id (cr_thread raw) \<notin> set (ib_deleted (mail_run es st)))"

lemma mail_deleted_grows: "set (ib_deleted st) \<subseteq> set (ib_deleted (mail_run es st))"
proof (induction es arbitrary: st)
  case (Cons e es)
  have "set (ib_deleted st) \<subseteq> set (ib_deleted (mail_step e st))"
    by (cases e) (auto simp: simple_handlers_agree handlers_agree handlers_deleted created_def Let_def
        handleCreateThread_def dest: subsetD [OF handlers_deleted(10)] subsetD [OF handlers_deleted(11)]
        split: option.splits)
  with Cons [of "mail_step e st"] show ?case by (simp add: mail_run_def)
qed (simp add: mail_run_def)

lemma mail_run_ok: "inbox_ok st \<Longrightarrow> creates_fresh es st \<Longrightarrow> inbox_ok (mail_run es st)"
proof (induction es arbitrary: st)
  case (Cons e es)
  have "fresh_creation e st"
    using Cons.prems(2) mail_deleted_grows [of st "e # es"]
    by (cases e) (auto simp: creates_fresh_def fresh_creation_def split: option.splits)
  then have "inbox_ok (mail_step e st)" using mail_step_ok Cons.prems(1) by blast
  moreover have "creates_fresh es (mail_step e st)"
    using Cons.prems(2) by (auto simp: creates_fresh_def mail_run_def)
  ultimately show ?case using Cons.IH by (simp add: mail_run_def)
qed (simp add: mail_run_def)

text \<open>The same for the Builder, whose inbox also creates threads, as long as the backend does not hand
  out the id of a deleted thread again.\<close>

theorem builder_deleted_threads_stay_deleted:
  assumes "creates_fresh es (init_mail ts s)" "i \<in> set (ib_deleted (mail_run es (init_mail ts s)))"
  shows "i \<notin> th_id ` set (ib_threads (mail_run es (init_mail ts s)))
    \<and> ib_selected (mail_run es (init_mail ts s)) \<noteq> Some i"
proof -
  have "inbox_ok (init_mail ts s)" by (simp add: inbox_ok_def init_mail_def init_inbox_def inbox.defs)
  from mail_run_ok [OF this assms(1)] assms(2) show ?thesis by (auto simp: inbox_ok_def)
qed

theorem builder_deleted_threads_stay_deleted_witness:
  "''t'' \<notin> th_id ` set (ib_threads (mail_run [MPoll, MFrame (ThreadDeleted ''t''), MListed (ListOk [sample_thread ''t''])]
      (init_mail [sample_thread ''t''] Unavailable)))"
  using builder_deleted_threads_stay_deleted
    [of "[MPoll, MFrame (ThreadDeleted ''t''), MListed (ListOk [sample_thread ''t''])]" "[sample_thread ''t'']" Unavailable "''t''"]
  by (simp add: creates_fresh_def mail_run_def simple_handlers_agree handlers_agree handlers_deleted handleFrame_def)

section \<open>Messages\<close>

text \<open>A message the user sends shows exactly once, at the end, whichever of the reply to the POST and
  the broadcast of the same message comes first.\<close>

theorem sent_message_shown_once:
  fixes st :: inbox
  assumes "ib_selected st = Some (fr_thread_id f)" "ib_sends st = [(fr_thread_id f, body, a)]"
    and "ms_id m = fr_message_id f" "distinct (map ms_id (ib_messages st))"
    and "fr_message_id f \<notin> ms_id ` set (ib_messages st)"
  shows "map ms_id (ib_messages (handleFrame (NewMessage f) (sendReplied 0 (SendOk m) st)))
          = map ms_id (ib_messages st) @ [fr_message_id f]
    \<and> map ms_id (ib_messages (sendReplied 0 (SendOk m) (handleFrame (NewMessage f) st)))
          = map ms_id (ib_messages st) @ [fr_message_id f]"
proof -
  have f: "handleFrame (NewMessage f) st' = markReadDebounced (fr_thread_id f)
      (st'\<lparr>ib_messages := add_once ms_id (message_of_frame f) (ib_messages st')\<rparr>)"
    if "ib_selected st' = Some (fr_thread_id f)" for st' :: inbox
    using that by (simp add: handleFrame_def)
  have s: "sendReplied 0 (SendOk m) st' = st'\<lparr>ib_messages := add_once ms_id m (ib_messages st'), ib_sends := []\<rparr>"
    if "ib_sends st' = [(fr_thread_id f, body, a)]" for st' :: inbox
    using that by (simp add: sendReplied_def drop_nth_def)
  have i: "ms_id (message_of_frame f) = ms_id m" using assms(3) by (simp add: message_of_frame_def)
  show ?thesis
    using assms by (simp add: f s i markReadDebounced_def add_once_new add_once_member)
qed

definition sample_frame :: message_frame where
  "sample_frame = \<lparr>fr_thread_id = ''t'', fr_message_id = ''m1'', fr_sender_role = ''admin'', fr_body = ''hi'',
     fr_attachment_ref = None, fr_sent_at = ''x''\<rparr>"

theorem sent_message_shown_once_witness:
  "map ms_id (ib_messages (sendReplied 0 (SendOk (sample_message ''m1'' ''t''))
     (handleFrame (NewMessage sample_frame) ((init_inbox [sample_thread ''t''] Unavailable)
        \<lparr>ib_selected := Some ''t'', ib_sends := [(''t'', ''hi'', None)]\<rparr>)))) = [''m1'']"
  using sent_message_shown_once [of "(init_inbox [sample_thread ''t''] Unavailable)
        \<lparr>ib_selected := Some ''t'', ib_sends := [(''t'', ''hi'', None)]\<rparr>" sample_frame "''hi''" None
        "sample_message ''m1'' ''t''"]
  by (simp add: sample_frame_def sample_message_def init_inbox_def)

lemma handlers_distinct:
  assumes "distinct (map ms_id (ib_messages st))"
  shows "distinct (map ms_id (ib_messages (readMarked n ok st)))" "distinct (map ms_id (ib_messages (handleSend body a st)))"
    "distinct (map ms_id (ib_messages (sendReplied n sr st)))" "distinct (map ms_id (ib_messages (handleDeleteThread i st)))"
    "distinct (map ms_id (ib_messages (deleteReplied n dr st)))" "distinct (map ms_id (ib_messages (fetchThreads st)))"
    "distinct (map ms_id (ib_messages (threadsFetched lr st)))" "distinct (map ms_id (ib_messages (handleFrame f st)))"
    "distinct (map ms_id (ib_messages (markReadTimer st)))" "distinct (map ms_id (ib_messages (selectThread i st)))"
proof -
  have r: "distinct (map ms_id (ib_messages (removeThread i st')))" if "distinct (map ms_id (ib_messages st'))" for i st'
    using that by (simp add: removeThread_def Let_def)
  show "distinct (map ms_id (ib_messages (deleteReplied n dr st)))"
    using assms by (auto simp: deleteReplied_def Let_def r simp del: distinct_map split: option.splits)
  show "distinct (map ms_id (ib_messages (handleFrame f st)))"
    using assms r by (auto simp: handleFrame_def markReadDebounced_def fetchThreads_def add_once_distinct
        simp del: distinct_map split: chat_frame.splits)
  show "distinct (map ms_id (ib_messages (sendReplied n sr st)))"
    using assms by (auto simp: sendReplied_def add_once_distinct simp del: distinct_map split: send_reply.splits)
  show "distinct (map ms_id (ib_messages (threadsFetched lr st)))"
    using assms by (simp add: threadsFetched_def applyThreads_def Let_def split: list_reply.splits)
qed (use assms in \<open>simp_all add: readMarked_def handleSend_def handleDeleteThread_def fetchThreads_def
    markReadTimer_def selectThread_def split: option.splits\<close>)

text \<open>With histories that repeat no message (the backend's primary keys), the Builder's screen never
  shows two messages with one id, in any interleaving.\<close>

theorem messages_distinct:
  assumes "\<forall>n h. MHistory n (Some h) \<in> set es \<longrightarrow> distinct (map ms_id h)"
  shows "distinct (map ms_id (ib_messages (mail_run es (init_mail ts s))))"
proof -
  have "distinct (map ms_id (ib_messages (mail_run es st)))" if "distinct (map ms_id (ib_messages st))" for st
    using assms that
  proof (induction es arbitrary: st)
    case (Cons e es)
    have "distinct (map ms_id (ib_messages (mail_step e st)))"
      using Cons.prems
      by (cases e) (auto simp: simple_handlers_agree handlers_agree handlers_distinct created_def historyArrives_def
          handleCreateThread_def selectThread_def Let_def split: option.splits)
    with Cons show ?case by (simp add: mail_run_def)
  qed (simp add: mail_run_def)
  then show ?thesis by (simp add: init_mail_def init_inbox_def inbox.defs)
qed

theorem messages_distinct_witness:
  "distinct (map ms_id (ib_messages (mail_run [MSelect ''t'', MFrame (NewMessage sample_frame),
      MFrame (NewMessage sample_frame)] (init_mail [sample_thread ''t''] Unavailable))))"
  by (rule messages_distinct) simp

section \<open>Badges\<close>

text \<open>The open thread never shows an unread badge after a list fetch, whatever count the backend
  returned; every other listed thread shows the backend's count.\<close>

theorem open_thread_has_no_badge:
  fixes st :: inbox
  assumes "0 < ib_lists st" "t \<in> set (ib_threads (threadsFetched (ListOk ts) st))"
  shows "(Some (th_id t) = ib_selected st \<longrightarrow> th_unread_count t = 0) \<and> (Some (th_id t) \<noteq> ib_selected st \<longrightarrow> t \<in> set ts)"
  using assms by (auto simp: threadsFetched_def applyThreads_def Let_def split: if_splits)

theorem open_thread_has_no_badge_witness:
  "th_unread_count (hd (ib_threads (threadsFetched (ListOk [sample_thread ''t''])
     (fetchThreads ((init_inbox [] Unavailable)\<lparr>ib_selected := Some ''t''\<rparr>))))) = 0"
  using open_thread_has_no_badge [of "fetchThreads ((init_inbox [] Unavailable)\<lparr>ib_selected := Some ''t''\<rparr>)"
      "hd (ib_threads (threadsFetched (ListOk [sample_thread ''t''])
         (fetchThreads ((init_inbox [] Unavailable)\<lparr>ib_selected := Some ''t''\<rparr>))))" "[sample_thread ''t'']"]
  by (simp add: threadsFetched_def applyThreads_def fetchThreads_def init_inbox_def sample_thread_def)

section \<open>Replies that come late\<close>

text \<open>Histories are shown in the order they arrive, not the order they were asked for: after opening
  one thread and then another, a slow reply for the first one is put under the second one's name;
  only when the replies come in order is the screen right.\<close>

theorem late_history_shown_under_other_thread:
  fixes st :: inbox
  assumes "ib_history st = []"
  shows "ib_selected (historyArrives 0 (Some hist_a) (historyArrives 1 (Some hist_b) (selectThread b (selectThread a st)))) = Some b
    \<and> ib_messages (historyArrives 0 (Some hist_a) (historyArrives 1 (Some hist_b) (selectThread b (selectThread a st)))) = hist_a
    \<and> ib_messages (historyArrives 0 (Some hist_b) (historyArrives 0 (Some hist_a) (selectThread b (selectThread a st)))) = hist_b"
  using assms by (simp add: historyArrives_def selectThread_def drop_nth_def)

theorem late_history_shown_under_other_thread_witness:
  "ib_messages (historyArrives 0 (Some [sample_message ''m1'' ''a'']) (historyArrives 1 (Some [])
     (selectThread ''b'' (selectThread ''a'' (init_inbox [] Unavailable))))) = [sample_message ''m1'' ''a'']"
  using late_history_shown_under_other_thread [of "init_inbox [] Unavailable" "[sample_message ''m1'' ''a'']" "[]" "''b''" "''a''"]
  by (simp add: init_inbox_def)

text \<open>A list fetch that the backend refuses (any non-2xx status) empties the inbox and closes the open
  thread's view until the next successful poll, in both applications.\<close>

theorem refused_poll_empties_inbox:
  fixes st :: inbox
  assumes "0 < ib_lists st"
  shows "ib_threads (threadsFetched ListRefused st) = [] \<and> selectedThread (threadsFetched ListRefused st) = None
    \<and> ib_selected (threadsFetched ListRefused st) = ib_selected st
    \<and> b_threadsFetched ListRefused st = threadsFetched ListRefused st"
  using assms by (simp add: handlers_agree threadsFetched_def applyThreads_def selectedThread_def)

theorem refused_poll_empties_inbox_witness:
  "ib_threads (threadsFetched ListRefused (fetchThreads (init_inbox [sample_thread ''t''] Unavailable))) = []"
  using refused_poll_empties_inbox [of "fetchThreads (init_inbox [sample_thread ''t''] Unavailable)"]
  by (simp add: fetchThreads_def)

text \<open>Deleting a thread takes it off the list and out of the view exactly when the backend answered
  2xx or 404; its composer draft goes with it, other threads' drafts and the other listed threads
  stay.\<close>

theorem delete_thread_effect:
  fixes st :: inbox
  assumes "ib_deletes st = [i]"
  shows "if 200 \<le> status \<and> status \<le> 299 \<or> status = 404
    then ib_threads (deleteReplied 0 (Some status) st) = filter (\<lambda>t. th_id t \<noteq> i) (ib_threads st)
       \<and> ib_selected (deleteReplied 0 (Some status) st) = (if ib_selected st = Some i then None else ib_selected st)
       \<and> loadDraftBuffer (ib_storage (deleteReplied 0 (Some status) st)) u =
           (if u = i then None else loadDraftBuffer (ib_storage st) u)
    else ib_threads (deleteReplied 0 (Some status) st) = ib_threads st
       \<and> ib_selected (deleteReplied 0 (Some status) st) = ib_selected st
       \<and> ib_storage (deleteReplied 0 (Some status) st) = ib_storage st"
  using assms by (simp add: deleteReplied_def removeThread_def drop_nth_def Let_def drafts.load_clear)

theorem delete_thread_effect_witness:
  "ib_threads (deleteReplied 0 (Some 404) (handleDeleteThread ''t'' (init_inbox [sample_thread ''t''] Unavailable))) = []"
  using delete_thread_effect [of "handleDeleteThread ''t'' (init_inbox [sample_thread ''t''] Unavailable)" "''t''" 404]
  by (simp add: handleDeleteThread_def init_inbox_def sample_thread_def)

end
