(* ===== verification/Chat_Socket.thy ===== *)
theory Chat_Socket
  imports Http_Fetch "HOL-Library.Sublist"
begin

text \<open>
  Live delivery: the connection life cycle of \<open>useChatSocket\<close>. Subsystem 1's copy is the step
  relation \<open>socket_step\<close>, one rule per callback and branch; the Builder's copy is the
  function \<open>b_socket\<close>; they are shown to be the same machine. Shown of it: a mounted hook is
  always in exactly one of three phases (asking for a ticket, connected, waiting to retry), a
  ticket is used for one connection at most, and after unmounting nothing is opened or asked for.
\<close>

section \<open>State and events\<close>

text \<open>
  \<open>so_asking\<close>: the POST for a ticket is in flight; \<open>so_live\<close>: the current socket is not
  closed; \<open>so_asked\<close>, \<open>so_granted\<close>, \<open>so_urls\<close> are the history: ticket requests,
  tickets received and addresses handed to \<open>new WebSocket\<close> (with the tickets in them);
  \<open>so_frames\<close> counts the frames passed to the handler.
\<close>

record socket_state =
  so_stopped :: bool
  so_timer :: bool
  so_asking :: bool
  so_live :: bool
  so_asked :: nat
  so_granted :: "string list"
  so_urls :: "string list"
  so_frames :: nat

datatype socket_event =
    TicketRefused
  | TicketFailed
  | TicketGranted string bool
  | FrameArrives
  | SocketCloses
  | RetryTimer
  | Unmount

text \<open>The template literal prints an unset base URL as \<open>undefined\<close>.\<close>

definition ws_url :: "string option \<Rightarrow> string \<Rightarrow> string" where
  "ws_url wsBase ticket =
     (case wsBase of None \<Rightarrow> ''undefined'' | Some b \<Rightarrow> b) @ ''/api/v1/chat/ws/chat?ticket=''
       @ encodeURIComponent ticket"

definition connect :: "socket_state \<Rightarrow> socket_state" where
  "connect st = (if so_stopped st then st else st\<lparr>so_asking := True, so_asked := Suc (so_asked st)\<rparr>)"

definition mounted :: socket_state where
  "mounted = connect \<lparr>so_stopped = False, so_timer = False, so_asking = False, so_live = False,
     so_asked = 0, so_granted = [], so_urls = [], so_frames = 0\<rparr>"

section \<open>Subsystem 1: the step relation\<close>

text \<open>\<open>TicketGranted t ok\<close>: the ticket arrived; \<open>ok\<close> says whether \<open>new WebSocket\<close>
  returned or threw (then the catch schedules a retry).\<close>

inductive socket_step :: "string option \<Rightarrow> socket_event \<Rightarrow> socket_state \<Rightarrow> socket_state \<Rightarrow> bool"
  for wsBase :: "string option" where
  refused: "so_asking st \<Longrightarrow>
     socket_step wsBase TicketRefused st (st\<lparr>so_asking := False, so_timer := True\<rparr>)"
| failed: "so_asking st \<Longrightarrow>
     socket_step wsBase TicketFailed st (st\<lparr>so_asking := False, so_timer := True\<rparr>)"
| granted_late: "so_asking st \<Longrightarrow> so_stopped st \<Longrightarrow>
     socket_step wsBase (TicketGranted t ok) st (st\<lparr>so_asking := False, so_granted := so_granted st @ [t]\<rparr>)"
| opened: "so_asking st \<Longrightarrow> \<not> so_stopped st \<Longrightarrow>
     socket_step wsBase (TicketGranted t True) st
       (st\<lparr>so_asking := False, so_granted := so_granted st @ [t], so_live := True,
           so_urls := so_urls st @ [ws_url wsBase t]\<rparr>)"
| unopened: "so_asking st \<Longrightarrow> \<not> so_stopped st \<Longrightarrow>
     socket_step wsBase (TicketGranted t False) st
       (st\<lparr>so_asking := False, so_granted := so_granted st @ [t], so_timer := True\<rparr>)"
| frame: "so_live st \<Longrightarrow>
     socket_step wsBase FrameArrives st (st\<lparr>so_frames := Suc (so_frames st)\<rparr>)"
| closed: "so_live st \<Longrightarrow>
     socket_step wsBase SocketCloses st (st\<lparr>so_live := False, so_timer := \<not> so_stopped st\<rparr>)"
| retry: "so_timer st \<Longrightarrow>
     socket_step wsBase RetryTimer st (connect (st\<lparr>so_timer := False\<rparr>))"
| unmount: "\<not> so_stopped st \<Longrightarrow>
     socket_step wsBase Unmount st (st\<lparr>so_stopped := True, so_timer := False, so_live := False\<rparr>)"

inductive_cases socket_stepE [elim!]: "socket_step wsBase e st st'"

inductive socket_reach :: "string option \<Rightarrow> socket_state \<Rightarrow> socket_state \<Rightarrow> bool"
  for wsBase :: "string option" and st0 :: socket_state where
  start: "socket_reach wsBase st0 st0"
| step: "socket_reach wsBase st0 st \<Longrightarrow> socket_step wsBase e st st' \<Longrightarrow> socket_reach wsBase st0 st'"

section \<open>The Builder: the function\<close>

definition b_connect :: "socket_state \<Rightarrow> socket_state" where
  "b_connect st = (if so_stopped st then st else st\<lparr>so_asking := True, so_asked := Suc (so_asked st)\<rparr>)"

fun b_socket :: "string option \<Rightarrow> socket_event \<Rightarrow> socket_state \<Rightarrow> socket_state option" where
  "b_socket wsBase TicketRefused st =
     (if so_asking st then Some (st\<lparr>so_asking := False, so_timer := True\<rparr>) else None)"
| "b_socket wsBase TicketFailed st =
     (if so_asking st then Some (st\<lparr>so_asking := False, so_timer := True\<rparr>) else None)"
| "b_socket wsBase (TicketGranted t ok) st =
     (if \<not> so_asking st then None
      else let st1 = st\<lparr>so_asking := False, so_granted := so_granted st @ [t]\<rparr>
           in Some (if so_stopped st1 then st1
                    else if ok then st1\<lparr>so_live := True, so_urls := so_urls st1 @ [ws_url wsBase t]\<rparr>
                    else st1\<lparr>so_timer := True\<rparr>))"
| "b_socket wsBase FrameArrives st =
     (if so_live st then Some (st\<lparr>so_frames := Suc (so_frames st)\<rparr>) else None)"
| "b_socket wsBase SocketCloses st =
     (if so_live st then Some (st\<lparr>so_live := False, so_timer := \<not> so_stopped st\<rparr>) else None)"
| "b_socket wsBase RetryTimer st =
     (if so_timer st then Some (b_connect (st\<lparr>so_timer := False\<rparr>)) else None)"
| "b_socket wsBase Unmount st =
     (if so_stopped st then None
      else Some (st\<lparr>so_stopped := True, so_timer := False, so_live := False\<rparr>))"

lemma b_connect_eq: "b_connect = connect"
  by (simp add: fun_eq_iff b_connect_def connect_def)

text \<open>The two copies of the hook are the same machine: a callback of the Builder's copy is possible,
  with a given effect, exactly when the step relation of Subsystem 1's copy allows it.\<close>

theorem socket_copies_agree: "b_socket wsBase e st = Some st' \<longleftrightarrow> socket_step wsBase e st st'"
proof
  assume "b_socket wsBase e st = Some st'"
  then show "socket_step wsBase e st st'"
    by (cases e) (auto simp: b_connect_eq Let_def intro: socket_step.intros split: if_splits)
next
  assume "socket_step wsBase e st st'"
  then show "b_socket wsBase e st = Some st'"
    by cases (simp_all add: b_connect_eq Let_def)
qed

section \<open>Phases\<close>

definition one_phase :: "socket_state \<Rightarrow> bool" where
  "one_phase st \<longleftrightarrow>
     (if so_stopped st then \<not> so_live st \<and> \<not> (so_timer st \<and> so_asking st)
      else (so_asking st \<and> \<not> so_live st \<and> \<not> so_timer st)
         \<or> (\<not> so_asking st \<and> so_live st \<and> \<not> so_timer st)
         \<or> (\<not> so_asking st \<and> \<not> so_live st \<and> so_timer st))"

lemma step_phase: "socket_step w e st st' \<Longrightarrow> one_phase st \<Longrightarrow> one_phase st'"
  by (auto simp: one_phase_def connect_def split: if_splits)

lemma reach_phase: "socket_reach w mounted st \<Longrightarrow> one_phase st"
proof (induction rule: socket_reach.induct)
  case start
  show ?case by (simp add: one_phase_def mounted_def connect_def)
next
  case (step st e st')
  show ?case by (rule step_phase [OF step.hyps(2) step.IH])
qed

definition tickets_ok :: "string option \<Rightarrow> socket_state \<Rightarrow> bool" where
  "tickets_ok w st \<longleftrightarrow>
     subseq (so_urls st) (map (ws_url w) (so_granted st))
     \<and> length (so_granted st) + (if so_asking st then 1 else 0) \<le> so_asked st"

lemma step_tickets: "socket_step w e st st' \<Longrightarrow> tickets_ok w st \<Longrightarrow> one_phase st \<Longrightarrow> tickets_ok w st'"
  by (auto simp: tickets_ok_def connect_def one_phase_def intro: list_emb_append_mono subseq_order.trans subseq_rev_drop_many
      split: if_splits)

lemma reach_tickets: "socket_reach w mounted st \<Longrightarrow> tickets_ok w st"
proof (induction rule: socket_reach.induct)
  case (step st e st')
  show ?case by (rule step_tickets [OF step.hyps(2) step.IH reach_phase [OF step.hyps(1)]])
qed (simp add: tickets_ok_def mounted_def connect_def)

text \<open>C21: While the hook is mounted the connection is never lost for good and never doubled: in every
  reachable state exactly one of a ticket request, an open socket or a retry timer exists, so some
  callback is always still to come.\<close>

theorem socket_always_retries:
  assumes "socket_reach wsBase mounted st" "\<not> so_stopped st"
  shows "length (filter id [so_asking st, so_live st, so_timer st]) = 1
    \<and> (\<exists>e st'. e \<noteq> Unmount \<and> socket_step wsBase e st st')"
  using reach_phase [OF assms(1)] assms(2)
  by (auto simp: one_phase_def intro: socket_step.intros)

theorem socket_always_retries_witness:
  "length (filter id [so_asking mounted, so_live mounted, so_timer mounted]) = 1"
  using socket_always_retries [OF socket_reach.start] by (simp add: mounted_def connect_def)

text \<open>A ticket is asked for before each connection and never used twice: the addresses opened are, in
  order, those of distinct grants, each granted to a request of its own.\<close>

theorem tickets_single_use:
  assumes "socket_reach wsBase mounted st"
  shows "subseq (so_urls st) (map (ws_url wsBase) (so_granted st)) \<and> length (so_granted st) \<le> so_asked st"
  using reach_tickets [OF assms] by (auto simp: tickets_ok_def split: if_splits)

theorem tickets_single_use_witness:
  "subseq (so_urls mounted) (map (ws_url None) (so_granted mounted)) \<and> length (so_granted mounted) \<le> so_asked mounted"
  by (rule tickets_single_use [OF socket_reach.start])

lemma stopped_step:
  "socket_step w e st st' \<Longrightarrow> so_stopped st \<Longrightarrow>
     so_stopped st' \<and> so_asked st' = so_asked st \<and> so_urls st' = so_urls st
     \<and> (\<not> so_live st \<longrightarrow> so_frames st' = so_frames st \<and> \<not> so_live st')"
  by (auto simp: connect_def)

lemma stopped_reach:
  "socket_reach w st st' \<Longrightarrow> so_stopped st \<Longrightarrow> \<not> so_live st \<Longrightarrow>
     so_stopped st' \<and> so_asked st' = so_asked st \<and> so_urls st' = so_urls st
     \<and> so_frames st' = so_frames st \<and> \<not> so_live st'"
proof (induction rule: socket_reach.induct)
  case (step st1 e st2)
  then show ?case using stopped_step [OF step.hyps(2)] by auto
qed simp

text \<open>Unmounting is final: whatever was in flight, afterwards no ticket is asked for, no socket is
  opened and no frame reaches the handler.\<close>

theorem unmount_is_final:
  assumes "socket_step wsBase Unmount st st1" "socket_reach wsBase st1 st2"
  shows "so_stopped st2 \<and> so_asked st2 = so_asked st \<and> so_urls st2 = so_urls st \<and> so_frames st2 = so_frames st"
proof -
  from assms(1) have "so_stopped st1" "\<not> so_live st1" "so_asked st1 = so_asked st" "so_urls st1 = so_urls st"
    "so_frames st1 = so_frames st" by auto
  with stopped_reach [OF assms(2)] show ?thesis by simp
qed

definition unmounted :: socket_state where
  "unmounted = mounted\<lparr>so_stopped := True, so_timer := False, so_live := False\<rparr>"

theorem unmount_is_final_witness:
  "so_urls (unmounted\<lparr>so_asking := False, so_timer := True\<rparr>) = so_urls mounted"
proof -
  have 1: "socket_step None Unmount mounted unmounted"
    unfolding unmounted_def by (rule socket_step.unmount) (simp add: mounted_def connect_def)
  have "socket_step None TicketFailed unmounted (unmounted\<lparr>so_asking := False, so_timer := True\<rparr>)"
    by (rule socket_step.failed) (simp add: unmounted_def mounted_def connect_def)
  then have "socket_reach None unmounted (unmounted\<lparr>so_asking := False, so_timer := True\<rparr>)"
    by (rule socket_reach.step [OF socket_reach.start])
  from unmount_is_final [OF 1 this] show ?thesis by simp
qed

end
