(* ===== verification/Ui_Common.thy ===== *)
theory Ui_Common
  imports Http_Fetch
begin

text \<open>
  What the client components of both applications share: the requests they send to their own
  route handlers, the toasts they show, and how an error body becomes a text. A component's
  handler is split at its \<open>await\<close>: the request it sends, and what the answer makes of it.
\<close>

section \<open>Requests to the own server\<close>

record ui_call =
  uc_method :: string
  uc_path :: string
  uc_body :: "json option"

definition post :: "string \<Rightarrow> json option \<Rightarrow> ui_call" where
  "post path body = \<lparr>uc_method = ''POST'', uc_path = path, uc_body = body\<rparr>"

datatype toast = Success string | Failure string

section \<open>Error texts\<close>

text \<open>
  How \<open>Array.prototype.join\<close> prints an element: null and undefined as nothing, an object as
  \<open>[object Object]\<close>, a nested array joined by commas.
\<close>

fun join_elem :: "json \<Rightarrow> string" where
  "join_elem JNull = []"
| "join_elem (JBool b) = (if b then ''true'' else ''false'')"
| "join_elem (JNum n) = show_int n"
| "join_elem (JStr s) = s"
| "join_elem (JArr xs) = join_with '','' (map join_elem xs)"
| "join_elem (JObj ps) = ''[object Object]''"

text \<open>\<open>body && typeof body === "object" && "detail" in body\<close>: an array has no such key.\<close>

fun body_detail :: "json \<Rightarrow> json option" where
  "body_detail (JObj ps) = map_of ps ''detail''"
| "body_detail v = None"

text \<open>The variant with a fallback text.\<close>

definition detail_text :: "json \<Rightarrow> string \<Rightarrow> string" where
  "detail_text body fallback = (case body_detail body of Some (JStr s) \<Rightarrow> s | _ \<Rightarrow> fallback)"

text \<open>The \<open>errors\<close> array below an object \<open>detail\<close>.\<close>

definition detail_errors :: "json \<Rightarrow> json list option" where
  "detail_errors body =
     (case body_detail body of
        Some (JObj ps) \<Rightarrow> (case map_of ps ''errors'' of Some (JArr es) \<Rightarrow> Some es | _ \<Rightarrow> None)
      | _ \<Rightarrow> None)"

text \<open>\<open>await response.json().catch(() => ({}))\<close> outside a handler.\<close>

definition body_or_empty :: "http_response \<Rightarrow> json" where
  "body_or_empty r = (case rs_body r of BodyJson j \<Rightarrow> j | _ \<Rightarrow> JObj [])"

definition unreachable :: string where
  "unreachable = ''Could not reach the server''"

end
