(* ===== verification/Ledger.thy ===== *)
theory Ledger
  imports Ui_Common
begin

text \<open>
  The decision ledger of Subsystem 1: \<open>types/ledger.ts\<close>, the buttons and dialogs of
  \<open>decision-actions.tsx\<close> and \<open>propose-decision-dialog.tsx\<close>, and the backend's transition
  table (\<open>backend/app/domain/ledger.py\<close>), against which the offered actions are checked.
\<close>

section \<open>types/ledger.ts\<close>

datatype decision_status =
    proposed | clarification_requested | accepted | rejected | implemented | partially_implemented
  | outcome_observed | stale

datatype decision_outcome =
    succeeded | partially_succeeded | failed | unintended_consequence | insufficient_evidence

datatype approval_authority = manager | procurement_operations | informational_only

datatype entity_type = supplier | warehouse | product | customer | carrier

datatype record_type = operational_event | decision

record decision_event =
  de_id :: string
  de_record_type :: record_type
  de_status :: decision_status
  de_scenario_id :: "string option"
  de_entity_type :: entity_type
  de_entity_id :: string
  de_title :: string
  de_summary :: string
  de_proposed_at :: string
  de_approval_authority :: "approval_authority option"
  de_decided_at :: "string option"
  de_decided_by :: "string option"
  de_implemented_at :: "string option"
  de_outcome :: "decision_outcome option"
  de_outcome_recorded_at :: "string option"
  de_outcome_notes :: "string option"
  de_stale_flagged_at :: "string option"
  de_supersedes_id :: "string option"
  de_created_at :: string

fun DECISION_STATUS_LABEL :: "decision_status \<Rightarrow> string" where
  "DECISION_STATUS_LABEL proposed = ''Proposed''"
| "DECISION_STATUS_LABEL clarification_requested = ''Clarification Requested''"
| "DECISION_STATUS_LABEL accepted = ''Accepted''"
| "DECISION_STATUS_LABEL rejected = ''Rejected''"
| "DECISION_STATUS_LABEL implemented = ''Implemented''"
| "DECISION_STATUS_LABEL partially_implemented = ''Partially Implemented''"
| "DECISION_STATUS_LABEL outcome_observed = ''Outcome Observed''"
| "DECISION_STATUS_LABEL stale = ''Stale''"

fun DECISION_OUTCOME_LABEL :: "decision_outcome \<Rightarrow> string" where
  "DECISION_OUTCOME_LABEL succeeded = ''Succeeded''"
| "DECISION_OUTCOME_LABEL partially_succeeded = ''Partially Succeeded''"
| "DECISION_OUTCOME_LABEL failed = ''Failed''"
| "DECISION_OUTCOME_LABEL unintended_consequence = ''Unintended Consequence''"
| "DECISION_OUTCOME_LABEL insufficient_evidence = ''Insufficient Evidence''"

text \<open>The select options, with the wire values of the enums.\<close>

definition ENTITY_TYPE_OPTIONS :: "(entity_type \<times> string \<times> string) list" where
  "ENTITY_TYPE_OPTIONS =
     [(supplier, ''supplier'', ''Supplier''), (warehouse, ''warehouse'', ''Warehouse''),
      (product, ''product'', ''Product''), (customer, ''customer'', ''Customer''), (carrier, ''carrier'', ''Carrier'')]"

definition APPROVAL_AUTHORITY_OPTIONS :: "(approval_authority \<times> string \<times> string) list" where
  "APPROVAL_AUTHORITY_OPTIONS =
     [(manager, ''manager'', ''Manager''),
      (procurement_operations, ''procurement_operations'', ''Procurement Operations''),
      (informational_only, ''informational_only'', ''Informational Only'')]"

definition DECISION_OUTCOME_OPTIONS :: "(decision_outcome \<times> string \<times> string) list" where
  "DECISION_OUTCOME_OPTIONS =
     [(succeeded, ''succeeded'', ''Succeeded''), (partially_succeeded, ''partially_succeeded'', ''Partially Succeeded''),
      (failed, ''failed'', ''Failed''),
      (unintended_consequence, ''unintended_consequence'', ''Unintended Consequence''),
      (insufficient_evidence, ''insufficient_evidence'', ''Insufficient Evidence'')]"

definition wire :: "('e \<times> string \<times> string) list \<Rightarrow> 'e \<Rightarrow> string" where
  "wire options v = (case map_of options v of Some (w, l) \<Rightarrow> w | None \<Rightarrow> [])"

section \<open>decision-actions.tsx\<close>

definition extractErrorMessage :: "json \<Rightarrow> string" where
  "extractErrorMessage body =
     (case body_detail body of
        Some (JStr s) \<Rightarrow> s
      | _ \<Rightarrow> (case detail_errors body of
                Some es \<Rightarrow> join_with ''; '' (map join_elem es)
              | None \<Rightarrow> ''Request failed''))"

datatype simple_action = Request_clarification | Resubmit | Reject | Implement | Partially_implement

fun action_segment :: "simple_action \<Rightarrow> string" where
  "action_segment Request_clarification = ''request-clarification''"
| "action_segment Resubmit = ''resubmit''"
| "action_segment Reject = ''reject''"
| "action_segment Implement = ''implement''"
| "action_segment Partially_implement = ''partially-implement''"

fun SIMPLE_ACTION_LABEL :: "simple_action \<Rightarrow> string" where
  "SIMPLE_ACTION_LABEL Request_clarification = ''Request Clarification''"
| "SIMPLE_ACTION_LABEL Resubmit = ''Resubmit''"
| "SIMPLE_ACTION_LABEL Reject = ''Reject''"
| "SIMPLE_ACTION_LABEL Implement = ''Mark Implemented''"
| "SIMPLE_ACTION_LABEL Partially_implement = ''Mark Partially Implemented''"

fun SIMPLE_ACTION_CONFIRM :: "simple_action \<Rightarrow> string option" where
  "SIMPLE_ACTION_CONFIRM Reject = Some ''Reject this decision? This cannot be undone.''"
| "SIMPLE_ACTION_CONFIRM a = None"

fun simpleActionsFor :: "decision_status \<Rightarrow> simple_action list" where
  "simpleActionsFor clarification_requested = [Resubmit]"
| "simpleActionsFor accepted = [Implement, Partially_implement]"
| "simpleActionsFor st = []"

definition runSimpleAction :: "simple_action \<Rightarrow> string \<Rightarrow> ui_call" where
  "runSimpleAction a decisionId =
     post (''/api/ledger/decisions/'' @ decisionId @ ''/'' @ action_segment a) None"

text \<open>What the component offers: simple actions, the accept dialog, the outcome dialog.\<close>

datatype offer = Simple simple_action | AcceptDialog | OutcomeDialog

definition offers_for :: "decision_status \<Rightarrow> offer list" where
  "offers_for s =
     (if s = proposed then [Simple Request_clarification] else [])
     @ (if s = proposed then [AcceptDialog] else [])
     @ (if s = proposed then [Simple Reject] else [])
     @ map Simple (filter (\<lambda>a. a \<noteq> Reject) (simpleActionsFor s))
     @ (if s = implemented \<or> s = partially_implemented then [OutcomeDialog] else [])"

definition DecisionActions :: "decision_event \<Rightarrow> offer list" where
  "DecisionActions d = offers_for (de_status d)"

text \<open>\<open>run\<close>: a confirmation the user may decline, then the request; \<open>disabled\<close> while one is pending.\<close>

definition run_action :: "bool \<Rightarrow> simple_action \<Rightarrow> decision_event \<Rightarrow> simple_action option \<Rightarrow> ui_call option" where
  "run_action confirms a d pending =
     (if pending \<noteq> None then None
      else if SIMPLE_ACTION_CONFIRM a \<noteq> None \<and> \<not> confirms then None
      else Some (runSimpleAction a (de_id d)))"

text \<open>The answer: the toast, and whether the page is refreshed.\<close>

definition action_answer :: "string \<Rightarrow> fetch_result \<Rightarrow> toast \<times> bool" where
  "action_answer done r =
     (case r of
        NetError \<Rightarrow> (Failure unreachable, False)
      | Reply resp \<Rightarrow>
          if \<not> resp_ok resp then (Failure (extractErrorMessage (body_or_empty resp)), False)
          else (Success done, True))"

definition run_answer :: "simple_action \<Rightarrow> fetch_result \<Rightarrow> toast \<times> bool" where
  "run_answer a r = action_answer (SIMPLE_ACTION_LABEL a) r"

definition handleAccept :: "string \<Rightarrow> approval_authority option \<Rightarrow> ui_call" where
  "handleAccept decisionId authority =
     post (''/api/ledger/decisions/'' @ decisionId @ ''/accept'')
       (Some (case authority of
                None \<Rightarrow> JObj []
              | Some a \<Rightarrow> JObj [(''approval_authority'', JStr (wire APPROVAL_AUTHORITY_OPTIONS a))]))"

definition accept_answer :: "fetch_result \<Rightarrow> toast \<times> bool" where
  "accept_answer r = action_answer ''Decision accepted'' r"

definition handleOutcome :: "string \<Rightarrow> decision_outcome option \<Rightarrow> string \<Rightarrow> ui_call option" where
  "handleOutcome decisionId outcome notes =
     (case outcome of
        None \<Rightarrow> None
      | Some out \<Rightarrow>
          Some (post (''/api/ledger/decisions/'' @ decisionId @ ''/outcome'')
            (Some (JObj [(''outcome'', JStr (wire DECISION_OUTCOME_OPTIONS out)),
                         (''notes'', if js_trim notes = [] then JNull else JStr (js_trim notes))]))))"

definition outcome_answer :: "fetch_result \<Rightarrow> toast \<times> bool" where
  "outcome_answer r = action_answer ''Outcome recorded'' r"

section \<open>propose-decision-dialog.tsx\<close>

record proposal =
  pd_entity_type :: "entity_type option"
  pd_entity_id :: string
  pd_title :: string
  pd_summary :: string

definition empty_proposal :: proposal where
  "empty_proposal = \<lparr>pd_entity_type = None, pd_entity_id = [], pd_title = [], pd_summary = []\<rparr>"

definition can_propose :: "proposal \<Rightarrow> bool" where
  "can_propose p \<longleftrightarrow>
     pd_entity_type p \<noteq> None \<and> js_trim (pd_entity_id p) \<noteq> [] \<and> js_trim (pd_title p) \<noteq> []
     \<and> js_trim (pd_summary p) \<noteq> []"

definition submit_proposal :: "proposal \<Rightarrow> ui_call option" where
  "submit_proposal p =
     (if \<not> can_propose p then None
      else Some (post ''/api/ledger/decisions''
        (Some (JObj [(''entity_type'', JStr (case pd_entity_type p of None \<Rightarrow> [] | Some e \<Rightarrow> wire ENTITY_TYPE_OPTIONS e)),
                     (''entity_id'', JStr (js_trim (pd_entity_id p))), (''title'', JStr (js_trim (pd_title p))),
                     (''summary'', JStr (js_trim (pd_summary p)))]))))"

text \<open>The dialog after the answer: a success closes and empties it, a failure keeps what was typed.\<close>

definition proposal_answer :: "fetch_result \<Rightarrow> proposal \<Rightarrow> toast \<times> bool \<times> proposal" where
  "proposal_answer r p =
     (case action_answer ''Decision proposed'' r of
        (t, refreshed) \<Rightarrow> (t, \<not> refreshed, if refreshed then empty_proposal else p))"

section \<open>The backend's lifecycle (app/domain/ledger.py, app/services/ledger.py)\<close>

fun allowed_transitions :: "decision_status \<Rightarrow> decision_status list" where
  "allowed_transitions proposed = [clarification_requested, accepted, rejected, stale]"
| "allowed_transitions clarification_requested = [proposed, accepted, rejected, stale]"
| "allowed_transitions stale = [accepted, rejected]"
| "allowed_transitions accepted = [implemented, partially_implemented]"
| "allowed_transitions rejected = []"
| "allowed_transitions implemented = [outcome_observed]"
| "allowed_transitions partially_implemented = [outcome_observed]"
| "allowed_transitions outcome_observed = []"

definition validate_transition :: "decision_status \<Rightarrow> decision_status \<Rightarrow> bool" where
  "validate_transition from_state to_state \<longleftrightarrow> to_state \<in> set (allowed_transitions from_state)"

fun offer_target :: "offer \<Rightarrow> decision_status" where
  "offer_target (Simple Request_clarification) = clarification_requested"
| "offer_target (Simple Resubmit) = proposed"
| "offer_target (Simple Reject) = rejected"
| "offer_target (Simple Implement) = implemented"
| "offer_target (Simple Partially_implement) = partially_implemented"
| "offer_target AcceptDialog = accepted"
| "offer_target OutcomeDialog = outcome_observed"

section \<open>Properties\<close>

text \<open>C30: The Activity page never offers an action the backend's state machine would refuse: every button
  and dialog shown for a decision leads to a status its lifecycle allows from the current one, and
  no two of them to the same status.\<close>

theorem offers_are_valid_transitions:
  "list_all (\<lambda>o1. validate_transition (de_status d) (offer_target o1)) (DecisionActions d)
   \<and> distinct (map offer_target (DecisionActions d))"
  by (cases "de_status d") (simp_all add: DecisionActions_def offers_for_def validate_transition_def)

text \<open>What the Activity page leaves out: from every status that is not final it offers all allowed
  moves but staleness (which only the scheduler makes), except that a decision awaiting
  clarification can only be resubmitted, not accepted or rejected, and a stale decision has no
  button at all though the backend would accept or reject it.\<close>

theorem offers_missing:
  "set (allowed_transitions (de_status d)) - {stale} - offer_target ` set (DecisionActions d) =
     (if de_status d = clarification_requested \<or> de_status d = stale then {accepted, rejected} else {})"
  by (cases "de_status d") (auto simp: DecisionActions_def offers_for_def)

text \<open>Rejecting asks first and nothing else does; no second action starts while one is pending; a
  refused action shows the backend's own reason and leaves the page alone, and only a 2xx refreshes
  it.\<close>

theorem action_protocol:
  "(run_action False a d None = None \<longleftrightarrow> a = Reject)
   \<and> run_action True a d None = Some (runSimpleAction a (de_id d))
   \<and> (p \<noteq> None \<longrightarrow> run_action c a d p = None)
   \<and> (snd (run_answer a r) \<longleftrightarrow> (\<exists>resp. r = Reply resp \<and> resp_ok resp))
   \<and> (r = Reply resp \<and> \<not> resp_ok resp \<and> rs_body resp = BodyJson (detail m) \<longrightarrow> fst (run_answer a r) = Failure m)"
  by (cases a) (auto simp: run_action_def run_answer_def action_answer_def extractErrorMessage_def
      body_or_empty_def detail_def split: fetch_result.splits)

definition sample_decision :: "decision_status \<Rightarrow> decision_event" where
  "sample_decision s = \<lparr>de_id = ''d1'', de_record_type = decision, de_status = s, de_scenario_id = None,
     de_entity_type = supplier, de_entity_id = ''s1'', de_title = ''T'', de_summary = ''S'', de_proposed_at = ''x'',
     de_approval_authority = None, de_decided_at = None, de_decided_by = None, de_implemented_at = None,
     de_outcome = None, de_outcome_recorded_at = None, de_outcome_notes = None, de_stale_flagged_at = None,
     de_supersedes_id = None, de_created_at = ''x''\<rparr>"

theorem action_protocol_witness:
  "run_action True Implement (sample_decision accepted) (Some Reject) = None
   \<and> fst (run_answer Implement (Reply (json_response (detail ''gone'') 409))) = Failure ''gone''"
  using action_protocol [of Implement "sample_decision accepted" "Some Reject" True
      "Reply (json_response (detail ''gone'') 409)" "json_response (detail ''gone'') 409" "''gone''"]
  by (simp add: json_response_def resp_ok_def)

end
