(* ===== verification/Scenarios.thy ===== *)
theory Scenarios
  imports Ui_Common Ledger
begin

text \<open>
  The Builder's scenario pages (\<open>app/(dashboard)/scenarios\<close>): the types, the actions of a
  scenario with their error texts, the creation form, the evaluation panel and the human review
  form; and Subsystem 1's reflection form, which ends a thread on the Analyst's side. The backend's
  tables (\<open>backend/app/domain/scenario.py\<close>) are what they are checked against.
\<close>

section \<open>scenarios/types.ts, scenarios/[id]/thread-types.ts\<close>

datatype scenario_type =
    stakeholder_request | data_quality_issue | root_cause_investigation | supplier_vendor_decision
  | process_breakdown | executive_reporting

datatype competency_cluster = analysis_diagnosis | judgment_delivery | communication

datatype difficulty_tier = foundational | standard | stretch

datatype scenario_status = Draft | Approved | Active | Cancelled

record gt_evidence =
  ev_source_exception_flag_id :: string
  ev_category :: string
  ev_product_id :: "string option"
  ev_warehouse_id :: "string option"
  ev_purchase_order_id :: "string option"
  ev_shipment_id :: "string option"
  ev_simulation_date :: string
  ev_first_detected_simulation_date :: string
  ev_measured_value :: "string option"
  ev_threshold_value :: string

record ground_truth =
  gt_known_cause :: string
  gt_evidence :: gt_evidence
  gt_supporting_signals :: "string list"
  gt_distractors :: "string list"
  gt_expected_considerations :: "string list"
  gt_acceptable_conclusions :: "string list"
  gt_unacceptable_conclusions :: "string list"
  gt_uncertainty :: string
  gt_narrative :: "string option"
  gt_expected_query :: "string option"

record scenario =
  sc_id :: string
  sc_title :: string
  sc_scenario_type :: scenario_type
  sc_competency_cluster :: competency_cluster
  sc_difficulty_tier :: difficulty_tier
  sc_from_exception :: bool
  sc_source_exception_flag_id :: "string option"
  sc_ground_truth :: ground_truth
  sc_status :: scenario_status
  sc_created_by :: string
  sc_approved_at :: "string option"
  sc_activated_at :: "string option"
  sc_created_at :: string
  sc_updated_at :: string

record exception_flag =
  ef_id :: string
  ef_category :: string
  ef_product_id :: "string option"
  ef_warehouse_id :: "string option"
  ef_purchase_order_id :: "string option"
  ef_shipment_id :: "string option"
  ef_simulation_date :: string
  ef_first_detected_simulation_date :: string
  ef_measured_value :: "string option"
  ef_threshold_value :: string
  ef_detected_at :: string
  ef_resolved_at :: "string option"

definition SCENARIO_TYPE_OPTIONS :: "(scenario_type \<times> string \<times> string) list" where
  "SCENARIO_TYPE_OPTIONS =
     [(stakeholder_request, ''stakeholder_request'', ''Stakeholder Request''),
      (data_quality_issue, ''data_quality_issue'', ''Data Quality Issue''),
      (root_cause_investigation, ''root_cause_investigation'', ''Root Cause Investigation''),
      (supplier_vendor_decision, ''supplier_vendor_decision'', ''Supplier/Vendor Decision''),
      (process_breakdown, ''process_breakdown'', ''Process Breakdown''),
      (executive_reporting, ''executive_reporting'', ''Executive Reporting'')]"

definition COMPETENCY_CLUSTER_OPTIONS :: "(competency_cluster \<times> string \<times> string) list" where
  "COMPETENCY_CLUSTER_OPTIONS =
     [(analysis_diagnosis, ''analysis_diagnosis'', ''Analysis & Diagnosis''),
      (judgment_delivery, ''judgment_delivery'', ''Judgment & Delivery''),
      (communication, ''communication'', ''Communication'')]"

definition DIFFICULTY_TIER_OPTIONS :: "(difficulty_tier \<times> string \<times> string) list" where
  "DIFFICULTY_TIER_OPTIONS =
     [(foundational, ''foundational'', ''Foundational''), (standard, ''standard'', ''Standard''),
      (stretch, ''stretch'', ''Stretch'')]"

text \<open>\<open>label(options, value)\<close> of the pages, on wire values.\<close>

definition option_label :: "('e \<times> string \<times> string) list \<Rightarrow> string \<Rightarrow> string" where
  "option_label options v =
     (case find (\<lambda>(e, w, l). w = v) options of Some (e, w, l) \<Rightarrow> l | None \<Rightarrow> v)"

datatype recommendation = Foundational | Standard | Stretch | Hold

fun DIFFICULTY_RECOMMENDATION_LABEL :: "recommendation \<Rightarrow> string" where
  "DIFFICULTY_RECOMMENDATION_LABEL Foundational = ''Foundational''"
| "DIFFICULTY_RECOMMENDATION_LABEL Standard = ''Standard''"
| "DIFFICULTY_RECOMMENDATION_LABEL Stretch = ''Stretch''"
| "DIFFICULTY_RECOMMENDATION_LABEL Hold = ''Hold''"

fun recommendation_value :: "recommendation \<Rightarrow> string" where
  "recommendation_value Foundational = ''foundational''"
| "recommendation_value Standard = ''standard''"
| "recommendation_value Stretch = ''stretch''"
| "recommendation_value Hold = ''hold''"

record evaluation =
  el_id :: string
  el_thread_id :: string
  el_prompt_version :: string
  el_strengths :: string
  el_gaps :: string
  el_evidence :: string
  el_senior_analyst_pushback :: string
  el_final_verdict :: string
  el_suggested_next_skill_focus :: string
  el_difficulty_recommendation :: recommendation
  el_created_at :: string

datatype verdict = Agree | Override

record human_review =
  hr_id :: string
  hr_evaluation_id :: string
  hr_reviewer_name :: string
  hr_verdict :: verdict
  hr_tier_assessment_notes :: string
  hr_overridden_recommendation :: "recommendation option"
  hr_created_at :: string

section \<open>scenario-actions.tsx\<close>

definition GROUND_TRUTH_FIELD_LABELS :: "(string \<times> string) list" where
  "GROUND_TRUTH_FIELD_LABELS =
     [(''known_cause'', ''Known cause''), (''evidence'', ''Evidence''),
      (''supporting_signals'', ''Supporting signals''), (''distractors'', ''Distractors''),
      (''expected_considerations'', ''Expected considerations''),
      (''acceptable_conclusions'', ''Acceptable conclusions''),
      (''unacceptable_conclusions'', ''Unacceptable conclusions''), (''uncertainty'', ''Uncertainty'')]"

text \<open>\<open>error.replace(/ground_truth\.(\w+)/, ...)\<close>: the first match only, greedy. A record is an object, so
  the lookup also finds what it inherits; a function is printed as its source (as V8 does).\<close>

definition native :: "string \<Rightarrow> string" where
  "native name = ''function '' @ name @ ''() { [native code] }''"

definition inherited :: "(string \<times> string) list" where
  "inherited =
     [(''__proto__'', ''[object Object]''), (''constructor'', native ''Object'')]
     @ map (\<lambda>k. (k, native k))
         [''hasOwnProperty'', ''isPrototypeOf'', ''propertyIsEnumerable'', ''toLocaleString'', ''toString'', ''valueOf'',
          ''__defineGetter__'', ''__defineSetter__'', ''__lookupGetter__'', ''__lookupSetter__'']"

definition is_word :: "char \<Rightarrow> bool" where
  "is_word c \<longleftrightarrow> is_alnum c \<or> c = CHR ''_''"

definition gt_prefix :: string where
  "gt_prefix = ''ground_truth.''"

fun humanizeValidationError :: "string \<Rightarrow> string" where
  "humanizeValidationError [] = []"
| "humanizeValidationError (c # s) =
     (let rest = drop (length gt_prefix) (c # s); field = takeWhile is_word rest
      in if starts_with (c # s) gt_prefix \<and> field \<noteq> [] then
           (case map_of (GROUND_TRUTH_FIELD_LABELS @ inherited) field of Some l \<Rightarrow> l | None \<Rightarrow> gt_prefix @ field)
             @ drop (length field) rest
         else c # humanizeValidationError s)"

text \<open>\<open>error.replace\<close> of an element that is no string throws.\<close>

fun humanize_all :: "json list \<Rightarrow> string list option" where
  "humanize_all [] = Some []"
| "humanize_all (JStr s # es) = map_option (Cons (humanizeValidationError s)) (humanize_all es)"
| "humanize_all (e # es) = None"

definition b_extractErrorMessage :: "json \<Rightarrow> string option" where
  "b_extractErrorMessage body =
     (case body_detail body of
        Some (JStr s) \<Rightarrow> Some s
      | _ \<Rightarrow> (case detail_errors body of
                Some es \<Rightarrow> map_option (join_with ''; '') (humanize_all es)
              | None \<Rightarrow> Some ''Request failed''))"

datatype scenario_action = Regenerate | Approve | Activate | Cancel

fun scenario_segment :: "scenario_action \<Rightarrow> string" where
  "scenario_segment Regenerate = ''regenerate''"
| "scenario_segment Approve = ''approve''"
| "scenario_segment Activate = ''activate''"
| "scenario_segment Cancel = ''cancel''"

fun ACTION_LABEL :: "scenario_action \<Rightarrow> string" where
  "ACTION_LABEL Regenerate = ''Regenerate''"
| "ACTION_LABEL Approve = ''Approve''"
| "ACTION_LABEL Activate = ''Activate''"
| "ACTION_LABEL Cancel = ''Remove''"

fun ACTION_CONFIRM :: "scenario_action \<Rightarrow> string option" where
  "ACTION_CONFIRM Regenerate = Some ''Re-derive known cause and evidence from the source exception flag? Your narrative edits (known cause, distractors, etc.) are kept.''"
| "ACTION_CONFIRM Approve = None"
| "ACTION_CONFIRM Activate = None"
| "ACTION_CONFIRM Cancel = Some ''Remove this scenario? It moves to Cancelled and cannot be reopened. Existing chat threads and evaluations are kept.''"

fun availableActions :: "scenario_status \<Rightarrow> scenario_action list" where
  "availableActions Draft = [Regenerate, Approve, Cancel]"
| "availableActions Approved = [Activate, Cancel]"
| "availableActions Active = [Cancel]"
| "availableActions Cancelled = []"

definition run_scenario_action :: "bool \<Rightarrow> scenario_action \<Rightarrow> string \<Rightarrow> scenario_action option \<Rightarrow> ui_call option" where
  "run_scenario_action confirms a i pending =
     (if pending \<noteq> None then None
      else if ACTION_CONFIRM a \<noteq> None \<and> \<not> confirms then None
      else Some (post (''/api/scenarios/'' @ i @ ''/'' @ scenario_segment a) None))"

definition scenario_answer :: "scenario_action \<Rightarrow> fetch_result \<Rightarrow> toast \<times> bool" where
  "scenario_answer a r =
     (case r of
        NetError \<Rightarrow> (Failure unreachable, False)
      | Reply resp \<Rightarrow>
          if \<not> resp_ok resp then
            (case b_extractErrorMessage (body_or_empty resp) of
               Some m \<Rightarrow> (Failure m, False) | None \<Rightarrow> (Failure unreachable, False))
          else (Success (''Scenario '' @ (if a = Cancel then ''removed (cancelled)'' else scenario_segment a @ ''d'')), True))"

section \<open>create-scenario-form.tsx\<close>

text \<open>\<open>s.slice(0, 8)\<close> of an id, which is ASCII.\<close>

definition describeException :: "exception_flag \<Rightarrow> string" where
  "describeException f =
     (let bit = (\<lambda>prefix v cut. case truthy v of None \<Rightarrow> [] | Some s \<Rightarrow> [prefix @ cut s]);
          bits = bit ''product '' (ef_product_id f) (\<lambda>s. s) @ bit ''warehouse '' (ef_warehouse_id f) (\<lambda>s. s)
            @ bit ''PO '' (ef_purchase_order_id f) (take 8) @ bit ''shipment '' (ef_shipment_id f) (take 8)
      in if bits \<noteq> [] then join_with '', '' bits else ''no linked entity'')"

record scenario_form =
  sf_selected :: "string option"
  sf_title :: string
  sf_type :: string
  sf_cluster :: string
  sf_tier :: string

text \<open>\<open>lower\<close> stands for \<open>toLowerCase\<close>.\<close>

definition filter_exceptions :: "(string \<Rightarrow> string) \<Rightarrow> string \<Rightarrow> exception_flag list \<Rightarrow> exception_flag list" where
  "filter_exceptions lower query exceptions =
     (let needle = lower (js_trim query)
      in if needle = [] then exceptions
         else filter (\<lambda>f. list_ex (\<lambda>v. case truthy v of None \<Rightarrow> False | Some s \<Rightarrow> str_includes (lower s) needle)
                [Some (ef_category f), ef_product_id f, ef_warehouse_id f]) exceptions)"

definition can_create :: "scenario_form \<Rightarrow> bool" where
  "can_create f \<longleftrightarrow>
     truthy (sf_selected f) \<noteq> None \<and> js_trim (sf_title f) \<noteq> [] \<and> sf_type f \<noteq> [] \<and> sf_cluster f \<noteq> [] \<and> sf_tier f \<noteq> []"

definition submit_scenario :: "scenario_form \<Rightarrow> ui_call option" where
  "submit_scenario f =
     (if \<not> can_create f then None
      else Some (post ''/api/scenarios'' (Some (JObj
        [(''exception_flag_id'', JStr (the (sf_selected f))), (''scenario_type'', JStr (sf_type f)),
         (''competency_cluster'', JStr (sf_cluster f)), (''difficulty_tier'', JStr (sf_tier f)),
         (''title'', JStr (js_trim (sf_title f)))]))))"

section \<open>human-review-section.tsx\<close>

record review_form =
  rf_reviewerName :: string
  rf_verdict :: "verdict option"
  rf_notes :: string
  rf_overridden :: "recommendation option"

definition can_review :: "review_form \<Rightarrow> bool" where
  "can_review f \<longleftrightarrow>
     js_trim (rf_reviewerName f) \<noteq> [] \<and> rf_verdict f \<noteq> None \<and> js_trim (rf_notes f) \<noteq> []
     \<and> (rf_verdict f \<noteq> Some Override \<or> rf_overridden f \<noteq> None)"

definition verdict_value :: "verdict option \<Rightarrow> string" where
  "verdict_value v = (case v of None \<Rightarrow> [] | Some Agree \<Rightarrow> ''agree'' | Some Override \<Rightarrow> ''override'')"

definition submit_review :: "string \<Rightarrow> review_form \<Rightarrow> ui_call option" where
  "submit_review threadId f =
     (if \<not> can_review f then None
      else Some (post (''/api/evaluations/threads/'' @ threadId @ ''/human-review'') (Some (JObj
        [(''reviewer_name'', JStr (js_trim (rf_reviewerName f))), (''verdict'', JStr (verdict_value (rf_verdict f))),
         (''tier_assessment_notes'', JStr (js_trim (rf_notes f))),
         (''overridden_recommendation'',
            if rf_verdict f = Some Override
            then JStr (case rf_overridden f of None \<Rightarrow> [] | Some d \<Rightarrow> recommendation_value d) else JNull)]))))"

section \<open>evaluation-panel.tsx\<close>

datatype load_state = Loading | NoEvaluation | Loaded json | LoadError

text \<open>What \<open>load\<close> makes of the answer; a body that is not JSON throws into the catch.\<close>

definition evaluation_loaded :: "fetch_result \<Rightarrow> load_state" where
  "evaluation_loaded r =
     (case r of
        NetError \<Rightarrow> LoadError
      | Reply resp \<Rightarrow>
          if rs_status resp = 404 then NoEvaluation
          else if \<not> resp_ok resp then LoadError
          else (case rs_body resp of BodyJson j \<Rightarrow> Loaded j | _ \<Rightarrow> LoadError))"

definition evaluation_completed :: "fetch_result \<Rightarrow> load_state \<Rightarrow> toast \<times> load_state" where
  "evaluation_completed r st =
     (case r of
        NetError \<Rightarrow> (Failure unreachable, st)
      | Reply resp \<Rightarrow>
          if rs_status resp = 503 then (Failure ''AI evaluation is not configured (no Claude client).'', st)
          else if \<not> resp_ok resp then
            (Failure (detail_text (body_or_empty resp) ''Could not complete this thread''), st)
          else (Success ''Evaluation generated'', Loaded (body_or_empty resp)))"

definition can_complete :: "load_state \<Rightarrow> bool \<Rightarrow> bool" where
  "can_complete st thread_open \<longleftrightarrow> st = NoEvaluation \<and> thread_open"

section \<open>The backend's tables (app/domain/scenario.py)\<close>

definition VALID_TRANSITIONS :: "(scenario_status \<times> scenario_status) list" where
  "VALID_TRANSITIONS =
     [(Draft, Approved), (Draft, Cancelled), (Approved, Active), (Approved, Cancelled), (Active, Cancelled)]"

definition REQUIRED_GROUND_TRUTH_FIELDS :: "string list" where
  "REQUIRED_GROUND_TRUTH_FIELDS =
     [''known_cause'', ''evidence'', ''supporting_signals'', ''distractors'', ''expected_considerations'',
      ''acceptable_conclusions'', ''unacceptable_conclusions'', ''uncertainty'']"

section \<open>Properties\<close>

lemma fields_word: "list_all (\<lambda>f. list_all is_word f \<and> f \<noteq> []) REQUIRED_GROUND_TRUTH_FIELDS"
  by code_simp

lemma field_word: "f \<in> set REQUIRED_GROUND_TRUTH_FIELDS \<Longrightarrow> list_all is_word f \<and> f \<noteq> []"
  using fields_word by (simp add: list_all_iff)

lemma space_no_word: "\<not> is_word CHR '' ''"
  by code_simp

lemma takeWhile_word:
  "list_all is_word f \<Longrightarrow> takeWhile is_word (f @ CHR '' '' # rest) = f"
  by (induction f) (auto simp: space_no_word)

text \<open>Every ground-truth field the backend can report as missing is named to the Builder by its label on
  the page, never by its dotted backend name, and the rest of the message is kept.\<close>

theorem missing_fields_are_labelled:
  assumes "f \<in> set REQUIRED_GROUND_TRUTH_FIELDS"
  shows "\<exists>l. map_of GROUND_TRUTH_FIELD_LABELS f = Some l
    \<and> humanizeValidationError (''ground_truth.'' @ f @ CHR '' '' # rest) = l @ CHR '' '' # rest"
proof -
  from assms obtain l where l: "map_of GROUND_TRUTH_FIELD_LABELS f = Some l"
    by (auto simp: REQUIRED_GROUND_TRUTH_FIELDS_def GROUND_TRUTH_FIELD_LABELS_def)
  have w: "takeWhile is_word (f @ CHR '' '' # rest) = f" "f \<noteq> []"
    using takeWhile_word field_word [OF assms] by auto
  have "humanizeValidationError (gt_prefix @ f @ CHR '' '' # rest) = l @ CHR '' '' # rest"
    using l w by (simp add: gt_prefix_def starts_with_def Let_def map_add_def)
  with l show ?thesis by (simp add: gt_prefix_def)
qed

theorem missing_fields_are_labelled_witness:
  "humanizeValidationError ''ground_truth.supporting_signals must be a non-empty list''
     = ''Supporting signals must be a non-empty list''"
  using missing_fields_are_labelled [of "''supporting_signals''" "''must be a non-empty list''"]
  by (simp add: REQUIRED_GROUND_TRUTH_FIELDS_def GROUND_TRUTH_FIELD_LABELS_def del: humanizeValidationError.simps)

text \<open>A review that can be sent names a recommendation exactly when it overrides: an agreeing review sends
  null even if a recommendation was picked before the verdict was changed back.\<close>

theorem review_override_consistent:
  assumes "submit_review threadId f = Some call"
  shows "\<exists>ps. uc_body call = Some (JObj ps)
    \<and> map_of ps ''overridden_recommendation'' =
        Some (case rf_overridden f of
                Some d \<Rightarrow> if rf_verdict f = Some Override then JStr (recommendation_value d) else JNull
              | None \<Rightarrow> JNull)
    \<and> (map_of ps ''overridden_recommendation'' = Some JNull \<longleftrightarrow> map_of ps ''verdict'' = Some (JStr ''agree''))"
  using assms
  by (auto simp: submit_review_def post_def can_review_def verdict_value_def split: if_splits option.splits verdict.splits)

definition sample_review :: review_form where
  "sample_review = \<lparr>rf_reviewerName = ''R'', rf_verdict = Some Agree, rf_notes = ''fine'', rf_overridden = Some Hold\<rparr>"


lemma sample_trims: "js_trim ''R'' \<noteq> []" "js_trim ''fine'' \<noteq> []"
  by (simp_all add: js_trim_def trim_start_def trim_end_def ws_seqs_def strip_prefixes.simps starts_with_def char_of_def)

theorem review_override_consistent_witness:
  "\<exists>ps. uc_body (the (submit_review ''t'' sample_review)) = Some (JObj ps)
     \<and> map_of ps ''overridden_recommendation'' = Some JNull"
  using review_override_consistent [of "''t''" sample_review "the (submit_review ''t'' sample_review)"] sample_trims
  by (auto simp: submit_review_def can_review_def sample_review_def)

section \<open>Subsystem 1's reflection form\<close>

text \<open>
  \<open>ReflectionForm\<close> is rendered by \<open>ThreadView\<close> for a completed thread, without a key: React
  keeps one instance as long as completed threads follow each other, and makes a new one after any
  other view.
\<close>

definition reflection_fields :: "string list" where
  "reflection_fields =
     [''reflection_what_happened'', ''reflection_initial_thought'', ''reflection_evidence_that_mattered'',
      ''reflection_what_missed'', ''reflection_what_changed_after_pushback'', ''reflection_what_differently'',
      ''reflection_skill_improved'']"

record reflection =
  rx_fields :: "(string \<times> string) list"
  rx_submitting :: bool
  rx_submitted :: bool
  rx_error :: "string option"

definition empty_reflection :: reflection where
  "empty_reflection =
     \<lparr>rx_fields = map (\<lambda>f. (f, [])) reflection_fields, rx_submitting = False, rx_submitted = False, rx_error = None\<rparr>"

definition setField :: "string \<Rightarrow> string \<Rightarrow> reflection \<Rightarrow> reflection" where
  "setField f v st = st\<lparr>rx_fields := put f v (rx_fields st)\<rparr>"

definition can_reflect :: "reflection \<Rightarrow> bool" where
  "can_reflect st \<longleftrightarrow>
     list_all (\<lambda>f. case map_of (rx_fields st) f of None \<Rightarrow> False | Some v \<Rightarrow> js_trim v \<noteq> []) reflection_fields"

definition submit_reflection :: "string \<Rightarrow> reflection \<Rightarrow> reflection \<times> ui_call option" where
  "submit_reflection threadId st =
     (if \<not> can_reflect st then (st, None)
      else (st\<lparr>rx_submitting := True, rx_error := None\<rparr>,
            Some (post (''/api/chat/threads/'' @ threadId @ ''/reflection'')
              (Some (JObj (map (\<lambda>(f, v). (f, JStr v)) (rx_fields st)))))))"

definition reflection_answer :: "fetch_result \<Rightarrow> reflection \<Rightarrow> reflection" where
  "reflection_answer r st =
     (case r of
        NetError \<Rightarrow> st\<lparr>rx_error := Some unreachable\<rparr>
      | Reply resp \<Rightarrow>
          if rs_status resp = 409 \<or> resp_ok resp then st\<lparr>rx_submitted := True\<rparr>
          else st\<lparr>rx_error := Some (detail_text (body_or_empty resp) ''Could not submit your reflection.'')\<rparr>)
     \<lparr>rx_submitting := False\<rparr>"

text \<open>What the instance is after the view changes: \<open>completed\<close> says whether a completed thread was,
  and is now, on screen.\<close>

definition next_view :: "bool \<Rightarrow> bool \<Rightarrow> reflection \<Rightarrow> reflection" where
  "next_view was_completed now_completed st =
     (if was_completed \<and> now_completed then st else empty_reflection)"

text \<open>A reflection is sent only when all seven answers are given, with exactly those answers, in their
  order; a 409 counts as recorded, any other refusal keeps the answers and shows the reason.\<close>

theorem reflection_protocol:
  "(snd (submit_reflection threadId st) \<noteq> None \<longleftrightarrow> can_reflect st)
   \<and> rx_fields (fst (submit_reflection threadId st)) = rx_fields st
   \<and> rx_fields (reflection_answer r st) = rx_fields st
   \<and> (rx_submitted (reflection_answer r st) \<longleftrightarrow>
        rx_submitted st \<or> (\<exists>resp. r = Reply resp \<and> (resp_ok resp \<or> rs_status resp = 409)))
   \<and> \<not> can_reflect empty_reflection"
proof -
  have "\<not> can_reflect empty_reflection"
    by (simp add: can_reflect_def empty_reflection_def reflection_fields_def)
  then show ?thesis
    by (auto simp: submit_reflection_def reflection_answer_def split: fetch_result.splits)
qed

text \<open>After one completed thread's reflection is recorded, opening another completed thread shows that
  one as recorded too, with no form to fill in: its own reflection cannot be submitted until some
  other view has been on screen.\<close>

theorem reflection_leaks_to_next_thread:
  assumes "resp_ok resp"
  shows "rx_submitted (next_view True True (reflection_answer (Reply resp) st))
    \<and> rx_fields (next_view True True st) = rx_fields st
    \<and> \<not> rx_submitted (next_view True True (next_view True False (reflection_answer (Reply resp) st)))"
  using assms by (simp add: reflection_answer_def next_view_def empty_reflection_def)

theorem reflection_leaks_to_next_thread_witness:
  "rx_submitted (next_view True True (reflection_answer (Reply (json_response JNull 201)) empty_reflection))"
  using reflection_leaks_to_next_thread [of "json_response JNull 201" empty_reflection]
  by (simp add: resp_ok_def json_response_def)

end
