(* ===== verification/Playground.thy ===== *)
theory Playground
  imports Ui_Common
begin

text \<open>
  Subsystem 1's query page: \<open>query-playground.tsx\<close> as a machine of user actions and replies in
  any order, with the confirmation of writing statements, and \<open>schema-browser.tsx\<close>'s
  construction of the diagram text.
\<close>

section \<open>query-playground.tsx: state\<close>

text \<open>An answer of \<open>/api/query/execute\<close> whose status is 2xx: the statements to confirm, each with
  its type, or an outcome to show.\<close>

datatype execute_result =
    ConfirmationRequired "(string \<times> string) list"
  | Executed string

text \<open>
  \<open>pg_running\<close> is the flag, \<open>pg_flights\<close> the execute requests in flight with their text and flag.
  \<open>pg_ran\<close> is the history of the requests that asked to run a text: the text, and whether it was
  sent as confirmed. \<open>pg_declined\<close> is that of \<open>cancel-confirmation\<close>, \<open>pg_cancels\<close> counts those
  in flight and \<open>pg_loads\<close> the history requests in flight (the mount effect sends the first).
\<close>

record playground =
  pg_statement :: string
  pg_running :: bool
  pg_flights :: "(string \<times> bool) list"
  pg_result :: "string option"
  pg_pending :: "(string \<times> string) list option"
  pg_ran :: "(string \<times> bool) list"
  pg_declined :: "string list"
  pg_toasts :: "toast list"
  pg_refreshing :: bool
  pg_reloads :: nat
  pg_history :: "json list"
  pg_loads :: nat
  pg_cancels :: nat

definition init_playground :: playground where
  "init_playground =
     \<lparr>pg_statement = ''select * from product limit 50;'', pg_running = False, pg_flights = [], pg_result = None,
      pg_pending = None, pg_ran = [], pg_declined = [], pg_toasts = [], pg_refreshing = False, pg_reloads = 0,
      pg_history = [], pg_loads = 1, pg_cancels = 0\<rparr>"

section \<open>Handlers\<close>

definition edit_statement :: "string \<Rightarrow> playground \<Rightarrow> playground" where
  "edit_statement v st = st\<lparr>pg_statement := v\<rparr>"

definition insertIntoEditor :: "string \<Rightarrow> playground \<Rightarrow> playground" where
  "insertIntoEditor text st =
     st\<lparr>pg_statement :=
        (if js_trim (pg_statement st) = [] then text else trim_end (pg_statement st) @ '' '' @ text)\<rparr>"

definition loadHistory :: "playground \<Rightarrow> playground" where
  "loadHistory st = st\<lparr>pg_loads := Suc (pg_loads st)\<rparr>"

text \<open>Refused, unreachable and unreadable answers (\<open>None\<close>) show the same text.\<close>

definition historyReplied :: "json list option \<Rightarrow> playground \<Rightarrow> playground" where
  "historyReplied r st =
     (if pg_loads st = 0 then st
      else (case r of
              Some rows \<Rightarrow> st\<lparr>pg_history := rows\<rparr>
            | None \<Rightarrow> st\<lparr>pg_toasts := pg_toasts st @ [Failure ''Failed to load query history'']\<rparr>)
           \<lparr>pg_loads := pg_loads st - 1\<rparr>)"

definition runQuery :: "bool \<Rightarrow> playground \<Rightarrow> playground" where
  "runQuery confirmed st =
     st\<lparr>pg_running := True, pg_flights := pg_flights st @ [(pg_statement st, confirmed)],
        pg_ran := pg_ran st @ [(pg_statement st, confirmed)]\<rparr>"

text \<open>The Run button: disabled while running and for a blank text.\<close>

definition clickRun :: "playground \<Rightarrow> playground" where
  "clickRun st = (if pg_running st \<or> js_trim (pg_statement st) = [] then st else runQuery False st)"

text \<open>
  The answer: a refusal shows the body's \<open>detail\<close>; a 2xx either asks for confirmation or is the
  result; no answer, or a body that cannot be read, is the catch. The \<open>finally\<close> takes the flag down
  whatever else is in flight. \<open>i\<close> is the request that is answered.
\<close>

datatype run_reply = RunRefused "string option" | RunOk execute_result | RunFailed

definition runReplied :: "nat \<Rightarrow> run_reply \<Rightarrow> playground \<Rightarrow> playground" where
  "runReplied i r st =
     (if length (pg_flights st) \<le> i then st
      else (case r of
              RunRefused d \<Rightarrow> st\<lparr>pg_toasts := pg_toasts st @ [Failure (case d of Some m \<Rightarrow> m | None \<Rightarrow> ''Query failed'')]\<rparr>
            | RunOk (ConfirmationRequired ss) \<Rightarrow> st\<lparr>pg_pending := Some ss\<rparr>
            | RunOk (Executed x) \<Rightarrow> loadHistory (st\<lparr>pg_result := Some x\<rparr>)
            | RunFailed \<Rightarrow>
                st\<lparr>pg_toasts := pg_toasts st
                     @ [Failure (''Query failed '' @ em_dash @ '' check your connection and try again'')]\<rparr>)
           \<lparr>pg_running := False, pg_flights := take i (pg_flights st) @ drop (Suc i) (pg_flights st)\<rparr>)"

definition confirmAndRun :: "playground \<Rightarrow> playground" where
  "confirmAndRun st = runQuery True (st\<lparr>pg_pending := None\<rparr>)"

definition declineConfirmation :: "playground \<Rightarrow> playground" where
  "declineConfirmation st =
     st\<lparr>pg_pending := None, pg_declined := pg_declined st @ [pg_statement st], pg_cancels := Suc (pg_cancels st)\<rparr>"

text \<open>The answer to \<open>cancel-confirmation\<close>: whether it arrived and was 2xx.\<close>

definition cancelReplied :: "bool \<Rightarrow> playground \<Rightarrow> playground" where
  "cancelReplied ok st =
     (if pg_cancels st = 0 then st
      else (if ok then loadHistory st
            else st\<lparr>pg_toasts := pg_toasts st @ [Failure ''Failed to record the cancelled query'']\<rparr>)
           \<lparr>pg_cancels := pg_cancels st - 1\<rparr>)"

definition clickRefresh :: "playground \<Rightarrow> playground" where
  "clickRefresh st = (if pg_refreshing st then st else st\<lparr>pg_refreshing := True\<rparr>)"

datatype refresh_reply = RefreshRefused "string option" | RefreshIncomplete "string option" | RefreshDone nat | RefreshFailed

definition refreshReplied :: "refresh_reply \<Rightarrow> playground \<Rightarrow> playground" where
  "refreshReplied r st =
     (if \<not> pg_refreshing st then st
      else (case r of
              RefreshRefused d \<Rightarrow> st\<lparr>pg_toasts := pg_toasts st @ [Failure (case d of Some m \<Rightarrow> m | None \<Rightarrow> ''Refresh failed'')]\<rparr>
            | RefreshIncomplete d \<Rightarrow>
                st\<lparr>pg_toasts := pg_toasts st @ [Failure (case d of Some m \<Rightarrow> m | None \<Rightarrow> ''Sandbox refresh failed'')]\<rparr>
            | RefreshDone n \<Rightarrow>
                st\<lparr>pg_toasts := pg_toasts st
                     @ [Success (''Sandbox refreshed '' @ em_dash @ '' '' @ show_nat n @ '' tables mirrored'')],
                   pg_reloads := Suc (pg_reloads st)\<rparr>
            | RefreshFailed \<Rightarrow>
                st\<lparr>pg_toasts := pg_toasts st
                     @ [Failure (''Sandbox refresh failed '' @ em_dash @ '' check your connection and try again'')]\<rparr>)
           \<lparr>pg_refreshing := False\<rparr>)"

text \<open>Closing the dialog by Escape or a click outside.\<close>

definition dismissConfirmation :: "playground \<Rightarrow> playground" where
  "dismissConfirmation st = st\<lparr>pg_pending := None\<rparr>"

text \<open>The confirmation dialog is modal: while it is open, the page behind it cannot be used. Its own buttons
  are there only while it is open.\<close>

datatype playground_event =
    EditStatement string | InsertText string | ClickRun | RunReplied nat run_reply | Confirm | Decline | Dismiss
  | ClickRefresh | RefreshReplied refresh_reply | HistoryReplied "json list option" | CancelReplied bool

definition dialog_button :: "playground_event \<Rightarrow> bool" where
  "dialog_button e \<longleftrightarrow> (case e of Confirm \<Rightarrow> True | Decline \<Rightarrow> True | Dismiss \<Rightarrow> True | _ \<Rightarrow> False)"

definition blocked_by_dialog :: "playground_event \<Rightarrow> bool" where
  "blocked_by_dialog e \<longleftrightarrow> (case e of EditStatement v \<Rightarrow> True | InsertText t \<Rightarrow> True | ClickRun \<Rightarrow> True | ClickRefresh \<Rightarrow> True | _ \<Rightarrow> False)"

fun playground_step :: "playground_event \<Rightarrow> playground \<Rightarrow> playground" where
  "playground_step e st =
     (if (if pg_pending st = None then dialog_button e else blocked_by_dialog e) then st
      else case e of
             EditStatement v \<Rightarrow> edit_statement v st
           | InsertText t \<Rightarrow> insertIntoEditor t st
           | ClickRun \<Rightarrow> clickRun st
           | RunReplied i r \<Rightarrow> runReplied i r st
           | Confirm \<Rightarrow> confirmAndRun st
           | Decline \<Rightarrow> declineConfirmation st
           | Dismiss \<Rightarrow> dismissConfirmation st
           | ClickRefresh \<Rightarrow> clickRefresh st
           | RefreshReplied r \<Rightarrow> refreshReplied r st
           | HistoryReplied r \<Rightarrow> historyReplied r st
           | CancelReplied ok \<Rightarrow> cancelReplied ok st)"

definition playground_run :: "playground_event list \<Rightarrow> playground \<Rightarrow> playground" where
  "playground_run es st = fold playground_step es st"

lemmas playground_defs = edit_statement_def insertIntoEditor_def runQuery_def clickRun_def runReplied_def
  confirmAndRun_def declineConfirmation_def dismissConfirmation_def clickRefresh_def refreshReplied_def blocked_by_dialog_def dialog_button_def
  loadHistory_def historyReplied_def cancelReplied_def

section \<open>What can be run\<close>

definition playground_ok :: "playground \<Rightarrow> bool" where
  "playground_ok st \<longleftrightarrow>
     (pg_running st \<longleftrightarrow> pg_flights st \<noteq> []) \<and> length (pg_flights st) \<le> 1
     \<and> (pg_pending st \<noteq> None \<longrightarrow> pg_flights st = [])"

lemma playground_step_ok: "playground_ok st \<Longrightarrow> playground_ok (playground_step e st)"
  by (cases e) (auto simp: playground_ok_def playground_defs split: run_reply.splits execute_result.splits refresh_reply.splits option.splits)

lemma playground_run_ok: "playground_ok st \<Longrightarrow> playground_ok (playground_run es st)"
  by (induction es arbitrary: st) (simp_all add: playground_run_def playground_step_ok del: playground_step.simps)

text \<open>How often the user pressed Confirm while a dialog was open.\<close>

fun confirmations :: "playground_event list \<Rightarrow> playground \<Rightarrow> nat" where
  "confirmations [] st = 0"
| "confirmations (e # es) st =
     (if e = Confirm \<and> pg_pending st \<noteq> None then 1 else 0) + confirmations es (playground_step e st)"

lemma step_confirmed:
  "length (filter snd (pg_ran (playground_step e st))) =
     length (filter snd (pg_ran st)) + (if e = Confirm \<and> pg_pending st \<noteq> None then 1 else 0)"
  by (cases e) (auto simp: playground_defs split: run_reply.splits execute_result.splits refresh_reply.splits option.splits)

lemma confirmed_count:
  "length (filter snd (pg_ran (playground_run es st))) = length (filter snd (pg_ran st)) + confirmations es st"
proof (induction es arbitrary: st)
  case (Cons e es)
  from Cons [of "playground_step e st"] step_confirmed [of e st] show ?case
    by (simp add: playground_run_def del: playground_step.simps)
qed (simp add: playground_run_def)

text \<open>C23: Nothing is sent as confirmed unless the user pressed Confirm in the dialog, once per request, and at
  most one execution is in flight, never while the dialog is open.\<close>

theorem confirmed_only_by_user:
  "length (filter snd (pg_ran (playground_run es init_playground))) = confirmations es init_playground
   \<and> length (pg_flights (playground_run es init_playground)) \<le> 1
   \<and> (pg_pending (playground_run es init_playground) \<noteq> None \<longrightarrow>
        pg_flights (playground_run es init_playground) = [] \<and> \<not> pg_running (playground_run es init_playground))"
  using playground_run_ok [of init_playground es]
  by (simp add: confirmed_count) (simp add: init_playground_def playground_ok_def)

lemma initial_statement_trim: "js_trim (pg_statement init_playground) \<noteq> []"
  by (simp add: init_playground_def js_trim_def trim_start_def trim_end_def ws_seqs_def strip_prefixes.simps
      starts_with_def char_of_def)

theorem confirmed_only_by_user_witness:
  "length (filter snd (pg_ran (playground_run
      [ClickRun, RunReplied 0 (RunOk (ConfirmationRequired [(''delete'', ''write'')])), Confirm, RunReplied 0 RunFailed] init_playground))) = 1"
  using confirmed_only_by_user [of
      "[ClickRun, RunReplied 0 (RunOk (ConfirmationRequired [(''delete'', ''write'')])), Confirm, RunReplied 0 RunFailed]"]
    initial_statement_trim
  by (simp add: playground_defs) (simp add: init_playground_def)

text \<open>What is confirmed is the text in the editor, not the text the dialog describes: the editor can be
  changed while the first request is in flight, and Confirm then runs the changed text as confirmed
  none of whose statements the user was shown.\<close>

theorem confirmed_text_is_the_edited_one:
  assumes "pg_pending st = None" "\<not> pg_running st" "js_trim (pg_statement st) \<noteq> []"
    and "pg_flights st = []"
  shows "pg_flights (playground_run [ClickRun, EditStatement v, RunReplied 0 (RunOk (ConfirmationRequired shown)), Confirm] st)
      = [(v, True)]
    \<and> pg_pending (playground_run [ClickRun, EditStatement v, RunReplied 0 (RunOk (ConfirmationRequired shown))] st) = Some shown
    \<and> pg_ran (playground_run [ClickRun, EditStatement v, RunReplied 0 (RunOk (ConfirmationRequired shown)), Confirm] st)
      = pg_ran st @ [(pg_statement st, False), (v, True)]"
  using assms by (simp add: playground_run_def playground_defs)

lemma sample_statement_trim: "js_trim ''select'' \<noteq> []"
  by (simp add: js_trim_def trim_start_def trim_end_def ws_seqs_def strip_prefixes.simps starts_with_def char_of_def)

theorem confirmed_text_is_the_edited_one_witness:
  "pg_flights (playground_run [ClickRun, EditStatement ''drop'', RunReplied 0 (RunOk (ConfirmationRequired [(''select'', ''write'')])), Confirm]
     (init_playground\<lparr>pg_statement := ''select''\<rparr>)) = [(''drop'', True)]"
  using confirmed_text_is_the_edited_one [of "init_playground\<lparr>pg_statement := ''select''\<rparr>" "''drop''" "[(''select'', ''write'')]"]
    sample_statement_trim
  by (simp add: init_playground_def)

section \<open>schema-browser.tsx\<close>

record schema_column =
  co_name :: string
  co_type :: string
  co_nullable :: bool
  co_is_primary_key :: bool

record schema_table =
  ta_name :: string
  ta_qualified_name :: string
  ta_columns :: "schema_column list"

record schema_relationship =
  re_from_table :: string
  re_from_column :: string
  re_to_table :: string
  re_to_column :: string

record sandbox_schema =
  ss_tables :: "schema_table list"
  ss_relationships :: "schema_relationship list"
  ss_populated :: "bool option"

text \<open>
  \<open>value.replace(/[^A-Za-z0-9_]/g, "_")\<close> replaces UTF-16 units: one underscore for a character of
  the basic plane, two for one beyond it. On the UTF-8 bytes: none for a continuation byte, one for
  a lead byte below 0xF0, two from there on.
\<close>

definition safe_char :: "char \<Rightarrow> bool" where
  "safe_char c \<longleftrightarrow> is_alnum c \<or> c = CHR ''_''"

definition clean_byte :: "char \<Rightarrow> string" where
  "clean_byte c =
     (if safe_char c then [c]
      else if byte c < 128 then ''_''
      else if byte c < 192 then []
      else if byte c < 240 then ''_'' else ''__'')"

definition clean :: "string \<Rightarrow> string" where
  "clean v = concat (map clean_byte v)"

definition foreignKeyColumns :: "schema_relationship list \<Rightarrow> string \<Rightarrow> string set" where
  "foreignKeyColumns rels table = re_from_column ` set (filter (\<lambda>r. re_from_table r = table) rels)"

definition relation_line :: "schema_relationship \<Rightarrow> string" where
  "relation_line r =
     ''  '' @ clean (re_from_table r) @ '' }o--|| '' @ clean (re_to_table r) @ '' : \"'' @ clean (re_from_column r) @ ''\"''"

definition column_line :: "string set \<Rightarrow> schema_column \<Rightarrow> string" where
  "column_line fks c =
     (let keys = join_with '','' ((if co_is_primary_key c then [''PK''] else []) @ (if co_name c \<in> fks then [''FK''] else []));
          t = clean (js_trim (takeWhile (\<lambda>x. x \<noteq> CHR ''('') (co_type c)));
          type = (if t = [] then ''unknown'' else t)
      in trim_end (''    '' @ type @ '' '' @ clean (co_name c) @ '' '' @ keys))"

definition table_lines :: "schema_relationship list \<Rightarrow> schema_table \<Rightarrow> string list" where
  "table_lines rels t =
     (let fks = foreignKeyColumns rels (ta_name t)
      in [''  '' @ clean (ta_name t) @ '' {'']
         @ map (column_line fks) (filter (\<lambda>c. co_is_primary_key c \<or> co_name c \<in> fks) (ta_columns t))
         @ [''  }''])"

definition erLines :: "sandbox_schema \<Rightarrow> string list" where
  "erLines s =
     [''erDiagram''] @ map relation_line (ss_relationships s) @ concat (map (table_lines (ss_relationships s)) (ss_tables s))"

definition buildErDiagram :: "sandbox_schema \<Rightarrow> string" where
  "buildErDiagram s = join_with [CHR 0x0A] (erLines s)"

definition DIAGRAM_ZOOM_STEPS :: "nat list" where
  "DIAGRAM_ZOOM_STEPS = [30, 40, 50, 65, 80, 100]"

lemma clean_safe: "list_all safe_char (clean v)"
  by (auto simp: clean_def clean_byte_def list_all_iff safe_char_def)

lemma clean_id: "list_all safe_char v \<Longrightarrow> clean v = v"
  by (induction v) (auto simp: clean_def clean_byte_def)


lemma clean_filter [simp]: "filter (\<lambda>c. \<not> safe_char c) (clean v) = []"
  using clean_safe [of v] by (auto simp: filter_empty_conv list_all_iff)

lemma safe_consts:
  "\<not> safe_char CHR '' ''" "\<not> safe_char CHR ''}''" "safe_char CHR ''o''" "\<not> safe_char CHR ''-''"
  "\<not> safe_char CHR ''|''" "\<not> safe_char CHR '':''" "\<not> safe_char (CHR 0x22)" "\<not> safe_char CHR ''{''"
  "\<not> safe_char (CHR 0x0A)" "\<not> safe_char CHR '',''"
  by code_simp+

lemma fixed_words_safe: "list_all safe_char ''unknown''" "list_all safe_char ''PK''" "list_all safe_char ''FK''"
  by code_simp+

lemma key_chars:
  "set (join_with '','' ((if p then [''PK''] else []) @ (if q then [''FK''] else []))) \<subseteq> {x. safe_char x} \<union> set '' ,''"
  using fixed_words_safe(2,3) by (cases p; cases q) simp_all

lemma column_chars: "set (column_line fks c) \<subseteq> {x. safe_char x} \<union> set '' ,''"
proof -
  define t where "t = clean (js_trim (takeWhile (\<lambda>x. x \<noteq> CHR ''('') (co_type c)))"
  define type where "type = (if t = [] then ''unknown'' else t)"
  have s: "set (clean v) \<subseteq> {x. safe_char x}" for v
    using clean_safe [of v] by (auto simp: list_all_iff)
  have "set type \<subseteq> {x. safe_char x}"
    using s fixed_words_safe(1) by (simp add: type_def t_def)
  with s [of "co_name c"] key_chars [of "co_is_primary_key c" "co_name c \<in> fks"]
  have "set (''    '' @ type @ '' '' @ clean (co_name c) @ '' '' @
      join_with '','' ((if co_is_primary_key c then [''PK''] else []) @ (if co_name c \<in> fks then [''FK''] else [])))
      \<subseteq> {x. safe_char x} \<union> set '' ,''"
    by (simp add: subset_iff del: join_with.simps)
  with trim_end_set show ?thesis
    unfolding column_line_def Let_def type_def [symmetric] t_def [symmetric] by (rule subset_trans)
qed

lemma er_lines_one: "list_all (\<lambda>l. CHR 0x0A \<notin> set l) (erLines s)"
proof -
  have "CHR 0x0A \<notin> set (clean v)" for v
    using clean_safe [of v] safe_consts(9) by (auto simp: list_all_iff)
  moreover have "CHR 0x0A \<notin> set (column_line fks c)" for fks c
    using column_chars [of fks c] safe_consts(9) by auto
  ultimately show ?thesis
    by (auto simp: list_all_iff erLines_def relation_line_def table_lines_def Let_def)
qed

text \<open>C24: Nothing in a schema can inject diagram syntax: cutting the diagram at its line breaks gives back exactly
  the lines it was built from; in a relationship line and in a table's header everything but
  the fixed punctuation is an identifier character, and a column line holds only identifier
  characters, spaces and commas.\<close>

theorem er_diagram_injection_free:
  "filter (\<lambda>x. \<not> safe_char x) (relation_line r) = filter (\<lambda>x. \<not> safe_char x) ''   }o--||  : \"\"''
   \<and> filter (\<lambda>x. \<not> safe_char x) (hd (table_lines rels t)) = ''   {''
   \<and> list_all (\<lambda>l. set l \<subseteq> {x. safe_char x} \<union> set '' ,'') (butlast (tl (table_lines rels t)))
   \<and> split_on (CHR 0x0A) (buildErDiagram s) = erLines s"
proof (intro conjI)
  show "filter (\<lambda>x. \<not> safe_char x) (relation_line r) = filter (\<lambda>x. \<not> safe_char x) ''   }o--||  : \"\"''"
    by (simp add: relation_line_def safe_consts)
  show "filter (\<lambda>x. \<not> safe_char x) (hd (table_lines rels t)) = ''   {''"
    by (simp add: table_lines_def Let_def safe_consts)
  show "list_all (\<lambda>l. set l \<subseteq> {x. safe_char x} \<union> set '' ,'') (butlast (tl (table_lines rels t)))"
    using column_chars by (auto simp: table_lines_def Let_def list_all_iff butlast_append)
  have "erLines s \<noteq> []" by (simp add: erLines_def)
  then show "split_on (CHR 0x0A) (buildErDiagram s) = erLines s"
    using er_lines_one [of s] unfolding buildErDiagram_def by (intro split_on_join) (auto simp: list_all_iff)
qed

end
