(* ===== verification/Theme_Presets.thy ===== *)
theory Theme_Presets
  imports MO_Prelude
begin

text \<open>
  The theme presets of the Builder, \<open>utils/shadcn-ui-theme-presets.ts\<close>, with the type of
  \<open>types/theme-customizer.ts\<close> and the list \<open>colorThemes\<close> of \<open>config/theme-data.ts\<close>:
  plain data, in the order of the file. Shown: every preset defines the same variables in both
  modes. (The presets of \<open>tweakcn-theme-presets.ts\<close>, of the same shape, are not copied here.)
\<close>

record theme_preset =
  tp_label :: "string option"
  tp_light :: "(string \<times> string) list"
  tp_dark :: "(string \<times> string) list"

definition font_stack_1 :: string where
  "font_stack_1 = (''ui-sans-serif, system-ui, sans-serif, 'Apple Color Emoji', 'Segoe UI Emoji', 'Segoe UI Symbol', 'Noto Color Emoji'' @ [CHR 0x27])"

definition font_stack_2 :: string where
  "font_stack_2 = ''ui-monospace, SFMono-Regular, 'SF Mono', Consolas, 'Liberation Mono', Menlo, monospace''"

definition preset_default :: theme_preset where
  "preset_default = \<lparr>tp_label = Some ''Default'',
   tp_light = [
    (''background'', ''oklch(1 0 0)''), (''foreground'', ''oklch(0.145 0 0)''), (''card'', ''oklch(1 0 0)''),
    (''card-foreground'', ''oklch(0.145 0 0)''), (''popover'', ''oklch(1 0 0)''),
    (''popover-foreground'', ''oklch(0.145 0 0)''), (''primary'', ''oklch(0.205 0 0)''),
    (''primary-foreground'', ''oklch(0.985 0 0)''), (''secondary'', ''oklch(0.97 0 0)''),
    (''secondary-foreground'', ''oklch(0.205 0 0)''), (''muted'', ''oklch(0.97 0 0)''),
    (''muted-foreground'', ''oklch(0.556 0 0)''), (''accent'', ''oklch(0.97 0 0)''),
    (''accent-foreground'', ''oklch(0.205 0 0)''), (''destructive'', ''oklch(0.577 0.245 27.325)''),
    (''destructive-foreground'', ''oklch(0.98 0 0)''), (''border'', ''oklch(0.922 0 0)''),
    (''input'', ''oklch(0.922 0 0)''), (''ring'', ''oklch(0.708 0 0)''),
    (''chart-1'', ''oklch(0.646 0.222 41.116)''), (''chart-2'', ''oklch(0.6 0.118 184.704)''),
    (''chart-3'', ''oklch(0.398 0.07 227.392)''), (''chart-4'', ''oklch(0.828 0.189 84.429)''),
    (''chart-5'', ''oklch(0.769 0.188 70.08)''), (''radius'', ''0.625rem''), (''font-sans'', font_stack_1),
    (''font-mono'', font_stack_2)],
   tp_dark = [
    (''background'', ''oklch(0.145 0 0)''), (''foreground'', ''oklch(0.985 0 0)''),
    (''card'', ''oklch(0.205 0 0)''), (''card-foreground'', ''oklch(0.985 0 0)''),
    (''popover'', ''oklch(0.269 0 0)''), (''popover-foreground'', ''oklch(0.985 0 0)''),
    (''primary'', ''oklch(0.922 0 0)''), (''primary-foreground'', ''oklch(0.205 0 0)''),
    (''secondary'', ''oklch(0.269 0 0)''), (''secondary-foreground'', ''oklch(0.985 0 0)''),
    (''muted'', ''oklch(0.269 0 0)''), (''muted-foreground'', ''oklch(0.708 0 0)''),
    (''accent'', ''oklch(0.371 0 0)''), (''accent-foreground'', ''oklch(0.985 0 0)''),
    (''destructive'', ''oklch(0.704 0.191 22.216)''), (''destructive-foreground'', ''oklch(0.98 0 0)''),
    (''border'', ''oklch(1 0 0 / 10%)''), (''input'', ''oklch(1 0 0 / 15%)''),
    (''ring'', ''oklch(0.556 0 0)''), (''chart-1'', ''oklch(0.488 0.243 264.376)''),
    (''chart-2'', ''oklch(0.696 0.17 162.48)''), (''chart-3'', ''oklch(0.769 0.188 70.08)''),
    (''chart-4'', ''oklch(0.627 0.265 303.9)''), (''chart-5'', ''oklch(0.645 0.246 16.439)''),
    (''radius'', ''0.625rem''), (''font-sans'', font_stack_1), (''font-mono'', font_stack_2)]\<rparr>"

definition preset_blue :: theme_preset where
  "preset_blue = \<lparr>tp_label = Some ''Blue'',
   tp_light = [
    (''background'', ''oklch(1 0 0)''), (''foreground'', ''oklch(0.145 0 0)''), (''card'', ''oklch(1 0 0)''),
    (''card-foreground'', ''oklch(0.145 0 0)''), (''popover'', ''oklch(1 0 0)''),
    (''popover-foreground'', ''oklch(0.145 0 0)''), (''primary'', ''var(--color-blue-600)''),
    (''primary-foreground'', ''var(--color-blue-50)''), (''secondary'', ''oklch(0.97 0 0)''),
    (''secondary-foreground'', ''oklch(0.205 0 0)''), (''muted'', ''oklch(0.97 0 0)''),
    (''muted-foreground'', ''oklch(0.556 0 0)''), (''accent'', ''oklch(0.97 0 0)''),
    (''accent-foreground'', ''oklch(0.205 0 0)''), (''destructive'', ''oklch(0.577 0.245 27.325)''),
    (''destructive-foreground'', ''oklch(0.98 0 0)''), (''border'', ''oklch(0.922 0 0)''),
    (''input'', ''oklch(0.922 0 0)''), (''ring'', ''var(--color-blue-400)''),
    (''chart-1'', ''var(--color-blue-500)''), (''chart-2'', ''var(--color-blue-600)''),
    (''chart-3'', ''var(--color-blue-700)''), (''chart-4'', ''var(--color-blue-800)''),
    (''chart-5'', ''var(--color-blue-900)''), (''radius'', ''0.625rem''), (''font-sans'', font_stack_1),
    (''font-mono'', font_stack_2)],
   tp_dark = [
    (''background'', ''oklch(0.145 0 0)''), (''foreground'', ''oklch(0.985 0 0)''),
    (''card'', ''oklch(0.205 0 0)''), (''card-foreground'', ''oklch(0.985 0 0)''),
    (''popover'', ''oklch(0.269 0 0)''), (''popover-foreground'', ''oklch(0.985 0 0)''),
    (''primary'', ''var(--color-blue-500)''), (''primary-foreground'', ''var(--color-blue-50)''),
    (''secondary'', ''oklch(0.269 0 0)''), (''secondary-foreground'', ''oklch(0.985 0 0)''),
    (''muted'', ''oklch(0.269 0 0)''), (''muted-foreground'', ''oklch(0.708 0 0)''),
    (''accent'', ''oklch(0.371 0 0)''), (''accent-foreground'', ''oklch(0.985 0 0)''),
    (''destructive'', ''oklch(0.704 0.191 22.216)''), (''destructive-foreground'', ''oklch(0.98 0 0)''),
    (''border'', ''oklch(1 0 0 / 10%)''), (''input'', ''oklch(1 0 0 / 15%)''),
    (''ring'', ''var(--color-blue-900)''), (''chart-1'', ''var(--color-blue-400)''),
    (''chart-2'', ''var(--color-blue-500)''), (''chart-3'', ''var(--color-blue-600)''),
    (''chart-4'', ''var(--color-blue-700)''), (''chart-5'', ''var(--color-blue-800)''),
    (''radius'', ''0.625rem''), (''font-sans'', font_stack_1), (''font-mono'', font_stack_2)]\<rparr>"

definition preset_green :: theme_preset where
  "preset_green = \<lparr>tp_label = Some ''Green'',
   tp_light = [
    (''background'', ''oklch(1 0 0)''), (''foreground'', ''oklch(0.145 0 0)''), (''card'', ''oklch(1 0 0)''),
    (''card-foreground'', ''oklch(0.145 0 0)''), (''popover'', ''oklch(1 0 0)''),
    (''popover-foreground'', ''oklch(0.145 0 0)''), (''primary'', ''var(--color-lime-600)''),
    (''primary-foreground'', ''var(--color-lime-50)''), (''secondary'', ''oklch(0.97 0 0)''),
    (''secondary-foreground'', ''oklch(0.205 0 0)''), (''muted'', ''oklch(0.97 0 0)''),
    (''muted-foreground'', ''oklch(0.556 0 0)''), (''accent'', ''oklch(0.97 0 0)''),
    (''accent-foreground'', ''oklch(0.205 0 0)''), (''destructive'', ''oklch(0.577 0.245 27.325)''),
    (''destructive-foreground'', ''oklch(0.98 0 0)''), (''border'', ''oklch(0.922 0 0)''),
    (''input'', ''oklch(0.922 0 0)''), (''ring'', ''var(--color-lime-400)''),
    (''chart-1'', ''var(--color-lime-500)''), (''chart-2'', ''var(--color-lime-600)''),
    (''chart-3'', ''var(--color-lime-700)''), (''chart-4'', ''var(--color-lime-800)''),
    (''chart-5'', ''var(--color-lime-900)''), (''radius'', ''0.625rem''), (''font-sans'', font_stack_1),
    (''font-mono'', font_stack_2)],
   tp_dark = [
    (''background'', ''oklch(0.145 0 0)''), (''foreground'', ''oklch(0.985 0 0)''),
    (''card'', ''oklch(0.205 0 0)''), (''card-foreground'', ''oklch(0.985 0 0)''),
    (''popover'', ''oklch(0.269 0 0)''), (''popover-foreground'', ''oklch(0.985 0 0)''),
    (''primary'', ''var(--color-lime-500)''), (''primary-foreground'', ''var(--color-lime-50)''),
    (''secondary'', ''oklch(0.269 0 0)''), (''secondary-foreground'', ''oklch(0.985 0 0)''),
    (''muted'', ''oklch(0.269 0 0)''), (''muted-foreground'', ''oklch(0.708 0 0)''),
    (''accent'', ''oklch(0.371 0 0)''), (''accent-foreground'', ''oklch(0.985 0 0)''),
    (''destructive'', ''oklch(0.704 0.191 22.216)''), (''destructive-foreground'', ''oklch(0.98 0 0)''),
    (''border'', ''oklch(1 0 0 / 10%)''), (''input'', ''oklch(1 0 0 / 15%)''),
    (''ring'', ''var(--color-lime-900)''), (''chart-1'', ''var(--color-lime-400)''),
    (''chart-2'', ''var(--color-lime-500)''), (''chart-3'', ''var(--color-lime-600)''),
    (''chart-4'', ''var(--color-lime-700)''), (''chart-5'', ''var(--color-lime-800)''),
    (''radius'', ''0.625rem''), (''font-sans'', font_stack_1), (''font-mono'', font_stack_2)]\<rparr>"

definition preset_red :: theme_preset where
  "preset_red = \<lparr>tp_label = Some ''Red'',
   tp_light = [
    (''background'', ''oklch(1 0 0)''), (''foreground'', ''oklch(0.145 0 0)''), (''card'', ''oklch(1 0 0)''),
    (''card-foreground'', ''oklch(0.145 0 0)''), (''popover'', ''oklch(1 0 0)''),
    (''popover-foreground'', ''oklch(0.145 0 0)''), (''primary'', ''var(--color-red-600)''),
    (''primary-foreground'', ''var(--color-red-50)''), (''secondary'', ''oklch(0.97 0 0)''),
    (''secondary-foreground'', ''oklch(0.205 0 0)''), (''muted'', ''oklch(0.97 0 0)''),
    (''muted-foreground'', ''oklch(0.556 0 0)''), (''accent'', ''oklch(0.97 0 0)''),
    (''accent-foreground'', ''oklch(0.205 0 0)''), (''destructive'', ''oklch(0.577 0.245 27.325)''),
    (''destructive-foreground'', ''oklch(0.98 0 0)''), (''border'', ''oklch(0.922 0 0)''),
    (''input'', ''oklch(0.922 0 0)''), (''ring'', ''var(--color-red-400)''),
    (''chart-1'', ''var(--color-red-500)''), (''chart-2'', ''var(--color-red-600)''),
    (''chart-3'', ''var(--color-red-700)''), (''chart-4'', ''var(--color-red-800)''),
    (''chart-5'', ''var(--color-red-900)''), (''radius'', ''0.625rem''), (''font-sans'', font_stack_1),
    (''font-mono'', font_stack_2)],
   tp_dark = [
    (''background'', ''oklch(0.145 0 0)''), (''foreground'', ''oklch(0.985 0 0)''),
    (''card'', ''oklch(0.205 0 0)''), (''card-foreground'', ''oklch(0.985 0 0)''),
    (''popover'', ''oklch(0.269 0 0)''), (''popover-foreground'', ''oklch(0.985 0 0)''),
    (''primary'', ''var(--color-red-500)''), (''primary-foreground'', ''var(--color-red-50)''),
    (''secondary'', ''oklch(0.269 0 0)''), (''secondary-foreground'', ''oklch(0.985 0 0)''),
    (''muted'', ''oklch(0.269 0 0)''), (''muted-foreground'', ''oklch(0.708 0 0)''),
    (''accent'', ''oklch(0.371 0 0)''), (''accent-foreground'', ''oklch(0.985 0 0)''),
    (''destructive'', ''oklch(0.704 0.191 22.216)''), (''destructive-foreground'', ''oklch(0.98 0 0)''),
    (''border'', ''oklch(1 0 0 / 10%)''), (''input'', ''oklch(1 0 0 / 15%)''),
    (''ring'', ''var(--color-red-900)''), (''chart-1'', ''var(--color-red-400)''),
    (''chart-2'', ''var(--color-red-500)''), (''chart-3'', ''var(--color-red-600)''),
    (''chart-4'', ''var(--color-red-700)''), (''chart-5'', ''var(--color-red-800)''),
    (''radius'', ''0.625rem''), (''font-sans'', font_stack_1), (''font-mono'', font_stack_2)]\<rparr>"

definition preset_rose :: theme_preset where
  "preset_rose = \<lparr>tp_label = Some ''Rose'',
   tp_light = [
    (''background'', ''oklch(1 0 0)''), (''foreground'', ''oklch(0.145 0 0)''), (''card'', ''oklch(1 0 0)''),
    (''card-foreground'', ''oklch(0.145 0 0)''), (''popover'', ''oklch(1 0 0)''),
    (''popover-foreground'', ''oklch(0.145 0 0)''), (''primary'', ''var(--color-rose-600)''),
    (''primary-foreground'', ''var(--color-rose-50)''), (''secondary'', ''oklch(0.97 0 0)''),
    (''secondary-foreground'', ''oklch(0.205 0 0)''), (''muted'', ''oklch(0.97 0 0)''),
    (''muted-foreground'', ''oklch(0.556 0 0)''), (''accent'', ''oklch(0.97 0 0)''),
    (''accent-foreground'', ''oklch(0.205 0 0)''), (''destructive'', ''oklch(0.577 0.245 27.325)''),
    (''destructive-foreground'', ''oklch(0.98 0 0)''), (''border'', ''oklch(0.922 0 0)''),
    (''input'', ''oklch(0.922 0 0)''), (''ring'', ''var(--color-rose-400)''),
    (''chart-1'', ''var(--color-rose-500)''), (''chart-2'', ''var(--color-rose-600)''),
    (''chart-3'', ''var(--color-rose-700)''), (''chart-4'', ''var(--color-rose-800)''),
    (''chart-5'', ''var(--color-rose-900)''), (''radius'', ''0.625rem''), (''font-sans'', font_stack_1),
    (''font-mono'', font_stack_2)],
   tp_dark = [
    (''background'', ''oklch(0.145 0 0)''), (''foreground'', ''oklch(0.985 0 0)''),
    (''card'', ''oklch(0.205 0 0)''), (''card-foreground'', ''oklch(0.985 0 0)''),
    (''popover'', ''oklch(0.269 0 0)''), (''popover-foreground'', ''oklch(0.985 0 0)''),
    (''primary'', ''var(--color-rose-500)''), (''primary-foreground'', ''var(--color-rose-50)''),
    (''secondary'', ''oklch(0.269 0 0)''), (''secondary-foreground'', ''oklch(0.985 0 0)''),
    (''muted'', ''oklch(0.269 0 0)''), (''muted-foreground'', ''oklch(0.708 0 0)''),
    (''accent'', ''oklch(0.371 0 0)''), (''accent-foreground'', ''oklch(0.985 0 0)''),
    (''destructive'', ''oklch(0.704 0.191 22.216)''), (''destructive-foreground'', ''oklch(0.98 0 0)''),
    (''border'', ''oklch(1 0 0 / 10%)''), (''input'', ''oklch(1 0 0 / 15%)''),
    (''ring'', ''var(--color-rose-900)''), (''chart-1'', ''var(--color-rose-400)''),
    (''chart-2'', ''var(--color-rose-500)''), (''chart-3'', ''var(--color-rose-600)''),
    (''chart-4'', ''var(--color-rose-700)''), (''chart-5'', ''var(--color-rose-800)''),
    (''radius'', ''0.625rem''), (''font-sans'', font_stack_1), (''font-mono'', font_stack_2)]\<rparr>"

definition preset_orange :: theme_preset where
  "preset_orange = \<lparr>tp_label = Some ''Orange'',
   tp_light = [
    (''background'', ''oklch(1 0 0)''), (''foreground'', ''oklch(0.145 0 0)''), (''card'', ''oklch(1 0 0)''),
    (''card-foreground'', ''oklch(0.145 0 0)''), (''popover'', ''oklch(1 0 0)''),
    (''popover-foreground'', ''oklch(0.145 0 0)''), (''primary'', ''var(--color-orange-600)''),
    (''primary-foreground'', ''var(--color-orange-50)''), (''secondary'', ''oklch(0.97 0 0)''),
    (''secondary-foreground'', ''oklch(0.205 0 0)''), (''muted'', ''oklch(0.97 0 0)''),
    (''muted-foreground'', ''oklch(0.556 0 0)''), (''accent'', ''oklch(0.97 0 0)''),
    (''accent-foreground'', ''oklch(0.205 0 0)''), (''destructive'', ''oklch(0.577 0.245 27.325)''),
    (''destructive-foreground'', ''oklch(0.98 0 0)''), (''border'', ''oklch(0.922 0 0)''),
    (''input'', ''oklch(0.922 0 0)''), (''ring'', ''var(--color-orange-400)''),
    (''chart-1'', ''var(--color-orange-500)''), (''chart-2'', ''var(--color-orange-600)''),
    (''chart-3'', ''var(--color-orange-700)''), (''chart-4'', ''var(--color-orange-800)''),
    (''chart-5'', ''var(--color-orange-900)''), (''radius'', ''0.625rem''), (''font-sans'', font_stack_1),
    (''font-mono'', font_stack_2)],
   tp_dark = [
    (''background'', ''oklch(0.145 0 0)''), (''foreground'', ''oklch(0.985 0 0)''),
    (''card'', ''oklch(0.205 0 0)''), (''card-foreground'', ''oklch(0.985 0 0)''),
    (''popover'', ''oklch(0.269 0 0)''), (''popover-foreground'', ''oklch(0.985 0 0)''),
    (''primary'', ''var(--color-orange-500)''), (''primary-foreground'', ''var(--color-orange-50)''),
    (''secondary'', ''oklch(0.269 0 0)''), (''secondary-foreground'', ''oklch(0.985 0 0)''),
    (''muted'', ''oklch(0.269 0 0)''), (''muted-foreground'', ''oklch(0.708 0 0)''),
    (''accent'', ''oklch(0.371 0 0)''), (''accent-foreground'', ''oklch(0.985 0 0)''),
    (''destructive'', ''oklch(0.704 0.191 22.216)''), (''destructive-foreground'', ''oklch(0.98 0 0)''),
    (''border'', ''oklch(1 0 0 / 10%)''), (''input'', ''oklch(1 0 0 / 15%)''),
    (''ring'', ''var(--color-orange-900)''), (''chart-1'', ''var(--color-orange-400)''),
    (''chart-2'', ''var(--color-orange-500)''), (''chart-3'', ''var(--color-orange-600)''),
    (''chart-4'', ''var(--color-orange-700)''), (''chart-5'', ''var(--color-orange-800)''),
    (''radius'', ''0.625rem''), (''font-sans'', font_stack_1), (''font-mono'', font_stack_2)]\<rparr>"

definition preset_yellow :: theme_preset where
  "preset_yellow = \<lparr>tp_label = Some ''Yellow'',
   tp_light = [
    (''background'', ''oklch(1 0 0)''), (''foreground'', ''oklch(0.145 0 0)''), (''card'', ''oklch(1 0 0)''),
    (''card-foreground'', ''oklch(0.145 0 0)''), (''popover'', ''oklch(1 0 0)''),
    (''popover-foreground'', ''oklch(0.145 0 0)''), (''primary'', ''var(--color-yellow-400)''),
    (''primary-foreground'', ''var(--color-yellow-900)''), (''secondary'', ''oklch(0.97 0 0)''),
    (''secondary-foreground'', ''oklch(0.205 0 0)''), (''muted'', ''oklch(0.97 0 0)''),
    (''muted-foreground'', ''oklch(0.556 0 0)''), (''accent'', ''oklch(0.97 0 0)''),
    (''accent-foreground'', ''oklch(0.205 0 0)''), (''destructive'', ''oklch(0.577 0.245 27.325)''),
    (''destructive-foreground'', ''oklch(0.98 0 0)''), (''border'', ''oklch(0.922 0 0)''),
    (''input'', ''oklch(0.922 0 0)''), (''ring'', ''var(--color-yellow-400)''),
    (''chart-1'', ''var(--color-yellow-500)''), (''chart-2'', ''var(--color-yellow-600)''),
    (''chart-3'', ''var(--color-yellow-700)''), (''chart-4'', ''var(--color-yellow-800)''),
    (''chart-5'', ''var(--color-yellow-900)''), (''radius'', ''0.625rem''), (''font-sans'', font_stack_1),
    (''font-mono'', font_stack_2)],
   tp_dark = [
    (''background'', ''oklch(0.145 0 0)''), (''foreground'', ''oklch(0.985 0 0)''),
    (''card'', ''oklch(0.205 0 0)''), (''card-foreground'', ''oklch(0.985 0 0)''),
    (''popover'', ''oklch(0.269 0 0)''), (''popover-foreground'', ''oklch(0.985 0 0)''),
    (''primary'', ''var(--color-yellow-500)''), (''primary-foreground'', ''var(--color-yellow-900)''),
    (''secondary'', ''oklch(0.269 0 0)''), (''secondary-foreground'', ''oklch(0.985 0 0)''),
    (''muted'', ''oklch(0.269 0 0)''), (''muted-foreground'', ''oklch(0.708 0 0)''),
    (''accent'', ''oklch(0.371 0 0)''), (''accent-foreground'', ''oklch(0.985 0 0)''),
    (''destructive'', ''oklch(0.704 0.191 22.216)''), (''destructive-foreground'', ''oklch(0.98 0 0)''),
    (''border'', ''oklch(1 0 0 / 10%)''), (''input'', ''oklch(1 0 0 / 15%)''),
    (''ring'', ''var(--color-yellow-900)''), (''chart-1'', ''var(--color-yellow-400)''),
    (''chart-2'', ''var(--color-yellow-500)''), (''chart-3'', ''var(--color-yellow-600)''),
    (''chart-4'', ''var(--color-yellow-700)''), (''chart-5'', ''var(--color-yellow-800)''),
    (''radius'', ''0.625rem''), (''font-sans'', font_stack_1), (''font-mono'', font_stack_2)]\<rparr>"

definition preset_violet :: theme_preset where
  "preset_violet = \<lparr>tp_label = Some ''Violet'',
   tp_light = [
    (''background'', ''oklch(1 0 0)''), (''foreground'', ''oklch(0.145 0 0)''), (''card'', ''oklch(1 0 0)''),
    (''card-foreground'', ''oklch(0.145 0 0)''), (''popover'', ''oklch(1 0 0)''),
    (''popover-foreground'', ''oklch(0.145 0 0)''), (''primary'', ''var(--color-violet-600)''),
    (''primary-foreground'', ''var(--color-violet-50)''), (''secondary'', ''oklch(0.97 0 0)''),
    (''secondary-foreground'', ''oklch(0.205 0 0)''), (''muted'', ''oklch(0.97 0 0)''),
    (''muted-foreground'', ''oklch(0.556 0 0)''), (''accent'', ''oklch(0.97 0 0)''),
    (''accent-foreground'', ''oklch(0.205 0 0)''), (''destructive'', ''oklch(0.577 0.245 27.325)''),
    (''destructive-foreground'', ''oklch(0.98 0 0)''), (''border'', ''oklch(0.922 0 0)''),
    (''input'', ''oklch(0.922 0 0)''), (''ring'', ''var(--color-violet-400)''),
    (''chart-1'', ''var(--color-violet-500)''), (''chart-2'', ''var(--color-violet-600)''),
    (''chart-3'', ''var(--color-violet-700)''), (''chart-4'', ''var(--color-violet-800)''),
    (''chart-5'', ''var(--color-violet-900)''), (''radius'', ''0.625rem''), (''font-sans'', font_stack_1),
    (''font-mono'', font_stack_2)],
   tp_dark = [
    (''background'', ''oklch(0.145 0 0)''), (''foreground'', ''oklch(0.985 0 0)''),
    (''card'', ''oklch(0.205 0 0)''), (''card-foreground'', ''oklch(0.985 0 0)''),
    (''popover'', ''oklch(0.269 0 0)''), (''popover-foreground'', ''oklch(0.985 0 0)''),
    (''primary'', ''var(--color-violet-500)''), (''primary-foreground'', ''var(--color-violet-50)''),
    (''secondary'', ''oklch(0.269 0 0)''), (''secondary-foreground'', ''oklch(0.985 0 0)''),
    (''muted'', ''oklch(0.269 0 0)''), (''muted-foreground'', ''oklch(0.708 0 0)''),
    (''accent'', ''oklch(0.371 0 0)''), (''accent-foreground'', ''oklch(0.985 0 0)''),
    (''destructive'', ''oklch(0.704 0.191 22.216)''), (''destructive-foreground'', ''oklch(0.98 0 0)''),
    (''border'', ''oklch(1 0 0 / 10%)''), (''input'', ''oklch(1 0 0 / 15%)''),
    (''ring'', ''var(--color-violet-900)''), (''chart-1'', ''var(--color-violet-400)''),
    (''chart-2'', ''var(--color-violet-500)''), (''chart-3'', ''var(--color-violet-600)''),
    (''chart-4'', ''var(--color-violet-700)''), (''chart-5'', ''var(--color-violet-800)''),
    (''radius'', ''0.625rem''), (''font-sans'', font_stack_1), (''font-mono'', font_stack_2)]\<rparr>"

definition preset_amber :: theme_preset where
  "preset_amber = \<lparr>tp_label = Some ''Amber'',
   tp_light = [
    (''background'', ''oklch(1 0 0)''), (''foreground'', ''oklch(0.145 0 0)''), (''card'', ''oklch(1 0 0)''),
    (''card-foreground'', ''oklch(0.145 0 0)''), (''popover'', ''oklch(1 0 0)''),
    (''popover-foreground'', ''oklch(0.145 0 0)''), (''primary'', ''var(--color-amber-600)''),
    (''primary-foreground'', ''var(--color-amber-50)''), (''secondary'', ''oklch(0.97 0 0)''),
    (''secondary-foreground'', ''oklch(0.205 0 0)''), (''muted'', ''oklch(0.97 0 0)''),
    (''muted-foreground'', ''oklch(0.556 0 0)''), (''accent'', ''oklch(0.97 0 0)''),
    (''accent-foreground'', ''oklch(0.205 0 0)''), (''destructive'', ''oklch(0.577 0.245 27.325)''),
    (''destructive-foreground'', ''oklch(0.98 0 0)''), (''border'', ''oklch(0.922 0 0)''),
    (''input'', ''oklch(0.922 0 0)''), (''ring'', ''var(--color-amber-400)''),
    (''chart-1'', ''var(--color-amber-500)''), (''chart-2'', ''var(--color-amber-600)''),
    (''chart-3'', ''var(--color-amber-700)''), (''chart-4'', ''var(--color-amber-800)''),
    (''chart-5'', ''var(--color-amber-900)''), (''radius'', ''0.625rem''), (''font-sans'', font_stack_1),
    (''font-mono'', font_stack_2)],
   tp_dark = [
    (''background'', ''oklch(0.145 0 0)''), (''foreground'', ''oklch(0.985 0 0)''),
    (''card'', ''oklch(0.205 0 0)''), (''card-foreground'', ''oklch(0.985 0 0)''),
    (''popover'', ''oklch(0.269 0 0)''), (''popover-foreground'', ''oklch(0.985 0 0)''),
    (''primary'', ''var(--color-amber-500)''), (''primary-foreground'', ''var(--color-amber-50)''),
    (''secondary'', ''oklch(0.269 0 0)''), (''secondary-foreground'', ''oklch(0.985 0 0)''),
    (''muted'', ''oklch(0.269 0 0)''), (''muted-foreground'', ''oklch(0.708 0 0)''),
    (''accent'', ''oklch(0.371 0 0)''), (''accent-foreground'', ''oklch(0.985 0 0)''),
    (''destructive'', ''oklch(0.704 0.191 22.216)''), (''destructive-foreground'', ''oklch(0.98 0 0)''),
    (''border'', ''oklch(1 0 0 / 10%)''), (''input'', ''oklch(1 0 0 / 15%)''),
    (''ring'', ''var(--color-amber-900)''), (''chart-1'', ''var(--color-amber-400)''),
    (''chart-2'', ''var(--color-amber-500)''), (''chart-3'', ''var(--color-amber-600)''),
    (''chart-4'', ''var(--color-amber-700)''), (''chart-5'', ''var(--color-amber-800)''),
    (''radius'', ''0.625rem''), (''font-sans'', font_stack_1), (''font-mono'', font_stack_2)]\<rparr>"

definition preset_purple :: theme_preset where
  "preset_purple = \<lparr>tp_label = Some ''Purple'',
   tp_light = [
    (''background'', ''oklch(1 0 0)''), (''foreground'', ''oklch(0.145 0 0)''), (''card'', ''oklch(1 0 0)''),
    (''card-foreground'', ''oklch(0.145 0 0)''), (''popover'', ''oklch(1 0 0)''),
    (''popover-foreground'', ''oklch(0.145 0 0)''), (''primary'', ''var(--color-purple-600)''),
    (''primary-foreground'', ''var(--color-purple-50)''), (''secondary'', ''oklch(0.97 0 0)''),
    (''secondary-foreground'', ''oklch(0.205 0 0)''), (''muted'', ''oklch(0.97 0 0)''),
    (''muted-foreground'', ''oklch(0.556 0 0)''), (''accent'', ''oklch(0.97 0 0)''),
    (''accent-foreground'', ''oklch(0.205 0 0)''), (''destructive'', ''oklch(0.577 0.245 27.325)''),
    (''destructive-foreground'', ''oklch(0.98 0 0)''), (''border'', ''oklch(0.922 0 0)''),
    (''input'', ''oklch(0.922 0 0)''), (''ring'', ''var(--color-purple-400)''),
    (''chart-1'', ''var(--color-purple-500)''), (''chart-2'', ''var(--color-purple-600)''),
    (''chart-3'', ''var(--color-purple-700)''), (''chart-4'', ''var(--color-purple-800)''),
    (''chart-5'', ''var(--color-purple-900)''), (''radius'', ''0.625rem''), (''font-sans'', font_stack_1),
    (''font-mono'', font_stack_2)],
   tp_dark = [
    (''background'', ''oklch(0.145 0 0)''), (''foreground'', ''oklch(0.985 0 0)''),
    (''card'', ''oklch(0.205 0 0)''), (''card-foreground'', ''oklch(0.985 0 0)''),
    (''popover'', ''oklch(0.269 0 0)''), (''popover-foreground'', ''oklch(0.985 0 0)''),
    (''primary'', ''var(--color-purple-500)''), (''primary-foreground'', ''var(--color-purple-50)''),
    (''secondary'', ''oklch(0.269 0 0)''), (''secondary-foreground'', ''oklch(0.985 0 0)''),
    (''muted'', ''oklch(0.269 0 0)''), (''muted-foreground'', ''oklch(0.708 0 0)''),
    (''accent'', ''oklch(0.371 0 0)''), (''accent-foreground'', ''oklch(0.985 0 0)''),
    (''destructive'', ''oklch(0.704 0.191 22.216)''), (''destructive-foreground'', ''oklch(0.98 0 0)''),
    (''border'', ''oklch(1 0 0 / 10%)''), (''input'', ''oklch(1 0 0 / 15%)''),
    (''ring'', ''var(--color-purple-900)''), (''chart-1'', ''var(--color-purple-400)''),
    (''chart-2'', ''var(--color-purple-500)''), (''chart-3'', ''var(--color-purple-600)''),
    (''chart-4'', ''var(--color-purple-700)''), (''chart-5'', ''var(--color-purple-800)''),
    (''radius'', ''0.625rem''), (''font-sans'', font_stack_1), (''font-mono'', font_stack_2)]\<rparr>"

definition preset_teal :: theme_preset where
  "preset_teal = \<lparr>tp_label = Some ''Teal'',
   tp_light = [
    (''background'', ''oklch(1 0 0)''), (''foreground'', ''oklch(0.145 0 0)''), (''card'', ''oklch(1 0 0)''),
    (''card-foreground'', ''oklch(0.145 0 0)''), (''popover'', ''oklch(1 0 0)''),
    (''popover-foreground'', ''oklch(0.145 0 0)''), (''primary'', ''var(--color-teal-600)''),
    (''primary-foreground'', ''var(--color-teal-50)''), (''secondary'', ''oklch(0.97 0 0)''),
    (''secondary-foreground'', ''oklch(0.205 0 0)''), (''muted'', ''oklch(0.97 0 0)''),
    (''muted-foreground'', ''oklch(0.556 0 0)''), (''accent'', ''oklch(0.97 0 0)''),
    (''accent-foreground'', ''oklch(0.205 0 0)''), (''destructive'', ''oklch(0.577 0.245 27.325)''),
    (''destructive-foreground'', ''oklch(0.98 0 0)''), (''border'', ''oklch(0.922 0 0)''),
    (''input'', ''oklch(0.922 0 0)''), (''ring'', ''var(--color-teal-400)''),
    (''chart-1'', ''var(--color-teal-500)''), (''chart-2'', ''var(--color-teal-600)''),
    (''chart-3'', ''var(--color-teal-700)''), (''chart-4'', ''var(--color-teal-800)''),
    (''chart-5'', ''var(--color-teal-900)''), (''radius'', ''0.625rem''), (''font-sans'', font_stack_1),
    (''font-mono'', font_stack_2)],
   tp_dark = [
    (''background'', ''oklch(0.145 0 0)''), (''foreground'', ''oklch(0.985 0 0)''),
    (''card'', ''oklch(0.205 0 0)''), (''card-foreground'', ''oklch(0.985 0 0)''),
    (''popover'', ''oklch(0.269 0 0)''), (''popover-foreground'', ''oklch(0.985 0 0)''),
    (''primary'', ''var(--color-teal-500)''), (''primary-foreground'', ''var(--color-teal-50)''),
    (''secondary'', ''oklch(0.269 0 0)''), (''secondary-foreground'', ''oklch(0.985 0 0)''),
    (''muted'', ''oklch(0.269 0 0)''), (''muted-foreground'', ''oklch(0.708 0 0)''),
    (''accent'', ''oklch(0.371 0 0)''), (''accent-foreground'', ''oklch(0.985 0 0)''),
    (''destructive'', ''oklch(0.704 0.191 22.216)''), (''destructive-foreground'', ''oklch(0.98 0 0)''),
    (''border'', ''oklch(1 0 0 / 10%)''), (''input'', ''oklch(1 0 0 / 15%)''),
    (''ring'', ''var(--color-teal-900)''), (''chart-1'', ''var(--color-teal-400)''),
    (''chart-2'', ''var(--color-teal-500)''), (''chart-3'', ''var(--color-teal-600)''),
    (''chart-4'', ''var(--color-teal-700)''), (''chart-5'', ''var(--color-teal-800)''),
    (''radius'', ''0.625rem''), (''font-sans'', font_stack_1), (''font-mono'', font_stack_2)]\<rparr>"

definition shadcnThemePresets :: "(string \<times> theme_preset) list" where
  "shadcnThemePresets =
     [(''default'', preset_default),
      (''blue'', preset_blue),
      (''green'', preset_green),
      (''red'', preset_red),
      (''rose'', preset_rose),
      (''orange'', preset_orange),
      (''yellow'', preset_yellow),
      (''violet'', preset_violet),
      (''amber'', preset_amber),
      (''purple'', preset_purple),
      (''teal'', preset_teal)]"

record color_theme =
  ct_name :: string
  ct_value :: string
  ct_preset :: theme_preset

text \<open>\<open>preset.label || key\<close>\<close>

definition colorThemes :: "color_theme list" where
  "colorThemes =
     map (\<lambda>(key, preset). \<lparr>ct_name = (case truthy (tp_label preset) of Some l \<Rightarrow> l | None \<Rightarrow> key),
                            ct_value = key, ct_preset = preset\<rparr>) shadcnThemePresets"

definition preset_keys :: "string list" where
  "preset_keys =
    [''background'', ''foreground'', ''card'', ''card-foreground'', ''popover'',
     ''popover-foreground'', ''primary'', ''primary-foreground'', ''secondary'',
     ''secondary-foreground'', ''muted'', ''muted-foreground'', ''accent'', ''accent-foreground'',
     ''destructive'', ''destructive-foreground'', ''border'', ''input'', ''ring'', ''chart-1'',
     ''chart-2'', ''chart-3'', ''chart-4'', ''chart-5'', ''radius'', ''font-sans'', ''font-mono'']"

lemmas preset_defs = preset_default_def preset_blue_def preset_green_def preset_red_def preset_rose_def preset_orange_def preset_yellow_def preset_violet_def preset_amber_def preset_purple_def preset_teal_def

lemma preset_key_lists:
  "list_all (\<lambda>(k, p). map fst (tp_light p) = preset_keys \<and> map fst (tp_dark p) = preset_keys) shadcnThemePresets"
  unfolding shadcnThemePresets_def preset_keys_def preset_defs by simp

lemma theme_keys:
  "t \<in> set colorThemes \<Longrightarrow> map fst (tp_light (ct_preset t)) = preset_keys \<and> map fst (tp_dark (ct_preset t)) = preset_keys"
  using preset_key_lists by (auto simp: colorThemes_def list_all_iff)

lemma preset_keys_distinct: "distinct preset_keys"
  by (simp add: preset_keys_def)

lemma theme_values: "map ct_value colorThemes = map fst shadcnThemePresets"
  by (simp add: colorThemes_def case_prod_unfold o_def)

lemma preset_values:
  "list_all (\<lambda>(k, p). list_all (\<lambda>x. snd x \<noteq> []) (tp_light p) \<and> list_all (\<lambda>x. snd x \<noteq> []) (tp_dark p))
     shadcnThemePresets"
  unfolding shadcnThemePresets_def preset_defs font_stack_1_def font_stack_2_def by simp

lemma theme_vars_nonempty:
  "t \<in> set colorThemes \<Longrightarrow> [] \<notin> snd ` set (tp_light (ct_preset t)) \<and> [] \<notin> snd ` set (tp_dark (ct_preset t))"
  using preset_values by (fastforce simp: colorThemes_def list_all_iff)

lemma theme_values_distinct: "distinct (map ct_value colorThemes)"
  by (simp add: theme_values shadcnThemePresets_def)

end
