(* ===== verification/Theme.thy ===== *)
theory Theme
  imports Theme_Presets
begin

text \<open>
  The theme customisers. Subsystem 1: \<open>lib/theme-config.ts\<close> and the effect of
  \<open>theme-customizer.tsx\<close> that applies a configuration to the document. The Builder:
  \<open>hooks/use-theme-manager.ts\<close>, \<open>config/theme-customizer-constants.ts\<close> and the state of
  \<open>components/theme-customizer/index.tsx\<close>. The inline style of the root element is an ordered
  list of properties with distinct names.
\<close>

section \<open>The inline style\<close>

type_synonym style = "(string \<times> string) list"

definition removeProperty :: "string \<Rightarrow> style \<Rightarrow> style" where
  "removeProperty p s = filter (\<lambda>x. fst x \<noteq> p) s"

text \<open>
  Setting the empty string removes the property. A value that is no value of a custom property (with a
  bracket or a quotation mark that is not closed, for one) would be ignored by the browser; the values are
  taken to be such values, which those of the presets are.
\<close>

definition setProperty :: "string \<Rightarrow> string \<Rightarrow> style \<Rightarrow> style" where
  "setProperty p v s = (if v = [] then removeProperty p s else put p v s)"

lemma map_of_removeProperty: "map_of (removeProperty p s) = (map_of s)(p := None)"
  by (induction s) (auto simp: removeProperty_def)

lemma map_of_setProperty:
  "map_of (setProperty p v s) = (map_of s)(p := (if v = [] then None else Some v))"
  by (simp add: setProperty_def map_of_removeProperty)

lemma distinct_removeProperty: "distinct (map fst s) \<Longrightarrow> distinct (map fst (removeProperty p s))"
  by (simp add: removeProperty_def distinct_map_filter)

lemma distinct_setProperty: "distinct (map fst s) \<Longrightarrow> distinct (map fst (setProperty p v s))"
  by (simp add: setProperty_def distinct_removeProperty distinct_put)

section \<open>Subsystem 1: lib/theme-config.ts\<close>

text \<open>The radius is kept in hundredths of a rem and printed as JavaScript prints the number.\<close>

record theme_config =
  tc_accent :: string
  tc_radius :: nat
  tc_font :: string
  tc_sidebarVariant :: string
  tc_sidebarCollapsible :: string
  tc_contentLayout :: string

definition defaultConfig :: theme_config where
  "defaultConfig = \<lparr>tc_accent = ''neutral'', tc_radius = 65, tc_font = ''geist'', tc_sidebarVariant = ''floating'',
     tc_sidebarCollapsible = ''icon'', tc_contentLayout = ''full''\<rparr>"

definition show_hundredths :: "nat \<Rightarrow> string" where
  "show_hundredths n =
     show_nat (n div 100)
     @ (if n mod 100 = 0 then []
        else if n mod 10 = 0 then ''.'' @ show_nat (n mod 100 div 10)
        else if n mod 100 < 10 then ''.0'' @ show_nat (n mod 100)
        else ''.'' @ show_nat (n mod 100))"

record accent =
  ac_key :: string
  ac_label :: string
  ac_swatch :: string
  ac_primary :: "string option"
  ac_fg :: string

definition mk_accent :: "string \<Rightarrow> string \<Rightarrow> string \<Rightarrow> string option \<Rightarrow> string \<Rightarrow> accent" where
  "mk_accent k l s p f = \<lparr>ac_key = k, ac_label = l, ac_swatch = s, ac_primary = p, ac_fg = f\<rparr>"

definition accents :: "accent list" where
  "accents =
     [mk_accent ''neutral'' ''Neutral'' ''oklch(0.45 0 0)'' None ''oklch(0.985 0 0)'',
      mk_accent ''blue'' ''Blue'' ''oklch(0.6 0.2 264)'' (Some ''oklch(0.58 0.22 264)'') ''oklch(0.985 0 0)'',
      mk_accent ''violet'' ''Violet'' ''oklch(0.61 0.22 292)'' (Some ''oklch(0.61 0.22 292)'') ''oklch(0.985 0 0)'',
      mk_accent ''green'' ''Green'' ''oklch(0.62 0.17 152)'' (Some ''oklch(0.58 0.16 152)'') ''oklch(0.985 0 0)'',
      mk_accent ''teal'' ''Teal'' ''oklch(0.64 0.12 195)'' (Some ''oklch(0.58 0.11 195)'') ''oklch(0.985 0 0)'',
      mk_accent ''amber'' ''Amber'' ''oklch(0.77 0.16 70)'' (Some ''oklch(0.77 0.15 70)'') ''oklch(0.245 0.03 70)'',
      mk_accent ''orange'' ''Orange'' ''oklch(0.67 0.2 42)'' (Some ''oklch(0.64 0.2 42)'') ''oklch(0.985 0 0)'',
      mk_accent ''rose'' ''Rose'' ''oklch(0.64 0.24 16)'' (Some ''oklch(0.62 0.24 16)'') ''oklch(0.985 0 0)'']"

definition radii :: "(string \<times> nat) list" where
  "radii = [(''0'', 0), (''0.3'', 30), (''0.5'', 50), (''0.65'', 65), (''0.75'', 75), (''1.0'', 100)]"

definition fonts :: "(string \<times> string \<times> string option) list" where
  "fonts =
     [(''geist'', ''Geist'', None),
      (''system'', ''System'',
        Some ''ui-sans-serif, system-ui, -apple-system, 'Segoe UI', Roboto, Helvetica, Arial, sans-serif''),
      (''serif'', ''Serif'', Some ''ui-serif, Georgia, Cambria, 'Times New Roman', serif''),
      (''mono'', ''Mono'', Some ''var(--font-geist-mono), ui-monospace, SFMono-Regular, Menlo, monospace'')]"

definition find_accent :: "theme_config \<Rightarrow> accent option" where
  "find_accent cfg = find (\<lambda>a. ac_key a = tc_accent cfg) accents"

text \<open>\<open>accent?.primary\<close>, with the accent it belongs to, when it is truthy.\<close>

definition accent_primary :: "theme_config \<Rightarrow> (accent \<times> string) option" where
  "accent_primary cfg =
     (case find_accent cfg of
        None \<Rightarrow> None
      | Some a \<Rightarrow> (case truthy (ac_primary a) of None \<Rightarrow> None | Some p \<Rightarrow> Some (a, p)))"

definition font_stack :: "theme_config \<Rightarrow> string option" where
  "font_stack cfg =
     (case find (\<lambda>f. fst f = tc_font cfg) fonts of None \<Rightarrow> None | Some (k, l, s) \<Rightarrow> truthy s)"

definition buildThemeCss :: "theme_config \<Rightarrow> string" where
  "buildThemeCss cfg =
     join_with [CHR 0x0A]
       ([''/* MeadowOps theme '' @ em_dash @ '' generated by the customizer. */'',
         '':root {'',
         ''  --radius: '' @ show_hundredths (tc_radius cfg) @ ''rem;'']
        @ (case accent_primary cfg of
             None \<Rightarrow> []
           | Some (a, p) \<Rightarrow>
               [''  --primary: '' @ p @ '';'', ''  --primary-foreground: '' @ ac_fg a @ '';'',
                ''  --ring: '' @ p @ '';'', ''  --sidebar-primary: '' @ p @ '';'',
                ''  --sidebar-ring: '' @ p @ '';''])
        @ (case font_stack cfg of None \<Rightarrow> [] | Some s \<Rightarrow> [''  --font-sans: '' @ s @ '';''])
        @ [''}'', '''',
           ''/* <Sidebar variant=\"'' @ tc_sidebarVariant cfg @ ''\" collapsible=\"'' @ tc_sidebarCollapsible cfg @ ''\" /> */'',
           ''/* content layout: '' @ tc_contentLayout cfg @ '' */''])"

text \<open>The effect of \<open>ThemeConfigProvider\<close> on the root element.\<close>

definition accent_props :: "string list" where
  "accent_props = [''--primary'', ''--primary-foreground'', ''--ring'', ''--sidebar-primary'', ''--sidebar-ring'']"

definition applyConfig :: "theme_config \<Rightarrow> style \<Rightarrow> style" where
  "applyConfig cfg s =
     (let s1 = (case accent_primary cfg of
                  Some (a, p) \<Rightarrow>
                    setProperty ''--sidebar-ring'' p (setProperty ''--sidebar-primary'' p (setProperty ''--ring'' p
                      (setProperty ''--primary-foreground'' (ac_fg a) (setProperty ''--primary'' p s))))
                | None \<Rightarrow> fold removeProperty accent_props s);
          s2 = setProperty ''--radius'' (show_hundredths (tc_radius cfg) @ ''rem'') s1
      in case font_stack cfg of
           Some f \<Rightarrow> setProperty ''--font-sans'' f s2
         | None \<Rightarrow> removeProperty ''--font-sans'' s2)"

definition css_line :: "string \<times> string \<Rightarrow> string" where
  "css_line d = ''  '' @ fst d @ '': '' @ snd d @ '';''"

definition managed_props :: "string list" where
  "managed_props = ''--radius'' # ''--font-sans'' # accent_props"

lemma accent_fg_nonempty: "a \<in> set accents \<Longrightarrow> ac_fg a \<noteq> []"
  by (auto simp: accents_def mk_accent_def)

lemma find_accent_in: "find_accent cfg = Some a \<Longrightarrow> a \<in> set accents"
  by (metis find_accent_def find_Some_iff nth_mem)

lemma accent_primary_Some: "accent_primary cfg = Some (a, p) \<Longrightarrow> p \<noteq> [] \<and> ac_fg a \<noteq> []"
  by (cases "find_accent cfg")
    (auto simp: accent_primary_def truthy_Some_iff dest: find_accent_in accent_fg_nonempty split: option.splits)

lemma font_stack_Some: "font_stack cfg = Some f \<Longrightarrow> f \<noteq> []"
  by (auto simp: font_stack_def truthy_Some_iff split: option.splits)

text \<open>The CSS the customiser copies to the clipboard sets exactly what is on screen: its \<open>:root\<close> block is
  a list of declarations that, for every property the customiser manages, says what the applied
  configuration has on the root element, whatever was there before, and it leaves every other
  property alone.\<close>

theorem copied_css_is_what_is_applied:
  "\<exists>decls. buildThemeCss cfg =
      join_with [CHR 0x0A] ([''/* MeadowOps theme '' @ em_dash @ '' generated by the customizer. */'', '':root {'']
        @ map css_line decls
        @ [''}'', '''',
           ''/* <Sidebar variant=\"'' @ tc_sidebarVariant cfg @ ''\" collapsible=\"'' @ tc_sidebarCollapsible cfg @ ''\" /> */'',
           ''/* content layout: '' @ tc_contentLayout cfg @ '' */''])
    \<and> set (map fst decls) \<subseteq> set managed_props
    \<and> (\<forall>p. map_of (applyConfig cfg s) p = (if p \<in> set managed_props then map_of decls p else map_of s p))"
proof -
  define decls where "decls =
      (''--radius'', show_hundredths (tc_radius cfg) @ ''rem'')
      # (case accent_primary cfg of None \<Rightarrow> []
         | Some (a, p) \<Rightarrow> [(''--primary'', p), (''--primary-foreground'', ac_fg a), (''--ring'', p),
                           (''--sidebar-primary'', p), (''--sidebar-ring'', p)])
      @ (case font_stack cfg of None \<Rightarrow> [] | Some f \<Rightarrow> [(''--font-sans'', f)])"
  have "buildThemeCss cfg =
      join_with [CHR 0x0A] ([''/* MeadowOps theme '' @ em_dash @ '' generated by the customizer. */'', '':root {'']
        @ map css_line decls
        @ [''}'', '''',
           ''/* <Sidebar variant=\"'' @ tc_sidebarVariant cfg @ ''\" collapsible=\"'' @ tc_sidebarCollapsible cfg @ ''\" /> */'',
           ''/* content layout: '' @ tc_contentLayout cfg @ '' */''])"
    by (simp add: buildThemeCss_def decls_def css_line_def split: option.splits)
  moreover have "set (map fst decls) \<subseteq> set managed_props"
    by (auto simp: decls_def managed_props_def accent_props_def split: option.splits)
  moreover have "map_of (applyConfig cfg s) p = (if p \<in> set managed_props then map_of decls p else map_of s p)" for p
    using accent_primary_Some [of cfg] font_stack_Some [of cfg]
    by (cases "accent_primary cfg"; cases "font_stack cfg")
      (auto simp: applyConfig_def decls_def managed_props_def accent_props_def Let_def map_of_setProperty
        map_of_removeProperty)
  ultimately show ?thesis by blast
qed

section \<open>The Builder: hooks/use-theme-manager.ts\<close>

definition baseColors :: "(string \<times> string) list" where
  "baseColors =
     [(''Primary'', ''--primary''), (''Primary Foreground'', ''--primary-foreground''),
      (''Secondary'', ''--secondary''), (''Secondary Foreground'', ''--secondary-foreground''),
      (''Accent'', ''--accent''), (''Accent Foreground'', ''--accent-foreground''),
      (''Muted'', ''--muted''), (''Muted Foreground'', ''--muted-foreground'')]"

definition radiusOptions :: "(string \<times> string) list" where
  "radiusOptions =
     [(''0'', ''0rem''), (''0.3'', ''0.3rem''), (''0.5'', ''0.5rem''), (''0.75'', ''0.75rem''), (''1.0'', ''1rem'')]"

definition allPossibleVars :: "string list" where
  "allPossibleVars =
     [''background'', ''foreground'', ''card'', ''card-foreground'', ''popover'', ''popover-foreground'',
      ''primary'', ''primary-foreground'', ''secondary'', ''secondary-foreground'', ''muted'', ''muted-foreground'',
      ''accent'', ''accent-foreground'', ''destructive'', ''destructive-foreground'', ''border'', ''input'',
      ''ring'', ''radius'',
      ''chart-1'', ''chart-2'', ''chart-3'', ''chart-4'', ''chart-5'',
      ''sidebar'', ''sidebar-background'', ''sidebar-foreground'', ''sidebar-primary'', ''sidebar-primary-foreground'',
      ''sidebar-accent'', ''sidebar-accent-foreground'', ''sidebar-border'', ''sidebar-ring'',
      ''font-sans'', ''font-serif'', ''font-mono'',
      ''shadow-2xs'', ''shadow-xs'', ''shadow-sm'', ''shadow'', ''shadow-md'', ''shadow-lg'', ''shadow-xl'', ''shadow-2xl'',
      ''spacing'', ''tracking-normal'',
      ''card-header'', ''card-content'', ''card-footer'', ''muted-background'', ''accent-background'',
      ''destructive-background'', ''warning'', ''warning-foreground'', ''success'', ''success-foreground'',
      ''info'', ''info-foreground'']"

text \<open>
  The clean-up loop over the live property list, from the last index down. Reading past the end
  gives \<open>undefined\<close>, whose \<open>startsWith\<close> is a TypeError: \<open>None\<close>.
\<close>

fun cleanup_below :: "nat \<Rightarrow> style \<Rightarrow> style option" where
  "cleanup_below 0 s = Some s"
| "cleanup_below (Suc i) s =
     (if length s \<le> i then None
      else let property = fst (s ! i)
           in cleanup_below i (if starts_with property ''--'' then removeProperty property s else s))"

definition resetTheme :: "style \<Rightarrow> style option" where
  "resetTheme s =
     (let s1 = fold (\<lambda>v. removeProperty (''--'' @ v)) allPossibleVars s
      in cleanup_below (length s1) s1)"

definition set_vars :: "(string \<times> string) list \<Rightarrow> style \<Rightarrow> style" where
  "set_vars vars s = fold (\<lambda>(k, v). setProperty (''--'' @ k) v) vars s"

definition brandColors :: "(string \<times> string) list \<Rightarrow> (string \<times> string) list" where
  "brandColors styles =
     concat (map (\<lambda>(n, cssVar). case truthy (map_of styles (drop 2 cssVar)) of
                                Some v \<Rightarrow> [(cssVar, v)] | None \<Rightarrow> []) baseColors)"

definition mode_styles :: "bool \<Rightarrow> theme_preset \<Rightarrow> (string \<times> string) list" where
  "mode_styles darkMode p = (if darkMode then tp_dark p else tp_light p)"

text \<open>The document's style with the \<open>brandColorsValues\<close> of the hook that applied the theme.\<close>

definition applyTweakcnTheme ::
  "theme_preset \<Rightarrow> bool \<Rightarrow> style \<Rightarrow> (style \<times> (string \<times> string) list) option" where
  "applyTweakcnTheme preset darkMode s =
     (case resetTheme s of
        None \<Rightarrow> None
      | Some s' \<Rightarrow> Some (set_vars (mode_styles darkMode preset) s', brandColors (mode_styles darkMode preset)))"

definition applyTheme ::
  "string \<Rightarrow> bool \<Rightarrow> style \<times> (string \<times> string) list \<Rightarrow> (style \<times> (string \<times> string) list) option" where
  "applyTheme themeValue darkMode sb =
     (case find (\<lambda>t. ct_value t = themeValue) colorThemes of
        None \<Rightarrow> Some sb
      | Some t \<Rightarrow> applyTweakcnTheme (ct_preset t) darkMode (fst sb))"

text \<open>An imported theme: the variables of its light and of its dark mode.\<close>

definition applyImportedTheme ::
  "(string \<times> string) list \<times> (string \<times> string) list \<Rightarrow> bool \<Rightarrow> style \<Rightarrow> style \<times> (string \<times> string) list" where
  "applyImportedTheme themeData darkMode s =
     (let themeVars = (if darkMode then snd themeData else fst themeData)
      in (set_vars themeVars s, brandColors themeVars))"

definition applyRadius :: "string \<Rightarrow> style \<Rightarrow> style" where
  "applyRadius radius s = setProperty ''--radius'' radius s"

definition handleColorChange :: "string \<Rightarrow> string \<Rightarrow> style \<Rightarrow> style" where
  "handleColorChange cssVar v s = setProperty cssVar v s"

section \<open>Properties of the Builder's theme operations\<close>

definition custom :: "string \<Rightarrow> bool" where
  "custom p \<longleftrightarrow> starts_with p ''--''"

lemma custom_dashes [simp]: "custom (''--'' @ k)" "custom (CHR 0x2D # CHR 0x2D # k)"
  by (simp_all add: custom_def starts_with_def)

lemma removeProperty_absent: "p \<notin> set (map fst s) \<Longrightarrow> removeProperty p s = s"
  by (induction s) (auto simp: removeProperty_def)

lemma removeProperty_nth:
  assumes "distinct (map fst s)" and "i < length s"
  shows "removeProperty (fst (s ! i)) s = take i s @ drop (Suc i) s"
proof -
  have s: "s = take i s @ s ! i # drop (Suc i) s"
    using assms(2) by (simp add: id_take_nth_drop)
  have "fst (s ! i) \<notin> set (map fst (take i s)) \<union> set (map fst (drop (Suc i) s))"
    using assms(1) s by (metis (no_types, lifting) Un_iff append.assoc distinct_append list.simps(9) map_append
        not_distinct_conv_prefix distinct.simps(2) disjoint_insert(1) list.set(2))
  then have "removeProperty (fst (s ! i)) (take i s) = take i s"
    and "removeProperty (fst (s ! i)) (drop (Suc i) s) = drop (Suc i) s"
    by (intro removeProperty_absent; blast)+
  then show ?thesis
    by (subst s) (simp add: removeProperty_def)
qed

lemma cleanup_below_eq:
  assumes "distinct (map fst s)" and "n \<le> length s"
  shows "cleanup_below n s = Some (filter (\<lambda>x. \<not> custom (fst x)) (take n s) @ drop n s)"
  using assms
proof (induction n arbitrary: s)
  case 0
  then show ?case by simp
next
  case (Suc i)
  then have i: "i < length s" by simp
  note take_drop = take_Suc_conv_app_nth [OF i] Cons_nth_drop_Suc [OF i, symmetric]
  show ?case
  proof (cases "custom (fst (s ! i))")
    case True
    let ?s = "take i s @ drop (Suc i) s"
    have "distinct (map fst ?s)"
      using distinct_removeProperty [OF Suc.prems(1), of "fst (s ! i)"] removeProperty_nth [OF Suc.prems(1) i] by simp
    then have "cleanup_below i ?s = Some (filter (\<lambda>x. \<not> custom (fst x)) (take i s) @ drop (Suc i) s)"
      using Suc.IH [of ?s] i by simp
    then show ?thesis
      using True i removeProperty_nth [OF Suc.prems(1) i] by (simp add: custom_def [symmetric] take_drop(1))
  next
    case False
    then show ?thesis
      using Suc.IH [OF Suc.prems(1)] i by (simp add: custom_def [symmetric] take_drop)
  qed
qed

lemma fold_removeProperty_eq:
  "fold (\<lambda>v. removeProperty (''--'' @ v)) vs s = filter (\<lambda>x. fst x \<notin> (\<lambda>v. ''--'' @ v) ` set vs) s"
  by (induction vs arbitrary: s) (auto simp: removeProperty_def intro!: filter_cong)

lemma resetTheme_eq:
  assumes "distinct (map fst s)"
  shows "resetTheme s = Some (filter (\<lambda>x. \<not> custom (fst x)) s)"
proof -
  let ?s = "fold (\<lambda>v. removeProperty (''--'' @ v)) allPossibleVars s"
  have "distinct (map fst ?s)"
    using assms by (simp only: fold_removeProperty_eq distinct_map_filter)
  then have "resetTheme s = Some (filter (\<lambda>x. \<not> custom (fst x)) ?s)"
    by (simp add: resetTheme_def Let_def cleanup_below_eq del: append.simps)
  also have "filter (\<lambda>x. \<not> custom (fst x)) ?s = filter (\<lambda>x. \<not> custom (fst x)) s"
    unfolding fold_removeProperty_eq by (auto intro!: filter_cong simp: image_iff simp del: append.simps)
  finally show ?thesis .
qed

section \<open>The Builder: components/theme-customizer\<close>

datatype theme_mode = Dark | Light | System

record sidebar_config =
  sc_variant :: string
  sc_collapsible :: string
  sc_side :: string

text \<open>
  The two tabs call \<open>useThemeManager\<close> each for themselves, so there are two
  \<open>brandColorsValues\<close>: the sheet's and the theme tab's (the one that is shown).
  \<open>cz_prefersDark\<close> is what the media query \<open>prefers-color-scheme: dark\<close> answers. The argument
  \<open>tweaks\<close> is \<open>tweakcnThemes\<close>: keys with presets.
\<close>

type_synonym var_list = "(string \<times> string) list"

record customizer =
  cz_style :: style
  cz_mode :: theme_mode
  cz_prefersDark :: bool
  cz_transitioning :: bool
  cz_theme :: string
  cz_tweakcn :: string
  cz_radius :: string
  cz_imported :: "(var_list \<times> var_list) option"
  cz_brand :: var_list
  cz_tabBrand :: var_list
  cz_sidebar :: sidebar_config

definition default_sidebar :: sidebar_config where
  "default_sidebar = \<lparr>sc_variant = ''inset'', sc_collapsible = ''offcanvas'', sc_side = ''left''\<rparr>"

definition isDarkMode :: "customizer \<Rightarrow> bool" where
  "isDarkMode c = (case cz_mode c of Dark \<Rightarrow> True | Light \<Rightarrow> False | System \<Rightarrow> cz_prefersDark c)"

lemma isDarkMode_update [simp]:
  "isDarkMode (c\<lparr>cz_style := s\<rparr>) = isDarkMode c" "isDarkMode (c\<lparr>cz_theme := v\<rparr>) = isDarkMode c"
  "isDarkMode (c\<lparr>cz_tweakcn := v\<rparr>) = isDarkMode c" "isDarkMode (c\<lparr>cz_radius := v\<rparr>) = isDarkMode c"
  "isDarkMode (c\<lparr>cz_imported := i\<rparr>) = isDarkMode c" "isDarkMode (c\<lparr>cz_brand := b\<rparr>) = isDarkMode c"
  "isDarkMode (c\<lparr>cz_tabBrand := b\<rparr>) = isDarkMode c" "isDarkMode (c\<lparr>cz_sidebar := sc\<rparr>) = isDarkMode c"
  by (simp_all add: isDarkMode_def cong: theme_mode.case_cong)

type_synonym tweaks = "(string \<times> theme_preset) list"

definition reapply :: "tweaks \<Rightarrow> customizer \<Rightarrow> customizer option" where
  "reapply tweaks c =
     (let put_style = (\<lambda>(s, b). c\<lparr>cz_style := s, cz_brand := b\<rparr>)
      in case cz_imported c of
           Some td \<Rightarrow> Some (put_style (applyImportedTheme td (isDarkMode c) (cz_style c)))
         | None \<Rightarrow>
             if cz_theme c \<noteq> [] then
               map_option put_style (applyTheme (cz_theme c) (isDarkMode c) (cz_style c, cz_brand c))
             else if cz_tweakcn c \<noteq> [] then
               (case map_of tweaks (cz_tweakcn c) of
                  None \<Rightarrow> Some c
                | Some preset \<Rightarrow> map_option put_style (applyTweakcnTheme preset (isDarkMode c) (cz_style c)))
             else Some c)"

text \<open>React runs the effect after a render in which one of its dependencies changed.\<close>

definition effect_deps :: "customizer \<Rightarrow> bool \<times> (var_list \<times> var_list) option \<times> string \<times> string" where
  "effect_deps c = (isDarkMode c, cz_imported c, cz_theme c, cz_tweakcn c)"

definition rerender :: "tweaks \<Rightarrow> customizer \<Rightarrow> customizer \<Rightarrow> customizer option" where
  "rerender tweaks c c' = (if effect_deps c' = effect_deps c then Some c' else reapply tweaks c')"

definition mountCustomizer :: "tweaks \<Rightarrow> theme_mode \<Rightarrow> bool \<Rightarrow> style \<Rightarrow> customizer option" where
  "mountCustomizer tweaks mode prefersDark s =
     reapply tweaks \<lparr>cz_style = s, cz_mode = mode, cz_prefersDark = prefersDark, cz_transitioning = False,
       cz_theme = ''default'', cz_tweakcn = [], cz_radius = ''0.5rem'', cz_imported = None, cz_brand = [],
       cz_tabBrand = [], cz_sidebar = default_sidebar\<rparr>"

definition handleReset :: "tweaks \<Rightarrow> customizer \<Rightarrow> customizer option" where
  "handleReset tweaks c =
     (case resetTheme (cz_style c) of
        None \<Rightarrow> None
      | Some s \<Rightarrow>
          rerender tweaks c
            (c\<lparr>cz_theme := ''default'', cz_tweakcn := [], cz_radius := ''0.5rem'', cz_imported := None,
               cz_brand := [], cz_style := applyRadius ''0.5rem'' s, cz_sidebar := default_sidebar\<rparr>))"

text \<open>Every import makes a new object, so the effect always runs.\<close>

definition handleImport :: "tweaks \<Rightarrow> var_list \<times> var_list \<Rightarrow> customizer \<Rightarrow> customizer option" where
  "handleImport tweaks td c =
     (let (s, b) = applyImportedTheme td (isDarkMode c) (cz_style c)
      in reapply tweaks (c\<lparr>cz_imported := Some td, cz_theme := [], cz_tweakcn := [], cz_style := s, cz_brand := b\<rparr>))"

definition selectTheme :: "tweaks \<Rightarrow> string \<Rightarrow> customizer \<Rightarrow> customizer option" where
  "selectTheme tweaks v c =
     (case applyTheme v (isDarkMode c) (cz_style c, []) of
        None \<Rightarrow> None
      | Some (s, b) \<Rightarrow>
          rerender tweaks c
            (c\<lparr>cz_theme := v, cz_tweakcn := [], cz_imported := None, cz_tabBrand := b, cz_style := s\<rparr>))"

definition selectTweakcnTheme :: "tweaks \<Rightarrow> string \<Rightarrow> customizer \<Rightarrow> customizer option" where
  "selectTweakcnTheme tweaks v c =
     (let c1 = c\<lparr>cz_tweakcn := v, cz_theme := [], cz_imported := None, cz_tabBrand := []\<rparr>
      in case map_of tweaks v of
           None \<Rightarrow> rerender tweaks c c1
         | Some preset \<Rightarrow>
             (case applyTweakcnTheme preset (isDarkMode c) (cz_style c) of
                None \<Rightarrow> None
              | Some (s, b) \<Rightarrow> rerender tweaks c (c1\<lparr>cz_tabBrand := b, cz_style := s\<rparr>)))"

text \<open>\<open>Math.floor(Math.random() * n)\<close> is an arbitrary index below \<open>n\<close>.\<close>

definition handleRandomShadcn :: "tweaks \<Rightarrow> nat \<Rightarrow> customizer \<Rightarrow> customizer option" where
  "handleRandomShadcn tweaks i c = selectTheme tweaks (ct_value (colorThemes ! (i mod length colorThemes))) c"

definition handleRandomTweakcn :: "tweaks \<Rightarrow> nat \<Rightarrow> customizer \<Rightarrow> customizer option" where
  "handleRandomTweakcn tweaks i c =
     (if tweaks = [] then None else selectTweakcnTheme tweaks (fst (tweaks ! (i mod length tweaks))) c)"

definition handleRadiusSelect :: "string \<Rightarrow> customizer \<Rightarrow> customizer" where
  "handleRadiusSelect radius c = c\<lparr>cz_radius := radius, cz_style := applyRadius radius (cz_style c)\<rparr>"

definition pickBrandColor :: "string \<Rightarrow> string \<Rightarrow> customizer \<Rightarrow> customizer" where
  "pickBrandColor cssVar v c = c\<lparr>cz_style := handleColorChange cssVar v (cz_style c)\<rparr>"

text \<open>\<open>hooks/use-circular-transition.ts\<close>: \<open>x\<close> and \<open>y\<close> are the printed percentages.\<close>

definition toggleTheme :: "tweaks \<Rightarrow> string \<Rightarrow> string \<Rightarrow> customizer \<Rightarrow> customizer option" where
  "toggleTheme tweaks x y c =
     (if cz_transitioning c then Some c
      else rerender tweaks c
        (c\<lparr>cz_transitioning := True,
           cz_style := setProperty ''--y'' (y @ ''%'') (setProperty ''--x'' (x @ ''%'') (cz_style c)),
           cz_mode := (if cz_mode c = Dark then Light else Dark)\<rparr>))"

definition transitionEnds :: "customizer \<Rightarrow> customizer" where
  "transitionEnds c = c\<lparr>cz_transitioning := False\<rparr>"

definition handleLightMode :: "tweaks \<Rightarrow> string \<Rightarrow> string \<Rightarrow> customizer \<Rightarrow> customizer option" where
  "handleLightMode tweaks x y c = (if \<not> isDarkMode c then Some c else toggleTheme tweaks x y c)"

definition handleDarkMode :: "tweaks \<Rightarrow> string \<Rightarrow> string \<Rightarrow> customizer \<Rightarrow> customizer option" where
  "handleDarkMode tweaks x y c = (if isDarkMode c then Some c else toggleTheme tweaks x y c)"

datatype customizer_action =
    SelectTheme string
  | SelectTweakcn string
  | RandomShadcn nat
  | RandomTweakcn nat
  | SelectRadius string
  | PickBrandColor string string
  | ImportTheme "var_list \<times> var_list"
  | ClickLight string string
  | ClickDark string string
  | TransitionEnds
  | ClickReset

fun customize :: "tweaks \<Rightarrow> customizer_action \<Rightarrow> customizer \<Rightarrow> customizer option" where
  "customize tw (SelectTheme v) c = selectTheme tw v c"
| "customize tw (SelectTweakcn v) c = selectTweakcnTheme tw v c"
| "customize tw (RandomShadcn i) c = handleRandomShadcn tw i c"
| "customize tw (RandomTweakcn i) c = handleRandomTweakcn tw i c"
| "customize tw (SelectRadius r) c = Some (handleRadiusSelect r c)"
| "customize tw (PickBrandColor p v) c = Some (pickBrandColor p v c)"
| "customize tw (ImportTheme td) c = handleImport tw td c"
| "customize tw (ClickLight x y) c = handleLightMode tw x y c"
| "customize tw (ClickDark x y) c = handleDarkMode tw x y c"
| "customize tw TransitionEnds c = Some (transitionEnds c)"
| "customize tw ClickReset c = handleReset tw c"

fun customize_all :: "tweaks \<Rightarrow> customizer_action list \<Rightarrow> customizer \<Rightarrow> customizer option" where
  "customize_all tw [] c = Some c"
| "customize_all tw (a # as) c =
     (case customize tw a c of None \<Rightarrow> None | Some c' \<Rightarrow> customize_all tw as c')"

section \<open>Properties of the customiser\<close>

lemma map_of_filter_not_custom:
  "map_of (filter (\<lambda>x. \<not> custom (fst x)) s) p = (if custom p then None else map_of s p)"
  by (induction s) auto

lemma dashes_iff: "custom p \<longleftrightarrow> (\<exists>k. p = ''--'' @ k)"
  by (auto simp: custom_def starts_with_iff)

lemma map_of_set_vars:
  "distinct (map fst vars) \<Longrightarrow> map_of (set_vars vars s) p =
     (if custom p then (case map_of vars (drop 2 p) of Some v \<Rightarrow> truthy (Some v) | None \<Rightarrow> map_of s p) else map_of s p)"
proof (induction vars arbitrary: s)
  case Nil
  then show ?case by (simp add: set_vars_def)
next
  case (Cons kv vars)
  obtain k v where kv: "kv = (k, v)" by (cases kv)
  have "map_of vars k = None" using Cons.prems by (simp add: kv map_of_eq_None_iff)
  moreover have "set_vars (kv # vars) s = set_vars vars (setProperty (''--'' @ k) v s)"
    by (simp add: set_vars_def kv)
  moreover have "p = ''--'' @ k \<longleftrightarrow> custom p \<and> drop 2 p = k" by (auto simp: dashes_iff)
  ultimately show ?case
    using Cons by (auto simp: kv map_of_setProperty truthy_def split: option.splits simp del: append.simps)
qed

lemma distinct_set_vars: "distinct (map fst s) \<Longrightarrow> distinct (map fst (set_vars vars s))"
  by (induction vars arbitrary: s) (auto simp: set_vars_def distinct_setProperty simp del: append.simps)

lemma applyTweakcnTheme_eq:
  "distinct (map fst s) \<Longrightarrow> applyTweakcnTheme preset d s =
     Some (set_vars (mode_styles d preset) (filter (\<lambda>x. \<not> custom (fst x)) s), brandColors (mode_styles d preset))"
  by (simp add: applyTweakcnTheme_def resetTheme_eq)

lemma applyTweakcnTheme_distinct:
  "distinct (map fst s) \<Longrightarrow> \<exists>s' b. applyTweakcnTheme preset d s = Some (s', b) \<and> distinct (map fst s')"
  by (simp add: applyTweakcnTheme_eq distinct_set_vars distinct_map_filter)

lemma applyTheme_distinct:
  "distinct (map fst (fst sb)) \<Longrightarrow> \<exists>s' b. applyTheme v d sb = Some (s', b) \<and> distinct (map fst s')"
  by (cases sb; cases "find (\<lambda>t. ct_value t = v) colorThemes")
    (use applyTweakcnTheme_distinct in \<open>auto simp: applyTheme_def\<close>)

lemma find_by_key: "distinct (map f xs) \<Longrightarrow> x \<in> set xs \<Longrightarrow> find (\<lambda>u. f u = f x) xs = Some x"
  by (induction xs) (auto simp: rev_image_eqI)

lemma find_theme: "t \<in> set colorThemes \<Longrightarrow> find (\<lambda>u. ct_value u = ct_value t) colorThemes = Some t"
  by (rule find_by_key [OF theme_values_distinct])

definition theme_vars :: "color_theme \<Rightarrow> bool \<Rightarrow> string \<Rightarrow> string option" where
  "theme_vars t d p = (if custom p then map_of (mode_styles d (ct_preset t)) (drop 2 p) else None)"

lemma theme_var_truthy:
  "t \<in> set colorThemes \<Longrightarrow> map_of (mode_styles d (ct_preset t)) k = Some v \<Longrightarrow> truthy (Some v) = Some v"
  using theme_vars_nonempty [of t] by (force simp: mode_styles_def truthy_def dest!: map_of_SomeD split: if_splits)

lemma map_of_applied_theme:
  assumes "t \<in> set colorThemes"
  shows "map_of (set_vars (mode_styles d (ct_preset t)) (filter (\<lambda>x. \<not> custom (fst x)) s)) p =
    (if custom p then theme_vars t d p else map_of s p)"
proof -
  have "map fst (mode_styles d (ct_preset t)) = preset_keys"
    using theme_keys [OF assms] by (simp add: mode_styles_def)
  then show ?thesis
    using theme_var_truthy [OF assms, of d "drop 2 p"]
    by (cases "map_of (mode_styles d (ct_preset t)) (drop 2 p)")
      (simp_all add: map_of_set_vars preset_keys_distinct map_of_filter_not_custom theme_vars_def)
qed

lemma applyTheme_eq:
  "t \<in> set colorThemes \<Longrightarrow> distinct (map fst s) \<Longrightarrow> applyTheme (ct_value t) d (s, b) =
     Some (set_vars (mode_styles d (ct_preset t)) (filter (\<lambda>x. \<not> custom (fst x)) s),
           brandColors (mode_styles d (ct_preset t)))"
  by (simp add: applyTheme_def find_theme applyTweakcnTheme_eq)

lemma reapply_theme:
  assumes "t \<in> set colorThemes" "distinct (map fst (cz_style c))" "cz_theme c = ct_value t" "cz_imported c = None"
    and "ct_value t \<noteq> []"
  shows "\<exists>s b. reapply tw c = Some (c\<lparr>cz_style := s, cz_brand := b\<rparr>) \<and> distinct (map fst s)
    \<and> (\<forall>p. map_of s p = (if custom p then theme_vars t (isDarkMode c) p else map_of (cz_style c) p))"
proof -
  let ?s = "set_vars (mode_styles (isDarkMode c) (ct_preset t)) (filter (\<lambda>x. \<not> custom (fst x)) (cz_style c))"
  have "reapply tw c = Some (c\<lparr>cz_style := ?s, cz_brand := brandColors (mode_styles (isDarkMode c) (ct_preset t))\<rparr>)"
    using assms by (simp add: reapply_def applyTheme_eq)
  then show ?thesis
    using map_of_applied_theme [OF assms(1)] assms(2)
    by (intro exI [of _ ?s] exI [of _ "brandColors (mode_styles (isDarkMode c) (ct_preset t))"] conjI allI)
      (simp_all only: distinct_set_vars distinct_map_filter)
qed

lemma theme_values_nonempty: "list_all (\<lambda>v. v \<noteq> []) (map ct_value colorThemes)"
  by (simp add: theme_values shadcnThemePresets_def)

lemma theme_value_nonempty: "t \<in> set colorThemes \<Longrightarrow> ct_value t \<noteq> []"
  using theme_values_nonempty by (simp add: list_all_iff)

text \<open>Whatever theme, import, brand colour or radius was applied before, choosing a preset of the list
  leaves exactly that preset's variables, in the current mode, as the custom properties of the
  document, and leaves its other inline properties alone.\<close>

theorem selected_theme_is_exact:
  assumes "t \<in> set colorThemes" and "distinct (map fst (cz_style c))"
  shows "\<exists>c'. selectTheme tw (ct_value t) c = Some c' \<and> cz_theme c' = ct_value t \<and> cz_imported c' = None
    \<and> (\<forall>p. map_of (cz_style c') p = (if custom p then theme_vars t (isDarkMode c) p else map_of (cz_style c) p))"
proof -
  let ?s = "set_vars (mode_styles (isDarkMode c) (ct_preset t)) (filter (\<lambda>x. \<not> custom (fst x)) (cz_style c))"
  let ?c = "c\<lparr>cz_theme := ct_value t, cz_tweakcn := [], cz_imported := None,
    cz_tabBrand := brandColors (mode_styles (isDarkMode c) (ct_preset t)), cz_style := ?s\<rparr>"
  have s: "map_of ?s p = (if custom p then theme_vars t (isDarkMode c) p else map_of (cz_style c) p)" for p
    using assms(1) by (rule map_of_applied_theme)
  have sel: "selectTheme tw (ct_value t) c = rerender tw c ?c"
    using assms by (simp add: selectTheme_def applyTheme_eq)
  have dark: "isDarkMode ?c = isDarkMode c" by simp
  show ?thesis
  proof (cases "effect_deps ?c = effect_deps c")
    case True
    then show ?thesis using sel s by (simp add: rerender_def)
  next
    case False
    have "distinct (map fst ?s)" using assms(2) by (simp add: distinct_set_vars distinct_map_filter)
    then obtain s' b where "reapply tw ?c = Some (?c\<lparr>cz_style := s', cz_brand := b\<rparr>)"
      "\<forall>p. map_of s' p = (if custom p then theme_vars t (isDarkMode ?c) p else map_of ?s p)"
      using reapply_theme [OF assms(1), of ?c tw] theme_value_nonempty [OF assms(1)] by auto
    then show ?thesis
      using sel s False dark by (simp add: rerender_def)
  qed
qed

theorem selected_theme_is_exact_witness:
  "\<exists>t c'. t \<in> set colorThemes
    \<and> selectTheme [] (ct_value t)
        \<lparr>cz_style = [(''--x'', ''5%''), (''color'', ''red'')], cz_mode = Light, cz_prefersDark = False,
         cz_transitioning = False, cz_theme = [], cz_tweakcn = [], cz_radius = ''0rem'',
         cz_imported = Some ([(''x'', ''5%'')], []), cz_brand = [], cz_tabBrand = [], cz_sidebar = default_sidebar\<rparr> = Some c'
    \<and> map_of (cz_style c') ''--x'' = theme_vars t False ''--x'' \<and> map_of (cz_style c') ''color'' = Some ''red''"
proof -
  let ?c = "\<lparr>cz_style = [(''--x'', ''5%''), (''color'', ''red'')], cz_mode = Light, cz_prefersDark = False,
         cz_transitioning = False, cz_theme = [], cz_tweakcn = [], cz_radius = ''0rem'',
         cz_imported = Some ([(''x'', ''5%'')], []), cz_brand = [], cz_tabBrand = [], cz_sidebar = default_sidebar\<rparr>"
  let ?t = "hd colorThemes"
  have t: "?t \<in> set colorThemes" by (rule hd_in_set) (simp add: colorThemes_def shadcnThemePresets_def)
  have d: "distinct (map fst (cz_style ?c))" by simp
  obtain c' where c': "selectTheme [] (ct_value ?t) ?c = Some c'"
    "\<forall>p. map_of (cz_style c') p = (if custom p then theme_vars ?t (isDarkMode ?c) p else map_of (cz_style ?c) p)"
    using selected_theme_is_exact [OF t d, of "[]"] by blast
  have "isDarkMode ?c = False" by (simp add: isDarkMode_def)
  with c' have "map_of (cz_style c') ''--x'' = theme_vars ?t False ''--x''" "map_of (cz_style c') ''color'' = Some ''red''"
    by (simp_all add: custom_def starts_with_def)
  with t c'(1) show ?thesis by blast
qed

definition cz_ok :: "customizer \<Rightarrow> bool" where
  "cz_ok c \<longleftrightarrow> distinct (map fst (cz_style c))"

lemma reapply_ok: "cz_ok c \<Longrightarrow> \<exists>c'. reapply tw c = Some c' \<and> cz_ok c'"
  using applyTheme_distinct [of "(cz_style c, cz_brand c)" "cz_theme c" "isDarkMode c"]
    applyTweakcnTheme_distinct [of "cz_style c" _ "isDarkMode c"]
  by (fastforce simp: reapply_def cz_ok_def applyImportedTheme_def Let_def distinct_set_vars split: option.splits)

lemma rerender_ok: "cz_ok c' \<Longrightarrow> \<exists>c''. rerender tw c c' = Some c'' \<and> cz_ok c''"
  by (auto simp: rerender_def reapply_ok)

lemma selectTheme_ok:
  assumes "cz_ok c" shows "\<exists>c'. selectTheme tw v c = Some c' \<and> cz_ok c'"
proof -
  obtain s b where "applyTheme v (isDarkMode c) (cz_style c, []) = Some (s, b)" "distinct (map fst s)"
    using applyTheme_distinct [of "(cz_style c, [])" v "isDarkMode c"] assms by (auto simp: cz_ok_def)
  then show ?thesis by (auto simp: selectTheme_def intro!: rerender_ok) (simp add: cz_ok_def)
qed

lemma selectTweakcnTheme_ok:
  assumes "cz_ok c" shows "\<exists>c'. selectTweakcnTheme tw v c = Some c' \<and> cz_ok c'"
proof (cases "map_of tw v")
  case None
  then show ?thesis using assms by (auto simp: selectTweakcnTheme_def intro!: rerender_ok) (simp add: cz_ok_def)
next
  case (Some preset)
  obtain s b where "applyTweakcnTheme preset (isDarkMode c) (cz_style c) = Some (s, b)" "distinct (map fst s)"
    using applyTweakcnTheme_distinct [of "cz_style c" preset "isDarkMode c"] assms by (auto simp: cz_ok_def)
  with Some show ?thesis by (auto simp: selectTweakcnTheme_def intro!: rerender_ok) (simp add: cz_ok_def)
qed

lemma handleReset_ok: "cz_ok c \<Longrightarrow> \<exists>c'. handleReset tw c = Some c' \<and> cz_ok c'"
  by (auto simp: handleReset_def cz_ok_def [of c] resetTheme_eq intro!: rerender_ok)
    (simp add: cz_ok_def applyRadius_def distinct_setProperty distinct_map_filter)

lemma toggleTheme_ok: "cz_ok c \<Longrightarrow> \<exists>c'. toggleTheme tw x y c = Some c' \<and> cz_ok c'"
  by (auto simp: toggleTheme_def intro!: rerender_ok) (simp_all add: cz_ok_def distinct_setProperty)

lemma customize_ok: "cz_ok c \<Longrightarrow> tw \<noteq> [] \<Longrightarrow> \<exists>c'. customize tw a c = Some c' \<and> cz_ok c'"
  by (cases a)
    (auto simp: selectTheme_ok selectTweakcnTheme_ok handleRandomShadcn_def handleRandomTweakcn_def handleReset_ok
      toggleTheme_ok handleLightMode_def handleDarkMode_def handleImport_def applyImportedTheme_def Let_def
      intro!: reapply_ok,
     simp_all add: cz_ok_def handleRadiusSelect_def applyRadius_def pickBrandColor_def handleColorChange_def
      transitionEnds_def distinct_setProperty distinct_set_vars)

lemma customize_all_ok: "cz_ok c \<Longrightarrow> tw \<noteq> [] \<Longrightarrow> \<exists>c'. customize_all tw as c = Some c' \<and> cz_ok c'"
proof (induction "as" arbitrary: c)
  case (Cons a as')
  then obtain c1 where "customize tw a c = Some c1" "cz_ok c1" using customize_ok by blast
  with Cons show ?case by simp
qed simp

text \<open>The customiser never fails: mounted on any document and driven by any sequence of selections, random
  picks, radius and colour changes, imports, mode clicks and resets, no handler throws (in
  particular the clean-up loop never reads past the end of the shrinking property list), and the
  inline style never holds a property twice.\<close>

theorem customizer_never_throws:
  assumes "distinct (map fst s)" and "tw \<noteq> []"
  shows "\<exists>c0 c. mountCustomizer tw mode prefersDark s = Some c0 \<and> customize_all tw acts c0 = Some c
    \<and> distinct (map fst (cz_style c))"
proof -
  obtain c0 where c0: "mountCustomizer tw mode prefersDark s = Some c0" "cz_ok c0"
    unfolding mountCustomizer_def by (metis (no_types, lifting) reapply_ok cz_ok_def assms(1) customizer.select_convs(1))
  then obtain c where "customize_all tw acts c0 = Some c" "cz_ok c"
    using customize_all_ok assms(2) by blast
  with c0 show ?thesis by (auto simp: cz_ok_def)
qed

theorem customizer_never_throws_witness:
  "\<exists>c0 c. mountCustomizer [(''dusk'', preset_blue)] System True [(''color'', ''red'')] = Some c0
    \<and> customize_all [(''dusk'', preset_blue)] [SelectTweakcn ''dusk'', ClickLight ''10'' ''20'', ClickReset] c0 = Some c
    \<and> distinct (map fst (cz_style c))"
  by (rule customizer_never_throws) simp_all

text \<open>What the reset button gives depends on what was selected before. When the selection already was
  the default preset, the only custom property left is \<open>--radius: 0.5rem\<close> (the default preset's
  variables are gone although it is the selected one); otherwise the effect puts every variable
  of the default preset back, \<open>--radius: 0.625rem\<close> included, while the selected radius shown
  is \<open>0.5rem\<close>.\<close>

theorem reset_depends_on_history:
  assumes "distinct (map fst (cz_style c))"
  shows "\<exists>c'. handleReset tw c = Some c' \<and> cz_theme c' = ''default'' \<and> cz_radius c' = ''0.5rem''
    \<and> (\<forall>p. map_of (cz_style c') p =
          (if \<not> custom p then map_of (cz_style c) p
           else if cz_theme c = ''default'' \<and> cz_tweakcn c = [] \<and> cz_imported c = None
           then (if p = ''--radius'' then Some ''0.5rem'' else None)
           else theme_vars (hd colorThemes) (isDarkMode c) p))
    \<and> theme_vars (hd colorThemes) (isDarkMode c) ''--radius'' = Some ''0.625rem''"
proof -
  let ?t = "hd colorThemes"
  have t: "?t \<in> set colorThemes" "ct_value ?t = ''default''" "ct_preset ?t = preset_default"
    by (simp_all add: colorThemes_def shadcnThemePresets_def)
  have r: "theme_vars ?t d ''--radius'' = Some ''0.625rem''" for d
    by (cases d) (simp_all add: theme_vars_def mode_styles_def t preset_default_def)
  let ?s = "applyRadius ''0.5rem'' (filter (\<lambda>x. \<not> custom (fst x)) (cz_style c))"
  let ?c = "c\<lparr>cz_theme := ''default'', cz_tweakcn := [], cz_radius := ''0.5rem'', cz_imported := None,
               cz_brand := [], cz_style := ?s, cz_sidebar := default_sidebar\<rparr>"
  have res: "handleReset tw c = rerender tw c ?c"
    using assms by (simp add: handleReset_def resetTheme_eq)
  have ds: "distinct (map fst ?s)"
    using assms by (simp add: applyRadius_def distinct_setProperty distinct_map_filter)
  have s: "map_of ?s p = (if p = ''--radius'' then Some ''0.5rem'' else if custom p then None else map_of (cz_style c) p)" for p
    by (simp add: applyRadius_def map_of_setProperty map_of_filter_not_custom)
  have dark: "isDarkMode ?c = isDarkMode c" by simp
  have deps: "effect_deps ?c = effect_deps c \<longleftrightarrow> cz_theme c = ''default'' \<and> cz_tweakcn c = [] \<and> cz_imported c = None"
    using dark by (auto simp: effect_deps_def)
  have nr: "custom ''--radius''" by (simp add: custom_def starts_with_def)
  show ?thesis
  proof (cases "effect_deps ?c = effect_deps c")
    case True
    then have "handleReset tw c = Some ?c" using res by (simp add: rerender_def)
    then show ?thesis using True deps s nr r by (intro exI [of _ ?c]) (auto simp del: append.simps)
  next
    case False
    obtain s' b where s': "reapply tw ?c = Some (?c\<lparr>cz_style := s', cz_brand := b\<rparr>)"
      "\<forall>p. map_of s' p = (if custom p then theme_vars ?t (isDarkMode c) p else map_of ?s p)"
      using reapply_theme [OF t(1), of ?c tw] t(2) ds dark by auto
    then have "handleReset tw c = Some (?c\<lparr>cz_style := s', cz_brand := b\<rparr>)"
      using res False by (simp add: rerender_def)
    then show ?thesis
      using False deps s nr r s'(2) by (intro exI [of _ "?c\<lparr>cz_style := s', cz_brand := b\<rparr>"]) auto
  qed
qed

theorem reset_depends_on_history_witness:
  "\<exists>c'. handleReset []
        \<lparr>cz_style = [(''--radius'', ''1rem'')], cz_mode = Light, cz_prefersDark = False,
         cz_transitioning = False, cz_theme = ''blue'', cz_tweakcn = [], cz_radius = ''1rem'',
         cz_imported = None, cz_brand = [], cz_tabBrand = [], cz_sidebar = default_sidebar\<rparr> = Some c'
    \<and> cz_radius c' = ''0.5rem'' \<and> map_of (cz_style c') ''--radius'' = Some ''0.625rem''"
proof -
  let ?c = "\<lparr>cz_style = [(''--radius'', ''1rem'')], cz_mode = Light, cz_prefersDark = False,
         cz_transitioning = False, cz_theme = ''blue'', cz_tweakcn = [], cz_radius = ''1rem'',
         cz_imported = None, cz_brand = [], cz_tabBrand = [], cz_sidebar = default_sidebar\<rparr>"
  have "distinct (map fst (cz_style ?c))" by simp
  then obtain c' where c': "handleReset [] ?c = Some c'" "cz_radius c' = ''0.5rem''"
    "\<forall>p. map_of (cz_style c') p =
          (if \<not> custom p then map_of (cz_style ?c) p
           else if cz_theme ?c = ''default'' \<and> cz_tweakcn ?c = [] \<and> cz_imported ?c = None
           then (if p = ''--radius'' then Some ''0.5rem'' else None)
           else theme_vars (hd colorThemes) (isDarkMode ?c) p)"
    "theme_vars (hd colorThemes) (isDarkMode ?c) ''--radius'' = Some ''0.625rem''"
    using reset_depends_on_history [of ?c "[]"] by blast
  have "custom ''--radius''" by (simp add: custom_def starts_with_def)
  then have "map_of (cz_style c') ''--radius'' = Some ''0.625rem''"
    using c'(3) [rule_format, of "''--radius''"] c'(4) by simp
  with c' show ?thesis by blast
qed

text \<open>An import does not clear what was applied before: every custom property the imported theme does not
  define keeps its old value, so the result mixes the two themes.\<close>

theorem import_keeps_leftovers:
  assumes "distinct (map fst light)" and "distinct (map fst dark)"
  shows "\<exists>c'. handleImport tw (light, dark) c = Some c' \<and> cz_theme c' = []
    \<and> (\<forall>p. map_of (cz_style c') p =
          (if \<not> custom p then map_of (cz_style c) p
           else (case map_of (if isDarkMode c then dark else light) (drop 2 p) of
                   None \<Rightarrow> map_of (cz_style c) p
                 | Some v \<Rightarrow> truthy (Some v))))"
proof -
  let ?v = "if isDarkMode c then dark else light"
  let ?c = "c\<lparr>cz_imported := Some (light, dark), cz_theme := [], cz_tweakcn := [],
    cz_style := set_vars ?v (cz_style c), cz_brand := brandColors ?v\<rparr>"
  have d: "distinct (map fst ?v)" using assms by simp
  have "handleImport tw (light, dark) c = Some (?c\<lparr>cz_style := set_vars ?v (cz_style ?c)\<rparr>)"
    by (simp add: handleImport_def applyImportedTheme_def reapply_def Let_def)
  then show ?thesis
    using map_of_set_vars [OF d] by (auto split: option.splits)
qed

theorem import_keeps_leftovers_witness:
  "\<exists>c'. handleImport [] ([(''ring'', ''blue'')], [])
        \<lparr>cz_style = [(''--radius'', ''1rem''), (''--ring'', ''red'')], cz_mode = Light, cz_prefersDark = False,
         cz_transitioning = False, cz_theme = ''blue'', cz_tweakcn = [], cz_radius = ''1rem'',
         cz_imported = None, cz_brand = [], cz_tabBrand = [], cz_sidebar = default_sidebar\<rparr> = Some c'
    \<and> map_of (cz_style c') ''--radius'' = Some ''1rem'' \<and> map_of (cz_style c') ''--ring'' = Some ''blue''"
  using import_keeps_leftovers [of "[(''ring'', ''blue'')]" "[]" "[]"
      "\<lparr>cz_style = [(''--radius'', ''1rem''), (''--ring'', ''red'')], cz_mode = Light, cz_prefersDark = False,
         cz_transitioning = False, cz_theme = ''blue'', cz_tweakcn = [], cz_radius = ''1rem'',
         cz_imported = None, cz_brand = [], cz_tabBrand = [], cz_sidebar = default_sidebar\<rparr>"]
  by (auto simp: isDarkMode_def custom_def starts_with_def truthy_def)

text \<open>On a system that prefers dark, with the mode left at \<open>system\<close>, the Light button stores the mode
  \<open>dark\<close>: the page stays dark, and only a second click (after the transition) makes it light.\<close>

theorem light_button_on_dark_system:
  assumes "cz_mode c = System" and "cz_prefersDark c" and "\<not> cz_transitioning c"
  shows "\<exists>c'. handleLightMode tw x y c = Some c' \<and> cz_mode c' = Dark \<and> isDarkMode c'
    \<and> (\<forall>c''. handleLightMode tw x y (transitionEnds c') = Some c'' \<longrightarrow> cz_mode c'' = Light)"
proof -
  let ?c = "c\<lparr>cz_transitioning := True,
    cz_style := setProperty ''--y'' (y @ ''%'') (setProperty ''--x'' (x @ ''%'') (cz_style c)), cz_mode := Dark\<rparr>"
  have re: "reapply tw d = Some d' \<Longrightarrow> cz_mode d' = cz_mode d" for d d'
    by (auto simp: reapply_def Let_def split: option.splits if_splits prod.splits)
  have "isDarkMode c" using assms by (simp add: isDarkMode_def)
  then have "handleLightMode tw x y c = rerender tw c ?c" and "isDarkMode ?c"
    using assms by (simp_all add: handleLightMode_def toggleTheme_def isDarkMode_def)
  moreover have "effect_deps ?c = effect_deps c"
    using \<open>isDarkMode c\<close> \<open>isDarkMode ?c\<close> by (simp add: effect_deps_def)
  ultimately have c: "handleLightMode tw x y c = Some ?c" by (simp add: rerender_def)
  have "handleLightMode tw x y (transitionEnds ?c) = Some c'' \<Longrightarrow> cz_mode c'' = Light" for c''
    by (auto simp: handleLightMode_def transitionEnds_def isDarkMode_def toggleTheme_def rerender_def
        dest!: re split: if_splits)
  with c \<open>isDarkMode ?c\<close> show ?thesis by (intro exI [of _ ?c]) simp
qed

theorem light_button_on_dark_system_witness:
  "\<exists>c'. handleLightMode [] ''50'' ''50''
        \<lparr>cz_style = [], cz_mode = System, cz_prefersDark = True,
         cz_transitioning = False, cz_theme = ''blue'', cz_tweakcn = [], cz_radius = ''1rem'',
         cz_imported = None, cz_brand = [], cz_tabBrand = [], cz_sidebar = default_sidebar\<rparr> = Some c'
    \<and> cz_mode c' = Dark \<and> isDarkMode c'"
  using light_button_on_dark_system [of "\<lparr>cz_style = [], cz_mode = System, cz_prefersDark = True,
         cz_transitioning = False, cz_theme = ''blue'', cz_tweakcn = [], cz_radius = ''1rem'',
         cz_imported = None, cz_brand = [], cz_tabBrand = [], cz_sidebar = default_sidebar\<rparr>" "[]" "''50''" "''50''"]
  by auto

end
