(* ===== verification/Master_Data.thy ===== *)
theory Master_Data
  imports Ui_Common Orbyn_Api
begin

text \<open>
  The four settings pages of Subsystem 1 (\<open>app/(app)/settings/*/page.tsx\<close>) and the component
  they share, \<open>components/master-data-crud.tsx\<close>: a table with a create/edit dialog over a
  list of field descriptions. The dialog is a machine of user actions and replies in any order.
  What a form sends is compared with the backend's request schemas in \<open>Settings_Schemas\<close>.
\<close>

section \<open>master-data-crud.tsx: data\<close>

datatype field_type = Text_field | Integer_field | Decimal_field | Select_field | Switch_field

record field_config =
  fc_name :: string
  fc_label :: string
  fc_type :: field_type
  fc_options :: "(string \<times> string) list option"
  fc_editable :: "bool option"
  fc_min :: "int option"
  fc_max :: "int option"
  fc_step :: "string option"

text \<open>A row: \<open>id\<close>, \<open>is_active\<close> and the entity's other properties.\<close>

record md_row =
  mr_id :: string
  mr_active :: bool
  mr_rest :: "(string \<times> json) list"

definition row_get :: "md_row \<Rightarrow> string \<Rightarrow> json option" where
  "row_get row k =
     (if k = ''id'' then Some (JStr (mr_id row))
      else if k = ''is_active'' then Some (JBool (mr_active row))
      else map_of (mr_rest row) k)"

record md_props =
  mp_entity :: string
  mp_label :: string
  mp_fields :: "field_config list"
  mp_canWrite :: bool

datatype form_value = FText string | FFlag bool

type_synonym form_values = "(string \<times> form_value) list"

fun form_json :: "form_value \<Rightarrow> json" where
  "form_json (FText s) = JStr s"
| "form_json (FFlag b) = JBool b"

text \<open>\<open>String(raw ?? "")\<close>\<close>

definition field_text :: "json option \<Rightarrow> string" where
  "field_text raw = (case raw of None \<Rightarrow> [] | Some v \<Rightarrow> join_elem v)"

definition emptyFormValues :: "field_config list \<Rightarrow> form_values" where
  "emptyFormValues fs =
     foldl (\<lambda>values f. put (fc_name f) (if fc_type f = Switch_field then FFlag True else FText []) values) [] fs"

definition rowToFormValues :: "field_config list \<Rightarrow> md_row \<Rightarrow> form_values" where
  "rowToFormValues fs row =
     foldl (\<lambda>values f. put (fc_name f)
         (if fc_type f = Switch_field then FFlag (truthy_json (row_get row (fc_name f)))
          else FText (field_text (row_get row (fc_name f)))) values) [] fs"

section \<open>The component's state\<close>

datatype md_dialog = Closed | Creating | Editing md_row

text \<open>
  \<open>cr_flight\<close> is the submission in flight, with the mode its closure keeps; \<open>cr_toggles\<close> the
  status changes in flight, with their row. \<open>cr_sent\<close> is the history of the requests,
  \<open>cr_shown\<close> that of the toasts: sonner is given any value as an error message, and an
  unhandled rejection shows nothing. \<open>cr_refreshes\<close> counts \<open>router.refresh()\<close>.
\<close>

datatype md_toast = Toast_success string | Toast_error json

record crud =
  cr_dialog :: md_dialog
  cr_values :: form_values
  cr_error :: "string option"
  cr_submitting :: bool
  cr_flight :: "bool option"
  cr_toggles :: "md_row list"
  cr_sent :: "ui_call list"
  cr_shown :: "md_toast list"
  cr_refreshes :: nat

definition init_crud :: crud where
  "init_crud =
     \<lparr>cr_dialog = Closed, cr_values = [], cr_error = None, cr_submitting = False, cr_flight = None,
      cr_toggles = [], cr_sent = [], cr_shown = [], cr_refreshes = 0\<rparr>"

section \<open>Handlers\<close>

definition openCreate :: "md_props \<Rightarrow> crud \<Rightarrow> crud" where
  "openCreate p st =
     st\<lparr>cr_values := emptyFormValues (mp_fields p), cr_error := None, cr_dialog := Creating\<rparr>"

definition openEdit :: "md_props \<Rightarrow> md_row \<Rightarrow> crud \<Rightarrow> crud" where
  "openEdit p row st =
     st\<lparr>cr_values := rowToFormValues (mp_fields p) row, cr_error := None, cr_dialog := Editing row\<rparr>"

definition closeDialog :: "crud \<Rightarrow> crud" where
  "closeDialog st = st\<lparr>cr_dialog := Closed\<rparr>"

definition collection_path :: "md_props \<Rightarrow> string" where
  "collection_path p = ''/api/admin/'' @ mp_entity p"

definition row_path :: "md_props \<Rightarrow> md_row \<Rightarrow> string" where
  "row_path p row = ''/api/admin/'' @ mp_entity p @ ''/'' @ encodeURIComponent (mr_id row)"

definition patch :: "string \<Rightarrow> json \<Rightarrow> ui_call" where
  "patch path body = \<lparr>uc_method = ''PATCH'', uc_path = path, uc_body = Some body\<rparr>"

definition toggleActive :: "md_props \<Rightarrow> md_row \<Rightarrow> crud \<Rightarrow> crud" where
  "toggleActive p row st =
     st\<lparr>cr_sent := cr_sent st @ [patch (row_path p row) (JObj [(''is_active'', JBool (\<not> mr_active row))])],
        cr_toggles := cr_toggles st @ [row]\<rparr>"

text \<open>
  The answer. There is no catch: when the request fails, or the body of a refusal is JSON
  \<open>null\<close>, the promise rejects and nothing is shown.
\<close>

definition toggleReplied :: "md_props \<Rightarrow> md_row \<Rightarrow> fetch_result \<Rightarrow> crud \<Rightarrow> crud" where
  "toggleReplied p row r st =
     (if row \<notin> set (cr_toggles st) then st
      else (case r of
              NetError \<Rightarrow> st
            | Reply resp \<Rightarrow>
                if \<not> resp_ok resp then
                  (if body_or_empty resp = JNull then st
                   else st\<lparr>cr_shown := cr_shown st
                     @ [Toast_error (nullish_or (opt_prop (body_or_empty resp) ''detail'')
                                       (JStr ''Could not update status''))]\<rparr>)
                else st\<lparr>cr_shown := cr_shown st
                     @ [Toast_success (mp_label p @ (if mr_active row then '' deactivated'' else '' activated''))],
                   cr_refreshes := Suc (cr_refreshes st)\<rparr>)
           \<lparr>cr_toggles := remove1 row (cr_toggles st)\<rparr>)"

text \<open>The fields the dialog shows and sends: on an edit, all but those marked not editable.\<close>

definition relevant_fields :: "md_props \<Rightarrow> bool \<Rightarrow> field_config list" where
  "relevant_fields p isCreate = filter (\<lambda>f. isCreate \<or> fc_editable f \<noteq> Some False) (mp_fields p)"

text \<open>\<open>payload\<close>, as \<open>JSON.stringify\<close> sees it: a value that is undefined is left out.\<close>

definition submit_payload :: "md_props \<Rightarrow> bool \<Rightarrow> form_values \<Rightarrow> (string \<times> json option) list" where
  "submit_payload p isCreate values =
     (let payload = foldl (\<lambda>ps f. put (fc_name f) (map_option form_json (map_of values (fc_name f))) ps) []
                      (relevant_fields p isCreate)
      in if mp_entity p = ''products'' \<and> isCreate
         then put ''sku'' (case map_of payload ''id'' of Some v \<Rightarrow> v | None \<Rightarrow> None) payload else payload)"

definition submit_call :: "md_props \<Rightarrow> md_dialog \<Rightarrow> form_values \<Rightarrow> ui_call option" where
  "submit_call p d values =
     (case d of
        Closed \<Rightarrow> None
      | Creating \<Rightarrow> Some (post (collection_path p) (Some (obj (submit_payload p True values))))
      | Editing row \<Rightarrow> Some (patch (row_path p row) (obj (submit_payload p False values))))"

text \<open>
  \<open>handleSubmit\<close>. The browser submits the form only when its Save button is enabled and every
  visible input passes its constraints: it is \<open>required\<close>, so not empty, and \<open>valid\<close> stands
  for the browser's own check of a number against \<open>min\<close>, \<open>max\<close> and \<open>step\<close>.
\<close>

definition input_ok :: "(field_config \<Rightarrow> string \<Rightarrow> bool) \<Rightarrow> form_values \<Rightarrow> field_config \<Rightarrow> bool" where
  "input_ok valid values f \<longleftrightarrow>
     (if fc_type f = Switch_field \<or> fc_type f = Select_field then True
      else case map_of values (fc_name f) of
             Some (FText s) \<Rightarrow> s \<noteq> [] \<and> valid f s
           | _ \<Rightarrow> False)"

definition handleSubmit :: "(field_config \<Rightarrow> string \<Rightarrow> bool) \<Rightarrow> md_props \<Rightarrow> crud \<Rightarrow> crud" where
  "handleSubmit valid p st =
     (if cr_submitting st \<or> \<not> list_all (input_ok valid (cr_values st)) (relevant_fields p (cr_dialog st = Creating))
      then st
      else (case submit_call p (cr_dialog st) (cr_values st) of
              None \<Rightarrow> st
            | Some u \<Rightarrow>
                st\<lparr>cr_error := None, cr_submitting := True, cr_flight := Some (cr_dialog st = Creating),
                   cr_sent := cr_sent st @ [u]\<rparr>))"

text \<open>The rest of \<open>handleSubmit\<close>, with its catch and its finally.\<close>

definition submitReplied :: "md_props \<Rightarrow> fetch_result \<Rightarrow> crud \<Rightarrow> crud" where
  "submitReplied p r st =
     (case cr_flight st of
        None \<Rightarrow> st
      | Some isCreate \<Rightarrow>
          (case r of
             NetError \<Rightarrow> st\<lparr>cr_error := Some unreachable\<rparr>
           | Reply resp \<Rightarrow>
               if \<not> resp_ok resp then
                 (if body_or_empty resp = JNull then st\<lparr>cr_error := Some unreachable\<rparr>
                  else st\<lparr>cr_error := Some (detail_text (body_or_empty resp) ''Request failed'')\<rparr>)
               else st\<lparr>cr_shown := cr_shown st
                         @ [Toast_success (mp_label p @ (if isCreate then '' created'' else '' updated''))],
                       cr_dialog := Closed, cr_refreshes := Suc (cr_refreshes st)\<rparr>)
          \<lparr>cr_submitting := False, cr_flight := None\<rparr>)"

text \<open>The inputs: each writes its own field, and only the fields shown have one.\<close>

definition field_input :: "field_config \<Rightarrow> form_value \<Rightarrow> bool" where
  "field_input f v \<longleftrightarrow>
     (case v of
        FFlag b \<Rightarrow> fc_type f = Switch_field
      | FText s \<Rightarrow>
          (if fc_type f = Select_field then
             (case fc_options f of None \<Rightarrow> False | Some opts \<Rightarrow> s \<in> fst ` set opts)
           else fc_type f \<noteq> Switch_field))"

definition changeField :: "md_props \<Rightarrow> field_config \<Rightarrow> form_value \<Rightarrow> crud \<Rightarrow> crud" where
  "changeField p f v st =
     (if cr_dialog st \<noteq> Closed \<and> f \<in> set (relevant_fields p (cr_dialog st = Creating)) \<and> field_input f v
      then st\<lparr>cr_values := put (fc_name f) v (cr_values st)\<rparr> else st)"

section \<open>The table\<close>

definition cell_text :: "field_config \<Rightarrow> md_row \<Rightarrow> string" where
  "cell_text f row =
     (let value = row_get row (fc_name f)
      in if fc_type f = Select_field then
           (case find (\<lambda>(v, l). Some (JStr v) = value) (case fc_options f of None \<Rightarrow> [] | Some os \<Rightarrow> os) of
              Some (v, l) \<Rightarrow> l
            | None \<Rightarrow> field_text value)
         else field_text value)"

definition crud_columns :: "md_props \<Rightarrow> string list" where
  "crud_columns p =
     map fc_name (filter (\<lambda>f. fc_type f \<noteq> Switch_field) (mp_fields p)) @ [''status'']
     @ (if mp_canWrite p then [''actions''] else [])"

definition status_badge :: "md_row \<Rightarrow> string" where
  "status_badge row = (if mr_active row then ''Active'' else ''Inactive'')"

section \<open>The machine\<close>

text \<open>The Add button and the row buttons exist only with \<open>canWrite\<close>.\<close>

datatype crud_event =
    Add_clicked
  | Edit_clicked md_row
  | Toggle_clicked md_row
  | Dialog_dismissed
  | Field_changed field_config form_value
  | Submitted
  | Submit_replied fetch_result
  | Toggle_replied md_row fetch_result

fun crud_step :: "(field_config \<Rightarrow> string \<Rightarrow> bool) \<Rightarrow> md_props \<Rightarrow> crud_event \<Rightarrow> crud \<Rightarrow> crud" where
  "crud_step valid p Add_clicked st = (if mp_canWrite p then openCreate p st else st)"
| "crud_step valid p (Edit_clicked row) st = (if mp_canWrite p then openEdit p row st else st)"
| "crud_step valid p (Toggle_clicked row) st = (if mp_canWrite p then toggleActive p row st else st)"
| "crud_step valid p Dialog_dismissed st = closeDialog st"
| "crud_step valid p (Field_changed f v) st = changeField p f v st"
| "crud_step valid p Submitted st = handleSubmit valid p st"
| "crud_step valid p (Submit_replied r) st = submitReplied p r st"
| "crud_step valid p (Toggle_replied row r) st = toggleReplied p row r st"

definition crud_run :: "(field_config \<Rightarrow> string \<Rightarrow> bool) \<Rightarrow> md_props \<Rightarrow> crud_event list \<Rightarrow> crud" where
  "crud_run valid p es = fold (crud_step valid p) es init_crud"

section \<open>The settings pages\<close>

definition text_field :: "string \<Rightarrow> string \<Rightarrow> field_config" where
  "text_field n l =
     \<lparr>fc_name = n, fc_label = l, fc_type = Text_field, fc_options = None, fc_editable = None,
      fc_min = None, fc_max = None, fc_step = None\<rparr>"

definition key_field :: "string \<Rightarrow> field_config" where
  "key_field l = (text_field ''id'' l)\<lparr>fc_editable := Some False\<rparr>"

definition active_field :: field_config where
  "active_field = (text_field ''is_active'' ''Active'')\<lparr>fc_type := Switch_field\<rparr>"

definition select_field :: "string \<Rightarrow> string \<Rightarrow> (string \<times> string) list \<Rightarrow> field_config" where
  "select_field n l opts = (text_field n l)\<lparr>fc_type := Select_field, fc_options := Some opts\<rparr>"

definition number_field :: "string \<Rightarrow> string \<Rightarrow> field_type \<Rightarrow> int option \<Rightarrow> string option \<Rightarrow> field_config" where
  "number_field n l t hi stp =
     (text_field n l)\<lparr>fc_type := t, fc_min := Some 0, fc_max := hi, fc_step := stp\<rparr>"

definition CARRIER_FIELDS :: "field_config list" where
  "CARRIER_FIELDS =
     [key_field ''ID'', text_field ''name'' ''Name'',
      number_field ''transit_days_min'' ''Transit Days (min)'' Decimal_field None (Some ''0.1''),
      number_field ''transit_days_max'' ''Transit Days (max)'' Decimal_field None (Some ''0.1''),
      select_field ''variability'' ''Variability'' [(''low'', ''Low''), (''medium'', ''Medium''), (''high'', ''High'')],
      number_field ''reliability_pct'' ''Reliability (%)'' Decimal_field (Some 100) (Some ''0.01''),
      active_field]"

definition WAREHOUSE_FIELDS :: "field_config list" where
  "WAREHOUSE_FIELDS =
     [key_field ''ID'', text_field ''name'' ''Name'', text_field ''region'' ''Region'',
      number_field ''capacity_pallet_positions'' ''Capacity (pallet positions)'' Integer_field None None,
      active_field]"

definition PRODUCT_FIELDS :: "field_config list" where
  "PRODUCT_FIELDS =
     [key_field ''SKU'', text_field ''name'' ''Name'',
      select_field ''category'' ''Category''
        [(''corrugated_packaging'', ''Corrugated Packaging''), (''protective_packaging'', ''Protective Packaging''),
         (''shipping_labeling_supplies'', ''Shipping/Labeling Supplies'')],
      number_field ''unit_cost'' ''Unit Cost ($)'' Decimal_field None (Some ''0.01''),
      active_field]"

definition SUPPLIER_FIELDS :: "field_config list" where
  "SUPPLIER_FIELDS =
     [key_field ''ID'', text_field ''name'' ''Name'', text_field ''category_focus'' ''Category Focus'',
      select_field ''unit_cost_tier'' ''Cost Tier'' [(''low'', ''Low''), (''mid'', ''Mid''), (''high'', ''High'')],
      number_field ''base_lead_time_days'' ''Base Lead Time (days)'' Integer_field None None,
      select_field ''lead_time_variability'' ''Lead Time Variability''
        [(''low'', ''Low''), (''medium'', ''Medium''), (''high'', ''High'')],
      number_field ''historical_otif_pct'' ''Historical OTIF (%)'' Decimal_field (Some 100) (Some ''0.01''),
      active_field]"

definition CarriersSettingsPage :: "string option \<Rightarrow> md_props" where
  "CarriersSettingsPage role =
     \<lparr>mp_entity = ''carriers'', mp_label = ''Carrier'', mp_fields = CARRIER_FIELDS, mp_canWrite = (role = Some ''admin'')\<rparr>"

definition WarehousesSettingsPage :: "string option \<Rightarrow> md_props" where
  "WarehousesSettingsPage role =
     \<lparr>mp_entity = ''warehouses'', mp_label = ''Warehouse'', mp_fields = WAREHOUSE_FIELDS, mp_canWrite = (role = Some ''admin'')\<rparr>"

definition ProductsSettingsPage :: "string option \<Rightarrow> md_props" where
  "ProductsSettingsPage role =
     \<lparr>mp_entity = ''products'', mp_label = ''Product'', mp_fields = PRODUCT_FIELDS, mp_canWrite = (role = Some ''admin'')\<rparr>"

definition SuppliersSettingsPage :: "string option \<Rightarrow> md_props" where
  "SuppliersSettingsPage role =
     \<lparr>mp_entity = ''suppliers'', mp_label = ''Supplier'', mp_fields = SUPPLIER_FIELDS, mp_canWrite = (role = Some ''admin'')\<rparr>"

text \<open>
  What a page loads: the list and the caller's role, both at once; a refused list is an empty one,
  and a failure of either is the page's failure.
\<close>

definition both :: "'a io \<Rightarrow> 'b io \<Rightarrow> ('a \<times> 'b) io" where
  "both p q = (\<lambda>net. (sent p net @ sent q net,
     case (result p net, result q net) of
       (Returned x, Returned y) \<Rightarrow> Returned (x, y)
     | (Thrown e, _) \<Rightarrow> Thrown e
     | (Returned x, Thrown e) \<Rightarrow> Thrown e))"

definition settings_page :: "(string option \<Rightarrow> md_props) \<Rightarrow> ctx \<Rightarrow> (json \<times> md_props) io" where
  "settings_page page c =
     and_then (both (listMasterData c (mp_entity (page None))) (orbyn_getCurrentRole c))
       (\<lambda>(response, role).
          and_then (if resp_ok response then resp_json response else ret (JArr []))
            (\<lambda>rows. ret (rows, page role)))"

section \<open>The form and what it sends\<close>

lemma put_same_keys: "k \<in> fst ` set ps \<Longrightarrow> map fst (put k v ps) = map fst ps"
proof (induction ps)
  case (Cons q ps)
  then show ?case by (cases q) (cases "fst q = k", auto)
qed simp

lemma foldl_put:
  "distinct (map k xs) \<Longrightarrow> k ` set xs \<inter> fst ` set acc = {} \<Longrightarrow>
     foldl (\<lambda>ps x. put (k x) (g x) ps) acc xs = acc @ map (\<lambda>x. (k x, g x)) xs"
proof (induction xs arbitrary: acc)
  case (Cons x xs)
  then have "put (k x) (g x) acc = acc @ [(k x, g x)]" by (simp add: put_new)
  with Cons show ?case by auto
qed simp

lemma map_of_map_key:
  "distinct (map k xs) \<Longrightarrow> x \<in> set xs \<Longrightarrow> map_of (map (\<lambda>x. (k x, g x)) xs) (k x) = Some (g x)"
  by (induction xs) (auto simp: image_iff)

text \<open>What the component relies on: field names are distinct, there is an \<open>id\<close> and no \<open>sku\<close>.\<close>

definition wf_fields :: "md_props \<Rightarrow> bool" where
  "wf_fields p \<longleftrightarrow>
     distinct (map fc_name (mp_fields p)) \<and> ''id'' \<in> fc_name ` set (mp_fields p) \<and> ''sku'' \<notin> fc_name ` set (mp_fields p)"

lemmas field_defs = text_field_def key_field_def active_field_def select_field_def number_field_def

lemmas page_defs = CarriersSettingsPage_def WarehousesSettingsPage_def ProductsSettingsPage_def SuppliersSettingsPage_def

lemmas field_lists = CARRIER_FIELDS_def WAREHOUSE_FIELDS_def PRODUCT_FIELDS_def SUPPLIER_FIELDS_def

lemma pages_wf [simp]:
  "wf_fields (CarriersSettingsPage role)" "wf_fields (WarehousesSettingsPage role)"
  "wf_fields (ProductsSettingsPage role)" "wf_fields (SuppliersSettingsPage role)"
  by (simp_all add: wf_fields_def page_defs field_lists field_defs)

definition field_typed :: "form_values \<Rightarrow> field_config \<Rightarrow> bool" where
  "field_typed values f \<longleftrightarrow>
     (case map_of values (fc_name f) of
        Some (FFlag b) \<Rightarrow> fc_type f = Switch_field
      | Some (FText s) \<Rightarrow> fc_type f \<noteq> Switch_field
      | None \<Rightarrow> False)"

definition form_typed :: "md_props \<Rightarrow> form_values \<Rightarrow> bool" where
  "form_typed p values \<longleftrightarrow>
     map fst values = map fc_name (mp_fields p) \<and> list_all (field_typed values) (mp_fields p)"

lemma opened_forms_typed:
  assumes "wf_fields p"
  shows "form_typed p (emptyFormValues (mp_fields p))" "form_typed p (rowToFormValues (mp_fields p) row)"
proof -
  have dist: "distinct (map fc_name (mp_fields p))" using assms by (simp add: wf_fields_def)
  show "form_typed p (emptyFormValues (mp_fields p))"
    unfolding form_typed_def emptyFormValues_def foldl_put [OF dist, of "[]", simplified] list_all_iff field_typed_def
    by (auto simp: map_of_map_key [OF dist] o_def)
  show "form_typed p (rowToFormValues (mp_fields p) row)"
    unfolding form_typed_def rowToFormValues_def foldl_put [OF dist, of "[]", simplified] list_all_iff field_typed_def
    by (auto simp: map_of_map_key [OF dist] o_def)
qed

lemma changed_form_typed:
  assumes "wf_fields p" "form_typed p values" "f \<in> set (mp_fields p)" "field_input f v"
  shows "form_typed p (put (fc_name f) v values)"
proof -
  have "field_typed (put (fc_name f) v values) g" if "g \<in> set (mp_fields p)" for g
  proof (cases "fc_name g = fc_name f")
    case True
    with assms(1,3) that have "g = f" by (auto simp: wf_fields_def distinct_map dest: inj_onD)
    with assms(4) show ?thesis by (auto simp: field_typed_def field_input_def split: form_value.splits if_splits)
  next
    case False
    with assms(2) that show ?thesis by (simp add: form_typed_def list_all_iff field_typed_def)
  qed
  moreover have "fc_name f \<in> fst ` set values"
    using assms(2,3) by (metis form_typed_def imageI set_map)
  ultimately show ?thesis using assms(2) by (simp add: form_typed_def list_all_iff put_same_keys)
qed

lemma relevant_subset: "set (relevant_fields p b) \<subseteq> set (mp_fields p)"
  by (auto simp: relevant_fields_def)

lemma relevant_distinct: "wf_fields p \<Longrightarrow> distinct (map fc_name (relevant_fields p b))"
  by (simp add: wf_fields_def relevant_fields_def distinct_map_filter)

text \<open>What is sent for a field, and for \<open>sku\<close>.\<close>

definition sent_value :: "form_values \<Rightarrow> string \<Rightarrow> json" where
  "sent_value values k = form_json (the (map_of values k))"

definition sent_fields :: "md_props \<Rightarrow> bool \<Rightarrow> string list" where
  "sent_fields p isCreate =
     map fc_name (if isCreate then mp_fields p else [f \<leftarrow> mp_fields p. fc_editable f \<noteq> Some False])"

lemma sent_fields_relevant: "sent_fields p isCreate = map fc_name (relevant_fields p isCreate)"
  by (simp add: sent_fields_def relevant_fields_def)

lemma obj_all: "obj (map (\<lambda>k. (k, Some (h k))) ks) = JObj (map (\<lambda>k. (k, h k)) ks)"
  by (induction ks) (auto simp: obj_def)

lemma payload_fields:
  assumes "wf_fields p" "form_typed p values"
  shows "foldl (\<lambda>ps f. put (fc_name f) (map_option form_json (map_of values (fc_name f))) ps) [] (relevant_fields p b)
      = map (\<lambda>k. (k, Some (sent_value values k))) (sent_fields p b)"
proof -
  have some: "map_option form_json (map_of values (fc_name f)) = Some (sent_value values (fc_name f))"
    if "f \<in> set (relevant_fields p b)" for f
  proof -
    have "field_typed values f"
      using assms(2) that relevant_subset [of p b] by (auto simp: form_typed_def list_all_iff)
    then obtain v where "map_of values (fc_name f) = Some v"
      by (auto simp: field_typed_def split: option.splits)
    then show ?thesis by (simp add: sent_value_def)
  qed
  show ?thesis
    using some by (simp add: foldl_put relevant_distinct [OF assms(1)] sent_fields_relevant)
qed

lemma id_sent: "wf_fields p \<Longrightarrow> ''id'' \<in> set (sent_fields p True) \<and> ''sku'' \<notin> set (sent_fields p True)"
  by (auto simp: wf_fields_def sent_fields_relevant relevant_fields_def)

lemma map_of_keys: "k \<in> set ks \<Longrightarrow> map_of (map (\<lambda>k. (k, g k)) ks) k = Some (g k)"
  by (induction ks) auto

lemma payload_eq:
  assumes "wf_fields p" "form_typed p values"
  shows "obj (submit_payload p False values) = JObj (map (\<lambda>k. (k, sent_value values k)) (sent_fields p False))"
    and "obj (submit_payload p True values) =
           JObj (map (\<lambda>k. (k, sent_value values k)) (sent_fields p True)
             @ (if mp_entity p = ''products'' then [(''sku'', sent_value values ''id'')] else []))"
proof -
  note base = payload_fields [OF assms]
  show "obj (submit_payload p False values) = JObj (map (\<lambda>k. (k, sent_value values k)) (sent_fields p False))"
    by (simp add: submit_payload_def base obj_all)
  let ?ps = "map (\<lambda>k. (k, Some (sent_value values k))) (sent_fields p True)"
  have id: "map_of ?ps ''id'' = Some (Some (sent_value values ''id''))"
    using id_sent [OF assms(1)] by (simp add: map_of_keys)
  have "''sku'' \<notin> fst ` set ?ps" using id_sent [OF assms(1)] by auto
  then have sku: "put ''sku'' v ?ps = ?ps @ [(''sku'', v)]" for v by (rule put_new)
  have "obj (?ps @ [(''sku'', Some v)]) = JObj (map (\<lambda>k. (k, sent_value values k)) (sent_fields p True) @ [(''sku'', v)])" for v
    using obj_all [of "sent_value values" "sent_fields p True"] by (simp add: obj_def)
  then show "obj (submit_payload p True values) =
           JObj (map (\<lambda>k. (k, sent_value values k)) (sent_fields p True)
             @ (if mp_entity p = ''products'' then [(''sku'', sent_value values ''id'')] else []))"
    by (simp add: submit_payload_def base id sku obj_all)
qed

text \<open>A request the component may make: creating a row, editing one, or changing its status.\<close>

definition typed_as :: "field_config \<Rightarrow> json option \<Rightarrow> bool" where
  "typed_as f v \<longleftrightarrow>
     (case v of
        Some (JBool b) \<Rightarrow> fc_type f = Switch_field
      | Some (JStr s) \<Rightarrow> fc_type f \<noteq> Switch_field
      | _ \<Rightarrow> False)"

definition create_request :: "md_props \<Rightarrow> ui_call \<Rightarrow> bool" where
  "create_request p u \<longleftrightarrow>
     uc_method u = ''POST'' \<and> uc_path u = collection_path p
     \<and> (case uc_body u of
           Some (JObj ps) \<Rightarrow>
             map fst ps = map fc_name (mp_fields p) @ (if mp_entity p = ''products'' then [''sku''] else [])
             \<and> list_all (\<lambda>f. typed_as f (map_of ps (fc_name f))) (mp_fields p)
             \<and> (mp_entity p = ''products'' \<longrightarrow> map_of ps ''sku'' = map_of ps ''id'')
         | _ \<Rightarrow> False)"

definition edit_request :: "md_props \<Rightarrow> ui_call \<Rightarrow> bool" where
  "edit_request p u \<longleftrightarrow>
     uc_method u = ''PATCH'' \<and> (\<exists>row. uc_path u = row_path p row)
     \<and> (case uc_body u of
           Some (JObj ps) \<Rightarrow>
             map fst ps = map fc_name (relevant_fields p False)
             \<and> list_all (\<lambda>f. typed_as f (map_of ps (fc_name f))) (relevant_fields p False)
         | _ \<Rightarrow> False)"

definition toggle_request :: "md_props \<Rightarrow> ui_call \<Rightarrow> bool" where
  "toggle_request p u \<longleftrightarrow>
     uc_method u = ''PATCH''
     \<and> (\<exists>row. uc_path u = row_path p row \<and> uc_body u = Some (JObj [(''is_active'', JBool (\<not> mr_active row))]))"

definition settings_request :: "md_props \<Rightarrow> ui_call \<Rightarrow> bool" where
  "settings_request p u \<longleftrightarrow> create_request p u \<or> edit_request p u \<or> toggle_request p u"

lemma sent_value_typed:
  "field_typed values f \<Longrightarrow> typed_as f (Some (sent_value values (fc_name f)))"
  by (auto simp: field_typed_def typed_as_def sent_value_def split: option.splits form_value.splits)

lemma sent_typed:
  assumes "form_typed p values"
  shows "list_all (\<lambda>f. typed_as f (map_of (map (\<lambda>k. (k, sent_value values k)) (sent_fields p b) @ qs) (fc_name f)))
           (relevant_fields p b)"
  unfolding list_all_iff
proof
  fix f assume f: "f \<in> set (relevant_fields p b)"
  then have "field_typed values f" using assms relevant_subset [of p b] by (auto simp: form_typed_def list_all_iff)
  moreover have "fc_name f \<in> set (sent_fields p b)" using f by (simp add: sent_fields_relevant)
  ultimately show "typed_as f (map_of (map (\<lambda>k. (k, sent_value values k)) (sent_fields p b) @ qs) (fc_name f))"
    by (simp add: map_of_keys sent_value_typed)
qed

lemma submit_call_request:
  assumes "wf_fields p" "form_typed p values" "submit_call p d values = Some u"
  shows "settings_request p u"
proof (cases d)
  case Closed
  with assms(3) show ?thesis by (simp add: submit_call_def)
next
  case Creating
  let ?qs = "if mp_entity p = ''products'' then [(''sku'', sent_value values ''id'')] else []"
  let ?ps = "map (\<lambda>k. (k, sent_value values k)) (sent_fields p True)"
  have all: "relevant_fields p True = mp_fields p" by (simp add: relevant_fields_def)
  have u: "u = post (collection_path p) (Some (JObj (?ps @ ?qs)))"
    using Creating assms(3) by (simp add: submit_call_def payload_eq [OF assms(1,2)])
  have "map_of (?ps @ ?qs) ''id'' = Some (sent_value values ''id'')"
    using id_sent [OF assms(1)] by (simp add: map_of_keys)
  moreover have "map_of (?ps @ [(''sku'', v)]) ''sku'' = Some v" for v
    using id_sent [OF assms(1)] by (simp add: map_add_def map_of_eq_None_iff split: option.split) (auto simp: map_of_map_restrict)
  ultimately have "create_request p u"
    using sent_typed [OF assms(2), of True ?qs]
    by (auto simp: create_request_def u post_def all sent_fields_relevant o_def)
  then show ?thesis by (simp add: settings_request_def)
next
  case (Editing row)
  let ?ps = "map (\<lambda>k. (k, sent_value values k)) (sent_fields p False)"
  have "u = patch (row_path p row) (JObj ?ps)"
    using Editing assms(3) by (simp add: submit_call_def payload_eq [OF assms(1,2)])
  then have "edit_request p u"
    using sent_typed [OF assms(2), of False "[]"] by (auto simp: edit_request_def patch_def sent_fields_relevant o_def)
  then show ?thesis by (simp add: settings_request_def)
qed

definition crud_ok :: "md_props \<Rightarrow> crud \<Rightarrow> bool" where
  "crud_ok p st \<longleftrightarrow>
     (cr_dialog st \<noteq> Closed \<longrightarrow> form_typed p (cr_values st))
     \<and> list_all (settings_request p) (cr_sent st)
     \<and> cr_submitting st = (cr_flight st \<noteq> None)
     \<and> (\<not> mp_canWrite p \<longrightarrow> cr_dialog st = Closed \<and> cr_sent st = [])"

lemma handleSubmit_ok: "wf_fields p \<Longrightarrow> crud_ok p st \<Longrightarrow> crud_ok p (handleSubmit valid p st)"
  using submit_call_request [of p "cr_values st" "cr_dialog st"]
  by (cases "cr_dialog st") (auto simp: handleSubmit_def crud_ok_def submit_call_def split: option.splits)

lemma replies_ok:
  "crud_ok p st \<Longrightarrow> crud_ok p (submitReplied p r st)" "crud_ok p st \<Longrightarrow> crud_ok p (toggleReplied p row r st)"
  by (auto simp: submitReplied_def toggleReplied_def crud_ok_def split: option.splits fetch_result.splits)

lemma changeField_ok: "wf_fields p \<Longrightarrow> crud_ok p st \<Longrightarrow> crud_ok p (changeField p f v st)"
  using changed_form_typed [of p "cr_values st" f v] relevant_subset [of p "cr_dialog st = Creating"]
  by (auto simp: changeField_def crud_ok_def)

lemma toggleActive_ok: "mp_canWrite p \<Longrightarrow> crud_ok p st \<Longrightarrow> crud_ok p (toggleActive p row st)"
  by (auto simp: toggleActive_def crud_ok_def settings_request_def toggle_request_def patch_def)

lemma crud_step_ok: "wf_fields p \<Longrightarrow> crud_ok p st \<Longrightarrow> crud_ok p (crud_step valid p e st)"
  by (cases e)
    (auto simp: handleSubmit_ok replies_ok changeField_ok toggleActive_ok openCreate_def openEdit_def closeDialog_def
      opened_forms_typed crud_ok_def [of p "st\<lparr>cr_values := x, cr_error := y, cr_dialog := z\<rparr>" for x y z]
      crud_ok_def [of p "st\<lparr>cr_dialog := Closed\<rparr>"], auto simp: crud_ok_def)

lemma crud_run_ok: "wf_fields p \<Longrightarrow> crud_ok p (crud_run valid p es)"
proof -
  assume wf: "wf_fields p"
  have "crud_ok p (fold (crud_step valid p) es st)" if "crud_ok p st" for st
    using that by (induction es arbitrary: st) (simp_all add: crud_step_ok [OF wf])
  moreover have "crud_ok p init_crud" by (simp add: crud_ok_def init_crud_def)
  ultimately show ?thesis by (simp add: crud_run_def)
qed

section \<open>Properties\<close>

text \<open>C25: Whatever the user does and whatever the replies are, an open settings dialog has exactly one
  value for every field of its entity, in the order of the fields, and each has its field's type:
  a flag for a switch, a text for any other.\<close>

theorem settings_forms_typed:
  assumes "wf_fields p" and "cr_dialog (crud_run valid p es) \<noteq> Closed"
  shows "map fst (cr_values (crud_run valid p es)) = map fc_name (mp_fields p)
    \<and> list_all (field_typed (cr_values (crud_run valid p es))) (mp_fields p)"
  using crud_run_ok [OF assms(1), of valid es] assms(2) by (simp add: crud_ok_def form_typed_def)

definition sample_carrier :: md_row where
  "sample_carrier =
     \<lparr>mr_id = ''CAR-1'', mr_active = True,
      mr_rest = [(''name'', JStr ''Fast''), (''transit_days_min'', JStr ''1.5''), (''transit_days_max'', JStr ''3''),
                 (''variability'', JStr ''low''), (''reliability_pct'', JStr ''99'')]\<rparr>"

definition admin_carriers :: md_props where
  "admin_carriers = CarriersSettingsPage (Some ''admin'')"

lemma admin_carriers_simps [simp]:
  "wf_fields admin_carriers" "mp_canWrite admin_carriers" "mp_fields admin_carriers = CARRIER_FIELDS"
  "mp_entity admin_carriers = ''carriers''" "mp_label admin_carriers = ''Carrier''"
  by (simp_all add: admin_carriers_def) (simp_all add: CarriersSettingsPage_def)

theorem settings_forms_typed_witness:
  "map fst (cr_values (crud_run (\<lambda>f s. True) admin_carriers [Edit_clicked sample_carrier])) = map fc_name CARRIER_FIELDS"
  using settings_forms_typed [of admin_carriers "\<lambda>f s. True" "[Edit_clicked sample_carrier]"]
  by (simp add: crud_run_def openEdit_def)

text \<open>A settings page asks the server for nothing but this, in every run: creating a row with
  every field of the entity (and, for a product, a \<open>sku\<close> equal to its id), changing a row
  with the editable fields only, or flipping a row's status; every value has its field's type, and a
  caller who is not an administrator sends nothing.\<close>

theorem settings_requests_exact:
  assumes "wf_fields p"
  shows "list_all (settings_request p) (cr_sent (crud_run valid p es))
    \<and> (mp_canWrite p \<or> cr_sent (crud_run valid p es) = [])"
  using crud_run_ok [OF assms, of valid es] by (auto simp: crud_ok_def)

theorem settings_requests_exact_witness:
  "list_all (settings_request admin_carriers)
     (cr_sent (crud_run (\<lambda>f s. True) admin_carriers [Toggle_clicked sample_carrier]))
   \<and> length (cr_sent (crud_run (\<lambda>f s. True) admin_carriers [Toggle_clicked sample_carrier])) = 1"
  using settings_requests_exact [of admin_carriers "\<lambda>f s. True" "[Toggle_clicked sample_carrier]"]
  by (simp add: crud_run_def toggleActive_def init_crud_def)

text \<open>The value sent for a field says the same as the row's: texts, decimals and flags as they are, an
  integer by its decimal digits.\<close>

fun same_value :: "json \<Rightarrow> json \<Rightarrow> bool" where
  "same_value (JNum n) (JStr t) = (int (read_nat_acc 0 t) = n)"
| "same_value (JNum n) v = False"
| "same_value raw v = (v = raw)"

text \<open>A row as the backend's Read schemas print it.\<close>

definition row_typed :: "md_props \<Rightarrow> md_row \<Rightarrow> bool" where
  "row_typed p row \<longleftrightarrow>
     list_all (\<lambda>f. case row_get row (fc_name f) of
         Some (JStr s) \<Rightarrow> fc_type f \<noteq> Switch_field \<and> s \<noteq> []
       | Some (JNum n) \<Rightarrow> fc_type f = Integer_field \<and> 0 \<le> n
       | Some (JBool b) \<Rightarrow> fc_type f = Switch_field
       | _ \<Rightarrow> False) (mp_fields p)"

definition row_value :: "md_row \<Rightarrow> field_config \<Rightarrow> form_value" where
  "row_value row f =
     (if fc_type f = Switch_field then FFlag (truthy_json (row_get row (fc_name f)))
      else FText (field_text (row_get row (fc_name f))))"

lemma show_nat_nonempty: "show_nat n \<noteq> []"
  by (simp add: show_nat.simps [of n])

lemma row_value_same:
  assumes "row_typed p row" "f \<in> set (mp_fields p)"
  shows "same_value (the (row_get row (fc_name f))) (form_json (row_value row f))"
    and "\<forall>s. row_value row f = FText s \<longrightarrow> s \<noteq> []"
proof -
  have "case row_get row (fc_name f) of
         Some (JStr s) \<Rightarrow> fc_type f \<noteq> Switch_field \<and> s \<noteq> []
       | Some (JNum n) \<Rightarrow> fc_type f = Integer_field \<and> 0 \<le> n
       | Some (JBool b) \<Rightarrow> fc_type f = Switch_field
       | _ \<Rightarrow> False"
    using assms unfolding row_typed_def list_all_iff by (rule bspec)
  then consider (str) t where "row_get row (fc_name f) = Some (JStr t)" "fc_type f \<noteq> Switch_field" "t \<noteq> []"
    | (num) n where "row_get row (fc_name f) = Some (JNum n)" "fc_type f = Integer_field" "0 \<le> n"
    | (flag) b where "row_get row (fc_name f) = Some (JBool b)" "fc_type f = Switch_field"
    by (auto split: option.splits json.splits)
  then have "same_value (the (row_get row (fc_name f))) (form_json (row_value row f))
      \<and> (\<forall>s. row_value row f = FText s \<longrightarrow> s \<noteq> [])"
    by cases (simp_all add: row_value_def field_text_def show_int_def read_show_nat show_nat_nonempty)
  then show "same_value (the (row_get row (fc_name f))) (form_json (row_value row f))"
    and "\<forall>s. row_value row f = FText s \<longrightarrow> s \<noteq> []" by blast+
qed

lemma row_form_lookup:
  assumes "wf_fields p" "f \<in> set (mp_fields p)"
  shows "map_of (rowToFormValues (mp_fields p) row) (fc_name f) = Some (row_value row f)"
proof -
  have dist: "distinct (map fc_name (mp_fields p))" using assms(1) by (simp add: wf_fields_def)
  show ?thesis
    using map_of_map_key [OF dist assms(2), of "row_value row"]
    by (simp add: rowToFormValues_def foldl_put [OF dist] row_value_def [abs_def])
qed

text \<open>Opening a row and saving it unchanged tells the backend what it already holds: one PATCH of that
  row whose body has exactly the editable fields, each with the row's own value.\<close>

theorem edit_round_trip:
  assumes "wf_fields p" and "mp_canWrite p" and "row_typed p row"
    and "\<not> cr_submitting (crud_run valid p es)"
    and "\<And>f s. f \<in> set (mp_fields p) \<Longrightarrow> row_value row f = FText s \<Longrightarrow> valid f s"
  shows "\<exists>ps. cr_sent (crud_run valid p (es @ [Edit_clicked row, Submitted]))
            = cr_sent (crud_run valid p es) @ [patch (row_path p row) (JObj ps)]
        \<and> map fst ps = map fc_name (relevant_fields p False)
        \<and> list_all (\<lambda>f. same_value (the (row_get row (fc_name f))) (the (map_of ps (fc_name f)))) (relevant_fields p False)"
proof -
  let ?v = "rowToFormValues (mp_fields p) row"
  let ?ps = "map (\<lambda>k. (k, sent_value ?v k)) (sent_fields p False)"
  have look: "map_of ?v (fc_name f) = Some (row_value row f)" if "f \<in> set (relevant_fields p False)" for f
    using that relevant_subset [of p False] by (intro row_form_lookup [OF assms(1)]) auto
  have "input_ok valid ?v f" if "f \<in> set (relevant_fields p False)" for f
  proof -
    have f: "f \<in> set (mp_fields p)" using that relevant_subset [of p False] by blast
    show ?thesis
      using look [OF that] row_value_same(2) [OF assms(3) f] assms(5) [OF f]
      by (auto simp: input_ok_def row_value_def split: form_value.split)
  qed
  then have ok: "list_all (input_ok valid ?v) (relevant_fields p False)" by (simp add: list_all_iff)
  have call: "submit_call p (Editing row) ?v = Some (patch (row_path p row) (JObj ?ps))"
    by (simp add: submit_call_def payload_eq(1) [OF assms(1) opened_forms_typed(2) [OF assms(1)]])
  have sent: "cr_sent (crud_run valid p (es @ [Edit_clicked row, Submitted]))
      = cr_sent (crud_run valid p es) @ [patch (row_path p row) (JObj ?ps)]"
    using assms(2,4) ok call by (simp add: crud_run_def openEdit_def handleSubmit_def)
  have "same_value (the (row_get row (fc_name f))) (the (map_of ?ps (fc_name f)))" if "f \<in> set (relevant_fields p False)" for f
  proof -
    have "fc_name f \<in> set (sent_fields p False)" using that by (simp add: sent_fields_relevant)
    then have "map_of ?ps (fc_name f) = Some (sent_value ?v (fc_name f))" by (rule map_of_keys)
    then show ?thesis
      using look [OF that] row_value_same(1) [OF assms(3)] that relevant_subset [of p False]
      by (auto simp: sent_value_def)
  qed
  then show ?thesis
    by (intro exI [of _ ?ps] conjI sent) (simp_all add: sent_fields_relevant list_all_iff o_def)
qed

theorem edit_round_trip_witness:
  "\<exists>ps. cr_sent (crud_run (\<lambda>f s. True) admin_carriers [Edit_clicked sample_carrier, Submitted])
       = [patch ''/api/admin/carriers/CAR-1'' (JObj ps)]
     \<and> map fst ps = [''name'', ''transit_days_min'', ''transit_days_max'', ''variability'', ''reliability_pct'', ''is_active'']"
proof -
  have typed: "row_typed admin_carriers sample_carrier"
    by (simp add: row_typed_def field_lists field_defs sample_carrier_def row_get_def)
  have path: "row_path admin_carriers sample_carrier = ''/api/admin/carriers/CAR-1''"
    by (simp add: row_path_def sample_carrier_def encodeURIComponent_def uri_unreserved_def is_alnum_def byte_def)
  have names: "map fc_name (relevant_fields admin_carriers False) =
      [''name'', ''transit_days_min'', ''transit_days_max'', ''variability'', ''reliability_pct'', ''is_active'']"
    by (simp add: relevant_fields_def field_lists field_defs)
  show ?thesis
    using edit_round_trip [of admin_carriers sample_carrier "\<lambda>f s. True" "[]"] typed path names
    by (auto simp: crud_run_def init_crud_def)
qed

text \<open>A reply is applied to whatever dialog is open when it arrives: when the administrator closes the
  dialog of a slow submission, opens another row and edits it, the first submission's success closes
  that dialog too, and the edit is never sent.\<close>

theorem late_reply_closes_other_dialog:
  assumes "mp_canWrite p" and "resp_ok resp" and "cr_flight (crud_run valid p es) \<noteq> None"
  shows "cr_dialog (crud_run valid p (es @ [Dialog_dismissed, Edit_clicked row, Field_changed f v, Submit_replied (Reply resp)])) = Closed
    \<and> cr_sent (crud_run valid p (es @ [Dialog_dismissed, Edit_clicked row, Field_changed f v, Submit_replied (Reply resp)]))
        = cr_sent (crud_run valid p es)"
  using assms by (auto simp: crud_run_def closeDialog_def openEdit_def changeField_def submitReplied_def)

theorem late_reply_closes_other_dialog_witness:
  "cr_dialog (crud_run (\<lambda>f s. True) admin_carriers
     ([Edit_clicked sample_carrier, Submitted]
      @ [Dialog_dismissed, Edit_clicked (sample_carrier\<lparr>mr_id := ''CAR-2''\<rparr>),
         Field_changed (text_field ''name'' ''Name'') (FText ''Slow''), Submit_replied (Reply (json_response (JObj []) 200))])) = Closed"
proof -
  have "cr_flight (crud_run (\<lambda>f s. True) admin_carriers [Edit_clicked sample_carrier, Submitted]) \<noteq> None"
    by (simp add: crud_run_def init_crud_def openEdit_def handleSubmit_def submit_call_def relevant_fields_def field_lists
        field_defs rowToFormValues_def row_get_def sample_carrier_def field_text_def input_ok_def)
  then show ?thesis
    using late_reply_closes_other_dialog [of admin_carriers "json_response (JObj []) 200" "\<lambda>f s. True"
        "[Edit_clicked sample_carrier, Submitted]"]
    by (simp add: resp_ok_def json_response_def)
qed

text \<open>Every input of the form is required but the selects: a creation in which a select was not touched is
  sent with an empty text there, which no option of the backend's schema allows.\<close>

theorem unchosen_select_is_sent:
  assumes "wf_fields p" and "f \<in> set (mp_fields p)" and "fc_type f = Select_field"
  shows "input_ok valid (emptyFormValues (mp_fields p)) f
    \<and> sent_value (emptyFormValues (mp_fields p)) (fc_name f) = JStr []"
proof -
  have dist: "distinct (map fc_name (mp_fields p))" using assms(1) by (simp add: wf_fields_def)
  show ?thesis
    using map_of_map_key [OF dist assms(2), of "\<lambda>f. if fc_type f = Switch_field then FFlag True else FText []"] assms(3)
    by (simp add: emptyFormValues_def foldl_put [OF dist] sent_value_def input_ok_def)
qed

theorem unchosen_select_is_sent_witness:
  "sent_value (emptyFormValues PRODUCT_FIELDS) ''category'' = JStr []"
  using unchosen_select_is_sent [of "ProductsSettingsPage None" "PRODUCT_FIELDS ! 2" "\<lambda>f s. True"] pages_wf(3) [of None]
  by (simp add: ProductsSettingsPage_def PRODUCT_FIELDS_def field_defs)

end
