(* ===== verification/Settings_Schemas.thy ===== *)
theory Settings_Schemas
  imports Complex_Main Master_Data
begin

text \<open>
  What the settings forms of \<open>Master_Data\<close> send, against the backend's request schemas
  (\<open>backend/app/schemas/master_data.py\<close>) and the browser's checks of the inputs. The browser is a
  parameter (\<open>valid\<close>) with HTML's rules for \<open>min\<close>, \<open>max\<close> and \<open>step\<close> on plain decimal
  numerals as hypothesis, and pydantic's reading of numbers in texts is one (\<open>py_number\<close>) with
  its rule that such a numeral is read as its value; numbers with an exponent are left to both.
\<close>

section \<open>The backend's schemas\<close>

datatype schema_type = Str_min1 | Int_ge int | Dec_range int "int option" | Literal "string list" | Bool_default

definition CostTier :: schema_type where "CostTier = Literal [''low'', ''mid'', ''high'']"

definition Variability :: schema_type where "Variability = Literal [''low'', ''medium'', ''high'']"

definition ProductCategory :: schema_type where
  "ProductCategory = Literal [''corrugated_packaging'', ''protective_packaging'', ''shipping_labeling_supplies'']"

definition ProductUpdate :: "(string \<times> schema_type) list" where
  "ProductUpdate =
     [(''name'', Str_min1), (''category'', ProductCategory), (''unit_cost'', Dec_range 0 None), (''is_active'', Bool_default)]"

definition ProductCreate :: "(string \<times> schema_type) list" where
  "ProductCreate = [(''id'', Str_min1), (''sku'', Str_min1)] @ ProductUpdate"

definition WarehouseUpdate :: "(string \<times> schema_type) list" where
  "WarehouseUpdate =
     [(''name'', Str_min1), (''region'', Str_min1), (''capacity_pallet_positions'', Int_ge 0), (''is_active'', Bool_default)]"

definition WarehouseCreate :: "(string \<times> schema_type) list" where
  "WarehouseCreate = [(''id'', Str_min1)] @ WarehouseUpdate"

definition SupplierUpdate :: "(string \<times> schema_type) list" where
  "SupplierUpdate =
     [(''name'', Str_min1), (''category_focus'', Str_min1), (''unit_cost_tier'', CostTier),
      (''base_lead_time_days'', Int_ge 0), (''lead_time_variability'', Variability),
      (''historical_otif_pct'', Dec_range 0 (Some 100)), (''is_active'', Bool_default)]"

definition SupplierCreate :: "(string \<times> schema_type) list" where
  "SupplierCreate = [(''id'', Str_min1)] @ SupplierUpdate"

definition CarrierUpdate :: "(string \<times> schema_type) list" where
  "CarrierUpdate =
     [(''name'', Str_min1), (''transit_days_min'', Dec_range 0 None), (''transit_days_max'', Dec_range 0 None),
      (''variability'', Variability), (''reliability_pct'', Dec_range 0 (Some 100)), (''is_active'', Bool_default)]"

definition CarrierCreate :: "(string \<times> schema_type) list" where
  "CarrierCreate = [(''id'', Str_min1)] @ CarrierUpdate"

definition settings_schemas ::
  "string option \<Rightarrow> (md_props \<times> (string \<times> schema_type) list \<times> (string \<times> schema_type) list) list" where
  "settings_schemas role =
     [(CarriersSettingsPage role, CarrierCreate, CarrierUpdate), (WarehousesSettingsPage role, WarehouseCreate, WarehouseUpdate),
      (ProductsSettingsPage role, ProductCreate, ProductUpdate), (SuppliersSettingsPage role, SupplierCreate, SupplierUpdate)]"

section \<open>Numerals\<close>

definition digits :: "string \<Rightarrow> bool" where
  "digits s \<longleftrightarrow> s \<noteq> [] \<and> list_all (\<lambda>c. 48 \<le> byte c \<and> byte c \<le> 57) s"

text \<open>The value of digits with an optional fraction.\<close>

definition unsigned_value :: "string \<Rightarrow> rat option" where
  "unsigned_value s =
     (let a = takeWhile (\<lambda>c. c \<noteq> CHR ''.'') s; d = drop (Suc (length a)) s
      in if \<not> digits a then None
         else if a = s then Some (of_nat (read_nat_acc 0 a))
         else if digits d then Some (of_nat (read_nat_acc 0 a) + of_nat (read_nat_acc 0 d) / 10 ^ length d)
         else None)"

definition numeral_value :: "string \<Rightarrow> rat option" where
  "numeral_value s =
     (if s \<noteq> [] \<and> hd s = CHR ''-'' then map_option uminus (unsigned_value (tl s)) else unsigned_value s)"

section \<open>The browser's checks\<close>

definition is_number :: "field_config \<Rightarrow> bool" where
  "is_number f \<longleftrightarrow> fc_type f = Integer_field \<or> fc_type f = Decimal_field"

text \<open>\<open>step=\<close> as the input gets it.\<close>

definition input_step :: "field_config \<Rightarrow> string" where
  "input_step f =
     (case fc_step f of Some s \<Rightarrow> s | None \<Rightarrow> if fc_type f = Decimal_field then ''0.01'' else ''1'')"

text \<open>HTML: the value is at a whole number of steps from the minimum (from zero without one), and in
  the range.\<close>

definition on_step :: "field_config \<Rightarrow> rat \<Rightarrow> bool" where
  "on_step f r \<longleftrightarrow>
     (case numeral_value (input_step f) of
        None \<Rightarrow> True
      | Some stp \<Rightarrow>
          (let k = (r - (case fc_min f of None \<Rightarrow> 0 | Some lo \<Rightarrow> of_int lo)) / stp in of_int \<lfloor>k\<rfloor> = k))"

definition in_range :: "field_config \<Rightarrow> rat \<Rightarrow> bool" where
  "in_range f r \<longleftrightarrow>
     (case fc_min f of None \<Rightarrow> True | Some lo \<Rightarrow> of_int lo \<le> r) \<and> (case fc_max f of None \<Rightarrow> True | Some hi \<Rightarrow> r \<le> of_int hi)"

text \<open>A text input has no such constraint; the parameter \<open>valid\<close> of the component is the browser's.\<close>

definition number_inputs :: "(field_config \<Rightarrow> string \<Rightarrow> bool) \<Rightarrow> bool" where
  "number_inputs valid \<longleftrightarrow>
     (\<forall>f s. fc_type f = Text_field \<longrightarrow> valid f s)
     \<and> (\<forall>f s r. is_number f \<longrightarrow> numeral_value s = Some r \<longrightarrow> valid f s = (in_range f r \<and> on_step f r))"

section \<open>The schemas' checks\<close>

definition reads_numerals :: "(string \<Rightarrow> rat option) \<Rightarrow> bool" where
  "reads_numerals py_number \<longleftrightarrow> (\<forall>s r. numeral_value s = Some r \<longrightarrow> py_number s = Some r)"

definition number_of :: "(string \<Rightarrow> rat option) \<Rightarrow> json \<Rightarrow> rat option" where
  "number_of py_number v = (case v of JStr s \<Rightarrow> py_number s | JNum n \<Rightarrow> Some (of_int n) | _ \<Rightarrow> None)"

fun accepts :: "(string \<Rightarrow> rat option) \<Rightarrow> schema_type \<Rightarrow> json \<Rightarrow> bool" where
  "accepts py_number Str_min1 v = (case v of JStr s \<Rightarrow> s \<noteq> [] | _ \<Rightarrow> False)"
| "accepts py_number (Int_ge lo) v =
     (case number_of py_number v of None \<Rightarrow> False | Some r \<Rightarrow> of_int \<lfloor>r\<rfloor> = r \<and> of_int lo \<le> r)"
| "accepts py_number (Dec_range lo hi) v =
     (case number_of py_number v of
        None \<Rightarrow> False | Some r \<Rightarrow> of_int lo \<le> r \<and> (case hi of None \<Rightarrow> True | Some h \<Rightarrow> r \<le> of_int h))"
| "accepts py_number (Literal os) v = (case v of JStr s \<Rightarrow> s \<in> set os | _ \<Rightarrow> False)"
| "accepts py_number Bool_default v = (case v of JBool b \<Rightarrow> True | _ \<Rightarrow> False)"

text \<open>A body against a schema: in a Create schema every field but the flag is required, in an Update schema
  every field may be absent or null. Other keys are ignored.\<close>

definition body_accepted :: "(string \<Rightarrow> rat option) \<Rightarrow> bool \<Rightarrow> (string \<times> schema_type) list \<Rightarrow> (string \<times> json) list \<Rightarrow> bool" where
  "body_accepted py_number create schema ps \<longleftrightarrow>
     list_all (\<lambda>(k, t). case map_of ps k of
         None \<Rightarrow> \<not> create \<or> t = Bool_default
       | Some v \<Rightarrow> accepts py_number t v \<or> \<not> create \<and> v = JNull) schema"

section \<open>Fields and schema types\<close>

text \<open>A field whose constraints are those of the schema type.\<close>

definition corresponds :: "field_config \<Rightarrow> schema_type \<Rightarrow> bool" where
  "corresponds f t \<longleftrightarrow>
     (case fc_type f of
        Text_field \<Rightarrow> t = Str_min1
      | Switch_field \<Rightarrow> t = Bool_default
      | Select_field \<Rightarrow> (case fc_options f of None \<Rightarrow> False | Some os \<Rightarrow> t = Literal (map fst os))
      | Integer_field \<Rightarrow>
          (case fc_min f of None \<Rightarrow> False | Some lo \<Rightarrow> fc_max f = None \<and> t = Int_ge lo \<and> input_step f = ''1'')
      | Decimal_field \<Rightarrow> (case fc_min f of None \<Rightarrow> False | Some lo \<Rightarrow> t = Dec_range lo (fc_max f)))"

text \<open>A select holds one of its options.\<close>

definition chosen :: "form_values \<Rightarrow> field_config \<Rightarrow> bool" where
  "chosen values f \<longleftrightarrow>
     fc_type f \<noteq> Select_field
     \<or> (case (map_of values (fc_name f), fc_options f) of
          (Some (FText s), Some os) \<Rightarrow> s \<in> fst ` set os | _ \<Rightarrow> False)"

lemma one_value: "numeral_value ''1'' = Some 1"
  by code_simp

lemma integral_step:
  assumes "\<exists>n. r - of_int lo = (of_int n :: rat)"
  shows "of_int \<lfloor>r\<rfloor> = r"
proof -
  from assms obtain n where "r - of_int lo = of_int n" ..
  then have "r = of_int (n + lo)" by (simp add: algebra_simps)
  then show ?thesis by (simp del: of_int_add)
qed

lemma constraints_agree:
  assumes "corresponds f t" "is_number f" "number_inputs valid" "reads_numerals py" "numeral_value s = Some r" "on_step f r"
  shows "valid f s = accepts py t (JStr s)"
proof -
  have n: "py s = Some r" using assms(4,5) by (simp add: reads_numerals_def)
  have v: "valid f s = in_range f r" using assms(2,3,5,6) by (auto simp: number_inputs_def)
  show ?thesis
  proof (cases "fc_type f")
    case Integer_field
    then obtain lo where f: "fc_min f = Some lo" "fc_max f = None" "t = Int_ge lo" "input_step f = ''1''"
      using assms(1) by (auto simp: corresponds_def split: option.splits)
    then have "of_int \<lfloor>r\<rfloor> = r" using assms(6) by (intro integral_step [of r lo]) (simp add: on_step_def one_value Let_def)
    with f n v show ?thesis by (simp add: number_of_def in_range_def)
  next
    case Decimal_field
    then show ?thesis
      using assms(1) n v by (auto simp: corresponds_def number_of_def in_range_def split: option.splits)
  qed (use assms(2) in \<open>simp_all add: is_number_def\<close>)
qed

lemma field_accepted:
  assumes "corresponds f t" "number_inputs valid" "reads_numerals py" "field_typed values f" "input_ok valid values f"
    and plain: "\<And>s. is_number f \<Longrightarrow> map_of values (fc_name f) = Some (FText s) \<Longrightarrow> numeral_value s \<noteq> None"
  shows "accepts py t (sent_value values (fc_name f)) = chosen values f" "sent_value values (fc_name f) \<noteq> JNull"
proof -
  obtain v where v: "map_of values (fc_name f) = Some v" using assms(4) by (auto simp: field_typed_def split: option.splits)
  show "sent_value values (fc_name f) \<noteq> JNull" by (cases v) (simp_all add: sent_value_def v)
  show "accepts py t (sent_value values (fc_name f)) = chosen values f"
  proof (cases "is_number f")
    case True
    then obtain s where s: "v = FText s" "valid f s"
      using v assms(5) by (cases v) (auto simp: input_ok_def is_number_def split: if_splits)
    then obtain r where r: "numeral_value s = Some r" using plain [OF True] v by auto
    moreover have "on_step f r" using assms(2) True r s(2) by (auto simp: number_inputs_def)
    ultimately show ?thesis
      using constraints_agree [OF assms(1) True assms(2,3)] s v True by (auto simp: sent_value_def chosen_def is_number_def)
  next
    case False
    then show ?thesis
      using assms(1,4,5) v
      by (cases "fc_type f")
        (auto simp: is_number_def corresponds_def sent_value_def chosen_def input_ok_def field_typed_def
          split: option.splits form_value.splits)
  qed
qed

lemmas schema_defs = ProductCreate_def ProductUpdate_def WarehouseCreate_def WarehouseUpdate_def SupplierCreate_def
  SupplierUpdate_def CarrierCreate_def CarrierUpdate_def CostTier_def Variability_def ProductCategory_def

text \<open>A form's fields and the schema: the same keys, each with a corresponding type.\<close>

definition form_matches :: "md_props \<Rightarrow> bool \<Rightarrow> (string \<times> schema_type) list \<Rightarrow> bool" where
  "form_matches p create schema \<longleftrightarrow>
     distinct (map fst schema)
     \<and> list_all (\<lambda>f. case map_of schema (fc_name f) of None \<Rightarrow> False | Some t \<Rightarrow> corresponds f t) (relevant_fields p create)
     \<and> list_all (\<lambda>(k, t). k \<in> fc_name ` set (relevant_fields p create)
           \<or> create \<and> mp_entity p = ''products'' \<and> k = ''sku'') schema
     \<and> (create \<and> mp_entity p = ''products''
           \<longrightarrow> map_of schema ''sku'' = Some Str_min1 \<and> map_of schema ''id'' = Some Str_min1)"

lemma carriers_match:
  "form_matches (CarriersSettingsPage role) True CarrierCreate" "form_matches (CarriersSettingsPage role) False CarrierUpdate"
  by (simp_all add: form_matches_def relevant_fields_def page_defs field_lists field_defs schema_defs corresponds_def input_step_def)

lemma warehouses_match:
  "form_matches (WarehousesSettingsPage role) True WarehouseCreate"
  "form_matches (WarehousesSettingsPage role) False WarehouseUpdate"
  by (simp_all add: form_matches_def relevant_fields_def page_defs field_lists field_defs schema_defs corresponds_def input_step_def)

lemma products_match:
  "form_matches (ProductsSettingsPage role) True ProductCreate" "form_matches (ProductsSettingsPage role) False ProductUpdate"
  by (simp_all add: form_matches_def relevant_fields_def page_defs field_lists field_defs schema_defs corresponds_def input_step_def)

lemma suppliers_match:
  "form_matches (SuppliersSettingsPage role) True SupplierCreate" "form_matches (SuppliersSettingsPage role) False SupplierUpdate"
  by (simp_all add: form_matches_def relevant_fields_def page_defs field_lists field_defs schema_defs corresponds_def input_step_def)

text \<open>A number in one of the numerals the hypotheses on the browser and on pydantic speak of.\<close>

definition plain :: "form_values \<Rightarrow> field_config \<Rightarrow> bool" where
  "plain values f \<longleftrightarrow>
     \<not> is_number f \<or> (case map_of values (fc_name f) of Some (FText s) \<Rightarrow> numeral_value s \<noteq> None | _ \<Rightarrow> True)"

definition on_grid :: "field_config \<Rightarrow> string \<Rightarrow> bool" where
  "on_grid f s \<longleftrightarrow> (case numeral_value s of None \<Rightarrow> False | Some r \<Rightarrow> on_step f r)"

definition form_body :: "md_props \<Rightarrow> bool \<Rightarrow> form_values \<Rightarrow> (string \<times> json) list" where
  "form_body p create values =
     map (\<lambda>k. (k, sent_value values k)) (sent_fields p create)
     @ (if create \<and> mp_entity p = ''products'' then [(''sku'', sent_value values ''id'')] else [])"

lemma schema_of_field:
  assumes "form_matches p create schema" "f \<in> set (relevant_fields p create)"
  shows "\<exists>t. map_of schema (fc_name f) = Some t \<and> corresponds f t"
proof -
  have "case map_of schema (fc_name f) of None \<Rightarrow> False | Some t \<Rightarrow> corresponds f t"
    using assms by (simp add: form_matches_def list_all_iff)
  then show ?thesis by (cases "map_of schema (fc_name f)") simp_all
qed

lemma form_bodyD:
  assumes "wf_fields p" "form_matches p create schema"
  shows "distinct (map fst (form_body p create values))"
    and "set (map fst (form_body p create values)) = set (map fst schema)"
    and "f \<in> set (relevant_fields p create) \<Longrightarrow>
           map_of (form_body p create values) (fc_name f) = Some (sent_value values (fc_name f))"
    and "create \<Longrightarrow> mp_entity p = ''products'' \<Longrightarrow>
           map_of (form_body p create values) ''sku'' = Some (sent_value values ''id'')"
proof -
  have sku: "''sku'' \<notin> fc_name ` set (relevant_fields p create)"
    using assms(1) relevant_subset [of p create] by (auto simp: wf_fields_def)
  show "distinct (map fst (form_body p create values))"
    using relevant_distinct [OF assms(1), of create] sku
    by (cases "create \<and> mp_entity p = ''products''") (auto simp: form_body_def sent_fields_relevant o_def)
  show "map_of (form_body p create values) (fc_name f) = Some (sent_value values (fc_name f))"
    if f: "f \<in> set (relevant_fields p create)"
  proof -
    have in_fields: "fc_name f \<in> set (sent_fields p create)" using f by (simp add: sent_fields_relevant)
    show ?thesis by (simp add: form_body_def map_add_def map_of_keys [OF in_fields])
  qed
  show "map_of (form_body p create values) ''sku'' = Some (sent_value values ''id'')" if "create" "mp_entity p = ''products''"
  proof -
    have "map_of (map (\<lambda>k. (k, sent_value values k)) (sent_fields p create)) ''sku'' = None"
      using sku by (simp add: sent_fields_relevant map_of_eq_None_iff image_image)
    with that show ?thesis by (simp add: form_body_def map_add_def)
  qed
  have names: "fc_name f \<in> fst ` set schema" if "f \<in> set (relevant_fields p create)" for f
    using schema_of_field [OF assms(2) that] by (force dest: map_of_SomeD)
  have "''sku'' \<in> fst ` set schema" if "create" "mp_entity p = ''products''"
    using assms(2) that by (force simp: form_matches_def dest: map_of_SomeD)
  moreover have "k \<in> fc_name ` set (relevant_fields p create) \<or> create \<and> mp_entity p = ''products'' \<and> k = ''sku''"
    if "k \<in> fst ` set schema" for k
    using assms(2) that by (auto simp: form_matches_def list_all_iff)
  ultimately show "set (map fst (form_body p create values)) = set (map fst schema)"
    using names by (auto simp: form_body_def sent_fields_relevant image_image)
qed

lemma sent_accepted:
  assumes "form_matches p create schema" "number_inputs valid" "reads_numerals py_number" "form_typed p values"
    and "list_all (input_ok valid values) (relevant_fields p create)" "list_all (plain values) (mp_fields p)"
    and "f \<in> set (relevant_fields p create)" "map_of schema (fc_name f) = Some t"
  shows "accepts py_number t (sent_value values (fc_name f)) = chosen values f" "sent_value values (fc_name f) \<noteq> JNull"
proof -
  have f: "f \<in> set (mp_fields p)" using assms(7) relevant_subset [of p create] by blast
  have "corresponds f t" using assms(1,7,8) by (auto simp: form_matches_def list_all_iff)
  moreover have "field_typed values f" using assms(4) f by (simp add: form_typed_def list_all_iff)
  moreover have "input_ok valid values f" using assms(5,7) by (simp add: list_all_iff)
  moreover have "numeral_value s \<noteq> None" if "is_number f" "map_of values (fc_name f) = Some (FText s)" for s
    using assms(6) f that by (fastforce simp: list_all_iff plain_def)
  ultimately show "accepts py_number t (sent_value values (fc_name f)) = chosen values f"
    and "sent_value values (fc_name f) \<noteq> JNull"
    using field_accepted [of f t valid py_number "values"] assms(2,3) by blast+
qed

lemma sku_accepted:
  assumes "wf_fields p" "form_matches p True schema" "number_inputs valid" "reads_numerals py_number" "form_typed p values"
    and "list_all (input_ok valid values) (relevant_fields p True)" "list_all (plain values) (mp_fields p)"
    and "mp_entity p = ''products''"
  shows "accepts py_number Str_min1 (sent_value values ''id'')"
proof -
  obtain f where f: "f \<in> set (relevant_fields p True)" "fc_name f = ''id''"
    using assms(1) by (auto simp: wf_fields_def relevant_fields_def)
  have t: "map_of schema (fc_name f) = Some Str_min1" using assms(2,8) f(2) by (simp add: form_matches_def)
  then have "corresponds f Str_min1" using assms(2) f(1) by (auto simp: form_matches_def list_all_iff)
  then have "chosen values f" by (auto simp: corresponds_def chosen_def split: option.splits)
  then show ?thesis using sent_accepted(1) [OF assms(2-7) f(1) t] f(2) by simp
qed

lemma body_accepted_iff:
  assumes "wf_fields p" "form_matches p create schema" "number_inputs valid" "reads_numerals py_number" "form_typed p values"
    and "list_all (input_ok valid values) (relevant_fields p create)" "list_all (plain values) (mp_fields p)"
  shows "body_accepted py_number create schema (form_body p create values)
    \<longleftrightarrow> list_all (chosen values) (relevant_fields p create)" (is "?lhs = ?rhs")
proof
  note body = form_bodyD [OF assms(1,2)] and ok = sent_accepted [OF assms(2-7)]
  show ?rhs if ?lhs
    unfolding list_all_iff
  proof
    fix f assume f: "f \<in> set (relevant_fields p create)"
    then obtain t where t: "map_of schema (fc_name f) = Some t" using schema_of_field [OF assms(2)] by blast
    then have "accepts py_number t (sent_value values (fc_name f))"
      using that map_of_SomeD [OF t] ok(2) [OF f t] by (fastforce simp: body_accepted_def list_all_iff body(3) [OF f])
    then show "chosen values f" using ok(1) [OF f t] by simp
  qed
  show ?lhs if ?rhs
    unfolding body_accepted_def list_all_iff
  proof clarify
    fix k t assume kt: "(k, t) \<in> set schema"
    then have look: "map_of schema k = Some t" using assms(2) by (simp add: form_matches_def)
    consider f where "f \<in> set (relevant_fields p create)" "k = fc_name f"
      | "create" "mp_entity p = ''products''" "k = ''sku''"
      using assms(2) kt unfolding form_matches_def list_all_iff by blast
    then show "case map_of (form_body p create values) k of None \<Rightarrow> \<not> create \<or> t = Bool_default
      | Some v \<Rightarrow> accepts py_number t v \<or> \<not> create \<and> v = JNull"
    proof cases
      case 1
      then show ?thesis using ok(1) [of f t] look that body(3) [of f] by (simp add: list_all_iff)
    next
      case 2
      then have "t = Str_min1" using assms(2) look by (simp add: form_matches_def)
      then show ?thesis using 2 body(4) sku_accepted [of p schema] assms by simp
    qed
  qed
qed

lemma inputs_agree:
  assumes "form_matches p create schema" "number_inputs valid" "reads_numerals py_number"
    and "f \<in> set (relevant_fields p create)" "fc_type f = Text_field \<or> is_number f \<and> on_grid f s"
  shows "(s \<noteq> [] \<and> valid f s) = accepts py_number (the (map_of schema (fc_name f))) (JStr s)"
proof -
  obtain t where t: "map_of schema (fc_name f) = Some t" "corresponds f t"
    using schema_of_field [OF assms(1,4)] by blast
  from assms(5) show ?thesis
  proof
    assume "fc_type f = Text_field"
    then show ?thesis using t assms(2) by (simp add: corresponds_def number_inputs_def)
  next
    assume num: "is_number f \<and> on_grid f s"
    then obtain r where "numeral_value s = Some r" "on_step f r" by (auto simp: on_grid_def split: option.splits)
    moreover from this have "s \<noteq> []" by (auto simp: numeral_value_def unsigned_value_def digits_def Let_def)
    ultimately show ?thesis using constraints_agree [OF t(2) _ assms(2,3)] num t(1) by simp
  qed
qed

lemma settings_forms_match:
  assumes "(p, create, update) \<in> set (settings_schemas role)"
  shows "wf_fields p" "form_matches p True create" "form_matches p False update"
  using assms carriers_match warehouses_match products_match suppliers_match by (auto simp: settings_schemas_def)

lemma submit_sent:
  assumes "wf_fields p" "form_typed p (cr_values st)" "cr_sent (handleSubmit valid p st) = cr_sent st @ [u]"
  shows "uc_body u = Some (JObj (form_body p (cr_dialog st = Creating) (cr_values st)))"
    and "list_all (input_ok valid (cr_values st)) (relevant_fields p (cr_dialog st = Creating))"
    and "cr_dialog st \<noteq> Closed"
  using assms(3) payload_eq [OF assms(1,2)]
  by (auto simp: handleSubmit_def submit_call_def form_body_def post_def patch_def split: if_splits option.splits md_dialog.splits)

section \<open>The forms against the schemas\<close>

text \<open>C26: Every settings form sends what the backend's schema of that form reads. In every run, the body of
  a submission has exactly the fields of the entity's Create schema (of its Update schema, on an edit),
  once each, and the schema accepts it exactly when every select of the form holds one of its options:
  an untouched select is the only thing the form lets through that the schema refuses. And on every
  other input the two checks are one: of the numerals on the input's step grid, and of all texts, the
  browser lets through those the schema accepts. Numbers are taken in decimal notation without an
  exponent; values finer than the step are refused by the form only, and the carriers' rule that the
  shortest transit is not above the longest is the router's, outside the schema.\<close>

theorem forms_match_backend:
  assumes "(p, create, update) \<in> set (settings_schemas role)"
    and "number_inputs valid" and "reads_numerals py_number"
    and "schema = (if cr_dialog (crud_run valid p es) = Creating then create else update)"
    and "cr_sent (handleSubmit valid p (crud_run valid p es)) = cr_sent (crud_run valid p es) @ [u]"
    and "list_all (plain (cr_values (crud_run valid p es))) (mp_fields p)"
  shows "(\<exists>ps. uc_body u = Some (JObj ps)
        \<and> distinct (map fst ps) \<and> set (map fst ps) = set (map fst schema)
        \<and> (body_accepted py_number (cr_dialog (crud_run valid p es) = Creating) schema ps
            \<longleftrightarrow> list_all (chosen (cr_values (crud_run valid p es)))
                  (relevant_fields p (cr_dialog (crud_run valid p es) = Creating))))
    \<and> (\<forall>f s. f \<in> set (relevant_fields p (cr_dialog (crud_run valid p es) = Creating))
          \<and> (fc_type f = Text_field \<or> is_number f \<and> on_grid f s)
        \<longrightarrow> (s \<noteq> [] \<and> valid f s) = accepts py_number (the (map_of schema (fc_name f))) (JStr s))"
proof -
  define st where "st = crud_run valid p es"
  let ?c = "cr_dialog st = Creating" and ?b = "form_body p (cr_dialog st = Creating) (cr_values st)"
  note page = settings_forms_match [OF assms(1)]
  have matches: "form_matches p ?c schema" using page(2,3) assms(4) by (simp add: st_def)
  have "cr_dialog st \<noteq> Closed" using assms(5) by (auto simp: st_def handleSubmit_def submit_call_def split: if_splits)
  then have typed: "form_typed p (cr_values st)" using crud_run_ok [OF page(1), of valid es] by (simp add: crud_ok_def st_def)
  note sent = submit_sent [OF page(1) typed assms(5) [folded st_def]]
  have "body_accepted py_number ?c schema ?b \<longleftrightarrow> list_all (chosen (cr_values st)) (relevant_fields p ?c)"
    using body_accepted_iff [OF page(1) matches assms(2,3) typed sent(2)] assms(6) by (simp add: st_def)
  moreover have "(s \<noteq> [] \<and> valid f s) = accepts py_number (the (map_of schema (fc_name f))) (JStr s)"
    if "f \<in> set (relevant_fields p ?c)" "fc_type f = Text_field \<or> is_number f \<and> on_grid f s" for f s
    using inputs_agree [OF matches assms(2,3) that] .
  ultimately show ?thesis
    using sent(1) form_bodyD(1,2) [OF page(1) matches, of "cr_values st"] unfolding st_def by blast
qed

text \<open>A browser as the hypotheses want it, and a saved carrier.\<close>

definition plain_browser :: "field_config \<Rightarrow> string \<Rightarrow> bool" where
  "plain_browser f s \<longleftrightarrow>
     fc_type f = Text_field \<or> (case numeral_value s of None \<Rightarrow> False | Some r \<Rightarrow> in_range f r \<and> on_step f r)"

lemma plain_browser_ok: "number_inputs plain_browser" "reads_numerals numeral_value"
  by (auto simp: number_inputs_def plain_browser_def reads_numerals_def is_number_def)

lemma sample_numerals [simp]:
  "numeral_value ''1.5'' = Some (3 / 2)" "numeral_value ''3'' = Some 3" "numeral_value ''99'' = Some 99"
  "numeral_value ''0.1'' = Some (1 / 10)" "numeral_value ''0.01'' = Some (1 / 100)"
  by (simp_all add: numeral_value_def unsigned_value_def digits_def byte_def)

lemma sample_opened:
  "cr_values (crud_run valid admin_carriers [Edit_clicked sample_carrier]) =
     [(''id'', FText ''CAR-1''), (''name'', FText ''Fast''), (''transit_days_min'', FText ''1.5''),
      (''transit_days_max'', FText ''3''), (''variability'', FText ''low''), (''reliability_pct'', FText ''99''),
      (''is_active'', FFlag True)]"
  "cr_dialog (crud_run valid admin_carriers [Edit_clicked sample_carrier]) = Editing sample_carrier"
  "\<not> cr_submitting (crud_run valid admin_carriers [Edit_clicked sample_carrier])"
  by (simp_all add: crud_run_def init_crud_def openEdit_def rowToFormValues_def field_lists field_defs row_get_def
      sample_carrier_def field_text_def)

theorem forms_match_backend_witness:
  "\<exists>u ps. cr_sent (handleSubmit plain_browser admin_carriers (crud_run plain_browser admin_carriers [Edit_clicked sample_carrier]))
       = cr_sent (crud_run plain_browser admin_carriers [Edit_clicked sample_carrier]) @ [u]
     \<and> uc_body u = Some (JObj ps) \<and> body_accepted numeral_value False CarrierUpdate ps"
proof -
  let ?st = "crud_run plain_browser admin_carriers [Edit_clicked sample_carrier]"
  let ?fields = "relevant_fields admin_carriers False"
  have page: "(admin_carriers, CarrierCreate, CarrierUpdate) \<in> set (settings_schemas (Some ''admin''))"
    by (simp add: settings_schemas_def admin_carriers_def)
  have inputs: "list_all (input_ok plain_browser (cr_values ?st)) ?fields"
    unfolding sample_opened
    by (simp add: relevant_fields_def field_lists field_defs input_ok_def plain_browser_def in_range_def on_step_def input_step_def)
  have plain: "list_all (plain (cr_values ?st)) (mp_fields admin_carriers)"
    unfolding sample_opened by (simp add: field_lists field_defs plain_def is_number_def)
  have chosen: "list_all (chosen (cr_values ?st)) ?fields"
    unfolding sample_opened by (simp add: relevant_fields_def field_lists field_defs chosen_def)
  obtain u where "cr_sent (handleSubmit plain_browser admin_carriers ?st) = cr_sent ?st @ [u]"
    using inputs by (simp add: handleSubmit_def sample_opened submit_call_def)
  with forms_match_backend [OF page plain_browser_ok, of CarrierUpdate "[Edit_clicked sample_carrier]" u]
  show ?thesis using plain chosen by (auto simp: sample_opened(2))
qed

end
