(* ===== verification/Repopulate.thy ===== *)
theory Repopulate
  imports Ui_Common
begin

text \<open>
  The Builder's \<open>simulation/repopulate-panel.tsx\<close>: the typed confirmation, the start of a
  rebuild, and the polling of its status. One event is one user action, timer tick or reply; after
  each, React commits the state and runs the effects whose dependencies changed.
\<close>

section \<open>State\<close>

definition CONFIRM_PHRASE :: string where
  "CONFIRM_PHRASE = ''REPOPULATE''"

definition POLL_INTERVAL_MS :: nat where
  "POLL_INTERVAL_MS = 2000"

datatype run_state = Idle | Running | Succeeded | Failed

record repopulate_status =
  rs_state :: run_state
  rs_started_at :: "string option"
  rs_finished_at :: "string option"
  rs_days_done :: int
  rs_days_total :: int
  rs_message :: "string option"

text \<open>
  \<open>rp_timer\<close>: the interval is set. \<open>rp_polls\<close> counts the status requests in flight, and
  \<open>rp_sent\<close> is the history of the requests that start a rebuild.
\<close>

record repopulate =
  rp_typed :: string
  rp_status :: "repopulate_status option"
  rp_isStarting :: bool
  rp_wasRunning :: bool
  rp_timer :: bool
  rp_polls :: nat
  rp_sent :: "ui_call list"
  rp_toasts :: "toast list"
  rp_refreshes :: nat

definition status_state :: "repopulate_status option \<Rightarrow> run_state option" where
  "status_state s = map_option rs_state s"

definition isRunning :: "repopulate \<Rightarrow> bool" where
  "isRunning st \<longleftrightarrow> status_state (rp_status st) = Some Running"

definition percent :: "repopulate_status option \<Rightarrow> int" where
  "percent s =
     (case s of
        None \<Rightarrow> 0
      | Some v \<Rightarrow>
          if 0 < rs_days_total v
          then (200 * rs_days_done v + rs_days_total v) div (2 * rs_days_total v) \<comment> \<open>\<open>Math.round\<close>: half up\<close>
          else 0)"

section \<open>Requests\<close>

definition refreshStatus :: "repopulate \<Rightarrow> repopulate" where
  "refreshStatus st = st\<lparr>rp_polls := Suc (rp_polls st)\<rparr>"

definition errorDetail :: "json \<Rightarrow> string" where
  "errorDetail body = detail_text body ''Could not start the rebuild''"

text \<open>The button: there only while no rebuild runs, enabled for the exact word.\<close>

definition handleStart :: "repopulate \<Rightarrow> repopulate" where
  "handleStart st =
     (if isRunning st \<or> rp_typed st \<noteq> CONFIRM_PHRASE \<or> rp_isStarting st then st
      else st\<lparr>rp_isStarting := True,
              rp_sent := rp_sent st
                @ [post ''/api/simulation/repopulate'' (Some (JObj [(''confirm'', JStr (rp_typed st))]))]\<rparr>)"

section \<open>Effects after a commit\<close>

text \<open>
  The interval follows \<open>isRunning\<close>; the third effect runs when \<open>isRunning\<close> or the state
  changed, announces the end of a run and remembers whether one is running.
\<close>

definition poll_effect :: "repopulate \<Rightarrow> repopulate" where
  "poll_effect st = st\<lparr>rp_timer := isRunning st\<rparr>"

definition announce_effect :: "repopulate \<Rightarrow> repopulate" where
  "announce_effect st =
     (let st1 = (if rp_wasRunning st \<and> status_state (rp_status st) = Some Succeeded
                 then st\<lparr>rp_toasts := rp_toasts st @ [Success ''Simulation rebuilt''], rp_refreshes := Suc (rp_refreshes st)\<rparr>
                 else st);
          st2 = (if rp_wasRunning st1 \<and> status_state (rp_status st1) = Some Failed
                 then st1\<lparr>rp_toasts := rp_toasts st1 @ [Failure ''The rebuild failed'']\<rparr>
                 else st1)
      in st2\<lparr>rp_wasRunning := isRunning st2\<rparr>)"

definition setStatus :: "repopulate_status \<Rightarrow> repopulate \<Rightarrow> repopulate" where
  "setStatus s st =
     (let st1 = st\<lparr>rp_status := Some s\<rparr>;
          st2 = (if isRunning st1 = isRunning st then st1 else poll_effect st1)
      in if status_state (rp_status st1) = status_state (rp_status st) then st2 else announce_effect st2)"

section \<open>Replies\<close>

text \<open>A poll that is refused, unreachable or unreadable changes nothing.\<close>

datatype poll_reply = Polled repopulate_status | Poll_missed

definition pollReplied :: "poll_reply \<Rightarrow> repopulate \<Rightarrow> repopulate" where
  "pollReplied r st =
     (if rp_polls st = 0 then st
      else (case r of Polled s \<Rightarrow> setStatus s (st\<lparr>rp_polls := rp_polls st - 1\<rparr>)
                    | Poll_missed \<Rightarrow> st\<lparr>rp_polls := rp_polls st - 1\<rparr>))"

text \<open>The reply to the start: its body (\<open>{}\<close> when unreadable) if it is refused.\<close>

datatype start_reply = Started repopulate_status | Start_refused json | Start_failed

definition startReplied :: "start_reply \<Rightarrow> repopulate \<Rightarrow> repopulate" where
  "startReplied r st =
     (if \<not> rp_isStarting st then st
      else (case r of
              Started s \<Rightarrow> setStatus s (st\<lparr>rp_typed := []\<rparr>)
            | Start_refused body \<Rightarrow>
                st\<lparr>rp_toasts := rp_toasts st @ [Failure (if body = JNull then unreachable else errorDetail body)]\<rparr>
            | Start_failed \<Rightarrow> st\<lparr>rp_toasts := rp_toasts st @ [Failure unreachable]\<rparr>)
           \<lparr>rp_isStarting := False\<rparr>)"

section \<open>The machine\<close>

definition mountPanel :: repopulate where
  "mountPanel =
     refreshStatus \<lparr>rp_typed = [], rp_status = None, rp_isStarting = False, rp_wasRunning = False, rp_timer = False,
       rp_polls = 0, rp_sent = [], rp_toasts = [], rp_refreshes = 0\<rparr>"

datatype repopulate_event =
    Typed string
  | Start_clicked
  | Start_replied start_reply
  | Tick
  | Poll_replied poll_reply

text \<open>The input is there only while no rebuild runs.\<close>

fun repopulate_step :: "repopulate_event \<Rightarrow> repopulate \<Rightarrow> repopulate" where
  "repopulate_step (Typed s) st = (if isRunning st then st else st\<lparr>rp_typed := s\<rparr>)"
| "repopulate_step Start_clicked st = handleStart st"
| "repopulate_step (Start_replied r) st = startReplied r st"
| "repopulate_step Tick st = (if rp_timer st then refreshStatus st else st)"
| "repopulate_step (Poll_replied r) st = pollReplied r st"

definition repopulate_run :: "repopulate_event list \<Rightarrow> repopulate" where
  "repopulate_run es = fold repopulate_step es mountPanel"

text \<open>What the panel shows.\<close>

definition progress_text :: "repopulate_status \<Rightarrow> string" where
  "progress_text s =
     (if 0 < rs_days_total s then ''day '' @ show_int (rs_days_done s) @ '' of '' @ show_int (rs_days_total s)
      else ''starting'')"

definition outcome_text :: "repopulate_status option \<Rightarrow> string option" where
  "outcome_text s =
     (case s of
        Some v \<Rightarrow> if rs_state v = Succeeded \<or> rs_state v = Failed then truthy (rs_message v) else None
      | None \<Rightarrow> None)"

section \<open>Properties\<close>

lemma setStatus_simps [simp]:
  "rp_status (setStatus s st) = Some s" "rp_sent (setStatus s st) = rp_sent st" "rp_typed (setStatus s st) = rp_typed st"
  "rp_isStarting (setStatus s st) = rp_isStarting st"
  by (simp_all add: setStatus_def announce_effect_def poll_effect_def Let_def)

text \<open>The interval and the memory of the third effect agree with the status on screen.\<close>

definition panel_ok :: "repopulate \<Rightarrow> bool" where
  "panel_ok st \<longleftrightarrow>
     rp_timer st = isRunning st \<and> rp_wasRunning st = isRunning st
     \<and> list_all (\<lambda>u. u = post ''/api/simulation/repopulate'' (Some (JObj [(''confirm'', JStr CONFIRM_PHRASE)]))) (rp_sent st)"

lemma setStatus_ok: "panel_ok st \<Longrightarrow> panel_ok (setStatus s st)"
  by (cases "rp_status st"; cases "rs_state s = Running")
    (simp_all add: panel_ok_def setStatus_def announce_effect_def poll_effect_def isRunning_def status_state_def Let_def)

lemma panel_ok_frame:
  "rp_status st' = rp_status st \<Longrightarrow> rp_timer st' = rp_timer st \<Longrightarrow> rp_wasRunning st' = rp_wasRunning st
   \<Longrightarrow> rp_sent st' = rp_sent st \<Longrightarrow> panel_ok st' = panel_ok st"
  by (simp add: panel_ok_def isRunning_def)

lemma replies_keep_ok:
  assumes "panel_ok st"
  shows "panel_ok (startReplied r st)" "panel_ok (pollReplied q st)"
proof -
  have frame: "panel_ok (st\<lparr>rp_typed := x\<rparr>)" "panel_ok (st\<lparr>rp_polls := n\<rparr>)" "panel_ok (st\<lparr>rp_toasts := ts\<rparr>)" for x n ts
    using assms by (simp_all add: panel_ok_def isRunning_def)
  have idle: "panel_ok (st'\<lparr>rp_isStarting := b\<rparr>) = panel_ok st'" for st' b by (rule panel_ok_frame) simp_all
  show "panel_ok (startReplied r st)" "panel_ok (pollReplied q st)"
    using assms by (auto simp: startReplied_def pollReplied_def idle setStatus_ok frame split: start_reply.split poll_reply.split)
qed

lemma repopulate_step_ok: "panel_ok st \<Longrightarrow> panel_ok (repopulate_step e st)"
proof (cases e)
  case (Start_replied r)
  then show "panel_ok st \<Longrightarrow> ?thesis" by (simp add: replies_keep_ok)
next
  case (Poll_replied r)
  then show "panel_ok st \<Longrightarrow> ?thesis" by (simp add: replies_keep_ok)
qed (simp_all add: handleStart_def refreshStatus_def panel_ok_def isRunning_def)

lemma repopulate_run_ok: "panel_ok (repopulate_run es)"
proof -
  have "panel_ok (fold repopulate_step es st)" if "panel_ok st" for st
    using that by (induction es arbitrary: st) (simp_all add: repopulate_step_ok)
  moreover have "panel_ok mountPanel" by (simp add: panel_ok_def mountPanel_def refreshStatus_def isRunning_def status_state_def)
  ultimately show ?thesis by (simp add: repopulate_run_def)
qed

text \<open>C28: No click, reply or timer makes the panel start a rebuild without the word: every start request it
  sends carries the exact confirmation phrase, and the panel polls exactly while the status it shows
  is running.\<close>

theorem rebuild_needs_the_word:
  "list_all (\<lambda>u. u = post ''/api/simulation/repopulate'' (Some (JObj [(''confirm'', JStr ''REPOPULATE'')])))
     (rp_sent (repopulate_run es))
   \<and> rp_timer (repopulate_run es) = isRunning (repopulate_run es)"
  using repopulate_run_ok [of es] by (simp add: panel_ok_def CONFIRM_PHRASE_def)

text \<open>The progress bar never leaves its range, and moves forward with the days.\<close>

theorem progress_in_range:
  assumes "0 \<le> rs_days_done s" and "rs_days_done s \<le> rs_days_total s"
  shows "0 \<le> percent (Some s) \<and> percent (Some s) \<le> 100
    \<and> (rs_days_done s \<le> d \<longrightarrow> percent (Some s) \<le> percent (Some (s\<lparr>rs_days_done := d\<rparr>)))
    \<and> (0 < rs_days_total s \<and> rs_days_done s = rs_days_total s \<longrightarrow> percent (Some s) = 100)"
proof (cases "0 < rs_days_total s")
  case False
  then show ?thesis using assms by (simp add: percent_def)
next
  case True
  let ?n = "rs_days_total s"
  have up: "(200 * rs_days_done s + ?n) div (2 * ?n) \<le> (200 * ?n + ?n) div (2 * ?n)"
    using assms True by (intro zdiv_mono1) auto
  have full: "(200 * ?n + ?n) div (2 * ?n) = 100"
    using True by (intro int_div_pos_eq [of _ _ _ ?n]) auto
  have "0 \<le> (200 * rs_days_done s + ?n) div (2 * ?n)"
    using assms True by (intro pos_imp_zdiv_nonneg_iff [THEN iffD2]) auto
  moreover have "rs_days_done s \<le> d \<longrightarrow> (200 * rs_days_done s + ?n) div (2 * ?n) \<le> (200 * d + ?n) div (2 * ?n)"
    using True by (auto intro: zdiv_mono1)
  ultimately show ?thesis using True up full by (simp add: percent_def)
qed

definition run_status :: "run_state \<Rightarrow> int \<Rightarrow> repopulate_status" where
  "run_status s d =
     \<lparr>rs_state = s, rs_started_at = None, rs_finished_at = None, rs_days_done = d, rs_days_total = 30, rs_message = None\<rparr>"

theorem progress_in_range_witness:
  "percent (Some (run_status Running 7)) \<le> 100 \<and> percent (Some (run_status Running 7)) = 23"
  using progress_in_range [of "run_status Running 7" 8] by (simp add: run_status_def percent_def)

text \<open>The end of a rebuild is announced when the panel saw it running before, once for each change.\<close>

lemma end_announced:
  "panel_ok st \<Longrightarrow> isRunning st \<Longrightarrow> rs_state s = Succeeded \<Longrightarrow>
     rp_toasts (setStatus s st) = rp_toasts st @ [Success ''Simulation rebuilt'']
     \<and> rp_refreshes (setStatus s st) = Suc (rp_refreshes st) \<and> \<not> rp_timer (setStatus s st)"
  by (cases "rp_status st") (simp_all add: panel_ok_def setStatus_def announce_effect_def poll_effect_def isRunning_def status_state_def Let_def)

text \<open>Replies are applied in the order they arrive. When the status read at the opening of the panel is
  slow, and arrives after a new rebuild was started, with the state an earlier rebuild ended in, the
  panel announces that the rebuild it just started is done, stops polling, and shows no progress
  though the server is still at work.\<close>

theorem late_status_ends_new_rebuild:
  assumes "rs_state started = Running" and "rs_state old = Succeeded"
  shows "let st = repopulate_run [Typed ''REPOPULATE'', Start_clicked, Start_replied (Started started), Poll_replied (Polled old)]
    in rp_toasts st = [Success ''Simulation rebuilt''] \<and> \<not> rp_timer st \<and> \<not> isRunning st \<and> rp_polls st = 0"
  using assms
  by (simp add: repopulate_run_def mountPanel_def refreshStatus_def handleStart_def startReplied_def pollReplied_def
      setStatus_def announce_effect_def poll_effect_def isRunning_def status_state_def CONFIRM_PHRASE_def Let_def)

theorem late_status_ends_new_rebuild_witness:
  "rp_toasts (repopulate_run [Typed ''REPOPULATE'', Start_clicked, Start_replied (Started (run_status Running 0)),
     Poll_replied (Polled (run_status Succeeded 30))]) = [Success ''Simulation rebuilt'']"
  using late_status_ends_new_rebuild [of "run_status Running 0" "run_status Succeeded 30"]
  by (simp add: run_status_def Let_def)

end
