(* ===== verification/Mail_Panels.thy ===== *)
theory Mail_Panels
  imports Composer Chat_Data Ui_Common
begin

text \<open>
  Two panels of the Builder's mail page: the AI assistance above the composer
  (\<open>mail/components/ai-assist-panel.tsx\<close>, with its handlers in \<open>mail.tsx\<close>) and the dialog that
  opens a thread (\<open>new-thread-dialog.tsx\<close>). The assistance writes into the composer of
  \<open>Composer\<close>; a closure writes for the thread that was open when it was made.
\<close>

section \<open>Requests and replies of the assistance (mail.tsx)\<close>

datatype ai_action = Suggest_opening | Suggest_pushback | Check_sufficiency

fun ai_segment :: "ai_action \<Rightarrow> string" where
  "ai_segment Suggest_opening = ''suggest-opening''"
| "ai_segment Suggest_pushback = ''suggest-pushback''"
| "ai_segment Check_sufficiency = ''sufficiency-check''"

definition ai_call :: "ai_action \<Rightarrow> string \<Rightarrow> attitude \<Rightarrow> ui_call" where
  "ai_call a threadId att =
     post (''/api/chat/threads/'' @ threadId @ ''/'' @ ai_segment a)
       (if a = Check_sufficiency then None else Some (JObj [(''attitude'', JStr (attitude_value att))]))"

definition aiErrorDetail :: "http_response \<Rightarrow> string" where
  "aiErrorDetail r =
     (case rs_body r of
        BodyJson j \<Rightarrow>
          (case opt_prop j ''detail'' of
             Some (JStr s) \<Rightarrow> s
           | _ \<Rightarrow> ''Request failed ('' @ show_nat (rs_status r) @ '')'')
      | _ \<Rightarrow> ''Request failed ('' @ show_nat (rs_status r) @ '')'')"

text \<open>
  What an action's promise settles with: a suggested message, a verdict (sufficient or not) with a
  suggested pushback, a refusal, or a rejection when there is no answer or an unreadable one.
\<close>

datatype ai_reply =
    Suggested string
  | Verdict bool "string option"
  | Ai_refused http_response
  | Ai_rejected

section \<open>The panel within the thread view\<close>

text \<open>
  \<open>av_panel\<close> numbers the mounted panel: it is unmounted while no thread is open, and a setter of
  an unmounted panel does nothing. A flight holds the action, the thread its closure captured and
  the panel that started it. \<open>av_calls\<close> is the history of the requests.
\<close>

record ai_flight =
  af_action :: ai_action
  af_thread :: string
  af_panel :: nat

record assist_view =
  av_composer :: composer
  av_hasMessages :: bool
  av_hasAnalystMessage :: bool
  av_attitude :: attitude
  av_pending :: bool
  av_error :: "string option"
  av_verdict :: "(string \<times> string option) option"
  av_panel :: nat
  av_flights :: "ai_flight list"
  av_calls :: "(string option \<times> ui_call) list"

definition init_view :: "storage \<Rightarrow> assist_view" where
  "init_view s =
     \<lparr>av_composer = init_composer s, av_hasMessages = False, av_hasAnalystMessage = False, av_attitude = neutral,
      av_pending = False, av_error = None, av_verdict = None, av_panel = 0, av_flights = [], av_calls = []\<rparr>"

definition offered :: "assist_view \<Rightarrow> ai_action list" where
  "offered v =
     (if cm_thread (av_composer v) = None then []
      else (if \<not> av_hasMessages v then [Suggest_opening] else [])
           @ (if av_hasAnalystMessage v then [Suggest_pushback, Check_sufficiency] else []))"

text \<open>The \<open>messages\<close> prop, of which the panel gets two facts; it clears itself when one flips.\<close>

definition messages_change :: "chat_message list \<Rightarrow> assist_view \<Rightarrow> assist_view" where
  "messages_change ms v =
     (let hm = (ms \<noteq> []); ha = (\<exists>m \<in> set ms. ms_sender_role m = ''analyst'')
      in if hm = av_hasMessages v \<and> ha = av_hasAnalystMessage v then v
         else v\<lparr>av_hasMessages := hm, av_hasAnalystMessage := ha, av_error := None, av_verdict := None\<rparr>)"

definition view_thread :: "(string \<times> string) option \<Rightarrow> assist_view \<Rightarrow> assist_view" where
  "view_thread thread v =
     (let v1 = v\<lparr>av_composer := b_openThread thread (av_composer v)\<rparr>
      in if thread = None
         then v1\<lparr>av_panel := Suc (av_panel v), av_attitude := neutral, av_pending := False, av_error := None, av_verdict := None\<rparr>
         else v1)"

definition setAttitude :: "attitude \<Rightarrow> assist_view \<Rightarrow> assist_view" where
  "setAttitude a v = (if cm_thread (av_composer v) = None then v else v\<lparr>av_attitude := a\<rparr>)"

text \<open>\<open>runSuggest\<close> and \<open>runSufficiencyCheck\<close>, up to the \<open>await\<close>.\<close>

definition run_ai :: "ai_action \<Rightarrow> assist_view \<Rightarrow> assist_view" where
  "run_ai a v =
     (case cm_thread (av_composer v) of
        None \<Rightarrow> v
      | Some threadId \<Rightarrow>
          if av_pending v \<or> a \<notin> set (offered v) then v
          else v\<lparr>av_pending := True, av_error := None, av_verdict := None,
                 av_calls := av_calls v @ [(Some threadId, ai_call a threadId (av_attitude v))],
                 av_flights := av_flights v @ [\<lparr>af_action = a, af_thread = threadId, af_panel = av_panel v\<rparr>]\<rparr>)"

definition verdict_text :: "bool \<Rightarrow> string" where
  "verdict_text ok = (if ok then ''Sufficient '' @ em_dash @ '' safe to mark Completed.'' else ''Insufficient.'')"

text \<open>The panel's own setters: no effect once it was unmounted.\<close>

definition if_mounted :: "ai_flight \<Rightarrow> (assist_view \<Rightarrow> assist_view) \<Rightarrow> assist_view \<Rightarrow> assist_view" where
  "if_mounted f g v = (if af_panel f = av_panel v then g v else v)"

definition aiReplied :: "nat \<Rightarrow> ai_reply \<Rightarrow> assist_view \<Rightarrow> assist_view" where
  "aiReplied i r v =
     (if length (av_flights v) \<le> i then v
      else
        let f = av_flights v ! i;
            v1 = v\<lparr>av_flights := take i (av_flights v) @ drop (Suc i) (av_flights v)\<rparr>;
            v2 = (case r of
                    Suggested m \<Rightarrow>
                      (if af_action f = Check_sufficiency then v1
                       else v1\<lparr>av_composer := b_handleDraftChange (af_thread f) m (av_composer v1)\<rparr>)
                  | Verdict ok p \<Rightarrow>
                      (if af_action f \<noteq> Check_sufficiency then v1
                       else if_mounted f (\<lambda>x. x\<lparr>av_verdict := Some (verdict_text ok, p)\<rparr>) v1)
                  | Ai_refused resp \<Rightarrow> if_mounted f (\<lambda>x. x\<lparr>av_error := Some (aiErrorDetail resp)\<rparr>) v1
                  | Ai_rejected \<Rightarrow> v1)
        in if_mounted f (\<lambda>x. x\<lparr>av_pending := False\<rparr>) v2)"

text \<open>The button below a verdict: there only for a suggested pushback that is not empty.\<close>

definition acceptSuggestedPushback :: "assist_view \<Rightarrow> assist_view" where
  "acceptSuggestedPushback v =
     (case (cm_thread (av_composer v), av_verdict v) of
        (Some threadId, Some (t, p)) \<Rightarrow>
          (case truthy p of
             None \<Rightarrow> v
           | Some text \<Rightarrow> v\<lparr>av_composer := b_handleDraftChange threadId text (av_composer v), av_verdict := None\<rparr>)
      | _ \<Rightarrow> v)"

text \<open>Switching threads goes through \<open>View\<close>; the composer's other events reach it as they are.\<close>

datatype assist_event =
    View "(string \<times> string) option"
  | Messages "chat_message list"
  | Attitude_picked attitude
  | Ai_clicked ai_action
  | Ai_replied nat ai_reply
  | Pushback_used
  | Compose compose_event

fun assist_step :: "assist_event \<Rightarrow> assist_view \<Rightarrow> assist_view" where
  "assist_step (View t) v = view_thread t v"
| "assist_step (Messages ms) v = messages_change ms v"
| "assist_step (Attitude_picked a) v = setAttitude a v"
| "assist_step (Ai_clicked a) v = run_ai a v"
| "assist_step (Ai_replied i r) v = aiReplied i r v"
| "assist_step Pushback_used v = acceptSuggestedPushback v"
| "assist_step (Compose e) v =
     (case e of Open t \<Rightarrow> v | _ \<Rightarrow> v\<lparr>av_composer := b_compose e (av_composer v)\<rparr>)"

definition assist_run :: "storage \<Rightarrow> assist_event list \<Rightarrow> assist_view" where
  "assist_run s es = fold assist_step es (init_view s)"

section \<open>new-thread-dialog.tsx\<close>

text \<open>\<open>nt_flight\<close>: the creation awaited, \<open>nt_created\<close> the history of the calls of \<open>onCreate\<close>.\<close>

record new_thread =
  nt_open :: bool
  nt_scenarioId :: string
  nt_persona :: string
  nt_creating :: bool
  nt_created :: "(string \<times> string) list"

definition init_dialog :: new_thread where
  "init_dialog = \<lparr>nt_open = False, nt_scenarioId = [], nt_persona = [], nt_creating = False, nt_created = []\<rparr>"

definition handleCreate :: "new_thread \<Rightarrow> new_thread" where
  "handleCreate d =
     (if nt_scenarioId d = [] \<or> nt_persona d = [] \<or> nt_creating d then d
      else d\<lparr>nt_creating := True, nt_created := nt_created d @ [(nt_scenarioId d, nt_persona d)]\<rparr>)"

text \<open>\<open>onCreate\<close> resolves when the backend answered, whatever it answered, and rejects otherwise.\<close>

definition createSettles :: "bool \<Rightarrow> new_thread \<Rightarrow> new_thread" where
  "createSettles resolved d =
     (if \<not> nt_creating d then d
      else (if resolved then d\<lparr>nt_open := False, nt_scenarioId := [], nt_persona := []\<rparr> else d)
           \<lparr>nt_creating := False\<rparr>)"

text \<open>
  \<open>handleCreateThread\<close> returns early on a refusal; then it selects the thread, which fetches its
  history and marks it read. It rejects on a body that is not an object, on a request without an
  answer and on a history that cannot be read.
\<close>

definition onCreate_resolves :: "fetch_result \<Rightarrow> fetch_result \<Rightarrow> fetch_result \<Rightarrow> bool" where
  "onCreate_resolves r history read =
     (case r of
        NetError \<Rightarrow> False
      | Reply resp \<Rightarrow>
          \<not> resp_ok resp
          \<or> (case rs_body resp of BodyJson j \<Rightarrow> j \<noteq> JNull | _ \<Rightarrow> False)
             \<and> (case history of
                   NetError \<Rightarrow> False
                 | Reply h \<Rightarrow> \<not> resp_ok h \<or> (case rs_body h of BodyJson j \<Rightarrow> True | _ \<Rightarrow> False))
             \<and> read \<noteq> NetError)"

section \<open>Invariant\<close>

definition own_flights :: "assist_view \<Rightarrow> ai_flight list" where
  "own_flights v = filter (\<lambda>f. af_panel f = av_panel v) (av_flights v)"

definition assist_ok :: "assist_view \<Rightarrow> bool" where
  "assist_ok v \<longleftrightarrow>
     length (own_flights v) = (if av_pending v then 1 else 0)
     \<and> list_all (\<lambda>f. af_panel f \<le> av_panel v) (av_flights v)
     \<and> (cm_thread (av_composer v) = None \<longrightarrow> \<not> av_pending v)
     \<and> (av_hasAnalystMessage v \<longrightarrow> av_hasMessages v)"

lemma compose_keeps_thread:
  "(\<And>t. e \<noteq> Open t) \<Longrightarrow> cm_thread (b_compose e st) = cm_thread st"
  by (cases e) (auto simp: b_compose_defs Let_def split: option.split prod.split)

lemma openThread_thread: "cm_thread (b_openThread thread st) = map_option fst thread"
  by (auto simp: b_openThread_def Let_def split: option.split prod.split)

lemma length_filter_drop_nth:
  assumes "i < length xs"
  shows "length (filter P (take i xs @ drop (Suc i) xs)) = length (filter P xs) - (if P (xs ! i) then 1 else 0)"
  by (subst (3) id_take_nth_drop [OF assms]) simp

lemma if_mounted_simps [simp]:
  "if_mounted f g v = (if af_panel f = av_panel v then g v else v)"
  by (simp add: if_mounted_def)

lemma aiReplied_fields:
  assumes "i < length (av_flights v)"
  shows "av_flights (aiReplied i r v) = take i (av_flights v) @ drop (Suc i) (av_flights v)"
    and "av_panel (aiReplied i r v) = av_panel v"
    and "av_pending (aiReplied i r v) = (av_pending v \<and> af_panel (av_flights v ! i) \<noteq> av_panel v)"
    and "cm_thread (av_composer (aiReplied i r v)) = cm_thread (av_composer v)"
    and "cm_sent (av_composer (aiReplied i r v)) = cm_sent (av_composer v)"
    and "cm_sending (av_composer (aiReplied i r v)) = cm_sending (av_composer v)"
    and "av_hasMessages (aiReplied i r v) = av_hasMessages v"
    and "av_hasAnalystMessage (aiReplied i r v) = av_hasAnalystMessage v"
  using assms by (simp_all add: aiReplied_def b_handleDraftChange_def Let_def split: ai_reply.split)

lemma aiReplied_ok: "assist_ok v \<Longrightarrow> assist_ok (aiReplied i r v)"
proof (cases "i < length (av_flights v)")
  case False
  then show "assist_ok v \<Longrightarrow> assist_ok (aiReplied i r v)" by (simp add: aiReplied_def)
next
  case True
  assume ok: "assist_ok v"
  let ?P = "\<lambda>f. af_panel f = av_panel v"
  note fields = aiReplied_fields [OF True]
  have "av_flights v ! i \<in> set (own_flights v)" if "?P (av_flights v ! i)"
    using that True by (simp add: own_flights_def)
  then have pend: "?P (av_flights v ! i) \<Longrightarrow> av_pending v"
    using ok by (auto simp: assist_ok_def split: if_splits)
  have "list_all (\<lambda>f. af_panel f \<le> av_panel v) (take i (av_flights v) @ drop (Suc i) (av_flights v))"
    using ok by (auto simp: assist_ok_def list_all_iff dest: in_set_takeD in_set_dropD)
  then show ?thesis
    using ok pend unfolding assist_ok_def own_flights_def fields length_filter_drop_nth [OF True] by auto
qed

lemma view_thread_ok: "assist_ok v \<Longrightarrow> assist_ok (view_thread t v)"
proof -
  assume ok: "assist_ok v"
  have none: "filter (\<lambda>f. af_panel f = Suc (av_panel v)) (av_flights v) = []"
    using ok by (auto simp: assist_ok_def list_all_iff filter_empty_conv)
  have "list_all (\<lambda>f. af_panel f \<le> Suc (av_panel v)) (av_flights v)"
    using ok by (auto simp: assist_ok_def list_all_iff intro: le_SucI)
  then show ?thesis
    using ok none by (cases t) (auto simp: view_thread_def assist_ok_def own_flights_def openThread_thread)
qed

lemma assist_step_ok: "assist_ok v \<Longrightarrow> assist_ok (assist_step e v)"
proof (cases e)
  case (View t)
  then show "assist_ok v \<Longrightarrow> ?thesis" by (simp add: view_thread_ok)
next
  case (Messages ms)
  then show "assist_ok v \<Longrightarrow> ?thesis"
    by (auto simp: messages_change_def assist_ok_def own_flights_def Let_def)
next
  case (Ai_clicked a)
  then show "assist_ok v \<Longrightarrow> ?thesis"
    by (auto simp: run_ai_def assist_ok_def own_flights_def split: option.split)
next
  case (Ai_replied i r)
  then show "assist_ok v \<Longrightarrow> ?thesis" by (simp add: aiReplied_ok)
next
  case Pushback_used
  then show "assist_ok v \<Longrightarrow> ?thesis"
    by (auto simp: acceptSuggestedPushback_def assist_ok_def own_flights_def b_handleDraftChange_def split: option.split)
next
  case (Compose c)
  then show "assist_ok v \<Longrightarrow> ?thesis"
    by (auto simp: assist_ok_def own_flights_def compose_keeps_thread split: compose_event.split
        simp del: b_compose.simps)
qed (auto simp: setAttitude_def assist_ok_def own_flights_def)

lemma assist_run_ok: "assist_ok (assist_run s es)"
proof -
  have "assist_ok (fold assist_step es v)" if "assist_ok v" for v
    using that by (induction es arbitrary: v) (simp_all add: assist_step_ok)
  moreover have "assist_ok (init_view s)" by (simp add: assist_ok_def own_flights_def init_view_def)
  ultimately show ?thesis by (simp add: assist_run_def)
qed

section \<open>What the view writes\<close>

text \<open>The composer events of a step: what the assistance accepts goes through the \<open>handleDraftChange\<close> of the
  thread that was open when the panel's handler was called.\<close>

fun assist_events :: "assist_event \<Rightarrow> assist_view \<Rightarrow> builder_event list" where
  "assist_events (View t) v = [Shared (Open t)]"
| "assist_events (Compose e) v = (case e of Open t \<Rightarrow> [] | _ \<Rightarrow> [Shared e])"
| "assist_events (Ai_replied i (Suggested m)) v =
     (if i < length (av_flights v) \<and> af_action (av_flights v ! i) \<noteq> Check_sufficiency
      then [Accept (af_thread (av_flights v ! i)) m] else [])"
| "assist_events Pushback_used v =
     (case (cm_thread (av_composer v), av_verdict v) of
        (Some threadId, Some (t, p)) \<Rightarrow> (case truthy p of None \<Rightarrow> [] | Some text \<Rightarrow> [Accept threadId text])
      | _ \<Rightarrow> [])"
| "assist_events e v = []"

fun assist_taken :: "assist_view \<Rightarrow> assist_event list \<Rightarrow> builder_event list" where
  "assist_taken v [] = []"
| "assist_taken v (e # es) = assist_events e v @ assist_taken (assist_step e v) es"

lemma assist_step_composes: "av_composer (assist_step e v) = mail_composed (assist_events e v) (av_composer v)"
  by (induction e v rule: assist_events.induct)
    (auto simp: view_thread_def messages_change_def setAttitude_def run_ai_def aiReplied_def acceptSuggestedPushback_def Let_def
      split: option.split compose_event.split)

lemma assist_composes: "av_composer (fold assist_step es v) = mail_composed (assist_taken v es) (av_composer v)"
  by (induction es arbitrary: v) (simp_all add: assist_step_composes del: assist_step.simps)

text \<open>What is written in the view, with the thread it is written for.\<close>

fun assist_written :: "assist_view \<Rightarrow> assist_event list \<Rightarrow> (string \<times> string) list" where
  "assist_written v [] = []"
| "assist_written v (e # es) =
     (case e of
        Compose (Edit x) \<Rightarrow> (case cm_thread (av_composer v) of None \<Rightarrow> [] | Some t \<Rightarrow> [(t, x)])
      | Ai_replied i (Suggested m) \<Rightarrow>
          (if i < length (av_flights v) \<and> af_action (av_flights v ! i) \<noteq> Check_sufficiency
           then [(af_thread (av_flights v ! i), m)] else [])
      | Pushback_used \<Rightarrow>
          (case (cm_thread (av_composer v), av_verdict v) of
             (Some threadId, Some (t, p)) \<Rightarrow> (case truthy p of None \<Rightarrow> [] | Some text \<Rightarrow> [(threadId, text)])
           | _ \<Rightarrow> [])
      | _ \<Rightarrow> []) @ assist_written (assist_step e v) es"

lemma assist_taken_written: "written (cm_thread (av_composer v)) (assist_taken v es) = assist_written v es"
proof (induction es arbitrary: v)
  case (Cons e es)
  have th: "cm_thread (av_composer (assist_step e v)) = fold next_thread (assist_events e v) (cm_thread (av_composer v))"
    unfolding assist_step_composes by (rule mail_composed_thread)
  have app: "written th (bs @ bs') = written th bs @ written (fold next_thread bs th) bs'" for th bs bs'
    by (induction bs arbitrary: th) simp_all
  have "written (cm_thread (av_composer v)) (assist_events e v) @ xs = assist_written v [e] @ xs" for xs
    by (induction e v rule: assist_events.induct) (auto simp: writes_def split: option.split compose_event.split)
  with Cons.IH [of "assist_step e v"] show ?case by (simp add: app th [symmetric] del: assist_step.simps)
qed simp

text \<open>A request in flight was sent for the thread its answer will be filed under.\<close>

definition asked :: "assist_view \<Rightarrow> ai_flight \<Rightarrow> bool" where
  "asked v f \<longleftrightarrow> (\<exists>att. (Some (af_thread f), ai_call (af_action f) (af_thread f) att) \<in> set (av_calls v))"

lemma asked_step: "list_all (asked v) (av_flights v) \<Longrightarrow> list_all (asked (assist_step e v)) (av_flights (assist_step e v))"
proof (cases e)
  case (Ai_replied i r)
  moreover have "av_calls (aiReplied i r v) = av_calls v" by (simp add: aiReplied_def Let_def split: ai_reply.split)
  moreover assume "list_all (asked v) (av_flights v)"
  ultimately show ?thesis
    using aiReplied_fields(1) [of i v r]
    by (cases "i < length (av_flights v)") (auto simp: list_all_iff asked_def aiReplied_def dest: in_set_takeD in_set_dropD)
qed (auto simp: view_thread_def messages_change_def setAttitude_def run_ai_def acceptSuggestedPushback_def asked_def Let_def
    list_all_iff split: option.split compose_event.split)

lemma assist_run_asked: "list_all (asked (assist_run s es)) (av_flights (assist_run s es))"
proof -
  have "list_all (asked v) (av_flights v) \<Longrightarrow> list_all (asked (fold assist_step es v)) (av_flights (fold assist_step es v))" for v
    by (induction es arbitrary: v) (simp_all add: asked_step del: assist_step.simps)
  then show ?thesis by (simp add: assist_run_def init_view_def)
qed

text \<open>C15: Every draft that either application's thread view ever sends to the server is filed under the thread it
  was written for, with exactly the text written: what was typed, under the thread that was open; in
  the Builder's view, what the assistance suggests, under the thread whose request asked for it, and a
  pushback taken over, under the thread that was open. No switching, timer, send or deletion carries a
  draft into another thread, and a suggestion that comes late is not filed under the thread on screen.\<close>

theorem drafts_never_cross_threads:
  "set (synced (av_composer (assist_run s es))) \<subseteq> set (assist_written (init_view s) es)
   \<and> list_all (asked (assist_run s es)) (av_flights (assist_run s es))
   \<and> set (synced (composer.truncate (cv_composer (chat_run s es')))) \<subseteq> set (chat_typed None False es')"
proof (intro conjI)
  have "av_composer (init_view s) = init_composer s" "cm_thread (av_composer (init_view s)) = None"
    by (simp_all add: init_view_def init_composer_def)
  then show "set (synced (av_composer (assist_run s es))) \<subseteq> set (assist_written (init_view s) es)"
    using sent_drafts_written [of "assist_taken (init_view s) es" s] assist_taken_written [of "init_view s" es]
    by (simp add: assist_run_def assist_composes)
qed (rule assist_run_asked chat_drafts_typed)+

section \<open>Properties\<close>

text \<open>C29: The assistance runs one action at a time: in every run the panel on screen is waiting exactly when
  one of its own requests, and only one, is in flight, also when threads are opened and closed
  meanwhile.\<close>

theorem assist_one_at_a_time:
  "length (own_flights (assist_run s es)) = (if av_pending (assist_run s es) then 1 else 0)"
  using assist_run_ok [of s es] by (simp add: assist_ok_def)

text \<open>The assistance is offered as the backend would accept it: an opening for a thread without
  messages, a pushback and a check once the Analyst has written. The comment says a thread is always in
  one of the two states; between them, when only the Builder has written, nothing is offered.\<close>

theorem assist_offers:
  assumes "cm_thread (av_composer v) \<noteq> None"
  shows "offered (messages_change ms v) =
    (if ms = [] then [Suggest_opening]
     else if \<exists>m \<in> set ms. ms_sender_role m = ''analyst'' then [Suggest_pushback, Check_sufficiency]
     else [])"
  using assms by (auto simp: messages_change_def offered_def Let_def)

text \<open>An accepted suggestion is an edit and nothing more, as long as the Builder stays on the thread:
  the composer becomes what typing the suggestion would have made it, and nothing is sent.\<close>

theorem suggestion_is_an_edit:
  assumes "i < length (av_flights v)" and "af_action (av_flights v ! i) \<noteq> Check_sufficiency"
    and "cm_thread (av_composer v) = Some (af_thread (av_flights v ! i))"
  shows "av_composer (aiReplied i (Suggested m) v) = b_compose (Edit m) (av_composer v)
    \<and> cm_sent (av_composer (aiReplied i (Suggested m) v)) = cm_sent (av_composer v)"
proof
  show "av_composer (aiReplied i (Suggested m) v) = b_compose (Edit m) (av_composer v)"
    using assms by (simp add: aiReplied_def Let_def b_edit_def)
qed (rule aiReplied_fields(5) [OF assms(1)])

text \<open>A suggestion is written by the composer of the thread that asked for it, but shown in whatever
  thread is open when it comes: after a switch to another thread, the other thread's composer shows it
  in place of its own draft, and the Send button sends it there.\<close>

theorem suggestion_lands_in_other_thread:
  assumes "cm_thread (av_composer v) = Some a" and "av_flights v = []" and "\<not> av_pending v"
    and "act \<in> set (offered v)" and "act \<noteq> Check_sufficiency" and "a \<noteq> b" and "\<not> cm_sending (av_composer v)"
    and "js_trim m \<noteq> []"
  shows "let w = assist_step (Ai_replied 0 (Suggested m)) (assist_step (View (Some (b, d))) (assist_step (Ai_clicked act) v))
    in cm_thread (av_composer w) = Some b \<and> cm_draft (av_composer w) = m
      \<and> cm_pending (av_composer w) = Some (a, m)
      \<and> cm_sent (av_composer (assist_step (Compose Send) w)) = Some (b, js_trim m)"
proof -
  let ?u = "assist_step (View (Some (b, d))) (assist_step (Ai_clicked act) v)"
  have clicked: "run_ai act v =
      v\<lparr>av_pending := True, av_error := None, av_verdict := None,
        av_calls := av_calls v @ [(Some a, ai_call act a (av_attitude v))],
        av_flights := [\<lparr>af_action = act, af_thread = a, af_panel = av_panel v\<rparr>]\<rparr>"
    using assms(1-4) by (simp add: run_ai_def)
  have u: "av_flights ?u = [\<lparr>af_action = act, af_thread = a, af_panel = av_panel v\<rparr>]" "av_panel ?u = av_panel v"
    "av_composer ?u = b_openThread (Some (b, d)) (av_composer v)"
    by (simp_all add: clicked view_thread_def)
  have idle: "\<not> cm_sending (b_openThread (Some (b, d)) (av_composer v))"
    using assms(7) by (auto simp: b_openThread_def b_cleanup_def b_fireSync_def Let_def split: option.split)
  show ?thesis
    using u idle assms(5,8)
    by (simp add: Let_def aiReplied_def b_handleDraftChange_def openThread_thread b_handleSend_def del: assist_step.simps(1,3))
qed

definition sample_chat_message :: "string \<Rightarrow> chat_message" where
  "sample_chat_message role =
     \<lparr>ms_id = ''m1'', ms_thread_id = ''a'', ms_sender_user_id = ''u'', ms_sender_role = role, ms_body = ''hi'',
      ms_attachment_ref = None, ms_sent_at = ''now''\<rparr>"

text \<open>The view with thread \<open>a\<close> open, before any message.\<close>

definition view_a :: assist_view where
  "view_a = assist_run Unavailable [View (Some (''a'', []))]"

lemma view_a_simps [simp]:
  "cm_thread (av_composer view_a) = Some ''a''" "av_flights view_a = []" "\<not> av_pending view_a"
  "offered view_a = [Suggest_opening]" "\<not> cm_sending (av_composer view_a)" "av_panel view_a = 0"
  by (simp_all add: view_a_def assist_run_def view_thread_def init_view_def offered_def openThread_thread)
    (simp add: b_openThread_def init_composer_def)

theorem assist_offers_witness:
  "offered (messages_change [sample_chat_message ''builder''] view_a) = []"
  using assist_offers [of view_a "[sample_chat_message ''builder'']"] by (simp add: sample_chat_message_def)

theorem suggestion_is_an_edit_witness:
  "av_composer (aiReplied 0 (Suggested ''Hello'') (run_ai Suggest_opening view_a))
     = b_compose (Edit ''Hello'') (av_composer view_a)"
  using suggestion_is_an_edit [of 0 "run_ai Suggest_opening view_a" "''Hello''"] by (simp add: run_ai_def)

theorem suggestion_lands_in_other_thread_witness:
  "cm_sent (av_composer (fold assist_step
     [Ai_clicked Suggest_opening, View (Some (''b'', ''note'')), Ai_replied 0 (Suggested ''hi''), Compose Send] view_a))
   = Some (''b'', ''hi'')"
  using suggestion_lands_in_other_thread [of view_a "''a''" Suggest_opening "''b''" "''hi''" "''note''"]
  by (simp add: Let_def no_space_trim)

text \<open>A verdict stays on screen when the next thread's history has the same two facts, because only their
  change clears it; its button then puts the first thread's pushback into the second's composer, and
  into its draft.\<close>

theorem verdict_survives_switch:
  assumes "av_verdict v = Some (t, Some p)" and "p \<noteq> []" and "av_hasMessages v" and "av_hasAnalystMessage v"
    and "m \<in> set ms" and "ms_sender_role m = ''analyst''"
  shows "let w = assist_step (Messages ms) (assist_step (View (Some (b, d))) v); x = assist_step Pushback_used w
    in av_verdict w = Some (t, Some p) \<and> cm_draft (av_composer x) = p \<and> cm_pending (av_composer x) = Some (b, p)"
proof -
  have "ms \<noteq> []" using assms(5) by auto
  then show ?thesis
    using assms
    by (auto simp: Let_def view_thread_def messages_change_def acceptSuggestedPushback_def openThread_thread b_handleDraftChange_def)
qed

theorem verdict_survives_switch_witness:
  "av_verdict (fold assist_step [View (Some (''b'', [])), Messages [sample_chat_message ''analyst'']]
     (fold assist_step [Messages [sample_chat_message ''analyst''], Ai_clicked Check_sufficiency,
        Ai_replied 0 (Verdict False (Some ''Why?''))] view_a)) \<noteq> None"
proof -
  let ?v = "fold assist_step [Messages [sample_chat_message ''analyst''], Ai_clicked Check_sufficiency,
        Ai_replied 0 (Verdict False (Some ''Why?''))] view_a"
  have "av_verdict ?v = Some (verdict_text False, Some ''Why?'')" "av_hasMessages ?v" "av_hasAnalystMessage ?v"
    by (simp_all add: messages_change_def sample_chat_message_def run_ai_def offered_def aiReplied_def view_a_def
        assist_run_def view_thread_def init_view_def openThread_thread)
  then show ?thesis
    using verdict_survives_switch [of ?v "verdict_text False" "''Why?''" "sample_chat_message ''analyst''"
        "[sample_chat_message ''analyst'']" "''b''" "[]"]
    by (simp add: Let_def sample_chat_message_def)
qed

text \<open>An action whose request gets no answer ends without a word: no error is shown.\<close>

theorem unanswered_assistance_is_silent:
  assumes "i < length (av_flights v)" and "af_panel (av_flights v ! i) = av_panel v"
  shows "av_error (aiReplied i Ai_rejected v) = av_error v \<and> \<not> av_pending (aiReplied i Ai_rejected v)"
  using assms by (simp add: aiReplied_def Let_def)

theorem unanswered_assistance_is_silent_witness:
  "av_error (aiReplied 0 Ai_rejected (run_ai Suggest_opening view_a)) = None"
  using unanswered_assistance_is_silent [of 0 "run_ai Suggest_opening view_a"] by (simp add: run_ai_def)

text \<open>A creation the backend refuses closes the dialog and forgets the choice exactly as a success does.\<close>

theorem refused_creation_closes_dialog:
  assumes "nt_creating dlg" and "\<not> resp_ok resp"
  shows "\<not> nt_open (createSettles (onCreate_resolves (Reply resp) h rd) dlg)
    \<and> nt_scenarioId (createSettles (onCreate_resolves (Reply resp) h rd) dlg) = []"
  using assms by (simp add: createSettles_def onCreate_resolves_def)

theorem refused_creation_closes_dialog_witness:
  "\<not> nt_open (createSettles (onCreate_resolves (Reply (json_response (detail ''no'') 409)) NetError NetError)
     (handleCreate (init_dialog\<lparr>nt_open := True, nt_scenarioId := ''s'', nt_persona := ''cfo''\<rparr>)))"
  using refused_creation_closes_dialog [of "handleCreate (init_dialog\<lparr>nt_open := True, nt_scenarioId := ''s'', nt_persona := ''cfo''\<rparr>)"
      "json_response (detail ''no'') 409" NetError NetError]
  by (simp add: handleCreate_def init_dialog_def json_response_def resp_ok_def)

end
