(* ===== verification/Scenario_Backend.thy ===== *)
theory Scenario_Backend
  imports Scenarios
begin

text \<open>
  What the backend does with the requests of a scenario's page, as far as the page is checked against
  it: the operations of \<open>backend/app/services/scenario_service.py\<close> with the refusals of
  \<open>api/admin_scenarios.py\<close>, the request schema \<open>GroundTruthUpdate\<close> with its validators, and
  \<open>validate_for_approval\<close>. Third-party code is a parameter: \<open>one_read\<close> is what \<open>sqlparse\<close> and the
  classifier over it make of a query (the one read statement without its semicolon, an empty text for
  a blank one, \<open>None\<close> for anything else), and the AI client's answers are part of the world.
  Every request is the administrator's and names a scenario that exists (none is ever deleted), so the
  401, 403 and 404 of the routes are left out. Shown: the page offers exactly the actions that the
  status allows, and what else can refuse them.
\<close>

type_synonym store = "(string \<times> json) list"

section \<open>Texts in Python\<close>

text \<open>\<open>str.strip()\<close>: the white space of \<open>str.isspace\<close>, as UTF-8 bytes. It is not that of JavaScript:
  Python has the four separators and NEL, JavaScript the byte order mark.\<close>

definition py_ws :: "string list" where
  "py_ws = map (map (char_of :: nat \<Rightarrow> char))
     ([[9], [10], [11], [12], [13], [28], [29], [30], [31], [32], [194, 133], [194, 160], [225, 154, 128]]
      @ map (\<lambda>n. [226, 128, n]) [128, 129, 130, 131, 132, 133, 134, 135, 136, 137, 138, 168, 169, 175]
      @ [[226, 129, 159], [227, 128, 128]])"

definition py_strip :: "string \<Rightarrow> string" where
  "py_strip s = rev (strip_prefixes (map rev py_ws) (rev (strip_prefixes py_ws s)))"

text \<open>\<open>len(s)\<close>: code points, one for each byte that is no continuation.\<close>

definition py_len :: "string \<Rightarrow> nat" where
  "py_len s = length (filter (\<lambda>c. byte c < 128 \<or> 192 \<le> byte c) s)"

section \<open>GroundTruthUpdate\<close>

definition MAX_NARRATIVE_CHARS :: nat where
  "MAX_NARRATIVE_CHARS = 4000"

definition MAX_EXPECTED_QUERY_CHARS :: nat where
  "MAX_EXPECTED_QUERY_CHARS = 4000"

definition normalize_narrative :: "string \<Rightarrow> string option" where
  "normalize_narrative v = (if MAX_NARRATIVE_CHARS < py_len v then None else Some (py_strip v))"

definition normalize_expected_query :: "(string \<Rightarrow> string option) \<Rightarrow> string \<Rightarrow> string option" where
  "normalize_expected_query one_read v = (if MAX_EXPECTED_QUERY_CHARS < py_len v then None else one_read v)"

definition gt_text_fields :: "string list" where
  "gt_text_fields = [''known_cause'', ''uncertainty'', ''narrative'', ''expected_query'']"

definition gt_list_fields :: "string list" where
  "gt_list_fields =
     [''supporting_signals'', ''distractors'', ''expected_considerations'', ''acceptable_conclusions'',
      ''unacceptable_conclusions'']"

fun json_string :: "json \<Rightarrow> string option" where
  "json_string (JStr s) = Some s"
| "json_string v = None"

fun is_string_list :: "json \<Rightarrow> bool" where
  "is_string_list (JArr xs) = list_all (\<lambda>x. json_string x \<noteq> None) xs"
| "is_string_list v = False"

text \<open>A field of the body: \<open>None\<close> for a 422, \<open>Some None\<close> when it is dropped (an unknown key, or null by
  \<open>exclude_none\<close>), else the validated value.\<close>

definition check_gt_field :: "(string \<Rightarrow> string option) \<Rightarrow> string \<Rightarrow> json \<Rightarrow> json option option" where
  "check_gt_field one_read k v =
     (if k \<notin> set (gt_text_fields @ gt_list_fields) \<or> v = JNull then Some None
      else if k \<in> set gt_list_fields then (if is_string_list v then Some (Some v) else None)
      else case json_string v of
             None \<Rightarrow> None
           | Some s \<Rightarrow>
               map_option (\<lambda>t. Some (JStr t))
                 (if k = ''narrative'' then normalize_narrative s
                  else if k = ''expected_query'' then normalize_expected_query one_read s
                  else Some s))"

fun GroundTruthUpdate :: "(string \<Rightarrow> string option) \<Rightarrow> store \<Rightarrow> store option" where
  "GroundTruthUpdate one_read [] = Some []"
| "GroundTruthUpdate one_read ((k, v) # body) =
     (case check_gt_field one_read k v of
        None \<Rightarrow> None
      | Some w \<Rightarrow>
          map_option (\<lambda>rest. case w of None \<Rightarrow> rest | Some x \<Rightarrow> (k, x) # rest) (GroundTruthUpdate one_read body))"

section \<open>Refusals\<close>

datatype refusal =
    Invalid_body
  | Wrong_status
  | Not_configured
  | Generation_failed
  | No_source
  | Flag_missing
  | Flag_closed
  | Unknown_ids "string list"
  | Incomplete "string list"
  | Another_active

fun refusal_status :: "refusal \<Rightarrow> nat" where
  "refusal_status Invalid_body = 422"
| "refusal_status Wrong_status = 409"
| "refusal_status Not_configured = 503"
| "refusal_status Generation_failed = 502"
| "refusal_status No_source = 409"
| "refusal_status Flag_missing = 404"
| "refusal_status Flag_closed = 422"
| "refusal_status (Unknown_ids es) = 422"
| "refusal_status (Incomplete es) = 422"
| "refusal_status Another_active = 409"

section \<open>PATCH ground-truth\<close>

definition BUILDER_NOTE_KEYS :: "string list" where
  "BUILDER_NOTE_KEYS = [''narrative'', ''expected_query'']"

definition may_edit_builder_notes :: "scenario_status \<Rightarrow> store \<Rightarrow> bool" where
  "may_edit_builder_notes s updates \<longleftrightarrow>
     s \<noteq> Cancelled \<and> updates \<noteq> [] \<and> set (map fst updates) \<subseteq> set BUILDER_NOTE_KEYS"

definition merge :: "store \<Rightarrow> store \<Rightarrow> store" where
  "merge old updates = fold (\<lambda>(k, v). put k v) updates old"

definition update_ground_truth ::
  "(string \<Rightarrow> string option) \<Rightarrow> scenario_status \<Rightarrow> store \<Rightarrow> store \<Rightarrow> refusal + store" where
  "update_ground_truth one_read s body old =
     (case GroundTruthUpdate one_read body of
        None \<Rightarrow> Inl Invalid_body
      | Some updates \<Rightarrow>
          if s \<noteq> Draft \<and> \<not> may_edit_builder_notes s updates then Inl Wrong_status
          else Inr (merge old updates))"

section \<open>Regenerating\<close>

text \<open>\<open>generate\<close> is the client's generation from a ground truth, with its one retry: a text or a failure.
  Without a client the route answers 503 before anything else.\<close>

definition regenerate_note ::
  "(store \<Rightarrow> string option) option \<Rightarrow> scenario_status \<Rightarrow> string \<Rightarrow> store \<Rightarrow> refusal + store" where
  "regenerate_note client s key old =
     (case client of
        None \<Rightarrow> Inl Not_configured
      | Some generate \<Rightarrow>
          if s = Cancelled then Inl Wrong_status
          else (case generate old of None \<Rightarrow> Inl Generation_failed | Some text \<Rightarrow> Inr (put key (JStr text) old)))"

text \<open>\<open>regenerate_scenario\<close>'s new package: fresh facts and generated texts, none of the old ones.\<close>

definition regenerated :: "store \<Rightarrow> store \<Rightarrow> store \<Rightarrow> store" where
  "regenerated fresh generated old =
     map (\<lambda>k. (k, case map_of fresh k of Some v \<Rightarrow> v | None \<Rightarrow> JNull)) [''known_cause'', ''evidence'']
     @ map (\<lambda>k. (k, case map_of generated k of Some v \<Rightarrow> v | None \<Rightarrow> JNull))
         [''supporting_signals'', ''distractors'', ''expected_considerations'', ''acceptable_conclusions'',
          ''unacceptable_conclusions'', ''uncertainty'', ''referenced_entity_ids'', ''narrative'', ''expected_query'']"

section \<open>The actions of a scenario\<close>

text \<open>\<open>bs_source\<close>: it was made from an exception flag. The source flag itself, whether another scenario is
  active without a completed thread, and the client's answer for fresh facts are the world's.\<close>

record backend_scenario =
  bs_status :: scenario_status
  bs_ground_truth :: store
  bs_difficulty_tier :: "string option"
  bs_competency_cluster :: "string option"
  bs_source :: bool

datatype source_flag = No_flag | Resolved_flag | Open_flag store

datatype generation = Failed_generation | With_unknown_ids "string list" | Generated store

record backend_world =
  bw_flag :: source_flag
  bw_other_active :: bool
  bw_client :: "(store \<Rightarrow> generation) option"

definition can_transition :: "scenario_status \<Rightarrow> scenario_status \<Rightarrow> bool" where
  "can_transition s t \<longleftrightarrow> (s, t) \<in> set VALID_TRANSITIONS"

definition field_errors :: "store \<Rightarrow> string \<Rightarrow> string list" where
  "field_errors gt f =
     (let must = (\<lambda>what. [''ground_truth.'' @ f @ '' must be a non-empty '' @ what])
      in if f = ''evidence'' then
           (case map_of gt f of Some (JObj ps) \<Rightarrow> (if ps = [] then must ''object'' else []) | _ \<Rightarrow> must ''object'')
         else if f \<in> {''known_cause'', ''uncertainty''} then
           (case map_of gt f of Some (JStr s) \<Rightarrow> (if py_strip s = [] then must ''string'' else []) | _ \<Rightarrow> must ''string'')
         else (case map_of gt f of Some (JArr xs) \<Rightarrow> (if xs = [] then must ''list'' else []) | _ \<Rightarrow> must ''list''))"

definition validate_for_approval :: "store \<Rightarrow> string option \<Rightarrow> string option \<Rightarrow> string list" where
  "validate_for_approval gt tier cluster =
     concat (map (field_errors gt) REQUIRED_GROUND_TRUTH_FIELDS)
     @ (if truthy tier = None then [''difficulty_tier is required''] else [])
     @ (if truthy cluster = None then [''competency_cluster is required''] else [])"

definition regenerate_scenario :: "backend_world \<Rightarrow> backend_scenario \<Rightarrow> refusal + backend_scenario" where
  "regenerate_scenario w b =
     (case bw_client w of
        None \<Rightarrow> Inl Not_configured
      | Some generate \<Rightarrow>
          if bs_status b \<noteq> Draft then Inl Wrong_status
          else if \<not> bs_source b then Inl No_source
          else (case bw_flag w of
                  No_flag \<Rightarrow> Inl Flag_missing
                | Resolved_flag \<Rightarrow> Inl Flag_closed
                | Open_flag fresh \<Rightarrow>
                    (case generate fresh of
                       Failed_generation \<Rightarrow> Inl Generation_failed
                     | With_unknown_ids es \<Rightarrow> Inl (Unknown_ids es)
                     | Generated gen \<Rightarrow> Inr (b\<lparr>bs_ground_truth := regenerated fresh gen (bs_ground_truth b)\<rparr>))))"

definition approve_scenario :: "backend_scenario \<Rightarrow> refusal + backend_scenario" where
  "approve_scenario b =
     (if \<not> can_transition (bs_status b) Approved then Inl Wrong_status
      else let errors = validate_for_approval (bs_ground_truth b) (bs_difficulty_tier b) (bs_competency_cluster b)
           in if errors \<noteq> [] then Inl (Incomplete errors) else Inr (b\<lparr>bs_status := Approved\<rparr>))"

definition activate_scenario :: "backend_world \<Rightarrow> backend_scenario \<Rightarrow> refusal + backend_scenario" where
  "activate_scenario w b =
     (if \<not> can_transition (bs_status b) Active then Inl Wrong_status
      else if bw_other_active w then Inl Another_active
      else Inr (b\<lparr>bs_status := Active\<rparr>))"

definition cancel_scenario :: "backend_scenario \<Rightarrow> refusal + backend_scenario" where
  "cancel_scenario b =
     (if \<not> can_transition (bs_status b) Cancelled then Inl Wrong_status else Inr (b\<lparr>bs_status := Cancelled\<rparr>))"

fun service_answer :: "scenario_action \<Rightarrow> backend_world \<Rightarrow> backend_scenario \<Rightarrow> refusal + backend_scenario" where
  "service_answer Regenerate w b = regenerate_scenario w b"
| "service_answer Approve w b = approve_scenario b"
| "service_answer Activate w b = activate_scenario w b"
| "service_answer Cancel w b = cancel_scenario b"

lemmas action_defs = regenerate_scenario_def approve_scenario_def activate_scenario_def cancel_scenario_def
  can_transition_def VALID_TRANSITIONS_def

section \<open>Properties\<close>

text \<open>What can stand in an action's way besides the status.\<close>

fun obstacle :: "scenario_action \<Rightarrow> backend_world \<Rightarrow> backend_scenario \<Rightarrow> refusal option" where
  "obstacle Regenerate w b =
     (case bw_client w of
        None \<Rightarrow> Some Not_configured
      | Some generate \<Rightarrow>
          if \<not> bs_source b then Some No_source
          else (case bw_flag w of
                  No_flag \<Rightarrow> Some Flag_missing
                | Resolved_flag \<Rightarrow> Some Flag_closed
                | Open_flag fresh \<Rightarrow>
                    (case generate fresh of
                       Failed_generation \<Rightarrow> Some Generation_failed
                     | With_unknown_ids es \<Rightarrow> Some (Unknown_ids es)
                     | Generated gen \<Rightarrow> None)))"
| "obstacle Approve w b =
     (let errors = validate_for_approval (bs_ground_truth b) (bs_difficulty_tier b) (bs_competency_cluster b)
      in if errors = [] then None else Some (Incomplete errors))"
| "obstacle Activate w b = (if bw_other_active w then Some Another_active else None)"
| "obstacle Cancel w b = None"

fun status_after :: "scenario_action \<Rightarrow> scenario_status" where
  "status_after Regenerate = Draft"
| "status_after Approve = Approved"
| "status_after Activate = Active"
| "status_after Cancel = Cancelled"

text \<open>C31: A scenario's page offers exactly the actions that the backend does not refuse for the scenario's
  status: one that is not offered is answered with the refusal for the status (or, a regeneration
  without an AI client, with the one for that), and one that is offered is carried out, with the
  status it stands for, unless something the status does not tell is in the way: for Approve the errors of
  an incomplete ground truth, for Activate another scenario still in flight, for Regenerate its source
  flag or the generation, for Remove nothing. Only Regenerate changes the ground truth.\<close>

theorem scenario_actions_exact:
  "(if a \<in> set (availableActions (bs_status b))
    then (case obstacle a w b of
            Some r \<Rightarrow> service_answer a w b = Inl r
          | None \<Rightarrow> \<exists>b'. service_answer a w b = Inr b' \<and> bs_status b' = status_after a
              \<and> (a = Regenerate \<or> b' = b\<lparr>bs_status := status_after a\<rparr>))
    else service_answer a w b = Inl (if a = Regenerate \<and> bw_client w = None then Not_configured else Wrong_status))"
  by (cases a; cases "bs_status b")
    (auto simp: action_defs Let_def split: option.split source_flag.split generation.split)

end
