(* ===== verification/Scenario_Page.thy ===== *)
theory Scenario_Page
  imports Scenario_Backend Builder_Api
begin

text \<open>
  The page of one scenario in the Builder (\<open>scenarios/[id]/page.tsx\<close>): the form for a draft
  (\<open>ground-truth-edit-form.tsx\<close>), the form for its notes once it is live
  (\<open>builder-notes-form.tsx\<close>), the expected query (\<open>expected-query-panel.tsx\<close>), the buttons that
  regenerate one note (\<open>regenerate-button.tsx\<close>, \<open>narrative-card.tsx\<close>), the preview and the
  portfolio export (\<open>portfolio-export-dialog.tsx\<close>), checked against what the backend does to a
  scenario's ground truth (\<open>Scenario_Backend\<close>).
\<close>

section \<open>Lists as lines of text\<close>

definition newline :: char where
  "newline = CHR 0x0A"

definition toLines :: "string list \<Rightarrow> string" where
  "toLines value = join_with [newline] value"

definition fromLines :: "string \<Rightarrow> string list" where
  "fromLines value = filter (\<lambda>line. line \<noteq> []) (map js_trim (split_on newline value))"

section \<open>Error texts of the two forms\<close>

text \<open>The first element with a string \<open>msg\<close>; an empty one is falsy.\<close>

definition item_message :: "json \<Rightarrow> string option" where
  "item_message item = (case opt_prop item ''msg'' of Some (JStr s) \<Rightarrow> Some s | _ \<Rightarrow> None)"

definition value_error :: string where
  "value_error = ''Value error, ''"

definition errorDetail :: "json \<Rightarrow> string" where
  "errorDetail body =
     (case opt_prop body ''detail'' of
        Some (JStr s) \<Rightarrow> s
      | Some (JArr items) \<Rightarrow>
          (case find (\<lambda>m. m \<noteq> None) (map item_message items) of
             Some (Some (c # s)) \<Rightarrow>
               (if starts_with (c # s) value_error then drop (length value_error) (c # s) else c # s)
           | _ \<Rightarrow> ''Could not save'')
      | _ \<Rightarrow> ''Could not save'')"

text \<open>
  The answer of a save, a regeneration or a run: the toast and whether the page is refreshed. A
  refusal whose body is JSON \<open>null\<close> throws inside the \<open>try\<close>.
\<close>

definition note_answer :: "(json \<Rightarrow> string) \<Rightarrow> string \<Rightarrow> fetch_result \<Rightarrow> toast \<times> bool" where
  "note_answer err done r =
     (case r of
        NetError \<Rightarrow> (Failure unreachable, False)
      | Reply resp \<Rightarrow>
          if \<not> resp_ok resp then
            (Failure (if body_or_empty resp = JNull then unreachable else err (body_or_empty resp)), False)
          else (Success done, True))"

definition patch_gt :: "string \<Rightarrow> json \<Rightarrow> ui_call" where
  "patch_gt i body = \<lparr>uc_method = ''PATCH'', uc_path = ''/api/scenarios/'' @ i @ ''/ground-truth'', uc_body = Some body\<rparr>"

section \<open>ground-truth-edit-form.tsx\<close>

record gt_form =
  gf_knownCause :: string
  gf_supportingSignals :: string
  gf_distractors :: string
  gf_expectedConsiderations :: string
  gf_acceptableConclusions :: string
  gf_unacceptableConclusions :: string
  gf_uncertainty :: string
  gf_narrative :: string
  gf_expectedQuery :: string
  gf_isSaving :: bool

definition or_empty :: "string option \<Rightarrow> string" where
  "or_empty x = (case x of None \<Rightarrow> [] | Some s \<Rightarrow> s)"

definition GroundTruthEditForm :: "ground_truth \<Rightarrow> gt_form" where
  "GroundTruthEditForm g =
     \<lparr>gf_knownCause = gt_known_cause g, gf_supportingSignals = toLines (gt_supporting_signals g),
      gf_distractors = toLines (gt_distractors g), gf_expectedConsiderations = toLines (gt_expected_considerations g),
      gf_acceptableConclusions = toLines (gt_acceptable_conclusions g),
      gf_unacceptableConclusions = toLines (gt_unacceptable_conclusions g), gf_uncertainty = gt_uncertainty g,
      gf_narrative = or_empty (gt_narrative g), gf_expectedQuery = or_empty (gt_expected_query g), gf_isSaving = False\<rparr>"

definition strings :: "string list \<Rightarrow> json" where
  "strings xs = JArr (map JStr xs)"

definition gt_payload :: "gt_form \<Rightarrow> (string \<times> json) list" where
  "gt_payload f =
     [(''known_cause'', JStr (gf_knownCause f)),
      (''supporting_signals'', strings (fromLines (gf_supportingSignals f))),
      (''distractors'', strings (fromLines (gf_distractors f))),
      (''expected_considerations'', strings (fromLines (gf_expectedConsiderations f))),
      (''acceptable_conclusions'', strings (fromLines (gf_acceptableConclusions f))),
      (''unacceptable_conclusions'', strings (fromLines (gf_unacceptableConclusions f))),
      (''uncertainty'', JStr (gf_uncertainty f)), (''narrative'', JStr (gf_narrative f)),
      (''expected_query'', JStr (gf_expectedQuery f))]"

definition gt_handleSave :: "string \<Rightarrow> gt_form \<Rightarrow> gt_form \<times> ui_call option" where
  "gt_handleSave i f =
     (if gf_isSaving f then (f, None) else (f\<lparr>gf_isSaving := True\<rparr>, Some (patch_gt i (JObj (gt_payload f)))))"

definition gt_saved :: "fetch_result \<Rightarrow> gt_form \<Rightarrow> gt_form \<times> toast \<times> bool" where
  "gt_saved r f = (f\<lparr>gf_isSaving := False\<rparr>, note_answer errorDetail ''Ground truth saved'' r)"

section \<open>builder-notes-form.tsx\<close>

record notes_form =
  nf_narrative :: string
  nf_expectedQuery :: string
  nf_isSaving :: bool

definition BuilderNotesForm :: "ground_truth \<Rightarrow> notes_form" where
  "BuilderNotesForm g =
     \<lparr>nf_narrative = or_empty (gt_narrative g), nf_expectedQuery = or_empty (gt_expected_query g), nf_isSaving = False\<rparr>"

definition notes_payload :: "notes_form \<Rightarrow> (string \<times> json) list" where
  "notes_payload f = [(''narrative'', JStr (nf_narrative f)), (''expected_query'', JStr (nf_expectedQuery f))]"

text \<open>The two forms have one \<open>errorDetail\<close> each, with the same text.\<close>

definition notes_errorDetail :: "json \<Rightarrow> string" where
  "notes_errorDetail body =
     (case opt_prop body ''detail'' of
        Some (JStr s) \<Rightarrow> s
      | Some (JArr items) \<Rightarrow>
          (case find (\<lambda>m. m \<noteq> None) (map item_message items) of
             Some (Some (c # s)) \<Rightarrow>
               (if starts_with (c # s) value_error then drop (length value_error) (c # s) else c # s)
           | _ \<Rightarrow> ''Could not save'')
      | _ \<Rightarrow> ''Could not save'')"

definition notes_handleSave :: "string \<Rightarrow> notes_form \<Rightarrow> notes_form \<times> ui_call option" where
  "notes_handleSave i f =
     (if nf_isSaving f then (f, None) else (f\<lparr>nf_isSaving := True\<rparr>, Some (patch_gt i (JObj (notes_payload f)))))"

definition notes_saved :: "fetch_result \<Rightarrow> notes_form \<Rightarrow> notes_form \<times> toast \<times> bool" where
  "notes_saved r f = (f\<lparr>nf_isSaving := False\<rparr>, note_answer notes_errorDetail ''Notes saved'' r)"

section \<open>regenerate-button.tsx, narrative-card.tsx\<close>

datatype builder_note = Narrative | Expected_query

fun note_noun :: "builder_note \<Rightarrow> string" where
  "note_noun Narrative = ''narrative''"
| "note_noun Expected_query = ''query''"

fun note_action :: "builder_note \<Rightarrow> string" where
  "note_action Narrative = ''regenerate-narrative''"
| "note_action Expected_query = ''regenerate-expected-query''"

text \<open>The click: asked first when there is a text to lose; \<open>confirms\<close> is the user's answer.\<close>

definition regenerate_click :: "string \<Rightarrow> builder_note \<Rightarrow> bool \<Rightarrow> bool \<Rightarrow> bool \<Rightarrow> ui_call option" where
  "regenerate_click i n hasExisting confirms running =
     (if running \<or> hasExisting \<and> \<not> confirms then None
      else Some (post (''/api/scenarios/'' @ i @ ''/'' @ note_action n) None))"

definition regenerate_answer :: "builder_note \<Rightarrow> fetch_result \<Rightarrow> toast \<times> bool" where
  "regenerate_answer n r =
     note_answer (\<lambda>body. detail_text body (''Could not regenerate the '' @ note_noun n))
       (''New '' @ note_noun n @ '' generated'') r"

text \<open>The ellipsis, as its three UTF-8 bytes.\<close>

definition ellipsis :: string where
  "ellipsis = [CHR 0xE2, CHR 0x80, CHR 0xA6]"

definition regenerate_label :: "builder_note \<Rightarrow> bool \<Rightarrow> bool \<Rightarrow> string" where
  "regenerate_label n hasExisting running =
     (if running then ''Generating'' @ ellipsis else if hasExisting then ''Regenerate '' @ note_noun n else ''Generate '' @ note_noun n)"

definition canRegenerate :: "scenario_status \<Rightarrow> bool" where
  "canRegenerate s \<longleftrightarrow> s \<noteq> Cancelled"

text \<open>What a card shows: its text, or why there is none.\<close>

definition NarrativeCard :: "string \<Rightarrow> scenario_status \<Rightarrow> string \<times> bool" where
  "NarrativeCard narrative s =
     (if narrative \<noteq> [] then narrative
      else if canRegenerate s then ''No narrative yet. Generate one, or write your own.''
      else ''No narrative was recorded for this scenario.'', canRegenerate s)"

definition ExpectedQueryCard :: "string \<Rightarrow> scenario_status \<Rightarrow> string \<times> bool" where
  "ExpectedQueryCard query s =
     (if query \<noteq> [] then query
      else if canRegenerate s then ''No expected query yet. Generate one, or write your own.''
      else ''No expected query was recorded for this scenario.'', canRegenerate s)"

section \<open>expected-query-panel.tsx\<close>

text \<open>\<open>JSON.stringify\<close>: quotes, back slashes and control characters are escaped.\<close>

definition json_escape :: "char \<Rightarrow> string" where
  "json_escape c =
     (let n = of_char c :: nat
      in if c = CHR 0x22 then [CHR 0x5C, CHR 0x22]
         else if c = CHR 0x5C then [CHR 0x5C, CHR 0x5C]
         else if n = 8 then [CHR 0x5C, CHR ''b'']
         else if n = 9 then [CHR 0x5C, CHR ''t'']
         else if n = 10 then [CHR 0x5C, CHR ''n'']
         else if n = 12 then [CHR 0x5C, CHR ''f'']
         else if n = 13 then [CHR 0x5C, CHR ''r'']
         else if n < 32 then [CHR 0x5C] @ ''u00'' @ map (\<lambda>d. if d < 10 then char_of (48 + d) else char_of (87 + d)) [n div 16, n mod 16]
         else [c])"

definition json_quote :: "string \<Rightarrow> string" where
  "json_quote s = [CHR 0x22] @ concat (map json_escape s) @ [CHR 0x22]"

fun json_text :: "json \<Rightarrow> string" where
  "json_text JNull = ''null''"
| "json_text (JBool b) = (if b then ''true'' else ''false'')"
| "json_text (JNum n) = show_int n"
| "json_text (JStr s) = json_quote s"
| "json_text (JArr xs) = ''['' @ join_with '','' (map json_text xs) @ '']''"
| "json_text (JObj ps) = ''{'' @ join_with '','' (map (\<lambda>(k, v). json_quote k @ '':'' @ json_text v) ps) @ ''}''"

fun formatCell :: "json option \<Rightarrow> string" where
  "formatCell None = ''NULL''"
| "formatCell (Some JNull) = ''NULL''"
| "formatCell (Some (JArr xs)) = json_text (JArr xs)"
| "formatCell (Some (JObj ps)) = json_text (JObj ps)"
| "formatCell (Some v) = join_elem v"

record run_result =
  rr_status :: string
  rr_columns :: "string list"
  rr_rows :: "(string \<times> json) list list"
  rr_row_count :: int
  rr_truncated :: bool
  rr_duration_ms :: int
  rr_error_message :: "string option"

definition run_error :: "run_result \<Rightarrow> string option" where
  "run_error r =
     (if rr_status r = ''success'' then None
      else if rr_status r = ''timed_out'' then Some ''The query timed out.''
      else Some (case rr_error_message r of Some m \<Rightarrow> m | None \<Rightarrow> ''The query failed.''))"

definition run_summary :: "run_result \<Rightarrow> string" where
  "run_summary r =
     show_int (rr_row_count r) @ '' '' @ (if rr_row_count r = 1 then ''row'' else ''rows'') @ '' in ''
     @ show_int (rr_duration_ms r) @ '' ms'' @ (if rr_truncated r then '' (showing the first rows only)'' else [])"

definition run_cells :: "run_result \<Rightarrow> string list list" where
  "run_cells r = map (\<lambda>row. map (\<lambda>column. formatCell (map_of row column)) (rr_columns r)) (rr_rows r)"

record query_panel =
  qp_isRunning :: bool
  qp_result :: "run_result option"
  qp_copied :: bool
  qp_toasts :: "toast list"

definition init_panel :: query_panel where
  "init_panel = \<lparr>qp_isRunning = False, qp_result = None, qp_copied = False, qp_toasts = []\<rparr>"

text \<open>The buttons are there only for a query that is not empty.\<close>

definition handleRun :: "string \<Rightarrow> string \<Rightarrow> query_panel \<Rightarrow> query_panel \<times> ui_call option" where
  "handleRun i query p =
     (if query = [] \<or> qp_isRunning p then (p, None)
      else (p\<lparr>qp_isRunning := True\<rparr>, Some (post (''/api/scenarios/'' @ i @ ''/expected-query/run'') None)))"

datatype query_run_reply = Run_result run_result | Run_refused json | Run_failed

definition queryReplied :: "query_run_reply \<Rightarrow> query_panel \<Rightarrow> query_panel" where
  "queryReplied r p =
     (if \<not> qp_isRunning p then p
      else (case r of
              Run_result x \<Rightarrow> p\<lparr>qp_result := Some x\<rparr>
            | Run_refused body \<Rightarrow>
                p\<lparr>qp_toasts := qp_toasts p
                   @ [Failure (if body = JNull then unreachable else detail_text body ''Could not run the query'')]\<rparr>
            | Run_failed \<Rightarrow> p\<lparr>qp_toasts := qp_toasts p @ [Failure unreachable]\<rparr>)
           \<lparr>qp_isRunning := False\<rparr>)"

definition handleCopy :: "bool \<Rightarrow> query_panel \<Rightarrow> query_panel" where
  "handleCopy written p =
     (if written then p\<lparr>qp_copied := True\<rparr>
      else p\<lparr>qp_toasts := qp_toasts p @ [Failure ''Could not copy to the clipboard'']\<rparr>)"

definition copiedTimer :: "query_panel \<Rightarrow> query_panel" where
  "copiedTimer p = p\<lparr>qp_copied := False\<rparr>"

section \<open>portfolio-export-dialog.tsx\<close>

datatype export_state = Export_idle | Export_loading | Export_loaded | Export_not_ready | Export_error

text \<open>\<open>pe_requests\<close> is the history of the requests; the one in flight is the last, while loading.\<close>

record export_dialog =
  pe_open :: bool
  pe_state :: export_state
  pe_data :: "json option"
  pe_requests :: "string list"

definition init_export :: export_dialog where
  "init_export = \<lparr>pe_open = False, pe_state = Export_idle, pe_data = None, pe_requests = []\<rparr>"

definition handleOpenChange :: "string \<Rightarrow> bool \<Rightarrow> export_dialog \<Rightarrow> export_dialog" where
  "handleOpenChange threadId opening d =
     (let d1 = d\<lparr>pe_open := opening\<rparr>
      in if \<not> opening \<or> pe_state d \<noteq> Export_idle then d1
         else d1\<lparr>pe_state := Export_loading, pe_requests := pe_requests d @ [''/api/portfolio/threads/'' @ threadId]\<rparr>)"

definition exportReplied :: "fetch_result \<Rightarrow> export_dialog \<Rightarrow> export_dialog" where
  "exportReplied r d =
     (if pe_state d \<noteq> Export_loading then d
      else case r of
        NetError \<Rightarrow> d\<lparr>pe_state := Export_error\<rparr>
      | Reply resp \<Rightarrow>
          if rs_status resp = 409 then d\<lparr>pe_state := Export_not_ready\<rparr>
          else if \<not> resp_ok resp then d\<lparr>pe_state := Export_error\<rparr>
          else (case rs_body resp of
                  BodyJson j \<Rightarrow> d\<lparr>pe_data := Some j, pe_state := Export_loaded\<rparr>
                | _ \<Rightarrow> d\<lparr>pe_state := Export_error\<rparr>))"

datatype export_event = Open_change bool | Export_replied fetch_result

fun export_step :: "string \<Rightarrow> export_event \<Rightarrow> export_dialog \<Rightarrow> export_dialog" where
  "export_step threadId (Open_change b) d = handleOpenChange threadId b d"
| "export_step threadId (Export_replied r) d = exportReplied r d"

definition export_run :: "string \<Rightarrow> export_event list \<Rightarrow> export_dialog" where
  "export_run threadId es = fold (export_step threadId) es init_export"

section \<open>The pages\<close>

definition page_label :: "(string \<times> string) list \<Rightarrow> string \<Rightarrow> string" where
  "page_label options v = (case map_of options v of Some l \<Rightarrow> l | None \<Rightarrow> v)"

fun STATUS_LABEL :: "scenario_status \<Rightarrow> string" where
  "STATUS_LABEL Draft = ''Draft''"
| "STATUS_LABEL Approved = ''Approved''"
| "STATUS_LABEL Active = ''Active''"
| "STATUS_LABEL Cancelled = ''Cancelled''"

fun STATUS_VARIANT :: "scenario_status \<Rightarrow> string" where
  "STATUS_VARIANT Draft = ''secondary''"
| "STATUS_VARIANT Approved = ''default''"
| "STATUS_VARIANT Active = ''default''"
| "STATUS_VARIANT Cancelled = ''destructive''"

text \<open>The list page: its query parameter, the request it makes, the button that is highlighted.\<close>

definition status_filter :: "string option \<Rightarrow> string option" where
  "status_filter status = (case truthy status of Some s \<Rightarrow> if s = ''all'' then None else Some s | None \<Rightarrow> None)"

definition ScenariosPage :: "ctx \<Rightarrow> string option \<Rightarrow> json io" where
  "ScenariosPage c status =
     and_then (listScenarios c (status_filter status))
       (\<lambda>response. if resp_ok response then resp_json response else ret (JArr []))"

definition STATUS_FILTERS :: "(string \<times> string) list" where
  "STATUS_FILTERS =
     [(''all'', ''All''), (''draft'', ''Draft''), (''approved'', ''Approved''), (''active'', ''Active''),
      (''cancelled'', ''Cancelled'')]"

definition filter_link :: "string \<Rightarrow> string" where
  "filter_link f = (if f = ''all'' then ''/scenarios'' else ''/scenarios?status='' @ f)"

definition filter_highlighted :: "string option \<Rightarrow> string \<Rightarrow> bool" where
  "filter_highlighted flt f \<longleftrightarrow> flt = Some f \<or> flt = None \<and> f = ''all''"

text \<open>
  The page of one scenario: not found, the error boundary, or the scenario's JSON with its threads
  (none when their list is refused). The id the threads are asked for is the scenario's own.
\<close>

datatype detail_page = Page_not_found | Page_error | Detail json json

definition ScenarioDetailPage :: "ctx \<Rightarrow> string \<Rightarrow> detail_page io" where
  "ScenarioDetailPage c i =
     and_then (getScenario c i) (\<lambda>response.
       if rs_status response = 404 then ret Page_not_found
       else if \<not> resp_ok response then ret Page_error
       else and_then (resp_json response) (\<lambda>scenario.
         and_then (get_prop scenario ''id'') (\<lambda>sid.
           and_then (listThreadsForScenario c (case sid of Some (JStr s) \<Rightarrow> s | _ \<Rightarrow> [])) (\<lambda>tr.
             and_then (if resp_ok tr then resp_json tr else ret (JArr [])) (\<lambda>threads.
               ret (Detail scenario threads))))))"

text \<open>
  The client components of the page: a form exists while its condition holds, starts from the ground
  truth it was first given, and keeps its own texts when the page is refreshed with another.
\<close>

record scenario_view =
  sv_scenario :: scenario
  sv_edit :: "gt_form option"
  sv_notes :: "notes_form option"

definition live :: "scenario_status \<Rightarrow> bool" where
  "live s \<longleftrightarrow> s = Approved \<or> s = Active"

definition mount_view :: "scenario \<Rightarrow> scenario_view" where
  "mount_view s =
     \<lparr>sv_scenario = s,
      sv_edit = (if sc_status s = Draft then Some (GroundTruthEditForm (sc_ground_truth s)) else None),
      sv_notes = (if live (sc_status s) then Some (BuilderNotesForm (sc_ground_truth s)) else None)\<rparr>"

definition refresh_view :: "scenario \<Rightarrow> scenario_view \<Rightarrow> scenario_view" where
  "refresh_view s v =
     \<lparr>sv_scenario = s,
      sv_edit = (if sc_status s = Draft
                 then (case sv_edit v of Some f \<Rightarrow> Some f | None \<Rightarrow> Some (GroundTruthEditForm (sc_ground_truth s)))
                 else None),
      sv_notes = (if live (sc_status s)
                  then (case sv_notes v of Some f \<Rightarrow> Some f | None \<Rightarrow> Some (BuilderNotesForm (sc_ground_truth s)))
                  else None)\<rparr>"

text \<open>The preview, field by field: empty texts and lists say so, missing ids are a dash.\<close>

definition text_or_hint :: "string \<Rightarrow> string" where
  "text_or_hint s = (if s = [] then ''Not filled in yet.'' else s)"

definition TextList :: "string list \<Rightarrow> string list" where
  "TextList items = (if items = [] then [''Not filled in yet.''] else items)"

definition or_dash :: "string option \<Rightarrow> string" where
  "or_dash x = (case x of None \<Rightarrow> em_dash | Some s \<Rightarrow> s)"

definition GroundTruthPreview :: "ground_truth \<Rightarrow> (string \<times> string list) list" where
  "GroundTruthPreview g =
     [(''Known cause'', [text_or_hint (gt_known_cause g)]),
      (''Supporting signals'', TextList (gt_supporting_signals g)),
      (''Distractors'', TextList (gt_distractors g)),
      (''Expected considerations'', TextList (gt_expected_considerations g)),
      (''Acceptable conclusions'', TextList (gt_acceptable_conclusions g)),
      (''Unacceptable conclusions'', TextList (gt_unacceptable_conclusions g)),
      (''Uncertainty'', [text_or_hint (gt_uncertainty g)]),
      (''Source exception flag'', [ev_source_exception_flag_id (gt_evidence g)]),
      (''Category'', [ev_category (gt_evidence g)]),
      (''Product'', [or_dash (ev_product_id (gt_evidence g))]),
      (''Warehouse'', [or_dash (ev_warehouse_id (gt_evidence g))]),
      (''Measured value'', [or_dash (ev_measured_value (gt_evidence g))]),
      (''Threshold value'', [ev_threshold_value (gt_evidence g)]),
      (''First detected'', [ev_first_detected_simulation_date (gt_evidence g)]),
      (''Simulation date'', [ev_simulation_date (gt_evidence g)])]"

definition thread_badge :: "string \<Rightarrow> string" where
  "thread_badge status = (if status = ''completed'' then ''Completed'' else ''Open'')"

section \<open>Lines\<close>

definition clean_line :: "string \<Rightarrow> bool" where
  "clean_line l \<longleftrightarrow> l \<noteq> [] \<and> js_trim l = l \<and> newline \<notin> set l"

lemma fromLines_clean: "list_all clean_line (fromLines v)"
  using js_trim_set split_on_no_sep
  by (fastforce simp: list_all_iff fromLines_def clean_line_def js_trim_idem)

lemma from_to_lines: "list_all clean_line xs \<Longrightarrow> fromLines (toLines xs) = xs"
proof (cases "xs = []")
  case True
  then show ?thesis by (simp add: fromLines_def toLines_def)
next
  case False
  assume clean: "list_all clean_line xs"
  then have "split_on newline (toLines xs) = xs"
    unfolding toLines_def using False by (intro split_on_join) (auto simp: list_all_iff clean_line_def)
  moreover have "map js_trim xs = xs" using clean by (auto simp: list_all_iff clean_line_def intro: map_idI)
  moreover have "filter (\<lambda>l. l \<noteq> []) xs = xs" using clean by (auto simp: list_all_iff clean_line_def filter_id_conv)
  ultimately show ?thesis by (simp add: fromLines_def)
qed

lemma lines_normal_form: "fromLines (toLines (fromLines v)) = fromLines v"
  by (rule from_to_lines [OF fromLines_clean])

section \<open>Properties\<close>

text \<open>The ground truth the backend holds after a save, as the next page load gives it to the form.\<close>

definition saved_ground_truth :: "gt_form \<Rightarrow> ground_truth \<Rightarrow> ground_truth" where
  "saved_ground_truth f g =
     g\<lparr>gt_known_cause := gf_knownCause f, gt_supporting_signals := fromLines (gf_supportingSignals f),
       gt_distractors := fromLines (gf_distractors f), gt_expected_considerations := fromLines (gf_expectedConsiderations f),
       gt_acceptable_conclusions := fromLines (gf_acceptableConclusions f),
       gt_unacceptable_conclusions := fromLines (gf_unacceptableConclusions f), gt_uncertainty := gf_uncertainty f,
       gt_narrative := Some (gf_narrative f), gt_expected_query := Some (gf_expectedQuery f)\<rparr>"

text \<open>What the draft form saves is what it shows again: opened on the ground truth it saved, whatever
  was typed (blank lines, spaces, empty texts), it would send the same values once more, and its lists
  hold trimmed lines that are not empty.\<close>

theorem draft_form_round_trip:
  "gt_payload (GroundTruthEditForm (saved_ground_truth f g)) = gt_payload f
   \<and> list_all clean_line (gt_supporting_signals (saved_ground_truth f g))"
  by (simp add: gt_payload_def GroundTruthEditForm_def saved_ground_truth_def or_empty_def lines_normal_form fromLines_clean)

lemma merge_simps [simp]:
  "merge old [] = old" "merge old ((k, v) # ups) = merge (put k v old) ups"
  by (simp_all add: merge_def)

text \<open>The two notes pass the backend's validators: at most 4000 characters each, and the query blank or one
  read statement.\<close>

definition notes_valid :: "(string \<Rightarrow> string option) \<Rightarrow> string \<Rightarrow> string \<Rightarrow> bool" where
  "notes_valid one_read narrative query \<longleftrightarrow>
     normalize_narrative narrative \<noteq> None \<and> normalize_expected_query one_read query \<noteq> None"

lemma notes_body:
  "GroundTruthUpdate one_read (notes_payload f) =
     (case (normalize_narrative (nf_narrative f), normalize_expected_query one_read (nf_expectedQuery f)) of
        (Some n, Some q) \<Rightarrow> Some [(''narrative'', JStr n), (''expected_query'', JStr q)]
      | _ \<Rightarrow> None)"
  by (auto simp: notes_payload_def check_gt_field_def gt_text_fields_def gt_list_fields_def split: option.split)

lemma strings_valid [simp]: "is_string_list (strings xs)" "strings xs \<noteq> JNull"
  by (simp_all add: strings_def list_all_iff)

definition gt_updates :: "gt_form \<Rightarrow> string \<Rightarrow> string \<Rightarrow> store" where
  "gt_updates f n q = take 7 (gt_payload f) @ [(''narrative'', JStr n), (''expected_query'', JStr q)]"

lemma gt_body:
  "GroundTruthUpdate one_read (gt_payload f) =
     (case (normalize_narrative (gf_narrative f), normalize_expected_query one_read (gf_expectedQuery f)) of
        (Some n, Some q) \<Rightarrow> Some (gt_updates f n q)
      | _ \<Rightarrow> None)"
  by (simp add: gt_payload_def gt_updates_def check_gt_field_def gt_text_fields_def gt_list_fields_def split: option.split)

text \<open>C8: The notes of a live scenario can be edited without touching what is graded: while the page shows the
  notes form, the backend answers its save with a 422 exactly when a note breaks its validators (too
  long, or a query that is not one read statement), and otherwise accepts it: the two notes become
  what was typed, as the validators normalise it, and every other entry of the ground truth stays as it
  was.\<close>

theorem notes_keep_graded_fields:
  assumes "sv_notes (mount_view s) = Some f0" and "notes_handleSave i f = (f', Some u)"
  shows "\<exists>body. uc_body u = Some (JObj body)
    \<and> (case update_ground_truth one_read (sc_status s) body old of
          Inl r \<Rightarrow> r = Invalid_body \<and> refusal_status r = 422 \<and> \<not> notes_valid one_read (nf_narrative f) (nf_expectedQuery f)
        | Inr new \<Rightarrow> py_len (nf_narrative f) \<le> 4000 \<and> py_len (nf_expectedQuery f) \<le> 4000
            \<and> map_of new ''narrative'' = Some (JStr (py_strip (nf_narrative f)))
            \<and> map_of new ''expected_query'' = map_option JStr (one_read (nf_expectedQuery f))
            \<and> (\<forall>k. k = ''narrative'' \<or> k = ''expected_query'' \<or> map_of new k = map_of old k))"
proof -
  have st: "sc_status s \<noteq> Cancelled" using assms(1) by (auto simp: mount_view_def live_def split: if_splits)
  have u: "u = patch_gt i (JObj (notes_payload f))"
    using assms(2) by (auto simp: notes_handleSave_def split: if_splits)
  show ?thesis
    unfolding u
    using st
    by (intro exI [of _ "notes_payload f"])
      (auto simp: patch_gt_def update_ground_truth_def notes_body notes_valid_def may_edit_builder_notes_def BUILDER_NOTE_KEYS_def
        normalize_narrative_def normalize_expected_query_def MAX_NARRATIVE_CHARS_def MAX_EXPECTED_QUERY_CHARS_def
        split: option.split if_splits)
qed

text \<open>C27: The page offers the form for a draft exactly in the statuses in which the backend takes its save, a
  form with the notes (this one, or the one for the notes alone) exactly in those in which it takes the
  notes, and the button that regenerates a note exactly in those in which the backend regenerates it. A save is a 422
  for notes that break the validators whatever the status, else a 409 where the page has no form for
  it, else accepted; a regeneration is a 503 without an AI client, else a 409 where there is no button,
  else a 502 when the generation fails, else it replaces that note.\<close>

theorem scenario_forms_match_backend:
  "update_ground_truth one_read (sc_status s) (gt_payload f) old =
     (if \<not> notes_valid one_read (gf_narrative f) (gf_expectedQuery f) then Inl Invalid_body
      else if sv_edit (mount_view s) = None then Inl Wrong_status
      else Inr (merge old (gt_updates f (the (normalize_narrative (gf_narrative f)))
                             (the (normalize_expected_query one_read (gf_expectedQuery f))))))
   \<and> update_ground_truth one_read (sc_status s) (notes_payload nf) old =
     (if \<not> notes_valid one_read (nf_narrative nf) (nf_expectedQuery nf) then Inl Invalid_body
      else if sv_edit (mount_view s) = None \<and> sv_notes (mount_view s) = None then Inl Wrong_status
      else Inr (merge old [(''narrative'', JStr (the (normalize_narrative (nf_narrative nf)))),
                           (''expected_query'', JStr (the (normalize_expected_query one_read (nf_expectedQuery nf))))]))
   \<and> regenerate_note client (sc_status s) key old =
     (case client of
        None \<Rightarrow> Inl Not_configured
      | Some generate \<Rightarrow>
          if \<not> canRegenerate (sc_status s) then Inl Wrong_status
          else (case generate old of None \<Rightarrow> Inl Generation_failed | Some t \<Rightarrow> Inr (put key (JStr t) old)))"
proof (intro conjI)
  have graded: "\<not> may_edit_builder_notes st (gt_updates f n q)" for st n q
    by (simp add: may_edit_builder_notes_def gt_updates_def gt_payload_def BUILDER_NOTE_KEYS_def)
  show "update_ground_truth one_read (sc_status s) (gt_payload f) old =
     (if \<not> notes_valid one_read (gf_narrative f) (gf_expectedQuery f) then Inl Invalid_body
      else if sv_edit (mount_view s) = None then Inl Wrong_status
      else Inr (merge old (gt_updates f (the (normalize_narrative (gf_narrative f)))
                             (the (normalize_expected_query one_read (gf_expectedQuery f))))))"
    by (auto simp: update_ground_truth_def gt_body graded notes_valid_def mount_view_def split: option.split)
  show "update_ground_truth one_read (sc_status s) (notes_payload nf) old =
     (if \<not> notes_valid one_read (nf_narrative nf) (nf_expectedQuery nf) then Inl Invalid_body
      else if sv_edit (mount_view s) = None \<and> sv_notes (mount_view s) = None then Inl Wrong_status
      else Inr (merge old [(''narrative'', JStr (the (normalize_narrative (nf_narrative nf)))),
                           (''expected_query'', JStr (the (normalize_expected_query one_read (nf_expectedQuery nf))))]))"
    by (cases "sc_status s")
      (auto simp: update_ground_truth_def notes_body notes_valid_def may_edit_builder_notes_def BUILDER_NOTE_KEYS_def
        mount_view_def live_def split: option.split)
  show "regenerate_note client (sc_status s) key old =
     (case client of
        None \<Rightarrow> Inl Not_configured
      | Some generate \<Rightarrow>
          if \<not> canRegenerate (sc_status s) then Inl Wrong_status
          else (case generate old of None \<Rightarrow> Inl Generation_failed | Some t \<Rightarrow> Inr (put key (JStr t) old)))"
    by (simp add: regenerate_note_def canRegenerate_def split: option.split)
qed

text \<open>A form that is open keeps its texts when the page is refreshed: after a note was regenerated, the
  page shows the new text but the form still holds the old one, and its next save, of whatever else
  was edited, puts the old note back into the backend over the regenerated one.\<close>

theorem open_form_undoes_regeneration:
  assumes "sc_status s = Draft" and "sc_status s' = Draft" and "gt_narrative (sc_ground_truth s) = Some old_text"
    and "regenerate_note (Some generate) Draft ''narrative'' store = Inr store'" and "generate store = Some new_text"
    and "notes_valid one_read old_text (or_empty (gt_expected_query (sc_ground_truth s)))"
  shows "\<exists>f. sv_edit (refresh_view s' (mount_view s)) = Some f \<and> gf_narrative f = old_text
    \<and> (\<exists>store''. update_ground_truth one_read Draft (gt_payload (f\<lparr>gf_uncertainty := edited\<rparr>)) store' = Inr store''
         \<and> map_of store' ''narrative'' = Some (JStr new_text)
         \<and> map_of store'' ''narrative'' = Some (JStr (py_strip old_text)))"
proof -
  let ?f = "GroundTruthEditForm (sc_ground_truth s)" and ?q = "or_empty (gt_expected_query (sc_ground_truth s))"
  let ?g = "?f\<lparr>gf_uncertainty := edited\<rparr>"
  have f: "sv_edit (refresh_view s' (mount_view s)) = Some ?f" "gf_narrative ?f = old_text"
    "gf_narrative ?g = old_text" "gf_expectedQuery ?g = ?q"
    using assms(1-3) by (simp_all add: mount_view_def refresh_view_def GroundTruthEditForm_def or_empty_def)
  have new: "map_of store' ''narrative'' = Some (JStr new_text)"
    using assms(4,5) by (auto simp: regenerate_note_def)
  obtain q where q: "normalize_narrative old_text = Some (py_strip old_text)" "normalize_expected_query one_read ?q = Some q"
    using assms(6) by (auto simp: notes_valid_def normalize_narrative_def split: if_splits)
  have "update_ground_truth one_read Draft (gt_payload ?g) store' = Inr (merge store' (gt_updates ?g (py_strip old_text) q))"
    by (simp add: update_ground_truth_def gt_body f q)
  moreover have "map_of (merge store' (gt_updates ?g (py_strip old_text) q)) ''narrative'' = Some (JStr (py_strip old_text))"
    by (simp add: gt_updates_def gt_payload_def)
  ultimately show ?thesis using f(1,2) new by blast
qed

definition sample_evidence :: gt_evidence where
  "sample_evidence =
     \<lparr>ev_source_exception_flag_id = ''f'', ev_category = ''stockout'', ev_product_id = None, ev_warehouse_id = None,
      ev_purchase_order_id = None, ev_shipment_id = None, ev_simulation_date = ''d'',
      ev_first_detected_simulation_date = ''d'', ev_measured_value = None, ev_threshold_value = ''5''\<rparr>"

definition sample_truth :: "string \<Rightarrow> ground_truth" where
  "sample_truth n =
     \<lparr>gt_known_cause = ''late'', gt_evidence = sample_evidence, gt_supporting_signals = [], gt_distractors = [],
      gt_expected_considerations = [], gt_acceptable_conclusions = [], gt_unacceptable_conclusions = [],
      gt_uncertainty = [], gt_narrative = Some n, gt_expected_query = None\<rparr>"

definition sample_scenario :: "scenario_status \<Rightarrow> string \<Rightarrow> scenario" where
  "sample_scenario s n =
     \<lparr>sc_id = ''s-1'', sc_title = ''T'', sc_scenario_type = process_breakdown, sc_competency_cluster = communication,
      sc_difficulty_tier = standard, sc_from_exception = True, sc_source_exception_flag_id = None,
      sc_ground_truth = sample_truth n, sc_status = s, sc_created_by = ''b'', sc_approved_at = None,
      sc_activated_at = None, sc_created_at = ''d'', sc_updated_at = ''d''\<rparr>"

text \<open>For the witnesses: a classifier that reads every query as one statement.\<close>

lemma story_texts: "py_strip ''story'' = ''story''" "py_len ''story'' = 5" "py_strip [] = []" "py_len [] = 0"
  by (simp_all add: py_strip_def py_ws_def strip_prefixes.simps starts_with_def char_of_def py_len_def byte_def)

theorem notes_keep_graded_fields_witness:
  "\<exists>body new. update_ground_truth Some Active body [(''known_cause'', JStr ''late'')] = Inr new
     \<and> map_of new ''known_cause'' = Some (JStr ''late'') \<and> map_of new ''narrative'' = Some (JStr ''story'')"
proof -
  let ?s = "sample_scenario Active ''story''" and ?f = "BuilderNotesForm (sample_truth ''story'')"
  have f: "sv_notes (mount_view ?s) = Some ?f" "nf_narrative ?f = ''story''" "nf_expectedQuery ?f = []"
    by (simp_all add: mount_view_def sample_scenario_def live_def BuilderNotesForm_def sample_truth_def or_empty_def)
  have st: "sc_status ?s = Active" by (simp add: sample_scenario_def)
  have valid: "notes_valid Some ''story'' []"
    by (simp add: notes_valid_def normalize_narrative_def normalize_expected_query_def story_texts MAX_NARRATIVE_CHARS_def)
  have call: "notes_handleSave ''s-1'' ?f = (?f\<lparr>nf_isSaving := True\<rparr>, Some (patch_gt ''s-1'' (JObj (notes_payload ?f))))"
    by (simp add: notes_handleSave_def BuilderNotesForm_def)
  from notes_keep_graded_fields [OF f(1) call, of Some "[(''known_cause'', JStr ''late'')]", unfolded st f story_texts]
  obtain body where body: "case update_ground_truth Some Active body [(''known_cause'', JStr ''late'')] of
      Inl r \<Rightarrow> r = Invalid_body \<and> refusal_status r = 422 \<and> \<not> notes_valid Some ''story'' []
    | Inr new \<Rightarrow> 5 \<le> (4000::nat) \<and> 0 \<le> (4000::nat) \<and> map_of new ''narrative'' = Some (JStr ''story'')
        \<and> map_of new ''expected_query'' = map_option JStr (Some [])
        \<and> (\<forall>k. k = ''narrative'' \<or> k = ''expected_query'' \<or> map_of new k = map_of [(''known_cause'', JStr ''late'')] k)"
    by blast
  then obtain new where new: "update_ground_truth Some Active body [(''known_cause'', JStr ''late'')] = Inr new"
    "map_of new ''narrative'' = Some (JStr ''story'')"
    "\<forall>k. k = ''narrative'' \<or> k = ''expected_query'' \<or> map_of new k = map_of [(''known_cause'', JStr ''late'')] k"
    using valid by (cases "update_ground_truth Some Active body [(''known_cause'', JStr ''late'')]") simp_all
  moreover have "map_of new ''known_cause'' = Some (JStr ''late'')" using spec [OF new(3), of "''known_cause''"] by simp
  ultimately show ?thesis by blast
qed

theorem open_form_undoes_regeneration_witness:
  "\<exists>f. sv_edit (refresh_view (sample_scenario Draft ''new'') (mount_view (sample_scenario Draft ''story''))) = Some f
     \<and> gf_narrative f = ''story''"
  using open_form_undoes_regeneration [of "sample_scenario Draft ''story''" "sample_scenario Draft ''new''" "''story''"
      "\<lambda>gt. Some ''new''" "[]" "[(''narrative'', JStr ''new'')]" "''new''" Some "[]"]
  by (auto simp: sample_scenario_def sample_truth_def regenerate_note_def notes_valid_def normalize_narrative_def
      normalize_expected_query_def story_texts MAX_NARRATIVE_CHARS_def or_empty_def)

text \<open>The same in the notes form of a live scenario: saving an edited query puts the old narrative back.\<close>

theorem open_notes_undo_regeneration:
  assumes "live (sc_status s)" and "live (sc_status s')" and "gt_narrative (sc_ground_truth s) = Some old_text"
    and "notes_valid one_read old_text edited"
  shows "\<exists>f new. sv_notes (refresh_view s' (mount_view s)) = Some f
    \<and> update_ground_truth one_read (sc_status s') (notes_payload (f\<lparr>nf_expectedQuery := edited\<rparr>)) store = Inr new
    \<and> map_of new ''narrative'' = Some (JStr (py_strip old_text))"
  using assms
  by (auto simp: mount_view_def refresh_view_def BuilderNotesForm_def or_empty_def update_ground_truth_def notes_body
      notes_valid_def normalize_narrative_def may_edit_builder_notes_def BUILDER_NOTE_KEYS_def live_def split: if_splits)

theorem open_notes_undo_regeneration_witness:
  "\<exists>f. sv_notes (refresh_view (sample_scenario Active ''new'') (mount_view (sample_scenario Approved ''story''))) = Some f"
  using open_notes_undo_regeneration [of "sample_scenario Approved ''story''" "sample_scenario Active ''new''" "''story''" Some "[]" "[]"]
  by (auto simp: sample_scenario_def sample_truth_def live_def notes_valid_def normalize_narrative_def
      normalize_expected_query_def story_texts MAX_NARRATIVE_CHARS_def)

text \<open>The Regenerate button of a draft asks with the promise that the Builder's edits are kept; the backend
  replaces the whole ground truth, whatever it was.\<close>

theorem regeneration_keeps_no_edit:
  "ACTION_CONFIRM Regenerate = Some ''Re-derive known cause and evidence from the source exception flag? Your narrative edits (known cause, distractors, etc.) are kept.''
   \<and> regenerated fresh generated old = regenerated fresh generated []"
  by (simp add: regenerated_def)

section \<open>The export\<close>

definition export_ok :: "export_dialog \<Rightarrow> bool" where
  "export_ok d \<longleftrightarrow> length (pe_requests d) = (if pe_state d = Export_idle then 0 else 1)"

lemma export_step_ok: "export_ok d \<Longrightarrow> export_ok (export_step t e d)"
  by (cases e) (auto simp: export_ok_def handleOpenChange_def exportReplied_def Let_def
      split: fetch_result.split response_body.split)

lemma export_run_ok: "export_ok (export_run t es)"
proof -
  have "export_ok (fold (export_step t) es d)" if "export_ok d" for d
    using that by (induction es arbitrary: d) (simp_all add: export_step_ok)
  moreover have "export_ok init_export" by (simp add: export_ok_def init_export_def)
  ultimately show ?thesis by (simp add: export_run_def)
qed

definition settled :: "export_dialog \<Rightarrow> bool" where
  "settled d \<longleftrightarrow> pe_state d \<noteq> Export_idle \<and> pe_state d \<noteq> Export_loading"

lemma settled_step:
  "settled d \<Longrightarrow> pe_state (export_step t e d) = pe_state d \<and> pe_data (export_step t e d) = pe_data d"
  by (cases e) (auto simp: settled_def handleOpenChange_def exportReplied_def Let_def)

lemma settled_fold:
  "settled d \<Longrightarrow> pe_state (fold (export_step t) es d) = pe_state d \<and> pe_data (fold (export_step t) es d) = pe_data d"
proof (induction es arbitrary: d)
  case (Cons e es)
  then have "settled (export_step t e d)" using settled_step [OF Cons.prems, of t e] by (simp add: settled_def)
  with Cons settled_step [OF Cons.prems, of t e] show ?case by simp
qed simp

text \<open>The export is asked for at most once while the page stays open, and its first answer is final:
  opening the dialog again never shows a review or a reflection that was recorded since, nor an export
  that has become available after an error.\<close>

theorem export_is_a_snapshot:
  "length (pe_requests (export_run t es)) \<le> 1
   \<and> (\<not> settled (export_run t es)
      \<or> pe_state (export_run t (es @ later)) = pe_state (export_run t es)
        \<and> pe_data (export_run t (es @ later)) = pe_data (export_run t es))"
proof -
  have "length (pe_requests (export_run t es)) \<le> 1" using export_run_ok [of t es] by (simp add: export_ok_def split: if_splits)
  moreover have "settled (export_run t es) \<Longrightarrow> pe_state (export_run t (es @ later)) = pe_state (export_run t es)
        \<and> pe_data (export_run t (es @ later)) = pe_data (export_run t es)"
    using settled_fold [of "export_run t es" t later] by (simp add: export_run_def)
  ultimately show ?thesis by blast
qed

theorem export_is_a_snapshot_witness:
  "pe_state (export_run ''t'' ([Open_change True, Export_replied (Reply (json_response (detail ''no'') 503))]
     @ [Open_change False, Open_change True, Export_replied (Reply (json_response (JObj []) 200))])) = Export_error"
  using export_is_a_snapshot [of "''t''" "[Open_change True, Export_replied (Reply (json_response (detail ''no'') 503))]"
      "[Open_change False, Open_change True, Export_replied (Reply (json_response (JObj []) 200))]"]
  by (simp add: export_run_def init_export_def handleOpenChange_def exportReplied_def settled_def json_response_def resp_ok_def)

end
