(* ===== verification/Sign_In.thy ===== *)
theory Sign_In
  imports Navigation Ui_Common
begin

text \<open>
  The log-in forms of the two applications (\<open>login-form.tsx\<close>, \<open>login-form-1.tsx\<close>), composed
  with the route handler their request reaches (\<open>Sessions\<close>), the browser's cookie jar and the
  navigation that follows (\<open>Navigation\<close>).
\<close>

section \<open>The forms\<close>

text \<open>\<open>lf_error\<close> holds the body's \<open>detail\<close> as it came, or a text.\<close>

record login_form =
  lf_email :: string
  lf_password :: string
  lf_error :: "json option"
  lf_isSubmitting :: bool

definition empty_login :: login_form where
  "empty_login = \<lparr>lf_email = [], lf_password = [], lf_error = None, lf_isSubmitting = False\<rparr>"

definition login_call :: "string \<Rightarrow> string \<Rightarrow> ui_call" where
  "login_call email password =
     post ''/api/login'' (Some (JObj [(''email'', JStr email), (''password'', JStr password)]))"

text \<open>
  \<open>valid_email\<close> is the browser's check of an email input, for the Builder that of the schema
  library too; a submit event comes only when it and the non-empty checks pass and the button is enabled.
\<close>

definition can_submit :: "(string \<Rightarrow> bool) \<Rightarrow> login_form \<Rightarrow> bool" where
  "can_submit valid_email f \<longleftrightarrow>
     \<not> lf_isSubmitting f \<and> lf_email f \<noteq> [] \<and> valid_email (lf_email f) \<and> lf_password f \<noteq> []"

definition orbyn_handleSubmit :: "(string \<Rightarrow> bool) \<Rightarrow> login_form \<Rightarrow> login_form \<times> ui_call option" where
  "orbyn_handleSubmit valid_email f =
     (if \<not> can_submit valid_email f then (f, None)
      else (f\<lparr>lf_error := None, lf_isSubmitting := True\<rparr>, Some (login_call (lf_email f) (lf_password f))))"

definition builder_onSubmit :: "(string \<Rightarrow> bool) \<Rightarrow> login_form \<Rightarrow> login_form \<times> ui_call option" where
  "builder_onSubmit valid_email f =
     (if \<not> can_submit valid_email f then (f, None)
      else (f\<lparr>lf_error := None, lf_isSubmitting := True\<rparr>, Some (login_call (lf_email f) (lf_password f))))"

text \<open>After the \<open>await\<close>: whether the router moves on, and the form. A refusal whose body is JSON
  \<open>null\<close> throws inside the \<open>try\<close>.\<close>

definition login_failed :: "http_response \<Rightarrow> json" where
  "login_failed resp =
     (if body_or_empty resp = JNull then JStr unreachable
      else nullish_or (opt_prop (body_or_empty resp) ''detail'') (JStr ''Sign in failed''))"

definition loginReplied :: "fetch_result \<Rightarrow> login_form \<Rightarrow> bool \<times> login_form" where
  "loginReplied r f =
     (case r of
        NetError \<Rightarrow> (False, f\<lparr>lf_error := Some (JStr unreachable), lf_isSubmitting := False\<rparr>)
      | Reply resp \<Rightarrow>
          if \<not> resp_ok resp then (False, f\<lparr>lf_error := Some (login_failed resp), lf_isSubmitting := False\<rparr>)
          else (True, f\<lparr>lf_isSubmitting := False\<rparr>))"

section \<open>The round trip\<close>

text \<open>A handler that throws is answered by the framework, with a 500 that is no JSON.\<close>

definition serve :: "http_response outcome \<Rightarrow> http_response" where
  "serve x =
     (case x of
        Returned r \<Rightarrow> r
      | Thrown e \<Rightarrow> \<lparr>rs_status = 500, rs_headers = [], rs_body = BodyRaw ''Internal Server Error'', rs_cookies = []\<rparr>)"

text \<open>
  A submit from start to end: the request, if it gets through, is handled on the server; the browser
  stores the answer's cookies; the form continues, and a push loads \<open>/dashboard\<close> with the fuel
  that is always enough.
\<close>

definition signed_in_view :: "(json option \<Rightarrow> string) \<Rightarrow> http_response \<Rightarrow> browser \<Rightarrow> browser" where
  "signed_in_view stringify resp b = b\<lparr>br_ctx := store_cookies stringify resp (br_ctx b)\<rparr>"

definition login_body :: "ui_call \<Rightarrow> ui_request" where
  "login_body u = \<lparr>ui_json = uc_body u, ui_form = None\<rparr>"

definition orbyn_signIn ::
    "(json option \<Rightarrow> string) \<Rightarrow> (string \<Rightarrow> bool) \<Rightarrow> network \<Rightarrow> bool \<Rightarrow> login_form \<times> browser \<Rightarrow> login_form \<times> browser" where
  "orbyn_signIn stringify valid_email net reached fb =
     (case orbyn_handleSubmit valid_email (fst fb) of
        (f, None) \<Rightarrow> (f, snd fb)
      | (f, Some u) \<Rightarrow>
          if \<not> reached then (snd (loginReplied NetError f), snd fb)
          else
            let resp = serve (result (orbyn_login_POST (br_ctx (snd fb)) (login_body u)) net);
                b = signed_in_view stringify resp (snd fb)
            in case loginReplied (Reply resp) f of
                 (moves, f') \<Rightarrow> (f', if moves then show_after (browse 3 (orbyn_load net) (br_ctx b) ''/dashboard'') b else b))"

definition builder_signIn ::
    "(json option \<Rightarrow> string) \<Rightarrow> (string \<Rightarrow> bool) \<Rightarrow> network \<Rightarrow> bool \<Rightarrow> login_form \<times> browser \<Rightarrow> login_form \<times> browser" where
  "builder_signIn stringify valid_email net reached fb =
     (case builder_onSubmit valid_email (fst fb) of
        (f, None) \<Rightarrow> (f, snd fb)
      | (f, Some u) \<Rightarrow>
          if \<not> reached then (snd (loginReplied NetError f), snd fb)
          else
            let resp = serve (result (builder_login_POST (br_ctx (snd fb)) (login_body u)) net);
                b = signed_in_view stringify resp (snd fb)
            in case loginReplied (Reply resp) f of
                 (moves, f') \<Rightarrow> (f', if moves then show_after (browse 5 (builder_load net) (br_ctx b) ''/dashboard'') b else b))"

section \<open>What a submit does\<close>

lemma login_call_credentials: "credentials_of (login_body (login_call e p)) = Some (e, p)"
  by (simp add: credentials_of_def login_body_def login_call_def post_def read_credentials_object) (simp add: ret_def)

lemma serve_simps [simp]: "serve (Returned r) = r"
  by (simp add: serve_def)

lemma logged_in_cookie:
  "get_cookie (store_cookies stringify (json_response j st \<lparr>rs_cookies := [CSet k v a]\<rparr>) c) n =
     (if n = k then Some (stringify v) else get_cookie c n)"
  by (rule get_cookie_store(3)) simp

definition me_request :: "string \<Rightarrow> string \<Rightarrow> http_request" where
  "me_request token base = bearer_request ''GET'' token base ''/api/v1/me'' NoBody (Some ''no-store'')"

lemma rejected_answer:
  assumes "login = orbyn_login_POST \<or> login = builder_login_POST"
    and "truthy (cx_base_url c) = Some base" and "net (login_request base e p) = Reply reply"
    and "\<not> resp_ok reply" and "rs_body reply = BodyJson j" and "j \<noteq> JNull"
  shows "result (login c (login_body (login_call e p))) net =
    Returned (json_response (JObj [(''detail'', nullish_or (opt_prop j ''detail'') (JStr ''Sign in failed''))])
      (if rs_status reply = 429 then 429 else 401))"
proof -
  have "result (login c (login_body (login_call e p))) net = result (refuse_login reply) net"
    using assms(1-4) by (auto simp: login_steps login_call_credentials login_runs)
  then show ?thesis
    using assms(5,6) by (simp add: refuse_login_def resp_json_or_empty_def login_runs get_prop_result)
qed

lemma no_cookies_kept: "store_cookies stringify (json_response j st) c = c"
  by (simp add: store_cookies_def)

lemma nullish_or_twice: "nullish_or (Some (nullish_or v (JStr s))) d = nullish_or v (JStr s)"
  by (auto simp: nullish_or_def split: option.split json.split)

lemma granted_answer:
  assumes "truthy (cx_base_url c) = Some base" and "net (login_request base e p) = Reply reply" and "resp_ok reply"
    and "rs_body reply = BodyJson body" and "opt_prop body ''access_token'' = Some (JStr token)"
    and "opt_prop body ''role'' = Some (JStr ''admin'')"
  shows "result (builder_login_POST c (login_body (login_call e p))) net =
      Returned (json_response (JObj [(''ok'', JBool True)]) 200 \<lparr>rs_cookies := [CSet builder_session (Some (JStr token)) (session_attrs c)]\<rparr>)"
    and "result (orbyn_login_POST c (login_body (login_call e p))) net =
      Returned (json_response (JObj [(''ok'', JBool True)]) 200 \<lparr>rs_cookies := [CSet orbyn_session (Some (JStr token)) (session_attrs c)]\<rparr>)"
proof -
  have "body \<noteq> JNull" using assms(5) by auto
  then show "result (builder_login_POST c (login_body (login_call e p))) net =
      Returned (json_response (JObj [(''ok'', JBool True)]) 200 \<lparr>rs_cookies := [CSet builder_session (Some (JStr token)) (session_attrs c)]\<rparr>)"
    and "result (orbyn_login_POST c (login_body (login_call e p))) net =
      Returned (json_response (JObj [(''ok'', JBool True)]) 200 \<lparr>rs_cookies := [CSet orbyn_session (Some (JStr token)) (session_attrs c)]\<rparr>)"
    using assms by (simp_all add: login_steps login_call_credentials login_runs)
qed

lemma dashboard_visits:
  "layout_allows net c \<Longrightarrow> browse 5 (builder_load net) c ''/dashboard'' = Some (AppPage ''/dashboard'', c)"
  using builder_page_visit [of "''/dashboard''" net c] by simp

lemma admin_layout:
  assumes "get_cookie c builder_session = Some token" and "token \<noteq> []" and "truthy (cx_base_url c) = Some base"
    and "net (me_request token base) = Reply me" and "resp_ok me" and "rs_body me = BodyJson mb"
    and "opt_prop mb ''role'' = Some (JStr ''admin'')"
  shows "layout_allows net c"
proof -
  have "mb \<noteq> JNull" using assms(7) by auto
  then show ?thesis
    using assms by (simp add: layout_allows_def builder_getCurrentRole_def me_request_def b_role_of_def login_runs)
qed

section \<open>Properties\<close>

text \<open>C10: Signing in to the Builder works end to end: with credentials the backend grants to an admin, the
  form ends without an error, the browser holds the Builder's session cookie with the very token of the
  grant and every other cookie as before, and it shows the dashboard. (\<open>stringify\<close> is the cookie
  serialiser, which keeps a string as it is.)\<close>

theorem sign_in_reaches_dashboard:
  assumes "\<And>t. stringify (Some (JStr t)) = t" and "truthy (cx_base_url (br_ctx b)) = Some base"
    and "can_submit valid_email f"
    and "net (login_request base (lf_email f) (lf_password f)) = Reply reply" and "resp_ok reply"
    and "rs_body reply = BodyJson body" and "opt_prop body ''access_token'' = Some (JStr token)" and "token \<noteq> []"
    and "opt_prop body ''role'' = Some (JStr ''admin'')"
    and "net (me_request token base) = Reply me" and "resp_ok me" and "rs_body me = BodyJson mb"
    and "opt_prop mb ''role'' = Some (JStr ''admin'')"
  shows "let (f', b') = builder_signIn stringify valid_email net True (f, b)
    in lf_error f' = None \<and> \<not> lf_isSubmitting f' \<and> br_view b' = Some (AppPage ''/dashboard'')
      \<and> get_cookie (br_ctx b') builder_session = Some token
      \<and> (\<forall>n. n = builder_session \<or> get_cookie (br_ctx b') n = get_cookie (br_ctx b) n)"
proof -
  let ?r = "json_response (JObj [(''ok'', JBool True)]) 200
      \<lparr>rs_cookies := [CSet builder_session (Some (JStr token)) (session_attrs (br_ctx b))]\<rparr>"
  let ?c = "store_cookies stringify ?r (br_ctx b)"
  have cookie: "get_cookie ?c n = (if n = builder_session then Some token else get_cookie (br_ctx b) n)" for n
    using assms(1) by (simp add: logged_in_cookie)
  have "layout_allows net ?c"
    using assms(2,8,10-13) cookie [of builder_session] by (intro admin_layout) auto
  then have visit: "browse 5 (builder_load net) ?c ''/dashboard'' = Some (AppPage ''/dashboard'', ?c)"
    by (rule dashboard_visits)
  have ok: "resp_ok ?r" by (simp add: resp_ok_def json_response_def)
  show ?thesis
    using assms(3) granted_answer(1) [where c = "br_ctx b" and net = net and base = base and e = "lf_email f" and p = "lf_password f", OF assms(2,4,5,6,7,9)] visit cookie ok
    by (simp add: builder_signIn_def builder_onSubmit_def signed_in_view_def loginReplied_def show_after_def Let_def)
qed

text \<open>C11: A sign-in the backend refuses changes nothing in the browser, in either application: no cookie, no
  page; the form is free again and shows the backend's own reason (or that signing in failed, when it
  gave none).\<close>

theorem refused_sign_in_stays:
  assumes "truthy (cx_base_url (br_ctx b)) = Some base" and "can_submit valid_email f"
    and "net (login_request base (lf_email f) (lf_password f)) = Reply reply" and "\<not> resp_ok reply"
    and "rs_body reply = BodyJson j" and "j \<noteq> JNull"
  shows "builder_signIn stringify valid_email net True (f, b) =
      (f\<lparr>lf_error := Some (nullish_or (opt_prop j ''detail'') (JStr ''Sign in failed'')), lf_isSubmitting := False\<rparr>, b)
    \<and> orbyn_signIn stringify valid_email net True (f, b) =
      (f\<lparr>lf_error := Some (nullish_or (opt_prop j ''detail'') (JStr ''Sign in failed'')), lf_isSubmitting := False\<rparr>, b)"
proof -
  let ?j = "JObj [(''detail'', nullish_or (opt_prop j ''detail'') (JStr ''Sign in failed''))]"
  let ?st = "if rs_status reply = 429 then 429 else 401"
  have nok: "\<not> resp_ok (json_response ?j ?st)" by (simp add: resp_ok_def json_response_def)
  have "login_failed (json_response ?j ?st) = nullish_or (opt_prop j ''detail'') (JStr ''Sign in failed'')"
    by (simp add: login_failed_def body_or_empty_def json_response_def nullish_or_twice)
  moreover note answer = rejected_answer [where c = "br_ctx b" and net = net and base = base and e = "lf_email f" and p = "lf_password f",
      OF _ assms(1,3-6)]
  ultimately show ?thesis
    using assms(2) nok answer [of orbyn_login_POST] answer [of builder_login_POST]
    by (simp add: builder_signIn_def builder_onSubmit_def orbyn_signIn_def orbyn_handleSubmit_def signed_in_view_def
        loginReplied_def no_cookies_kept Let_def)
qed

definition sample_form :: login_form where
  "sample_form = \<lparr>lf_email = ''b@x'', lf_password = ''pw'', lf_error = None, lf_isSubmitting = False\<rparr>"

definition sample_browser :: browser where
  "sample_browser = \<lparr>br_ctx = sample_ctx, br_storage = Unavailable, br_view = Some (OpenPage ''/sign-in'')\<rparr>"

definition text_of :: "json option \<Rightarrow> string" where
  "text_of v = (case v of Some (JStr t) \<Rightarrow> t | _ \<Rightarrow> [])"

lemma sample_can_submit: "can_submit (\<lambda>e. True) sample_form"
  by (simp add: can_submit_def sample_form_def)

theorem sign_in_reaches_dashboard_witness:
  "br_view (snd (builder_signIn text_of (\<lambda>e. True) (sample_backend 200 sample_grant) True (sample_form, sample_browser)))
     = Some (AppPage ''/dashboard'')"
  using sign_in_reaches_dashboard [of text_of sample_browser "''http://api''" "\<lambda>e. True" sample_form
      "sample_backend 200 sample_grant" _ sample_grant "''tok''" _ sample_grant] sample_can_submit
  by (simp add: text_of_def sample_browser_def sample_backend_def resp_ok_def sample_grant_def Let_def split: prod.splits)

theorem refused_sign_in_stays_witness:
  "builder_signIn text_of (\<lambda>e. True) (sample_backend 429 (detail ''slow down'')) True (sample_form, sample_browser)
     = (sample_form\<lparr>lf_error := Some (JStr ''slow down''), lf_isSubmitting := False\<rparr>, sample_browser)"
  using refused_sign_in_stays [of sample_browser "''http://api''" "\<lambda>e. True" sample_form
      "sample_backend 429 (detail ''slow down'')" _ "detail ''slow down''" text_of] sample_can_submit
  by (simp add: sample_browser_def sample_backend_def resp_ok_def detail_def nullish_or_def)

end
