(* ===== verification/Data_Pages.thy ===== *)
theory Data_Pages
  imports Master_Data Scenario_Page Chat_Data
begin

text \<open>
  The pages that load data on the server: the lists and details of Subsystem 1
  (\<open>app/(app)/**/page.tsx\<close>) and the Builder's home, mail and new-scenario pages
  (\<open>app/(dashboard)\<close>). A page is a program of its requests and what it makes of the replies:
  rows for its table, a record, the not-found page, or a view of its own. A thrown error is the
  framework's error boundary. The tables and charts that draw the result are not modelled.
\<close>

section \<open>What a page can show\<close>

datatype page_view =
    Rows json
  | Record_view json
  | Not_found
  | Load_error
  | No_access

text \<open>\<open>response.ok ? await response.json() : []\<close>\<close>

definition rows_or_empty :: "http_response \<Rightarrow> json io" where
  "rows_or_empty r = (if resp_ok r then resp_json r else ret (JArr []))"

definition list_page :: "http_response io \<Rightarrow> page_view io" where
  "list_page call = and_then call (\<lambda>r. and_then (rows_or_empty r) (\<lambda>rows. ret (Rows rows)))"

definition list_page_404 :: "http_response io \<Rightarrow> page_view io" where
  "list_page_404 call =
     and_then call (\<lambda>r.
       if rs_status r = 404 then ret Not_found
       else and_then (rows_or_empty r) (\<lambda>rows. ret (Rows rows)))"

section \<open>Subsystem 1: lists\<close>

definition ActivityPage :: "ctx \<Rightarrow> page_view io" where
  "ActivityPage c = list_page (listDecisions c)"

definition CustomersPage :: "ctx \<Rightarrow> page_view io" where
  "CustomersPage c = list_page (listMasterData c ''customers'')"

definition AnalyticsPage :: "ctx \<Rightarrow> page_view io" where
  "AnalyticsPage c = list_page (getExecutiveTrend c)"

definition InventoryPage :: "ctx \<Rightarrow> page_view io" where
  "InventoryPage c = list_page (listInventoryPositions c None)"

definition InventoryTransactionsPage :: "ctx \<Rightarrow> string \<Rightarrow> string \<Rightarrow> page_view io" where
  "InventoryTransactionsPage c productId warehouseId =
     list_page_404 (listInventoryTransactions c productId warehouseId)"

definition NotificationsPage :: "ctx \<Rightarrow> page_view io" where
  "NotificationsPage c = list_page (orbyn_listNotificationFeed c)"

definition OrdersPage :: "ctx \<Rightarrow> page_view io" where
  "OrdersPage c = list_page (listPurchaseOrders c)"

definition SalesOrdersPage :: "ctx \<Rightarrow> page_view io" where
  "SalesOrdersPage c = list_page (listSalesOrders c)"

definition ReportsPage :: "ctx \<Rightarrow> string option \<Rightarrow> page_view io" where
  "ReportsPage c category = list_page (listExceptions c category False)"

definition ShippingPage :: "ctx \<Rightarrow> page_view io" where
  "ShippingPage c = list_page (listShipments c)"

definition SuppliersPage :: "ctx \<Rightarrow> page_view io" where
  "SuppliersPage c = list_page (listSupplierPerformance c)"

definition SupplierDetailPage :: "ctx \<Rightarrow> string \<Rightarrow> page_view io" where
  "SupplierDetailPage c i = list_page_404 (listSupplierPurchaseOrders c i)"

text \<open>The chat page: the threads, and whether the caller may delete them.\<close>

definition ChatPage :: "ctx \<Rightarrow> (json \<times> bool) io" where
  "ChatPage c =
     and_then (orbyn_listThreads c) (\<lambda>r.
       and_then (rows_or_empty r) (\<lambda>threads.
         and_then (orbyn_getCurrentRole c) (\<lambda>role. ret (threads, role = Some ''admin''))))"

section \<open>Subsystem 1: details\<close>

text \<open>\<open>v.k.map(...)\<close> in the rendering: anything but an array throws.\<close>

definition map_prop :: "json \<Rightarrow> string \<Rightarrow> unit io" where
  "map_prop v k =
     and_then (get_prop v k) (\<lambda>p. case p of Some (JArr xs) \<Rightarrow> ret () | _ \<Rightarrow> throw TypeErr)"

definition OrderDetailPage :: "ctx \<Rightarrow> string \<Rightarrow> page_view io" where
  "OrderDetailPage c i =
     and_then (getPurchaseOrderDetail c i) (\<lambda>r.
       if rs_status r = 404 then ret Not_found
       else and_then (resp_json r) (\<lambda>po.
         and_then (map_prop po ''lines'') (\<lambda>u.
           and_then (map_prop po ''lifecycle_events'') (\<lambda>u. ret (Record_view po)))))"

definition SalesOrderDetailPage :: "ctx \<Rightarrow> string \<Rightarrow> page_view io" where
  "SalesOrderDetailPage c i =
     and_then (getSalesOrderDetail c i) (\<lambda>r.
       if rs_status r = 404 then ret Not_found
       else and_then (resp_json r) (\<lambda>so1.
         and_then (map_prop so1 ''lines'') (\<lambda>u.
           and_then (map_prop so1 ''shipments'') (\<lambda>u.
             and_then (map_prop so1 ''lifecycle_events'') (\<lambda>u. ret (Record_view so1))))))"

text \<open>\<open>const \{ flag \} = drilldown\<close>, then \<open>flag.category\<close>.\<close>

definition ExceptionDetailPage :: "ctx \<Rightarrow> string \<Rightarrow> page_view io" where
  "ExceptionDetailPage c i =
     and_then (getExceptionDrilldown c i) (\<lambda>r.
       if rs_status r = 404 then ret Not_found
       else and_then (resp_json r) (\<lambda>drilldown.
         and_then (get_prop drilldown ''flag'') (\<lambda>flag.
           case flag of
             None \<Rightarrow> throw TypeErr
           | Some f \<Rightarrow> and_then (get_prop f ''category'') (\<lambda>u. ret (Record_view drilldown)))))"

definition EXCEPTION_CATEGORY_LABEL :: "(string \<times> string) list" where
  "EXCEPTION_CATEGORY_LABEL =
     [(''low_stock_days_of_supply'', ''Low stock''), (''at_risk_po_grace_days'', ''At-risk PO''),
      (''late_shipment_grace_days'', ''Late shipment''),
      (''reporting_conflict_qty_variance'', ''Reporting conflict''),
      (''reporting_lag_stale'', ''Stale reporting data''), (''duplicate_purchase_order'', ''Duplicate PO'')]"

definition exception_label :: "string \<Rightarrow> string" where
  "exception_label category =
     (case map_of EXCEPTION_CATEGORY_LABEL category of Some l \<Rightarrow> l | None \<Rightarrow> category)"

definition reports_description :: "string option \<Rightarrow> string" where
  "reports_description category =
     (case truthy category of
        Some k \<Rightarrow> ''Data quality '' @ em_dash @ '' filtered to '' @ exception_label k @ ''.''
      | None \<Rightarrow> ''Data quality '' @ em_dash @ '' exception and conflicting-source reporting.'')"

section \<open>Subsystem 1: overview and query log\<close>

text \<open>\<open>number\<close> is what \<open>Number()\<close> makes of the query parameter, as far as it is an integer.\<close>

definition WINDOW_OPTIONS :: "int list" where
  "WINDOW_OPTIONS = [7, 30, 90]"

definition parseWindow :: "(string option \<Rightarrow> int option) \<Rightarrow> string option \<Rightarrow> int" where
  "parseWindow number value =
     (case number value of Some d \<Rightarrow> if d \<in> set WINDOW_OPTIONS then d else 30 | None \<Rightarrow> 30)"

definition OverviewPage :: "(string option \<Rightarrow> int option) \<Rightarrow> ctx \<Rightarrow> string option \<Rightarrow> page_view io" where
  "OverviewPage number c days =
     and_then (getOverview c (Some (parseWindow number days))) (\<lambda>r.
       if \<not> resp_ok r then ret Load_error
       else and_then (resp_json r) (\<lambda>overview. ret (Record_view overview)))"

definition AdminQueryLogPage :: "ctx \<Rightarrow> page_view io" where
  "AdminQueryLogPage c =
     and_then (orbyn_getCurrentRole c) (\<lambda>role.
       if role \<noteq> Some ''admin'' then ret No_access
       else list_page (getAdminQueryLog c 500 0))"

definition STATEMENT_TYPE_VARIANT :: "string \<Rightarrow> string" where
  "STATEMENT_TYPE_VARIANT t =
     (case map_of [(''read'', ''secondary''), (''write'', ''destructive''), (''unknown'', ''destructive'')] t of
        Some v \<Rightarrow> v | None \<Rightarrow> ''secondary'')"

definition RESULT_STATUS_VARIANT :: "string \<Rightarrow> string" where
  "RESULT_STATUS_VARIANT s =
     (case map_of [(''success'', ''default''), (''error'', ''destructive''), (''timed_out'', ''destructive''),
                   (''cancelled'', ''secondary'')] s of
        Some v \<Rightarrow> v | None \<Rightarrow> ''secondary'')"

text \<open>The settings tabs: one link each, the current one underlined.\<close>

definition SETTINGS_TABS :: "(string \<times> string) list" where
  "SETTINGS_TABS =
     [(''/settings/products'', ''Products''), (''/settings/warehouses'', ''Warehouses''),
      (''/settings/suppliers'', ''Suppliers''), (''/settings/carriers'', ''Carriers'')]"

definition current_tab :: "string \<Rightarrow> string option" where
  "current_tab pathname = map_of SETTINGS_TABS pathname"

section \<open>The Builder's home page\<close>

text \<open>\<open>readJson\<close>: a refused read is its section's fallback.\<close>

definition readJson :: "http_response \<Rightarrow> json \<Rightarrow> json io" where
  "readJson r fallback = (if \<not> resp_ok r then ret fallback else resp_json r)"

definition b_HomePage :: "ctx \<Rightarrow> (json \<times> json \<times> json \<times> json) io" where
  "b_HomePage c =
     and_then (both (builder_listNotificationFeed c)
                (both (builder_listThreads c) (both (listScenarios c None) (builder_getExecutiveSummary c))))
       (\<lambda>(feedR, threadsR, scenariosR, executiveR).
          and_then (readJson feedR (JArr [])) (\<lambda>feed.
            and_then (readJson threadsR (JArr [])) (\<lambda>threads.
              and_then (readJson scenariosR (JArr [])) (\<lambda>scenarios.
                and_then (readJson executiveR JNull) (\<lambda>executive.
                  ret (feed, threads, scenarios, executive))))))"

record scenario_row =
  sr_id :: string
  sr_title :: string
  sr_status :: string

definition scenarioTitles :: "scenario_row list \<Rightarrow> (string \<times> string) list" where
  "scenarioTitles scenarios = fold (\<lambda>s. put (sr_id s) (sr_title s)) scenarios []"

definition cancelledScenarioIds :: "scenario_row list \<Rightarrow> string set" where
  "cancelledScenarioIds scenarios = sr_id ` set (filter (\<lambda>s. sr_status s = ''cancelled'') scenarios)"

definition openThreads :: "scenario_row list \<Rightarrow> chat_thread list \<Rightarrow> chat_thread list" where
  "openThreads scenarios threads =
     filter (\<lambda>t. \<not> th_completed t \<and> th_scenario_id t \<notin> cancelledScenarioIds scenarios) threads"

definition completedThreads :: "chat_thread list \<Rightarrow> chat_thread list" where
  "completedThreads threads = filter th_completed threads"

definition work_title :: "scenario_row list \<Rightarrow> chat_thread \<Rightarrow> string" where
  "work_title scenarios t =
     (case map_of (scenarioTitles scenarios) (th_scenario_id t) of Some s \<Rightarrow> s | None \<Rightarrow> ''Scenario'')"

text \<open>The badges of an entry, on the list of open work only.\<close>

definition work_badges :: "bool \<Rightarrow> chat_thread \<Rightarrow> string list" where
  "work_badges is_open t =
     (if is_open \<and> th_is_overdue t then [''Overdue''] else [])
     @ (if is_open \<and> 0 < th_unread_count t then [show_int (th_unread_count t) @ '' unread''] else [])"

text \<open>\<open>company-status.tsx\<close>: the text below the tiles.\<close>

definition upper_first :: "char \<Rightarrow> char" where
  "upper_first ch = (let n = of_char ch :: nat in if 97 \<le> n \<and> n \<le> 122 then char_of (n - 32) else ch)"

definition categoryLabel :: "string \<Rightarrow> string" where
  "categoryLabel category =
     (case map (\<lambda>ch. if ch = CHR ''_'' then CHR '' '' else ch) category of
        [] \<Rightarrow> [] | ch # s \<Rightarrow> upper_first ch # s)"

definition openTotal :: "(string \<times> int) list \<Rightarrow> int" where
  "openTotal counts = foldl (\<lambda>sum row. sum + snd row) 0 counts"

definition exceptions_text :: "(string \<times> int) list \<Rightarrow> string" where
  "exceptions_text counts =
     (if openTotal counts = 0 then ''No open exceptions''
      else show_int (openTotal counts) @ '' open exception'' @ (if openTotal counts = 1 then [] else ''s''))"

section \<open>The Builder's mail and new-scenario pages\<close>

definition scenario_option :: "json \<Rightarrow> json io" where
  "scenario_option s =
     and_then (get_prop s ''id'') (\<lambda>i. and_then (get_prop s ''title'') (\<lambda>t.
       ret (obj [(''id'', i), (''title'', t)])))"

fun map_io :: "('a \<Rightarrow> 'b io) \<Rightarrow> 'a list \<Rightarrow> 'b list io" where
  "map_io f [] = ret []"
| "map_io f (x # xs) = and_then (f x) (\<lambda>y. and_then (map_io f xs) (\<lambda>ys. ret (y # ys)))"

definition b_MailPage :: "ctx \<Rightarrow> (json \<times> json list) io" where
  "b_MailPage c =
     and_then (both (builder_listThreads c) (listScenarios c (Some ''active'')))
       (\<lambda>(threadsR, scenariosR).
          and_then (rows_or_empty threadsR) (\<lambda>threads.
            and_then (if \<not> resp_ok scenariosR then ret []
                      else and_then (resp_json scenariosR) (\<lambda>j.
                        case j of JArr ss \<Rightarrow> map_io scenario_option ss | _ \<Rightarrow> throw TypeErr))
              (\<lambda>scenarios. ret (threads, scenarios))))"

definition NewScenarioPage :: "ctx \<Rightarrow> json io" where
  "NewScenarioPage c = and_then (listOpenExceptions c None) rows_or_empty"

section \<open>Requests of a page\<close>

definition all_authorised :: "string \<Rightarrow> ctx \<Rightarrow> 'a io \<Rightarrow> bool" where
  "all_authorised cookie c p \<longleftrightarrow> (\<forall>net. list_all (authorised cookie c) (sent p net))"

lemma authorised_gated: "gated k c p \<Longrightarrow> all_authorised k c p"
  by (simp add: gated_def all_authorised_def)

lemma authorised_silent: "silent p \<Longrightarrow> all_authorised k c p"
  by (simp add: silent_def all_authorised_def)

lemma authorised_and_then:
  "all_authorised k c p \<Longrightarrow> (\<And>x. all_authorised k c (f x)) \<Longrightarrow> all_authorised k c (and_then p f)"
  by (auto simp: all_authorised_def sent_and_then split: outcome.split)

lemma sent_both: "sent (both p q) net = sent p net @ sent q net"
  by (simp add: both_def sent_def)

lemma result_both:
  "result (both p q) net =
     (case result p net of
        Thrown e \<Rightarrow> Thrown e
      | Returned x \<Rightarrow> (case result q net of Thrown e \<Rightarrow> Thrown e | Returned y \<Rightarrow> Returned (x, y)))"
  by (auto simp: both_def result_def split: outcome.split)

lemma authorised_both: "all_authorised k c p \<Longrightarrow> all_authorised k c q \<Longrightarrow> all_authorised k c (both p q)"
  by (simp add: all_authorised_def sent_both)

lemma rows_silent: "silent (rows_or_empty r)" "silent (readJson r d)" "silent (map_prop v k)"
  by (auto simp: rows_or_empty_def readJson_def map_prop_def intro!: silent_intros silent_and_then split: option.split json.split)

lemma map_io_silent: "(\<And>x. silent (f x)) \<Longrightarrow> silent (map_io f xs)"
  by (induction xs) (auto intro!: silent_intros silent_and_then)

lemma role_authorised:
  "all_authorised orbyn_session c (orbyn_getCurrentRole c)"
  by (auto simp: all_authorised_def orbyn_getCurrentRole_def sent_and_then authorised_def resp_json_def role_of_def
      truthy_Some_iff split: option.split fetch_result.split outcome.split response_body.split)

lemma authorised_leaf:
  "all_authorised k c (ret x)" "all_authorised k c (throw e)" "all_authorised k c (resp_json r)"
  "all_authorised k c (get_prop v key)" "all_authorised k c (rows_or_empty r)" "all_authorised k c (readJson r d)"
  "all_authorised k c (map_prop v key)"
  by (rule authorised_silent, rule silent_intros rows_silent)+

lemma scenario_option_silent: "silent (scenario_option s)"
  by (auto simp: scenario_option_def intro!: silent_and_then silent_intros)

lemma authorised_options: "all_authorised k c (map_io scenario_option ss)"
  by (rule authorised_silent, rule map_io_silent, rule scenario_option_silent)

lemmas page_rules = authorised_and_then authorised_both authorised_leaf authorised_options role_authorised

lemma list_pages_authorised:
  "all_authorised k c call \<Longrightarrow> all_authorised k c (list_page call)"
  "all_authorised k c call \<Longrightarrow> all_authorised k c (list_page_404 call)"
  by (auto simp: list_page_def list_page_404_def intro!: page_rules)

lemmas page_io_defs = ActivityPage_def CustomersPage_def AnalyticsPage_def InventoryPage_def
  InventoryTransactionsPage_def NotificationsPage_def OrdersPage_def SalesOrdersPage_def ReportsPage_def
  ShippingPage_def SuppliersPage_def SupplierDetailPage_def

text \<open>The pages' clients, as the calls they are.\<close>

lemmas page_calls = listDecisions_def listMasterData_def getExecutiveTrend_def listInventoryPositions_def
  listInventoryTransactions_def orbyn_listNotificationFeed_def listPurchaseOrders_def listSalesOrders_def
  listExceptions_def listShipments_def listSupplierPerformance_def listSupplierPurchaseOrders_def
  orbyn_listThreads_def getPurchaseOrderDetail_def getSalesOrderDetail_def getExceptionDrilldown_def
  getOverview_def getAdminQueryLog_def

text \<open>The requests of every data page of Subsystem 1, one list per page.\<close>

definition orbyn_page_requests ::
    "ctx \<Rightarrow> network \<Rightarrow> string \<Rightarrow> string \<Rightarrow> string option \<Rightarrow> (string option \<Rightarrow> int option) \<Rightarrow> http_request list list" where
  "orbyn_page_requests c net i k opt number =
     [sent (ActivityPage c) net, sent (CustomersPage c) net, sent (AnalyticsPage c) net, sent (InventoryPage c) net,
      sent (InventoryTransactionsPage c i k) net, sent (NotificationsPage c) net, sent (OrdersPage c) net,
      sent (SalesOrdersPage c) net, sent (ReportsPage c opt) net, sent (ShippingPage c) net, sent (SuppliersPage c) net,
      sent (SupplierDetailPage c i) net, sent (ChatPage c) net, sent (OrderDetailPage c i) net,
      sent (SalesOrderDetailPage c i) net, sent (ExceptionDetailPage c i) net, sent (OverviewPage number c opt) net,
      sent (AdminQueryLogPage c) net, sent (settings_page CarriersSettingsPage c) net,
      sent (settings_page WarehousesSettingsPage c) net, sent (settings_page ProductsSettingsPage c) net,
      sent (settings_page SuppliersSettingsPage c) net]"

definition builder_page_requests :: "ctx \<Rightarrow> network \<Rightarrow> string \<Rightarrow> string option \<Rightarrow> http_request list list" where
  "builder_page_requests c net i opt =
     [sent (b_HomePage c) net, sent (b_MailPage c) net, sent (NewScenarioPage c) net, sent (ScenariosPage c opt) net,
      sent (ScenarioDetailPage c i) net]"

lemma call_authorised:
  "all_authorised orbyn_session c (dashboardFetch c path)" "all_authorised orbyn_session c (ledgerFetch c path ini)"
  "all_authorised orbyn_session c (adminFetch c path ini)" "all_authorised orbyn_session c (orbyn_chatFetch c path ini)"
  "all_authorised builder_session c (builder_chatFetch c path ini)" "all_authorised builder_session c (scenarioFetch c path ini)"
  by (rule authorised_gated, rule gated_intros)+

lemma orbyn_pages_authorised:
  "list_all (list_all (authorised orbyn_session c)) (orbyn_page_requests c net i k opt number)"
proof -
  have lists: "all_authorised orbyn_session c (ActivityPage c)" "all_authorised orbyn_session c (CustomersPage c)"
    "all_authorised orbyn_session c (AnalyticsPage c)" "all_authorised orbyn_session c (InventoryPage c)"
    "all_authorised orbyn_session c (InventoryTransactionsPage c i k)" "all_authorised orbyn_session c (NotificationsPage c)"
    "all_authorised orbyn_session c (OrdersPage c)" "all_authorised orbyn_session c (SalesOrdersPage c)"
    "all_authorised orbyn_session c (ReportsPage c opt)" "all_authorised orbyn_session c (ShippingPage c)"
    "all_authorised orbyn_session c (SuppliersPage c)" "all_authorised orbyn_session c (SupplierDetailPage c i)"
    unfolding page_io_defs page_calls by (intro list_pages_authorised call_authorised)+
  have details: "all_authorised orbyn_session c (ChatPage c)" "all_authorised orbyn_session c (OrderDetailPage c i)"
    "all_authorised orbyn_session c (SalesOrderDetailPage c i)" "all_authorised orbyn_session c (ExceptionDetailPage c i)"
    "all_authorised orbyn_session c (OverviewPage number c opt)" "all_authorised orbyn_session c (AdminQueryLogPage c)"
    by (auto simp: ChatPage_def OrderDetailPage_def SalesOrderDetailPage_def ExceptionDetailPage_def OverviewPage_def
        AdminQueryLogPage_def page_calls intro!: page_rules call_authorised list_pages_authorised split: option.split)
  have settings: "all_authorised orbyn_session c (settings_page page c)" for page
    by (auto simp: settings_page_def page_calls intro!: page_rules call_authorised)
  show ?thesis
    using lists details settings by (simp add: orbyn_page_requests_def all_authorised_def)
qed

lemma builder_listThreads_authorised:
  "all_authorised builder_session c (builder_listThreads c)" "all_authorised builder_session c (listThreadsForScenario c sid)"
  by (auto simp: builder_listThreads_def intro!: call_authorised authorised_gated listThreadsForScenario_gated)

lemma builder_pages_authorised:
  "list_all (list_all (authorised builder_session c)) (builder_page_requests c net i opt)"
proof -
  have "all_authorised builder_session c (b_HomePage c)" "all_authorised builder_session c (b_MailPage c)"
    "all_authorised builder_session c (NewScenarioPage c)" "all_authorised builder_session c (ScenariosPage c opt)"
    "all_authorised builder_session c (ScenarioDetailPage c i)"
    by (auto simp: b_HomePage_def b_MailPage_def NewScenarioPage_def ScenariosPage_def ScenarioDetailPage_def
        builder_listNotificationFeed_def listScenarios_def builder_getExecutiveSummary_def listOpenExceptions_def
        getScenario_def Let_def intro!: page_rules call_authorised builder_listThreads_authorised
        split: json.split)
  then show ?thesis by (simp add: builder_page_requests_def all_authorised_def)
qed

section \<open>Properties\<close>

text \<open>C6: Server-side rendering speaks only for the visitor: every request that any data page of either
  application makes, however many it makes and whatever the replies are, goes to the configured backend
  with the visitor's own session token.\<close>

theorem pages_act_for_the_visitor:
  "list_all (list_all (authorised orbyn_session c)) (orbyn_page_requests c net i k opt number)
   \<and> list_all (list_all (authorised builder_session c)) (builder_page_requests c net i opt)"
  by (intro conjI orbyn_pages_authorised builder_pages_authorised)

lemma not_admin_no_log:
  "result (orbyn_getCurrentRole c) net \<noteq> Returned (Some ''admin'') \<Longrightarrow>
     sent (AdminQueryLogPage c) net = sent (orbyn_getCurrentRole c) net"
  by (auto simp: AdminQueryLogPage_def sent_and_then split: outcome.split)

text \<open>The cross-user query log is read only for a caller whom the backend has just confirmed to be an
  administrator: anyone else's visit asks for the role and for nothing more, and shows that there is
  no access (or fails, when the role cannot be had).\<close>

theorem query_log_admin_only:
  assumes "result (orbyn_getCurrentRole c) net \<noteq> Returned (Some ''admin'')"
  shows "sent (AdminQueryLogPage c) net = sent (orbyn_getCurrentRole c) net
    \<and> (result (AdminQueryLogPage c) net = Returned No_access \<or> (\<exists>e. result (AdminQueryLogPage c) net = Thrown e))"
  using assms
  by (auto simp: not_admin_no_log) (auto simp: AdminQueryLogPage_def result_and_then split: outcome.splits)

definition analyst_ctx :: ctx where
  "analyst_ctx = \<lparr>cx_cookies = [(''meadowops_session'', ''tok'')], cx_base_url = Some ''http://api'', cx_production = True\<rparr>"

definition analyst_net :: network where
  "analyst_net = (\<lambda>rq. Reply (json_response (JObj [(''role'', JStr ''analyst'')]) 200))"

lemma analyst_role: "result (orbyn_getCurrentRole c) analyst_net \<noteq> Returned (Some ''admin'')"
  by (simp add: orbyn_getCurrentRole_def analyst_net_def result_and_then role_of_def resp_json_def json_response_def resp_ok_def
      split: option.split)

theorem query_log_admin_only_witness:
  "list_all (\<lambda>rq. rq_url rq \<noteq> ''http://api/api/v1/admin/query-log?limit=500&offset=0'') (sent (AdminQueryLogPage analyst_ctx) analyst_net)"
  using query_log_admin_only [OF analyst_role, of analyst_ctx]
  by (simp add: orbyn_getCurrentRole_def analyst_ctx_def analyst_net_def get_cookie_def orbyn_session_def sent_and_then
      role_of_def resp_json_def json_response_def resp_ok_def bearer_request_def)

text \<open>The home page accounts for every conversation exactly once: it is open work, completed work, or
  an uncompleted conversation of a cancelled scenario, which alone is left out; the lists keep the
  order of the thread list.\<close>

theorem home_work_partition:
  "length (openThreads ss ts) + length (completedThreads ts)
     + length (filter (\<lambda>t. \<not> th_completed t \<and> th_scenario_id t \<in> cancelledScenarioIds ss) ts) = length ts
   \<and> set (openThreads ss ts) \<inter> set (completedThreads ts) = {}
   \<and> set ts = set (openThreads ss ts) \<union> set (completedThreads ts)
       \<union> {t \<in> set ts. \<not> th_completed t \<and> th_scenario_id t \<in> cancelledScenarioIds ss}"
proof -
  have "length (openThreads ss ts) + length (completedThreads ts)
     + length (filter (\<lambda>t. \<not> th_completed t \<and> th_scenario_id t \<in> cancelledScenarioIds ss) ts) = length ts"
    by (induction ts) (auto simp: openThreads_def completedThreads_def)
  then show ?thesis by (auto simp: openThreads_def completedThreads_def)
qed

lemma scenarioTitles_lookup:
  assumes "distinct (map sr_id ss)" "s \<in> set ss"
  shows "map_of (scenarioTitles ss) (sr_id s) = Some (sr_title s)"
proof -
  have step: "map_of (fold (\<lambda>s. put (sr_id s) (sr_title s)) xs acc) k =
      (case map_of (rev (map (\<lambda>s. (sr_id s, sr_title s)) xs)) k of Some v \<Rightarrow> Some v | None \<Rightarrow> map_of acc k)" for xs acc k
    by (induction xs arbitrary: acc) (auto simp: map_add_def split: option.split)
  have look: "map_of (rev (map (\<lambda>s. (sr_id s, sr_title s)) ss)) (sr_id s) = Some (sr_title s)"
  proof (rule map_of_is_SomeI)
    show "distinct (map fst (rev (map (\<lambda>s. (sr_id s, sr_title s)) ss)))"
      using assms(1) by (simp add: rev_map o_def flip: rev_map)
    show "(sr_id s, sr_title s) \<in> set (rev (map (\<lambda>s. (sr_id s, sr_title s)) ss))" using assms(2) by auto
  qed
  show ?thesis unfolding scenarioTitles_def step look by simp
qed

text \<open>The overview never asks for a window the buttons do not offer: whatever the query parameter says
  and however it is read as a number, the one request is for 7, 30 or 90 days.\<close>

theorem overview_window_bounded:
  "list_all (\<lambda>rq. \<exists>base. rq_url rq \<in> {base @ ''/api/v1/dashboard/overview?days=7'',
       base @ ''/api/v1/dashboard/overview?days=30'', base @ ''/api/v1/dashboard/overview?days=90''})
     (sent (OverviewPage number c days) net)"
proof -
  let ?d = "parseWindow number days"
  have "?d \<in> {7, 30, 90}" by (auto simp: parseWindow_def WINDOW_OPTIONS_def split: option.split)
  moreover have "toQuery [(''days'', Some (show_int 7))] = ''?days=7''" "toQuery [(''days'', Some (show_int 30))] = ''?days=30''"
    "toQuery [(''days'', Some (show_int 90))] = ''?days=90''"
    by code_simp+
  ultimately have q: "toQuery [(''days'', Some (show_int ?d))] \<in> {''?days=7'', ''?days=30'', ''?days=90''}" by auto
  have "sent (OverviewPage number c days) net = sent (getOverview c (Some ?d)) net"
    by (auto simp: OverviewPage_def sent_and_then split: outcome.split)
  then show ?thesis
    using q by (auto simp: getOverview_def dashboardFetch_def session_gate_def bearer_request_def split: option.split)
qed

text \<open>What a list page makes of a refusal, of whatever status: an empty table.\<close>

lemma refused_list_is_empty:
  "result call net = Returned r \<Longrightarrow> \<not> resp_ok r \<Longrightarrow> result (list_page call) net = Returned (Rows (JArr []))"
  by (simp add: list_page_def result_and_then rows_or_empty_def)

text \<open>The three detail pages check for 404 only: a record shows, an unknown id is the not-found page, but
  any other refusal of the backend (an expired session, a server error) is read as if it were the
  record and throws while rendering, where the overview shows a message and the lists an empty table.\<close>

theorem refused_detail_throws:
  assumes "truthy (get_cookie c orbyn_session) = Some token" and "truthy (cx_base_url c) = Some base"
    and "\<And>rq. net rq = Reply r" and "rs_body r = BodyJson (detail msg)" and "\<not> resp_ok r"
  shows "(rs_status r = 404 \<longrightarrow> result (OrderDetailPage c i) net = Returned Not_found
            \<and> result (SalesOrderDetailPage c i) net = Returned Not_found \<and> result (ExceptionDetailPage c i) net = Returned Not_found)
    \<and> (rs_status r \<noteq> 404 \<longrightarrow> result (OrderDetailPage c i) net = Thrown TypeErr
            \<and> result (SalesOrderDetailPage c i) net = Thrown TypeErr \<and> result (ExceptionDetailPage c i) net = Thrown TypeErr)
    \<and> result (OverviewPage number c days) net = Returned Load_error"
proof -
  have run: "result (dashboardFetch c path) net = Returned r" for path
    using assms(1-3) by (simp add: dashboardFetch_def gate_simps)
  show ?thesis
    using assms(4,5)
    by (simp add: OrderDetailPage_def SalesOrderDetailPage_def ExceptionDetailPage_def OverviewPage_def getPurchaseOrderDetail_def
        getSalesOrderDetail_def getExceptionDrilldown_def getOverview_def result_and_then run resp_json_def map_prop_def
        detail_def)
qed

theorem refused_detail_throws_witness:
  "result (OrderDetailPage analyst_ctx ''po-1'') (\<lambda>rq. Reply (json_response (detail ''Session expired'') 401)) = Thrown TypeErr"
  using refused_detail_throws [of analyst_ctx "''tok''" "''http://api''" "\<lambda>rq. Reply (json_response (detail ''Session expired'') 401)"
      "json_response (detail ''Session expired'') 401" "''Session expired''" "''po-1''" "\<lambda>s. None" None]
  by (simp add: analyst_ctx_def get_cookie_def orbyn_session_def json_response_def resp_ok_def)

end
