(* ===== verification/Css_Import.thy ===== *)
theory Css_Import
  imports Theme
begin

text \<open>
  The CSS importer of the Builder's customiser, \<open>components/theme-customizer/import-modal.tsx\<close>:
  its regular expressions as matchers that return what they capture, the theme they read from a
  text, and the dialog. The theme goes to \<open>handleImport\<close> of \<open>Theme\<close>.
\<close>

section \<open>Comments\<close>

text \<open>\<open>/\*[\s\S]*?*/\<close>, removed everywhere: the shortest match from each opening, leftmost first.\<close>

fun comment_end :: "string \<Rightarrow> string option" where
  "comment_end [] = None"
| "comment_end (c # s) = (if starts_with (c # s) ''*/'' then Some (tl s) else comment_end s)"

lemma comment_end_shorter: "comment_end s = Some r \<Longrightarrow> length r < length s"
  by (induction s) (auto simp: less_Suc_eq split: if_splits)

definition match_comment :: "string \<Rightarrow> string option" where
  "match_comment s = (if starts_with s ''/*'' then comment_end (drop 2 s) else None)"

lemma match_comment_shorter: "match_comment s = Some r \<Longrightarrow> length r < length s"
  using comment_end_shorter [of "drop 2 s" r] by (auto simp: match_comment_def split: if_splits)

function strip_comments :: "string \<Rightarrow> string" where
  "strip_comments [] = []"
| "strip_comments (c # s) =
     (case match_comment (c # s) of Some r \<Rightarrow> strip_comments r | None \<Rightarrow> c # strip_comments s)"
  by pat_completeness auto
termination by (relation "measure length") (auto dest: match_comment_shorter)

section \<open>Sections and variables\<close>

text \<open>\<open>selector\s*\{([^}]+)\}\<close>: the text between the braces.\<close>

definition match_section :: "string \<Rightarrow> string \<Rightarrow> string option" where
  "match_section selector s =
     (if \<not> starts_with s selector then None
      else case trim_start (drop (length selector) s) of
             [] \<Rightarrow> None
           | c # r \<Rightarrow>
               let content = takeWhile (\<lambda>x. x \<noteq> CHR ''}'') r
               in if c \<noteq> CHR 0x7B \<or> content = [] \<or> length content = length r then None else Some content)"

fun find_section :: "string \<Rightarrow> string \<Rightarrow> string option" where
  "find_section selector [] = match_section selector []"
| "find_section selector (c # s) =
     (case match_section selector (c # s) of Some content \<Rightarrow> Some content | None \<Rightarrow> find_section selector s)"

text \<open>
  \<open>--([^:]+):\s*([^;]+);\<close>: the name, the value and the rest of the text. The white space between the
  colon and the value may be given back to the value, so there is a match whenever something stands
  before the semicolon; as the value is trimmed, it is kept here with the white space in front.
\<close>

definition match_variable :: "string \<Rightarrow> ((string \<times> string) \<times> string) option" where
  "match_variable s =
     (if \<not> starts_with s ''--'' then None
      else
        let r = drop 2 s;
            name = takeWhile (\<lambda>x. x \<noteq> CHR '':'') r;
            after = drop (Suc (length name)) r;
            raw = takeWhile (\<lambda>x. x \<noteq> CHR '';'') after
        in if name = [] \<or> length name = length r \<or> raw = [] \<or> length raw = length after then None
           else Some ((name, raw), drop (Suc (length raw)) after))"

lemma match_variable_shorter: "match_variable s = Some (nv, r) \<Longrightarrow> length r < length s"
  by (auto simp: match_variable_def Let_def starts_with_iff split: if_splits)

function section_variables :: "string \<Rightarrow> (string \<times> string) list" where
  "section_variables [] = []"
| "section_variables (c # s) =
     (case match_variable (c # s) of
        Some (nv, r) \<Rightarrow> nv # section_variables r
      | None \<Rightarrow> section_variables s)"
  by pat_completeness auto
termination by (relation "measure length") (auto dest: match_variable_shorter)

text \<open>Assigning a text to the property \<open>__proto__\<close> of an object literal does nothing.\<close>

definition add_variable :: "string \<times> string \<Rightarrow> (string \<times> string) list \<Rightarrow> (string \<times> string) list" where
  "add_variable nv vars =
     (if js_trim (fst nv) = ''__proto__'' then vars else put (js_trim (fst nv)) (js_trim (snd nv)) vars)"

definition read_section :: "string \<Rightarrow> string \<Rightarrow> (string \<times> string) list" where
  "read_section selector cssText =
     (case find_section selector cssText of
        None \<Rightarrow> []
      | Some content \<Rightarrow> fold add_variable (section_variables content) [])"

section \<open>The dialog\<close>

record import_modal =
  im_open :: bool
  im_text :: string

definition processImport :: "import_modal \<Rightarrow> import_modal \<times> (var_list \<times> var_list) option" where
  "processImport m =
     (if js_trim (im_text m) = [] then (m, None)
      else
        let cssText = strip_comments (im_text m)
        in (m\<lparr>im_open := False, im_text := []\<rparr>,
            Some (read_section '':root'' cssText, read_section ''.dark'' cssText)))"

text \<open>The button, enabled by a text that is not blank, with the customiser it reports to.\<close>

definition import_click :: "tweaks \<Rightarrow> import_modal \<times> customizer \<Rightarrow> (import_modal \<times> customizer) option" where
  "import_click tweaks mc =
     (case processImport (fst mc) of
        (m, None) \<Rightarrow> Some (m, snd mc)
      | (m, Some themeData) \<Rightarrow> map_option (Pair m) (handleImport tweaks themeData (snd mc)))"

section \<open>What the white space is\<close>

lemma strip_prefixes_dropped: "\<exists>p. s = p @ strip_prefixes ws s \<and> set p \<subseteq> \<Union> (set ` set ws)"
proof (induction ws s rule: strip_prefixes.induct)
  case (1 ws s)
  show ?case
  proof (cases "find (\<lambda>w. w \<noteq> [] \<and> starts_with s w) ws")
    case None
    then show ?thesis by (simp add: strip_prefixes.simps [of ws s])
  next
    case (Some w)
    then obtain p where p: "drop (length w) s = p @ strip_prefixes ws (drop (length w) s)" "set p \<subseteq> \<Union> (set ` set ws)"
      using 1 by blast
    have w: "w \<in> set ws" "starts_with s w" using Some by (auto simp: find_Some_iff)
    then have "s = (w @ p) @ strip_prefixes ws (drop (length w) s)" using p(1) by (auto simp: starts_with_iff)
    moreover have "set (w @ p) \<subseteq> \<Union> (set ` set ws)" using w p(2) by auto
    ultimately show ?thesis
      using Some by (intro exI [of _ "w @ p"]) (simp add: strip_prefixes.simps [of ws s])
  qed
qed

definition ws_bytes :: "char set" where
  "ws_bytes = \<Union> (set ` set ws_seqs)"

lemma trim_start_dropped: "\<exists>p. s = p @ trim_start s \<and> set p \<subseteq> ws_bytes"
  using strip_prefixes_dropped [of s ws_seqs] by (simp add: trim_start_def ws_bytes_def)

lemma not_ws_bytes [simp]:
  "CHR ''{'' \<notin> ws_bytes" "CHR 0x7B \<notin> ws_bytes" "CHR ''}'' \<notin> ws_bytes" "CHR '':'' \<notin> ws_bytes"
  by (simp_all add: ws_bytes_def ws_seqs_def char_of_def)

lemma trim_start_fixed: "c \<notin> ws_bytes \<Longrightarrow> trim_start (c # s) = c # s"
  using trim_start_dropped [of "c # s"] by (auto simp: Cons_eq_append_conv)

lemma trim_start_space: "trim_start (CHR '' '' # s) = trim_start s"
proof -
  have "find (\<lambda>w. w \<noteq> [] \<and> starts_with (CHR '' '' # s) w) ws_seqs = Some '' ''"
    by (simp add: ws_seqs_def starts_with_def char_of_def bit_0)
  then show ?thesis by (simp add: trim_start_def strip_prefixes.simps [of ws_seqs "CHR '' '' # s"])
qed

lemma js_trim_space: "js_trim (CHR '' '' # s) = js_trim s"
  by (simp add: js_trim_def trim_start_space)

lemma js_trim_blank: "js_trim s = [] \<Longrightarrow> set s \<subseteq> ws_bytes"
proof -
  assume blank: "js_trim s = []"
  obtain p where p: "s = p @ trim_start s" "set p \<subseteq> ws_bytes" using trim_start_dropped by blast
  let ?t = "trim_start s"
  obtain q where "rev ?t = q @ strip_prefixes (map rev ws_seqs) (rev ?t)" "set q \<subseteq> \<Union> (set ` set (map rev ws_seqs))"
    using strip_prefixes_dropped by blast
  then have "set ?t \<subseteq> ws_bytes"
    using blank by (simp add: js_trim_def trim_end_def ws_bytes_def) (metis set_rev)
  then show ?thesis using p by (metis set_append Un_subset_iff)
qed

section \<open>The text of a theme\<close>

definition line_feed :: char where
  "line_feed = CHR 0x0A"

definition css_declaration :: "string \<times> string \<Rightarrow> string" where
  "css_declaration kv = ''  --'' @ fst kv @ '': '' @ snd kv @ '';'' @ [line_feed]"

definition css_section :: "string \<Rightarrow> (string \<times> string) list \<Rightarrow> string" where
  "css_section selector vars = selector @ '' {'' @ [line_feed] @ concat (map css_declaration vars) @ ''}'' @ [line_feed]"

definition css_of :: "var_list \<times> var_list \<Rightarrow> string" where
  "css_of themeData = css_section '':root'' (fst themeData) @ css_section ''.dark'' (snd themeData)"

text \<open>
  A variable that a style sheet can hold: a trimmed name and value without the characters that end
  them, and no comment.
\<close>

definition css_variable :: "string \<times> string \<Rightarrow> bool" where
  "css_variable kv \<longleftrightarrow>
     fst kv \<noteq> [] \<and> js_trim (fst kv) = fst kv \<and> fst kv \<noteq> ''__proto__'' \<and> js_trim (snd kv) = snd kv
     \<and> CHR '':'' \<notin> set (fst kv) \<and> CHR '';'' \<notin> set (snd kv) \<and> CHR ''/'' \<notin> set (fst kv) \<and> \<not> str_includes (snd kv) ''/*''
     \<and> list_all (\<lambda>x. x \<noteq> CHR 0x7B \<and> x \<noteq> CHR ''}'') (fst kv @ snd kv)"

lemma match_variable_declaration:
  assumes "name \<noteq> []" "CHR '':'' \<notin> set name" "raw \<noteq> []" "CHR '';'' \<notin> set raw"
  shows "match_variable (''--'' @ name @ CHR '':'' # raw @ CHR '';'' # rest) = Some ((name, raw), rest)"
proof -
  have "takeWhile (\<lambda>x. x \<noteq> CHR '':'') (name @ CHR '':'' # raw @ CHR '';'' # rest) = name"
    using assms(2) by (subst takeWhile_append2) auto
  moreover have "takeWhile (\<lambda>x. x \<noteq> CHR '';'') (raw @ CHR '';'' # rest) = raw"
    using assms(4) by (subst takeWhile_append2) auto
  ultimately show ?thesis using assms(1,3) by (simp add: match_variable_def starts_with_def)
qed

declare section_variables.simps(2) [simp del]

lemma section_variables_skip: "c \<noteq> CHR ''-'' \<Longrightarrow> section_variables (c # s) = section_variables s"
  by (simp add: section_variables.simps(2) match_variable_def starts_with_def)

lemma section_variables_match: "match_variable s = Some (nv, r) \<Longrightarrow> section_variables s = nv # section_variables r"
  by (cases s) (simp_all add: section_variables.simps(2) match_variable_def starts_with_def)

lemma section_variables_declaration:
  assumes "css_variable kv"
  shows "section_variables (css_declaration kv @ rest) = (fst kv, CHR '' '' # snd kv) # section_variables rest"
proof -
  have "match_variable (''--'' @ fst kv @ CHR '':'' # (CHR '' '' # snd kv) @ CHR '';'' # line_feed # rest)
      = Some ((fst kv, CHR '' '' # snd kv), line_feed # rest)"
    by (rule match_variable_declaration) (use assms in \<open>auto simp: css_variable_def\<close>)
  from section_variables_match [OF this] show ?thesis
    by (simp add: css_declaration_def section_variables_skip line_feed_def)
qed

lemma section_variables_print:
  "list_all css_variable vars \<Longrightarrow>
     section_variables (concat (map css_declaration vars)) = map (\<lambda>kv. (fst kv, CHR '' '' # snd kv)) vars"
  by (induction vars) (simp_all add: section_variables_declaration)

lemma add_printed:
  assumes "css_variable kv" and "fst kv \<notin> fst ` set vars"
  shows "add_variable (fst kv, CHR '' '' # snd kv) vars = vars @ [kv]"
  using assms by (simp add: add_variable_def css_variable_def js_trim_space put_new)

lemma fold_add_printed:
  "list_all css_variable vars \<Longrightarrow> distinct (map fst (acc @ vars)) \<Longrightarrow>
     fold add_variable (map (\<lambda>kv. (fst kv, CHR '' '' # snd kv)) vars) acc = acc @ vars"
  by (induction vars arbitrary: acc) (auto simp: add_printed)

text \<open>A section is found at its selector.\<close>

lemma declaration_plain: "css_variable kv \<Longrightarrow> x \<in> set (css_declaration kv) \<Longrightarrow> x \<noteq> CHR 0x7B \<and> x \<noteq> CHR ''}''"
  by (simp add: css_variable_def css_declaration_def line_feed_def list_all_iff) (elim disjE; simp)

lemma content_plain:
  "list_all css_variable vars \<Longrightarrow> x \<in> set (line_feed # concat (map css_declaration vars)) \<Longrightarrow> x \<noteq> CHR 0x7B \<and> x \<noteq> CHR ''}''"
  by (induction vars) (simp_all add: line_feed_def, use declaration_plain in blast)

lemma match_printed_section:
  assumes "list_all css_variable vars"
  shows "match_section selector (css_section selector vars @ rest) = Some (line_feed # concat (map css_declaration vars))"
proof -
  let ?content = "line_feed # concat (map css_declaration vars)"
  have "takeWhile (\<lambda>x. x \<noteq> CHR ''}'') (?content @ CHR ''}'' # line_feed # rest) = ?content"
    using content_plain [OF assms] by (subst takeWhile_append2) auto
  moreover have "trim_start (CHR '' '' # CHR 0x7B # s) = CHR 0x7B # s" for s
    by (simp add: trim_start_space trim_start_fixed)
  ultimately show ?thesis by (simp add: match_section_def css_section_def)
qed

text \<open>The second section is found behind the first: nothing in the first one looks like its selector.\<close>

lemma find_section_skip:
  "(\<And>u v. a = u @ v \<Longrightarrow> v \<noteq> [] \<Longrightarrow> match_section selector (v @ b) = None) \<Longrightarrow>
     find_section selector (a @ b) = find_section selector b"
proof (induction a)
  case (Cons x a)
  have "match_section selector (x # a @ b) = None" using Cons.prems [of "[]" "x # a"] by simp
  moreover have "match_section selector (v @ b) = None" if "a = u @ v" "v \<noteq> []" for u v
    using Cons.prems [of "x # u" v] that by simp
  ultimately show ?case using Cons.IH by simp
qed simp

lemma match_section_shape:
  assumes "match_section selector s = Some content"
  shows "\<exists>w r. s = selector @ w @ CHR 0x7B # r \<and> set w \<subseteq> ws_bytes"
proof -
  from assms obtain t r where t: "s = selector @ t" "trim_start t = CHR 0x7B # r"
    by (auto simp: match_section_def starts_with_iff Let_def split: if_splits list.splits)
  then show ?thesis using trim_start_dropped [of t] by auto
qed

lemma takeWhile_shape:
  "CHR 0x7B \<notin> set x \<Longrightarrow> takeWhile (\<lambda>c. c \<noteq> CHR 0x7B) (x @ CHR 0x7B # r) = x"
  by (subst takeWhile_append2) auto

lemma suffix_of_section:
  assumes "u @ v = m @ [CHR ''}'', line_feed]" "v \<noteq> []"
  shows "CHR ''}'' \<in> set v \<or> v = [line_feed]"
proof -
  from assms(1) consider us where "v = us @ [CHR ''}'', line_feed]" | us where "[CHR ''}'', line_feed] = us @ v"
    unfolding append_eq_append_conv2 by metis
  then show ?thesis using assms(2) by cases (auto simp: Cons_eq_append_conv)
qed

lemma no_dark_in_root:
  assumes "list_all css_variable vars" "css_section '':root'' vars = u @ v" "v \<noteq> []"
  shows "match_section ''.dark'' (v @ b) = None"
proof (rule ccontr)
  assume "match_section ''.dark'' (v @ b) \<noteq> None"
  then obtain w r where shape: "v @ b = ''.dark'' @ w @ CHR 0x7B # r" "set w \<subseteq> ws_bytes"
    using match_section_shape by blast
  then have hd: "hd v = CHR ''.''" using assms(3) by (cases v) auto
  let ?mid = "line_feed # concat (map css_declaration vars) @ [CHR ''}'', line_feed]"
  have inside: False if mid: "?mid = x @ v" for x
  proof -
    have no_brace: "CHR 0x7B \<notin> set (line_feed # concat (map css_declaration vars))"
      using content_plain [OF assms(1)] by blast
    have "set ?mid = set (line_feed # concat (map css_declaration vars)) \<union> {CHR ''}'', line_feed}"
      by (simp add: insert_commute)
    then have "CHR 0x7B \<notin> set ?mid" using no_brace by (simp add: line_feed_def)
    then have plain: "CHR 0x7B \<notin> set v" unfolding mid by simp
    have "CHR 0x7B \<notin> set (''.dark'' @ w)" using shape(2) by auto
    from takeWhile_shape [OF this, of r] have "takeWhile (\<lambda>c. c \<noteq> CHR 0x7B) (v @ b) = ''.dark'' @ w"
      unfolding shape(1) by simp
    moreover have "takeWhile (\<lambda>c. c \<noteq> CHR 0x7B) (v @ b) = v @ takeWhile (\<lambda>c. c \<noteq> CHR 0x7B) b"
      using plain by (intro takeWhile_append2) auto
    ultimately have "set v \<subseteq> set (''.dark'' @ w)" by (metis set_append Un_upper1)
    then have "CHR ''}'' \<notin> set v" using shape(2) by auto
    then have "v = [line_feed]"
      using suffix_of_section [of x v "line_feed # concat (map css_declaration vars)"] mid assms(3) by auto
    then show False using hd by (simp add: line_feed_def)
  qed
  have "'':root {'' @ ?mid = u @ v" using assms(2) by (simp add: css_section_def)
  then obtain x where "'':root {'' = u @ x \<and> x @ ?mid = v \<or> '':root {'' @ x = u \<and> ?mid = x @ v"
    unfolding append_eq_append_conv2 by blast
  then have x: "'':root {'' = u @ x" "x @ ?mid = v" using inside by auto
  then have "x \<noteq> []" using inside [of "[]"] by auto
  then have "hd v \<in> set x" using x(2) by (metis hd_append2 hd_in_set)
  then have "hd v \<in> set '':root {''" using x(1) by (metis set_append UnI2)
  then show False using hd by simp
qed

section \<open>Comments do not matter\<close>

lemma no_comment_append:
  assumes "\<not> str_includes a ''/*''" "\<not> str_includes b ''/*''" "c \<noteq> CHR ''/''" "c \<noteq> CHR ''*''"
  shows "\<not> str_includes (a @ c # b) ''/*''"
  using assms(1)
proof (induction a)
  case Nil
  then show ?case using assms(2,3) by (simp add: starts_with_def)
next
  case (Cons x a)
  then show ?case using assms(4) by (cases a) (auto simp: starts_with_def)
qed

lemma no_slash_no_comment: "CHR ''/'' \<notin> set a \<Longrightarrow> \<not> str_includes b ''/*'' \<Longrightarrow> \<not> str_includes (a @ b) ''/*''"
  by (induction a) (auto simp: starts_with_def)

lemma strip_comments_none: "\<not> str_includes s ''/*'' \<Longrightarrow> strip_comments s = s"
  by (induction s) (auto simp: match_comment_def)

lemma declaration_no_comment:
  assumes "css_variable kv" "\<not> str_includes rest ''/*''"
  shows "\<not> str_includes (css_declaration kv @ rest) ''/*''"
proof -
  have "\<not> str_includes (line_feed # rest) ''/*''" using assms(2) by (simp add: starts_with_def line_feed_def)
  then have "\<not> str_includes (snd kv @ CHR '';'' # line_feed # rest) ''/*''"
    using assms(1) by (intro no_comment_append) (auto simp: css_variable_def)
  moreover have "CHR ''/'' \<notin> set (''  --'' @ fst kv @ '': '')" using assms(1) by (simp add: css_variable_def)
  ultimately have "\<not> str_includes ((''  --'' @ fst kv @ '': '') @ snd kv @ CHR '';'' # line_feed # rest) ''/*''"
    by (rule no_slash_no_comment [rotated])
  then show ?thesis by (simp add: css_declaration_def)
qed

lemma section_no_comment:
  assumes "list_all css_variable vars" "CHR ''/'' \<notin> set selector" "\<not> str_includes rest ''/*''"
  shows "\<not> str_includes (css_section selector vars @ rest) ''/*''"
proof -
  have "\<not> str_includes (''}'' @ line_feed # rest) ''/*''"
    using assms(3) by (simp add: starts_with_def line_feed_def)
  then have "\<not> str_includes (concat (map css_declaration vars) @ ''}'' @ line_feed # rest) ''/*''"
    using assms(1) by (induction vars) (simp_all add: declaration_no_comment)
  moreover have "CHR ''/'' \<notin> set (selector @ '' {'' @ [line_feed])" using assms(2) by (simp add: line_feed_def)
  ultimately have "\<not> str_includes ((selector @ '' {'' @ [line_feed]) @ concat (map css_declaration vars) @ ''}'' @ line_feed # rest) ''/*''"
    by (rule no_slash_no_comment [rotated])
  then show ?thesis by (simp add: css_section_def)
qed

text \<open>A comment is cut out, whatever it holds; the text before it holds no opening of another one.\<close>

lemma comment_end_found: "\<not> str_includes c ''*/'' \<Longrightarrow> comment_end (c @ ''*/'' @ b) = Some b"
proof (induction c)
  case Nil
  then show ?case by (simp add: starts_with_def)
next
  case (Cons x c)
  then show ?case by (cases c) (auto simp: starts_with_def)
qed

lemma comment_is_cut_out:
  assumes "\<not> str_includes a ''/*''" "\<not> str_includes c ''*/''" "a = [] \<or> last a \<noteq> CHR ''/''"
  shows "strip_comments (a @ ''/*'' @ c @ ''*/'' @ b) = a @ strip_comments b"
  using assms(1,3)
proof (induction a)
  case Nil
  then show ?case using comment_end_found [OF assms(2), of b] by (simp add: match_comment_def starts_with_def)
next
  case (Cons x a)
  have "match_comment (x # a @ ''/*'' @ c @ ''*/'' @ b) = None"
    using Cons.prems by (cases a) (auto simp: match_comment_def starts_with_def)
  then show ?case using Cons by (auto split: if_splits)
qed

section \<open>Reading a theme back\<close>

lemma find_section_here: "match_section selector s = Some content \<Longrightarrow> find_section selector s = Some content"
  by (cases s) simp_all

lemma section_variables_content:
  "list_all css_variable vars \<Longrightarrow>
     section_variables (line_feed # concat (map css_declaration vars)) = map (\<lambda>kv. (fst kv, CHR '' '' # snd kv)) vars"
  by (simp add: section_variables_skip section_variables_print line_feed_def)

lemma read_printed_section:
  assumes "list_all css_variable vars" "distinct (map fst vars)"
    and "find_section selector s = Some (line_feed # concat (map css_declaration vars))"
  shows "read_section selector s = vars"
  using fold_add_printed [OF assms(1), of "[]"] assms
  by (simp add: read_section_def section_variables_content)

lemma read_printed_theme:
  assumes "list_all css_variable (light @ dark)" "distinct (map fst light)" "distinct (map fst dark)"
  shows "read_section '':root'' (strip_comments (css_of (light, dark))) = light"
    and "read_section ''.dark'' (strip_comments (css_of (light, dark))) = dark"
proof -
  have ok: "list_all css_variable light" "list_all css_variable dark" using assms(1) by simp_all
  have "\<not> str_includes (css_section ''.dark'' dark @ []) ''/*''"
    by (rule section_no_comment [OF ok(2)]) simp_all
  then have "\<not> str_includes (css_section '':root'' light @ css_section ''.dark'' dark) ''/*''"
    by (intro section_no_comment [OF ok(1)]) simp_all
  then have plain: "strip_comments (css_of (light, dark)) = css_section '':root'' light @ css_section ''.dark'' dark"
    by (simp add: css_of_def strip_comments_none)
  show "read_section '':root'' (strip_comments (css_of (light, dark))) = light"
    unfolding plain
    by (intro read_printed_section [OF ok(1) assms(2)] find_section_here match_printed_section [OF ok(1)])
  have "match_section ''.dark'' (css_section ''.dark'' dark @ []) = Some (line_feed # concat (map css_declaration dark))"
    by (rule match_printed_section [OF ok(2)])
  then have "find_section ''.dark'' (css_section ''.dark'' dark) = Some (line_feed # concat (map css_declaration dark))"
    by (intro find_section_here) simp
  moreover have "find_section ''.dark'' (css_section '':root'' light @ css_section ''.dark'' dark)
      = find_section ''.dark'' (css_section ''.dark'' dark)"
    by (intro find_section_skip no_dark_in_root [OF ok(1)])
  ultimately show "read_section ''.dark'' (strip_comments (css_of (light, dark))) = dark"
    unfolding plain by (intro read_printed_section [OF ok(2) assms(3)]) simp
qed

lemma css_of_not_blank: "js_trim (css_of themeData) \<noteq> []"
proof
  assume "js_trim (css_of themeData) = []"
  then have "set (css_of themeData) \<subseteq> ws_bytes" by (rule js_trim_blank)
  moreover have "CHR '':'' \<in> set (css_of themeData)" by (simp add: css_of_def css_section_def)
  ultimately show False by auto
qed

lemma import_printed:
  assumes "list_all css_variable (light @ dark)" "distinct (map fst light)" "distinct (map fst dark)"
    and "im_text m = css_of (light, dark)"
  shows "processImport m = (m\<lparr>im_open := False, im_text := []\<rparr>, Some (light, dark))"
  by (simp add: processImport_def assms(4) css_of_not_blank read_printed_theme [OF assms(1-3)])

text \<open>C22: A theme pasted as CSS is the theme that is applied: from the style sheet of a light and a dark list
  of variables, the importer reads exactly these two lists, hands them to the customiser, closes its
  dialog and forgets the text; the document then has every variable of the list of the current mode,
  with its value.\<close>

theorem pasted_theme_is_applied:
  assumes "list_all css_variable (light @ dark)" "distinct (map fst light)" "distinct (map fst dark)"
    and "im_text m = css_of (light, dark)"
  shows "\<exists>c'. import_click tw (m, c) = Some (m\<lparr>im_open := False, im_text := []\<rparr>, c')
    \<and> cz_imported c' = Some (light, dark)
    \<and> list_all (\<lambda>(k, v). map_of (cz_style c') (''--'' @ k) = truthy (Some v)) (if isDarkMode c then dark else light)"
proof -
  let ?vars = "if isDarkMode c then dark else light"
  obtain c' where c': "handleImport tw (light, dark) c = Some c'"
    and style: "\<And>p. map_of (cz_style c') p =
          (if \<not> custom p then map_of (cz_style c) p
           else (case map_of ?vars (drop 2 p) of None \<Rightarrow> map_of (cz_style c) p | Some v \<Rightarrow> truthy (Some v)))"
    using import_keeps_leftovers [OF assms(2,3), of tw c] by blast
  have "cz_imported c' = Some (light, dark)"
    using c' by (auto simp: handleImport_def applyImportedTheme_def reapply_def Let_def)
  moreover have "map_of (cz_style c') (''--'' @ k) = truthy (Some v)" if "(k, v) \<in> set ?vars" for k v
  proof -
    have "map_of ?vars k = Some v" using that assms(2,3) by (auto intro: map_of_is_SomeI)
    then show ?thesis using style [of "''--'' @ k"] by simp
  qed
  ultimately show ?thesis
    by (auto simp: import_click_def import_printed [OF assms] c' list_all_iff)
qed

definition plain_customizer :: customizer where
  "plain_customizer =
     \<lparr>cz_style = [(''--radius'', ''1rem''), (''--ring'', ''blue'')], cz_mode = Light, cz_prefersDark = False,
      cz_transitioning = False, cz_theme = ''blue'', cz_tweakcn = [], cz_radius = ''1rem'',
      cz_imported = None, cz_brand = [], cz_tabBrand = [], cz_sidebar = default_sidebar\<rparr>"

lemma sample_trimmed: "js_trim ''ring'' = ''ring''" "js_trim ''red'' = ''red''" "js_trim ''lime'' = ''lime''"
  by (simp_all add: js_trim_def trim_start_def trim_end_def ws_seqs_def strip_prefixes.simps starts_with_def char_of_def)

theorem pasted_theme_is_applied_witness:
  "\<exists>c'. import_click [] (\<lparr>im_open = True, im_text = css_of ([(''ring'', ''red'')], [(''ring'', ''lime'')])\<rparr>, plain_customizer)
        = Some (\<lparr>im_open = False, im_text = []\<rparr>, c')
     \<and> map_of (cz_style c') ''--ring'' = Some ''red''"
  using pasted_theme_is_applied [of "[(''ring'', ''red'')]" "[(''ring'', ''lime'')]"
      "\<lparr>im_open = True, im_text = css_of ([(''ring'', ''red'')], [(''ring'', ''lime'')])\<rparr>" "[]" plain_customizer]
  by (auto simp: css_variable_def sample_trimmed starts_with_def plain_customizer_def isDarkMode_def truthy_def)

section \<open>What the importer gets wrong\<close>

text \<open>CSS lets the last declaration of a block go without its semicolon; the importer drops it silently.\<close>

lemma last_declaration_needs_semicolon:
  "find_section '':root'' '':root{--a:1;--b:2}'' = Some ''--a:1;--b:2''"
  "section_variables ''--a:1;--b:2'' = [(''a'', ''1'')]"
  by (simp_all add: match_section_def starts_with_def trim_start_fixed section_variables.simps match_variable_def)

text \<open>
  A text without either section is imported as an empty theme: the dialog closes as after a success,
  and the customiser forgets the theme that was selected.
\<close>

lemma import_of_nothing:
  assumes "js_trim (im_text m) \<noteq> []" "find_section '':root'' (strip_comments (im_text m)) = None"
    and "find_section ''.dark'' (strip_comments (im_text m)) = None"
  shows "\<exists>c'. import_click tw (m, c) = Some (m\<lparr>im_open := False, im_text := []\<rparr>, c')
    \<and> cz_imported c' = Some ([], []) \<and> cz_theme c' = [] \<and> cz_style c' = cz_style c"
  using assms
  by (simp add: import_click_def processImport_def read_section_def handleImport_def applyImportedTheme_def reapply_def
      set_vars_def Let_def)

end
