(* ===== verification/Layout.thy ===== *)
theory Layout
  imports Theme
begin

text \<open>
  The frame around the Builder's pages: the provider of the side bar (\<open>components/ui/sidebar.tsx\<close>
  with \<open>hooks/use-mobile.ts\<close>), its configuration (\<open>contexts/sidebar-context.tsx\<close>), the tab of
  the customiser that changes it (\<open>layout-tab.tsx\<close>) and the shell that places it
  (\<open>dashboard-shell.tsx\<close>). No page controls the provider from outside, so its own state decides.
\<close>

section \<open>SidebarProvider\<close>

definition MOBILE_BREAKPOINT :: nat where
  "MOBILE_BREAKPOINT = 768"

text \<open>
  \<open>fr_width\<close> is the window's inner width; \<open>fr_isMobile\<close> is undefined until the effect of
  \<open>useIsMobile\<close> has run. \<open>fr_cookie\<close> is the value of the browser's cookie \<open>sidebar_state\<close>.
\<close>

record frame =
  fr_width :: nat
  fr_isMobile :: "bool option"
  fr_open :: bool
  fr_openMobile :: bool
  fr_cookie :: "bool option"
  fr_config :: sidebar_config

definition useIsMobile :: "frame \<Rightarrow> bool" where
  "useIsMobile f = (fr_isMobile f = Some True)"

text \<open>The media query changes, and its listener runs, when the width crosses the breakpoint.\<close>

definition measure_width :: "frame \<Rightarrow> frame" where
  "measure_width f = f\<lparr>fr_isMobile := Some (fr_width f < MOBILE_BREAKPOINT)\<rparr>"

definition resize :: "nat \<Rightarrow> frame \<Rightarrow> frame" where
  "resize w f =
     (let f1 = f\<lparr>fr_width := w\<rparr>
      in if (w \<le> MOBILE_BREAKPOINT - 1) = (fr_width f \<le> MOBILE_BREAKPOINT - 1) then f1 else measure_width f1)"

text \<open>A mount of the provider: the state is the default, whatever the cookie says; then the effects.\<close>

definition mountFrame :: "nat \<Rightarrow> bool option \<Rightarrow> frame" where
  "mountFrame w cookie =
     measure_width
       \<lparr>fr_width = w, fr_isMobile = None, fr_open = True, fr_openMobile = False, fr_cookie = cookie,
        fr_config = default_sidebar\<rparr>"

definition setOpen :: "bool \<Rightarrow> frame \<Rightarrow> frame" where
  "setOpen v f = f\<lparr>fr_open := v, fr_cookie := Some v\<rparr>"

definition toggleSidebar :: "frame \<Rightarrow> frame" where
  "toggleSidebar f =
     (if useIsMobile f then f\<lparr>fr_openMobile := \<not> fr_openMobile f\<rparr> else setOpen (\<not> fr_open f) f)"

definition sidebarState :: "frame \<Rightarrow> string" where
  "sidebarState f = (if fr_open f then ''expanded'' else ''collapsed'')"

definition handleKeyDown :: "string \<Rightarrow> bool \<Rightarrow> bool \<Rightarrow> frame \<Rightarrow> frame" where
  "handleKeyDown key metaKey ctrlKey f =
     (if key = ''b'' \<and> (metaKey \<or> ctrlKey) then toggleSidebar f else f)"

section \<open>Configuration\<close>

text \<open>\<open>Partial<SidebarConfig>\<close>: the properties given.\<close>

record partial_config =
  pc_variant :: "string option"
  pc_collapsible :: "string option"
  pc_side :: "string option"

definition no_config :: partial_config where
  "no_config = \<lparr>pc_variant = None, pc_collapsible = None, pc_side = None\<rparr>"

definition updateConfig :: "partial_config \<Rightarrow> frame \<Rightarrow> frame" where
  "updateConfig new f =
     (let prev = fr_config f
      in f\<lparr>fr_config :=
           \<lparr>sc_variant = (case pc_variant new of None \<Rightarrow> sc_variant prev | Some v \<Rightarrow> v),
            sc_collapsible = (case pc_collapsible new of None \<Rightarrow> sc_collapsible prev | Some v \<Rightarrow> v),
            sc_side = (case pc_side new of None \<Rightarrow> sc_side prev | Some v \<Rightarrow> v)\<rparr>\<rparr>)"

definition sidebarVariants :: "(string \<times> string) list" where
  "sidebarVariants = [(''sidebar'', ''Default''), (''floating'', ''Floating''), (''inset'', ''Inset'')]"

definition sidebarCollapsibleOptions :: "(string \<times> string) list" where
  "sidebarCollapsibleOptions = [(''offcanvas'', ''Off Canvas''), (''icon'', ''Icon''), (''none'', ''None'')]"

definition sidebarSideOptions :: "(string \<times> string) list" where
  "sidebarSideOptions = [(''left'', ''Left''), (''right'', ''Right'')]"

definition handleSidebarVariantSelect :: "string \<Rightarrow> frame \<Rightarrow> frame" where
  "handleSidebarVariantSelect v f = updateConfig (no_config\<lparr>pc_variant := Some v\<rparr>) f"

definition handleSidebarCollapsibleSelect :: "string \<Rightarrow> frame \<Rightarrow> frame" where
  "handleSidebarCollapsibleSelect v f =
     (let f1 = updateConfig (no_config\<lparr>pc_collapsible := Some v\<rparr>) f
      in if v = ''icon'' \<and> sidebarState f = ''expanded'' then toggleSidebar f1 else f1)"

definition handleSidebarSideSelect :: "string \<Rightarrow> frame \<Rightarrow> frame" where
  "handleSidebarSideSelect v f = updateConfig (no_config\<lparr>pc_side := Some v\<rparr>) f"

section \<open>What is shown\<close>

datatype sidebar_view =
    Static_bar
  | Mobile_sheet bool string
  | Desktop_bar string string string string \<comment> \<open>data-state, data-collapsible, data-variant, data-side\<close>

definition Sidebar :: "frame \<Rightarrow> sidebar_view" where
  "Sidebar f =
     (let c = fr_config f
      in if sc_collapsible c = ''none'' then Static_bar
         else if useIsMobile f then Mobile_sheet (fr_openMobile f) (sc_side c)
         else Desktop_bar (sidebarState f) (if sidebarState f = ''collapsed'' then sc_collapsible c else [])
                (sc_variant c) (sc_side c))"

text \<open>The children of the shell, by the type of their element: the side bar and the page change places.\<close>

datatype shell_child = App_sidebar | Page_inset

definition DashboardShell :: "frame \<Rightarrow> string \<times> shell_child list" where
  "DashboardShell f =
     (if sc_collapsible (fr_config f) = ''none'' then ''sidebar-none-mode'' else [],
      if sc_side (fr_config f) = ''left'' then [App_sidebar, Page_inset] else [Page_inset, App_sidebar])"

section \<open>The machine\<close>

datatype frame_event =
    Resized nat
  | Key string bool bool
  | Trigger_clicked
  | Sheet_changed bool
  | Variant_picked string
  | Collapsible_picked string
  | Side_picked string
  | Customizer_reset

text \<open>Only the options listed can be picked.\<close>

definition one_of :: "(string \<times> string) list \<Rightarrow> string \<Rightarrow> bool" where
  "one_of options v \<longleftrightarrow> v \<in> fst ` set options"

fun frame_step :: "frame_event \<Rightarrow> frame \<Rightarrow> frame" where
  "frame_step (Resized w) f = resize w f"
| "frame_step (Key k m c) f = handleKeyDown k m c f"
| "frame_step Trigger_clicked f = toggleSidebar f"
| "frame_step (Sheet_changed v) f =
     (case Sidebar f of Mobile_sheet b s \<Rightarrow> f\<lparr>fr_openMobile := v\<rparr> | _ \<Rightarrow> f)"
| "frame_step (Variant_picked v) f =
     (if one_of sidebarVariants v then handleSidebarVariantSelect v f else f)"
| "frame_step (Collapsible_picked v) f =
     (if one_of sidebarCollapsibleOptions v then handleSidebarCollapsibleSelect v f else f)"
| "frame_step (Side_picked v) f = (if one_of sidebarSideOptions v then handleSidebarSideSelect v f else f)"
| "frame_step Customizer_reset f =
     updateConfig \<lparr>pc_variant = Some ''inset'', pc_collapsible = Some ''offcanvas'', pc_side = Some ''left''\<rparr> f"

definition frame_run :: "nat \<Rightarrow> bool option \<Rightarrow> frame_event list \<Rightarrow> frame" where
  "frame_run w cookie es = fold frame_step es (mountFrame w cookie)"

section \<open>Properties\<close>

text \<open>The measured width is the real one; the configuration is one of those offered; the cookie follows the state.\<close>

definition config_ok :: "sidebar_config \<Rightarrow> bool" where
  "config_ok c \<longleftrightarrow>
     one_of sidebarVariants (sc_variant c) \<and> one_of sidebarCollapsibleOptions (sc_collapsible c)
     \<and> one_of sidebarSideOptions (sc_side c)"

definition frame_ok :: "bool option \<Rightarrow> frame \<Rightarrow> bool" where
  "frame_ok cookie f \<longleftrightarrow>
     fr_isMobile f = Some (fr_width f < MOBILE_BREAKPOINT) \<and> config_ok (fr_config f)
     \<and> (fr_cookie f = Some (fr_open f) \<or> fr_cookie f = cookie \<and> fr_open f)"

lemmas frame_defs = measure_width_def resize_def setOpen_def toggleSidebar_def handleKeyDown_def updateConfig_def
  no_config_def handleSidebarVariantSelect_def handleSidebarCollapsibleSelect_def handleSidebarSideSelect_def
  useIsMobile_def Let_def

lemma toggle_ok: "frame_ok cookie f \<Longrightarrow> frame_ok cookie (toggleSidebar f)"
  by (auto simp: frame_ok_def frame_defs)

lemma updateConfig_ok:
  "frame_ok cookie f \<Longrightarrow>
   (\<And>v. pc_variant new = Some v \<Longrightarrow> one_of sidebarVariants v) \<Longrightarrow>
   (\<And>v. pc_collapsible new = Some v \<Longrightarrow> one_of sidebarCollapsibleOptions v) \<Longrightarrow>
   (\<And>v. pc_side new = Some v \<Longrightarrow> one_of sidebarSideOptions v) \<Longrightarrow> frame_ok cookie (updateConfig new f)"
  by (simp add: frame_ok_def config_ok_def updateConfig_def Let_def split: option.split)

lemma default_config_ok: "config_ok default_sidebar"
  by (simp add: one_of_def config_ok_def default_sidebar_def sidebarVariants_def sidebarCollapsibleOptions_def sidebarSideOptions_def)

lemma frame_step_ok: "frame_ok cookie f \<Longrightarrow> frame_ok cookie (frame_step e f)"
proof (induction e f rule: frame_step.induct)
  case (1 w f)
  then show ?case by (auto simp: frame_ok_def resize_def measure_width_def MOBILE_BREAKPOINT_def Let_def)
next
  case (6 v f)
  then show ?case
    by (auto simp: handleSidebarCollapsibleSelect_def no_config_def Let_def intro!: toggle_ok updateConfig_ok)
next
  case (8 f)
  then show ?case using default_config_ok by (auto simp: config_ok_def default_sidebar_def intro!: updateConfig_ok)
next
  case (4 v f)
  then show ?case by (simp add: frame_ok_def split: sidebar_view.split)
qed (auto simp: handleKeyDown_def handleSidebarVariantSelect_def handleSidebarSideSelect_def no_config_def
    intro!: toggle_ok updateConfig_ok)

lemma mount_ok: "frame_ok cookie (mountFrame w cookie)"
  by (simp add: frame_ok_def mountFrame_def measure_width_def default_config_ok)

lemma frame_run_ok: "frame_ok cookie (frame_run w cookie es)"
proof -
  have "frame_ok cookie f \<Longrightarrow> frame_ok cookie (fold frame_step es f)" for f
    by (induction es arbitrary: f) (simp_all add: frame_step_ok)
  then show ?thesis by (simp add: frame_run_def mount_ok)
qed

text \<open>The frame stays consistent in every run of resizes, shortcuts, clicks and choices: the phone layout is
  used exactly below the breakpoint, variant, collapsible mode and side are always among those offered,
  and the cookie, once written, holds the current state of the side bar.\<close>

theorem frame_stays_consistent:
  shows "useIsMobile (frame_run w cookie es) = (fr_width (frame_run w cookie es) < MOBILE_BREAKPOINT)
    \<and> config_ok (fr_config (frame_run w cookie es))
    \<and> (fr_cookie (frame_run w cookie es) = Some (fr_open (frame_run w cookie es))
       \<or> fr_cookie (frame_run w cookie es) = cookie \<and> fr_open (frame_run w cookie es))"
  using frame_run_ok [of cookie w es] by (simp add: frame_ok_def useIsMobile_def)

text \<open>Toggling twice, by whatever means, shows the same again.\<close>

lemma toggle_twice: "Sidebar (toggleSidebar (toggleSidebar f)) = Sidebar f"
  by (simp add: toggleSidebar_def setOpen_def Sidebar_def useIsMobile_def sidebarState_def Let_def)

text \<open>On a desktop, choosing the icon mode always ends with the bar collapsed to icons.\<close>

lemma icon_mode_collapses:
  assumes "\<not> useIsMobile f"
  shows "Sidebar (handleSidebarCollapsibleSelect ''icon'' f)
    = Desktop_bar ''collapsed'' ''icon'' (sc_variant (fr_config f)) (sc_side (fr_config f))"
  using assms by (simp add: handleSidebarCollapsibleSelect_def sidebarState_def toggleSidebar_def setOpen_def Sidebar_def
      useIsMobile_def updateConfig_def no_config_def Let_def)

text \<open>
  On a phone nothing is collapsed: the choice opens the side bar's sheet, or closes it when it is open,
  and the state it looks at stays expanded, so every further choice does the same again.
\<close>

lemma icon_mode_on_phone:
  assumes "useIsMobile f" and "fr_open f"
  shows "fr_openMobile (handleSidebarCollapsibleSelect ''icon'' f) = (\<not> fr_openMobile f)"
    and "sidebarState (handleSidebarCollapsibleSelect ''icon'' f) = ''expanded''"
  using assms by (simp_all add: handleSidebarCollapsibleSelect_def sidebarState_def toggleSidebar_def updateConfig_def
      useIsMobile_def no_config_def Let_def)

text \<open>The cookie is written but never read: a bar that was collapsed is expanded after the next load.\<close>

lemma collapsed_state_not_restored: "fr_cookie (mountFrame w (Some False)) = Some False \<and> sidebarState (mountFrame w (Some False)) = ''expanded''"
  by (simp add: mountFrame_def measure_width_def sidebarState_def)

text \<open>
  React keeps a child's state while the type of the element at its position stays. Changing the side
  changes both positions, so the page is mounted anew and its state is lost.
\<close>

lemma side_change_remounts_page:
  assumes "sc_side (fr_config f) = ''left''"
  shows "list_all2 (\<noteq>) (snd (DashboardShell f)) (snd (DashboardShell (handleSidebarSideSelect ''right'' f)))"
  using assms by (simp add: DashboardShell_def handleSidebarSideSelect_def updateConfig_def no_config_def Let_def)

end
