(* ===== verification/Tweakcn.thy ===== *)
theory Tweakcn
  imports Theme Tweakcn_Presets
begin

text \<open>
  The customiser with the tweakcn presets it really offers (\<open>theme-tab.tsx\<close>, \<open>index.tsx\<close> and
  \<open>use-theme-manager.ts\<close> over \<open>tweakcn_tweaks\<close>). Shown: choosing one, and changing to the dark mode afterwards,
  leaves exactly that preset's variables of the mode; so in the dark mode a preset whose dark styles name no
  font or radius falls back to those of the style sheet.
\<close>

lemma tweakcn_lookup: "t \<in> set tweakcnThemes \<Longrightarrow> map_of tweakcn_tweaks (ct_value t) = Some (ct_preset t)"
  by (rule map_of_is_SomeI) (use tweakcn_values_distinct in \<open>auto simp: tweakcn_tweaks_def o_def image_iff\<close>)

lemma map_of_tweakcn_theme:
  assumes "t \<in> set tweakcnThemes"
  shows "map_of (set_vars (mode_styles d (ct_preset t)) (filter (\<lambda>x. \<not> custom (fst x)) s)) p =
    (if custom p then theme_vars t d p else map_of s p)"
proof -
  have d: "distinct (map fst (mode_styles d (ct_preset t)))"
    using tweakcn_theme_wf(1,2) [OF assms] by (simp add: mode_styles_def)
  have "truthy (Some v) = Some v" if "map_of (mode_styles d (ct_preset t)) k = Some v" for k v
    using tweakcn_theme_wf(3,4) [OF assms] map_of_SomeD [OF that]
    by (fastforce simp: mode_styles_def truthy_def list_all_iff split: if_splits)
  then show ?thesis
    by (cases "map_of (mode_styles d (ct_preset t)) (drop 2 p)")
      (simp_all add: map_of_set_vars d map_of_filter_not_custom theme_vars_def)
qed

text \<open>The style of a document after the preset was applied to \<open>s\<close>.\<close>

definition tweaked :: "color_theme \<Rightarrow> bool \<Rightarrow> style \<Rightarrow> style \<Rightarrow> bool" where
  "tweaked t d s s' \<longleftrightarrow>
     distinct (map fst s') \<and> (\<forall>p. map_of s' p = (if custom p then theme_vars t d p else map_of s p))"

lemma tweaked_trans: "tweaked t d s s' \<Longrightarrow> tweaked t e s' s'' \<Longrightarrow> tweaked t e s s''"
  by (auto simp: tweaked_def)

lemma apply_tweaked:
  assumes "t \<in> set tweakcnThemes" "distinct (map fst s)"
  obtains s' b where "applyTweakcnTheme (ct_preset t) d s = Some (s', b)" "tweaked t d s s'"
  using assms map_of_tweakcn_theme [OF assms(1)]
  by (simp add: applyTweakcnTheme_eq tweaked_def distinct_set_vars distinct_map_filter)

definition shows_tweakcn :: "color_theme \<Rightarrow> customizer \<Rightarrow> style \<Rightarrow> bool" where
  "shows_tweakcn t c s \<longleftrightarrow>
     cz_tweakcn c = ct_value t \<and> cz_theme c = [] \<and> cz_imported c = None \<and> tweaked t (isDarkMode c) s (cz_style c)"

lemma reapply_tweakcn:
  assumes "t \<in> set tweakcnThemes" "cz_tweakcn c = ct_value t" "cz_theme c = []" "cz_imported c = None"
    and "distinct (map fst (cz_style c))"
  shows "\<exists>c'. reapply tweakcn_tweaks c = Some c' \<and> shows_tweakcn t c' (cz_style c) \<and> isDarkMode c' = isDarkMode c
    \<and> cz_transitioning c' = cz_transitioning c \<and> cz_mode c' = cz_mode c"
proof -
  obtain s b where "applyTweakcnTheme (ct_preset t) (isDarkMode c) (cz_style c) = Some (s, b)"
    "tweaked t (isDarkMode c) (cz_style c) s"
    using apply_tweaked [OF assms(1,5)] by blast
  then show ?thesis
    using assms tweakcn_theme_wf(5) [OF assms(1)] by (simp add: reapply_def tweakcn_lookup shows_tweakcn_def)
qed

lemma select_tweakcn:
  assumes "t \<in> set tweakcnThemes" "distinct (map fst (cz_style c))"
  shows "\<exists>c'. selectTweakcnTheme tweakcn_tweaks (ct_value t) c = Some c' \<and> shows_tweakcn t c' (cz_style c)
    \<and> isDarkMode c' = isDarkMode c \<and> cz_transitioning c' = cz_transitioning c \<and> cz_mode c' = cz_mode c"
proof -
  obtain s b where sb: "applyTweakcnTheme (ct_preset t) (isDarkMode c) (cz_style c) = Some (s, b)"
    "tweaked t (isDarkMode c) (cz_style c) s"
    using apply_tweaked [OF assms] by blast
  let ?c = "c\<lparr>cz_tweakcn := ct_value t, cz_theme := [], cz_imported := None, cz_tabBrand := b, cz_style := s\<rparr>"
  have sel: "selectTweakcnTheme tweakcn_tweaks (ct_value t) c = rerender tweakcn_tweaks c ?c"
    using sb(1) by (simp add: selectTweakcnTheme_def tweakcn_lookup [OF assms(1)])
  show ?thesis
  proof (cases "effect_deps ?c = effect_deps c")
    case True
    then show ?thesis using sel sb(2) by (simp add: rerender_def shows_tweakcn_def)
  next
    case False
    obtain c' where "reapply tweakcn_tweaks ?c = Some c'" "shows_tweakcn t c' s" "isDarkMode c' = isDarkMode c"
      "cz_transitioning c' = cz_transitioning c" "cz_mode c' = cz_mode c"
      using reapply_tweakcn [OF assms(1), of ?c] sb(2) by (auto simp: tweaked_def)
    then show ?thesis
      using sel sb(2) False by (auto simp: rerender_def shows_tweakcn_def intro: tweaked_trans)
  qed
qed

text \<open>C40: For each of the forty tweakcn presets, whatever was applied before: choosing it in the light mode
  leaves exactly the variables of its light styles as the custom properties of the document, and a click on
  the dark mode afterwards leaves exactly those of its dark styles, with no variable of the light ones, no
  coordinate of the transition and no earlier theme left over; other inline properties stay.\<close>

theorem tweakcn_theme_follows_mode:
  assumes "t \<in> set tweakcnThemes" and "distinct (map fst (cz_style c))" and "\<not> isDarkMode c" and "\<not> cz_transitioning c"
  shows "\<exists>c1 c2. customize tweakcn_tweaks (SelectTweakcn (ct_value t)) c = Some c1
    \<and> customize tweakcn_tweaks (ClickDark x y) c1 = Some c2 \<and> isDarkMode c2
    \<and> (\<forall>p. map_of (cz_style c1) p = (if custom p then theme_vars t False p else map_of (cz_style c) p))
    \<and> (\<forall>p. map_of (cz_style c2) p = (if custom p then theme_vars t True p else map_of (cz_style c) p))"
proof -
  obtain c1 where c1: "selectTweakcnTheme tweakcn_tweaks (ct_value t) c = Some c1" "shows_tweakcn t c1 (cz_style c)"
    "\<not> isDarkMode c1" "\<not> cz_transitioning c1"
    using select_tweakcn [OF assms(1,2)] assms(3,4) by auto
  let ?s = "setProperty ''--y'' (y @ ''%'') (setProperty ''--x'' (x @ ''%'') (cz_style c1))"
  let ?c = "c1\<lparr>cz_transitioning := True, cz_style := ?s, cz_mode := (if cz_mode c1 = Dark then Light else Dark)\<rparr>"
  have dark: "isDarkMode ?c" using c1(3) by (auto simp: isDarkMode_def)
  have distinct: "distinct (map fst ?s)" using c1(2) by (simp add: shows_tweakcn_def tweaked_def distinct_setProperty)
  obtain c2 where c2: "reapply tweakcn_tweaks ?c = Some c2" "shows_tweakcn t c2 ?s" "isDarkMode c2"
    using reapply_tweakcn [OF assms(1), of ?c] c1(2) distinct dark by (auto simp: shows_tweakcn_def)
  have "handleDarkMode tweakcn_tweaks x y c1 = Some c2"
    using c1(3,4) c2(1) dark by (simp add: handleDarkMode_def toggleTheme_def rerender_def effect_deps_def)
  moreover have "map_of ?s p = map_of (cz_style c1) p" if "\<not> custom p" for p
    using that by (auto simp: map_of_setProperty custom_def starts_with_def)
  ultimately show ?thesis
    using c1 c2 by (auto simp: shows_tweakcn_def tweaked_def)
qed

definition light_customizer :: customizer where
  "light_customizer =
     \<lparr>cz_style = [(''color'', ''red'')], cz_mode = Light, cz_prefersDark = False, cz_transitioning = False,
      cz_theme = ''default'', cz_tweakcn = [], cz_radius = ''0.5rem'', cz_imported = None, cz_brand = [], cz_tabBrand = [],
      cz_sidebar = default_sidebar\<rparr>"

lemma first_tweakcn_theme:
  "hd tweakcnThemes \<in> set tweakcnThemes" "ct_value (hd tweakcnThemes) = ''modern-minimal''"
  "ct_preset (hd tweakcnThemes) = theme_preset.truncate tweakcn_modern_minimal"
  by (simp_all add: tweakcnThemes_def tweakcnPresets_def)

text \<open>The first preset sets the fonts of the light mode only.\<close>

theorem tweakcn_theme_follows_mode_witness:
  "\<exists>c1 c2. customize tweakcn_tweaks (SelectTweakcn ''modern-minimal'') light_customizer = Some c1
    \<and> customize tweakcn_tweaks (ClickDark ''50'' ''50'') c1 = Some c2
    \<and> map_of (cz_style c1) ''--font-sans'' = Some ''Inter, sans-serif'' \<and> map_of (cz_style c2) ''--font-sans'' = None
    \<and> map_of (cz_style c2) ''--background'' = Some ''#171717'' \<and> map_of (cz_style c2) ''color'' = Some ''red''"
proof -
  have vars: "theme_vars (hd tweakcnThemes) d p
      = (if custom p then map_of (mode_styles d (theme_preset.truncate tweakcn_modern_minimal)) (drop 2 p) else None)" for d p
    by (simp only: theme_vars_def first_tweakcn_theme)
  have "theme_vars (hd tweakcnThemes) False ''--font-sans'' = Some ''Inter, sans-serif''"
    "theme_vars (hd tweakcnThemes) True ''--font-sans'' = None" "theme_vars (hd tweakcnThemes) True ''--background'' = Some ''#171717''"
    by (simp_all add: vars custom_def starts_with_def mode_styles_def tweakcn_modern_minimal_def theme_preset.defs)
  moreover have "distinct (map fst (cz_style light_customizer))" "\<not> isDarkMode light_customizer" "\<not> cz_transitioning light_customizer"
    by (simp_all add: light_customizer_def isDarkMode_def)
  note tweakcn_theme_follows_mode [OF first_tweakcn_theme(1) this, of "''50''" "''50''"]
  then obtain c1 c2 where c: "customize tweakcn_tweaks (SelectTweakcn ''modern-minimal'') light_customizer = Some c1"
    "customize tweakcn_tweaks (ClickDark ''50'' ''50'') c1 = Some c2"
    "\<forall>p. map_of (cz_style c1) p
       = (if custom p then theme_vars (hd tweakcnThemes) False p else map_of (cz_style light_customizer) p)"
    "\<forall>p. map_of (cz_style c2) p
       = (if custom p then theme_vars (hd tweakcnThemes) True p else map_of (cz_style light_customizer) p)"
    unfolding first_tweakcn_theme by blast
  moreover have "custom ''--font-sans''" "custom ''--background''" "\<not> custom ''color''" "map_of (cz_style light_customizer) ''color'' = Some ''red''"
    by (simp_all add: custom_def starts_with_def light_customizer_def)
  ultimately show ?thesis by auto
qed

end
