(* ===== verification/Doubles.thy ===== *)
theory Doubles
  imports MO_Prelude "HOL-Library.Log_Nat"
begin

text \<open>
  JavaScript's numbers, as far as the pages compute with them: finite doubles as the rationals they
  stand for, rounding to the nearest double with ties to even, \<open>Number\<close> of a decimal text,
  \<open>toFixed(1)\<close> and the compact notation of \<open>Intl.NumberFormat\<close>. The exponent is unbounded, so
  overflow and subnormal numbers, far outside of the figures of a dashboard, are not covered.
  Shown: rounding is monotone, keeps doubles, and its relative error is at most \<open>2^-53\<close>.
\<close>

section \<open>Rounding\<close>

text \<open>The nearest integer, the even one of two.\<close>

definition nearest_even :: "rat \<Rightarrow> int" where
  "nearest_even x =
     (let f = \<lfloor>x\<rfloor>; d = x - of_int f
      in if d < 1 / 2 then f else if d > 1 / 2 then f + 1 else if even f then f else f + 1)"

text \<open>The exponent \<open>e\<close> with \<open>2^e \<le> |x| < 2^(e+1)\<close>.\<close>

definition binade :: "rat \<Rightarrow> int" where
  "binade x =
     (let (a, b) = quotient_of \<bar>x\<bar>; k = bitlen a - bitlen b
      in if 2 powi k \<le> \<bar>x\<bar> then k else k - 1)"

definition ulp :: "rat \<Rightarrow> rat" where
  "ulp x = 2 powi (binade x - 52)"

definition fl :: "rat \<Rightarrow> rat" where
  "fl x = (if x = 0 then 0 else of_int (nearest_even (x / ulp x)) * ulp x)"

definition is_double :: "rat \<Rightarrow> bool" where
  "is_double x \<longleftrightarrow> fl x = x"

subsection \<open>The nearest integer\<close>

lemma nearest_even_error: "\<bar>of_int (nearest_even x) - x\<bar> \<le> 1 / 2"
proof -
  have "of_int \<lfloor>x\<rfloor> \<le> x" "x < of_int \<lfloor>x\<rfloor> + 1" by linarith+
  then show ?thesis by (auto simp: nearest_even_def Let_def)
qed

lemma nearest_even_of_int [simp]: "nearest_even (of_int n) = n"
  by (simp add: nearest_even_def)

lemma nearest_even_mono:
  assumes "x \<le> y"
  shows "nearest_even x \<le> nearest_even y"
proof (cases "\<lfloor>x\<rfloor> = \<lfloor>y\<rfloor>")
  case True
  with assms show ?thesis by (auto simp: nearest_even_def Let_def)
next
  case False
  then have "\<lfloor>x\<rfloor> + 1 \<le> \<lfloor>y\<rfloor>" using floor_mono [OF assms] by linarith
  moreover have "nearest_even x \<le> \<lfloor>x\<rfloor> + 1" "\<lfloor>y\<rfloor> \<le> nearest_even y" by (auto simp: nearest_even_def Let_def)
  ultimately show ?thesis by linarith
qed

lemma nearest_even_uminus: "nearest_even (- x) = - nearest_even x"
proof (cases "x = of_int \<lfloor>x\<rfloor>")
  case True
  then show ?thesis by (metis nearest_even_of_int of_int_minus)
next
  case False
  then have "of_int \<lfloor>x\<rfloor> < x" "x < of_int \<lfloor>x\<rfloor> + 1" by linarith+
  then have m: "\<lfloor>- x\<rfloor> = - \<lfloor>x\<rfloor> - 1" by (intro floor_unique) auto
  define f where "f = \<lfloor>x\<rfloor>"
  have "\<lfloor>x\<rfloor> = f" "\<lfloor>- x\<rfloor> = - f - 1" using m by (simp_all add: f_def)
  then show ?thesis unfolding nearest_even_def Let_def by (cases "even f") (auto simp only: of_int_minus of_int_diff of_int_1 split: if_splits; simp; linarith)+
qed

subsection \<open>The binade\<close>

lemma powi_bitlen:
  assumes "0 < a"
  shows "(2::rat) powi (bitlen a - 1) \<le> of_int a" "(of_int a :: rat) < 2 powi bitlen a"
proof -
  have n: "1 \<le> bitlen a" using assms bitlen_eq_zero_iff [of a] bitlen_nonneg [of a] by linarith
  have b: "2 ^ nat (bitlen a - 1) \<le> a" "a < 2 ^ nat (bitlen a)" using bitlen_bounds [OF assms] by auto
  have "(of_int (2 ^ nat (bitlen a - 1)) :: rat) \<le> of_int a" using b(1) by (simp only: of_int_le_iff)
  then show "(2::rat) powi (bitlen a - 1) \<le> of_int a" using n by (simp add: power_int_def)
  have "(of_int a :: rat) < of_int (2 ^ nat (bitlen a))" using b(2) by (simp only: of_int_less_iff)
  then show "(of_int a :: rat) < 2 powi bitlen a" using n by (simp add: power_int_def)
qed

lemma binade_bounds:
  assumes "x \<noteq> 0"
  shows "2 powi binade x \<le> \<bar>x\<bar>" "\<bar>x\<bar> < 2 powi (binade x + 1)"
proof -
  obtain a b where q: "quotient_of \<bar>x\<bar> = (a, b)" by (cases "quotient_of \<bar>x\<bar>")
  have x: "\<bar>x\<bar> = of_int a / of_int b" and b: "0 < b"
    using quotient_of_div [OF q] quotient_of_denom_pos [OF q] by auto
  have a: "0 < a"
  proof -
    have "0 < (of_int a / of_int b :: rat)" using assms x by (metis zero_less_abs_iff)
    then show ?thesis using b by (simp add: zero_less_divide_iff)
  qed
  let ?k = "bitlen a - bitlen b"
  have "\<bar>x\<bar> < 2 powi bitlen a / 2 powi (bitlen b - 1)"
    unfolding x using powi_bitlen [OF a] powi_bitlen [OF b] b
    by (intro frac_less) (auto simp: a less_imp_le)
  then have up: "\<bar>x\<bar> < 2 powi (?k + 1)"
    by (simp add: power_int_diff [symmetric] add_diff_eq diff_diff_eq2 diff_add_eq algebra_simps)
  have "2 powi (bitlen a - 1) / 2 powi bitlen b < of_int a / (of_int b :: rat)"
    using powi_bitlen [OF a] powi_bitlen [OF b] a b by (intro frac_less2) auto
  then have low: "2 powi (?k - 1) \<le> \<bar>x\<bar>" by (simp add: x power_int_diff [symmetric] algebra_simps)
  show "2 powi binade x \<le> \<bar>x\<bar>" using low by (simp add: binade_def q Let_def)
  show "\<bar>x\<bar> < 2 powi (binade x + 1)" using up by (simp add: binade_def q Let_def)
qed

lemma binade_unique:
  assumes "2 powi e \<le> \<bar>x\<bar>" "\<bar>x\<bar> < 2 powi (e + 1)"
  shows "binade x = e"
proof -
  have "(0::rat) < 2 powi e" by simp
  then have nz: "x \<noteq> 0" using assms(1) by linarith
  have "(2::rat) powi e < 2 powi (binade x + 1)" "(2::rat) powi binade x < 2 powi (e + 1)"
    using assms binade_bounds [OF nz] by linarith+
  then have "e < binade x + 1" "binade x < e + 1"
    by (meson not_less one_le_numeral power_int_increasing)+
  then show ?thesis by linarith
qed

lemma binade_uminus [simp]: "binade (- x) = binade x"
  by (simp add: binade_def)

lemma ulp_uminus [simp]: "ulp (- x) = ulp x"
  by (simp add: ulp_def)

lemma ulp_pos [simp]: "0 < ulp x"
  by (simp add: ulp_def)

lemma fl_0 [simp]: "fl 0 = 0"
  by (simp add: fl_def)

lemma fl_uminus: "fl (- x) = - fl x"
  using nearest_even_uminus [of "x / ulp x"] by (simp add: fl_def)

subsection \<open>Errors\<close>

lemma scaled_bounds:
  assumes "x \<noteq> 0"
  shows "2 ^ 52 \<le> \<bar>x\<bar> / ulp x" "\<bar>x\<bar> / ulp x < 2 ^ 53"
proof -
  have "(2::rat) ^ 52 * ulp x = 2 powi binade x" by (simp add: ulp_def power_int_diff)
  then show "2 ^ 52 \<le> \<bar>x\<bar> / ulp x" using binade_bounds [OF assms] by (simp add: pos_le_divide_eq)
  have "(2::rat) ^ 53 * ulp x = 2 powi (binade x + 1)" by (simp add: ulp_def power_int_diff power_int_add)
  then show "\<bar>x\<bar> / ulp x < 2 ^ 53" using binade_bounds [OF assms] by (simp add: pos_divide_less_eq)
qed

lemma fl_error_ulp: "\<bar>fl x - x\<bar> \<le> ulp x / 2"
proof (cases "x = 0")
  case False
  have "fl x - x = (of_int (nearest_even (x / ulp x)) - x / ulp x) * ulp x"
    using False ulp_pos [of x, THEN less_imp_neq] by (simp add: fl_def left_diff_distrib)
  then have "\<bar>fl x - x\<bar> = \<bar>of_int (nearest_even (x / ulp x)) - x / ulp x\<bar> * ulp x"
    by (simp add: abs_mult abs_of_pos)
  also have "\<dots> \<le> 1 / 2 * ulp x"
    by (intro mult_right_mono nearest_even_error) (simp add: less_imp_le)
  finally show ?thesis by simp
qed (simp add: less_imp_le)

lemma fl_error: "\<bar>fl x - x\<bar> \<le> \<bar>x\<bar> / 2 ^ 53"
proof (cases "x = 0")
  case False
  have "2 ^ 52 * ulp x \<le> \<bar>x\<bar>" using scaled_bounds(1) [OF False] ulp_pos [of x] by (simp add: pos_le_divide_eq)
  then show ?thesis using fl_error_ulp [of x] by simp
qed simp

subsection \<open>Doubles\<close>

lemma fl_scaled:
  assumes "\<bar>m\<bar> < 2 ^ 53"
  shows "fl (of_int m * 2 powi e) = of_int m * 2 powi e"
proof (cases "m = 0")
  case False
  let ?x = "of_int m * 2 powi e :: rat"
  have nz: "?x \<noteq> 0" using False by simp
  have "(of_int \<bar>m\<bar> :: rat) < of_int (2 ^ 53)" using assms by (simp only: of_int_less_iff)
  then have "\<bar>of_int m :: rat\<bar> < 2 ^ 53" by simp
  then have "\<bar>?x\<bar> < 2 ^ 53 * 2 powi e" by (simp add: abs_mult)
  also have "\<dots> = 2 powi (e + 53)" by (simp add: power_int_add)
  finally have "(2::rat) powi binade ?x < 2 powi (e + 53)" using binade_bounds(1) [OF nz] by linarith
  then have "binade ?x < e + 53" by (meson not_less one_le_numeral power_int_increasing)
  then have "0 \<le> e - (binade ?x - 52)" by linarith
  then obtain k where k: "e - (binade ?x - 52) = int k" by (rule nonneg_int_cases)
  have "?x / ulp ?x = of_int m * (2 powi e / 2 powi (binade ?x - 52))" by (simp add: ulp_def)
  also have "\<dots> = of_int (m * 2 ^ k)" by (simp add: power_int_diff [symmetric] k)
  finally have "?x / ulp ?x = of_int (m * 2 ^ k)" .
  then have "nearest_even (?x / ulp ?x) = m * 2 ^ k" by (simp only: nearest_even_of_int)
  then have "fl ?x = ?x / ulp ?x * ulp ?x" using nz \<open>?x / ulp ?x = of_int (m * 2 ^ k)\<close> by (simp add: fl_def)
  then show ?thesis using ulp_pos [of ?x] by simp
qed simp

lemma fl_scaled_le:
  assumes "\<bar>m\<bar> \<le> 2 ^ 53"
  shows "fl (of_int m * 2 powi e) = of_int m * 2 powi e"
proof (cases "\<bar>m\<bar> = 2 ^ 53")
  case True
  then consider "m = 2 * 2 ^ 52" | "m = 2 * - (2 ^ 52)" by (auto simp: abs_if split: if_splits)
  then obtain n where n: "m = 2 * n" "\<bar>n\<bar> < 2 ^ 53" by cases auto
  then have "of_int m * 2 powi e = (of_int n * 2 powi (e + 1) :: rat)" by (simp add: power_int_add)
  then show ?thesis using fl_scaled [OF n(2)] by simp
qed (use assms fl_scaled in auto)

lemma nearest_even_bound:
  assumes "\<bar>x\<bar> \<le> of_int n"
  shows "\<bar>nearest_even x\<bar> \<le> n"
proof -
  have "x \<le> of_int n" "- x \<le> of_int n" using assms by auto
  then have "nearest_even x \<le> n" "nearest_even (- x) \<le> n"
    by (metis nearest_even_mono nearest_even_of_int)+
  then show ?thesis by (simp add: nearest_even_uminus abs_le_iff)
qed

lemma fl_fl [simp]: "fl (fl x) = fl x"
proof (cases "x = 0")
  case False
  have "\<bar>x / ulp x\<bar> \<le> of_int (2 ^ 53)" using scaled_bounds(2) [OF False] by (simp add: abs_of_pos)
  then have "\<bar>nearest_even (x / ulp x)\<bar> \<le> 2 ^ 53" by (rule nearest_even_bound)
  then show ?thesis using False fl_scaled_le by (simp add: fl_def [of x] ulp_def)
qed simp

lemma is_double_fl [simp]: "is_double (fl x)"
  by (simp add: is_double_def)

lemma is_double_of_int: "\<bar>m\<bar> \<le> 2 ^ 53 \<Longrightarrow> is_double (of_int m)"
  using fl_scaled_le [of m 0] by (simp add: is_double_def)

lemma is_double_uminus: "is_double (- x) = is_double x"
  by (simp add: is_double_def fl_uminus)

subsection \<open>Monotonicity\<close>

lemma fl_pos_bounds:
  assumes "0 < x"
  shows "2 powi binade x \<le> fl x" "fl x \<le> 2 powi (binade x + 1)"
proof -
  have s: "of_int (2 ^ 52) \<le> x / ulp x" "x / ulp x \<le> of_int (2 ^ 53)"
    using scaled_bounds [of x] assms by (simp_all add: abs_of_pos less_imp_le)
  have n: "2 ^ 52 \<le> nearest_even (x / ulp x)" "nearest_even (x / ulp x) \<le> 2 ^ 53"
    using nearest_even_mono [OF s(1)] nearest_even_mono [OF s(2)] unfolding nearest_even_of_int by simp_all
  have "(of_int (2 ^ 52) :: rat) \<le> of_int (nearest_even (x / ulp x))"
    "of_int (nearest_even (x / ulp x)) \<le> (of_int (2 ^ 53) :: rat)"
    using n by (simp_all only: of_int_le_iff)
  then have f: "of_int (2 ^ 52) * ulp x \<le> fl x" "fl x \<le> of_int (2 ^ 53) * ulp x"
    using assms by (simp_all add: fl_def mult_right_mono less_imp_le)
  have u: "of_int (2 ^ 52) * ulp x = 2 powi binade x" "of_int (2 ^ 53) * ulp x = 2 powi (binade x + 1)"
    by (simp_all add: ulp_def power_int_diff power_int_add)
  show "2 powi binade x \<le> fl x" "fl x \<le> 2 powi (binade x + 1)" using f unfolding u by simp_all
qed

lemma binade_mono: "0 < x \<Longrightarrow> x \<le> y \<Longrightarrow> binade x \<le> binade y"
proof -
  assume "0 < x" "x \<le> y"
  then have "(2::rat) powi binade x < 2 powi (binade y + 1)"
    using binade_bounds [of x] binade_bounds [of y] by (simp add: abs_of_pos)
  then have "binade x < binade y + 1" by (meson not_less one_le_numeral power_int_increasing)
  then show ?thesis by simp
qed

lemma fl_mono_pos:
  assumes "0 < x" "x \<le> y"
  shows "fl x \<le> fl y"
proof (cases "binade x = binade y")
  case True
  then have u: "ulp x = ulp y" by (simp add: ulp_def)
  have "x / ulp y \<le> y / ulp y" using assms ulp_pos [of y] by (simp add: divide_right_mono less_imp_le)
  then have "(of_int (nearest_even (x / ulp y)) :: rat) \<le> of_int (nearest_even (y / ulp y))"
    by (simp only: of_int_le_iff nearest_even_mono)
  then show ?thesis using assms u ulp_pos [of y] by (simp add: fl_def mult_right_mono less_imp_le)
next
  case False
  then have "binade x + 1 \<le> binade y" using binade_mono [OF assms] by simp
  then have "(2::rat) powi (binade x + 1) \<le> 2 powi binade y" by (simp add: power_int_increasing)
  then show ?thesis using fl_pos_bounds [of x] fl_pos_bounds [of y] assms by linarith
qed

lemma fl_pos: "0 < x \<Longrightarrow> 0 < fl x"
  using fl_pos_bounds(1) [of x] by (meson less_le_trans zero_less_numeral zero_less_power_int)

lemma fl_nonneg: "0 \<le> x \<Longrightarrow> 0 \<le> fl x"
  using fl_pos [of x] by (cases "x = 0") auto

theorem fl_mono:
  assumes "x \<le> y"
  shows "fl x \<le> fl y"
proof (cases "0 < x")
  case True
  then show ?thesis using assms fl_mono_pos by blast
next
  case False
  show ?thesis
  proof (cases "0 < - y")
    case True
    then show ?thesis using fl_mono_pos [of "- y" "- x"] assms by (simp add: fl_uminus)
  next
    case yn: False
    have "0 \<le> fl y" "0 \<le> fl (- x)" using False yn by (auto intro: fl_nonneg)
    then show ?thesis by (simp add: fl_uminus)
  qed
qed

lemma fl_le_double: "x \<le> y \<Longrightarrow> is_double y \<Longrightarrow> fl x \<le> y"
  using fl_mono [of x y] by (simp add: is_double_def)

lemma double_le_fl: "x \<le> y \<Longrightarrow> is_double x \<Longrightarrow> x \<le> fl y"
  using fl_mono [of x y] by (simp add: is_double_def)

text \<open>The sign of a rounded value is that of the exact one; in particular a difference tells which is larger.\<close>

lemma fl_pos_iff [simp]: "0 < fl x \<longleftrightarrow> 0 < x"
  using fl_pos [of x] fl_mono [of x 0] by (cases "0 < x") auto

lemma fl_neg_iff [simp]: "fl x < 0 \<longleftrightarrow> x < 0"
  using fl_pos_iff [of "- x"] by (simp add: fl_uminus)

lemma fl_zero_iff [simp]: "fl x = 0 \<longleftrightarrow> x = 0"
  by (metis fl_neg_iff fl_pos_iff linorder_less_linear less_irrefl)

section \<open>Arithmetic, \<open>Number\<close> and \<open>toFixed\<close>\<close>

definition js_add :: "rat \<Rightarrow> rat \<Rightarrow> rat" where
  "js_add a b = fl (a + b)"

definition js_sub :: "rat \<Rightarrow> rat \<Rightarrow> rat" where
  "js_sub a b = fl (a - b)"

definition js_mul :: "rat \<Rightarrow> rat \<Rightarrow> rat" where
  "js_mul a b = fl (a * b)"

definition js_div :: "rat \<Rightarrow> rat \<Rightarrow> rat" where
  "js_div a b = fl (a / b)"

lemmas js_arith = js_add_def js_sub_def js_mul_def js_div_def

definition is_digit :: "char \<Rightarrow> bool" where
  "is_digit c \<longleftrightarrow> 48 \<le> (of_char c :: nat) \<and> (of_char c :: nat) \<le> 57"

text \<open>An exponent part, or nothing.\<close>

definition exponent_value :: "string \<Rightarrow> int option" where
  "exponent_value s =
     (case s of
        [] \<Rightarrow> Some 0
      | c # r \<Rightarrow>
          if c \<noteq> CHR ''e'' \<and> c \<noteq> CHR ''E'' then None
          else
            let neg = (r \<noteq> [] \<and> hd r = CHR ''-'');
                ds = (if neg \<or> r \<noteq> [] \<and> hd r = CHR ''+'' then tl r else r)
            in if ds = [] \<or> \<not> list_all is_digit ds then None
               else Some ((if neg then - 1 else 1) * int (read_nat_acc 0 ds)))"

text \<open>A decimal literal with an optional sign, fraction and exponent.\<close>

definition decimal_value :: "string \<Rightarrow> rat option" where
  "decimal_value s =
     (let neg = (s \<noteq> [] \<and> hd s = CHR ''-'');
          u = (if neg \<or> s \<noteq> [] \<and> hd s = CHR ''+'' then tl s else s);
          whole = takeWhile is_digit u;
          r = dropWhile is_digit u;
          point = (r \<noteq> [] \<and> hd r = CHR ''.'');
          fraction = (if point then takeWhile is_digit (tl r) else []);
          rest = (if point then dropWhile is_digit (tl r) else r)
      in if whole = [] \<and> fraction = [] then None
         else map_option
                (\<lambda>e. (if neg then - 1 else 1) * of_nat (read_nat_acc 0 (whole @ fraction))
                      * 10 powi (e - int (length fraction)))
                (exponent_value rest))"

text \<open>An integer literal after \<open>0x\<close>, \<open>0o\<close> or \<open>0b\<close>.\<close>

definition hex_value :: "char \<Rightarrow> nat option" where
  "hex_value c =
     (let n = of_char c :: nat
      in if is_digit c then Some (n - 48)
         else if 65 \<le> n \<and> n \<le> 70 then Some (n - 55)
         else if 97 \<le> n \<and> n \<le> 102 then Some (n - 87) else None)"

definition radix_of :: "char \<Rightarrow> nat" where
  "radix_of c =
     (if c \<in> set ''xX'' then 16 else if c \<in> set ''oO'' then 8 else if c \<in> set ''bB'' then 2 else 0)"

definition radix_value :: "string \<Rightarrow> rat option" where
  "radix_value s =
     (case s of
        z # c # ds \<Rightarrow>
          if z = CHR ''0'' \<and> ds \<noteq> [] \<and> list_all (\<lambda>d. \<exists>v \<in> set_option (hex_value d). v < radix_of c) ds
          then Some (of_nat (fold (\<lambda>d a. radix_of c * a + the (hex_value d)) ds 0))
          else None
      | _ \<Rightarrow> None)"

text \<open>\<open>None\<close> is \<open>NaN\<close> or an infinity.\<close>

definition Number_text :: "string \<Rightarrow> rat option" where
  "Number_text s =
     (let t = js_trim s
      in if t = [] then Some 0
         else map_option fl (case decimal_value t of Some d \<Rightarrow> Some d | None \<Rightarrow> radix_value t))"

lemma Number_text_double: "Number_text s = Some x \<Longrightarrow> is_double x"
  by (auto simp: Number_text_def is_double_def Let_def split: if_splits)

text \<open>\<open>x.toFixed(1)\<close>: the closest number of tenths, the larger of two, of the absolute value.\<close>

definition tenths :: "rat \<Rightarrow> nat" where
  "tenths x = nat (round (10 * \<bar>x\<bar>))"

definition show_tenths :: "nat \<Rightarrow> string" where
  "show_tenths n = show_nat (n div 10) @ ''.'' @ show_nat (n mod 10)"

definition toFixed1 :: "rat \<Rightarrow> string" where
  "toFixed1 x = (if x < 0 then ''-'' else []) @ show_tenths (tenths x)"

lemma tenths_error: "\<bar>of_nat (tenths x) / 10 - \<bar>x\<bar>\<bar> \<le> 1 / 20"
proof -
  have "0 \<le> round (10 * \<bar>x\<bar>)" by (simp add: round_def)
  then have "(of_nat (tenths x) :: rat) = of_int (round (10 * \<bar>x\<bar>))" by (simp add: tenths_def)
  then show ?thesis using of_int_round_abs_le [of "10 * \<bar>x\<bar>"] by (auto simp: abs_le_iff field_simps)
qed

lemma tenths_mono: "\<bar>x\<bar> \<le> \<bar>y\<bar> \<Longrightarrow> tenths x \<le> tenths y"
  by (simp add: tenths_def nat_mono round_mono)

end
