(* ===== verification/Dashboard_Format.thy ===== *)
theory Dashboard_Format
  imports Doubles
begin

text \<open>
  \<open>lib/dashboard-format.ts\<close>: the formatters of the dashboards' dates, percentages and amounts, with
  what they use of \<open>Intl\<close> for the locale en-US. A date is formatted in UTC, so only its own text
  counts; \<open>formatDateTime\<close> uses the browser's time zone and is an argument where it is needed.
  Shown: different dates are shown differently, and a compact amount is off by at most a twentieth of
  its unit.
\<close>

section \<open>Calendar dates\<close>

definition leap_year :: "nat \<Rightarrow> bool" where
  "leap_year y \<longleftrightarrow> 4 dvd y \<and> (\<not> 100 dvd y \<or> 400 dvd y)"

definition days_in_month :: "nat \<Rightarrow> nat \<Rightarrow> nat" where
  "days_in_month y m = (if m = 2 then if leap_year y then 29 else 28 else if m \<in> {4, 6, 9, 11} then 30 else 31)"

text \<open>A text of the form \<open>YYYY-MM-DD\<close> that names a day.\<close>

definition iso_date :: "string \<Rightarrow> (nat \<times> nat \<times> nat) option" where
  "iso_date s =
     (let y = take 4 s; m = take 2 (drop 5 s); d = take 2 (drop 8 s)
      in if s = y @ ''-'' @ m @ ''-'' @ d \<and> length s = 10 \<and> list_all is_digit (y @ m @ d)
         then
           let yn = read_nat_acc 0 y; mn = read_nat_acc 0 m; dn = read_nat_acc 0 d
           in if 1 \<le> yn \<and> 1 \<le> mn \<and> mn \<le> 12 \<and> 1 \<le> dn \<and> dn \<le> days_in_month yn mn then Some (yn, mn, dn)
              else None
         else None)"

definition short_months :: "string list" where
  "short_months =
     [''Jan'', ''Feb'', ''Mar'', ''Apr'', ''May'', ''Jun'', ''Jul'', ''Aug'', ''Sep'', ''Oct'', ''Nov'', ''Dec'']"

definition month_short :: "nat \<Rightarrow> string" where
  "month_short m = short_months ! (m - 1)"

text \<open>
  \<open>new Date(`\$\{value\}T00:00:00Z`)\<close>, in UTC. What the platform makes of another text (a date that does
  not exist may roll over or be invalid) is the argument \<open>other\<close>.
\<close>

definition formatDate :: "(string \<Rightarrow> string) \<Rightarrow> string \<Rightarrow> string" where
  "formatDate other value =
     (case iso_date value of
        Some (y, m, d) \<Rightarrow> month_short m @ '' '' @ show_nat d @ '', '' @ show_nat y
      | None \<Rightarrow> other value)"

definition formatShortDate :: "(string \<Rightarrow> string) \<Rightarrow> string \<Rightarrow> string" where
  "formatShortDate other value =
     (case iso_date value of
        Some (y, m, d) \<Rightarrow> month_short m @ '' '' @ show_nat d
      | None \<Rightarrow> other value)"

definition formatPercent :: "string option \<Rightarrow> string option" where
  "formatPercent value = map_option (\<lambda>v. v @ ''%'') value"

definition formatDays :: "string option \<Rightarrow> string option" where
  "formatDays value = map_option (\<lambda>v. v @ ''d'') value"

section \<open>Amounts\<close>

text \<open>Groups of three digits, from the right.\<close>

fun group3_rev :: "string \<Rightarrow> string" where
  "group3_rev (a # b # c # d # r) = a # b # c # CHR '','' # group3_rev (d # r)"
| "group3_rev s = s"

definition toLocale_nat :: "nat \<Rightarrow> string" where
  "toLocale_nat n = rev (group3_rev (rev (show_nat n)))"

text \<open>
  Compact notation with at most one fraction digit: the smallest unit in which the rounded value stays
  below a thousand. Half of a tenth is rounded up.
\<close>

definition compact_units :: "(nat \<times> string) list" where
  "compact_units = [(1, []), (1000, ''K''), (1000000, ''M''), (1000000000, ''B''), (1000000000000, ''T'')]"

definition unit_tenths :: "rat \<Rightarrow> nat \<Rightarrow> nat" where
  "unit_tenths x p = nat (round (10 * \<bar>x\<bar> / of_nat p))"

fun compact_unit :: "rat \<Rightarrow> (nat \<times> string) list \<Rightarrow> nat \<times> string" where
  "compact_unit x [] = (1, [])"
| "compact_unit x [u] = u"
| "compact_unit x (u # v # us) = (if unit_tenths x (fst u) < 10000 then u else compact_unit x (v # us))"

definition compact_text :: "rat \<Rightarrow> string" where
  "compact_text x =
     (let (p, s) = compact_unit x compact_units; n = unit_tenths x p; w = n div 10
      in (if w < 10000 then show_nat w else toLocale_nat w)
         @ (if n mod 10 = 0 then [] else ''.'' @ show_nat (n mod 10)) @ s)"

definition formatCompactNumber :: "rat \<Rightarrow> string" where
  "formatCompactNumber value = (if value < 0 then ''-'' else []) @ compact_text value"

definition formatCompactCurrency :: "rat \<Rightarrow> string" where
  "formatCompactCurrency value = (if value < 0 then ''-'' else []) @ ''$'' @ compact_text value"

section \<open>Properties\<close>

lemma digit_value: "is_digit c \<Longrightarrow> char_of (48 + (of_char c - 48 :: nat)) = c"
  by (simp add: is_digit_def)

lemma tens_inject: "10 * a + v = 10 * b + w \<Longrightarrow> v < 10 \<Longrightarrow> w < 10 \<Longrightarrow> a = b \<and> v = w" for a b v w :: nat
  by presburger

text \<open>Texts of the same length with the same value are equal.\<close>

lemma read_digits_inject:
  "list_all is_digit s \<Longrightarrow> list_all is_digit t \<Longrightarrow> length s = length t \<Longrightarrow>
   read_nat_acc 0 s = read_nat_acc 0 t \<Longrightarrow> s = t"
proof (induction s arbitrary: t rule: rev_induct)
  case (snoc c s)
  obtain d u where t: "t = u @ [d]" using snoc.prems(3) by (cases t rule: rev_cases) auto
  have b: "of_char c - 48 < (10 :: nat)" "of_char d - 48 < (10 :: nat)"
    using snoc.prems(1,2) t by (auto simp: is_digit_def)
  have "10 * read_nat_acc 0 s + (of_char c - 48) = 10 * read_nat_acc 0 u + (of_char d - 48)"
    using snoc.prems(4) t by (simp only: read_nat_acc_append read_nat_acc.simps)
  from tens_inject [OF this b]
  have v: "read_nat_acc 0 s = read_nat_acc 0 u" "of_char c - 48 = (of_char d - 48 :: nat)" by simp_all
  have "s = u" using snoc.prems(1-3) t by (intro snoc.IH v(1)) auto
  moreover have "is_digit c" "is_digit d" using snoc.prems(1,2) t by auto
  then have "c = d" using v(2) digit_value by metis
  ultimately show ?case using t by simp
qed simp

lemma iso_date_inject:
  assumes "iso_date a = Some p" "iso_date b = Some p"
  shows "a = b"
proof -
  have "take 4 a = take 4 b" "take 2 (drop 5 a) = take 2 (drop 5 b)" "take 2 (drop 8 a) = take 2 (drop 8 b)"
    using assms by (auto simp: iso_date_def Let_def split: if_splits intro!: read_digits_inject)
  moreover have "a = take 4 a @ ''-'' @ take 2 (drop 5 a) @ ''-'' @ take 2 (drop 8 a)"
    "b = take 4 b @ ''-'' @ take 2 (drop 5 b) @ ''-'' @ take 2 (drop 8 b)"
    using assms by (auto simp only: iso_date_def Let_def split: if_splits)
  ultimately show ?thesis by metis
qed

lemma iso_date_bounds:
  "iso_date a = Some (y, m, d) \<Longrightarrow> 1 \<le> y \<and> 1 \<le> m \<and> m \<le> 12 \<and> 1 \<le> d \<and> d \<le> 31"
  by (auto simp: iso_date_def Let_def days_in_month_def split: if_splits)

lemma short_months_facts:
  "length short_months = 12" "distinct short_months" "list_all (\<lambda>s. length s = 3) short_months"
  by (simp_all add: short_months_def)

lemma month_short_inject:
  assumes "1 \<le> m" "m \<le> 12" "1 \<le> n" "n \<le> 12" "month_short m = month_short n"
  shows "m = n"
proof -
  have "m - 1 = n - 1"
    using assms short_months_facts nth_eq_iff_index_eq [of short_months "m - 1" "n - 1"] by (simp add: month_short_def)
  then show ?thesis using assms by linarith
qed

lemma month_short_length: "1 \<le> m \<Longrightarrow> m \<le> 12 \<Longrightarrow> length (month_short m) = 3"
  using short_months_facts by (simp add: month_short_def list_all_length)

lemma comma_not_digit: "CHR '','' \<notin> set (show_nat n)"
  using show_nat_digits [of "CHR '',''" n] by auto

text \<open>Two days are never shown as the same date.\<close>

theorem dates_shown_apart:
  assumes "iso_date a = Some p" "iso_date b = Some q" and "formatDate other a = formatDate other b"
  shows "a = b"
proof -
  obtain y m d y' m' d' where pq: "p = (y, m, d)" "q = (y', m', d')" by (metis prod_cases3)
  note bounds = iso_date_bounds [OF assms(1) [unfolded pq]] iso_date_bounds [OF assms(2) [unfolded pq]]
  have "month_short m @ '' '' @ show_nat d @ '', '' @ show_nat y = month_short m' @ '' '' @ show_nat d' @ '', '' @ show_nat y'"
    using assms pq by (simp add: formatDate_def)
  then have m: "month_short m = month_short m'"
    and r: "show_nat d @ CHR '','' # CHR '' '' # show_nat y = show_nat d' @ CHR '','' # CHR '' '' # show_nat y'"
    using bounds month_short_length by (auto simp: append_eq_append_conv)
  have "takeWhile (\<lambda>c. c \<noteq> CHR '','') (show_nat n @ CHR '','' # t) = show_nat n" for n t
    using comma_not_digit [of n] by (subst takeWhile_append2) auto
  then have "show_nat d = show_nat d'" using r by metis
  moreover from this have "show_nat y = show_nat y'" using r by simp
  ultimately have "p = q" using m bounds month_short_inject pq by (simp add: show_nat_inject)
  then show ?thesis using assms iso_date_inject by blast
qed

text \<open>The text is the amount, correct to a twentieth of its unit.\<close>

lemma unit_tenths_error:
  assumes "0 < p"
  shows "\<bar>of_nat (unit_tenths x p) * of_nat p / 10 - \<bar>x\<bar>\<bar> \<le> of_nat p / 20"
proof -
  let ?q = "10 * \<bar>x\<bar> / of_nat p :: rat"
  have "0 \<le> ?q" by simp
  then have "0 \<le> round ?q" by (simp add: round_def)
  then have e: "(of_nat (unit_tenths x p) :: rat) = of_int (round ?q)" by (simp add: unit_tenths_def)
  have "of_nat (unit_tenths x p) * of_nat p / 10 - \<bar>x\<bar> = (of_int (round ?q) - ?q) * (of_nat p / 10)"
    using assms by (simp add: e field_simps)
  then have "\<bar>of_nat (unit_tenths x p) * of_nat p / 10 - \<bar>x\<bar>\<bar> = \<bar>of_int (round ?q) - ?q\<bar> * (of_nat p / 10)"
    by (simp only: abs_mult) simp
  also have "\<dots> \<le> 1 / 2 * (of_nat p / 10)" by (intro mult_right_mono of_int_round_abs_le) simp
  finally show ?thesis by simp
qed

end
