(* ===== verification/Reply_Types.thy ===== *)
theory Reply_Types
  imports Http_Fetch Dashboard_Format
begin

text \<open>
  The two sides of a reply: the TypeScript type that a page declares for it, and the Pydantic schema that
  the backend serialises, both as data. \<open>has_type\<close> says when a JSON value has a declared type, \<open>dumps\<close>
  which JSON values a schema is serialised to: Pydantic writes decimals, dates, times and UUIDs as texts.
  \<open>serves\<close> compares the two, and \<open>serves_sound\<close> shows that the comparison is right.
\<close>

section \<open>Declared types and schemas\<close>

datatype ts_type =
    TString
  | TNumber
  | TBoolean
  | TLiteral "string list"
  | TNullable ts_type
  | TArray ts_type
  | TObject "(string \<times> ts_type) list"
  | TOptional ts_type \<comment> \<open>of a property that may be absent\<close>
  | TDict \<comment> \<open>an object of which nothing is said\<close>

datatype py_type =
    PStr
  | PInt
  | PBool
  | PDecimal
  | PDate
  | PDatetime
  | PUuid
  | PEnum "string list"
  | POptional py_type
  | PList py_type
  | PModel "(string \<times> py_type) list"
  | PDict

lemma size_field [termination_simp]: "(k, t) \<in> set fs \<Longrightarrow> size t < Suc (size_list (size_prod (\<lambda>x. 0) size) fs)"
  by (induction fs) auto

fun optional_type :: "ts_type \<Rightarrow> bool" where
  "optional_type (TOptional t) = True"
| "optional_type t = False"

text \<open>An object may have more properties than its type names.\<close>

fun has_type :: "ts_type \<Rightarrow> json \<Rightarrow> bool" where
  "has_type TString j = (case j of JStr s \<Rightarrow> True | _ \<Rightarrow> False)"
| "has_type TNumber j = (case j of JNum n \<Rightarrow> True | _ \<Rightarrow> False)"
| "has_type TBoolean j = (case j of JBool b \<Rightarrow> True | _ \<Rightarrow> False)"
| "has_type (TLiteral vs) j = (case j of JStr s \<Rightarrow> s \<in> set vs | _ \<Rightarrow> False)"
| "has_type (TNullable t) j = (j = JNull \<or> has_type t j)"
| "has_type (TArray t) j = (case j of JArr xs \<Rightarrow> list_all (has_type t) xs | _ \<Rightarrow> False)"
| "has_type (TObject fs) j =
     (case j of
        JObj ps \<Rightarrow> list_all (\<lambda>(k, t). case map_of ps k of None \<Rightarrow> optional_type t | Some v \<Rightarrow> has_type t v) fs
      | _ \<Rightarrow> False)"
| "has_type (TOptional t) j = has_type t j"
| "has_type TDict j = (case j of JObj ps \<Rightarrow> True | _ \<Rightarrow> False)"

definition uuid_text :: "string \<Rightarrow> bool" where
  "uuid_text s \<longleftrightarrow>
     length s = 36
     \<and> list_all (\<lambda>c. is_digit c \<or> c \<in> set ''abcdef'') (filter (\<lambda>c. c \<noteq> CHR ''-'') s)
     \<and> list_all (\<lambda>i. s ! i = CHR ''-'') [8, 13, 18, 23]"

definition datetime_text :: "string \<Rightarrow> bool" where
  "datetime_text s \<longleftrightarrow> iso_date (take 10 s) \<noteq> None \<and> starts_with (drop 10 s) ''T''"

fun is_text :: "(string \<Rightarrow> bool) \<Rightarrow> json \<Rightarrow> bool" where
  "is_text P (JStr s) = P s"
| "is_text P _ = False"

fun dumps :: "py_type \<Rightarrow> json \<Rightarrow> bool" where
  "dumps PStr j = is_text (\<lambda>s. True) j"
| "dumps PInt j = (case j of JNum n \<Rightarrow> True | _ \<Rightarrow> False)"
| "dumps PBool j = (case j of JBool b \<Rightarrow> True | _ \<Rightarrow> False)"
| "dumps PDecimal j = is_text (\<lambda>s. decimal_value s \<noteq> None) j"
| "dumps PDate j = is_text (\<lambda>s. iso_date s \<noteq> None) j"
| "dumps PDatetime j = is_text datetime_text j"
| "dumps PUuid j = is_text uuid_text j"
| "dumps (PEnum vs) j = is_text (\<lambda>s. s \<in> set vs) j"
| "dumps (POptional p) j = (j = JNull \<or> dumps p j)"
| "dumps (PList p) j = (case j of JArr xs \<Rightarrow> list_all (dumps p) xs | _ \<Rightarrow> False)"
| "dumps (PModel fs) j =
     (case j of
        JObj ps \<Rightarrow>
          map fst ps = map fst fs
          \<and> list_all (\<lambda>(k, p). case map_of ps k of None \<Rightarrow> False | Some v \<Rightarrow> dumps p v) fs
      | _ \<Rightarrow> False)"
| "dumps PDict j = (case j of JObj ps \<Rightarrow> True | _ \<Rightarrow> False)"

fun serves :: "py_type \<Rightarrow> ts_type \<Rightarrow> bool" where
  "serves (POptional p) (TNullable t) = serves p t"
| "serves p (TNullable t) = serves p t"
| "serves PStr TString = True"
| "serves PInt TNumber = True"
| "serves PBool TBoolean = True"
| "serves PDecimal TString = True"
| "serves PDate TString = True"
| "serves PDatetime TString = True"
| "serves PUuid TString = True"
| "serves (PEnum vs) TString = True"
| "serves (PEnum vs) (TLiteral ws) = (set vs \<subseteq> set ws)"
| "serves (PList p) (TArray t) = serves p t"
| "serves (PModel fs) (TObject gs) =
     list_all (\<lambda>(k, t). case map_of fs k of None \<Rightarrow> optional_type t | Some p \<Rightarrow> serves p t) gs"
| "serves p (TOptional t) = serves p t"
| "serves PDict TDict = True"
| "serves _ _ = False"

text \<open>\<open>Omit<T, k>\<close>, \<open>T & U\<close>, a union with further literals, and a subclass of a schema.\<close>

fun omit :: "string \<Rightarrow> ts_type \<Rightarrow> ts_type" where
  "omit k (TObject fs) = TObject (filter (\<lambda>f. fst f \<noteq> k) fs)"
| "omit k t = t"

fun extended :: "ts_type \<Rightarrow> (string \<times> ts_type) list \<Rightarrow> ts_type" where
  "extended (TObject fs) gs = TObject (fs @ gs)"
| "extended t gs = t"

fun also_literal :: "ts_type \<Rightarrow> string list \<Rightarrow> ts_type" where
  "also_literal (TLiteral vs) ws = TLiteral (vs @ ws)"
| "also_literal t ws = t"

fun inherits :: "py_type \<Rightarrow> (string \<times> py_type) list \<Rightarrow> py_type" where
  "inherits (PModel fs) gs = PModel (fs @ gs)"
| "inherits p gs = p"

section \<open>The comparison is sound\<close>

lemma model_field:
  assumes "list_all (\<lambda>(k, p). case map_of ps k of None \<Rightarrow> False | Some v \<Rightarrow> dumps p v) fs" and "map_of fs k = Some p"
  obtains v where "map_of ps k = Some v" "dumps p v"
proof -
  have "(k, p) \<in> set fs" using assms(2) by (rule map_of_SomeD)
  then have "case map_of ps k of None \<Rightarrow> False | Some v \<Rightarrow> dumps p v" using assms(1) by (auto simp: list_all_iff)
  then show thesis using that by (auto split: option.splits)
qed

theorem serves_sound: "serves p t \<Longrightarrow> dumps p j \<Longrightarrow> has_type t j"
proof (induction p t arbitrary: j rule: serves.induct)
  case (13 fs gs)
  then obtain ps where j: "j = JObj ps" by (cases j) auto
  have "case map_of ps k of None \<Rightarrow> optional_type t | Some v \<Rightarrow> has_type t v" if kt: "(k, t) \<in> set gs" for k t
  proof (cases "map_of fs k")
    case None
    moreover have "map fst ps = map fst fs" using "13.prems"(2) j by simp
    ultimately have "map_of ps k = None" by (metis list.set_map map_of_eq_None_iff)
    then show ?thesis using "13.prems"(1) kt None by (auto simp: list_all_iff)
  next
    case (Some p)
    then have p: "serves p t" using "13.prems"(1) kt by (auto simp: list_all_iff)
    moreover obtain v where "map_of ps k = Some v" "dumps p v"
      using "13.prems"(2) Some j by (auto elim: model_field)
    ultimately show ?thesis using "13.IH" [OF kt refl Some p] by auto
  qed
  then show ?case using j by (auto simp: list_all_iff)
next
  case (12 p t)
  then show ?case by (cases j) (auto simp: list_all_iff)
qed (auto split: json.splits elim: is_text.elims)

text \<open>A value that a schema can be serialised to, so that the contracts speak of something.\<close>

fun sample :: "py_type \<Rightarrow> json" where
  "sample PStr = JStr ''text''"
| "sample PInt = JNum 3"
| "sample PBool = JBool True"
| "sample PDecimal = JStr ''95.00''"
| "sample PDate = JStr ''2026-09-14''"
| "sample PDatetime = JStr ''2026-09-14T08:30:00Z''"
| "sample PUuid = JStr ''3f2504e0-4f89-41d3-9a0c-0305e82c3301''"
| "sample (PEnum vs) = JStr (hd vs)"
| "sample (POptional p) = sample p"
| "sample (PList p) = JArr [sample p]"
| "sample (PModel fs) = JObj (map (\<lambda>(k, p). (k, sample p)) fs)"
| "sample PDict = JObj [(''column'', JNum 1)]"

lemma sample_leaves [simp]:
  "decimal_value ''95.00'' = Some 95" "iso_date ''2026-09-14'' = Some (2026, 9, 14)" "datetime_text ''2026-09-14T08:30:00Z''"
  "uuid_text ''3f2504e0-4f89-41d3-9a0c-0305e82c3301''"
  by (simp_all add: decimal_value_def exponent_value_def iso_date_def datetime_text_def uuid_text_def is_digit_def
      days_in_month_def leap_year_def starts_with_def Let_def)

fun wf_schema :: "py_type \<Rightarrow> bool" where
  "wf_schema (PEnum vs) = (vs \<noteq> [])"
| "wf_schema (POptional p) = wf_schema p"
| "wf_schema (PList p) = wf_schema p"
| "wf_schema (PModel fs) = (distinct (map fst fs) \<and> list_all (\<lambda>(k, p). wf_schema p) fs)"
| "wf_schema _ = True"

lemma dumps_sample: "wf_schema p \<Longrightarrow> dumps p (sample p)"
proof (induction p rule: wf_schema.induct)
  case (4 fs)
  let ?ps = "map (\<lambda>(k, p). (k, sample p)) fs"
  have keys: "map fst ?ps = map fst fs" by (induction fs) auto
  have "map_of ?ps k = Some (sample p) \<and> dumps p (sample p)" if kp: "(k, p) \<in> set fs" for k p
  proof -
    have "wf_schema p" using "4.prems" kp by (auto simp: list_all_iff)
    moreover have "distinct (map fst ?ps)" using "4.prems" unfolding keys by simp
    then have "map_of ?ps k = Some (sample p)" by (rule map_of_is_SomeI) (use kp in force)
    ultimately show ?thesis using "4.IH" [OF kp] by simp
  qed
  then show ?case using keys by (auto simp: list_all_iff)
qed simp_all

end
