(* ===== verification/Dashboard_Types.thy ===== *)
theory Dashboard_Types
  imports Reply_Types
begin

text \<open>
  The reply types that Subsystem 1 declares by hand for its dashboards, ledger and queries
  (\<open>types/dashboard.ts\<close>, \<open>types/ledger.ts\<close>, and rows declared beside their components), and the
  response schemas of the backend (\<open>backend/app/schemas\<close>, prefix \<open>py_\<close>), name by name. The comments of the
  source warn that they can drift apart unnoticed; \<open>dashboard_types_match_backend\<close> shows that they agree,
  and where the reply to a query does not.
\<close>

section \<open>types/dashboard.ts\<close>

definition ExecutiveKpi :: ts_type where
  "ExecutiveKpi =
     TObject [(''simulation_date'', TString), (''otif_pct'', TNullable TString), (''fill_rate_pct'',
       TNullable TString), (''order_cycle_time_days'', TNullable TString),
       (''perfect_order_rate_pct'', TNullable TString), (''computed_at'', TString)]"

definition ExceptionCountByCategory :: ts_type where
  "ExceptionCountByCategory =
     TObject [(''category'', TString), (''open_count'', TNumber)]"

definition ExecutiveSummary :: ts_type where
  "ExecutiveSummary =
     TObject [(''kpis'', TNullable ExecutiveKpi), (''open_exception_counts'', TArray
       ExceptionCountByCategory)]"

definition InventoryPosition :: ts_type where
  "InventoryPosition =
     TObject [(''product_id'', TString), (''warehouse_id'', TString), (''quantity_on_hand'',
       TNullable TNumber), (''quantity_allocated'', TNullable TNumber), (''days_of_supply'',
       TNullable TString), (''is_low_stock'', TBoolean)]"

definition InventoryTransaction :: ts_type where
  "InventoryTransaction =
     TObject [(''id'', TString), (''transaction_at'', TString), (''transaction_type'', TString),
       (''quantity_delta'', TNumber), (''reference_type'', TNullable TString), (''reference_id'',
       TNullable TString), (''source_system'', TString)]"

definition SupplierPerformance :: ts_type where
  "SupplierPerformance =
     TObject [(''supplier_id'', TString), (''supplier_name'', TString),
       (''total_purchase_order_count'', TNumber), (''open_purchase_order_count'', TNumber),
       (''at_risk_purchase_order_count'', TNumber)]"

definition PurchaseOrderStatus :: ts_type where
  "PurchaseOrderStatus =
     TLiteral [''draft'', ''submitted'', ''confirmed'', ''partially_received'', ''received'',
       ''cancelled'']"

definition PurchaseOrderSummary :: ts_type where
  "PurchaseOrderSummary =
     TObject [(''id'', TString), (''po_number'', TString), (''supplier_id'', TString),
       (''warehouse_id'', TString), (''order_date'', TString), (''expected_delivery_date'',
       TString), (''status'', PurchaseOrderStatus), (''is_at_risk'', TBoolean)]"

definition PurchaseOrderLine :: ts_type where
  "PurchaseOrderLine =
     TObject [(''id'', TString), (''product_id'', TString), (''quantity_ordered'', TNumber),
       (''quantity_received'', TNumber), (''unit_cost'', TString)]"

definition PurchaseOrderLifecycleEvent :: ts_type where
  "PurchaseOrderLifecycleEvent =
     TObject [(''from_status'', TNullable PurchaseOrderStatus), (''to_status'',
       PurchaseOrderStatus), (''occurred_at'', TString), (''simulation_date'', TString)]"

definition PurchaseOrderDetail :: ts_type where
  "PurchaseOrderDetail =
     extended PurchaseOrderSummary [(''lines'', TArray PurchaseOrderLine), (''lifecycle_events'',
       TArray PurchaseOrderLifecycleEvent)]"

definition SalesOrderStatus :: ts_type where
  "SalesOrderStatus =
     TLiteral [''draft'', ''submitted'', ''allocated'', ''partially_shipped'', ''shipped'',
       ''cancelled'']"

definition SalesOrderSummary :: ts_type where
  "SalesOrderSummary =
     TObject [(''id'', TString), (''so_number'', TString), (''customer_id'', TString),
       (''warehouse_id'', TString), (''order_date'', TString), (''requested_date'', TString),
       (''promised_date'', TNullable TString), (''status'', SalesOrderStatus)]"

definition SalesOrderLine :: ts_type where
  "SalesOrderLine =
     TObject [(''id'', TString), (''product_id'', TString), (''quantity_ordered'', TNumber),
       (''quantity_shipped'', TNumber), (''unit_price'', TString)]"

definition SalesOrderLifecycleEvent :: ts_type where
  "SalesOrderLifecycleEvent =
     TObject [(''from_status'', TNullable SalesOrderStatus), (''to_status'', SalesOrderStatus),
       (''occurred_at'', TString), (''simulation_date'', TString)]"

definition ShipmentStatus :: ts_type where
  "ShipmentStatus =
     TLiteral [''pending'', ''in_transit'', ''delivered'', ''exception'']"

definition Shipment :: ts_type where
  "Shipment =
     TObject [(''id'', TString), (''sales_order_id'', TString), (''carrier_id'', TString),
       (''warehouse_id'', TString), (''ship_date'', TString), (''promised_delivery_date'', TString),
       (''actual_delivery_date'', TNullable TString), (''status'', ShipmentStatus), (''is_late'',
       TBoolean)]"

definition SalesOrderDetail :: ts_type where
  "SalesOrderDetail =
     extended SalesOrderSummary [(''lines'', TArray SalesOrderLine), (''lifecycle_events'', TArray
       SalesOrderLifecycleEvent), (''shipments'', TArray Shipment)]"

definition ExceptionFlag :: ts_type where
  "ExceptionFlag =
     TObject [(''id'', TString), (''category'', TString), (''product_id'', TNullable TString),
       (''warehouse_id'', TNullable TString), (''purchase_order_id'', TNullable TString),
       (''shipment_id'', TNullable TString), (''simulation_date'', TString),
       (''first_detected_simulation_date'', TString), (''measured_value'', TNullable TString),
       (''threshold_value'', TString), (''detected_at'', TString), (''resolved_at'', TNullable
       TString)]"

definition ExceptionDrilldown :: ts_type where
  "ExceptionDrilldown =
     TObject [(''flag'', ExceptionFlag), (''purchase_order'', TNullable PurchaseOrderSummary),
       (''shipment'', TNullable Shipment), (''inventory'', TNullable InventoryPosition)]"

definition OverviewKpiPoint :: ts_type where
  "OverviewKpiPoint =
     omit ''computed_at'' ExecutiveKpi"

definition OverviewDailyActivity :: ts_type where
  "OverviewDailyActivity =
     TObject [(''simulation_date'', TString), (''orders_placed'', TNumber), (''order_value'',
       TString), (''shipments_shipped'', TNumber), (''delivered_on_time'', TNumber),
       (''delivered_late'', TNumber), (''purchase_orders_placed'', TNumber)]"

definition OverviewShipmentBreakdown :: ts_type where
  "OverviewShipmentBreakdown =
     TObject [(''delivered_on_time'', TNumber), (''delivered_late'', TNumber), (''in_progress'',
       TNumber), (''exception'', TNumber)]"

definition OverviewWarehouse :: ts_type where
  "OverviewWarehouse =
     TObject [(''warehouse_id'', TString), (''warehouse_name'', TString), (''units_on_hand'',
       TNumber), (''units_allocated'', TNumber), (''avg_days_of_supply'', TNullable TString),
       (''low_stock_positions'', TNumber)]"

definition OverviewSupplier :: ts_type where
  "OverviewSupplier =
     TObject [(''supplier_id'', TString), (''supplier_name'', TString), (''purchase_orders_placed'',
       TNumber), (''purchase_orders_received'', TNumber), (''received_on_time'', TNumber),
       (''on_time_receipt_pct'', TNullable TString), (''open_purchase_orders'', TNumber),
       (''at_risk_purchase_orders'', TNumber)]"

definition OverviewProductDemand :: ts_type where
  "OverviewProductDemand =
     TObject [(''product_id'', TString), (''product_name'', TString), (''units_ordered'', TNumber),
       (''units_shipped'', TNumber)]"

definition Overview :: ts_type where
  "Overview =
     TObject [(''as_of'', TString), (''window_start'', TString), (''window_days'', TNumber),
       (''kpi_trend'', TArray OverviewKpiPoint), (''daily_activity'', TArray OverviewDailyActivity),
       (''sales_order_status'', TArray (TObject [(''label'', TString), (''count'', TNumber)])),
       (''shipment_delivery'', OverviewShipmentBreakdown), (''inventory_by_warehouse'', TArray
       OverviewWarehouse), (''suppliers'', TArray OverviewSupplier), (''top_products'', TArray
       OverviewProductDemand), (''open_exceptions_by_category'', TArray ExceptionCountByCategory),
       (''new_exceptions_per_day'', TArray (TObject [(''simulation_date'', TString), (''count'',
       TNumber)]))]"

section \<open>types/ledger.ts and rows declared beside their tables\<close>

definition DecisionEventStatus :: ts_type where
  "DecisionEventStatus =
     TLiteral [''proposed'', ''clarification_requested'', ''accepted'', ''rejected'',
       ''implemented'', ''partially_implemented'', ''outcome_observed'', ''stale'']"

definition DecisionOutcome :: ts_type where
  "DecisionOutcome =
     TLiteral [''succeeded'', ''partially_succeeded'', ''failed'', ''unintended_consequence'',
       ''insufficient_evidence'']"

definition DecisionEvent :: ts_type where
  "DecisionEvent =
     TObject [(''id'', TString), (''record_type'', TLiteral [''operational_event'', ''decision'']),
       (''status'', DecisionEventStatus), (''scenario_id'', TNullable TString), (''entity_type'',
       TLiteral [''supplier'', ''warehouse'', ''product'', ''customer'', ''carrier'']),
       (''entity_id'', TString), (''title'', TString), (''summary'', TString), (''proposed_at'',
       TString), (''approval_authority'', TNullable (TLiteral [''manager'',
       ''procurement_operations'', ''informational_only''])), (''decided_at'', TNullable TString),
       (''decided_by'', TNullable TString), (''implemented_at'', TNullable TString), (''outcome'',
       TNullable DecisionOutcome), (''outcome_recorded_at'', TNullable TString), (''outcome_notes'',
       TNullable TString), (''stale_flagged_at'', TNullable TString), (''supersedes_id'', TNullable
       TString), (''created_at'', TString)]"

definition CustomerRow :: ts_type where
  "CustomerRow =
     TObject [(''id'', TString), (''name'', TString), (''service_priority'', TLiteral [''standard'',
       ''priority'', ''critical'']), (''warehouse_id'', TString), (''region'', TString),
       (''is_active'', TBoolean)]"

definition AdminQueryLogEntry :: ts_type where
  "AdminQueryLogEntry =
     TObject [(''id'', TString), (''user_email'', TString), (''query_text'', TString),
       (''statement_type'', TString), (''result_status'', TString), (''row_count'', TNullable
       TNumber), (''duration_ms'', TNullable TNumber), (''error_message'', TNullable TString),
       (''submitted_at'', TString)]"

definition StatementPreview :: ts_type where
  "StatementPreview =
     TObject [(''sql'', TString), (''statement_type'', TString)]"

definition ExecuteResult :: ts_type where
  "ExecuteResult =
     TObject [(''status'', TLiteral [''success'', ''error'', ''timed_out'',
       ''confirmation_required'']), (''columns'', TOptional (TArray TString)), (''rows'', TOptional
       (TArray TDict)), (''row_count'', TOptional TNumber), (''truncated'', TOptional TBoolean),
       (''duration_ms'', TOptional TNumber), (''error_message'', TOptional (TNullable TString)),
       (''statements'', TOptional (TArray StatementPreview))]"

definition QueryLogEntry :: ts_type where
  "QueryLogEntry =
     TObject [(''id'', TString), (''query_text'', TString), (''statement_type'', TString),
       (''result_status'', TString), (''row_count'', TNullable TNumber), (''duration_ms'', TNullable
       TNumber), (''error_message'', TNullable TString), (''submitted_at'', TString)]"

definition SchemaColumn :: ts_type where
  "SchemaColumn =
     TObject [(''name'', TString), (''type'', TString), (''nullable'', TBoolean),
       (''is_primary_key'', TBoolean)]"

definition SchemaTable :: ts_type where
  "SchemaTable =
     TObject [(''name'', TString), (''qualified_name'', TString), (''columns'', TArray
       SchemaColumn)]"

definition SchemaRelationship :: ts_type where
  "SchemaRelationship =
     TObject [(''from_table'', TString), (''from_column'', TString), (''to_table'', TString),
       (''to_column'', TString)]"

definition SandboxSchema :: ts_type where
  "SandboxSchema =
     TObject [(''tables'', TArray SchemaTable), (''relationships'', TArray SchemaRelationship),
       (''sandbox_populated'', TNullable TBoolean)]"

definition MasterDataRow :: ts_type where
  "MasterDataRow =
     TObject [(''id'', TString), (''is_active'', TBoolean)]"

text \<open>The Builder's home page declares the summary anew, its expected query panel the reply to a query.\<close>

definition b_ExecutiveSummary :: ts_type where
  "b_ExecutiveSummary =
     TObject [(''kpis'', TNullable (TObject [(''simulation_date'', TString), (''otif_pct'',
       TNullable TString), (''fill_rate_pct'', TNullable TString), (''order_cycle_time_days'',
       TNullable TString), (''perfect_order_rate_pct'', TNullable TString)])),
       (''open_exception_counts'', TArray (TObject [(''category'', TString), (''open_count'',
       TNumber)]))]"

definition b_RunResult :: ts_type where
  "b_RunResult =
     TObject [(''status'', TString), (''columns'', TArray TString), (''rows'', TArray TDict),
       (''row_count'', TNumber), (''truncated'', TBoolean), (''duration_ms'', TNumber),
       (''error_message'', TNullable TString)]"

section \<open>The response schemas of the backend\<close>

definition py_PurchaseOrderStatus :: py_type where
  "py_PurchaseOrderStatus =
     PEnum [''draft'', ''submitted'', ''confirmed'', ''partially_received'', ''received'',
       ''cancelled'']"

definition py_SalesOrderStatus :: py_type where
  "py_SalesOrderStatus =
     PEnum [''draft'', ''submitted'', ''allocated'', ''partially_shipped'', ''shipped'',
       ''cancelled'']"

definition py_ShipmentStatus :: py_type where
  "py_ShipmentStatus =
     PEnum [''pending'', ''in_transit'', ''delivered'', ''exception'']"

definition py_ExecutiveKpiRead :: py_type where
  "py_ExecutiveKpiRead =
     PModel [(''simulation_date'', PDate), (''otif_pct'', POptional PDecimal), (''fill_rate_pct'',
       POptional PDecimal), (''order_cycle_time_days'', POptional PDecimal),
       (''perfect_order_rate_pct'', POptional PDecimal), (''computed_at'', PDatetime)]"

definition py_ExceptionCountByCategory :: py_type where
  "py_ExceptionCountByCategory =
     PModel [(''category'', PStr), (''open_count'', PInt)]"

definition py_ExecutiveSummaryRead :: py_type where
  "py_ExecutiveSummaryRead =
     PModel [(''kpis'', POptional py_ExecutiveKpiRead), (''open_exception_counts'', PList
       py_ExceptionCountByCategory)]"

definition py_InventoryPositionRead :: py_type where
  "py_InventoryPositionRead =
     PModel [(''product_id'', PStr), (''warehouse_id'', PStr), (''quantity_on_hand'', POptional
       PInt), (''quantity_allocated'', POptional PInt), (''days_of_supply'', POptional PDecimal),
       (''is_low_stock'', PBool)]"

definition py_InventoryTransactionRead :: py_type where
  "py_InventoryTransactionRead =
     PModel [(''id'', PUuid), (''transaction_at'', PDatetime), (''transaction_type'', PStr),
       (''quantity_delta'', PInt), (''reference_type'', POptional PStr), (''reference_id'',
       POptional PUuid), (''source_system'', PStr)]"

definition py_SupplierPerformanceRead :: py_type where
  "py_SupplierPerformanceRead =
     PModel [(''supplier_id'', PStr), (''supplier_name'', PStr), (''total_purchase_order_count'',
       PInt), (''open_purchase_order_count'', PInt), (''at_risk_purchase_order_count'', PInt)]"

definition py_PurchaseOrderSummaryRead :: py_type where
  "py_PurchaseOrderSummaryRead =
     PModel [(''id'', PUuid), (''po_number'', PStr), (''supplier_id'', PStr), (''warehouse_id'',
       PStr), (''order_date'', PDate), (''expected_delivery_date'', PDate), (''status'',
       py_PurchaseOrderStatus), (''is_at_risk'', PBool)]"

definition py_PurchaseOrderLineRead :: py_type where
  "py_PurchaseOrderLineRead =
     PModel [(''id'', PUuid), (''product_id'', PStr), (''quantity_ordered'', PInt),
       (''quantity_received'', PInt), (''unit_cost'', PDecimal)]"

definition py_PurchaseOrderLifecycleEventRead :: py_type where
  "py_PurchaseOrderLifecycleEventRead =
     PModel [(''from_status'', POptional py_PurchaseOrderStatus), (''to_status'',
       py_PurchaseOrderStatus), (''occurred_at'', PDatetime), (''simulation_date'', PDate)]"

definition py_PurchaseOrderDetailRead :: py_type where
  "py_PurchaseOrderDetailRead =
     inherits py_PurchaseOrderSummaryRead [(''lines'', PList py_PurchaseOrderLineRead),
       (''lifecycle_events'', PList py_PurchaseOrderLifecycleEventRead)]"

definition py_SalesOrderSummaryRead :: py_type where
  "py_SalesOrderSummaryRead =
     PModel [(''id'', PUuid), (''so_number'', PStr), (''customer_id'', PStr), (''warehouse_id'',
       PStr), (''order_date'', PDate), (''requested_date'', PDate), (''promised_date'', POptional
       PDate), (''status'', py_SalesOrderStatus)]"

definition py_SalesOrderLineRead :: py_type where
  "py_SalesOrderLineRead =
     PModel [(''id'', PUuid), (''product_id'', PStr), (''quantity_ordered'', PInt),
       (''quantity_shipped'', PInt), (''unit_price'', PDecimal)]"

definition py_SalesOrderLifecycleEventRead :: py_type where
  "py_SalesOrderLifecycleEventRead =
     PModel [(''from_status'', POptional py_SalesOrderStatus), (''to_status'', py_SalesOrderStatus),
       (''occurred_at'', PDatetime), (''simulation_date'', PDate)]"

definition py_ShipmentRead :: py_type where
  "py_ShipmentRead =
     PModel [(''id'', PUuid), (''sales_order_id'', PUuid), (''carrier_id'', PStr),
       (''warehouse_id'', PStr), (''ship_date'', PDate), (''promised_delivery_date'', PDate),
       (''actual_delivery_date'', POptional PDate), (''status'', py_ShipmentStatus), (''is_late'',
       PBool)]"

definition py_SalesOrderDetailRead :: py_type where
  "py_SalesOrderDetailRead =
     inherits py_SalesOrderSummaryRead [(''lines'', PList py_SalesOrderLineRead),
       (''lifecycle_events'', PList py_SalesOrderLifecycleEventRead), (''shipments'', PList
       py_ShipmentRead)]"

definition py_ExceptionFlagRead :: py_type where
  "py_ExceptionFlagRead =
     PModel [(''id'', PUuid), (''category'', PStr), (''product_id'', POptional PStr),
       (''warehouse_id'', POptional PStr), (''purchase_order_id'', POptional PUuid),
       (''shipment_id'', POptional PUuid), (''simulation_date'', PDate),
       (''first_detected_simulation_date'', PDate), (''measured_value'', POptional PDecimal),
       (''threshold_value'', PDecimal), (''detected_at'', PDatetime), (''resolved_at'', POptional
       PDatetime)]"

definition py_ExceptionDrilldownRead :: py_type where
  "py_ExceptionDrilldownRead =
     PModel [(''flag'', py_ExceptionFlagRead), (''purchase_order'', POptional
       py_PurchaseOrderSummaryRead), (''shipment'', POptional py_ShipmentRead), (''inventory'',
       POptional py_InventoryPositionRead)]"

definition py_OverviewKpiPoint :: py_type where
  "py_OverviewKpiPoint =
     PModel [(''simulation_date'', PDate), (''otif_pct'', POptional PDecimal), (''fill_rate_pct'',
       POptional PDecimal), (''order_cycle_time_days'', POptional PDecimal),
       (''perfect_order_rate_pct'', POptional PDecimal)]"

definition py_OverviewDailyActivity :: py_type where
  "py_OverviewDailyActivity =
     PModel [(''simulation_date'', PDate), (''orders_placed'', PInt), (''order_value'', PDecimal),
       (''shipments_shipped'', PInt), (''delivered_on_time'', PInt), (''delivered_late'', PInt),
       (''purchase_orders_placed'', PInt)]"

definition py_OverviewCount :: py_type where
  "py_OverviewCount =
     PModel [(''label'', PStr), (''count'', PInt)]"

definition py_OverviewShipmentBreakdown :: py_type where
  "py_OverviewShipmentBreakdown =
     PModel [(''delivered_on_time'', PInt), (''delivered_late'', PInt), (''in_progress'', PInt),
       (''exception'', PInt)]"

definition py_OverviewWarehouse :: py_type where
  "py_OverviewWarehouse =
     PModel [(''warehouse_id'', PStr), (''warehouse_name'', PStr), (''units_on_hand'', PInt),
       (''units_allocated'', PInt), (''avg_days_of_supply'', POptional PDecimal),
       (''low_stock_positions'', PInt)]"

definition py_OverviewSupplier :: py_type where
  "py_OverviewSupplier =
     PModel [(''supplier_id'', PStr), (''supplier_name'', PStr), (''purchase_orders_placed'', PInt),
       (''purchase_orders_received'', PInt), (''received_on_time'', PInt), (''on_time_receipt_pct'',
       POptional PDecimal), (''open_purchase_orders'', PInt), (''at_risk_purchase_orders'', PInt)]"

definition py_OverviewProductDemand :: py_type where
  "py_OverviewProductDemand =
     PModel [(''product_id'', PStr), (''product_name'', PStr), (''units_ordered'', PInt),
       (''units_shipped'', PInt)]"

definition py_OverviewExceptionDay :: py_type where
  "py_OverviewExceptionDay =
     PModel [(''simulation_date'', PDate), (''count'', PInt)]"

definition py_OverviewRead :: py_type where
  "py_OverviewRead =
     PModel [(''as_of'', PDate), (''window_start'', PDate), (''window_days'', PInt), (''kpi_trend'',
       PList py_OverviewKpiPoint), (''daily_activity'', PList py_OverviewDailyActivity),
       (''sales_order_status'', PList py_OverviewCount), (''shipment_delivery'',
       py_OverviewShipmentBreakdown), (''inventory_by_warehouse'', PList py_OverviewWarehouse),
       (''suppliers'', PList py_OverviewSupplier), (''top_products'', PList
       py_OverviewProductDemand), (''open_exceptions_by_category'', PList
       py_ExceptionCountByCategory), (''new_exceptions_per_day'', PList py_OverviewExceptionDay)]"

definition py_DecisionRead :: py_type where
  "py_DecisionRead =
     PModel [(''id'', PUuid), (''record_type'', PEnum [''operational_event'', ''decision'']),
       (''status'', PEnum [''proposed'', ''clarification_requested'', ''accepted'', ''rejected'',
       ''implemented'', ''partially_implemented'', ''outcome_observed'', ''stale'']),
       (''scenario_id'', POptional PUuid), (''entity_type'', PEnum [''supplier'', ''warehouse'',
       ''product'', ''customer'', ''carrier'']), (''entity_id'', PStr), (''title'', PStr),
       (''summary'', PStr), (''proposed_at'', PDatetime), (''approval_authority'', POptional (PEnum
       [''manager'', ''procurement_operations'', ''informational_only''])), (''decided_at'',
       POptional PDatetime), (''decided_by'', POptional PStr), (''implemented_at'', POptional
       PDatetime), (''outcome'', POptional (PEnum [''succeeded'', ''partially_succeeded'',
       ''failed'', ''unintended_consequence'', ''insufficient_evidence''])),
       (''outcome_recorded_at'', POptional PDatetime), (''outcome_notes'', POptional PStr),
       (''stale_flagged_at'', POptional PDatetime), (''supersedes_id'', POptional PUuid),
       (''created_at'', PDatetime)]"

definition py_CustomerRead :: py_type where
  "py_CustomerRead =
     PModel [(''id'', PStr), (''name'', PStr), (''service_priority'', PEnum [''standard'',
       ''priority'', ''critical'']), (''warehouse_id'', PStr), (''region'', PStr), (''is_active'',
       PBool)]"

definition py_QueryStatementPreview :: py_type where
  "py_QueryStatementPreview =
     PModel [(''sql'', PStr), (''statement_type'', PStr)]"

definition py_QueryConfirmationRequiredResponse :: py_type where
  "py_QueryConfirmationRequiredResponse =
     PModel [(''status'', PStr), (''statements'', PList py_QueryStatementPreview)]"

definition py_QueryExecuteResponse :: py_type where
  "py_QueryExecuteResponse =
     PModel [(''status'', PStr), (''columns'', PList PStr), (''rows'', PList PDict), (''row_count'',
       PInt), (''truncated'', PBool), (''duration_ms'', PInt), (''error_message'', POptional PStr)]"

definition py_QueryLogRead :: py_type where
  "py_QueryLogRead =
     PModel [(''id'', PUuid), (''user_id'', PUuid), (''query_text'', PStr), (''statement_type'',
       PStr), (''result_status'', PStr), (''row_count'', POptional PInt), (''duration_ms'',
       POptional PInt), (''error_message'', POptional PStr), (''submitted_at'', PDatetime)]"

definition py_AdminQueryLogRead :: py_type where
  "py_AdminQueryLogRead =
     inherits py_QueryLogRead [(''user_email'', PStr)]"

definition py_SandboxColumnRead :: py_type where
  "py_SandboxColumnRead =
     PModel [(''name'', PStr), (''type'', PStr), (''nullable'', PBool), (''is_primary_key'', PBool)]"

definition py_SandboxTableRead :: py_type where
  "py_SandboxTableRead =
     PModel [(''name'', PStr), (''qualified_name'', PStr), (''columns'', PList
       py_SandboxColumnRead)]"

definition py_SandboxRelationshipRead :: py_type where
  "py_SandboxRelationshipRead =
     PModel [(''from_table'', PStr), (''from_column'', PStr), (''to_table'', PStr), (''to_column'',
       PStr)]"

definition py_SandboxSchemaResponse :: py_type where
  "py_SandboxSchemaResponse =
     PModel [(''tables'', PList py_SandboxTableRead), (''relationships'', PList
       py_SandboxRelationshipRead), (''sandbox_populated'', POptional PBool)]"

definition py_ProductRead :: py_type where
  "py_ProductRead =
     PModel [(''id'', PStr), (''sku'', PStr), (''name'', PStr), (''category'', PEnum
       [''corrugated_packaging'', ''protective_packaging'', ''shipping_labeling_supplies'']),
       (''unit_cost'', PDecimal), (''is_active'', PBool)]"

definition py_WarehouseRead :: py_type where
  "py_WarehouseRead =
     PModel [(''id'', PStr), (''name'', PStr), (''region'', PStr), (''capacity_pallet_positions'',
       PInt), (''is_active'', PBool)]"

definition py_SupplierRead :: py_type where
  "py_SupplierRead =
     PModel [(''id'', PStr), (''name'', PStr), (''category_focus'', PStr), (''unit_cost_tier'',
       PEnum [''low'', ''mid'', ''high'']), (''base_lead_time_days'', PInt),
       (''lead_time_variability'', PEnum [''low'', ''medium'', ''high'']), (''historical_otif_pct'',
       PDecimal), (''is_active'', PBool)]"

definition py_CarrierRead :: py_type where
  "py_CarrierRead =
     PModel [(''id'', PStr), (''name'', PStr), (''transit_days_min'', PDecimal),
       (''transit_days_max'', PDecimal), (''variability'', PEnum [''low'', ''medium'', ''high'']),
       (''reliability_pct'', PDecimal), (''is_active'', PBool)]"

section \<open>The contract\<close>

definition dashboard_contracts :: "(string \<times> ts_type \<times> py_type) list" where
  "dashboard_contracts =
     [(''executive summary'', ExecutiveSummary, py_ExecutiveSummaryRead),
      (''executive summary of the Builder'', b_ExecutiveSummary, py_ExecutiveSummaryRead),
      (''executive trend'', TArray ExecutiveKpi, PList py_ExecutiveKpiRead),
      (''inventory'', TArray InventoryPosition, PList py_InventoryPositionRead),
      (''inventory transactions'', TArray InventoryTransaction, PList py_InventoryTransactionRead),
      (''suppliers'', TArray SupplierPerformance, PList py_SupplierPerformanceRead),
      (''purchase orders'', TArray PurchaseOrderSummary, PList py_PurchaseOrderSummaryRead),
      (''purchase order'', PurchaseOrderDetail, py_PurchaseOrderDetailRead),
      (''sales orders'', TArray SalesOrderSummary, PList py_SalesOrderSummaryRead),
      (''sales order'', SalesOrderDetail, py_SalesOrderDetailRead),
      (''shipments'', TArray Shipment, PList py_ShipmentRead),
      (''exceptions'', TArray ExceptionFlag, PList py_ExceptionFlagRead),
      (''exception'', ExceptionDrilldown, py_ExceptionDrilldownRead),
      (''overview'', Overview, py_OverviewRead),
      (''decisions'', TArray DecisionEvent, PList py_DecisionRead),
      (''customers'', TArray CustomerRow, PList py_CustomerRead),
      (''query log'', TArray AdminQueryLogEntry, PList py_AdminQueryLogRead),
      (''query history'', TArray QueryLogEntry, PList py_QueryLogRead),
      (''sandbox schema'', SandboxSchema, py_SandboxSchemaResponse),
      (''expected query of the Builder'', b_RunResult, py_QueryExecuteResponse),
      (''products'', TArray MasterDataRow, PList py_ProductRead),
      (''warehouses'', TArray MasterDataRow, PList py_WarehouseRead),
      (''supplier settings'', TArray MasterDataRow, PList py_SupplierRead),
      (''carriers'', TArray MasterDataRow, PList py_CarrierRead)]"

lemmas dashboard_ts = ExecutiveKpi_def ExceptionCountByCategory_def ExecutiveSummary_def InventoryPosition_def
  InventoryTransaction_def SupplierPerformance_def PurchaseOrderStatus_def PurchaseOrderSummary_def PurchaseOrderLine_def
  PurchaseOrderLifecycleEvent_def PurchaseOrderDetail_def SalesOrderStatus_def SalesOrderSummary_def SalesOrderLine_def
  SalesOrderLifecycleEvent_def ShipmentStatus_def Shipment_def SalesOrderDetail_def ExceptionFlag_def
  ExceptionDrilldown_def OverviewKpiPoint_def OverviewDailyActivity_def OverviewShipmentBreakdown_def
  OverviewWarehouse_def OverviewSupplier_def OverviewProductDemand_def Overview_def DecisionEventStatus_def
  DecisionOutcome_def DecisionEvent_def CustomerRow_def AdminQueryLogEntry_def QueryLogEntry_def SchemaColumn_def
  SchemaTable_def SchemaRelationship_def SandboxSchema_def b_ExecutiveSummary_def StatementPreview_def ExecuteResult_def
  b_RunResult_def MasterDataRow_def

lemmas dashboard_py = py_PurchaseOrderStatus_def py_SalesOrderStatus_def py_ShipmentStatus_def py_ExecutiveKpiRead_def
  py_ExceptionCountByCategory_def py_ExecutiveSummaryRead_def py_InventoryPositionRead_def
  py_InventoryTransactionRead_def py_SupplierPerformanceRead_def py_PurchaseOrderSummaryRead_def
  py_PurchaseOrderLineRead_def py_PurchaseOrderLifecycleEventRead_def py_PurchaseOrderDetailRead_def
  py_SalesOrderSummaryRead_def py_SalesOrderLineRead_def py_SalesOrderLifecycleEventRead_def py_ShipmentRead_def
  py_SalesOrderDetailRead_def py_ExceptionFlagRead_def py_ExceptionDrilldownRead_def py_OverviewKpiPoint_def
  py_OverviewDailyActivity_def py_OverviewCount_def py_OverviewShipmentBreakdown_def py_OverviewWarehouse_def
  py_OverviewSupplier_def py_OverviewProductDemand_def py_OverviewExceptionDay_def py_OverviewRead_def
  py_DecisionRead_def py_CustomerRead_def py_QueryLogRead_def py_AdminQueryLogRead_def py_SandboxColumnRead_def
  py_SandboxTableRead_def py_SandboxRelationshipRead_def py_SandboxSchemaResponse_def py_QueryStatementPreview_def
  py_QueryConfirmationRequiredResponse_def py_QueryExecuteResponse_def py_ProductRead_def py_WarehouseRead_def
  py_SupplierRead_def py_CarrierRead_def

lemma dashboard_schemas_serve: "list_all (\<lambda>(name, declared, schema). serves schema declared) dashboard_contracts"
  by (simp add: dashboard_contracts_def dashboard_ts dashboard_py)

text \<open>
  The reply to a query: the playground declares one type for the two schemas of the route, and names four
  values for the \<open>status\<close> that both schemas declare as any text.
\<close>

definition query_statuses :: "string list" where
  "query_statuses = [''success'', ''error'', ''timed_out'', ''confirmation_required'']"

definition query_reply_schemas :: "py_type list" where
  "query_reply_schemas = [py_QueryExecuteResponse, py_QueryConfirmationRequiredResponse]"

lemma literal_first:
  assumes "serves schema (TObject gs)" "dumps schema j"
  shows "has_type (TObject ((k, TLiteral vs) # gs)) j \<longleftrightarrow> opt_prop j k \<in> (Some \<circ> JStr) ` set vs"
proof -
  have "has_type (TObject gs) j" using assms by (rule serves_sound)
  then obtain ps where "j = JObj ps" by (cases j) auto
  with \<open>has_type (TObject gs) j\<close> show ?thesis by (auto split: option.split json.split)
qed

lemma execute_result_status:
  assumes "schema \<in> set query_reply_schemas" "dumps schema j"
  shows "has_type ExecuteResult j \<longleftrightarrow> opt_prop j ''status'' \<in> (Some \<circ> JStr) ` set query_statuses"
proof -
  have status: "ExecuteResult = TObject ((''status'', TLiteral query_statuses)
      # (case ExecuteResult of TObject fs \<Rightarrow> tl fs | _ \<Rightarrow> []))"
    by (simp add: ExecuteResult_def query_statuses_def)
  have "serves schema (TObject (case ExecuteResult of TObject fs \<Rightarrow> tl fs | _ \<Rightarrow> []))"
    using assms(1) by (auto simp: query_reply_schemas_def dashboard_ts dashboard_py)
  from literal_first [OF this assms(2)] show ?thesis by (subst status)
qed

text \<open>C32: Whatever the backend serialises from a response schema of its dashboards, ledger, queries and
  master data has the type that the page declares for it: no field is missing, null where the page expects a value, of another
  kind, or an enum value that the page does not know. The one exception is the reply to a query submitted
  in the playground: its two schemas declare the status as any text, the page as one of four, and a reply
  of either schema has the page's type exactly when its status is one of those, so not every reply that
  the schemas allow has it.\<close>

theorem dashboard_types_match_backend:
  "list_all (\<lambda>(name, declared, schema). Collect (dumps schema) \<subseteq> Collect (has_type declared)) dashboard_contracts
   \<and> list_all (\<lambda>schema. {j. dumps schema j \<and> has_type ExecuteResult j}
         = {j. dumps schema j \<and> opt_prop j ''status'' \<in> (Some \<circ> JStr) ` set query_statuses}) query_reply_schemas
   \<and> list_all (\<lambda>schema. \<not> Collect (dumps schema) \<subseteq> Collect (has_type ExecuteResult)) query_reply_schemas"
proof (intro conjI)
  show "list_all (\<lambda>(name, declared, schema). Collect (dumps schema) \<subseteq> Collect (has_type declared)) dashboard_contracts"
    using dashboard_schemas_serve by (auto simp: list_all_iff intro: serves_sound)
  show "list_all (\<lambda>schema. {j. dumps schema j \<and> has_type ExecuteResult j}
         = {j. dumps schema j \<and> opt_prop j ''status'' \<in> (Some \<circ> JStr) ` set query_statuses}) query_reply_schemas"
    using execute_result_status by (auto simp: list_all_iff)
  have sample: "dumps schema (sample schema) \<and> opt_prop (sample schema) ''status'' = Some (JStr ''text'')"
    if "schema \<in> set query_reply_schemas" for schema
    using that by (auto simp: query_reply_schemas_def dashboard_py)
  have "\<not> has_type ExecuteResult (sample schema)" if "schema \<in> set query_reply_schemas" for schema
    using execute_result_status [OF that] sample [OF that] by (auto simp: query_statuses_def)
  then show "list_all (\<lambda>schema. \<not> Collect (dumps schema) \<subseteq> Collect (has_type ExecuteResult)) query_reply_schemas"
    using sample by (auto simp: list_all_iff)
qed

text \<open>Each of these schemas has something to serialise.\<close>

lemma dashboard_schemas_inhabited: "list_all (\<lambda>(name, declared, schema). dumps schema (sample schema)) dashboard_contracts"
proof -
  have "list_all (\<lambda>(name, declared, schema). wf_schema schema) dashboard_contracts"
    by (simp add: dashboard_contracts_def dashboard_py)
  then show ?thesis by (auto simp: list_all_iff intro: dumps_sample)
qed

end
