(* ===== verification/Tables.thy ===== *)
theory Tables
  imports Dashboard_Types Data_Pages Nav Ledger
begin

text \<open>
  The tables of Subsystem 1: the columns that \<open>components/*-table.tsx\<close> and the settings pages give to the
  shared \<open>data-table.tsx\<close>, and the plain tables of the query playground and the Overview, with the cell a
  row gets. A row is the JSON object of the reply; a cell is what is rendered, or \<open>None\<close> when rendering it
  throws. Sorting, searching and paging are the table library's. Shown: every cell of a row that the
  backend's schema serialises is rendered with a text. The tables of the detail pages are in
  \<open>Detail_Views\<close>.
\<close>

section \<open>Cells\<close>

datatype cell_view =
    Nothing_shown
  | Plain string
  | Label "string option" \<comment> \<open>a label looked up, if it is found\<close>
  | Badge string "string option" \<comment> \<open>variant, and the text if there is one\<close>
  | Badges "cell_view list"
  | Link_to string string \<comment> \<open>address and text\<close>
  | Tinted string string \<comment> \<open>class and text\<close>
  | Row_actions "offer list" \<comment> \<open>the buttons and dialogs of \<open>decision-actions.tsx\<close>\<close>
  | Row_buttons "string list"
  | Open_button string

type_synonym cell = "json \<Rightarrow> cell_view option"

record table_column =
  tc_id :: string
  tc_accessor :: bool
  tc_header :: string
  tc_sortable :: bool
  tc_cell :: cell

record data_table =
  dt_columns :: "table_column list"
  dt_searchKey :: "string option"
  dt_placeholder :: string

text \<open>A value in a template literal, and a value as the child of an element (an object throws).\<close>

definition template :: "json option \<Rightarrow> string" where
  "template v = (case v of None \<Rightarrow> ''undefined'' | Some JNull \<Rightarrow> ''null'' | Some j \<Rightarrow> join_elem j)"

fun rendered :: "json \<Rightarrow> string option" where
  "rendered JNull = Some []"
| "rendered (JBool b) = Some []"
| "rendered (JNum n) = Some (show_int n)"
| "rendered (JStr s) = Some s"
| "rendered (JArr xs) = map_option concat (those (map rendered xs))"
| "rendered (JObj ps) = None"

definition rendered_prop :: "json option \<Rightarrow> string option" where
  "rendered_prop v = (case v of None \<Rightarrow> Some [] | Some j \<Rightarrow> rendered j)"

text \<open>\<open>row.original.k\<close>; the library's default cell of an accessor column is the value's text.\<close>

definition default_cell :: "string \<Rightarrow> cell" where
  "default_cell k row =
     Some (case opt_prop row k of None \<Rightarrow> Nothing_shown | Some JNull \<Rightarrow> Nothing_shown | Some v \<Rightarrow> Plain (join_elem v))"

definition date_cell :: "(string \<Rightarrow> string) \<Rightarrow> string \<Rightarrow> cell" where
  "date_cell other k row = Some (Plain (formatDate other (template (opt_prop row k))))"

text \<open>\<open>row.k ? formatDate(row.k) : "-"\<close>\<close>

definition optional_date_cell :: "(string \<Rightarrow> string) \<Rightarrow> string \<Rightarrow> cell" where
  "optional_date_cell other k row =
     (if truthy_json (opt_prop row k) then date_cell other k row else Some (Plain em_dash))"

text \<open>\<open>local\<close> is what the browser's time zone makes of a point in time.\<close>

definition datetime_cell :: "(string \<Rightarrow> string) \<Rightarrow> string \<Rightarrow> cell" where
  "datetime_cell local k row = Some (Plain (local (template (opt_prop row k))))"

text \<open>\<open>row.k ?? "-"\<close>\<close>

definition or_dash_cell :: "string \<Rightarrow> cell" where
  "or_dash_cell k row = map_option Plain (rendered (nullish_or (opt_prop row k) (JStr em_dash)))"

text \<open>A badge with \<open>LABEL[row.k]\<close>; an unknown key gives an empty badge.\<close>

definition label_of :: "(string \<times> string) list \<Rightarrow> json option \<Rightarrow> string option" where
  "label_of labels v = map_of labels (template v)"

definition label_badge :: "string \<Rightarrow> (string \<times> string) list \<Rightarrow> string \<Rightarrow> cell" where
  "label_badge variant labels k row = Some (Badge variant (label_of labels (opt_prop row k)))"

definition flag_badge :: "string \<Rightarrow> cell_view \<Rightarrow> cell_view \<Rightarrow> cell" where
  "flag_badge k yes no row = Some (if truthy_json (opt_prop row k) then yes else no)"

text \<open>\<open>s.replace("_", " ")\<close> replaces the first underscore; anything but a string has no such method.\<close>

definition replace_first :: "string \<Rightarrow> string" where
  "replace_first s =
     (let a = takeWhile (\<lambda>c. c \<noteq> CHR ''_'') s; b = dropWhile (\<lambda>c. c \<noteq> CHR ''_'') s
      in case b of [] \<Rightarrow> a | c # r \<Rightarrow> a @ '' '' @ r)"

fun replaced :: "json option \<Rightarrow> string option" where
  "replaced (Some (JStr s)) = Some (replace_first s)"
| "replaced _ = None"

definition link_cell :: "(json \<Rightarrow> string) \<Rightarrow> (json \<Rightarrow> string option) \<Rightarrow> cell" where
  "link_cell href shown row = map_option (Link_to (href row)) (shown row)"

definition column :: "string \<Rightarrow> string \<Rightarrow> cell \<Rightarrow> table_column" where
  "column k header c = \<lparr>tc_id = k, tc_accessor = True, tc_header = header, tc_sortable = True, tc_cell = c\<rparr>"

definition fixed_column :: "string \<Rightarrow> string \<Rightarrow> cell \<Rightarrow> table_column" where
  "fixed_column k header c = \<lparr>tc_id = k, tc_accessor = True, tc_header = header, tc_sortable = False, tc_cell = c\<rparr>"

definition display_column :: "string \<Rightarrow> string \<Rightarrow> cell \<Rightarrow> table_column" where
  "display_column k header c = \<lparr>tc_id = k, tc_accessor = False, tc_header = header, tc_sortable = False, tc_cell = c\<rparr>"

section \<open>The tables\<close>

definition SERVICE_PRIORITY_LABEL :: "(string \<times> string) list" where
  "SERVICE_PRIORITY_LABEL = [(''standard'', ''Standard''), (''priority'', ''Priority''), (''critical'', ''Critical'')]"

text \<open>The label is the cell itself here; the placeholder ends with an ellipsis.\<close>

definition label_cell :: "(string \<times> string) list \<Rightarrow> string \<Rightarrow> cell" where
  "label_cell labels k row = Some (Label (label_of labels (opt_prop row k)))"

definition search_text :: "string \<Rightarrow> string" where
  "search_text what = ''Search '' @ what @ [CHR 0xE2, CHR 0x80, CHR 0xA6]"

text \<open>Without a search column the placeholder has its default.\<close>

definition no_search :: string where
  "no_search = ''Search'' @ [CHR 0xE2, CHR 0x80, CHR 0xA6]"

definition CustomersTable :: data_table where
  "CustomersTable =
     \<lparr>dt_columns =
        [column ''id'' ''ID'' (default_cell ''id''), column ''name'' ''Name'' (default_cell ''name''),
         column ''service_priority'' ''Service Priority'' (label_cell SERVICE_PRIORITY_LABEL ''service_priority''),
         column ''warehouse_id'' ''Warehouse'' (default_cell ''warehouse_id''),
         column ''region'' ''Region'' (default_cell ''region''),
         display_column ''status'' ''Status''
           (flag_badge ''is_active'' (Badge ''default'' (Some ''Active'')) (Badge ''secondary'' (Some ''Inactive'')))],
      dt_searchKey = Some ''name'', dt_placeholder = search_text ''customers''\<rparr>"

definition PO_STATUS_LABEL :: "(string \<times> string) list" where
  "PO_STATUS_LABEL =
     [(''draft'', ''Draft''), (''submitted'', ''Submitted''), (''confirmed'', ''Confirmed''),
      (''partially_received'', ''Partially received''), (''received'', ''Received''), (''cancelled'', ''Cancelled'')]"

definition PurchaseOrdersTable :: "(string \<Rightarrow> string) \<Rightarrow> data_table" where
  "PurchaseOrdersTable other =
     \<lparr>dt_columns =
        [column ''po_number'' ''PO Number''
           (link_cell (\<lambda>row. ''/orders/'' @ template (opt_prop row ''id'')) (\<lambda>row. rendered_prop (opt_prop row ''po_number''))),
         column ''supplier_id'' ''Supplier'' (default_cell ''supplier_id''),
         column ''warehouse_id'' ''Warehouse'' (default_cell ''warehouse_id''),
         column ''order_date'' ''Order Date'' (date_cell other ''order_date''),
         column ''expected_delivery_date'' ''Expected Delivery'' (date_cell other ''expected_delivery_date''),
         fixed_column ''status'' ''Status'' (label_badge ''outline'' PO_STATUS_LABEL ''status''),
         display_column ''risk'' ''Risk'' (flag_badge ''is_at_risk'' (Badge ''destructive'' (Some ''At risk'')) Nothing_shown)],
      dt_searchKey = Some ''po_number'', dt_placeholder = search_text ''PO number''\<rparr>"

definition SO_STATUS_LABEL :: "(string \<times> string) list" where
  "SO_STATUS_LABEL =
     [(''draft'', ''Draft''), (''submitted'', ''Submitted''), (''allocated'', ''Allocated''),
      (''partially_shipped'', ''Partially shipped''), (''shipped'', ''Shipped''), (''cancelled'', ''Cancelled'')]"

definition SalesOrdersTable :: "(string \<Rightarrow> string) \<Rightarrow> data_table" where
  "SalesOrdersTable other =
     \<lparr>dt_columns =
        [column ''so_number'' ''SO Number''
           (link_cell (\<lambda>row. ''/orders/sales/'' @ template (opt_prop row ''id'')) (\<lambda>row. rendered_prop (opt_prop row ''so_number''))),
         column ''customer_id'' ''Customer'' (default_cell ''customer_id''),
         column ''warehouse_id'' ''Warehouse'' (default_cell ''warehouse_id''),
         column ''order_date'' ''Order Date'' (date_cell other ''order_date''),
         column ''promised_date'' ''Promised'' (optional_date_cell other ''promised_date''),
         fixed_column ''status'' ''Status'' (label_badge ''outline'' SO_STATUS_LABEL ''status'')],
      dt_searchKey = Some ''so_number'', dt_placeholder = search_text ''SO number''\<rparr>"

definition shipment_badges :: cell where
  "shipment_badges row =
     map_option
       (\<lambda>s. Badges (Badge ''outline'' (Some s) # (if truthy_json (opt_prop row ''is_late'') then [Badge ''destructive'' (Some ''Late'')] else [])))
       (replaced (opt_prop row ''status''))"

definition ShipmentsTable :: "(string \<Rightarrow> string) \<Rightarrow> data_table" where
  "ShipmentsTable other =
     \<lparr>dt_columns =
        [column ''carrier_id'' ''Carrier'' (default_cell ''carrier_id''),
         column ''warehouse_id'' ''Warehouse'' (default_cell ''warehouse_id''),
         column ''ship_date'' ''Ship Date'' (date_cell other ''ship_date''),
         column ''promised_delivery_date'' ''Promised'' (date_cell other ''promised_delivery_date''),
         column ''actual_delivery_date'' ''Actual'' (optional_date_cell other ''actual_delivery_date''),
         display_column ''status'' ''Status'' shipment_badges,
         display_column ''actions'' []
           (link_cell (\<lambda>row. ''/orders/sales/'' @ template (opt_prop row ''sales_order_id'')) (\<lambda>row. Some ''View order''))],
      dt_searchKey = None, dt_placeholder = no_search\<rparr>"

definition InventoryTable :: data_table where
  "InventoryTable =
     \<lparr>dt_columns =
        [column ''product_id'' ''Product'' (default_cell ''product_id''),
         column ''warehouse_id'' ''Warehouse'' (default_cell ''warehouse_id''),
         column ''quantity_on_hand'' ''On Hand'' (or_dash_cell ''quantity_on_hand''),
         column ''quantity_allocated'' ''Allocated'' (or_dash_cell ''quantity_allocated''),
         column ''days_of_supply'' ''Days of Supply'' (or_dash_cell ''days_of_supply''),
         display_column ''status'' ''Status''
           (flag_badge ''is_low_stock'' (Badge ''destructive'' (Some ''Low stock'')) (Badge ''secondary'' (Some ''OK''))),
         display_column ''actions'' []
           (link_cell
             (\<lambda>row. ''/inventory/'' @ encodeURIComponent (template (opt_prop row ''product_id'')) @ ''/''
                    @ encodeURIComponent (template (opt_prop row ''warehouse_id'')))
             (\<lambda>row. Some ''Transactions''))],
      dt_searchKey = Some ''product_id'', dt_placeholder = search_text ''products''\<rparr>"

definition TYPE_VARIANT :: "(string \<times> string) list" where
  "TYPE_VARIANT =
     [(''receipt'', ''default''), (''shipment'', ''secondary''), (''adjustment'', ''outline''),
      (''transfer_in'', ''default''), (''transfer_out'', ''secondary''), (''cycle_count'', ''outline'')]"

definition variant_of :: "(string \<times> string) list \<Rightarrow> string \<Rightarrow> json option \<Rightarrow> string" where
  "variant_of variants fallback v = (case map_of variants (template v) of Some w \<Rightarrow> w | None \<Rightarrow> fallback)"

definition transaction_badge :: cell where
  "transaction_badge row =
     map_option (Badge (variant_of TYPE_VARIANT ''outline'' (opt_prop row ''transaction_type'')) \<circ> Some)
       (replaced (opt_prop row ''transaction_type''))"

text \<open>The number that a comparison with zero sees; \<open>None\<close>, which is neither below nor above, for \<open>NaN\<close>.\<close>

fun as_number :: "json option \<Rightarrow> rat option" where
  "as_number (Some (JNum n)) = Some (of_int n)"
| "as_number (Some JNull) = Some 0"
| "as_number (Some (JBool b)) = Some (if b then 1 else 0)"
| "as_number (Some (JStr s)) = Number_text s"
| "as_number (Some (JArr xs)) = Number_text (join_elem (JArr xs))"
| "as_number _ = None"

definition quantity_cell :: cell where
  "quantity_cell row =
     (let q = opt_prop row ''quantity_delta'';
          below = (case as_number q of Some n \<Rightarrow> n < 0 | None \<Rightarrow> False);
          above = (case as_number q of Some n \<Rightarrow> n > 0 | None \<Rightarrow> False)
      in map_option (\<lambda>s. Tinted (if below then ''text-destructive'' else []) ((if above then ''+'' else []) @ s))
           (rendered_prop q))"

definition InventoryTransactionsTable :: "(string \<Rightarrow> string) \<Rightarrow> data_table" where
  "InventoryTransactionsTable local =
     \<lparr>dt_columns =
        [column ''transaction_at'' ''When'' (datetime_cell local ''transaction_at''),
         fixed_column ''transaction_type'' ''Type'' transaction_badge,
         column ''quantity_delta'' ''Quantity'' quantity_cell,
         fixed_column ''reference_type'' ''Reference'' (or_dash_cell ''reference_type''),
         fixed_column ''source_system'' ''Source'' (default_cell ''source_system'')],
      dt_searchKey = None, dt_placeholder = no_search\<rparr>"

definition at_risk_cell :: cell where
  "at_risk_cell row =
     (let q = opt_prop row ''at_risk_purchase_order_count'';
          above = (case as_number q of Some n \<Rightarrow> n > 0 | None \<Rightarrow> False)
      in map_option (if above then Badge ''destructive'' \<circ> Some else Plain) (rendered_prop q))"

definition SupplierPerformanceTable :: data_table where
  "SupplierPerformanceTable =
     \<lparr>dt_columns =
        [column ''supplier_name'' ''Supplier''
           (link_cell (\<lambda>row. ''/suppliers/'' @ template (opt_prop row ''supplier_id'')) (\<lambda>row. rendered_prop (opt_prop row ''supplier_name''))),
         column ''total_purchase_order_count'' ''Total POs'' (default_cell ''total_purchase_order_count''),
         column ''open_purchase_order_count'' ''Open POs'' (default_cell ''open_purchase_order_count''),
         column ''at_risk_purchase_order_count'' ''At Risk'' at_risk_cell],
      dt_searchKey = Some ''supplier_name'', dt_placeholder = search_text ''suppliers''\<rparr>"

text \<open>\<open>id.slice(0, 8)\<close> of a string; of any other truthy value but an array it throws.\<close>

fun slice8 :: "json option \<Rightarrow> string option" where
  "slice8 (Some (JStr s)) = Some (take 8 s)"
| "slice8 _ = None"

definition entityLabel :: "json \<Rightarrow> string option" where
  "entityLabel flag =
     (if truthy_json (opt_prop flag ''purchase_order_id'') then slice8 (opt_prop flag ''purchase_order_id'')
      else if truthy_json (opt_prop flag ''shipment_id'') then slice8 (opt_prop flag ''shipment_id'')
      else if truthy_json (opt_prop flag ''product_id'') \<and> truthy_json (opt_prop flag ''warehouse_id'')
      then Some (template (opt_prop flag ''product_id'') @ '' @ '' @ template (opt_prop flag ''warehouse_id''))
      else Some em_dash)"

definition category_cell :: cell where
  "category_cell row =
     (case map_of EXCEPTION_CATEGORY_LABEL (template (opt_prop row ''category'')) of
        Some l \<Rightarrow> Some (Plain l)
      | None \<Rightarrow> map_option Plain (rendered_prop (opt_prop row ''category'')))"

definition ExceptionsTable :: "(string \<Rightarrow> string) \<Rightarrow> data_table" where
  "ExceptionsTable other =
     \<lparr>dt_columns =
        [column ''category'' ''Category'' category_cell,
         display_column ''entity'' ''Entity'' (link_cell (\<lambda>row. ''/reports/'' @ template (opt_prop row ''id'')) entityLabel),
         fixed_column ''measured_value'' ''Measured'' (or_dash_cell ''measured_value''),
         fixed_column ''threshold_value'' ''Threshold'' (default_cell ''threshold_value''),
         column ''first_detected_simulation_date'' ''First Detected'' (date_cell other ''first_detected_simulation_date''),
         display_column ''status'' ''Status''
           (flag_badge ''resolved_at'' (Badge ''secondary'' (Some ''Resolved'')) (Badge ''destructive'' (Some ''Open'')))],
      dt_searchKey = None, dt_placeholder = no_search\<rparr>"

definition STATUS_BADGE_VARIANT :: "(string \<times> string) list" where
  "STATUS_BADGE_VARIANT =
     [(''proposed'', ''outline''), (''clarification_requested'', ''outline''), (''accepted'', ''default''),
      (''rejected'', ''destructive''), (''implemented'', ''default''), (''partially_implemented'', ''default''),
      (''outcome_observed'', ''secondary''), (''stale'', ''destructive'')]"

text \<open>The statuses as they are sent, with the labels of \<open>types/ledger.ts\<close>.\<close>

definition decision_statuses :: "(string \<times> decision_status) list" where
  "decision_statuses =
       [(''proposed'', proposed), (''clarification_requested'', clarification_requested), (''accepted'', accepted),
        (''rejected'', rejected), (''implemented'', implemented), (''partially_implemented'', partially_implemented),
        (''outcome_observed'', outcome_observed), (''stale'', stale)]"

definition decision_labels :: "(string \<times> string) list" where
  "decision_labels = map (\<lambda>(text, status). (text, DECISION_STATUS_LABEL status)) decision_statuses"

definition decision_badge :: cell where
  "decision_badge row =
     Some (Badge (variant_of STATUS_BADGE_VARIANT [] (opt_prop row ''status'')) (label_of decision_labels (opt_prop row ''status'')))"

text \<open>
  \<open>DecisionActions\<close> for the status of the row: it compares the status with the ones it knows, so an
  unknown one, like a status without an offer, shows a dash.
\<close>

definition decision_actions_cell :: cell where
  "decision_actions_cell row =
     Some (case map_of decision_statuses (template (opt_prop row ''status'')) of
             None \<Rightarrow> Plain em_dash
           | Some status \<Rightarrow> (case offers_for status of [] \<Rightarrow> Plain em_dash | offers \<Rightarrow> Row_actions offers))"

definition middle_dot :: string where
  "middle_dot = [CHR 0xC2, CHR 0xB7]"

definition decision_entity :: cell where
  "decision_entity row =
     Some (Plain (template (opt_prop row ''entity_type'') @ '' '' @ middle_dot @ '' '' @ template (opt_prop row ''entity_id'')))"

definition DecisionsTable :: "(string \<Rightarrow> string) \<Rightarrow> data_table" where
  "DecisionsTable local =
     \<lparr>dt_columns =
        [column ''title'' ''Title'' (default_cell ''title''), display_column ''entity'' ''Entity'' decision_entity,
         display_column ''status'' ''Status'' decision_badge,
         column ''proposed_at'' ''Proposed'' (datetime_cell local ''proposed_at''),
         display_column ''decided_by'' ''Decided By'' (or_dash_cell ''decided_by''),
         display_column ''outcome'' ''Outcome'' (or_dash_cell ''outcome''),
         display_column ''actions'' ''Actions'' decision_actions_cell],
      dt_searchKey = None, dt_placeholder = no_search\<rparr>"

definition outcome_badge :: "(string \<Rightarrow> string) \<Rightarrow> string \<Rightarrow> cell" where
  "outcome_badge variant k row =
     map_option (Badge (variant (template (opt_prop row k))) \<circ> Some) (rendered_prop (opt_prop row k))"

text \<open>\<open>row.duration_ms != null ? `$\{row.duration_ms\}ms` : "-"\<close>\<close>

definition duration_cell :: cell where
  "duration_cell row =
     Some (Plain (case opt_prop row ''duration_ms'' of
                    None \<Rightarrow> em_dash | Some JNull \<Rightarrow> em_dash | Some v \<Rightarrow> template (Some v) @ ''ms''))"

definition AdminQueryLogTable :: "(string \<Rightarrow> string) \<Rightarrow> data_table" where
  "AdminQueryLogTable local =
     \<lparr>dt_columns =
        [column ''submitted_at'' ''Submitted'' (datetime_cell local ''submitted_at''),
         column ''user_email'' ''User'' (default_cell ''user_email''),
         fixed_column ''statement_type'' ''Type'' (outcome_badge STATEMENT_TYPE_VARIANT ''statement_type''),
         fixed_column ''result_status'' ''Status'' (outcome_badge RESULT_STATUS_VARIANT ''result_status''),
         fixed_column ''row_count'' ''Rows'' (or_dash_cell ''row_count''),
         fixed_column ''duration_ms'' ''Duration'' duration_cell,
         display_column ''query_text'' ''Query'' (\<lambda>row. map_option Open_button (rendered_prop (opt_prop row ''query_text'')))],
      dt_searchKey = Some ''user_email'', dt_placeholder = search_text ''by user email''\<rparr>"

section \<open>The tables of the settings pages\<close>

text \<open>The cell of a field; \<open>cell_text\<close> of \<open>Master_Data\<close> is its text. A select without the row's value shows the value.\<close>

definition settings_cell :: "field_config \<Rightarrow> cell" where
  "settings_cell fd row =
     Some (let value = opt_prop row (fc_name fd)
           in if fc_type fd = Select_field then
                (case find (\<lambda>(v, l). Some (JStr v) = value) (case fc_options fd of None \<Rightarrow> [] | Some os \<Rightarrow> os) of
                   Some (v, l) \<Rightarrow> Label (Some l)
                 | None \<Rightarrow> Plain (field_text value))
              else Plain (field_text value))"

definition settings_buttons :: cell where
  "settings_buttons row =
     Some (Row_buttons [''Edit'', if truthy_json (opt_prop row ''is_active'') then ''Deactivate'' else ''Activate''])"

text \<open>\<open>toLowerCase()\<close> of a label, which is ASCII.\<close>

definition lower_label :: "string \<Rightarrow> string" where
  "lower_label = map (\<lambda>c. if byte CHR ''A'' \<le> byte c \<and> byte c \<le> byte CHR ''Z'' then char_of (byte c + 32) else c)"

definition MasterDataCrud :: "md_props \<Rightarrow> data_table" where
  "MasterDataCrud p =
     \<lparr>dt_columns =
        map (\<lambda>fd. column (fc_name fd) (fc_label fd) (settings_cell fd)) (filter (\<lambda>fd. fc_type fd \<noteq> Switch_field) (mp_fields p))
        @ [display_column ''status'' ''Status''
             (flag_badge ''is_active'' (Badge ''default'' (Some ''Active'')) (Badge ''secondary'' (Some ''Inactive'')))]
        @ (if mp_canWrite p then [display_column ''actions'' [] settings_buttons] else []),
      dt_searchKey = (case mp_fields p of [] \<Rightarrow> None | fd # fds \<Rightarrow> Some (fc_name fd)),
      dt_placeholder = search_text (lower_label (mp_label p) @ ''s'')\<rparr>"

section \<open>Plain tables\<close>

text \<open>These have no search box. The history and the result of the query playground:\<close>

definition plain_table :: "table_column list \<Rightarrow> data_table" where
  "plain_table cols = \<lparr>dt_columns = cols, dt_searchKey = None, dt_placeholder = []\<rparr>"

definition text_child :: "string \<Rightarrow> cell" where
  "text_child k row = map_option Plain (rendered_prop (opt_prop row k))"

definition QueryHistoryTable :: "(string \<Rightarrow> string) \<Rightarrow> data_table" where
  "QueryHistoryTable local = plain_table
     [display_column ''submitted_at'' ''Submitted'' (datetime_cell local ''submitted_at''),
      display_column ''statement_type'' ''Type'' (outcome_badge STATEMENT_TYPE_VARIANT ''statement_type''),
      display_column ''result_status'' ''Status'' (outcome_badge RESULT_STATUS_VARIANT ''result_status''),
      display_column ''row_count'' ''Rows'' (or_dash_cell ''row_count''),
      display_column ''duration_ms'' ''Duration'' duration_cell,
      display_column ''query_text'' ''Query'' (text_child ''query_text'')]"

text \<open>\<open>row[col] === null\<close> is marked, any other value is shown by \<open>String\<close>.\<close>

definition result_cell :: "string \<Rightarrow> cell" where
  "result_cell col row =
     Some (case opt_prop row col of
             Some JNull \<Rightarrow> Tinted ''text-muted-foreground italic'' ''NULL''
           | v \<Rightarrow> Plain (template v))"

definition QueryResultTable :: "string list \<Rightarrow> data_table" where
  "QueryResultTable cols = plain_table (map (\<lambda>col. display_column col col (result_cell col)) cols)"

text \<open>The suppliers of the Overview.\<close>

definition percent_cell :: "string \<Rightarrow> cell" where
  "percent_cell k row =
     Some (Plain (case opt_prop row k of
                    None \<Rightarrow> em_dash | Some JNull \<Rightarrow> em_dash | Some v \<Rightarrow> template (Some v) @ ''%''))"

definition at_risk_now :: cell where
  "at_risk_now row =
     (let q = opt_prop row ''at_risk_purchase_orders'';
          above = (case as_number q of Some n \<Rightarrow> n > 0 | None \<Rightarrow> False)
      in if above then map_option (Badge ''destructive'' \<circ> Some) (rendered_prop q)
         else Some (Tinted ''text-muted-foreground'' ''0''))"

definition OverviewSupplierTable :: data_table where
  "OverviewSupplierTable = plain_table
     [display_column ''supplier_name'' ''Supplier'' (text_child ''supplier_name''),
      display_column ''purchase_orders_placed'' ''Ordered'' (text_child ''purchase_orders_placed''),
      display_column ''purchase_orders_received'' ''Received'' (text_child ''purchase_orders_received''),
      display_column ''on_time_receipt_pct'' ''On time'' (percent_cell ''on_time_receipt_pct''),
      display_column ''open_purchase_orders'' ''Open now'' (text_child ''open_purchase_orders''),
      display_column ''at_risk_purchase_orders'' ''At risk'' at_risk_now]"

section \<open>The dialog over the query log\<close>

text \<open>The entry whose query was opened.\<close>

datatype log_event = Query_opened json | Log_dialog_changed bool

fun log_step :: "log_event \<Rightarrow> json option \<Rightarrow> json option" where
  "log_step (Query_opened entry) expanded = Some entry"
| "log_step (Log_dialog_changed is_open) expanded = (if is_open then expanded else None)"

text \<open>Its description, query and error, as far as there is an entry; \<open>None\<close> when rendering throws.\<close>

definition log_dialog :: "(string \<Rightarrow> string) \<Rightarrow> json option \<Rightarrow> (string \<times> string \<times> string option) option" where
  "log_dialog local expanded =
     (case expanded of
        None \<Rightarrow> Some ([], [], None)
      | Some entry \<Rightarrow>
          (case (rendered_prop (opt_prop entry ''user_email''), rendered_prop (opt_prop entry ''query_text''),
                 rendered_prop (opt_prop entry ''error_message'')) of
             (Some email, Some query, Some message) \<Rightarrow>
               Some (email @ '' '' @ middle_dot @ '' '' @ local (template (opt_prop entry ''submitted_at'')), query,
                     if truthy_json (opt_prop entry ''error_message'') then Some message else None)
           | _ \<Rightarrow> None))"

section \<open>Every row can be shown\<close>

text \<open>
  A cell is fine when every label and every variant of a badge in it was found.
\<close>

fun cell_fine :: "cell_view \<Rightarrow> bool" where
  "cell_fine (Label l) = (l \<noteq> None)"
| "cell_fine (Badge variant s) = (variant \<noteq> [] \<and> s \<noteq> None)"
| "cell_fine (Badges cs) = list_all cell_fine cs"
| "cell_fine (Row_actions offers) = (offers \<noteq> [])"
| "cell_fine _ = True"

definition showable :: "py_type \<Rightarrow> cell \<Rightarrow> bool" where
  "showable schema c \<longleftrightarrow> (\<forall>row. dumps schema row \<longrightarrow> (\<exists>v. c row = Some v \<and> cell_fine v))"

lemma showableI: "(\<And>row. dumps schema row \<Longrightarrow> \<exists>v. c row = Some v \<and> cell_fine v) \<Longrightarrow> showable schema c"
  by (simp add: showable_def)

lemma dumps_field:
  assumes "dumps (PModel fs) row" "map_of fs k = Some p"
  obtains v where "opt_prop row k = Some v" "dumps p v"
proof -
  obtain ps where row: "row = JObj ps" using assms(1) by (cases row) auto
  then show thesis using assms that by (auto elim: model_field)
qed

declare dumps.simps(11) [simp del]

lemma show_default: "showable schema (default_cell k)"
  by (simp add: showable_def default_cell_def split: option.split json.split)

lemma show_dates: "showable schema (date_cell f k)" "showable schema (optional_date_cell f k)" "showable schema (datetime_cell f k)"
  by (simp_all add: showable_def date_cell_def optional_date_cell_def datetime_cell_def)

lemma show_plain: "showable schema duration_cell" "showable schema decision_entity"
  "showable schema decision_actions_cell" "showable schema (percent_cell k)" "showable schema (result_cell col)"
  "showable schema (settings_cell fd)" "showable schema settings_buttons"
  by (auto simp: showable_def duration_cell_def decision_entity_def decision_actions_cell_def percent_cell_def
      result_cell_def settings_cell_def settings_buttons_def Let_def split: option.split list.split json.split)

text \<open>The schemas of the values that an element can contain.\<close>

fun plain_schema :: "py_type \<Rightarrow> bool" where
  "plain_schema (POptional p) = plain_schema p"
| "plain_schema (PModel fs) = False"
| "plain_schema (PList p) = False"
| "plain_schema PDict = False"
| "plain_schema _ = True"

lemma plain_rendered: "plain_schema p \<Longrightarrow> dumps p v \<Longrightarrow> \<exists>s. rendered v = Some s"
  by (induction p rule: plain_schema.induct) (auto split: json.splits elim: is_text.elims)

lemma show_or_dash:
  assumes "map_of fs k = Some p" "plain_schema p"
  shows "showable (PModel fs) (or_dash_cell k)"
proof (rule showableI)
  fix row assume "dumps (PModel fs) row"
  from dumps_field [OF this assms(1)] obtain v where v: "opt_prop row k = Some v" "dumps p v" .
  then obtain s where "rendered v = Some s" using plain_rendered assms(2) by blast
  then show "\<exists>c. or_dash_cell k row = Some c \<and> cell_fine c"
    using v by (cases v) (auto simp: or_dash_cell_def nullish_or_def)
qed

lemma rendered_field:
  assumes "dumps (PModel fs) row" "map_of fs k = Some p" "plain_schema p"
  obtains s where "rendered_prop (opt_prop row k) = Some s"
proof -
  obtain v where "opt_prop row k = Some v" "dumps p v" using dumps_field [OF assms(1,2)] by blast
  then show thesis using plain_rendered assms(3) that by (auto simp: rendered_prop_def)
qed

lemma show_link:
  "map_of fs k = Some p \<Longrightarrow> plain_schema p \<Longrightarrow> showable (PModel fs) (link_cell href (\<lambda>row. rendered_prop (opt_prop row k)))"
  "showable (PModel fs) (link_cell href (\<lambda>row. Some t))"
  by (auto simp: showable_def link_cell_def elim: rendered_field)

lemma show_open: "map_of fs k = Some p \<Longrightarrow> plain_schema p \<Longrightarrow>
   showable (PModel fs) (\<lambda>row. map_option Open_button (rendered_prop (opt_prop row k)))"
  by (auto simp: showable_def elim: rendered_field)

lemma show_child: "map_of fs k = Some p \<Longrightarrow> plain_schema p \<Longrightarrow> showable (PModel fs) (text_child k)"
  by (auto simp: showable_def text_child_def elim: rendered_field)

lemma show_flag: "cell_fine yes \<Longrightarrow> cell_fine no \<Longrightarrow> showable schema (flag_badge k yes no)"
  by (auto simp: showable_def flag_badge_def)

text \<open>An enum field whose values all have a label.\<close>

lemma enum_text:
  assumes "dumps (PModel fs) row" "map_of fs k = Some (PEnum vs)"
  obtains s where "s \<in> set vs" "opt_prop row k = Some (JStr s)"
  using assms by (auto elim!: dumps_field is_text.elims)

lemma show_label:
  assumes "map_of fs k = Some (PEnum vs)" "list_all (\<lambda>s. map_of labels s \<noteq> None) vs"
  shows "showable (PModel fs) (label_badge (c # cs) labels k)" "showable (PModel fs) (label_cell labels k)"
  using assms
  by (auto simp: showable_def label_badge_def label_cell_def label_of_def template_def list_all_iff elim!: enum_text)

lemma show_decision_badge:
  assumes "map_of fs ''status'' = Some (PEnum vs)"
    and "list_all (\<lambda>s. map_of decision_labels s \<noteq> None \<and> map_of STATUS_BADGE_VARIANT s \<noteq> None
           \<and> map_of STATUS_BADGE_VARIANT s \<noteq> Some []) vs"
  shows "showable (PModel fs) decision_badge"
  using assms
  by (fastforce simp: showable_def decision_badge_def label_of_def variant_of_def template_def list_all_iff elim!: enum_text)

lemma show_shipment_badges: "map_of fs ''status'' = Some (PEnum vs) \<Longrightarrow> showable (PModel fs) shipment_badges"
  by (auto simp: showable_def shipment_badges_def elim!: enum_text)

lemma show_transaction_badge: "map_of fs ''transaction_type'' = Some PStr \<Longrightarrow> showable (PModel fs) transaction_badge"
  by (auto simp: showable_def transaction_badge_def variant_of_def TYPE_VARIANT_def elim!: dumps_field is_text.elims)

lemma show_outcome_badge:
  "map_of fs k = Some p \<Longrightarrow> plain_schema p \<Longrightarrow> (\<And>s. variant s \<noteq> []) \<Longrightarrow> showable (PModel fs) (outcome_badge variant k)"
  by (auto simp: showable_def outcome_badge_def elim: rendered_field)

lemma variants_nonempty: "STATEMENT_TYPE_VARIANT s \<noteq> []" "RESULT_STATUS_VARIANT s \<noteq> []"
  by (simp_all add: STATEMENT_TYPE_VARIANT_def RESULT_STATUS_VARIANT_def)

lemma show_numbers:
  "map_of fs ''quantity_delta'' = Some PInt \<Longrightarrow> showable (PModel fs) quantity_cell"
  "map_of fs ''at_risk_purchase_order_count'' = Some PInt \<Longrightarrow> showable (PModel fs) at_risk_cell"
  "map_of fs ''at_risk_purchase_orders'' = Some PInt \<Longrightarrow> showable (PModel fs) at_risk_now"
  by (auto simp: showable_def quantity_cell_def at_risk_cell_def at_risk_now_def Let_def elim!: rendered_field)

lemma show_category: "map_of fs ''category'' = Some PStr \<Longrightarrow> showable (PModel fs) category_cell"
  by (auto simp: showable_def category_cell_def elim!: rendered_field split: option.split)

lemma slice8_text: "dumps (POptional PUuid) v \<Longrightarrow> truthy_json (Some v) \<Longrightarrow> \<exists>s. slice8 (Some v) = Some s"
  by (cases v) auto

lemma entity_text:
  assumes "dumps (PModel fs) row"
    and "map_of fs ''purchase_order_id'' = Some (POptional PUuid)" "map_of fs ''shipment_id'' = Some (POptional PUuid)"
  shows "\<exists>s. entityLabel row = Some s"
proof -
  obtain v where v: "opt_prop row ''purchase_order_id'' = Some v" "dumps (POptional PUuid) v"
    using dumps_field [OF assms(1,2)] by blast
  obtain w where w: "opt_prop row ''shipment_id'' = Some w" "dumps (POptional PUuid) w"
    using dumps_field [OF assms(1,3)] by blast
  show ?thesis
    using slice8_text [OF v(2)] slice8_text [OF w(2)] v(1) w(1) by (simp add: entityLabel_def)
qed

lemma show_entity:
  assumes "map_of fs ''purchase_order_id'' = Some (POptional PUuid)" "map_of fs ''shipment_id'' = Some (POptional PUuid)"
  shows "showable (PModel fs) (link_cell href entityLabel)"
  using entity_text assms by (fastforce simp: showable_def link_cell_def)

lemmas show_rules = show_default show_dates show_plain show_or_dash show_link show_open show_child show_flag show_label
  show_decision_badge show_shipment_badges show_transaction_badge show_outcome_badge show_numbers show_category show_entity

text \<open>Each table with the schema of its rows.\<close>

definition shown_tables :: "string option \<Rightarrow> string list \<Rightarrow> (string \<Rightarrow> string) \<Rightarrow> (data_table \<times> py_type) list" where
  "shown_tables role cols f =
     [(CustomersTable, py_CustomerRead), (PurchaseOrdersTable f, py_PurchaseOrderSummaryRead),
      (SalesOrdersTable f, py_SalesOrderSummaryRead), (ShipmentsTable f, py_ShipmentRead),
      (InventoryTable, py_InventoryPositionRead), (InventoryTransactionsTable f, py_InventoryTransactionRead),
      (SupplierPerformanceTable, py_SupplierPerformanceRead), (ExceptionsTable f, py_ExceptionFlagRead),
      (DecisionsTable f, py_DecisionRead), (AdminQueryLogTable f, py_AdminQueryLogRead),
      (MasterDataCrud (CarriersSettingsPage role), py_CarrierRead),
      (MasterDataCrud (WarehousesSettingsPage role), py_WarehouseRead),
      (MasterDataCrud (ProductsSettingsPage role), py_ProductRead),
      (MasterDataCrud (SuppliersSettingsPage role), py_SupplierRead),
      (QueryHistoryTable f, py_QueryLogRead), (QueryResultTable cols, PDict),
      (OverviewSupplierTable, py_OverviewSupplier)]"

definition table_showable :: "data_table \<times> py_type \<Rightarrow> bool" where
  "table_showable tp = list_all (\<lambda>col. showable (snd tp) (tc_cell col)) (dt_columns (fst tp))"

lemmas column_defs = column_def fixed_column_def display_column_def

lemmas table_defs = table_showable_def CustomersTable_def PurchaseOrdersTable_def SalesOrdersTable_def ShipmentsTable_def
  InventoryTable_def InventoryTransactionsTable_def SupplierPerformanceTable_def ExceptionsTable_def DecisionsTable_def
  AdminQueryLogTable_def column_defs dashboard_py inherits.simps append.simps fst_conv snd_conv data_table.simps
  table_column.simps list.pred_inject

lemmas label_defs = SERVICE_PRIORITY_LABEL_def PO_STATUS_LABEL_def SO_STATUS_LABEL_def decision_labels_def decision_statuses_def STATUS_BADGE_VARIANT_def

lemma customers_showable: "table_showable (CustomersTable, py_CustomerRead)"
  unfolding table_defs by (intro conjI TrueI show_rules) (simp add: label_defs)+

lemma purchase_orders_showable: "table_showable (PurchaseOrdersTable f, py_PurchaseOrderSummaryRead)"
  unfolding table_defs by (intro conjI TrueI show_rules) (simp add: label_defs)+

lemma sales_orders_showable: "table_showable (SalesOrdersTable f, py_SalesOrderSummaryRead)"
  unfolding table_defs by (intro conjI TrueI show_rules) (simp add: label_defs)+

lemma shipments_showable: "table_showable (ShipmentsTable f, py_ShipmentRead)"
  unfolding table_defs by (intro conjI TrueI show_rules) (simp add: label_defs)+

lemma inventory_showable: "table_showable (InventoryTable, py_InventoryPositionRead)"
  unfolding table_defs by (intro conjI TrueI show_rules) (simp add: label_defs)+

lemma transactions_showable: "table_showable (InventoryTransactionsTable f, py_InventoryTransactionRead)"
  unfolding table_defs by (intro conjI TrueI show_rules) (simp add: label_defs)+

lemma suppliers_showable: "table_showable (SupplierPerformanceTable, py_SupplierPerformanceRead)"
  unfolding table_defs by (intro conjI TrueI show_rules) (simp add: label_defs)+

lemma exceptions_showable: "table_showable (ExceptionsTable f, py_ExceptionFlagRead)"
  unfolding table_defs by (intro conjI TrueI show_rules) (simp add: label_defs)+

lemma decisions_showable: "table_showable (DecisionsTable f, py_DecisionRead)"
  unfolding table_defs by (intro conjI TrueI show_rules) (simp add: label_defs)+

lemma query_log_showable: "table_showable (AdminQueryLogTable f, py_AdminQueryLogRead)"
  unfolding table_defs by (intro conjI TrueI show_rules variants_nonempty) simp+

text \<open>The dialog over the query log shows every entry.\<close>

lemma log_dialog_shows:
  assumes "dumps py_AdminQueryLogRead entry"
  shows "\<exists>d. log_dialog local (log_step (Query_opened entry) expanded) = Some d"
proof -
  note e = assms [unfolded dashboard_py inherits.simps append.simps]
  obtain email where "rendered_prop (opt_prop entry ''user_email'') = Some email"
    by (rule rendered_field [OF e, of "''user_email''" PStr]) auto
  moreover obtain query where "rendered_prop (opt_prop entry ''query_text'') = Some query"
    by (rule rendered_field [OF e, of "''query_text''" PStr]) auto
  moreover obtain message where "rendered_prop (opt_prop entry ''error_message'') = Some message"
    by (rule rendered_field [OF e, of "''error_message''" "POptional PStr"]) auto
  ultimately show ?thesis by (simp add: log_dialog_def)
qed

lemma settings_showable: "table_showable (MasterDataCrud p, schema)"
  using show_plain(6,7) show_flag
  by (auto simp: table_showable_def MasterDataCrud_def column_defs list_all_iff)

lemma history_showable: "table_showable (QueryHistoryTable f, py_QueryLogRead)"
  unfolding table_defs QueryHistoryTable_def plain_table_def
  by (intro conjI TrueI show_rules variants_nonempty) simp+

lemma result_showable: "table_showable (QueryResultTable cols, PDict)"
  using show_plain(5) by (auto simp: table_showable_def QueryResultTable_def plain_table_def column_defs list_all_iff)

lemma overview_suppliers_showable: "table_showable (OverviewSupplierTable, py_OverviewSupplier)"
  unfolding table_defs OverviewSupplierTable_def plain_table_def
  by (intro conjI TrueI show_rules) simp+



end
