(* ===== verification/Row_Links.thy ===== *)
theory Row_Links
  imports Tables
begin

text \<open>
  Where the rows of Subsystem 1's tables lead: the address in a row's link, the page that the App Router
  finds there, and the request that page sends. Shown: for orders and exceptions the request asks for the
  very record of the row, for shipments for the sales order of the row. The ids of products, warehouses and suppliers are free texts: \<open>inventory-table.tsx\<close>
  encodes them, \<open>supplier-performance-table.tsx\<close> does not.
\<close>

section \<open>From a path to a detail page\<close>

text \<open>
  \<open>app/(app)/orders/[id]\<close>, \<open>orders/sales/[id]\<close>, \<open>reports/[id]\<close>, \<open>suppliers/[id]\<close> and
  \<open>inventory/[productId]/[warehouseId]\<close>; a directory with a fixed name comes before \<open>[id]\<close>. \<open>param\<close> is what the
  framework hands a page for a segment of the path.
\<close>

definition record_page :: "(string \<Rightarrow> string) \<Rightarrow> ctx \<Rightarrow> string \<Rightarrow> page_view io option" where
  "record_page param c path =
     (case segments path of
        [a, i] \<Rightarrow>
          if i = [] then None
          else if a = ''orders'' \<and> i \<noteq> ''new'' \<and> i \<noteq> ''sales'' then Some (OrderDetailPage c (param i))
          else if a = ''reports'' then Some (ExceptionDetailPage c (param i))
          else if a = ''suppliers'' then Some (SupplierDetailPage c (param i))
          else None
      | [a, b, i] \<Rightarrow>
          if b = [] \<or> i = [] then None
          else if a = ''orders'' \<and> b = ''sales'' then Some (SalesOrderDetailPage c (param i))
          else if a = ''inventory'' then Some (InventoryTransactionsPage c (param b) (param i))
          else None
      | _ \<Rightarrow> None)"

lemma record_page_is_page: "record_page param c path = Some p \<Longrightarrow> is_page orbyn_app_pages path"
  by (auto simp: record_page_def is_page_def orbyn_app_pages_def split: list.splits if_splits)

text \<open>The first link of a cell, and the cell of a table by its column.\<close>

definition link_at :: "data_table \<Rightarrow> string \<Rightarrow> json \<Rightarrow> string option" where
  "link_at table k row =
     (case map_of (map (\<lambda>col. (tc_id col, tc_cell col)) (dt_columns table)) k of
        Some cell \<Rightarrow> (case cell row of Some (Link_to href shown) \<Rightarrow> Some href | _ \<Rightarrow> None)
      | None \<Rightarrow> None)"

section \<open>The requests of the detail pages\<close>

lemma sent_silent_rest: "(\<And>x. silent (f x)) \<Longrightarrow> sent (and_then p f) net = sent p net"
  by (simp add: sent_and_then silent_def split: outcome.split)

lemma detail_silent:
  "silent (if b then ret x else p) \<longleftrightarrow> b \<or> silent p"
  "silent (case v of None \<Rightarrow> throw e | Some f \<Rightarrow> q f) \<longleftrightarrow> (\<forall>f. v = Some f \<longrightarrow> silent (q f))"
  by (auto simp: silent_def split: option.split)

lemma record_pages_send:
  assumes "truthy (get_cookie c orbyn_session) = Some token" and "truthy (cx_base_url c) = Some base"
  shows "sent (OrderDetailPage c i) net
      = [bearer_request ''GET'' token base (''/api/v1/dashboard/orders/purchase/'' @ encodeURIComponent i) NoBody (Some ''no-store'')]"
    "sent (SalesOrderDetailPage c i) net
      = [bearer_request ''GET'' token base (''/api/v1/dashboard/orders/sales/'' @ encodeURIComponent i) NoBody (Some ''no-store'')]"
    "sent (ExceptionDetailPage c i) net
      = [bearer_request ''GET'' token base (''/api/v1/dashboard/exceptions/'' @ encodeURIComponent i) NoBody (Some ''no-store'')]"
    "sent (InventoryTransactionsPage c p w) net
      = [bearer_request ''GET'' token base
           (''/api/v1/dashboard/inventory/'' @ encodeURIComponent p @ ''/'' @ encodeURIComponent w @ ''/transactions'') NoBody (Some ''no-store'')]"
proof -
  have run: "sent (dashboardFetch c path) net = [bearer_request ''GET'' token base path NoBody (Some ''no-store'')]" for path
    using assms by (simp add: dashboardFetch_def gate_simps)
  have rest: "silent (resp_json r)" "silent (get_prop v k)" "silent (map_prop v k)" "silent (rows_or_empty r)" for r v k
    using rows_silent by (auto simp: silent_def)
  show "sent (OrderDetailPage c i) net
      = [bearer_request ''GET'' token base (''/api/v1/dashboard/orders/purchase/'' @ encodeURIComponent i) NoBody (Some ''no-store'')]"
    by (auto simp: OrderDetailPage_def getPurchaseOrderDetail_def run detail_silent
        intro!: trans [OF sent_silent_rest] silent_and_then silent_intros rest)
  show "sent (SalesOrderDetailPage c i) net
      = [bearer_request ''GET'' token base (''/api/v1/dashboard/orders/sales/'' @ encodeURIComponent i) NoBody (Some ''no-store'')]"
    by (auto simp: SalesOrderDetailPage_def getSalesOrderDetail_def run detail_silent
        intro!: trans [OF sent_silent_rest] silent_and_then silent_intros rest)
  show "sent (ExceptionDetailPage c i) net
      = [bearer_request ''GET'' token base (''/api/v1/dashboard/exceptions/'' @ encodeURIComponent i) NoBody (Some ''no-store'')]"
    by (auto simp: ExceptionDetailPage_def getExceptionDrilldown_def run detail_silent
        intro!: trans [OF sent_silent_rest] silent_and_then silent_intros rest)
  show "sent (InventoryTransactionsPage c p w) net
      = [bearer_request ''GET'' token base
           (''/api/v1/dashboard/inventory/'' @ encodeURIComponent p @ ''/'' @ encodeURIComponent w @ ''/transactions'') NoBody (Some ''no-store'')]"
    by (auto simp: InventoryTransactionsPage_def list_page_404_def listInventoryTransactions_def run detail_silent
        intro!: trans [OF sent_silent_rest] silent_and_then silent_intros rest)
qed

section \<open>Links to records with UUIDs\<close>

lemma hex_unreserved: "is_digit ch \<or> ch \<in> set ''abcdef'' \<Longrightarrow> uri_unreserved ch"
proof (erule disjE)
  show "is_digit ch \<Longrightarrow> uri_unreserved ch" by (simp add: is_digit_def uri_unreserved_def is_alnum_def byte_def)
  show "ch \<in> set ''abcdef'' \<Longrightarrow> uri_unreserved ch"
    by (simp only: list.set insert_iff empty_iff, elim disjE) (simp_all add: uri_unreserved_def is_alnum_def byte_def)
qed

lemma uuid_plain:
  assumes "uuid_text i"
  shows "list_all uri_unreserved i" "i \<noteq> []" "i \<noteq> ''new''" "i \<noteq> ''sales''" "CHR ''/'' \<notin> set i" "encodeURIComponent i = i"
proof -
  have "uri_unreserved ch" if "ch \<in> set i" for ch
  proof (cases "ch = CHR ''-''")
    case False
    then have "is_digit ch \<or> ch \<in> set ''abcdef''" using assms that by (auto simp: uuid_text_def list_all_iff)
    then show ?thesis by (rule hex_unreserved)
  qed (simp add: uri_unreserved_def)
  then show *: "list_all uri_unreserved i" by (simp add: list_all_iff)
  show "i \<noteq> []" "i \<noteq> ''new''" "i \<noteq> ''sales''" using assms by (auto simp: uuid_text_def)
  show e: "encodeURIComponent i = i" using * by (rule encode_unreserved)
  show "CHR ''/'' \<notin> set i" using no_slash_encoded [of i] e by simp
qed

text \<open>
  A table, the schema of its rows, the column with the link, the field with the id that the link carries,
  the detail page it opens, and the backend's path. A shipment's link carries the id of its sales order,
  and opens that order.
\<close>

definition row_links ::
  "(string \<Rightarrow> string) \<Rightarrow> (data_table \<times> py_type \<times> string \<times> string \<times> (ctx \<Rightarrow> string \<Rightarrow> page_view io) \<times> string) list" where
  "row_links f =
     [(PurchaseOrdersTable f, py_PurchaseOrderSummaryRead, ''po_number'', ''id'', OrderDetailPage, ''/api/v1/dashboard/orders/purchase/''),
      (SalesOrdersTable f, py_SalesOrderSummaryRead, ''so_number'', ''id'', SalesOrderDetailPage, ''/api/v1/dashboard/orders/sales/''),
      (ShipmentsTable f, py_ShipmentRead, ''actions'', ''sales_order_id'', SalesOrderDetailPage, ''/api/v1/dashboard/orders/sales/''),
      (ExceptionsTable f, py_ExceptionFlagRead, ''entity'', ''id'', ExceptionDetailPage, ''/api/v1/dashboard/exceptions/'')]"

text \<open>The segments of an address with a plain id at its end.\<close>

lemma segments_links:
  assumes "CHR ''/'' \<notin> set i"
  shows "segments (''/orders/'' @ i) = [''orders'', i]" "segments (''/reports/'' @ i) = [''reports'', i]"
    "segments (''/suppliers/'' @ i) = [''suppliers'', i]" "segments (''/orders/sales/'' @ i) = [''orders'', ''sales'', i]"
  using assms by (simp_all add: segments_def split_slash_segment)

lemma uuid_field:
  assumes "dumps (PModel fs) row" "map_of fs k = Some PUuid"
  obtains i where "opt_prop row k = Some (JStr i)" "uuid_text i"
  using assms by (auto elim!: dumps_field is_text.elims)

lemma template_text [simp]: "template (Some (JStr s)) = s"
  by (simp add: template_def)

lemma link_columns:
  "link_at (PurchaseOrdersTable f) ''po_number'' row
     = map_option (\<lambda>s. ''/orders/'' @ template (opt_prop row ''id'')) (rendered_prop (opt_prop row ''po_number''))"
  "link_at (SalesOrdersTable f) ''so_number'' row
     = map_option (\<lambda>s. ''/orders/sales/'' @ template (opt_prop row ''id'')) (rendered_prop (opt_prop row ''so_number''))"
  "link_at (ShipmentsTable f) ''actions'' row = Some (''/orders/sales/'' @ template (opt_prop row ''sales_order_id''))"
  "link_at (ExceptionsTable f) ''entity'' row
     = map_option (\<lambda>s. ''/reports/'' @ template (opt_prop row ''id'')) (entityLabel row)"
  "link_at SupplierPerformanceTable ''supplier_name'' row
     = map_option (\<lambda>s. ''/suppliers/'' @ template (opt_prop row ''supplier_id'')) (rendered_prop (opt_prop row ''supplier_name''))"
  "link_at InventoryTable ''actions'' row
     = Some (''/inventory/'' @ encodeURIComponent (template (opt_prop row ''product_id'')) @ ''/''
             @ encodeURIComponent (template (opt_prop row ''warehouse_id'')))"
  by (simp_all add: link_at_def PurchaseOrdersTable_def SalesOrdersTable_def ShipmentsTable_def ExceptionsTable_def
      SupplierPerformanceTable_def InventoryTable_def column_defs link_cell_def split: option.split)

text \<open>Each link's address opens its page with the id of the row.\<close>

lemma uuid_pages:
  assumes "uuid_text i" and "\<And>s. list_all uri_unreserved s \<Longrightarrow> param s = s"
  shows "record_page param c (''/orders/'' @ i) = Some (OrderDetailPage c i)"
    "record_page param c (''/orders/sales/'' @ i) = Some (SalesOrderDetailPage c i)"
    "record_page param c (''/reports/'' @ i) = Some (ExceptionDetailPage c i)"
  using uuid_plain [OF assms(1)] assms(2) by (simp_all add: record_page_def segments_links del: append.simps)

definition opens_record ::
  "(string \<Rightarrow> string) \<Rightarrow> ctx \<Rightarrow> json \<Rightarrow> string \<Rightarrow> string option \<Rightarrow> (ctx \<Rightarrow> string \<Rightarrow> page_view io) \<Rightarrow> bool" where
  "opens_record param c row key address page \<longleftrightarrow>
     (\<exists>i href. opt_prop row key = Some (JStr i) \<and> uuid_text i \<and> address = Some href \<and> record_page param c href = Some (page c i))"

lemma table_links_open:
  assumes "\<And>s. list_all uri_unreserved s \<Longrightarrow> param s = s"
  shows "dumps py_PurchaseOrderSummaryRead row \<Longrightarrow>
      opens_record param c row ''id'' (link_at (PurchaseOrdersTable f) ''po_number'' row) OrderDetailPage"
    "dumps py_SalesOrderSummaryRead row \<Longrightarrow>
      opens_record param c row ''id'' (link_at (SalesOrdersTable f) ''so_number'' row) SalesOrderDetailPage"
    "dumps py_ShipmentRead row \<Longrightarrow>
      opens_record param c row ''sales_order_id'' (link_at (ShipmentsTable f) ''actions'' row) SalesOrderDetailPage"
    "dumps py_ExceptionFlagRead row \<Longrightarrow>
      opens_record param c row ''id'' (link_at (ExceptionsTable f) ''entity'' row) ExceptionDetailPage"
proof -
  note opened = opens_record_def link_columns uuid_pages [OF _ assms]
  show "opens_record param c row ''id'' (link_at (PurchaseOrdersTable f) ''po_number'' row) OrderDetailPage"
    if "dumps py_PurchaseOrderSummaryRead row"
  proof -
    note row = that [unfolded py_PurchaseOrderSummaryRead_def]
    obtain i where i: "opt_prop row ''id'' = Some (JStr i)" "uuid_text i"
      by (rule uuid_field [OF row, of "''id''"]) auto
    obtain s where "rendered_prop (opt_prop row ''po_number'') = Some s"
      by (rule rendered_field [OF row, of "''po_number''" PStr]) auto
    then show ?thesis using i by (simp add: opened del: append.simps)
  qed
  show "opens_record param c row ''id'' (link_at (SalesOrdersTable f) ''so_number'' row) SalesOrderDetailPage"
    if "dumps py_SalesOrderSummaryRead row"
  proof -
    note row = that [unfolded py_SalesOrderSummaryRead_def]
    obtain i where i: "opt_prop row ''id'' = Some (JStr i)" "uuid_text i"
      by (rule uuid_field [OF row, of "''id''"]) auto
    obtain s where "rendered_prop (opt_prop row ''so_number'') = Some s"
      by (rule rendered_field [OF row, of "''so_number''" PStr]) auto
    then show ?thesis using i by (simp add: opened del: append.simps)
  qed
  show "opens_record param c row ''sales_order_id'' (link_at (ShipmentsTable f) ''actions'' row) SalesOrderDetailPage"
    if "dumps py_ShipmentRead row"
  proof -
    note row = that [unfolded py_ShipmentRead_def]
    obtain i where i: "opt_prop row ''sales_order_id'' = Some (JStr i)" "uuid_text i"
      by (rule uuid_field [OF row, of "''sales_order_id''"]) auto
    then show ?thesis by (simp add: opened del: append.simps)
  qed
  show "opens_record param c row ''id'' (link_at (ExceptionsTable f) ''entity'' row) ExceptionDetailPage"
    if "dumps py_ExceptionFlagRead row"
  proof -
    note row = that [unfolded py_ExceptionFlagRead_def]
    obtain i where i: "opt_prop row ''id'' = Some (JStr i)" "uuid_text i"
      by (rule uuid_field [OF row, of "''id''"]) auto
    have "\<exists>s. entityLabel row = Some s"
      by (rule entity_text [OF row]) simp_all
    then show ?thesis using i by (auto simp: opened simp del: append.simps)
  qed
qed

text \<open>C35: Every row of the purchase order, sales order and exception tables, as the backend serialises it, has
  a link that opens the detail page of that very record, and every row of the shipment table, whose
  records have no page of their own, has one that opens the detail page of the shipment's sales order.
  The address in the link is a page of the application, the page it resolves to gets the UUID in the
  row's id (in its sales_order_id, for a shipment), and the one request that page sends asks the backend,
  with the visitor's own token, for the order or exception with that UUID.\<close>

theorem row_links_reach_record:
  assumes "(table, schema, k, key, page, api) \<in> set (row_links f)" and "dumps schema row"
    and "\<And>s. list_all uri_unreserved s \<Longrightarrow> param s = s"
    and "truthy (get_cookie c orbyn_session) = Some token" and "truthy (cx_base_url c) = Some base"
  shows "\<exists>i href. opt_prop row key = Some (JStr i) \<and> link_at table k row = Some href
      \<and> is_page orbyn_app_pages href \<and> record_page param c href = Some (page c i)
      \<and> sent (page c i) net = [bearer_request ''GET'' token base (api @ i) NoBody (Some ''no-store'')]"
proof -
  have "opens_record param c row key (link_at table k row) page"
    using assms(1,2) table_links_open [OF assms(3), of row c f] by (auto simp: row_links_def)
  then obtain i href where i: "opt_prop row key = Some (JStr i)" "uuid_text i" "link_at table k row = Some href"
    "record_page param c href = Some (page c i)"
    by (auto simp: opens_record_def)
  have "sent (page c i) net = [bearer_request ''GET'' token base (api @ i) NoBody (Some ''no-store'')]"
    using assms(1) uuid_plain(6) [OF i(2)] record_pages_send(1-3) [OF assms(4,5), of i net] by (auto simp: row_links_def)
  then show ?thesis using i record_page_is_page [OF i(4)] by blast
qed

theorem row_links_reach_record_witness:
  "\<exists>i href. opt_prop (sample py_ShipmentRead) ''sales_order_id'' = Some (JStr i)
      \<and> link_at (ShipmentsTable id) ''actions'' (sample py_ShipmentRead) = Some href
      \<and> is_page orbyn_app_pages href \<and> record_page id analyst_ctx href = Some (SalesOrderDetailPage analyst_ctx i)
      \<and> sent (SalesOrderDetailPage analyst_ctx i) analyst_net
        = [bearer_request ''GET'' ''tok'' ''http://api'' (''/api/v1/dashboard/orders/sales/'' @ i) NoBody (Some ''no-store'')]"
proof (rule row_links_reach_record)
  show "(ShipmentsTable id, py_ShipmentRead, ''actions'', ''sales_order_id'', SalesOrderDetailPage, ''/api/v1/dashboard/orders/sales/'')
      \<in> set (row_links id)"
    by (simp add: row_links_def)
  show "dumps py_ShipmentRead (sample py_ShipmentRead)" by (rule dumps_sample) (simp add: dashboard_py)
qed (simp_all add: analyst_ctx_def get_cookie_def orbyn_session_def)

section \<open>Links with free texts\<close>

text \<open>
  Products and warehouses: whatever their ids, the link is a path of exactly the two segments, encoded,
  and opens the transactions page.
\<close>

lemma inventory_links_open:
  assumes "opt_prop row ''product_id'' = Some (JStr p)" "opt_prop row ''warehouse_id'' = Some (JStr w)" "p \<noteq> []" "w \<noteq> []"
  shows "\<exists>href. link_at InventoryTable ''actions'' row = Some href
      \<and> segments href = [''inventory'', encodeURIComponent p, encodeURIComponent w]
      \<and> record_page param c href
        = Some (InventoryTransactionsPage c (param (encodeURIComponent p)) (param (encodeURIComponent w)))"
proof -
  have "encodeURIComponent p \<noteq> []" "encodeURIComponent w \<noteq> []"
    using assms(3,4) encodeURIComponent_inject [of _ "[]"] by simp_all
  moreover have "segments (''/inventory/'' @ encodeURIComponent p @ ''/'' @ encodeURIComponent w)
      = [''inventory'', encodeURIComponent p, encodeURIComponent w]"
    by (simp add: segments_def split_slash_segment split_slash_append_slash)
  ultimately show ?thesis
    using assms(1,2) by (simp add: link_columns record_page_def del: append.simps)
qed

text \<open>
  Suppliers: the id goes into the address as it is, and the backend takes any text as the id of a
  supplier. One with a slash gets a link that leads to no page.
\<close>

lemma supplier_link_lost:
  assumes "opt_prop row ''supplier_id'' = Some (JStr ''acme/west'')" "opt_prop row ''supplier_name'' = Some (JStr name)"
  shows "link_at SupplierPerformanceTable ''supplier_name'' row = Some ''/suppliers/acme/west''
    \<and> \<not> is_page (orbyn_app_pages @ orbyn_open_pages) ''/suppliers/acme/west''"
  using assms by (simp add: link_columns rendered_prop_def is_page_def segments_def orbyn_app_pages_def orbyn_open_pages_def)

end
