(* ===== verification/Detail_Views.thy ===== *)
theory Detail_Views
  imports Row_Links
begin

text \<open>
  What the three detail pages of Subsystem 1 show of their record: \<open>app/(app)/orders/[id]/page.tsx\<close>,
  \<open>orders/sales/[id]/page.tsx\<close> and \<open>reports/[id]/page.tsx\<close>. A view is \<open>None\<close> when rendering it throws. Shown: for
  every record that the backend's schema serialises the page loads it and shows all of it; and where the links
  of the exception page lead.
\<close>

section \<open>Views\<close>

datatype detail_section =
    Grid "string list" "cell_view list list" \<comment> \<open>heads and rows\<close>
  | Figures "(string \<times> string) list"
  | Sentence string
  | Linked_card string cell_view string \<comment> \<open>title, link and note\<close>

record detail_view =
  dv_title :: string
  dv_description :: string
  dv_badges :: "cell_view list"
  dv_sections :: "(string \<times> detail_section) list"

text \<open>\<open>\{row.k\}\<close> and \<open>$\{row.k\}\<close> as the child of a cell.\<close>

definition text_cell :: "string \<Rightarrow> cell" where
  "text_cell k row = map_option Plain (rendered_prop (opt_prop row k))"

definition price_cell :: "string \<Rightarrow> cell" where
  "price_cell k row = map_option (\<lambda>s. Plain (''$'' @ s)) (rendered_prop (opt_prop row k))"

text \<open>\<open>v.map((row) => ...)\<close>; anything but an array throws.\<close>

fun grid :: "cell list \<Rightarrow> json option \<Rightarrow> cell_view list list option" where
  "grid cells (Some (JArr rows)) = those (map (\<lambda>row. those (map (\<lambda>c. c row) cells)) rows)"
| "grid cells _ = None"

definition event_cells :: "(string \<Rightarrow> string) \<Rightarrow> cell list" where
  "event_cells local = [datetime_cell local ''occurred_at'', or_dash_cell ''from_status'', text_cell ''to_status'']"

definition order_line_cells :: "cell list" where
  "order_line_cells =
     [text_cell ''product_id'', text_cell ''quantity_ordered'', text_cell ''quantity_received'', price_cell ''unit_cost'']"

definition order_view :: "(string \<Rightarrow> string) \<Rightarrow> (string \<Rightarrow> string) \<Rightarrow> json \<Rightarrow> detail_view option" where
  "order_view other local po =
     (case (rendered_prop (opt_prop po ''po_number''), grid order_line_cells (opt_prop po ''lines''),
            grid (event_cells local) (opt_prop po ''lifecycle_events'')) of
        (Some title, Some line_rows, Some events) \<Rightarrow>
          Some \<lparr>dv_title = title,
            dv_description = ''Ordered '' @ formatDate other (template (opt_prop po ''order_date'')) @ '' from ''
              @ template (opt_prop po ''supplier_id'') @ '', warehouse '' @ template (opt_prop po ''warehouse_id'') @ ''.'',
            dv_badges = (if truthy_json (opt_prop po ''is_at_risk'') then [Badge ''destructive'' (Some ''At risk'')] else []),
            dv_sections =
              [(''Lines'', Grid [''Product'', ''Ordered'', ''Received'', ''Unit Cost''] line_rows),
               (''Lifecycle'', Grid [''When'', ''From'', ''To''] events)]\<rparr>
      | _ \<Rightarrow> None)"

definition sales_line_cells :: "cell list" where
  "sales_line_cells =
     [text_cell ''product_id'', text_cell ''quantity_ordered'', text_cell ''quantity_shipped'', price_cell ''unit_price'']"

definition shipment_cells :: "(string \<Rightarrow> string) \<Rightarrow> cell list" where
  "shipment_cells other =
     [text_cell ''carrier_id'', date_cell other ''ship_date'', date_cell other ''promised_delivery_date'',
      optional_date_cell other ''actual_delivery_date'', shipment_badges]"

definition sales_order_view :: "(string \<Rightarrow> string) \<Rightarrow> (string \<Rightarrow> string) \<Rightarrow> json \<Rightarrow> detail_view option" where
  "sales_order_view other local so1 =
     (case (rendered_prop (opt_prop so1 ''so_number''), grid sales_line_cells (opt_prop so1 ''lines''),
            grid (shipment_cells other) (opt_prop so1 ''shipments''), grid (event_cells local) (opt_prop so1 ''lifecycle_events'')) of
        (Some title, Some line_rows, Some shipment_rows, Some events) \<Rightarrow>
          Some \<lparr>dv_title = title,
            dv_description = ''Ordered '' @ formatDate other (template (opt_prop so1 ''order_date'')) @ '' by ''
              @ template (opt_prop so1 ''customer_id'') @ '', warehouse '' @ template (opt_prop so1 ''warehouse_id'') @ ''.'',
            dv_badges = [],
            dv_sections =
              [(''Lines'', Grid [''Product'', ''Ordered'', ''Shipped'', ''Unit Price''] line_rows),
               (''Shipments'', if shipment_rows = [] then Sentence ''No shipments yet.''
                             else Grid [''Carrier'', ''Ship Date'', ''Promised'', ''Actual'', ''Status''] shipment_rows),
               (''Lifecycle'', Grid [''When'', ''From'', ''To''] events)]\<rparr>
      | _ \<Rightarrow> None)"

text \<open>\<open>v && <Card>...</Card>\<close>: a falsy value is the child itself, and of those only a zero is visible.\<close>

definition card_if :: "json option \<Rightarrow> string \<Rightarrow> (json \<Rightarrow> detail_section option) \<Rightarrow> (string \<times> detail_section) list option" where
  "card_if v title view =
     (case v of
        Some j \<Rightarrow> if truthy_json v then map_option (\<lambda>s. [(title, s)]) (view j)
                  else Some (case j of JNum n \<Rightarrow> [([], Sentence (show_int n))] | _ \<Rightarrow> [])
      | None \<Rightarrow> Some [])"

definition status_note :: "(string \<Rightarrow> string) \<Rightarrow> string \<Rightarrow> string \<Rightarrow> json \<Rightarrow> string option" where
  "status_note other verb k j =
     map_option (\<lambda>s. verb @ '' '' @ formatDate other (template (opt_prop j k)) @ '' '' @ em_dash @ '' status '' @ s)
       (rendered_prop (opt_prop j ''status''))"

definition order_card :: "(string \<Rightarrow> string) \<Rightarrow> json \<Rightarrow> detail_section option" where
  "order_card other po =
     (case (rendered_prop (opt_prop po ''po_number''), status_note other ''Expected'' ''expected_delivery_date'' po) of
        (Some t, Some note) \<Rightarrow> Some (Linked_card ''Purchase order'' (Link_to (''/orders/'' @ template (opt_prop po ''id'')) t) note)
      | _ \<Rightarrow> None)"

definition shipment_card :: "(string \<Rightarrow> string) \<Rightarrow> json \<Rightarrow> detail_section option" where
  "shipment_card other s =
     map_option (Linked_card ''Shipment'' (Link_to (''/orders/sales/'' @ template (opt_prop s ''sales_order_id'')) ''View sales order''))
       (status_note other ''Promised'' ''promised_delivery_date'' s)"

definition inventory_card :: "json \<Rightarrow> detail_section option" where
  "inventory_card v =
     (case (rendered_prop (opt_prop v ''product_id''), rendered_prop (opt_prop v ''warehouse_id''),
            rendered (nullish_or (opt_prop v ''quantity_on_hand'') (JStr em_dash)),
            rendered (nullish_or (opt_prop v ''days_of_supply'') (JStr em_dash))) of
        (Some p, Some w, Some q, Some d) \<Rightarrow>
          Some (Linked_card ''Inventory position''
            (Link_to (''/inventory/'' @ template (opt_prop v ''product_id'') @ ''/'' @ template (opt_prop v ''warehouse_id''))
               (p @ '' @ '' @ w))
            (''On hand '' @ q @ '', days of supply '' @ d))
      | _ \<Rightarrow> None)"

definition drilldown_cards :: "(string \<Rightarrow> string) \<Rightarrow> json \<Rightarrow> (string \<times> detail_section) list option" where
  "drilldown_cards other drilldown =
     (case (card_if (opt_prop drilldown ''purchase_order'') ''Purchase order'' (order_card other),
            card_if (opt_prop drilldown ''shipment'') ''Shipment'' (shipment_card other),
            card_if (opt_prop drilldown ''inventory'') ''Inventory position'' inventory_card) of
        (Some a, Some b, Some d) \<Rightarrow> Some (a @ b @ d)
      | _ \<Rightarrow> None)"

definition exception_view :: "(string \<Rightarrow> string) \<Rightarrow> json \<Rightarrow> detail_view option" where
  "exception_view other drilldown =
     (case opt_prop drilldown ''flag'' of
        None \<Rightarrow> None
      | Some flag \<Rightarrow>
          (case (category_cell flag, rendered (nullish_or (opt_prop flag ''measured_value'') (JStr em_dash)),
                 rendered_prop (opt_prop flag ''threshold_value''), drilldown_cards other drilldown) of
             (Some (Plain title), Some measured, Some threshold, Some cards) \<Rightarrow>
               Some \<lparr>dv_title = title,
                 dv_description = ''First detected '' @ formatDate other (template (opt_prop flag ''first_detected_simulation_date''))
                   @ '', last observed '' @ formatDate other (template (opt_prop flag ''simulation_date'')) @ ''.'',
                 dv_badges = [if truthy_json (opt_prop flag ''resolved_at'') then Badge ''secondary'' (Some ''Resolved'')
                              else Badge ''destructive'' (Some ''Open'')],
                 dv_sections = (''Measurement'', Figures [(''Measured'', measured), (''Threshold'', threshold)]) # cards\<rparr>
           | _ \<Rightarrow> None))"

section \<open>Every record can be shown\<close>

lemma show_text: "map_of fs k = Some p \<Longrightarrow> plain_schema p \<Longrightarrow> showable (PModel fs) (text_cell k)"
  "map_of fs k = Some p \<Longrightarrow> plain_schema p \<Longrightarrow> showable (PModel fs) (price_cell k)"
  by (auto simp: showable_def text_cell_def price_cell_def elim: rendered_field)

lemma row_shown: "list_all (showable p) cells \<Longrightarrow> dumps p row \<Longrightarrow> \<exists>vs. those (map (\<lambda>c. c row) cells) = Some vs"
proof (induction cells)
  case (Cons c cells)
  then show ?case by (auto simp: showable_def)
qed simp

lemma grid_shown:
  assumes "list_all (showable p) cells" "dumps (PList p) v"
  shows "\<exists>rows. grid cells (Some v) = Some rows"
proof -
  obtain xs where xs: "v = JArr xs" "list_all (dumps p) xs" using assms(2) by (cases v) auto
  from xs(2) have "\<exists>rows. those (map (\<lambda>row. those (map (\<lambda>c. c row) cells)) xs) = Some rows"
  proof (induction xs)
    case (Cons x xs)
    moreover obtain vs where "those (map (\<lambda>c. c x) cells) = Some vs"
      using Cons.prems row_shown [OF assms(1)] by fastforce
    ultimately show ?case by auto
  qed simp
  then show ?thesis by (simp add: xs(1))
qed

lemma grid_field:
  assumes "dumps (PModel fs) j" "map_of fs k = Some (PList p)" "list_all (showable p) cells"
  shows "\<exists>rows. grid cells (opt_prop j k) = Some rows"
proof -
  obtain v where "opt_prop j k = Some v" "dumps (PList p) v" using dumps_field [OF assms(1,2)] by blast
  then show ?thesis using grid_shown [OF assms(3)] by simp
qed

lemma text_field:
  "dumps (PModel fs) j \<Longrightarrow> map_of fs k = Some p \<Longrightarrow> plain_schema p \<Longrightarrow> \<exists>s. rendered_prop (opt_prop j k) = Some s"
  by (auto elim: rendered_field)

lemma dash_field:
  assumes "dumps (PModel fs) j" "map_of fs k = Some p" "plain_schema p"
  shows "\<exists>s. rendered (nullish_or (opt_prop j k) (JStr em_dash)) = Some s"
  using show_or_dash [OF assms(2,3)] assms(1) by (auto simp: showable_def or_dash_cell_def)

lemmas line_defs = order_line_cells_def sales_line_cells_def shipment_cells_def event_cells_def

lemma order_lines_showable: "list_all (showable py_PurchaseOrderLineRead) order_line_cells"
  unfolding line_defs list.pred_inject dashboard_py by (intro conjI TrueI show_text show_rules) simp+

lemma order_events_showable: "list_all (showable py_PurchaseOrderLifecycleEventRead) (event_cells f)"
  unfolding line_defs list.pred_inject dashboard_py by (intro conjI TrueI show_text show_rules) simp+

lemma sales_lines_showable: "list_all (showable py_SalesOrderLineRead) sales_line_cells"
  unfolding line_defs list.pred_inject dashboard_py by (intro conjI TrueI show_text show_rules) simp+

lemma sales_events_showable: "list_all (showable py_SalesOrderLifecycleEventRead) (event_cells f)"
  unfolding line_defs list.pred_inject dashboard_py by (intro conjI TrueI show_text show_rules) simp+

lemma shipment_rows_showable: "list_all (showable py_ShipmentRead) (shipment_cells f)"
  unfolding line_defs list.pred_inject dashboard_py by (intro conjI TrueI show_text show_rules) simp+

lemma order_shown:
  assumes "dumps py_PurchaseOrderDetailRead j"
  shows "\<exists>v. order_view other local j = Some v"
proof -
  note j = assms [unfolded py_PurchaseOrderDetailRead_def py_PurchaseOrderSummaryRead_def inherits.simps append.simps]
  from text_field [OF j, of "''po_number''"] grid_field [OF j, of "''lines''", OF _ order_lines_showable]
    grid_field [OF j, of "''lifecycle_events''", OF _ order_events_showable [of local]]
  show ?thesis by (auto simp: order_view_def)
qed

lemma sales_order_shown:
  assumes "dumps py_SalesOrderDetailRead j"
  shows "\<exists>v. sales_order_view other local j = Some v"
proof -
  note j = assms [unfolded py_SalesOrderDetailRead_def py_SalesOrderSummaryRead_def inherits.simps append.simps]
  from text_field [OF j, of "''so_number''"] grid_field [OF j, of "''lines''", OF _ sales_lines_showable]
    grid_field [OF j, of "''lifecycle_events''", OF _ sales_events_showable [of local]] grid_field [OF j, of "''shipments''", OF _ shipment_rows_showable [of other]]
  show ?thesis by (auto simp: sales_order_view_def)
qed

lemma card_shown:
  assumes "dumps (PModel fs) j" "map_of fs k = Some (POptional p)" "\<And>v. dumps p v \<Longrightarrow> \<exists>c. view v = Some c"
  shows "\<exists>cs. card_if (opt_prop j k) title view = Some cs"
proof -
  obtain v where v: "opt_prop j k = Some v" "dumps (POptional p) v" using dumps_field [OF assms(1,2)] by blast
  then show ?thesis using assms(3) [of v] by (cases v) (auto simp: card_if_def)
qed

lemma status_noted:
  assumes "dumps (PModel fs) j" "map_of fs ''status'' = Some (PEnum vs)"
  shows "\<exists>s. status_note other verb k j = Some s"
  using text_field [OF assms] by (auto simp: status_note_def)

lemma order_card_shown: "dumps py_PurchaseOrderSummaryRead j \<Longrightarrow> \<exists>c. order_card other j = Some c"
proof -
  assume "dumps py_PurchaseOrderSummaryRead j"
  note j = this [unfolded dashboard_py]
  from text_field [OF j, of "''po_number''"] status_noted [OF j, of _ other "''Expected''" "''expected_delivery_date''"]
  show ?thesis by (auto simp: order_card_def)
qed

lemma shipment_card_shown: "dumps py_ShipmentRead j \<Longrightarrow> \<exists>c. shipment_card other j = Some c"
proof -
  assume "dumps py_ShipmentRead j"
  note j = this [unfolded dashboard_py]
  from status_noted [OF j, of _ other "''Promised''" "''promised_delivery_date''"]
  show ?thesis by (auto simp: shipment_card_def)
qed

lemma inventory_card_shown: "dumps py_InventoryPositionRead j \<Longrightarrow> \<exists>c. inventory_card j = Some c"
proof -
  assume "dumps py_InventoryPositionRead j"
  note j = this [unfolded dashboard_py]
  from text_field [OF j, of "''product_id''"] text_field [OF j, of "''warehouse_id''"]
    dash_field [OF j, of "''quantity_on_hand''"] dash_field [OF j, of "''days_of_supply''"]
  show ?thesis by (auto simp: inventory_card_def)
qed

lemma exception_shown:
  assumes "dumps py_ExceptionDrilldownRead j"
  shows "\<exists>v. exception_view other j = Some v"
proof -
  note j = assms [unfolded py_ExceptionDrilldownRead_def]
  obtain flag where flag: "opt_prop j ''flag'' = Some flag" "dumps py_ExceptionFlagRead flag"
    by (rule dumps_field [OF j, of "''flag''" py_ExceptionFlagRead]) auto
  note f = flag(2) [unfolded dashboard_py]
  have "\<exists>t. category_cell flag = Some (Plain t)"
    using text_field [OF f, of "''category''"] by (auto simp: category_cell_def split: option.split)
  moreover have "\<exists>s. rendered (nullish_or (opt_prop flag ''measured_value'') (JStr em_dash)) = Some s"
    using dash_field [OF f, of "''measured_value''"] by auto
  moreover have "\<exists>s. rendered_prop (opt_prop flag ''threshold_value'') = Some s"
    using text_field [OF f, of "''threshold_value''"] by auto
  moreover obtain as bs ds where
    "card_if (opt_prop j ''purchase_order'') ''Purchase order'' (order_card other) = Some as"
    "card_if (opt_prop j ''shipment'') ''Shipment'' (shipment_card other) = Some bs"
    "card_if (opt_prop j ''inventory'') ''Inventory position'' inventory_card = Some ds"
  proof -
    have "\<exists>cs. card_if (opt_prop j ''purchase_order'') ''Purchase order'' (order_card other) = Some cs"
      by (rule card_shown [OF j _ order_card_shown]) auto
    moreover have "\<exists>cs. card_if (opt_prop j ''shipment'') ''Shipment'' (shipment_card other) = Some cs"
      by (rule card_shown [OF j _ shipment_card_shown]) auto
    moreover have "\<exists>cs. card_if (opt_prop j ''inventory'') ''Inventory position'' inventory_card = Some cs"
      by (rule card_shown [OF j _ inventory_card_shown]) auto
    ultimately show thesis using that by blast
  qed
  then have "\<exists>cs. drilldown_cards other j = Some cs" by (simp add: drilldown_cards_def)
  ultimately show ?thesis using flag(1) by (auto simp: exception_view_def)
qed

section \<open>From the backend to the view\<close>

definition detail_views ::
  "(string \<Rightarrow> string) \<Rightarrow> (string \<Rightarrow> string) \<Rightarrow> ((ctx \<Rightarrow> string \<Rightarrow> page_view io) \<times> py_type \<times> (json \<Rightarrow> detail_view option)) list" where
  "detail_views other local =
     [(OrderDetailPage, py_PurchaseOrderDetailRead, order_view other local),
      (SalesOrderDetailPage, py_SalesOrderDetailRead, sales_order_view other local),
      (ExceptionDetailPage, py_ExceptionDrilldownRead, exception_view other)]"

lemma listed_field:
  assumes "dumps (PModel fs) j" "map_of fs k = Some (PList p)"
  shows "map_prop j k = ret ()"
proof -
  obtain v where v: "opt_prop j k = Some v" "dumps (PList p) v" using dumps_field [OF assms] by blast
  then obtain xs where "v = JArr xs" by (cases v) auto
  moreover have "j \<noteq> JNull" using v(1) by auto
  ultimately show ?thesis using v(1) by (simp add: map_prop_def get_prop_non_null)
qed

text \<open>C36: The three detail pages show every record there is: when the backend answers with any object that the
  schema of a purchase order, a sales order or an exception serialises, the page loads it and renders it
  whole; no missing value, empty list or absent related record makes it throw.\<close>

theorem detail_pages_show_their_record:
  assumes "(page, schema, view) \<in> set (detail_views other local)" and "dumps schema j"
    and "truthy (get_cookie c orbyn_session) = Some token" and "truthy (cx_base_url c) = Some base"
    and "\<And>rq. net rq = Reply r" and "rs_status r = 200" and "rs_body r = BodyJson j"
  shows "result (page c i) net = Returned (Record_view j) \<and> (\<exists>v. view j = Some v)"
proof -
  have run: "result (dashboardFetch c path) net = Returned r" for path
    using assms(3-5) by (simp add: dashboardFetch_def gate_simps)
  note page_run = getPurchaseOrderDetail_def getSalesOrderDetail_def getExceptionDrilldown_def result_and_then run resp_json_def
    assms(6,7)
  from assms(1) consider
      "page = OrderDetailPage" "schema = py_PurchaseOrderDetailRead" "view = order_view other local"
    | "page = SalesOrderDetailPage" "schema = py_SalesOrderDetailRead" "view = sales_order_view other local"
    | "page = ExceptionDetailPage" "schema = py_ExceptionDrilldownRead" "view = exception_view other"
    unfolding detail_views_def by auto
  then show ?thesis
  proof cases
    case 1
    note j = assms(2) [unfolded 1 py_PurchaseOrderDetailRead_def py_PurchaseOrderSummaryRead_def inherits.simps append.simps]
    have "map_prop j ''lines'' = ret ()" "map_prop j ''lifecycle_events'' = ret ()" by (rule listed_field [OF j]; simp)+
    then show ?thesis using assms(2) 1 order_shown by (simp add: OrderDetailPage_def page_run)
  next
    case 2
    note j = assms(2) [unfolded 2 py_SalesOrderDetailRead_def py_SalesOrderSummaryRead_def inherits.simps append.simps]
    have "map_prop j ''lines'' = ret ()" "map_prop j ''lifecycle_events'' = ret ()" "map_prop j ''shipments'' = ret ()"
      by (rule listed_field [OF j]; simp)+
    then show ?thesis using assms(2) 2 sales_order_shown by (simp add: SalesOrderDetailPage_def page_run)
  next
    case 3
    note j = assms(2) [unfolded 3 py_ExceptionDrilldownRead_def]
    obtain flag where flag: "opt_prop j ''flag'' = Some flag" "dumps py_ExceptionFlagRead flag"
      by (rule dumps_field [OF j, of "''flag''" py_ExceptionFlagRead]) auto
    have "j \<noteq> JNull" "flag \<noteq> JNull" using flag by (auto simp: py_ExceptionFlagRead_def dumps.simps)
    then show ?thesis
      using assms(2) 3 exception_shown flag(1) by (simp add: ExceptionDetailPage_def page_run get_prop_non_null)
  qed
qed

theorem detail_pages_show_their_record_witness:
  "result (SalesOrderDetailPage analyst_ctx ''so-1'') (\<lambda>rq. Reply (json_response (sample py_SalesOrderDetailRead) 200))
      = Returned (Record_view (sample py_SalesOrderDetailRead))
    \<and> (\<exists>v. sales_order_view id id (sample py_SalesOrderDetailRead) = Some v)"
proof (rule detail_pages_show_their_record [where r = "json_response (sample py_SalesOrderDetailRead) 200"])
  show "(SalesOrderDetailPage, py_SalesOrderDetailRead, sales_order_view id id) \<in> set (detail_views id id)"
    by (simp add: detail_views_def)
  show "dumps py_SalesOrderDetailRead (sample py_SalesOrderDetailRead)" by (rule dumps_sample) (simp add: dashboard_py)
qed (simp_all add: analyst_ctx_def get_cookie_def orbyn_session_def json_response_def)

section \<open>Links of the exception page\<close>

text \<open>Those to orders carry UUIDs and open the orders' pages.\<close>

lemma exception_links_open:
  assumes "\<And>s. list_all uri_unreserved s \<Longrightarrow> param s = s"
  shows "order_card other po = Some (Linked_card t (Link_to href shown) note) \<Longrightarrow> opt_prop po ''id'' = Some (JStr i) \<Longrightarrow> uuid_text i \<Longrightarrow>
      record_page param c href = Some (OrderDetailPage c i)"
    "shipment_card other s = Some (Linked_card t (Link_to href shown) note) \<Longrightarrow> opt_prop s ''sales_order_id'' = Some (JStr i) \<Longrightarrow>
      uuid_text i \<Longrightarrow> record_page param c href = Some (SalesOrderDetailPage c i)"
  using uuid_pages [OF _ assms]
  by (auto simp: order_card_def shipment_card_def simp del: append.simps split: option.splits)

text \<open>The one to the inventory is not encoded, as it is in \<open>inventory-table.tsx\<close>: with a slash in the id of a product the
  link leads to no page.\<close>

lemma exception_inventory_link_lost:
  assumes "opt_prop v ''product_id'' = Some (JStr ''box/12'')" "opt_prop v ''warehouse_id'' = Some (JStr ''W1'')"
    and "inventory_card v = Some (Linked_card t (Link_to href shown) note)"
  shows "href = ''/inventory/box/12/W1'' \<and> \<not> is_page (orbyn_app_pages @ orbyn_open_pages) href"
  using assms by (auto simp: inventory_card_def rendered_prop_def is_page_def segments_def orbyn_app_pages_def orbyn_open_pages_def
      split: option.splits)

end
