(* ===== verification/Overview_Charts.thy ===== *)
theory Overview_Charts
  imports Overview_Page Data_Pages
begin

text \<open>
  The charts of the Overview and of Analytics (\<open>overview/activity-charts.tsx\<close>,
  \<open>overview/network-charts.tsx\<close>, \<open>kpi-trend-chart.tsx\<close>): when a card is empty, the data it hands to the chart
  library and the colours it refers to, with the style rules that declare them (\<open>ChartStyle\<close> of
  \<open>ui/chart.tsx\<close>).
\<close>

section \<open>Configurations and their style rules\<close>

text \<open>Key, label and colour, in the order of the object; no chart here has a theme of its own.\<close>

type_synonym chart_config = "(string \<times> string \<times> string) list"

definition color_var :: "string \<Rightarrow> string" where
  "color_var key = ''var(--color-'' @ key @ '')''"

definition css_color :: "string \<times> string \<times> string \<Rightarrow> string" where
  "css_color item = (case item of (key, label, color) \<Rightarrow> ''  --color-'' @ key @ '': '' @ color @ '';'')"

definition new_line :: string where
  "new_line = [CHR 0x0A]"

definition THEMES :: "(string \<times> string) list" where
  "THEMES = [(''light'', []), (''dark'', ''.dark'')]"

definition ChartStyle :: "string \<Rightarrow> chart_config \<Rightarrow> string option" where
  "ChartStyle chart_id config =
     (let colorConfig = filter (\<lambda>(key, label, color). color \<noteq> []) config
      in if colorConfig = [] then None
         else Some (join_with new_line
                (map (\<lambda>(name, prefix).
                        new_line @ prefix @ '' [data-chart='' @ chart_id @ ''] {'' @ new_line
                        @ join_with new_line (map css_color colorConfig) @ new_line @ ''}'' @ new_line)
                  THEMES)))"

section \<open>Cards\<close>

text \<open>
  A row of data is an object; \<open>Gap\<close> is \<open>null\<close>, \<open>Not_number\<close> is \<open>NaN\<close>. \<open>cc_axis\<close> is the key that names a row (of an
  axis or of a slice), \<open>cc_series\<close> are the keys drawn, \<open>cc_paints\<close> what series and slices are painted with.
\<close>

datatype chart_value = Words string | Amount rat | Not_number | Gap

type_synonym chart_row = "(string \<times> chart_value) list"

record chart_card =
  cc_title :: string
  cc_description :: string
  cc_isEmpty :: bool
  cc_emptyMessage :: string
  cc_config :: chart_config
  cc_data :: "chart_row list"
  cc_axis :: string
  cc_series :: "string list"
  cc_paints :: "string list"

definition count_value :: "int \<Rightarrow> chart_value" where
  "count_value n = Amount (of_int n)"

definition Number_value :: "string \<Rightarrow> chart_value" where
  "Number_value s = (case Number_text s of Some x \<Rightarrow> Amount x | None \<Rightarrow> Not_number)"

definition chart_color :: "nat \<Rightarrow> string" where
  "chart_color n = ''var(--chart-'' @ show_nat n @ '')''"

definition KPI_CONFIG :: chart_config where
  "KPI_CONFIG =
     [(''otif_pct'', ''OTIF %'', chart_color 1), (''fill_rate_pct'', ''Fill rate %'', chart_color 2),
      (''perfect_order_rate_pct'', ''Perfect order %'', chart_color 3)]"

definition toNumber :: "string option \<Rightarrow> chart_value" where
  "toNumber value = (case value of None \<Rightarrow> Gap | Some s \<Rightarrow> Number_value s)"

definition kpi_data :: "kpi_point list \<Rightarrow> chart_row list" where
  "kpi_data rows =
     map (\<lambda>row. [(''simulation_date'', Words (kp_simulation_date row)), (''otif_pct'', toNumber (kp_otif_pct row)),
                  (''fill_rate_pct'', toNumber (kp_fill_rate_pct row)),
                  (''perfect_order_rate_pct'', toNumber (kp_perfect_order_rate_pct row))]) rows"

definition KpiTrendCard :: "kpi_point list \<Rightarrow> chart_card" where
  "KpiTrendCard rows =
     \<lparr>cc_title = ''Service level trend'',
      cc_description = ''Running OTIF, fill rate and perfect-order rate, as recorded each day'',
      cc_isEmpty = length (kpi_data rows) < 2,
      cc_emptyMessage = ''A trend needs at least two daily KPI readings.'', cc_config = KPI_CONFIG,
      cc_data = kpi_data rows, cc_axis = ''simulation_date'', cc_series = map fst KPI_CONFIG,
      cc_paints = map (\<lambda>(key, label, color). color_var key) KPI_CONFIG\<rparr>"

text \<open>The same chart on the Analytics page, with its own configuration; that page shows it for any rows at all.\<close>

definition CHART_CONFIG :: chart_config where
  "CHART_CONFIG =
     [(''otif_pct'', ''OTIF %'', chart_color 1), (''fill_rate_pct'', ''Fill Rate %'', chart_color 2),
      (''perfect_order_rate_pct'', ''Perfect Order %'', chart_color 3)]"

definition KpiTrendChart :: "kpi_point list \<Rightarrow> chart_card" where
  "KpiTrendChart rows =
     \<lparr>cc_title = [], cc_description = [], cc_isEmpty = False, cc_emptyMessage = [], cc_config = CHART_CONFIG,
      cc_data = kpi_data rows, cc_axis = ''simulation_date'',
      cc_series = [''otif_pct'', ''fill_rate_pct'', ''perfect_order_rate_pct''],
      cc_paints = [color_var ''otif_pct'', color_var ''fill_rate_pct'', color_var ''perfect_order_rate_pct'']\<rparr>"

definition DELIVERY_CONFIG :: chart_config where
  "DELIVERY_CONFIG =
     [(''delivered_on_time'', ''Delivered on time'', chart_color 2), (''delivered_late'', ''Delivered late'', chart_color 4),
      (''in_progress'', ''In progress'', chart_color 1), (''exception'', ''Exception'', chart_color 3)]"

text \<open>\<open>breakdown[key]\<close>\<close>

definition breakdown_at :: "shipment_breakdown \<Rightarrow> string \<Rightarrow> int" where
  "breakdown_at b key =
     (if key = ''delivered_on_time'' then sb_delivered_on_time b
      else if key = ''delivered_late'' then sb_delivered_late b
      else if key = ''in_progress'' then sb_in_progress b else sb_exception b)"

text \<open>A slice: key, label, value and fill.\<close>

definition outcome_slices :: "shipment_breakdown \<Rightarrow> (string \<times> string \<times> int \<times> string) list" where
  "outcome_slices b =
     filter (\<lambda>(key, label, value, paint). value > 0)
       (map (\<lambda>(key, label, color). (key, label, breakdown_at b key, color_var key)) DELIVERY_CONFIG)"

definition outcome_total :: "shipment_breakdown \<Rightarrow> int" where
  "outcome_total b = sum_list (map (\<lambda>(key, label, value, paint). value) (outcome_slices b))"

definition ShipmentOutcomeCard :: "shipment_breakdown \<Rightarrow> chart_card" where
  "ShipmentOutcomeCard b =
     \<lparr>cc_title = ''Shipment outcomes'', cc_description = ''Shipments dispatched in this window'',
      cc_isEmpty = outcome_total b = 0,
      cc_emptyMessage = ''No shipments dispatched in this window.'', cc_config = DELIVERY_CONFIG,
      cc_data = map (\<lambda>(key, label, value, paint).
          [(''key'', Words key), (''label'', Words label), (''value'', count_value value), (''fill'', Words paint)]) (outcome_slices b),
      cc_axis = ''key'', cc_series = [''value''],
      cc_paints = map (\<lambda>(key, label, value, paint). paint) (outcome_slices b)\<rparr>"

text \<open>A day of activity as an object, and with its order value as a number.\<close>

definition day_row :: "daily_activity \<Rightarrow> chart_row" where
  "day_row d =
     [(''simulation_date'', Words (da_simulation_date d)), (''orders_placed'', count_value (da_orders_placed d)),
      (''order_value'', Words (da_order_value d)), (''shipments_shipped'', count_value (da_shipments_shipped d)),
      (''delivered_on_time'', count_value (da_delivered_on_time d)), (''delivered_late'', count_value (da_delivered_late d)),
      (''purchase_orders_placed'', count_value (da_purchase_orders_placed d))]"

definition OrderActivityCard :: "daily_activity list \<Rightarrow> chart_card" where
  "OrderActivityCard days =
     \<lparr>cc_title = ''Orders and demand'',
      cc_description = ''Sales orders placed per day, with the value of what was ordered'',
      cc_isEmpty = list_all (\<lambda>d. da_orders_placed d = 0) days,
      cc_emptyMessage = ''No sales orders were placed in this window.'',
      cc_config = [(''orders_placed'', ''Orders placed'', chart_color 1), (''order_value'', ''Order value'', chart_color 5)],
      cc_data = map (\<lambda>d. put ''order_value'' (Number_value (da_order_value d)) (day_row d)) days,
      cc_axis = ''simulation_date'', cc_series = [''orders_placed'', ''order_value''],
      cc_paints = [color_var ''orders_placed'', color_var ''order_value'']\<rparr>"

definition DeliveriesCard :: "daily_activity list \<Rightarrow> chart_card" where
  "DeliveriesCard days =
     \<lparr>cc_title = ''Deliveries per day'',
      cc_description = ''Shipments delivered, split by whether they met the promised date'',
      cc_isEmpty = list_all (\<lambda>d. da_delivered_on_time d + da_delivered_late d = 0) days,
      cc_emptyMessage = ''No deliveries completed in this window.'',
      cc_config = [(''delivered_on_time'', ''On time'', chart_color 2), (''delivered_late'', ''Late'', chart_color 4)],
      cc_data = map day_row days, cc_axis = ''simulation_date'', cc_series = [''delivered_on_time'', ''delivered_late''],
      cc_paints = [color_var ''delivered_on_time'', color_var ''delivered_late'']\<rparr>"

definition STATUS_COLORS :: "string list" where
  "STATUS_COLORS = [chart_color 1, chart_color 2, chart_color 3, chart_color 4, chart_color 5]"

text \<open>\<open>s.label.replace(/_/g, " ")\<close>\<close>

definition spaced :: "string \<Rightarrow> string" where
  "spaced s = map (\<lambda>c. if c = CHR ''_'' then CHR '' '' else c) s"

definition status_config :: "(string \<times> int) list \<Rightarrow> chart_config" where
  "status_config statuses =
     fold (\<lambda>(i, label, n) ps. put label (spaced label, STATUS_COLORS ! (i mod length STATUS_COLORS)) ps)
       (zip [0..<length statuses] statuses) []"

definition OrderStatusCard :: "(string \<times> int) list \<Rightarrow> chart_card" where
  "OrderStatusCard statuses =
     \<lparr>cc_title = ''Where orders stand'', cc_description = ''Sales orders placed in this window, by current status'',
      cc_isEmpty = sum_list (map snd statuses) = 0,
      cc_emptyMessage = ''No sales orders were placed in this window.'', cc_config = status_config statuses,
      cc_data = map (\<lambda>(label, n). [(''label'', Words label), (''count'', count_value n), (''fill'', Words (color_var label))]) statuses,
      cc_axis = ''label'', cc_series = [''count''],
      cc_paints = map (\<lambda>(label, n). color_var label) statuses\<rparr>"

definition NewExceptionsCard :: "(string \<times> int) list \<Rightarrow> chart_card" where
  "NewExceptionsCard days =
     \<lparr>cc_title = ''Exceptions detected per day'',
      cc_description = ''Newly flagged problems, whether or not they have since cleared'',
      cc_isEmpty = list_all (\<lambda>(date, n). n = 0) days,
      cc_emptyMessage = ''No new exceptions were detected in this window.'',
      cc_config = [(''count'', ''New exceptions'', chart_color 4)],
      cc_data = map (\<lambda>(date, n). [(''simulation_date'', Words date), (''count'', count_value n)]) days,
      cc_axis = ''simulation_date'', cc_series = [''count''], cc_paints = [color_var ''count'']\<rparr>"

definition stock_row :: "warehouse_stock \<Rightarrow> chart_row" where
  "stock_row w =
     [(''warehouse_id'', Words (ws_warehouse_id w)), (''warehouse_name'', Words (ws_warehouse_name w)),
      (''units_on_hand'', count_value (ws_units_on_hand w)), (''units_allocated'', count_value (ws_units_allocated w)),
      (''avg_days_of_supply'', (case ws_avg_days_of_supply w of None \<Rightarrow> Gap | Some s \<Rightarrow> Words s)),
      (''low_stock_positions'', count_value (ws_low_stock_positions w)), (''name'', Words (ws_warehouse_name w))]"

definition WarehouseStockCard :: "warehouse_stock list \<Rightarrow> chart_card" where
  "WarehouseStockCard warehouses =
     \<lparr>cc_title = ''Stock by warehouse'',
      cc_description = ''Units on hand and units already allocated, from the latest stock snapshot'',
      cc_isEmpty = list_all (\<lambda>w. ws_units_on_hand w = 0 \<and> ws_units_allocated w = 0) warehouses,
      cc_emptyMessage = ''No stock has been recorded yet.'',
      cc_config = [(''units_on_hand'', ''On hand'', chart_color 1), (''units_allocated'', ''Allocated to orders'', chart_color 3)],
      cc_data = map stock_row warehouses, cc_axis = ''name'', cc_series = [''units_on_hand'', ''units_allocated''],
      cc_paints = [color_var ''units_on_hand'', color_var ''units_allocated'']\<rparr>"

definition TopProductsCard :: "product_demand list \<Rightarrow> chart_card" where
  "TopProductsCard products =
     \<lparr>cc_title = ''Most-ordered products'', cc_description = ''Units ordered versus units shipped so far, by product'',
      cc_isEmpty = (products = []),
      cc_emptyMessage = ''No product demand in this window.'',
      cc_config = [(''units_ordered'', ''Ordered'', chart_color 1), (''units_shipped'', ''Shipped'', chart_color 2)],
      cc_data = map (\<lambda>p. [(''product_id'', Words (pd_product_id p)), (''product_name'', Words (pd_product_name p)),
          (''units_ordered'', count_value (pd_units_ordered p)), (''units_shipped'', count_value (pd_units_shipped p))]) products,
      cc_axis = ''product_name'', cc_series = [''units_ordered'', ''units_shipped''],
      cc_paints = [color_var ''units_ordered'', color_var ''units_shipped'']\<rparr>"

definition OpenExceptionsCard :: "(string \<times> int) list \<Rightarrow> chart_card" where
  "OpenExceptionsCard counts =
     \<lparr>cc_title = ''Open exceptions'', cc_description = ''Problems flagged and not yet cleared, by category'',
      cc_isEmpty = (counts = []),
      cc_emptyMessage = ''No open exceptions right now.'', cc_config = [(''open_count'', ''Open'', chart_color 4)],
      cc_data = map (\<lambda>(category, n).
          [(''category'', Words category), (''open_count'', count_value n), (''name'', Words (exception_label category))]) counts,
      cc_axis = ''name'', cc_series = [''open_count''], cc_paints = [color_var ''open_count'']\<rparr>"

text \<open>The page places one of each, in this order.\<close>

definition overview_cards :: "overview \<Rightarrow> chart_card list" where
  "overview_cards ov =
     [KpiTrendCard (ov_kpi_trend ov), ShipmentOutcomeCard (ov_shipment_delivery ov),
      OrderActivityCard (ov_daily_activity ov), DeliveriesCard (ov_daily_activity ov),
      OrderStatusCard (ov_sales_order_status ov), WarehouseStockCard (ov_inventory_by_warehouse ov),
      TopProductsCard (ov_top_products ov), OpenExceptionsCard (ov_open_exceptions_by_category ov),
      NewExceptionsCard (ov_new_exceptions_per_day ov)]"

section \<open>Properties\<close>

text \<open>A paint is declared when the style rules give its custom property a colour.\<close>

definition paint_declared :: "string \<Rightarrow> chart_config \<Rightarrow> string \<Rightarrow> bool" where
  "paint_declared chart_id config paint \<longleftrightarrow>
     list_ex (\<lambda>(key, label, color).
         color \<noteq> [] \<and> paint = color_var key
         \<and> (case ChartStyle chart_id config of
              Some css \<Rightarrow> str_includes css (css_color (key, label, color)) | None \<Rightarrow> False)) config"

lemma style_includes:
  assumes "item \<in> set config" "snd (snd item) \<noteq> []"
  shows "\<exists>css. ChartStyle chart_id config = Some css \<and> str_includes css (css_color item)"
proof -
  let ?colors = "filter (\<lambda>(key, label, color). color \<noteq> []) config"
  let ?body = "join_with new_line (map css_color ?colors)"
  let ?rule = "\<lambda>prefix. new_line @ prefix @ '' [data-chart='' @ chart_id @ ''] {'' @ new_line @ ?body @ new_line @ ''}'' @ new_line"
  have item: "item \<in> set ?colors" using assms by auto
  then have "str_includes ?body (css_color item)" by (intro str_includes_join [OF _ str_includes_refl]) auto
  then have rule: "str_includes (?rule []) (css_color item)"
    using str_includes_append [of ?body "css_color item" "new_line @ '' [data-chart='' @ chart_id @ ''] {'' @ new_line" "new_line @ ''}'' @ new_line"]
    by simp
  have style: "ChartStyle chart_id config = Some (join_with new_line (map (\<lambda>(name, prefix). ?rule prefix) THEMES))"
  proof -
    have "?colors \<noteq> []" using item by (metis list.set(1) empty_iff)
    then show ?thesis unfolding ChartStyle_def Let_def by simp
  qed
  have "?rule [] \<in> set (map (\<lambda>(name, prefix). ?rule prefix) THEMES)" by (simp add: THEMES_def)
  from str_includes_join [OF this rule] show ?thesis using style by blast
qed

lemma paint_declaredI: "(key, label, color) \<in> set config \<Longrightarrow> color \<noteq> [] \<Longrightarrow> paint_declared chart_id config (color_var key)"
  using style_includes [of "(key, label, color)" config chart_id] by (force simp: paint_declared_def list_ex_iff)

lemma chart_color_nonempty [simp]: "chart_color n \<noteq> []"
  by (simp add: chart_color_def)

lemma status_color_nonempty: "i < 5 \<Longrightarrow> STATUS_COLORS ! i \<noteq> []"
  by (auto simp: STATUS_COLORS_def less_Suc_eq numeral_eq_Suc)

lemma fold_put_entries:
  assumes "k \<in> key ` set xs \<or> (\<exists>v. (k, v) \<in> set ps)"
    and "\<forall>x \<in> set xs. P (val x)" "\<forall>(k, v) \<in> set ps. P v"
  shows "\<exists>v. (k, v) \<in> set (fold (\<lambda>x. put (key x) (val x)) xs ps) \<and> P v"
  using assms
proof (induction xs arbitrary: ps)
  case (Cons x xs)
  have put_set: "(a, b) \<in> set (put k' v' qs) \<Longrightarrow> (a, b) \<in> set qs \<or> b = v'" for a b k' v' qs
    by (induction qs) (auto split: if_splits)
  have has: "\<exists>v. (k, v) \<in> set (put (key x) (val x) ps)" if "k = key x \<or> (\<exists>v. (k, v) \<in> set ps)"
  proof -
    have "k \<in> fst ` set (put (key x) (val x) ps)" using that by (force simp: put_keys)
    then show ?thesis by force
  qed
  have "\<forall>(k, v) \<in> set (put (key x) (val x) ps). P v" using Cons.prems(2,3) put_set by fastforce
  then show ?case using Cons.prems(1,2) has by (simp, intro Cons.IH) auto
qed auto

lemma status_config_entry:
  assumes "(label, n) \<in> set statuses"
  shows "\<exists>v. (label, v) \<in> set (status_config statuses) \<and> snd v \<noteq> []"
proof -
  let ?xs = "zip [0..<length statuses] statuses"
  obtain i where "i < length statuses" "statuses ! i = (label, n)" using assms by (auto simp: in_set_conv_nth)
  then have "(i, label, n) \<in> set ?xs" by (force simp: in_set_zip)
  then have "label \<in> (\<lambda>(i, label, n). label) ` set ?xs" by force
  moreover have "length STATUS_COLORS = 5" by (simp add: STATUS_COLORS_def)
  then have "\<forall>x \<in> set ?xs. snd ((\<lambda>(i, label, n). (spaced label, STATUS_COLORS ! (i mod length STATUS_COLORS))) x) \<noteq> []"
    by (auto simp: status_color_nonempty)
  ultimately show ?thesis
    using fold_put_entries [where P = "\<lambda>v. snd v \<noteq> []" and key = "\<lambda>(i, label, n). label"
        and val = "\<lambda>(i, label, n). (spaced label, STATUS_COLORS ! (i mod length STATUS_COLORS))"
        and k = label and xs = ?xs and ps = "[]"]
    by (simp add: status_config_def case_prod_unfold)
qed

lemmas config_defs = KpiTrendChart_def KpiTrendCard_def OrderActivityCard_def DeliveriesCard_def NewExceptionsCard_def
  WarehouseStockCard_def TopProductsCard_def OpenExceptionsCard_def

lemma overview_cards_declared:
  "list_all (\<lambda>chart. list_all (paint_declared chart_id (cc_config chart)) (cc_paints chart)) (overview_cards ov)"
proof -
  have outcome: "list_all (paint_declared chart_id DELIVERY_CONFIG) (cc_paints (ShipmentOutcomeCard b))" for b
    by (auto simp: ShipmentOutcomeCard_def outcome_slices_def list_all_iff DELIVERY_CONFIG_def intro!: paint_declaredI)
  have status: "list_all (paint_declared chart_id (status_config s)) (cc_paints (OrderStatusCard s))" for s
    using status_config_entry by (fastforce simp: OrderStatusCard_def list_all_iff intro: paint_declaredI)
  show ?thesis
    unfolding overview_cards_def using outcome status
    by (auto simp: config_defs KPI_CONFIG_def ShipmentOutcomeCard_def [THEN arg_cong, of cc_config]
        OrderStatusCard_def [THEN arg_cong, of cc_config] intro!: paint_declaredI)
qed

text \<open>Every series and slice of every chart on the Overview and on Analytics is painted with a colour that the
  style rules of its own chart declare, for any reply of the backend; so nothing is drawn in the
  browser's default black because a key was misspelt in a configuration.\<close>

theorem chart_colors_declared:
  "list_all (\<lambda>chart. list_all (paint_declared chart_id (cc_config chart)) (cc_paints chart))
     (KpiTrendChart rows # overview_cards ov)"
  using overview_cards_declared
  by (auto simp: config_defs CHART_CONFIG_def intro!: paint_declaredI)

text \<open>The number in the middle of the donut is the number of shipments, and the card is empty without any.\<close>

lemma outcome_total_is_sum:
  assumes "0 \<le> sb_delivered_on_time b" "0 \<le> sb_delivered_late b" "0 \<le> sb_in_progress b" "0 \<le> sb_exception b"
  shows "outcome_total b = sb_delivered_on_time b + sb_delivered_late b + sb_in_progress b + sb_exception b"
    and "cc_isEmpty (ShipmentOutcomeCard b) \<longleftrightarrow> outcome_slices b = []"
  using assms by (auto simp: ShipmentOutcomeCard_def outcome_total_def outcome_slices_def DELIVERY_CONFIG_def breakdown_at_def)

text \<open>There are six order statuses and five colours: with all of them present, two slices look alike.\<close>

lemma sixth_status_repeats_colour:
  "let config = status_config (map (\<lambda>s. (s, 1))
       [''draft'', ''submitted'', ''allocated'', ''partially_shipped'', ''shipped'', ''cancelled''])
   in map_option snd (map_of config ''draft'') = map_option snd (map_of config ''cancelled'')"
  by (simp add: status_config_def STATUS_COLORS_def upt_rec)

section \<open>What the charts draw\<close>

text \<open>The decimals of a reply are texts that \<open>Number\<close> reads.\<close>

definition numeric :: "string option \<Rightarrow> bool" where
  "numeric v = (case v of None \<Rightarrow> True | Some s \<Rightarrow> Number_text s \<noteq> None)"

definition kpi_numeric :: "kpi_point \<Rightarrow> bool" where
  "kpi_numeric p \<longleftrightarrow>
     list_all numeric [kp_otif_pct p, kp_fill_rate_pct p, kp_order_cycle_time_days p, kp_perfect_order_rate_pct p]"

definition day_numeric :: "daily_activity \<Rightarrow> bool" where
  "day_numeric d \<longleftrightarrow> numeric (Some (da_order_value d))"

definition overview_numeric :: "overview \<Rightarrow> bool" where
  "overview_numeric ov \<longleftrightarrow> list_all kpi_numeric (ov_kpi_trend ov) \<and> list_all day_numeric (ov_daily_activity ov)"

text \<open>A value that can be drawn is a number or a gap in the line; a row needs a name and all that is drawn.\<close>

fun drawable :: "chart_value option \<Rightarrow> bool" where
  "drawable (Some (Amount x)) = True"
| "drawable (Some Gap) = True"
| "drawable _ = False"

fun named :: "chart_value option \<Rightarrow> bool" where
  "named (Some (Words s)) = True"
| "named _ = False"

definition draws_its_data :: "chart_card \<Rightarrow> bool" where
  "draws_its_data chart \<longleftrightarrow>
     list_all (\<lambda>row. named (map_of row (cc_axis chart)) \<and> list_all (\<lambda>key. drawable (map_of row key)) (cc_series chart))
       (cc_data chart)"

lemma drawn_values:
  "drawable (Some (count_value n))" "numeric v \<Longrightarrow> drawable (Some (toNumber v))"
  "numeric (Some s) \<Longrightarrow> drawable (Some (Number_value s))"
  by (auto simp: count_value_def numeric_def toNumber_def Number_value_def split: option.splits)

lemma kpi_rows_drawable: "list_all kpi_numeric rows \<Longrightarrow> draws_its_data (KpiTrendCard rows)"
  "list_all kpi_numeric rows \<Longrightarrow> draws_its_data (KpiTrendChart rows)"
  by (auto simp: draws_its_data_def KpiTrendCard_def KpiTrendChart_def kpi_data_def KPI_CONFIG_def kpi_numeric_def
      list_all_iff drawn_values)

lemma activity_rows_drawable: "list_all day_numeric days \<Longrightarrow> draws_its_data (OrderActivityCard days)"
  "draws_its_data (DeliveriesCard days)"
  by (auto simp: draws_its_data_def OrderActivityCard_def DeliveriesCard_def day_row_def day_numeric_def list_all_iff drawn_values)

lemma other_rows_drawable:
  "draws_its_data (ShipmentOutcomeCard b)" "draws_its_data (OrderStatusCard statuses)" "draws_its_data (NewExceptionsCard days)"
  "draws_its_data (WarehouseStockCard warehouses)" "draws_its_data (TopProductsCard products)" "draws_its_data (OpenExceptionsCard counts)"
  by (auto simp: draws_its_data_def ShipmentOutcomeCard_def OrderStatusCard_def NewExceptionsCard_def WarehouseStockCard_def
      TopProductsCard_def OpenExceptionsCard_def stock_row_def list_all_iff drawn_values)

text \<open>Every chart of the Overview and of Analytics draws the data it is handed: each row of its data has the
  text that names it under the key of its axis, and under every key drawn a number or, where the
  backend has none, a gap; so no key is misspelt and nothing is drawn as \<open>NaN\<close>.\<close>

theorem charts_draw_their_data:
  assumes "overview_numeric ov" and "list_all kpi_numeric rows"
  shows "list_all draws_its_data (KpiTrendChart rows # overview_cards ov)"
  using assms by (simp add: overview_cards_def overview_numeric_def kpi_rows_drawable activity_rows_drawable other_rows_drawable)

end
