(* ===== verification/Overview_Reply.thy ===== *)
theory Overview_Reply
  imports Overview_Charts Dashboard_Types
begin

text \<open>
  The Overview from the reply to the screen: the JSON object that the backend's schema
  \<open>OverviewRead\<close> is serialised to, read as the TypeScript type says (\<open>const overview: Overview =
  await response.json()\<close>), and what \<open>overview-kpis.tsx\<close> and the charts make of it. Shown: every decimal of the
  schema is a number for \<open>Number\<close>, so that no figure, tile or chart of the page is \<open>NaN\<close>.
\<close>

section \<open>Decimals are numbers\<close>

definition decimal_char :: "char \<Rightarrow> bool" where
  "decimal_char c \<longleftrightarrow> is_digit c \<or> c \<in> set ''+-.eE''"

lemma exponent_chars: "exponent_value s = Some e \<Longrightarrow> list_all decimal_char s"
proof (cases s)
  case (Cons c r)
  assume e: "exponent_value s = Some e"
  let ?signed = "r \<noteq> [] \<and> (hd r = CHR ''-'' \<or> hd r = CHR ''+'')"
  have "c = CHR ''e'' \<or> c = CHR ''E''" "list_all is_digit (if ?signed then tl r else r)"
    using e Cons by (auto simp: exponent_value_def Let_def split: if_splits)
  then show ?thesis using Cons by (cases r) (auto simp: decimal_char_def list_all_iff split: if_splits)
qed simp

lemma takeWhile_all: "list_all P (takeWhile P s)"
  by (induction s) auto

lemma decimal_chars:
  assumes "decimal_value s = Some d"
  shows "list_all decimal_char s"
proof -
  define signed where "signed \<longleftrightarrow> s \<noteq> [] \<and> (hd s = CHR ''-'' \<or> hd s = CHR ''+'')"
  define u where "u = (if signed then tl s else s)"
  define r where "r = dropWhile is_digit u"
  define point where "point \<longleftrightarrow> r \<noteq> [] \<and> hd r = CHR ''.''"
  define rest where "rest = (if point then dropWhile is_digit (tl r) else r)"
  have "\<exists>e. exponent_value rest = Some e"
    using assms by (auto simp: decimal_value_def Let_def signed_def u_def r_def point_def rest_def split: if_splits)
  then have rest: "list_all decimal_char rest" by (auto intro: exponent_chars)
  have digits: "list_all decimal_char (takeWhile is_digit t)" for t
    using takeWhile_all [of is_digit t] by (auto simp: list_all_iff decimal_char_def)
  have join: "list_all decimal_char t" if "list_all decimal_char (dropWhile is_digit t)" for t
    using digits [of t] that by (metis takeWhile_dropWhile_id list_all_append)
  have "list_all decimal_char r"
  proof (cases point)
    case True
    then have "list_all decimal_char (tl r)" using rest by (simp add: rest_def join)
    moreover have "r = CHR ''.'' # tl r" using True by (cases r) (auto simp: point_def)
    moreover have "decimal_char (CHR ''.'')" by (simp add: decimal_char_def)
    ultimately show ?thesis by (metis list.pred_inject(2))
  qed (use rest in \<open>simp add: rest_def\<close>)
  then have "list_all decimal_char u" by (simp add: r_def join)
  then show ?thesis by (cases s) (auto simp: u_def signed_def decimal_char_def split: if_splits)
qed

lemma strip_clean:
  assumes "\<And>w. w \<in> set ws \<Longrightarrow> w \<noteq> [] \<Longrightarrow> \<not> P (hd w)" and "list_all P s"
  shows "strip_prefixes ws s = s"
proof (rule strip_prefixes_fixed)
  have "\<not> (w \<noteq> [] \<and> starts_with s w)" if "w \<in> set ws" for w
  proof
    assume w: "w \<noteq> [] \<and> starts_with s w"
    then obtain c v where "w = c # v" by (cases w) auto
    with w have "c \<in> set s" by (cases s) (auto simp: starts_with_def)
    then show False using assms that w \<open>w = c # v\<close> by (fastforce simp: list_all_iff)
  qed
  then show "find (\<lambda>w. w \<noteq> [] \<and> starts_with s w) ws = None" by (auto simp: find_None_iff)
qed

lemma decimal_char_code: "decimal_char c \<Longrightarrow> 43 \<le> (of_char c :: nat) \<and> (of_char c :: nat) \<le> 101"
  by (auto simp: decimal_char_def is_digit_def)

lemma trim_decimal: "list_all decimal_char s \<Longrightarrow> js_trim s = s"
proof -
  assume s: "list_all decimal_char s"
  have heads: "\<not> decimal_char (hd w)" if "w \<in> set ws_seqs" for w
    using that decimal_char_code [of "hd w"] by (auto simp: ws_seqs_def)
  have lasts: "\<not> decimal_char (hd w)" if "w \<in> set (map rev ws_seqs)" for w
    using that decimal_char_code [of "hd w"] by (auto simp: ws_seqs_def)
  have "trim_start s = s" unfolding trim_start_def by (rule strip_clean [OF _ s]) (rule heads)
  moreover have "trim_end s = s"
    unfolding trim_end_def using strip_clean [of "map rev ws_seqs" decimal_char "rev s"] lasts s
    by (simp add: list_all_iff)
  ultimately show ?thesis by (simp add: js_trim_def)
qed

lemma decimal_is_number: "decimal_value s \<noteq> None \<Longrightarrow> Number_text s \<noteq> None"
  using trim_decimal [OF decimal_chars] by (auto simp: Number_text_def Let_def)

section \<open>The reply as the page reads it\<close>

definition str_at :: "json \<Rightarrow> string \<Rightarrow> string" where
  "str_at j k = (case opt_prop j k of Some (JStr s) \<Rightarrow> s | _ \<Rightarrow> [])"

definition opt_str_at :: "json \<Rightarrow> string \<Rightarrow> string option" where
  "opt_str_at j k = (case opt_prop j k of Some (JStr s) \<Rightarrow> Some s | _ \<Rightarrow> None)"

definition int_at :: "json \<Rightarrow> string \<Rightarrow> int" where
  "int_at j k = (case opt_prop j k of Some (JNum n) \<Rightarrow> n | _ \<Rightarrow> 0)"

definition rows_at :: "json \<Rightarrow> string \<Rightarrow> json list" where
  "rows_at j k = (case opt_prop j k of Some (JArr xs) \<Rightarrow> xs | _ \<Rightarrow> [])"

definition kpi_of :: "json \<Rightarrow> kpi_point" where
  "kpi_of j =
     \<lparr>kp_simulation_date = str_at j ''simulation_date'', kp_otif_pct = opt_str_at j ''otif_pct'',
      kp_fill_rate_pct = opt_str_at j ''fill_rate_pct'', kp_order_cycle_time_days = opt_str_at j ''order_cycle_time_days'',
      kp_perfect_order_rate_pct = opt_str_at j ''perfect_order_rate_pct''\<rparr>"

definition day_of :: "json \<Rightarrow> daily_activity" where
  "day_of j =
     \<lparr>da_simulation_date = str_at j ''simulation_date'', da_orders_placed = int_at j ''orders_placed'',
      da_order_value = str_at j ''order_value'', da_shipments_shipped = int_at j ''shipments_shipped'',
      da_delivered_on_time = int_at j ''delivered_on_time'', da_delivered_late = int_at j ''delivered_late'',
      da_purchase_orders_placed = int_at j ''purchase_orders_placed''\<rparr>"

definition breakdown_of :: "json \<Rightarrow> shipment_breakdown" where
  "breakdown_of j =
     \<lparr>sb_delivered_on_time = int_at j ''delivered_on_time'', sb_delivered_late = int_at j ''delivered_late'',
      sb_in_progress = int_at j ''in_progress'', sb_exception = int_at j ''exception''\<rparr>"

definition warehouse_of :: "json \<Rightarrow> warehouse_stock" where
  "warehouse_of j =
     \<lparr>ws_warehouse_id = str_at j ''warehouse_id'', ws_warehouse_name = str_at j ''warehouse_name'',
      ws_units_on_hand = int_at j ''units_on_hand'', ws_units_allocated = int_at j ''units_allocated'',
      ws_avg_days_of_supply = opt_str_at j ''avg_days_of_supply'', ws_low_stock_positions = int_at j ''low_stock_positions''\<rparr>"

definition supplier_of :: "json \<Rightarrow> supplier_row" where
  "supplier_of j =
     \<lparr>su_supplier_id = str_at j ''supplier_id'', su_supplier_name = str_at j ''supplier_name'',
      su_purchase_orders_placed = int_at j ''purchase_orders_placed'',
      su_purchase_orders_received = int_at j ''purchase_orders_received'', su_received_on_time = int_at j ''received_on_time'',
      su_on_time_receipt_pct = opt_str_at j ''on_time_receipt_pct'', su_open_purchase_orders = int_at j ''open_purchase_orders'',
      su_at_risk_purchase_orders = int_at j ''at_risk_purchase_orders''\<rparr>"

definition product_of :: "json \<Rightarrow> product_demand" where
  "product_of j =
     \<lparr>pd_product_id = str_at j ''product_id'', pd_product_name = str_at j ''product_name'',
      pd_units_ordered = int_at j ''units_ordered'', pd_units_shipped = int_at j ''units_shipped''\<rparr>"

definition overview_of :: "json \<Rightarrow> overview" where
  "overview_of j =
     \<lparr>ov_as_of = str_at j ''as_of'', ov_window_start = str_at j ''window_start'', ov_window_days = int_at j ''window_days'',
      ov_kpi_trend = map kpi_of (rows_at j ''kpi_trend''), ov_daily_activity = map day_of (rows_at j ''daily_activity''),
      ov_sales_order_status = map (\<lambda>r. (str_at r ''label'', int_at r ''count'')) (rows_at j ''sales_order_status''),
      ov_shipment_delivery = (case opt_prop j ''shipment_delivery'' of Some b \<Rightarrow> breakdown_of b | None \<Rightarrow> breakdown_of JNull),
      ov_inventory_by_warehouse = map warehouse_of (rows_at j ''inventory_by_warehouse''),
      ov_suppliers = map supplier_of (rows_at j ''suppliers''), ov_top_products = map product_of (rows_at j ''top_products''),
      ov_open_exceptions_by_category =
        map (\<lambda>r. (str_at r ''category'', int_at r ''open_count'')) (rows_at j ''open_exceptions_by_category''),
      ov_new_exceptions_per_day =
        map (\<lambda>r. (str_at r ''simulation_date'', int_at r ''count'')) (rows_at j ''new_exceptions_per_day'')\<rparr>"

section \<open>From the schema to the figures\<close>

lemma optional_decimal:
  assumes "dumps (PModel fs) j" "map_of fs k = Some (POptional PDecimal)"
  shows "numeric (opt_str_at j k)"
proof -
  obtain ps where j: "j = JObj ps" using assms(1) by (cases j) auto
  then obtain v where v: "opt_prop j k = Some v" "dumps (POptional PDecimal) v"
    using assms by (auto elim: model_field)
  then show ?thesis by (cases v) (auto simp: opt_str_at_def numeric_def decimal_is_number)
qed

lemma required_decimal:
  assumes "dumps (PModel fs) j" "map_of fs k = Some PDecimal"
  shows "numeric (Some (str_at j k))"
proof -
  obtain ps where j: "j = JObj ps" using assms(1) by (cases j) auto
  then obtain v where v: "opt_prop j k = Some v" "dumps PDecimal v"
    using assms by (auto elim: model_field)
  then show ?thesis by (cases v) (auto simp: str_at_def numeric_def decimal_is_number)
qed

lemma listed_rows:
  assumes "dumps (PModel fs) j" "map_of fs k = Some (PList p)" "r \<in> set (rows_at j k)"
  shows "dumps p r"
proof -
  obtain ps where j: "j = JObj ps" using assms(1) by (cases j) auto
  then obtain v where v: "opt_prop j k = Some v" "dumps (PList p) v"
    using assms(1,2) by (auto elim: model_field)
  then show ?thesis using assms(3) by (cases v) (auto simp: rows_at_def list_all_iff)
qed

lemma kpi_of_numeric: "dumps py_OverviewKpiPoint r \<Longrightarrow> kpi_numeric (kpi_of r)"
  unfolding py_OverviewKpiPoint_def by (simp add: kpi_numeric_def kpi_of_def optional_decimal del: dumps.simps)

lemma day_of_numeric: "dumps py_OverviewDailyActivity r \<Longrightarrow> day_numeric (day_of r)"
  unfolding py_OverviewDailyActivity_def by (simp add: day_numeric_def day_of_def required_decimal del: dumps.simps)

lemma overview_of_numeric:
  assumes "dumps py_OverviewRead j"
  shows "overview_numeric (overview_of j)"
proof -
  note rows = listed_rows [OF assms [unfolded py_OverviewRead_def]]
  have "kpi_numeric (kpi_of r)" if "r \<in> set (rows_at j ''kpi_trend'')" for r
    using that by (intro kpi_of_numeric rows [of "''kpi_trend''"]) auto
  moreover have "day_numeric (day_of r)" if "r \<in> set (rows_at j ''daily_activity'')" for r
    using that by (intro day_of_numeric rows [of "''daily_activity''"]) auto
  ultimately show ?thesis by (auto simp: overview_numeric_def overview_of_def list_all_iff)
qed

lemma those_numbers: "list_all (\<lambda>x. f x \<noteq> None) xs \<Longrightarrow> \<exists>ys. those (map f xs) = Some ys \<and> length ys = length xs"
  by (induction xs) auto

lemma series_defined:
  assumes "list_all kpi_numeric points" "field \<in> {kp_otif_pct, kp_fill_rate_pct, kp_order_cycle_time_days, kp_perfect_order_rate_pct}"
  shows "series field points \<noteq> None"
proof -
  have "list_all (\<lambda>s. Number_text s \<noteq> None) (List.map_filter field points)"
    using assms by (auto simp: list_all_iff List.map_filter_def kpi_numeric_def numeric_def)
  from those_numbers [OF this] show ?thesis by (auto simp: series_def)
qed

lemma figures_defined:
  assumes "overview_numeric ov"
  shows "\<exists>slots tiles. OverviewKpis ov = Some (slots, tiles) \<and> length slots = 4 \<and> length tiles = 4"
proof -
  have points: "list_all kpi_numeric (ov_kpi_trend ov)" using assms by (simp add: overview_numeric_def)
  have "list_all (\<lambda>kpi. kpi_slot (ov_kpi_trend ov) kpi \<noteq> None) KPI_CARDS"
    using series_defined [OF points] by (simp add: KPI_CARDS_def kpi_slot_def Let_def)
  from those_numbers [OF this] obtain slots where slots: "those (map (kpi_slot (ov_kpi_trend ov)) KPI_CARDS) = Some slots"
    "length slots = 4" by (auto simp: KPI_CARDS_def)
  have "list_all (\<lambda>d. (Number_text \<circ> da_order_value) d \<noteq> None) (ov_daily_activity ov)"
    using assms by (auto simp: overview_numeric_def day_numeric_def numeric_def list_all_iff)
  from those_numbers [OF this] obtain amounts where "those (map (Number_text \<circ> da_order_value) (ov_daily_activity ov)) = Some amounts"
    by blast
  then show ?thesis using slots by (simp add: OverviewKpis_def stat_tiles_def Let_def)
qed

section \<open>The page around the figures\<close>

definition en_dash :: string where
  "en_dash = [CHR 0xE2, CHR 0x80, CHR 0x93]"

definition overview_description :: "(string \<Rightarrow> string) \<Rightarrow> overview \<Rightarrow> string" where
  "overview_description other ov =
     ''Company status for '' @ formatDate other (ov_window_start ov) @ '' '' @ en_dash @ '' '' @ formatDate other (ov_as_of ov)
     @ '' (simulation dates)''"

text \<open>The buttons: address, text, and whether it is the window shown.\<close>

definition window_links :: "int \<Rightarrow> (string \<times> string \<times> bool) list" where
  "window_links days =
     map (\<lambda>option. (''/dashboard/logistics?days='' @ show_int option, show_int option @ ''d'', option = days)) WINDOW_OPTIONS"

definition history_note :: "overview \<Rightarrow> int \<Rightarrow> string option" where
  "history_note ov days =
     (if ov_window_days ov < days
      then Some (''The simulation only has '' @ show_int (ov_window_days ov) @ '' day''
             @ (if ov_window_days ov = 1 then [] else ''s'') @ '' of history, so that is all this view covers.'')
      else None)"

text \<open>\<open>Number\<close> of the query parameter, as far as it is an integer.\<close>

definition Number_days :: "string option \<Rightarrow> int option" where
  "Number_days value =
     (case value of
        None \<Rightarrow> None
      | Some s \<Rightarrow> (case Number_text s of Some x \<Rightarrow> if of_int \<lfloor>x\<rfloor> = x then Some \<lfloor>x\<rfloor> else None | None \<Rightarrow> None))"

lemma window_texts: "show_int 7 = ''7''" "show_int 30 = ''30''" "show_int 90 = ''90''"
  by (simp_all add: show_int_def show_nat.simps char_of_eq_iff)

lemma Number_windows: "Number_text ''7'' = Some 7" "Number_text ''30'' = Some 30" "Number_text ''90'' = Some 90"
proof -
  have trims: "js_trim ''7'' = ''7''" "js_trim ''30'' = ''30''" "js_trim ''90'' = ''90''"
    by (simp_all add: trim_decimal decimal_char_def is_digit_def)
  have "fl (of_int n) = of_int n" if "\<bar>n\<bar> < 2 ^ 53" for n
    using is_double_of_int [of n] that by (simp add: is_double_def)
  from this [of 7] this [of 30] this [of 90]
  show "Number_text ''7'' = Some 7" "Number_text ''30'' = Some 30" "Number_text ''90'' = Some 90"
    by (simp_all add: Number_text_def Let_def trims decimal_value_def exponent_value_def is_digit_def)
qed

text \<open>Every button opens its own window, and exactly the button of the window shown is marked.\<close>

lemma window_buttons_open_their_window:
  "list_all (\<lambda>option. parseWindow Number_days (Some (show_int option)) = option
       \<and> map fst (filter (\<lambda>(url, label, current). current) (window_links option))
         = [''/dashboard/logistics?days='' @ show_int option]) WINDOW_OPTIONS"
  by (simp add: WINDOW_OPTIONS_def parseWindow_def Number_days_def window_texts Number_windows window_links_def)

text \<open>C37: From the backend to the screen, the Overview shows figures: when the backend answers the page's request
  with any object that its schema serialises, the page loads it, each of the four KPI cards and four tiles
  has a value (no \<open>Number\<close> of a reply's decimal is \<open>NaN\<close>), and every chart draws numbers or gaps in colours
  that its own style rules declare.\<close>

theorem overview_shows_figures:
  assumes "truthy (get_cookie c orbyn_session) = Some token" and "truthy (cx_base_url c) = Some base"
    and "\<And>rq. net rq = Reply r" and "resp_ok r" and "rs_body r = BodyJson j" and "dumps py_OverviewRead j"
  shows "result (OverviewPage number c days) net = Returned (Record_view j)
    \<and> (\<exists>slots tiles. OverviewKpis (overview_of j) = Some (slots, tiles) \<and> length slots = 4 \<and> length tiles = 4)
    \<and> list_all (\<lambda>chart. draws_its_data chart \<and> list_all (paint_declared chart_id (cc_config chart)) (cc_paints chart))
        (overview_cards (overview_of j))"
proof -
  have run: "result (dashboardFetch c path) net = Returned r" for path
    using assms(1-3) by (simp add: dashboardFetch_def gate_simps)
  have page: "result (OverviewPage number c days) net = Returned (Record_view j)"
    using assms(4,5) by (simp add: OverviewPage_def getOverview_def result_and_then run resp_json_def)
  have numeric: "overview_numeric (overview_of j)" using assms(6) by (rule overview_of_numeric)
  then have "list_all draws_its_data (overview_cards (overview_of j))"
    by (simp add: overview_cards_def overview_numeric_def kpi_rows_drawable activity_rows_drawable other_rows_drawable)
  then have charts: "list_all (\<lambda>chart. draws_its_data chart \<and> list_all (paint_declared chart_id (cc_config chart)) (cc_paints chart))
        (overview_cards (overview_of j))"
    using overview_cards_declared [of chart_id "overview_of j"] by (simp add: list_all_iff)
  from page figures_defined [OF numeric] charts show ?thesis by (intro conjI)
qed

theorem overview_shows_figures_witness:
  "result (OverviewPage (\<lambda>s. None) analyst_ctx None) (\<lambda>rq. Reply (json_response (sample py_OverviewRead) 200))
     = Returned (Record_view (sample py_OverviewRead))"
proof -
  have "dumps py_OverviewRead (sample py_OverviewRead)" by (rule dumps_sample) (simp add: dashboard_py)
  then show ?thesis
    using overview_shows_figures [of analyst_ctx "''tok''" "''http://api''"
        "\<lambda>rq. Reply (json_response (sample py_OverviewRead) 200)" "json_response (sample py_OverviewRead) 200" "sample py_OverviewRead"
        "\<lambda>s. None" None]
    by (simp add: analyst_ctx_def get_cookie_def orbyn_session_def json_response_def resp_ok_def del: sample.simps)
qed

end
