(* ===== verification/Chat_Types.thy ===== *)
theory Chat_Types
  imports Dashboard_Types
begin

text \<open>
  The reply types of both applications' chats, notifications, scenario threads, evaluations, the portfolio
  export and the rebuild status, with the schemas of the backend: \<open>ts_\<close> for Subsystem 1, \<open>b_ts_\<close> for the
  Builder's \<open>mail\<close>, \<open>scenarios\<close> and \<open>simulation\<close> folders, \<open>st_\<close> for its \<open>thread-types.ts\<close>. All agree but one:
  the portfolio export.
\<close>

section \<open>The declared types\<close>

definition ts_Persona :: ts_type where
  "ts_Persona =
     TLiteral [''operations_manager'', ''procurement_manager'', ''warehouse_manager'',
       ''it_manager'', ''operations_director'', ''cfo'']"

definition ts_ThreadStatus :: ts_type where
  "ts_ThreadStatus =
     TLiteral [''open'', ''completed'']"

definition ts_ChatThread :: ts_type where
  "ts_ChatThread =
     TObject [(''id'', TString), (''scenario_id'', TString), (''persona'', ts_Persona), (''status'',
       ts_ThreadStatus), (''created_at'', TString), (''deadline_at'', TNullable TString),
       (''is_overdue'', TBoolean), (''unread_count'', TNumber), (''draft_body'', TString)]"

definition ts_ChatMessage :: ts_type where
  "ts_ChatMessage =
     TObject [(''id'', TString), (''thread_id'', TString), (''sender_user_id'', TString),
       (''sender_role'', TLiteral [''admin'', ''analyst'']), (''body'', TString),
       (''attachment_ref'', TNullable TString), (''sent_at'', TString)]"

definition ts_NotificationFeedItem :: ts_type where
  "ts_NotificationFeedItem =
     TObject [(''id'', TString), (''kind'', TLiteral [''deadline_approaching'', ''deadline_missed'',
       ''new_reply'']), (''thread_id'', TString), (''persona'', TString), (''scenario_title'',
       TString), (''unread_count'', TNumber), (''occurred_at'', TString), (''is_read'', TBoolean)]"

definition b_ts_Persona :: ts_type where
  "b_ts_Persona =
     TLiteral [''operations_manager'', ''procurement_manager'', ''warehouse_manager'',
       ''it_manager'', ''operations_director'', ''cfo'']"

definition b_ts_ChatThread :: ts_type where
  "b_ts_ChatThread =
     TObject [(''id'', TString), (''scenario_id'', TString), (''persona'', b_ts_Persona),
       (''created_at'', TString), (''deadline_at'', TNullable TString), (''is_overdue'', TBoolean),
       (''status'', TLiteral [''open'', ''completed'']), (''unread_count'', TNumber),
       (''draft_body'', TString)]"

definition b_ts_NotificationKind :: ts_type where
  "b_ts_NotificationKind =
     TLiteral [''deadline_approaching'', ''deadline_missed'']"

definition b_ts_NotificationFeedKind :: ts_type where
  "b_ts_NotificationFeedKind =
     also_literal b_ts_NotificationKind [''new_reply'']"

definition b_ts_NotificationFeedItem :: ts_type where
  "b_ts_NotificationFeedItem =
     TObject [(''id'', TString), (''kind'', b_ts_NotificationFeedKind), (''thread_id'', TString),
       (''persona'', b_ts_Persona), (''scenario_title'', TString), (''unread_count'', TNumber),
       (''occurred_at'', TString), (''is_read'', TBoolean)]"

definition b_ts_Notification :: ts_type where
  "b_ts_Notification =
     TObject [(''id'', TString), (''thread_id'', TString), (''kind'', b_ts_NotificationKind),
       (''created_at'', TString), (''read_at'', TNullable TString)]"

definition b_ts_ChatMessage :: ts_type where
  "b_ts_ChatMessage =
     TObject [(''id'', TString), (''thread_id'', TString), (''sender_user_id'', TString),
       (''sender_role'', TLiteral [''admin'', ''analyst'']), (''body'', TString),
       (''attachment_ref'', TNullable TString), (''sent_at'', TString)]"

definition st_ThreadStatus :: ts_type where
  "st_ThreadStatus =
     TLiteral [''open'', ''completed'']"

definition st_Persona :: ts_type where
  "st_Persona =
     TLiteral [''operations_manager'', ''procurement_manager'', ''warehouse_manager'',
       ''it_manager'', ''operations_director'', ''cfo'']"

definition st_ScenarioThread :: ts_type where
  "st_ScenarioThread =
     TObject [(''id'', TString), (''scenario_id'', TString), (''persona'', st_Persona), (''status'',
       st_ThreadStatus), (''created_at'', TString)]"

definition st_DifficultyRecommendation :: ts_type where
  "st_DifficultyRecommendation =
     TLiteral [''foundational'', ''standard'', ''stretch'', ''hold'']"

definition st_Evaluation :: ts_type where
  "st_Evaluation =
     TObject [(''id'', TString), (''thread_id'', TString), (''prompt_version'', TString),
       (''strengths'', TString), (''gaps'', TString), (''evidence'', TString),
       (''senior_analyst_pushback'', TString), (''final_verdict'', TString),
       (''suggested_next_skill_focus'', TString), (''difficulty_recommendation'',
       st_DifficultyRecommendation), (''created_at'', TString)]"

definition st_HumanReviewVerdict :: ts_type where
  "st_HumanReviewVerdict =
     TLiteral [''agree'', ''override'']"

definition st_HumanReview :: ts_type where
  "st_HumanReview =
     TObject [(''id'', TString), (''evaluation_id'', TString), (''reviewer_name'', TString),
       (''verdict'', st_HumanReviewVerdict), (''tier_assessment_notes'', TString),
       (''overridden_recommendation'', TNullable st_DifficultyRecommendation), (''created_at'',
       TString)]"

definition st_PortfolioMessage :: ts_type where
  "st_PortfolioMessage =
     TObject [(''sender_role'', TLiteral [''admin'', ''analyst'']), (''body'', TString),
       (''sent_at'', TString)]"

definition st_PortfolioReflection :: ts_type where
  "st_PortfolioReflection =
     TObject [(''reflection_what_happened'', TString), (''reflection_initial_thought'', TString),
       (''reflection_evidence_that_mattered'', TString), (''reflection_what_missed'', TString),
       (''reflection_what_changed_after_pushback'', TString), (''reflection_what_differently'',
       TString), (''reflection_skill_improved'', TString), (''created_at'', TString)]"

definition st_PortfolioExport :: ts_type where
  "st_PortfolioExport =
     TObject [(''scenario'', TObject [(''title'', TString), (''scenario_type'', TString),
       (''competency_cluster'', TString)]), (''trigger'', TNullable TString), (''messages'', TArray
       st_PortfolioMessage), (''evaluation'', st_Evaluation), (''human_review'', TNullable
       st_HumanReview), (''reflection'', TNullable st_PortfolioReflection)]"

definition b_ts_RepopulateStatus :: ts_type where
  "b_ts_RepopulateStatus =
     TObject [(''state'', TLiteral [''idle'', ''running'', ''succeeded'', ''failed'']),
       (''started_at'', TNullable TString), (''finished_at'', TNullable TString), (''days_done'',
       TNumber), (''days_total'', TNumber), (''message'', TNullable TString)]"

definition b_ts_ExceptionFlag :: ts_type where
  "b_ts_ExceptionFlag =
     TObject [(''id'', TString), (''category'', TString), (''product_id'', TNullable TString),
       (''warehouse_id'', TNullable TString), (''purchase_order_id'', TNullable TString),
       (''shipment_id'', TNullable TString), (''simulation_date'', TString),
       (''first_detected_simulation_date'', TString), (''measured_value'', TNullable TString),
       (''threshold_value'', TString), (''detected_at'', TString), (''resolved_at'', TNullable
       TString)]"

section \<open>The response schemas of the backend\<close>

definition py_ThreadRead :: py_type where
  "py_ThreadRead =
     PModel [(''id'', PUuid), (''scenario_id'', PUuid), (''persona'', PEnum [''operations_manager'',
       ''procurement_manager'', ''warehouse_manager'', ''it_manager'', ''operations_director'',
       ''cfo'']), (''status'', PEnum [''open'', ''completed'']), (''created_at'', PDatetime),
       (''deadline_at'', POptional PDatetime), (''is_overdue'', PBool)]"

definition py_ThreadReadWithUnread :: py_type where
  "py_ThreadReadWithUnread =
     inherits py_ThreadRead [(''unread_count'', PInt), (''draft_body'', PStr)]"

definition py_MessageRead :: py_type where
  "py_MessageRead =
     PModel [(''id'', PUuid), (''thread_id'', PUuid), (''sender_user_id'', PUuid), (''sender_role'',
       PEnum [''admin'', ''analyst'']), (''body'', PStr), (''attachment_ref'', POptional PStr),
       (''sent_at'', PDatetime)]"

definition py_NotificationRead :: py_type where
  "py_NotificationRead =
     PModel [(''id'', PUuid), (''thread_id'', PUuid), (''kind'', PEnum [''deadline_approaching'',
       ''deadline_missed'']), (''created_at'', PDatetime), (''read_at'', POptional PDatetime)]"

definition py_NotificationFeedItemRead :: py_type where
  "py_NotificationFeedItemRead =
     PModel [(''id'', PStr), (''kind'', PEnum [''deadline_approaching'', ''deadline_missed'',
       ''new_reply'']), (''thread_id'', PUuid), (''persona'', PEnum [''operations_manager'',
       ''procurement_manager'', ''warehouse_manager'', ''it_manager'', ''operations_director'',
       ''cfo'']), (''scenario_title'', PStr), (''unread_count'', PInt), (''occurred_at'',
       PDatetime), (''is_read'', PBool)]"

definition py_EvaluationRead :: py_type where
  "py_EvaluationRead =
     PModel [(''id'', PUuid), (''thread_id'', PUuid), (''prompt_version'', PStr), (''strengths'',
       PStr), (''gaps'', PStr), (''evidence'', PStr), (''senior_analyst_pushback'', PStr),
       (''final_verdict'', PStr), (''suggested_next_skill_focus'', PStr),
       (''difficulty_recommendation'', PEnum [''foundational'', ''standard'', ''stretch'',
       ''hold'']), (''created_at'', PDatetime)]"

definition py_HumanReviewRead :: py_type where
  "py_HumanReviewRead =
     PModel [(''id'', PUuid), (''evaluation_id'', PUuid), (''reviewer_name'', PStr), (''verdict'',
       PEnum [''agree'', ''override'']), (''tier_assessment_notes'', PStr),
       (''overridden_recommendation'', POptional (PEnum [''foundational'', ''standard'',
       ''stretch'', ''hold''])), (''created_at'', PDatetime)]"

definition py_PortfolioScenarioSummary :: py_type where
  "py_PortfolioScenarioSummary =
     PModel [(''title'', PStr), (''scenario_type'', PStr), (''competency_cluster'', PStr)]"

definition py_PortfolioMessage :: py_type where
  "py_PortfolioMessage =
     PModel [(''sender_role'', PEnum [''admin'', ''analyst'']), (''body'', PStr), (''sent_at'',
       PDatetime)]"

definition py_PortfolioEvaluation :: py_type where
  "py_PortfolioEvaluation =
     PModel [(''id'', PUuid), (''prompt_version'', PStr), (''strengths'', PStr), (''gaps'', PStr),
       (''evidence'', PStr), (''senior_analyst_pushback'', PStr), (''final_verdict'', PStr),
       (''suggested_next_skill_focus'', PStr), (''difficulty_recommendation'', PEnum
       [''foundational'', ''standard'', ''stretch'', ''hold'']), (''created_at'', PDatetime)]"

definition py_PortfolioHumanReview :: py_type where
  "py_PortfolioHumanReview =
     PModel [(''reviewer_name'', PStr), (''verdict'', PEnum [''agree'', ''override'']),
       (''tier_assessment_notes'', PStr), (''overridden_recommendation'', POptional (PEnum
       [''foundational'', ''standard'', ''stretch'', ''hold''])), (''created_at'', PDatetime)]"

definition py_PortfolioReflectionSummary :: py_type where
  "py_PortfolioReflectionSummary =
     PModel [(''reflection_what_happened'', PStr), (''reflection_initial_thought'', PStr),
       (''reflection_evidence_that_mattered'', PStr), (''reflection_what_missed'', PStr),
       (''reflection_what_changed_after_pushback'', PStr), (''reflection_what_differently'', PStr),
       (''reflection_skill_improved'', PStr), (''created_at'', PDatetime)]"

definition py_PortfolioExportRead :: py_type where
  "py_PortfolioExportRead =
     PModel [(''scenario'', py_PortfolioScenarioSummary), (''trigger'', POptional PStr),
       (''messages'', PList py_PortfolioMessage), (''evaluation'', py_PortfolioEvaluation),
       (''human_review'', POptional py_PortfolioHumanReview), (''reflection'', POptional
       py_PortfolioReflectionSummary)]"

definition py_RepopulateStatusRead :: py_type where
  "py_RepopulateStatusRead =
     PModel [(''state'', PEnum [''idle'', ''running'', ''succeeded'', ''failed'']), (''started_at'',
       POptional PDatetime), (''finished_at'', POptional PDatetime), (''days_done'', PInt),
       (''days_total'', PInt), (''message'', POptional PStr)]"

section \<open>The contract\<close>

definition chat_contracts :: "(string \<times> ts_type \<times> py_type) list" where
  "chat_contracts =
     [(''threads of the Analyst'', TArray ts_ChatThread, PList py_ThreadReadWithUnread),
      (''messages of the Analyst'', TArray ts_ChatMessage, PList py_MessageRead),
      (''notifications of the Analyst'', TArray ts_NotificationFeedItem, PList py_NotificationFeedItemRead),
      (''threads of the Builder'', TArray b_ts_ChatThread, PList py_ThreadReadWithUnread),
      (''messages of the Builder'', TArray b_ts_ChatMessage, PList py_MessageRead),
      (''feed of the Builder'', TArray b_ts_NotificationFeedItem, PList py_NotificationFeedItemRead),
      (''notifications of the Builder'', TArray b_ts_Notification, PList py_NotificationRead),
      (''threads of a scenario'', TArray st_ScenarioThread, PList py_ThreadReadWithUnread),
      (''evaluation'', st_Evaluation, py_EvaluationRead),
      (''human review'', st_HumanReview, py_HumanReviewRead),
      (''rebuild'', b_ts_RepopulateStatus, py_RepopulateStatusRead),
      (''exceptions for a scenario'', TArray b_ts_ExceptionFlag, PList py_ExceptionFlagRead)]"

lemmas chat_ts = ts_Persona_def ts_ThreadStatus_def ts_ChatThread_def ts_ChatMessage_def ts_NotificationFeedItem_def
  b_ts_Persona_def b_ts_ChatThread_def b_ts_NotificationKind_def b_ts_NotificationFeedKind_def
  b_ts_NotificationFeedItem_def b_ts_Notification_def b_ts_ChatMessage_def st_ThreadStatus_def st_Persona_def
  st_ScenarioThread_def st_DifficultyRecommendation_def st_Evaluation_def st_HumanReviewVerdict_def st_HumanReview_def
  st_PortfolioMessage_def st_PortfolioReflection_def st_PortfolioExport_def b_ts_RepopulateStatus_def b_ts_ExceptionFlag_def

lemmas chat_py = py_ThreadRead_def py_ThreadReadWithUnread_def py_MessageRead_def py_NotificationRead_def
  py_NotificationFeedItemRead_def py_EvaluationRead_def py_HumanReviewRead_def py_PortfolioScenarioSummary_def
  py_PortfolioMessage_def py_PortfolioEvaluation_def py_PortfolioHumanReview_def py_PortfolioReflectionSummary_def
  py_PortfolioExportRead_def py_RepopulateStatusRead_def

lemma chat_schemas_serve: "list_all (\<lambda>(name, declared, schema). serves schema declared) chat_contracts"
  by (simp add: chat_contracts_def chat_ts chat_py py_ExceptionFlagRead_def)

text \<open>C33: Whatever the backend serialises from a response schema of its chat, notifications, evaluations,
  reviews and rebuild status has the type that the client declares for it, in both applications.\<close>

theorem chat_types_match_backend:
  "list_all (\<lambda>(name, declared, schema). Collect (dumps schema) \<subseteq> Collect (has_type declared)) chat_contracts"
  using chat_schemas_serve by (auto simp: list_all_iff intro: serves_sound)

lemma chat_schemas_inhabited: "list_all (\<lambda>(name, declared, schema). dumps schema (sample schema)) chat_contracts"
proof -
  have "list_all (\<lambda>(name, declared, schema). wf_schema schema) chat_contracts"
    by (simp add: chat_contracts_def chat_py py_ExceptionFlagRead_def)
  then show ?thesis by (auto simp: list_all_iff intro: dumps_sample)
qed

text \<open>
  The portfolio export declares its evaluation and review as those of the other routes; the backend
  serialises summaries of them, without the thread of the one and the ids of the other. The dialog reads
  none of the three.
\<close>

lemma portfolio_export_diverges:
  "dumps py_PortfolioExportRead (sample py_PortfolioExportRead)"
  "\<not> has_type st_PortfolioExport (sample py_PortfolioExportRead)"
  "serves py_PortfolioExportRead
     (TObject [(''scenario'', TObject [(''title'', TString), (''scenario_type'', TString), (''competency_cluster'', TString)]),
       (''trigger'', TNullable TString), (''messages'', TArray st_PortfolioMessage),
       (''evaluation'', omit ''thread_id'' st_Evaluation),
       (''human_review'', TNullable (omit ''id'' (omit ''evaluation_id'' st_HumanReview))),
       (''reflection'', TNullable st_PortfolioReflection)])"
  by (simp_all add: chat_ts chat_py)

end
