(* ===== verification/Form_Kit.thy ===== *)
theory Form_Kit
  imports Uri_Codec Ui_Common
begin

text \<open>
  The Builder's form components (\<open>components/ui/form.tsx\<close>), with the buttons of
  \<open>components/ui/button.tsx\<close>, over which the template's settings pages are written. A page's JSX
  is a tree of parts; rendering it threads the two React contexts, the field a part stands in and
  the item that gives its DOM ids. The schema of a form is kept as data. The form library
  (\<open>react-hook-form\<close> with the zod resolver) is a parameter, with what its documentation says of
  a change and of a submit as the hypothesis \<open>form_lib_ok\<close>.
\<close>

section \<open>Parts of a form\<close>

datatype widget =
    Input_Box string string \<comment> \<open>type, \<open>text\<close> when none is given; placeholder\<close>
  | Text_Area string
  | Check_Box
  | Select_Box string "(string \<times> string) list" \<comment> \<open>placeholder; values and texts of the items\<close>
  | Radio_Box
  | Radio_Item string

text \<open>
  \<open>Words\<close> is text, \<open>Group\<close> an element that only lays its children out. A button has the
  \<open>type\<close> and the \<open>onClick\<close> handler it was given, if any.
\<close>

datatype 'h form_part =
    Words string
  | Group "'h form_part list"
  | FormField string "'h form_part list"
  | FormItem "'h form_part list"
  | FormLabel "'h form_part list"
  | FormControl widget "'h form_part list"
  | FormMessage
  | Form_Button "string option" string "'h option"

section \<open>form.tsx\<close>

text \<open>
  Both contexts default to \<open>{}\<close>: no name and no id. An item's id is React's \<open>useId\<close> of that
  instance, here the instance's position in the tree.
\<close>

record form_ctx =
  fc_name :: "string option"
  fc_item :: "nat list option"

definition no_ctx :: form_ctx where
  "no_ctx = \<lparr>fc_name = None, fc_item = None\<rparr>"

type_synonym form_errors = "(string \<times> string) list"

datatype form_id = Item_Id "nat list option" | Description_Id "nat list option" | Message_Id "nat list option"

text \<open>The ids as texts, for the texts \<open>useId\<close> gives; without an item the template prints \<open>undefined\<close>.\<close>

definition id_text :: "(nat list \<Rightarrow> string) \<Rightarrow> nat list option \<Rightarrow> string" where
  "id_text uid it = (case it of None \<Rightarrow> ''undefined'' | Some p \<Rightarrow> uid p)"

fun dom_id :: "(nat list \<Rightarrow> string) \<Rightarrow> form_id \<Rightarrow> string" where
  "dom_id uid (Item_Id it) = id_text uid it @ ''-form-item''"
| "dom_id uid (Description_Id it) = id_text uid it @ ''-form-item-description''"
| "dom_id uid (Message_Id it) = id_text uid it @ ''-form-item-message''"

record field_info =
  fi_name :: "string option"
  fi_itemId :: form_id
  fi_descriptionId :: form_id
  fi_messageId :: form_id
  fi_error :: "string option"

text \<open>
  \<open>getFieldState\<close> reads the error stored under the field's name; without a name there is none.
  The hook's guard \<open>if (!fieldContext)\<close> cannot fire, since the context's default is an object.
\<close>

definition useFormField :: "form_errors \<Rightarrow> form_ctx \<Rightarrow> field_info" where
  "useFormField es c =
     \<lparr>fi_name = fc_name c,
      fi_itemId = Item_Id (fc_item c),
      fi_descriptionId = Description_Id (fc_item c),
      fi_messageId = Message_Id (fc_item c),
      fi_error = Option.bind (fc_name c) (map_of es)\<rparr>"

text \<open>What is put on the screen: a control also carries the field its \<open>Controller\<close> binds it to.\<close>

datatype 'h form_element =
    Words_El string
  | Label_El form_id bool \<comment> \<open>the id it is for; \<open>data-error\<close>\<close>
  | Control_El form_id "form_id list" bool widget "string option" \<comment> \<open>\<open>aria-describedby\<close>; \<open>aria-invalid\<close>\<close>
  | Message_El form_id string
  | Button_El "string option" string "'h option"

definition formLabel :: "field_info \<Rightarrow> 'h form_element" where
  "formLabel f = Label_El (fi_itemId f) (fi_error f \<noteq> None)"

definition formControl :: "field_info \<Rightarrow> widget \<Rightarrow> 'h form_element" where
  "formControl f w =
     Control_El (fi_itemId f)
       (if fi_error f = None then [fi_descriptionId f] else [fi_descriptionId f, fi_messageId f])
       (fi_error f \<noteq> None) w (fi_name f)"

text \<open>An empty message shows nothing; no page gives the component children of its own.\<close>

definition formMessage :: "field_info \<Rightarrow> 'h form_element list" where
  "formMessage f =
     (case fi_error f of
        None \<Rightarrow> []
      | Some m \<Rightarrow> if m = [] then [] else [Message_El (fi_messageId f) m])"

fun render_part :: "form_errors \<Rightarrow> form_ctx \<Rightarrow> nat list \<Rightarrow> 'h form_part \<Rightarrow> 'h form_element list"
  and render_parts ::
    "form_errors \<Rightarrow> form_ctx \<Rightarrow> nat list \<Rightarrow> nat \<Rightarrow> 'h form_part list \<Rightarrow> 'h form_element list"
where
  "render_part es c p (Words t) = [Words_El t]"
| "render_part es c p (Group xs) = render_parts es c p 0 xs"
| "render_part es c p (FormField n xs) = render_parts es (c\<lparr>fc_name := Some n\<rparr>) p 0 xs"
| "render_part es c p (FormItem xs) = render_parts es (c\<lparr>fc_item := Some p\<rparr>) p 0 xs"
| "render_part es c p (FormLabel xs) = formLabel (useFormField es c) # render_parts es c p 0 xs"
| "render_part es c p (FormControl w xs) = formControl (useFormField es c) w # render_parts es c p 0 xs"
| "render_part es c p FormMessage = formMessage (useFormField es c)"
| "render_part es c p (Form_Button ty t h) = [Button_El ty t h]"
| "render_parts es c p i [] = []"
| "render_parts es c p i (x # xs) = render_part es c (p @ [i]) x @ render_parts es c p (Suc i) xs"

definition render_form :: "form_errors \<Rightarrow> 'h form_part list \<Rightarrow> 'h form_element list" where
  "render_form es xs = render_parts es no_ctx [] 0 xs"

section \<open>Schemas\<close>

text \<open>The zod schemas the pages write, as data: the checks of a text with their messages.\<close>

datatype text_check = Str_Min nat string | Str_Email string

datatype zod_type = Z_String "text_check list" | Z_Enum "string list" | Z_Bool | Z_Optional zod_type

type_synonym zod_schema = "(string \<times> zod_type) list"

type_synonym form_data = "(string \<times> json) list"

text \<open>The length of a text in UTF-16 units, which \<open>min\<close> counts.\<close>

definition utf16_units :: "string \<Rightarrow> nat" where
  "utf16_units s =
     sum_list (map (\<lambda>c. if byte c < 128 then 1 else if byte c < 192 then 0 else if byte c < 240 then 1 else 2) s)"

text \<open>\<open>em\<close>: the test of zod's \<open>email\<close>.\<close>

fun check_passes :: "(string \<Rightarrow> bool) \<Rightarrow> text_check \<Rightarrow> string \<Rightarrow> bool" where
  "check_passes em (Str_Min n m) s \<longleftrightarrow> n \<le> utf16_units s"
| "check_passes em (Str_Email m) s \<longleftrightarrow> em s"

fun check_message :: "text_check \<Rightarrow> string" where
  "check_message (Str_Min n m) = m"
| "check_message (Str_Email m) = m"

fun admits :: "(string \<Rightarrow> bool) \<Rightarrow> zod_type \<Rightarrow> json option \<Rightarrow> bool" where
  "admits em (Z_Optional t) v \<longleftrightarrow> v = None \<or> admits em t v"
| "admits em (Z_String cs) (Some (JStr s)) \<longleftrightarrow> list_all (\<lambda>c. check_passes em c s) cs"
| "admits em (Z_Enum vs) (Some (JStr s)) \<longleftrightarrow> s \<in> set vs"
| "admits em Z_Bool (Some (JBool b)) \<longleftrightarrow> True"
| "admits em t v \<longleftrightarrow> False"

text \<open>The message the schema gives for a value: that of the first check it fails.\<close>

fun schema_message :: "(string \<Rightarrow> bool) \<Rightarrow> zod_type \<Rightarrow> json option \<Rightarrow> string option" where
  "schema_message em (Z_Optional t) v = schema_message em t v"
| "schema_message em (Z_String cs) (Some (JStr s)) =
     map_option check_message (find (\<lambda>c. \<not> check_passes em c s) cs)"
| "schema_message em t v = None"

definition schema_admits :: "(string \<Rightarrow> bool) \<Rightarrow> zod_schema \<Rightarrow> form_data \<Rightarrow> bool" where
  "schema_admits em sch d \<longleftrightarrow> list_all (\<lambda>(k, t). admits em t (map_of d k)) sch"

section \<open>The form library\<close>

record form_state =
  fs_values :: form_data
  fs_errors :: form_errors

text \<open>
  \<open>lib_submit\<close> is \<open>form.handleSubmit(onSubmit)\<close>: the state it leaves and the data
  \<open>onSubmit\<close> is called with, if it is. \<open>lib_change\<close> is \<open>field.onChange\<close>, and
  \<open>lib_reset\<close> whatever the browser and the controls make of a reset of the form element.
  \<open>lib_native\<close> is the browser's own check of an input of a type, before a submit is announced;
  it never objects to an empty input that is not required, nor to a plain text.
\<close>

record form_lib =
  lib_email :: "string \<Rightarrow> bool"
  lib_native :: "string \<Rightarrow> string \<Rightarrow> bool"
  lib_change :: "zod_schema \<Rightarrow> string \<Rightarrow> json \<Rightarrow> form_state \<Rightarrow> form_state"
  lib_submit :: "zod_schema \<Rightarrow> form_state \<Rightarrow> form_state \<times> form_data option"
  lib_reset :: "zod_schema \<Rightarrow> form_state \<Rightarrow> form_state"

definition submit_ok :: "form_lib \<Rightarrow> zod_schema \<Rightarrow> form_state \<Rightarrow> bool" where
  "submit_ok L sch st \<longleftrightarrow>
     (case lib_submit L sch st of
        (st', called) \<Rightarrow>
          fs_values st' = fs_values st \<and>
          (if schema_admits (lib_email L) sch (fs_values st)
           then fs_errors st' = [] \<and>
                (case called of
                   None \<Rightarrow> False
                 | Some d \<Rightarrow> list_all (\<lambda>(k, t). map_of d k = map_of (fs_values st) k) sch)
           else called = None \<and>
                list_all (\<lambda>(k, t).
                   if admits (lib_email L) t (map_of (fs_values st) k) then map_of (fs_errors st') k = None
                   else map_of (fs_errors st') k \<noteq> None \<and>
                        (case schema_message (lib_email L) t (map_of (fs_values st) k) of
                           None \<Rightarrow> True
                         | Some m \<Rightarrow> map_of (fs_errors st') k = Some m)) sch))"

definition form_lib_ok :: "form_lib \<Rightarrow> bool" where
  "form_lib_ok L \<longleftrightarrow>
     \<not> lib_email L [] \<and> (\<forall>ty. lib_native L ty []) \<and> (\<forall>s. lib_native L ''text'' s) \<and>
     (\<forall>sch st. distinct (map fst sch) \<longrightarrow> submit_ok L sch st) \<and>
     (\<forall>sch n v st. map_of (fs_values (lib_change L sch n v st)) = (map_of (fs_values st))(n \<mapsto> v))"

text \<open>An instance: validation by the schema alone, errors replaced by each submit.\<close>

definition sample_errors :: "(string \<Rightarrow> bool) \<Rightarrow> zod_schema \<Rightarrow> form_data \<Rightarrow> form_errors" where
  "sample_errors em sch d =
     map (\<lambda>(k, t). (k, case schema_message em t (map_of d k) of None \<Rightarrow> ''Invalid input'' | Some m \<Rightarrow> m))
       (filter (\<lambda>(k, t). \<not> admits em t (map_of d k)) sch)"

definition sample_lib :: form_lib where
  "sample_lib =
     (let em = (\<lambda>s. CHR ''@'' \<in> set s) in
      \<lparr>lib_email = em, lib_native = (\<lambda>ty s. ty = ''email'' \<longrightarrow> s = [] \<or> em s),
       lib_change = (\<lambda>sch n v st. st\<lparr>fs_values := (n, v) # fs_values st\<rparr>),
       lib_submit = (\<lambda>sch st.
         (st\<lparr>fs_errors := sample_errors em sch (fs_values st)\<rparr>,
          if schema_admits em sch (fs_values st) then Some (fs_values st) else None)),
       lib_reset = (\<lambda>sch st. st)\<rparr>)"

section \<open>Where controls, labels and messages stand\<close>

text \<open>The places of a tree that the errors do not move: field and item of each.\<close>

datatype place = Label_At | Control_At widget | Message_At

fun places_part :: "form_ctx \<Rightarrow> nat list \<Rightarrow> 'h form_part \<Rightarrow> (place \<times> form_ctx) list"
  and places_parts :: "form_ctx \<Rightarrow> nat list \<Rightarrow> nat \<Rightarrow> 'h form_part list \<Rightarrow> (place \<times> form_ctx) list"
where
  "places_part c p (Words t) = []"
| "places_part c p (Group xs) = places_parts c p 0 xs"
| "places_part c p (FormField n xs) = places_parts (c\<lparr>fc_name := Some n\<rparr>) p 0 xs"
| "places_part c p (FormItem xs) = places_parts (c\<lparr>fc_item := Some p\<rparr>) p 0 xs"
| "places_part c p (FormLabel xs) = (Label_At, c) # places_parts c p 0 xs"
| "places_part c p (FormControl w xs) = (Control_At w, c) # places_parts c p 0 xs"
| "places_part c p FormMessage = [(Message_At, c)]"
| "places_part c p (Form_Button ty t h) = []"
| "places_parts c p i [] = []"
| "places_parts c p i (x # xs) = places_part c (p @ [i]) x @ places_parts c p (Suc i) xs"

definition places :: "'h form_part list \<Rightarrow> (place \<times> form_ctx) list" where
  "places xs = places_parts no_ctx [] 0 xs"

fun element_at :: "form_errors \<Rightarrow> place \<times> form_ctx \<Rightarrow> 'h form_element list" where
  "element_at es (Label_At, c) = [formLabel (useFormField es c)]"
| "element_at es (Control_At w, c) = [formControl (useFormField es c) w]"
| "element_at es (Message_At, c) = formMessage (useFormField es c)"

fun is_placed :: "'h form_element \<Rightarrow> bool" where
  "is_placed (Words_El t) = False"
| "is_placed (Button_El ty t h) = False"
| "is_placed e = True"

lemma placed_simps [simp]:
  "is_placed (formLabel f)" "is_placed (formControl f w)"
  "filter is_placed (formMessage f) = formMessage f"
  by (auto simp: formLabel_def formControl_def formMessage_def split: option.splits)

lemma placed_parts:
  fixes x :: "'h form_part" and xs :: "'h form_part list"
  shows "filter is_placed (render_part es c p x) = concat (map (element_at es) (places_part c p x))"
    and "filter is_placed (render_parts es c p i xs) = concat (map (element_at es) (places_parts c p i xs))"
  by (induction es c p x and es c p i xs rule: render_part_render_parts.induct) auto

lemma placed_form:
  "filter is_placed (render_form es xs) = concat (map (element_at es) (places xs))"
  by (simp add: render_form_def places_def placed_parts)

lemma shown_at:
  assumes "(w, c) \<in> set (places xs)" "e \<in> set (element_at es (w, c))" "is_placed e"
  shows "e \<in> set (render_form es xs)"
proof -
  have "e \<in> set (filter is_placed (render_form es xs))"
    using assms by (force simp: placed_form)
  then show ?thesis by simp
qed

lemma message_at:
  "Message_El j m \<in> set (element_at es (w, c) :: 'h form_element list) \<longleftrightarrow>
     w = Message_At \<and> j = Message_Id (fc_item c) \<and> m \<noteq> [] \<and>
     Option.bind (fc_name c) (map_of es) = Some m"
  by (cases w; cases "Option.bind (fc_name c) (map_of es)")
     (auto simp add: formLabel_def formControl_def formMessage_def useFormField_def)

lemma message_shown_iff:
  fixes xs :: "'h form_part list"
  shows "Message_El j m \<in> set (render_form es xs) \<longleftrightarrow>
     (\<exists>c. (Message_At, c) \<in> set (places xs) \<and> j = Message_Id (fc_item c) \<and> m \<noteq> [] \<and>
          Option.bind (fc_name c) (map_of es) = Some m)"
proof -
  have "Message_El j m \<in> set (render_form es xs) \<longleftrightarrow>
        Message_El j m \<in> set (filter is_placed (render_form es xs))"
    by simp
  also have "\<dots> \<longleftrightarrow> (\<exists>x\<in>set (places xs). Message_El j m \<in> set (element_at es x :: 'h form_element list))"
    unfolding placed_form by (simp del: set_filter)
  also have "\<dots> \<longleftrightarrow> (\<exists>c. (Message_At, c) \<in> set (places xs) \<and> j = Message_Id (fc_item c) \<and> m \<noteq> [] \<and>
          Option.bind (fc_name c) (map_of es) = Some m)"
    by (auto simp: message_at Bex_def)
  finally show ?thesis .
qed

section \<open>The buttons of a form\<close>

fun buttons_of :: "'h form_part \<Rightarrow> (string option \<times> string \<times> 'h option) list" where
  "buttons_of (Form_Button ty t h) = [(ty, t, h)]"
| "buttons_of (Group xs) = concat (map buttons_of xs)"
| "buttons_of (FormField n xs) = concat (map buttons_of xs)"
| "buttons_of (FormItem xs) = concat (map buttons_of xs)"
| "buttons_of (FormLabel xs) = concat (map buttons_of xs)"
| "buttons_of (FormControl w xs) = concat (map buttons_of xs)"
| "buttons_of x = []"

lemma rendered_buttons:
  fixes x :: "'h form_part" and xs :: "'h form_part list"
  shows "Button_El ty t h \<in> set (render_part es c p x) \<longleftrightarrow> (ty, t, h) \<in> set (buttons_of x)"
    and "Button_El ty t h \<in> set (render_parts es c p i xs) \<longleftrightarrow> (ty, t, h) \<in> set (concat (map buttons_of xs))"
  by (induction es c p x and es c p i xs rule: render_part_render_parts.induct)
     (auto simp: formLabel_def formControl_def formMessage_def split: option.splits)

lemma button_shown_iff:
  "Button_El ty t h \<in> set (render_form es xs) \<longleftrightarrow> (ty, t, h) \<in> set (concat (map buttons_of xs))"
  by (simp add: render_form_def rendered_buttons)

section \<open>Ids of labels and controls\<close>

fun label_id :: "'h form_element \<Rightarrow> form_id list" where
  "label_id (Label_El i b) = [i]"
| "label_id e = []"

fun control_id :: "'h form_element \<Rightarrow> form_id list" where
  "control_id (Control_El i d b w n) = [i]"
| "control_id e = []"

fun label_item :: "place \<times> form_ctx \<Rightarrow> form_id list" where
  "label_item (Label_At, c) = [Item_Id (fc_item c)]"
| "label_item x = []"

fun control_item :: "place \<times> form_ctx \<Rightarrow> form_id list" where
  "control_item (Control_At w, c) = [Item_Id (fc_item c)]"
| "control_item x = []"

lemma concat_filter: "(\<And>x. \<not> P x \<Longrightarrow> f x = []) \<Longrightarrow> concat (map f xs) = concat (map f (filter P xs))"
  by (induction xs) auto

lemma ids_at:
  "concat (map label_id (element_at es x :: 'h form_element list)) = label_item x"
  "concat (map control_id (element_at es x :: 'h form_element list)) = control_item x"
  by (cases x rule: control_item.cases;
      auto simp: formLabel_def formControl_def formMessage_def useFormField_def split: option.splits)+

lemma rendered_ids:
  fixes xs :: "'h form_part list"
  shows "concat (map label_id (render_form es xs)) = concat (map label_item (places xs))"
    and "concat (map control_id (render_form es xs)) = concat (map control_item (places xs))"
proof -
  have unplaced: "label_id e = []" "control_id e = []" if "\<not> is_placed e" for e :: "'h form_element"
    using that by (cases e; simp)+
  have spread: "concat (map f (concat (map (element_at es) ys))) = concat (map (\<lambda>y. concat (map f (element_at es y))) ys)"
    for f :: "'h form_element \<Rightarrow> form_id list" and ys
    by (induction ys) auto
  show "concat (map label_id (render_form es xs)) = concat (map label_item (places xs))"
    by (subst concat_filter [where P = is_placed]) (simp_all add: unplaced placed_form spread ids_at)
  show "concat (map control_id (render_form es xs)) = concat (map control_item (places xs))"
    by (subst concat_filter [where P = is_placed]) (simp_all add: unplaced placed_form spread ids_at)
qed

text \<open>Items that React tells apart have different ids, and so have the controls in them.\<close>

lemma dom_id_inject:
  assumes "inj uid"
  shows "dom_id uid (Item_Id (Some a)) = dom_id uid (Item_Id (Some b)) \<longleftrightarrow> a = b"
  using assms by (auto simp: id_text_def inj_eq)

end
