(* ===== verification/Template_Settings.thy ===== *)
theory Template_Settings
  imports "HOL-Library.Countable" Form_Kit
begin

text \<open>
  The Builder's settings pages kept from the template
  (\<open>app/(dashboard)/settings/{account,appearance,notifications,user}/page.tsx\<close>): schema, default
  values and JSX of each form, what its buttons do, and the profile picture of the user page. The
  pages save nothing: \<open>onSubmit\<close> logs the data to the console.
\<close>

section \<open>Pages and their handlers\<close>

datatype settings_handler = handleFileUpload | handleReset

type_synonym settings_part = "settings_handler form_part"

record template_page =
  sp_schema :: zod_schema
  sp_defaults :: form_data
  sp_parts :: "settings_part list"

text \<open>The arrangements the pages repeat: a labelled control, and a box with its label after it.\<close>

definition labelled :: "string \<Rightarrow> string \<Rightarrow> widget \<Rightarrow> settings_part" where
  "labelled n l w = FormField n [FormItem [FormLabel [Words l], FormControl w [], FormMessage]]"

definition box_before :: "string \<Rightarrow> string \<Rightarrow> string \<Rightarrow> settings_part" where
  "box_before n l t = FormField n [FormItem [FormControl Check_Box [], Group [FormLabel [Words l], Words t]]]"

definition box_after :: "string \<Rightarrow> string \<Rightarrow> string \<Rightarrow> settings_part" where
  "box_after n l t = FormField n [FormItem [Group [Group [FormLabel [Words l], Words t]], FormControl Check_Box []]]"

definition box_cell :: "string \<Rightarrow> settings_part" where
  "box_cell n = Group [FormField n [FormItem [FormControl Check_Box []]]]"

lemmas part_defs = labelled_def box_before_def box_after_def box_cell_def

section \<open>account/page.tsx\<close>

definition accountFormSchema :: zod_schema where
  "accountFormSchema =
     [(''firstName'', Z_String [Str_Min 1 ''First name is required'']),
      (''lastName'', Z_String [Str_Min 1 ''Last name is required'']),
      (''email'', Z_String [Str_Email ''Invalid email address'']),
      (''username'', Z_String [Str_Min 3 ''Username must be at least 3 characters'']),
      (''currentPassword'', Z_Optional (Z_String [])),
      (''newPassword'', Z_Optional (Z_String [])),
      (''confirmPassword'', Z_Optional (Z_String []))]"

definition account_defaults :: form_data where
  "account_defaults =
     [(''firstName'', JStr []), (''lastName'', JStr []), (''email'', JStr []), (''username'', JStr []),
      (''currentPassword'', JStr []), (''newPassword'', JStr []), (''confirmPassword'', JStr [])]"

definition personal_card :: settings_part where
  "personal_card = Group
     [Words ''Personal Information'',
      Words ''Update your personal information that will be displayed on your profile.'',
      Group
        [Group [labelled ''firstName'' ''First Name'' (Input_Box ''text'' ''Enter your first name''),
                labelled ''lastName'' ''Last Name'' (Input_Box ''text'' ''Enter your last name'')],
         labelled ''email'' ''Email Address'' (Input_Box ''email'' ''Enter your email''),
         labelled ''username'' ''Username'' (Input_Box ''text'' ''Enter your username'')]]"

definition password_card :: settings_part where
  "password_card = Group
     [Words ''Change Password'',
      Words ''Update your password to keep your account secure.'',
      Group
        [labelled ''currentPassword'' ''Current Password'' (Input_Box ''password'' ''Enter current password''),
         labelled ''newPassword'' ''New Password'' (Input_Box ''password'' ''Enter new password''),
         labelled ''confirmPassword'' ''Confirm New Password'' (Input_Box ''password'' ''Confirm new password'')]]"

definition danger_card :: settings_part where
  "danger_card = Group
     [Words ''Danger Zone'',
      Words ''Irreversible and destructive actions.'',
      Group
        [Group [Words ''Delete Account'',
                Words ''Permanently delete your account and all associated data.''],
         Form_Button (Some ''button'') ''Delete Account'' None]]"

definition account_page :: template_page where
  "account_page =
     \<lparr>sp_schema = accountFormSchema, sp_defaults = account_defaults,
      sp_parts =
        [Group [Words ''Account Settings'', Words ''Manage your account settings and preferences.''],
         personal_card, password_card, danger_card,
         Group [Form_Button (Some ''submit'') ''Save Changes'' None,
                Form_Button (Some ''reset'') ''Cancel'' None]]\<rparr>"

section \<open>appearance/page.tsx\<close>

definition appearanceFormSchema :: zod_schema where
  "appearanceFormSchema =
     [(''theme'', Z_Enum [''light'', ''dark'']),
      (''fontFamily'', Z_Optional (Z_String [])),
      (''fontSize'', Z_Optional (Z_String [])),
      (''sidebarWidth'', Z_Optional (Z_String [])),
      (''contentWidth'', Z_Optional (Z_String []))]"

definition appearance_defaults :: form_data where
  "appearance_defaults =
     [(''theme'', JStr ''dark''), (''fontFamily'', JStr []), (''fontSize'', JStr []),
      (''sidebarWidth'', JStr []), (''contentWidth'', JStr [])]"

definition theme_field :: settings_part where
  "theme_field = FormField ''theme''
     [FormItem
        [FormControl Radio_Box
           [FormItem [FormLabel [FormControl (Radio_Item ''light'') [], Group [Words ''Light'']]],
            FormItem [FormLabel [FormControl (Radio_Item ''dark'') [], Group [Words ''Dark'']]]],
         FormMessage]]"

definition font_fields :: "settings_part list" where
  "font_fields =
     [labelled ''fontFamily'' ''Font Family''
        (Select_Box ''Select a font''
           [(''inter'', ''Inter''), (''roboto'', ''Roboto''), (''system'', ''System Default'')]),
      labelled ''fontSize'' ''Font Size''
        (Select_Box ''Select font size''
           [(''small'', ''Small''), (''medium'', ''Medium''), (''large'', ''Large'')])]"

definition layout_fields :: "settings_part list" where
  "layout_fields =
     [labelled ''sidebarWidth'' ''Sidebar Width''
        (Select_Box ''Select sidebar width''
           [(''compact'', ''Compact''), (''comfortable'', ''Comfortable''), (''spacious'', ''Spacious'')]),
      labelled ''contentWidth'' ''Content Width''
        (Select_Box ''Select content width''
           [(''fixed'', ''Fixed''), (''fluid'', ''Fluid''), (''container'', ''Container'')])]"

definition appearance_page :: template_page where
  "appearance_page =
     \<lparr>sp_schema = appearanceFormSchema, sp_defaults = appearance_defaults,
      sp_parts =
        [Group [Words ''Appearance'', Words ''Customize the appearance of the application.''],
         Words ''Theme'', theme_field] @ font_fields @ layout_fields
        @ [Group [Form_Button (Some ''submit'') ''Save Preferences'' None,
                  Form_Button (Some ''button'') ''Cancel'' None]]\<rparr>"

section \<open>notifications/page.tsx\<close>

definition notificationsFormSchema :: zod_schema where
  "notificationsFormSchema =
     [(''emailSecurity'', Z_Bool), (''emailUpdates'', Z_Bool), (''emailMarketing'', Z_Bool),
      (''pushMessages'', Z_Bool), (''pushMentions'', Z_Bool), (''pushTasks'', Z_Bool),
      (''emailFrequency'', Z_String []), (''quietHoursStart'', Z_String []), (''quietHoursEnd'', Z_String []),
      (''channelEmail'', Z_Bool), (''channelPush'', Z_Bool), (''channelSms'', Z_Bool),
      (''orderUpdatesEmail'', Z_Bool), (''orderUpdatesBrowser'', Z_Bool), (''orderUpdatesApp'', Z_Bool),
      (''invoiceRemindersEmail'', Z_Bool), (''invoiceRemindersBrowser'', Z_Bool), (''invoiceRemindersApp'', Z_Bool),
      (''promotionalOffersEmail'', Z_Bool), (''promotionalOffersBrowser'', Z_Bool), (''promotionalOffersApp'', Z_Bool),
      (''systemMaintenanceEmail'', Z_Bool), (''systemMaintenanceBrowser'', Z_Bool), (''systemMaintenanceApp'', Z_Bool),
      (''notificationTiming'', Z_String [])]"

definition notifications_defaults :: form_data where
  "notifications_defaults =
     [(''emailSecurity'', JBool False), (''emailUpdates'', JBool True), (''emailMarketing'', JBool False),
      (''pushMessages'', JBool True), (''pushMentions'', JBool True), (''pushTasks'', JBool False),
      (''emailFrequency'', JStr ''instant''),
      (''quietHoursStart'', JStr ''22:00''), (''quietHoursEnd'', JStr ''06:00''),
      (''channelEmail'', JBool True), (''channelPush'', JBool True), (''channelSms'', JBool False),
      (''orderUpdatesEmail'', JBool True), (''orderUpdatesBrowser'', JBool True), (''orderUpdatesApp'', JBool True),
      (''invoiceRemindersEmail'', JBool True), (''invoiceRemindersBrowser'', JBool False),
      (''invoiceRemindersApp'', JBool True),
      (''promotionalOffersEmail'', JBool False), (''promotionalOffersBrowser'', JBool True),
      (''promotionalOffersApp'', JBool False),
      (''systemMaintenanceEmail'', JBool True), (''systemMaintenanceBrowser'', JBool True),
      (''systemMaintenanceApp'', JBool False),
      (''notificationTiming'', JStr ''online'')]"

definition email_card :: settings_part where
  "email_card = Group
     [Words ''Email Notifications'',
      Words ''Choose what email notifications you want to receive.'',
      Group
        [box_before ''emailSecurity'' ''Security alerts''
           ''Get notified when there are security events on your account.'',
         box_before ''emailUpdates'' ''Product updates''
           ''Receive updates about new features and improvements.'',
         box_before ''emailMarketing'' ''Marketing emails''
           ''Receive emails about our latest offers and promotions.'']]"

definition push_card :: settings_part where
  "push_card = Group
     [Words ''Push Notifications'',
      Words ''Configure browser and mobile push notifications.'',
      Group
        [box_before ''pushMessages'' ''New messages''
           ''Get notified when you receive new messages.'',
         box_before ''pushMentions'' ''Mentions''
           ''Get notified when someone mentions you.'',
         box_before ''pushTasks'' ''Task updates''
           ''Get notified about task assignments and updates.'']]"

text \<open>The quiet hours: one item, outside of any field, around two fields that have no item of their own.\<close>

definition quiet_hours :: settings_part where
  "quiet_hours = FormItem
     [FormLabel [Words ''Quiet Hours''],
      Group
        [FormField ''quietHoursStart''
           [FormControl (Select_Box ''Start''
              [(''22:00'', ''10:00 PM''), (''23:00'', ''11:00 PM''), (''00:00'', ''12:00 AM'')]) []],
         Words ''to'',
         FormField ''quietHoursEnd''
           [FormControl (Select_Box ''End''
              [(''06:00'', ''6:00 AM''), (''07:00'', ''7:00 AM''), (''08:00'', ''8:00 AM'')]) []]]]"

definition frequency_card :: settings_part where
  "frequency_card = Group
     [Words ''Notification Frequency'',
      Words ''Control how often you receive notifications.'',
      Group
        [labelled ''emailFrequency'' ''Email Frequency''
           (Select_Box ''Select frequency''
              [(''instant'', ''Instant''), (''hourly'', ''Hourly digest''), (''daily'', ''Daily digest''),
               (''weekly'', ''Weekly digest''), (''never'', ''Never'')]),
         quiet_hours]]"

definition order_updates_row :: settings_part where
  "order_updates_row = Group
     [Words ''Order updates'', box_cell ''orderUpdatesEmail'', box_cell ''orderUpdatesBrowser'',
      box_cell ''orderUpdatesApp'']"

definition invoice_reminders_row :: settings_part where
  "invoice_reminders_row = Group
     [Words ''Invoice reminders'', box_cell ''invoiceRemindersEmail'', box_cell ''invoiceRemindersBrowser'',
      box_cell ''invoiceRemindersApp'']"

definition promotional_offers_row :: settings_part where
  "promotional_offers_row = Group
     [Words ''Promotional offers'', box_cell ''promotionalOffersEmail'', box_cell ''promotionalOffersBrowser'',
      box_cell ''promotionalOffersApp'']"

definition system_maintenance_row :: settings_part where
  "system_maintenance_row = Group
     [Words ''System maintenance'', box_cell ''systemMaintenanceEmail'', box_cell ''systemMaintenanceBrowser'',
      box_cell ''systemMaintenanceApp'']"

definition preferences_table :: settings_part where
  "preferences_table = Group
     [Group [Words ''TYPE'', Words ''EMAIL'', Words ''BROWSER'', Words ''APP''],
      order_updates_row, invoice_reminders_row, promotional_offers_row, system_maintenance_row]"

definition preferences_card :: settings_part where
  "preferences_card = Group
     [Words ''Notification Preferences'',
      Group [Words ''We need permission from your browser to show notifications.'', Words '' '',
             Form_Button None ''Request Permission'' None],
      Group
        [preferences_table,
         labelled ''notificationTiming'' ''When should we send you notifications?''
           (Select_Box ''Select timing''
              [(''online'', ''Only When I'' @ [CHR 0x27] @ ''m online''), (''always'', ''Always''),
               (''never'', ''Never'')])]]"

definition channels_card :: settings_part where
  "channels_card = Group
     [Words ''Notification Channels'',
      Words ''Choose your preferred notification channels for different types of alerts.'',
      Group
        [box_after ''channelEmail'' ''Email'' ''Receive notifications via email'',
         box_after ''channelPush'' ''Push Notifications'' ''Receive browser push notifications'',
         box_after ''channelSms'' ''SMS'' ''Receive notifications via SMS'']]"

definition notifications_page :: template_page where
  "notifications_page =
     \<lparr>sp_schema = notificationsFormSchema, sp_defaults = notifications_defaults,
      sp_parts =
        [Group [Words ''Notifications'', Words ''Configure how you receive notifications.''],
         Group [email_card, push_card], frequency_card, preferences_card, channels_card,
         Group [Form_Button (Some ''submit'') ''Save Preferences'' None,
                Form_Button (Some ''reset'') ''Cancel'' None]]\<rparr>"

section \<open>user/page.tsx: the form\<close>

definition userFormSchema :: zod_schema where
  "userFormSchema =
     [(''firstName'', Z_String [Str_Min 1 ''First name is required'']),
      (''lastName'', Z_String [Str_Min 1 ''Last name is required'']),
      (''email'', Z_String [Str_Email ''Invalid email address'']),
      (''phone'', Z_Optional (Z_String [])), (''website'', Z_Optional (Z_String [])),
      (''location'', Z_Optional (Z_String [])), (''role'', Z_Optional (Z_String [])),
      (''bio'', Z_Optional (Z_String [])), (''company'', Z_Optional (Z_String [])),
      (''timezone'', Z_Optional (Z_String [])), (''language'', Z_Optional (Z_String []))]"

definition user_defaults :: form_data where
  "user_defaults =
     [(''firstName'', JStr []), (''lastName'', JStr []), (''email'', JStr []), (''phone'', JStr []),
      (''website'', JStr []), (''location'', JStr []), (''role'', JStr []), (''bio'', JStr []),
      (''company'', JStr []), (''timezone'', JStr []), (''language'', JStr [])]"

definition picture_buttons :: settings_part where
  "picture_buttons = Group
     [Group [Form_Button None ''Upload new photo'' (Some handleFileUpload),
             Form_Button None ''Reset'' (Some handleReset)],
      Words ''Allowed JPG, GIF or PNG. Max size of 800K'']"

definition user_fields :: settings_part where
  "user_fields = Group
     [labelled ''firstName'' ''First Name'' (Input_Box ''text'' ''Enter your first name''),
      labelled ''lastName'' ''Last Name'' (Input_Box ''text'' ''Enter your last name''),
      labelled ''email'' ''E-mail'' (Input_Box ''email'' ''Enter your email''),
      labelled ''company'' ''Company'' (Input_Box ''text'' ''Enter your company''),
      labelled ''phone'' ''Phone Number'' (Input_Box ''tel'' ''Enter your phone number''),
      labelled ''location'' ''Location'' (Input_Box ''text'' ''Enter your location''),
      labelled ''website'' ''Website'' (Input_Box ''url'' ''Enter your website''),
      labelled ''language'' ''Language''
        (Select_Box ''Select Language''
           [(''english'', ''English''), (''spanish'', ''Spanish''), (''french'', ''French''),
            (''german'', ''German''), (''italian'', ''Italian''), (''portuguese'', ''Portuguese'')]),
      labelled ''role'' ''Role'' (Input_Box ''text'' ''Enter your role''),
      labelled ''timezone'' ''Timezone''
        (Select_Box ''Select Timezone''
           [(''pst'', ''PST (Pacific Standard Time)''), (''est'', ''EST (Eastern Standard Time)''),
            (''cst'', ''CST (Central Standard Time)''), (''mst'', ''MST (Mountain Standard Time)''),
            (''utc'', ''UTC (Coordinated Universal Time)''), (''cet'', ''CET (Central European Time)''),
            (''jst'', ''JST (Japan Standard Time)''),
            (''aest'', ''AEST (Australian Eastern Standard Time)'')])]"

definition bio_field :: settings_part where
  "bio_field = labelled ''bio'' ''Bio'' (Text_Area ''Tell us a little about yourself...'')"

definition user_page :: template_page where
  "user_page =
     \<lparr>sp_schema = userFormSchema, sp_defaults = user_defaults,
      sp_parts =
        [Words ''Profile Settings'', Words ''Update your personal information and preferences'',
         picture_buttons, user_fields, bio_field,
         Group [Form_Button (Some ''submit'') ''Save Changes'' None,
                Form_Button (Some ''button'') ''Cancel'' None]]\<rparr>"

definition template_pages :: "template_page list" where
  "template_pages = [account_page, appearance_page, notifications_page, user_page]"

section \<open>What a page does\<close>

text \<open>
  The state of a page: the form, what \<open>onSubmit\<close> has logged, and the user page's picture:
  \<open>profileImage\<close>, \<open>useDefaultIcon\<close>, whether the file input holds a file, and the
  \<open>FileReader\<close>s in flight, each by the data URL it will give.
\<close>

record settings_view =
  sv_form :: form_state
  sv_logged :: "form_data list"
  sv_profileImage :: "string option"
  sv_useDefaultIcon :: bool
  sv_chosen :: bool
  sv_reading :: "string list"

definition open_settings :: "template_page \<Rightarrow> settings_view" where
  "open_settings p =
     \<lparr>sv_form = \<lparr>fs_values = sp_defaults p, fs_errors = []\<rparr>, sv_logged = [],
      sv_profileImage = None, sv_useDefaultIcon = True, sv_chosen = False, sv_reading = []\<rparr>"

definition onSubmit :: "form_data \<Rightarrow> settings_view \<Rightarrow> settings_view" where
  "onSubmit d st = st\<lparr>sv_logged := sv_logged st @ [d]\<rparr>"

text \<open>The handlers of the picture's buttons: one opens the file chooser, the other forgets the picture.\<close>

fun on_click :: "settings_handler option \<Rightarrow> settings_view \<Rightarrow> settings_view" where
  "on_click None st = st"
| "on_click (Some handleFileUpload) st = st"
| "on_click (Some handleReset) st =
     st\<lparr>sv_profileImage := None, sv_useDefaultIcon := True, sv_chosen := False\<rparr>"

definition handleFileChange :: "string option \<Rightarrow> settings_view \<Rightarrow> settings_view" where
  "handleFileChange file st =
     (case file of
        None \<Rightarrow> st\<lparr>sv_chosen := False\<rparr>
      | Some url \<Rightarrow> st\<lparr>sv_chosen := True, sv_reading := sv_reading st @ [url]\<rparr>)"

definition reader_onload :: "nat \<Rightarrow> settings_view \<Rightarrow> settings_view" where
  "reader_onload i st =
     (if i < length (sv_reading st)
      then st\<lparr>sv_profileImage := Some (sv_reading st ! i), sv_useDefaultIcon := False,
              sv_reading := take i (sv_reading st) @ drop (Suc i) (sv_reading st)\<rparr>
      else st)"

text \<open>What stands where the picture goes: the logo, or the image with the initials behind it.\<close>

datatype picture = Logo_Icon | Avatar_Image "string option" string

definition profile_picture :: "settings_view \<Rightarrow> picture" where
  "profile_picture st =
     (if sv_useDefaultIcon st then Logo_Icon
      else Avatar_Image
        (case sv_profileImage st of None \<Rightarrow> None | Some url \<Rightarrow> if url = [] then None else Some url) ''SS'')"

text \<open>The browser announces a submit when every input passes its check.\<close>

fun native_passes :: "form_lib \<Rightarrow> form_data \<Rightarrow> place \<times> form_ctx \<Rightarrow> bool" where
  "native_passes L d (Control_At (Input_Box ty ph), c) \<longleftrightarrow>
     (case Option.bind (fc_name c) (map_of d) of Some (JStr s) \<Rightarrow> lib_native L ty s | _ \<Rightarrow> True)"
| "native_passes L d x \<longleftrightarrow> True"

definition native_valid :: "form_lib \<Rightarrow> template_page \<Rightarrow> form_data \<Rightarrow> bool" where
  "native_valid L p d \<longleftrightarrow> list_all (native_passes L d) (places (sp_parts p))"

definition submit_form :: "form_lib \<Rightarrow> template_page \<Rightarrow> settings_view \<Rightarrow> settings_view" where
  "submit_form L p st =
     (if native_valid L p (fs_values (sv_form st))
      then (case lib_submit L (sp_schema p) (sv_form st) of
              (f, None) \<Rightarrow> st\<lparr>sv_form := f\<rparr>
            | (f, Some d) \<Rightarrow> onSubmit d (st\<lparr>sv_form := f\<rparr>))
      else st)"

text \<open>A button of a form submits it unless its type says otherwise; \<open>button.tsx\<close> sets none.\<close>

definition press :: "form_lib \<Rightarrow> template_page \<Rightarrow> string option \<Rightarrow> settings_handler option \<Rightarrow> settings_view \<Rightarrow> settings_view" where
  "press L p ty h st =
     (let st' = on_click h st in
      if ty = Some ''button'' then st'
      else if ty = Some ''reset'' then st'\<lparr>sv_form := lib_reset L (sp_schema p) (sv_form st')\<rparr>
      else submit_form L p st')"

fun offers :: "widget \<Rightarrow> json \<Rightarrow> bool" where
  "offers (Input_Box ty ph) (JStr s) \<longleftrightarrow> True"
| "offers (Text_Area ph) (JStr s) \<longleftrightarrow> True"
| "offers Check_Box (JBool b) \<longleftrightarrow> True"
| "offers (Select_Box ph xs) (JStr s) \<longleftrightarrow> s \<in> set (map fst xs)"
| "offers (Radio_Item v) (JStr s) \<longleftrightarrow> s = v"
| "offers w v \<longleftrightarrow> False"

text \<open>The values a user can give a field: those of a control bound to it.\<close>

fun enters :: "string \<Rightarrow> json \<Rightarrow> place \<times> form_ctx \<Rightarrow> bool" where
  "enters n v (Control_At w, c) \<longleftrightarrow> fc_name c = Some n \<and> offers w v"
| "enters n v x \<longleftrightarrow> False"

definition can_enter :: "template_page \<Rightarrow> string \<Rightarrow> json \<Rightarrow> bool" where
  "can_enter p n v \<longleftrightarrow> list_ex (enters n v) (places (sp_parts p))"

datatype settings_event =
    Enters string json
  | Presses "string option" "settings_handler option"
  | Picks "string option"
  | Reader_Loads nat

fun settings_step :: "form_lib \<Rightarrow> template_page \<Rightarrow> settings_view \<Rightarrow> settings_event \<Rightarrow> settings_view" where
  "settings_step L p st (Enters n v) =
     (if can_enter p n v then st\<lparr>sv_form := lib_change L (sp_schema p) n v (sv_form st)\<rparr> else st)"
| "settings_step L p st (Presses ty h) = press L p ty h st"
| "settings_step L p st (Picks file) = handleFileChange file st"
| "settings_step L p st (Reader_Loads i) = reader_onload i st"

definition settings_run :: "form_lib \<Rightarrow> template_page \<Rightarrow> settings_event list \<Rightarrow> settings_view" where
  "settings_run L p es = foldl (settings_step L p) (open_settings p) es"

definition settings_shown :: "template_page \<Rightarrow> settings_view \<Rightarrow> settings_handler form_element list" where
  "settings_shown p st = render_form (fs_errors (sv_form st)) (sp_parts p)"

section \<open>Fields and schemas\<close>

text \<open>The types of the values a schema allows, its checks of texts left out.\<close>

fun fits :: "zod_type \<Rightarrow> json \<Rightarrow> bool" where
  "fits (Z_Optional t) v \<longleftrightarrow> fits t v"
| "fits (Z_String cs) (JStr s) \<longleftrightarrow> True"
| "fits (Z_Enum vs) (JStr s) \<longleftrightarrow> s \<in> set vs"
| "fits Z_Bool (JBool b) \<longleftrightarrow> True"
| "fits t v \<longleftrightarrow> False"

fun takes_text :: "zod_type \<Rightarrow> bool" where
  "takes_text (Z_Optional t) \<longleftrightarrow> takes_text t"
| "takes_text (Z_String cs) \<longleftrightarrow> True"
| "takes_text t \<longleftrightarrow> False"

fun widget_fits :: "widget \<Rightarrow> zod_type \<Rightarrow> bool" where
  "widget_fits (Input_Box ty ph) t \<longleftrightarrow> takes_text t"
| "widget_fits (Text_Area ph) t \<longleftrightarrow> takes_text t"
| "widget_fits Check_Box t \<longleftrightarrow> t = Z_Bool"
| "widget_fits (Select_Box ph xs) t \<longleftrightarrow> xs \<noteq> [] \<and> distinct (map fst xs) \<and> list_all (\<lambda>(v, l). fits t (JStr v)) xs"
| "widget_fits Radio_Box t \<longleftrightarrow> True"
| "widget_fits (Radio_Item v) t \<longleftrightarrow> fits t (JStr v)"

lemma takes_text_fits: "takes_text t \<Longrightarrow> fits t (JStr s)"
  by (induction t) auto

lemma offered_fits: "widget_fits w t \<Longrightarrow> offers w v \<Longrightarrow> fits t v"
  by (cases w; cases v) (auto simp: takes_text_fits list_all_iff)

fun text_checks :: "zod_type \<Rightarrow> text_check list" where
  "text_checks (Z_Optional t) = text_checks t"
| "text_checks (Z_String cs) = cs"
| "text_checks t = []"

lemma schema_message_check:
  assumes "schema_message em t v = Some m"
  shows "list_ex (\<lambda>c. check_message c = m) (text_checks t)"
  using assms
  by (induction em t v rule: schema_message.induct) (auto simp: list_ex_iff find_Some_iff intro: bexI [OF _ nth_mem])

fun place_fits :: "zod_schema \<Rightarrow> place \<times> form_ctx \<Rightarrow> bool" where
  "place_fits sch (Control_At w, c) \<longleftrightarrow>
     (case fc_name c of
        None \<Rightarrow> False
      | Some n \<Rightarrow> (case map_of sch n of None \<Rightarrow> False | Some t \<Rightarrow> widget_fits w t))"
| "place_fits sch (Label_At, c) \<longleftrightarrow> True"
| "place_fits sch (Message_At, c) \<longleftrightarrow> fc_name c \<noteq> None"

fun offers_some :: "widget \<Rightarrow> bool" where
  "offers_some Radio_Box \<longleftrightarrow> False"
| "offers_some (Select_Box ph xs) \<longleftrightarrow> xs \<noteq> []"
| "offers_some w \<longleftrightarrow> True"

fun enterable :: "string \<Rightarrow> place \<times> form_ctx \<Rightarrow> bool" where
  "enterable n (Control_At w, c) \<longleftrightarrow> fc_name c = Some n \<and> offers_some w"
| "enterable n x \<longleftrightarrow> False"

lemma offers_some: "offers_some w \<Longrightarrow> \<exists>v. offers w v"
proof (cases w)
  case (Select_Box ph xs)
  moreover assume "offers_some w"
  ultimately show ?thesis by (cases xs) (auto intro!: exI [of _ "JStr (fst (hd xs))"])
qed (auto intro: exI [of _ "JStr []"] exI [of _ "JBool True"] exI [of _ "JStr v" for v])

lemma enterable: "enterable n x \<Longrightarrow> \<exists>v. enters n v x"
  by (cases "(n, x)" rule: enterable.cases) (auto dest: offers_some)

definition same_place :: "string \<Rightarrow> (place \<times> form_ctx) list \<Rightarrow> place \<times> form_ctx \<Rightarrow> bool" where
  "same_place k xs x \<longleftrightarrow>
     fst x = Message_At \<and> fc_name (snd x) = Some k \<and>
     list_ex (\<lambda>(w, c). (case w of Control_At u \<Rightarrow> True | _ \<Rightarrow> False) \<and> c = snd x) xs"

definition template_page_ok :: "template_page \<Rightarrow> bool" where
  "template_page_ok p \<longleftrightarrow>
     distinct (map fst (sp_schema p)) \<and> map fst (sp_defaults p) = map fst (sp_schema p) \<and>
     list_all (place_fits (sp_schema p)) (places (sp_parts p)) \<and>
     list_all (\<lambda>(k, t). list_ex (enterable k) (places (sp_parts p))) (sp_schema p) \<and>
     list_all2 (\<lambda>(k, t) (k', v). fits t v) (sp_schema p) (sp_defaults p) \<and>
     list_all (\<lambda>(k, t). text_checks t = [] \<or>
       list_all (\<lambda>c. check_message c \<noteq> []) (text_checks t) \<and>
       list_ex (same_place k (places (sp_parts p))) (places (sp_parts p))) (sp_schema p)"

lemma account_page_ok: "template_page_ok account_page"
  by code_simp

lemma appearance_page_ok: "template_page_ok appearance_page"
  by code_simp

lemma notifications_page_ok: "template_page_ok notifications_page"
  by code_simp

lemma user_page_ok: "template_page_ok user_page"
  by code_simp

lemma template_pages_ok: "p \<in> set template_pages \<Longrightarrow> template_page_ok p"
  by (auto simp: template_pages_def account_page_ok appearance_page_ok notifications_page_ok user_page_ok)

text \<open>The settings pages' forms fit their schemas. On each of the four pages the default values
  name exactly the schema's keys; a user can fill in a field exactly when the schema has its key;
  and whatever a control lets the user enter, an option of a select included, is of the type the
  schema gives that key.\<close>

theorem settings_fields_fit_schema:
  assumes "p \<in> set template_pages"
  shows "map fst (sp_defaults p) = map fst (sp_schema p) \<and> distinct (map fst (sp_schema p)) \<and>
         (\<forall>n. (\<exists>v. can_enter p n v) \<longleftrightarrow> n \<in> fst ` set (sp_schema p)) \<and>
         (\<forall>n v. can_enter p n v \<longrightarrow> (\<exists>t. map_of (sp_schema p) n = Some t \<and> fits t v))"
proof -
  note ok = template_pages_ok [OF assms, unfolded template_page_ok_def]
  have entered: "\<exists>t. map_of (sp_schema p) n = Some t \<and> fits t v" if e: "can_enter p n v" for n v
  proof -
    obtain w c where wc: "(Control_At w, c) \<in> set (places (sp_parts p))" "fc_name c = Some n" "offers w v"
      using e by (auto simp: can_enter_def list_ex_iff elim!: enters.elims(2))
    moreover have "list_all (place_fits (sp_schema p)) (places (sp_parts p))" using ok by blast
    ultimately have "place_fits (sp_schema p) (Control_At w, c)" unfolding list_all_iff by blast
    then show ?thesis using wc by (auto split: option.splits dest: offered_fits)
  qed
  moreover have "\<exists>v. can_enter p n v" if n: "n \<in> fst ` set (sp_schema p)" for n
  proof -
    have "list_all (\<lambda>(k, t). list_ex (enterable k) (places (sp_parts p))) (sp_schema p)" using ok by blast
    then obtain x where "x \<in> set (places (sp_parts p))" "enterable n x"
      using n by (auto simp: list_all_iff list_ex_iff)
    then show ?thesis using enterable by (fastforce simp: can_enter_def list_ex_iff)
  qed
  moreover have "n \<in> fst ` set (sp_schema p)" if "can_enter p n v" for n v
    using entered [OF that] by (force dest: map_of_SomeD)
  ultimately show ?thesis using ok by blast
qed

theorem settings_fields_fit_schema_witness:
  "map fst (sp_defaults user_page) = map fst (sp_schema user_page) \<and>
   (\<exists>v. can_enter user_page ''timezone'' v)"
  using settings_fields_fit_schema [of user_page] by (simp add: template_pages_def user_page_def userFormSchema_def)

section \<open>Submitting\<close>

lemma submit_facts:
  assumes "form_lib_ok L" "p \<in> set template_pages"
  shows "submit_ok L (sp_schema p) st"
  using assms template_pages_ok by (auto simp: form_lib_ok_def template_page_ok_def)

lemma no_errors_no_message: "fs_errors (sv_form st) = [] \<Longrightarrow> Message_El i m \<notin> set (settings_shown p st)"
  by (auto simp: settings_shown_def message_shown_iff)

text \<open>A message of the schema is shown beside the control it is about.\<close>

definition reported :: "template_page \<Rightarrow> settings_view \<Rightarrow> string \<Rightarrow> string \<Rightarrow> bool" where
  "reported p st k m \<longleftrightarrow>
     (\<exists>i w. Message_El (Message_Id i) m \<in> set (settings_shown p st) \<and>
            Control_El (Item_Id i) [Description_Id i, Message_Id i] True w (Some k) \<in> set (settings_shown p st))"

lemma error_reported:
  assumes "p \<in> set template_pages" "(k, t) \<in> set (sp_schema p)"
    and m: "schema_message em t v = Some m" "map_of (fs_errors (sv_form st)) k = Some m"
  shows "reported p st k m"
proof -
  let ?P = "places (sp_parts p)"
  have "text_checks t \<noteq> []" using schema_message_check [OF m(1)] by auto
  then have checks: "list_all (\<lambda>c. check_message c \<noteq> []) (text_checks t)" "list_ex (same_place k ?P) ?P"
    using template_pages_ok [OF assms(1)] assms(2) by (auto simp: template_page_ok_def list_all_iff)
  then have "m \<noteq> []" using schema_message_check [OF m(1)] by (auto simp: list_all_iff list_ex_iff)
  obtain c w where c: "(Message_At, c) \<in> set ?P" "(Control_At w, c) \<in> set ?P" "fc_name c = Some k"
    using checks(2) by (auto simp: same_place_def list_ex_iff split: place.splits)
  have "Message_El (Message_Id (fc_item c)) m \<in> set (settings_shown p st)"
    using c m(2) \<open>m \<noteq> []\<close> by (auto simp: settings_shown_def message_shown_iff)
  moreover have "Control_El (Item_Id (fc_item c)) [Description_Id (fc_item c), Message_Id (fc_item c)] True w (Some k)
      \<in> set (settings_shown p st)"
    unfolding settings_shown_def using c m(2)
    by (intro shown_at [OF c(2)]) (simp_all add: formControl_def useFormField_def)
  ultimately show ?thesis by (auto simp: reported_def)
qed

lemma press_submit:
  assumes "ty \<noteq> Some ''button''" "ty \<noteq> Some ''reset''"
  shows "press L p ty h st = submit_form L p (on_click h st)"
  using assms by (simp add: press_def Let_def)

lemma submit_form_cases:
  assumes "form_lib_ok L" "p \<in> set template_pages" "native_valid L p (fs_values (sv_form st))"
  shows "if schema_admits (lib_email L) (sp_schema p) (fs_values (sv_form st))
         then (\<exists>d. sv_logged (submit_form L p st) = sv_logged st @ [d] \<and>
                list_all (\<lambda>(k, t). map_of d k = map_of (fs_values (sv_form st)) k) (sp_schema p)) \<and>
              fs_errors (sv_form (submit_form L p st)) = []
         else sv_logged (submit_form L p st) = sv_logged st \<and>
              list_all (\<lambda>(k, t). \<not> admits (lib_email L) t (map_of (fs_values (sv_form st)) k) \<longrightarrow>
                (case schema_message (lib_email L) t (map_of (fs_values (sv_form st)) k) of
                   None \<Rightarrow> True
                 | Some m \<Rightarrow> map_of (fs_errors (sv_form (submit_form L p st))) k = Some m)) (sp_schema p)"
    and "fs_values (sv_form (submit_form L p st)) = fs_values (sv_form st)"
  using submit_facts [OF assms(1,2), of "sv_form st"] assms(3)
  by (auto simp: submit_ok_def submit_form_def onSubmit_def list_all_iff split: prod.splits option.splits if_splits)

lemma submit_accepted:
  assumes "form_lib_ok L" "p \<in> set template_pages" "native_valid L p (fs_values (sv_form st))"
    and "schema_admits (lib_email L) (sp_schema p) (fs_values (sv_form st))"
  shows "\<exists>d. sv_logged (submit_form L p st) = sv_logged st @ [d] \<and>
           (\<forall>(k, t)\<in>set (sp_schema p). map_of d k = map_of (fs_values (sv_form st)) k)"
    and "fs_errors (sv_form (submit_form L p st)) = []"
  using submit_form_cases(1) [OF assms(1-3)] assms(4) by (auto simp: list_all_iff)

lemma submit_refused:
  assumes "form_lib_ok L" "p \<in> set template_pages" "native_valid L p (fs_values (sv_form st))"
    and "\<not> schema_admits (lib_email L) (sp_schema p) (fs_values (sv_form st))"
  shows "sv_logged (submit_form L p st) = sv_logged st"
    and "\<lbrakk>(k, t) \<in> set (sp_schema p); \<not> admits (lib_email L) t (map_of (fs_values (sv_form st)) k);
          schema_message (lib_email L) t (map_of (fs_values (sv_form st)) k) = Some m\<rbrakk>
         \<Longrightarrow> reported p (submit_form L p st) k m"
  using submit_form_cases(1) [OF assms(1-3)] assms(4)
  by (auto simp: list_all_iff intro!: error_reported [OF assms(2)])

text \<open>C39: Saving a settings page reports every field or hands over the data. When the browser lets the
  form through, a press of its submit button calls onSubmit exactly when the schema accepts
  every value, with those values and no message on the page; otherwise onSubmit is not called,
  and each value a check of the schema refuses has that check's message beside its control, which
  is marked invalid and described by it. The values typed stay.\<close>

theorem settings_save_reports:
  assumes "form_lib_ok L" "p \<in> set template_pages" "native_valid L p (fs_values (sv_form st))"
  defines "st' \<equiv> press L p (Some ''submit'') None st" and "value \<equiv> map_of (fs_values (sv_form st))"
  shows "fs_values (sv_form st') = fs_values (sv_form st) \<and>
         (if schema_admits (lib_email L) (sp_schema p) (fs_values (sv_form st))
          then (\<exists>d. sv_logged st' = sv_logged st @ [d] \<and> (\<forall>(k, t)\<in>set (sp_schema p). map_of d k = value k)) \<and>
               (\<forall>i m. Message_El i m \<notin> set (settings_shown p st'))
          else sv_logged st' = sv_logged st \<and>
               (\<forall>(k, t)\<in>set (sp_schema p). \<forall>m.
                  \<not> admits (lib_email L) t (value k) \<and> schema_message (lib_email L) t (value k) = Some m \<longrightarrow>
                  reported p st' k m))"
proof -
  have st': "st' = submit_form L p st" by (simp add: st'_def press_submit)
  show ?thesis
    using submit_accepted [OF assms(1-3)] submit_refused [OF assms(1-3)] submit_form_cases(2) [OF assms(1-3)]
    by (auto simp: st' value_def no_errors_no_message)
qed

text \<open>The instance behaves as documented.\<close>

lemma sample_message:
  assumes "distinct (map fst sch)" "(k, t) \<in> set sch"
  shows "map_of (sample_errors em sch d) k =
     (if admits em t (map_of d k) then None
      else Some (case schema_message em t (map_of d k) of None \<Rightarrow> ''Invalid input'' | Some m \<Rightarrow> m))"
  using assms
proof (induction sch)
  case (Cons x sch)
  have "map_of (sample_errors em sch d) k = None" if "k \<notin> fst ` set sch"
    using that by (force simp: sample_errors_def map_of_eq_None_iff)
  with Cons show ?case by (cases x) (auto simp: sample_errors_def rev_image_eqI)
qed simp

lemma no_sample_errors: "schema_admits em sch d \<Longrightarrow> sample_errors em sch d = []"
  by (auto simp: sample_errors_def schema_admits_def list_all_iff filter_empty_conv)

lemma sample_submit_ok: "distinct (map fst sch) \<Longrightarrow> submit_ok sample_lib sch st"
  by (auto simp: submit_ok_def sample_lib_def Let_def list_all_iff sample_message no_sample_errors split: option.splits)

lemma sample_lib_ok: "form_lib_ok sample_lib"
  by (auto simp: form_lib_ok_def sample_submit_ok) (auto simp: sample_lib_def Let_def)

theorem settings_save_reports_witness:
  "sv_logged (press sample_lib user_page (Some ''submit'') None (open_settings user_page)) = [] \<and>
   reported user_page (press sample_lib user_page (Some ''submit'') None (open_settings user_page))
     ''email'' ''Invalid email address''"
proof -
  have "native_valid sample_lib user_page (fs_values (sv_form (open_settings user_page)))"
    and "\<not> schema_admits (lib_email sample_lib) (sp_schema user_page) (fs_values (sv_form (open_settings user_page)))"
    and "(''email'', Z_String [Str_Email ''Invalid email address'']) \<in> set (sp_schema user_page)"
    and "\<not> admits (lib_email sample_lib) (Z_String [Str_Email ''Invalid email address''])
           (map_of (fs_values (sv_form (open_settings user_page))) ''email'')"
    and "schema_message (lib_email sample_lib) (Z_String [Str_Email ''Invalid email address''])
           (map_of (fs_values (sv_form (open_settings user_page))) ''email'') = Some ''Invalid email address''"
    by code_simp+
  then show ?thesis
    using settings_save_reports [OF sample_lib_ok, of user_page "open_settings user_page"]
    by (fastforce simp: template_pages_def open_settings_def)
qed

text \<open>The inputs of a page are blank where the browser has a check of its own.\<close>

fun blank_input :: "form_data \<Rightarrow> place \<times> form_ctx \<Rightarrow> bool" where
  "blank_input d (Control_At (Input_Box ty ph), c) \<longleftrightarrow> Option.bind (fc_name c) (map_of d) = Some (JStr [])"
| "blank_input d x \<longleftrightarrow> True"

lemma blank_native:
  assumes "form_lib_ok L" "list_all (blank_input d) (places (sp_parts p))"
  shows "native_valid L p d"
proof -
  have "native_passes L d x" if "blank_input d x" for x
    using that assms(1) by (cases "(d, x)" rule: blank_input.cases) (auto simp: form_lib_ok_def)
  with assms(2) show ?thesis by (auto simp: native_valid_def list_all_iff)
qed

lemma blank_pages: "list_all (\<lambda>p. list_all (blank_input (sp_defaults p)) (places (sp_parts p))) template_pages"
  by code_simp

lemma blank_open: "form_lib_ok L \<Longrightarrow> p \<in> set template_pages \<Longrightarrow> native_valid L p (sp_defaults p)"
  using blank_pages by (auto simp: list_all_iff intro: blank_native)

lemma open_settings_simps [simp]:
  "sv_logged (open_settings p) = []" "fs_values (sv_form (open_settings p)) = sp_defaults p"
  by (simp_all add: open_settings_def)

lemmas settings_page_defs = account_page_def accountFormSchema_def account_defaults_def
  user_page_def userFormSchema_def user_defaults_def
  appearance_page_def appearanceFormSchema_def appearance_defaults_def
  notifications_page_def notificationsFormSchema_def notifications_defaults_def

text \<open>A page of settings opened and saved as it is. The account page refuses its own empty default
  values and says what is missing beside each field, and so does the user page; the notifications
  and the appearance page hand theirs over.\<close>

theorem pristine_settings:
  assumes "form_lib_ok L"
  defines "save \<equiv> (\<lambda>p. press L p (Some ''submit'') None (open_settings p))"
  shows "sv_logged (save account_page) = [] \<and> sv_logged (save user_page) = [] \<and>
         list_all (\<lambda>(k, m). reported account_page (save account_page) k m)
           [(''firstName'', ''First name is required''), (''lastName'', ''Last name is required''),
            (''email'', ''Invalid email address''),
            (''username'', ''Username must be at least 3 characters'')] \<and>
         length (sv_logged (save appearance_page)) = 1 \<and> length (sv_logged (save notifications_page)) = 1"
proof -
  have em: "\<not> lib_email L []" using assms(1) by (simp add: form_lib_ok_def)
  have a: "\<not> schema_admits (lib_email L) (sp_schema account_page) (sp_defaults account_page)"
    and u: "\<not> schema_admits (lib_email L) (sp_schema user_page) (sp_defaults user_page)"
    and h: "schema_admits (lib_email L) (sp_schema appearance_page) (sp_defaults appearance_page)"
    and n: "schema_admits (lib_email L) (sp_schema notifications_page) (sp_defaults notifications_page)"
    using em
    by (simp_all add: schema_admits_def settings_page_defs utf16_units_def)
  have rep: "list_all (\<lambda>(k, m). list_ex (\<lambda>(k', t). k' = k \<and> \<not> admits (lib_email L) t (map_of (sp_defaults account_page) k) \<and>
        schema_message (lib_email L) t (map_of (sp_defaults account_page) k) = Some m) (sp_schema account_page))
      [(''firstName'', ''First name is required''), (''lastName'', ''Last name is required''),
       (''email'', ''Invalid email address''), (''username'', ''Username must be at least 3 characters'')]"
    using em by (simp add: settings_page_defs utf16_units_def)
  have save: "save p = submit_form L p (open_settings p)" for p by (simp add: save_def press_submit)
  note opened = blank_open [OF assms(1), folded open_settings_simps(2)]
  have pages: "account_page \<in> set template_pages" "user_page \<in> set template_pages"
      "appearance_page \<in> set template_pages" "notifications_page \<in> set template_pages"
    by (simp_all add: template_pages_def)
  note refused = submit_refused [OF assms(1) _ opened, simplified] and accepted = submit_accepted(1) [OF assms(1) _ opened, simplified]
  have "reported account_page (save account_page) k m"
    if "(k', t) \<in> set (sp_schema account_page)" "k' = k"
      "\<not> admits (lib_email L) t (map_of (sp_defaults account_page) k)"
      "schema_message (lib_email L) t (map_of (sp_defaults account_page) k) = Some m" for k k' t m
    using refused(2) [OF pages(1) pages(1) a, of k t m] that by (simp add: save)
  then have "list_all (\<lambda>(k, m). reported account_page (save account_page) k m)
           [(''firstName'', ''First name is required''), (''lastName'', ''Last name is required''),
            (''email'', ''Invalid email address''),
            (''username'', ''Username must be at least 3 characters'')]"
    by (intro list.pred_mono_strong [OF rep]) (auto simp: list_ex_iff)
  then show ?thesis
    using refused(1) [OF pages(1) pages(1) a] refused(1) [OF pages(2) pages(2) u]
      accepted [OF pages(3) pages(3) h] accepted [OF pages(4) pages(4) n]
    by (auto simp: save)
qed

theorem pristine_settings_witness:
  "reported account_page (press sample_lib account_page (Some ''submit'') None (open_settings account_page))
     ''username'' ''Username must be at least 3 characters''"
  using pristine_settings [OF sample_lib_ok] by simp

text \<open>The account page's schema never compares the new password with its confirmation.\<close>

theorem new_password_never_confirmed:
  "schema_admits em accountFormSchema ((''newPassword'', JStr a) # (''confirmPassword'', JStr b) # d) \<longleftrightarrow>
   schema_admits em accountFormSchema ((''newPassword'', JStr a) # (''confirmPassword'', JStr a) # d)"
  by (simp add: schema_admits_def accountFormSchema_def)

section \<open>Buttons that submit\<close>

definition page_buttons :: "template_page \<Rightarrow> (string option \<times> string \<times> settings_handler option) list" where
  "page_buttons p = concat (map buttons_of (sp_parts p))"

lemma button_of_page: "Button_El ty t h \<in> set (settings_shown p st) \<longleftrightarrow> (ty, t, h) \<in> set (page_buttons p)"
  by (simp add: settings_shown_def button_shown_iff page_buttons_def)

definition submits :: "string option \<Rightarrow> bool" where
  "submits ty \<longleftrightarrow> ty \<noteq> Some ''button'' \<and> ty \<noteq> Some ''reset''"

definition submit_texts :: "template_page \<Rightarrow> string list" where
  "submit_texts p = map (\<lambda>(ty, t, h). t) (filter (\<lambda>(ty, t, h). submits ty) (page_buttons p))"

lemma all_submit_texts:
  "map submit_texts template_pages =
     [[''Save Changes''], [''Save Preferences''], [''Request Permission'', ''Save Preferences''],
      [''Upload new photo'', ''Reset'', ''Save Changes'']]"
  by code_simp

lemma list_all_buttons:
  "list_all (\<lambda>p. list_all (\<lambda>(ty, t, h). submits ty = (t \<in> set (submit_texts p))) (page_buttons p)) template_pages"
  by code_simp

lemma submit_picture [simp]:
  "sv_profileImage (submit_form L p st) = sv_profileImage st"
  "sv_useDefaultIcon (submit_form L p st) = sv_useDefaultIcon st"
  "sv_chosen (submit_form L p st) = sv_chosen st"
  "sv_reading (submit_form L p st) = sv_reading st"
  by (auto simp: submit_form_def onSubmit_def split: prod.splits option.splits)

lemma on_click_form [simp]: "sv_form (on_click h st) = sv_form st" "sv_logged (on_click h st) = sv_logged st"
  by (cases "(h, st)" rule: on_click.cases; simp)+

text \<open>Three buttons of the settings pages submit the form although they are there for something
  else: a button in a form without a type submits it. Besides each page's Save, these are the
  picture's Upload and Reset on the user page and Request Permission on the notifications page; on a
  form the browser and the schema accept, a press calls onSubmit, for Reset after the logo is back.\<close>

theorem stray_submit_buttons:
  assumes "form_lib_ok L" "p \<in> set template_pages" "Button_El ty t h \<in> set (settings_shown p st)"
    and "native_valid L p (fs_values (sv_form st))"
    and "schema_admits (lib_email L) (sp_schema p) (fs_values (sv_form st))"
  shows "map submit_texts template_pages =
           [[''Save Changes''], [''Save Preferences''], [''Request Permission'', ''Save Preferences''],
            [''Upload new photo'', ''Reset'', ''Save Changes'']] \<and>
         length (sv_logged (press L p ty h st))
           = length (sv_logged st) + (if t \<in> set (submit_texts p) then 1 else 0) \<and>
         (h = Some handleReset \<longrightarrow> profile_picture (press L p ty h st) = Logo_Icon)"
proof -
  have shown: "(ty, t, h) \<in> set (page_buttons p)" using assms(3) by (simp add: button_of_page)
  have "t \<in> set (submit_texts p) \<longleftrightarrow> submits ty"
    using shown list_all_buttons assms(2) by (auto simp: list_all_iff)
  moreover have "length (sv_logged (submit_form L p (on_click h st))) = Suc (length (sv_logged st))"
    using submit_accepted(1) [OF assms(1,2), of "on_click h st"] assms(4,5) by auto
  moreover have "h = Some handleReset \<Longrightarrow> profile_picture (press L p ty h st) = Logo_Icon"
    by (auto simp: press_def Let_def profile_picture_def)
  ultimately show ?thesis
    by (auto simp: all_submit_texts press_def Let_def submits_def)
qed

theorem stray_submit_buttons_witness:
  "length (sv_logged (press sample_lib notifications_page None None (open_settings notifications_page))) = 1"
proof -
  have "native_valid sample_lib notifications_page (fs_values (sv_form (open_settings notifications_page)))"
    and "schema_admits (lib_email sample_lib) (sp_schema notifications_page)
           (fs_values (sv_form (open_settings notifications_page)))"
    and "(None, ''Request Permission'', None) \<in> set (page_buttons notifications_page)"
    and "''Request Permission'' \<in> set (submit_texts notifications_page)"
    by code_simp+
  then show ?thesis
    using stray_submit_buttons [OF sample_lib_ok, of notifications_page None "''Request Permission''" None
        "open_settings notifications_page"]
    by (simp add: template_pages_def button_of_page)
qed

section \<open>Labels and the controls they name\<close>

definition control_ids :: "template_page \<Rightarrow> form_errors \<Rightarrow> form_id list" where
  "control_ids p es = concat (map control_id (render_form es (sp_parts p)))"

definition label_ids :: "template_page \<Rightarrow> form_errors \<Rightarrow> form_id list" where
  "label_ids p es = concat (map label_id (render_form es (sp_parts p)))"

lemma page_ids:
  "control_ids p es = concat (map control_item (places (sp_parts p)))"
  "label_ids p es = concat (map label_item (places (sp_parts p)))"
  by (simp_all add: control_ids_def label_ids_def rendered_ids)

text \<open>The item around the two quiet hours.\<close>

definition quiet_item :: form_id where
  "quiet_item = Item_Id (Some [2, 2, 1])"

fun in_item :: "form_id \<Rightarrow> bool" where
  "in_item (Item_Id (Some a)) = True"
| "in_item i = False"

lemma dom_ids_distinct:
  assumes "inj uid" "list_all in_item xs" "distinct xs"
  shows "distinct (map (dom_id uid) xs)"
proof -
  have "inj_on (dom_id uid) (set xs)"
  proof (rule inj_onI)
    fix a b assume "a \<in> set xs" "b \<in> set xs" "dom_id uid a = dom_id uid b"
    moreover from this have "in_item a" "in_item b" using assms(2) by (auto simp: list_all_iff)
    ultimately show "a = b"
      using dom_id_inject [OF assms(1)] by (auto elim!: in_item.elims(2))
  qed
  with assms(3) show ?thesis by (simp add: distinct_map)
qed

lemma page_ids_placed:
  "list_all (\<lambda>p. list_all in_item (concat (map control_item (places (sp_parts p)))) \<and>
     distinct (concat (map label_item (places (sp_parts p)))) \<and>
     list_all (\<lambda>i. i \<in> set (concat (map control_item (places (sp_parts p)))))
       (concat (map label_item (places (sp_parts p))))) template_pages"
  by code_simp

lemma page_ids_distinct:
  "list_all (\<lambda>p. distinct (concat (map control_item (places (sp_parts p))))) [account_page, appearance_page, user_page]"
  "distinct (removeAll quiet_item (concat (map control_item (places (sp_parts notifications_page)))))"
  "length (filter (\<lambda>i. i = quiet_item) (concat (map control_item (places (sp_parts notifications_page))))) = 2"
  "quiet_item \<in> set (concat (map label_item (places (sp_parts notifications_page))))"
  by code_simp+

text \<open>The labels of the settings forms. With ids that React keeps apart, every label names a control
  of its page, no two the same; and on the account, appearance and user pages no two controls share
  a DOM id. On the notifications page exactly the two selects of the quiet hours do, whose label
  names both.\<close>

theorem settings_labels:
  assumes "inj uid"
  shows "list_all (\<lambda>p. distinct (label_ids p es) \<and> list_all (\<lambda>i. i \<in> set (control_ids p es)) (label_ids p es)) template_pages \<and>
         list_all (\<lambda>p. distinct (map (dom_id uid) (control_ids p es))) [account_page, appearance_page, user_page] \<and>
         distinct (map (dom_id uid) (removeAll quiet_item (control_ids notifications_page es))) \<and>
         length (filter (\<lambda>i. i = quiet_item) (control_ids notifications_page es)) = 2 \<and>
         quiet_item \<in> set (label_ids notifications_page es)"
  using page_ids_placed page_ids_distinct
  by (auto simp: page_ids list_all_iff template_pages_def intro!: dom_ids_distinct [OF assms])

theorem settings_labels_witness:
  "distinct (map (dom_id (\<lambda>a. replicate (to_nat a) CHR ''x'')) (control_ids user_page [])) \<and>
   length (filter (\<lambda>i. i = quiet_item) (control_ids notifications_page [])) = 2"
proof -
  have "inj (\<lambda>a :: nat list. replicate (to_nat a) CHR ''x'')"
    by (rule injI) (simp add: replicate_eq_replicate)
  from settings_labels [OF this] show ?thesis by simp
qed

section \<open>The profile picture\<close>

lemma picture_press [simp]:
  "sv_useDefaultIcon (press L p ty h st) = sv_useDefaultIcon (on_click h st)"
  "sv_profileImage (press L p ty h st) = sv_profileImage (on_click h st)"
  "sv_reading (press L p ty h st) = sv_reading (on_click h st)"
  by (simp_all add: press_def Let_def)

definition picture_ok :: "settings_view \<Rightarrow> bool" where
  "picture_ok st \<longleftrightarrow> (sv_useDefaultIcon st \<longleftrightarrow> sv_profileImage st = None)"

lemma picture_step_ok: "picture_ok st \<Longrightarrow> picture_ok (settings_step L p st e)"
proof (cases e)
  case (Presses ty h)
  then show "picture_ok st \<Longrightarrow> ?thesis" by (cases "(h, st)" rule: on_click.cases) (simp_all add: picture_ok_def)
qed (auto simp: picture_ok_def handleFileChange_def reader_onload_def split: option.splits)

lemma picture_fold_ok: "picture_ok st \<Longrightarrow> picture_ok (foldl (settings_step L p) st es)"
  by (induction es arbitrary: st) (auto intro: picture_step_ok)

text \<open>The results of the readers not yet shown, and the one on screen, are files the user picked.\<close>

definition picked :: "settings_event list \<Rightarrow> string set" where
  "picked es = {url. Picks (Some url) \<in> set es}"

definition from_picked :: "string set \<Rightarrow> settings_view \<Rightarrow> bool" where
  "from_picked F st \<longleftrightarrow> set (sv_reading st) \<subseteq> F \<and> set_option (sv_profileImage st) \<subseteq> F"

lemma from_picked_step:
  assumes "from_picked F st" "picked [e] \<subseteq> F"
  shows "from_picked F (settings_step L p st e)"
proof (cases e)
  case (Presses ty h)
  then show ?thesis using assms by (cases "(h, st)" rule: on_click.cases) (simp_all add: from_picked_def)
next
  case (Reader_Loads i)
  then show ?thesis
    using assms set_take_subset [of i "sv_reading st"] set_drop_subset [of "Suc i" "sv_reading st"]
    by (auto simp: from_picked_def reader_onload_def)
qed (use assms in \<open>auto simp: from_picked_def picked_def handleFileChange_def split: option.splits\<close>)

lemma from_picked_fold:
  "from_picked F st \<Longrightarrow> picked es \<subseteq> F \<Longrightarrow> from_picked F (foldl (settings_step L p) st es)"
proof (induction es arbitrary: st)
  case (Cons e es)
  then have "picked [e] \<subseteq> F" "picked es \<subseteq> F" by (auto simp: picked_def)
  with Cons show ?case by (simp add: from_picked_step)
qed simp

lemma logo_iff: "picture_ok st \<Longrightarrow> profile_picture st = Logo_Icon \<longleftrightarrow> sv_profileImage st = None"
  by (auto simp: profile_picture_def picture_ok_def)

lemma open_picture: "picture_ok (open_settings p)" "from_picked F (open_settings p)"
  by (simp_all add: picture_ok_def from_picked_def open_settings_def)

text \<open>The profile picture of the user page. Whatever the user does and in whatever order files
  finish loading, the logo is shown exactly when no image is held, and an image held is one of the
  files the user picked. Yet a Reset pressed while a file is being read does not last: when the
  reading ends the image appears, with the file input empty.\<close>

theorem profile_picture_states:
  fixes L :: form_lib and p :: template_page
  defines "run \<equiv> settings_run L p"
  shows "(profile_picture (run es) = Logo_Icon \<longleftrightarrow> sv_profileImage (run es) = None) \<and>
         set_option (sv_profileImage (run es)) \<subseteq> picked es \<and>
         (let late = run (es @ [Picks (Some url), Presses None (Some handleReset),
                                Reader_Loads (length (sv_reading (run es)))])
          in sv_profileImage late = Some url \<and> \<not> sv_chosen late)"
proof -
  have "picture_ok (run es)"
    unfolding run_def settings_run_def by (intro picture_fold_ok open_picture)
  moreover have "from_picked (picked es) (run es)"
    unfolding run_def settings_run_def by (intro from_picked_fold open_picture order_refl)
  moreover have "sv_chosen (press L p None (Some handleReset) st) = False" for st
    by (simp add: press_def Let_def)
  ultimately show ?thesis
    by (simp add: logo_iff from_picked_def Let_def run_def settings_run_def handleFileChange_def reader_onload_def)
qed

end
