(* ===== verification/Chart_Tooltips.thy ===== *)
theory Chart_Tooltips
  imports Overview_Charts
begin

text \<open>
  The tooltips and legends of the charts: \<open>ChartTooltipContent\<close>, \<open>ChartLegendContent\<close> and the look-up
  both share in \<open>components/ui/chart.tsx\<close>, with the options each chart of the Overview and of Analytics
  gives them. What the chart library hands to them is an argument; \<open>tooltip_payload\<close> and
  \<open>legend_payload\<close> say what it documents for a chart. Shown: pointing at a chart reads out what the
  row holds, under the labels of the chart's configuration.
\<close>

section \<open>Items\<close>

text \<open>
  An item of a payload: its own properties, and the row it stands for under \<open>payload\<close>. A property
  that is not listed is undefined.
\<close>

record chart_item =
  ci_props :: chart_row
  ci_payload :: "chart_row option"

definition string_prop :: "chart_row \<Rightarrow> string \<Rightarrow> string option" where
  "string_prop ps k = (case map_of ps k of Some (Words s) \<Rightarrow> Some s | _ \<Rightarrow> None)"

text \<open>
  The configuration found for an item. \<open>in\<close> is read on the configuration's own keys, so the names that
  every object inherits are left out.
\<close>

definition getPayloadConfigFromPayload :: "chart_config \<Rightarrow> chart_item \<Rightarrow> string \<Rightarrow> (string \<times> string) option" where
  "getPayloadConfigFromPayload config item key =
     (let configLabelKey =
        (case string_prop (ci_props item) key of
           Some s \<Rightarrow> s
         | None \<Rightarrow> (case Option.bind (ci_payload item) (\<lambda>row. string_prop row key) of
                     Some s \<Rightarrow> s
                   | None \<Rightarrow> key))
      in case map_of config configLabelKey of Some c \<Rightarrow> Some c | None \<Rightarrow> map_of config key)"

text \<open>
  A number in the default notation of \<open>toLocaleString\<close>: grouped, with at most three fraction digits,
  halves away from zero.
\<close>

fun strip_zeros :: "string \<Rightarrow> string" where
  "strip_zeros s = rev (dropWhile (\<lambda>c. c = CHR ''0'') (rev s))"

definition locale_number :: "rat \<Rightarrow> string" where
  "locale_number x =
     (let n = nat (round (1000 * \<bar>x\<bar>)); r = n mod 1000;
          fraction = strip_zeros (drop 1 (show_nat (1000 + r)))
      in (if x < 0 then ''-'' else []) @ toLocale_nat (n div 1000) @ (if fraction = [] then [] else ''.'' @ fraction))"

text \<open>\<open>item.value != null\<close>, then a number in the locale's notation and anything else as its text.\<close>

fun value_text :: "chart_value option \<Rightarrow> string option" where
  "value_text (Some (Amount x)) = Some (locale_number x)"
| "value_text (Some Not_number) = Some ''NaN''"
| "value_text (Some (Words s)) = Some s"
| "value_text (Some Gap) = None"
| "value_text None = None"

section \<open>ChartTooltipContent\<close>

text \<open>A formatter of a row gives a label, if it has one, and a text.\<close>

record tooltip_options =
  to_hideLabel :: bool
  to_hideIndicator :: bool
  to_indicator :: string
  to_nameKey :: "string option"
  to_labelKey :: "string option"
  to_labelFormatter :: "(string option \<Rightarrow> string) option"
  to_formatter :: "(chart_value \<Rightarrow> string \<Rightarrow> string option \<times> string) option"

definition default_tooltip :: tooltip_options where
  "default_tooltip =
     \<lparr>to_hideLabel = False, to_hideIndicator = False, to_indicator = ''dot'', to_nameKey = None,
      to_labelKey = None, to_labelFormatter = None, to_formatter = None\<rparr>"

text \<open>\<open>tr_color\<close> is the indicator's colour, if an indicator is drawn; \<open>tr_nested\<close> the label inside the row.\<close>

record tooltip_line =
  tr_color :: "string option option"
  tr_nested :: "string option"
  tr_name :: "string option"
  tr_value :: "string option"

record tooltip =
  tt_label :: "string option"
  tt_rows :: "tooltip_line list"

definition or_else :: "'a option \<Rightarrow> 'a option \<Rightarrow> 'a option" where
  "or_else a b = (case a of Some x \<Rightarrow> Some x | None \<Rightarrow> b)"

definition key_or :: "string option list \<Rightarrow> string" where
  "key_or ks = (case fold (\<lambda>k acc. or_else acc k) ks None of Some k \<Rightarrow> k | None \<Rightarrow> ''value'')"

definition tooltipLabel :: "tooltip_options \<Rightarrow> chart_config \<Rightarrow> string option \<Rightarrow> chart_item list \<Rightarrow> string option" where
  "tooltipLabel opts config label payload =
     (if to_hideLabel opts then None
      else case payload of
        [] \<Rightarrow> None
      | item # rest \<Rightarrow>
          let key = key_or [to_labelKey opts, string_prop (ci_props item) ''dataKey'', string_prop (ci_props item) ''name''];
              itemConfig = getPayloadConfigFromPayload config item key;
              value = (case (to_labelKey opts, label) of
                         (None, Some l) \<Rightarrow> or_else (map_option fst (map_of config l)) (Some l)
                       | _ \<Rightarrow> map_option fst itemConfig)
          in case to_labelFormatter opts of
               Some f \<Rightarrow> Some (f value)
             | None \<Rightarrow> truthy value)"

definition tooltip_row :: "tooltip_options \<Rightarrow> chart_config \<Rightarrow> string option \<Rightarrow> chart_item \<Rightarrow> tooltip_line" where
  "tooltip_row opts config nested item =
     (let name = string_prop (ci_props item) ''name'';
          key = key_or [to_nameKey opts, name, string_prop (ci_props item) ''dataKey''];
          itemConfig = getPayloadConfigFromPayload config item key;
          indicatorColor = or_else (Option.bind (ci_payload item) (\<lambda>row. string_prop row ''fill''))
                                   (string_prop (ci_props item) ''color'')
      in case (to_formatter opts, map_of (ci_props item) ''value'', truthy name) of
           (Some f, Some v, Some n) \<Rightarrow>
             \<lparr>tr_color = None, tr_nested = None, tr_name = fst (f v n), tr_value = Some (snd (f v n))\<rparr>
         | _ \<Rightarrow>
             \<lparr>tr_color = (if to_hideIndicator opts then None else Some indicatorColor), tr_nested = nested,
              tr_name = or_else (map_option fst itemConfig) name,
              tr_value = value_text (map_of (ci_props item) ''value'')\<rparr>)"

definition drawn_items :: "chart_item list \<Rightarrow> chart_item list" where
  "drawn_items payload = filter (\<lambda>item. string_prop (ci_props item) ''type'' \<noteq> Some ''none'') payload"

definition ChartTooltipContent ::
    "tooltip_options \<Rightarrow> chart_config \<Rightarrow> bool \<Rightarrow> string option \<Rightarrow> chart_item list \<Rightarrow> tooltip option" where
  "ChartTooltipContent opts config active label payload =
     (let shownLabel = tooltipLabel opts config label payload;
          nestLabel = (length payload = 1 \<and> to_indicator opts \<noteq> ''dot'')
      in if \<not> active \<or> payload = [] then None
         else Some \<lparr>tt_label = (if nestLabel then None else shownLabel),
                    tt_rows = map (tooltip_row opts config (if nestLabel then shownLabel else None)) (drawn_items payload)\<rparr>)"

section \<open>ChartLegendContent\<close>

text \<open>An entry of a legend: the colour of its mark and its label. No configuration here has an icon.\<close>

definition ChartLegendContent :: "string option \<Rightarrow> chart_config \<Rightarrow> chart_item list \<Rightarrow> (string option \<times> string option) list option" where
  "ChartLegendContent nameKey config payload =
     (if payload = [] then None
      else Some (map (\<lambda>item.
             let key = key_or [nameKey, string_prop (ci_props item) ''dataKey'']
             in (string_prop (ci_props item) ''color'',
                 map_option fst (getPayloadConfigFromPayload config item key))) (drawn_items payload)))"

section \<open>The charts' options\<close>

text \<open>\<open>String(label)\<close> of an undefined label is \<open>undefined\<close>; \<open>other\<close> is the argument of \<open>formatShortDate\<close>.\<close>

definition tooltipDate :: "(string \<Rightarrow> string) \<Rightarrow> string option \<Rightarrow> string" where
  "tooltipDate other label = formatShortDate other (case label of Some l \<Rightarrow> l | None \<Rightarrow> ''undefined'')"

definition date_tooltip :: "(string \<Rightarrow> string) \<Rightarrow> tooltip_options" where
  "date_tooltip other = default_tooltip\<lparr>to_labelFormatter := Some (tooltipDate other)\<rparr>"

definition ACTIVITY_CONFIG :: chart_config where
  "ACTIVITY_CONFIG =
     [(''orders_placed'', ''Orders placed'', chart_color 1), (''order_value'', ''Order value'', chart_color 5)]"

text \<open>\<open>Number(value)\<close>, where \<open>NaN\<close> is no value; \<open>digits\<close> is how JavaScript prints a number.\<close>

fun amount_of :: "chart_value \<Rightarrow> rat option" where
  "amount_of (Amount x) = Some x"
| "amount_of Gap = Some 0"
| "amount_of (Words s) = Number_text s"
| "amount_of Not_number = None"

fun plain_text :: "(rat \<Rightarrow> string) \<Rightarrow> chart_value \<Rightarrow> string" where
  "plain_text digits (Amount x) = digits x"
| "plain_text digits Gap = []"
| "plain_text digits (Words s) = s"
| "plain_text digits Not_number = ''NaN''"

definition activity_formatter :: "(rat \<Rightarrow> string) \<Rightarrow> chart_value \<Rightarrow> string \<Rightarrow> string option \<times> string" where
  "activity_formatter digits value name =
     (map_option fst (map_of ACTIVITY_CONFIG name),
      if name = ''order_value''
      then (case amount_of value of Some x \<Rightarrow> formatCompactCurrency x | None \<Rightarrow> ''$NaN'')
      else plain_text digits value)"

definition activity_tooltip :: "(string \<Rightarrow> string) \<Rightarrow> (rat \<Rightarrow> string) \<Rightarrow> tooltip_options" where
  "activity_tooltip other digits = (date_tooltip other)\<lparr>to_formatter := Some (activity_formatter digits)\<rparr>"

definition slice_tooltip :: "string \<Rightarrow> tooltip_options" where
  "slice_tooltip key = default_tooltip\<lparr>to_hideLabel := True, to_nameKey := Some key\<rparr>"

text \<open>In the order of \<open>overview_cards\<close>; the chart of Analytics has the default tooltip.\<close>

definition overview_tooltips :: "(string \<Rightarrow> string) \<Rightarrow> (rat \<Rightarrow> string) \<Rightarrow> tooltip_options list" where
  "overview_tooltips other digits =
     [date_tooltip other, slice_tooltip ''key'', activity_tooltip other digits, date_tooltip other, slice_tooltip ''label'',
      default_tooltip, default_tooltip, default_tooltip\<lparr>to_hideLabel := True\<rparr>, date_tooltip other]"

text \<open>The legends, where a card has one, with their \<open>nameKey\<close>.\<close>

definition overview_legends :: "string option option list" where
  "overview_legends =
     [Some None, Some (Some ''key''), Some None, Some None, Some (Some ''label''), Some None, Some None, None, None]"

section \<open>Payloads\<close>

text \<open>
  What the chart library hands over when a row is pointed at. A chart with an axis gives one item for
  every series that has a value in the row, under the series' key; a pie gives the slice, named by
  its \<open>nameKey\<close>. The library's own properties do not hide the row's.
\<close>

definition series_item :: "chart_row \<Rightarrow> string \<Rightarrow> chart_item \<Rightarrow> bool" where
  "series_item row key item \<longleftrightarrow>
     string_prop (ci_props item) ''dataKey'' = Some key \<and> string_prop (ci_props item) ''name'' = Some key \<and>
     map_of (ci_props item) ''value'' = map_of row key \<and> string_prop (ci_props item) ''type'' \<noteq> Some ''none'' \<and>
     string_prop (ci_props item) key = None \<and> ci_payload item = Some row"

definition slice_item :: "chart_card \<Rightarrow> chart_row \<Rightarrow> chart_item \<Rightarrow> bool" where
  "slice_item chart row item \<longleftrightarrow>
     string_prop (ci_props item) ''name'' = string_prop row (cc_axis chart) \<and>
     map_of (ci_props item) ''value'' = map_of row (hd (cc_series chart)) \<and>
     string_prop (ci_props item) ''type'' \<noteq> Some ''none'' \<and>
     string_prop (ci_props item) (cc_axis chart) = None \<and> ci_payload item = Some row"

definition present :: "chart_card \<Rightarrow> chart_row \<Rightarrow> string list" where
  "present chart row = filter (\<lambda>key. map_of row key \<noteq> Some Gap) (cc_series chart)"

definition tooltip_payload :: "tooltip_options \<Rightarrow> chart_card \<Rightarrow> chart_row \<Rightarrow> chart_item list \<Rightarrow> bool" where
  "tooltip_payload opts chart row items \<longleftrightarrow>
     (case to_nameKey opts of
        None \<Rightarrow> list_all2 (series_item row) (present chart row) items
      | Some k \<Rightarrow> list_all (slice_item chart row) items \<and> length items = 1)"

text \<open>The lines a tooltip should have for a row: labels of the configuration, values of the row.\<close>

definition shown_value :: "tooltip_options \<Rightarrow> chart_row \<Rightarrow> string \<Rightarrow> string option" where
  "shown_value opts row key =
     (case (to_formatter opts, map_of row key) of
        (Some f, Some v) \<Rightarrow> Some (snd (f v key))
      | _ \<Rightarrow> value_text (map_of row key))"

definition tooltip_lines :: "tooltip_options \<Rightarrow> chart_card \<Rightarrow> chart_row \<Rightarrow> (string option \<times> string option) list" where
  "tooltip_lines opts chart row =
     (case to_nameKey opts of
        None \<Rightarrow> map (\<lambda>key. (map_option fst (map_of (cc_config chart) key), shown_value opts row key)) (present chart row)
      | Some k \<Rightarrow> [(map_option fst (Option.bind (string_prop row (cc_axis chart)) (map_of (cc_config chart))),
                     value_text (map_of row (hd (cc_series chart))))])"

section \<open>Tooltips read out their row\<close>

definition tooltip_fits :: "tooltip_options \<Rightarrow> chart_card \<Rightarrow> chart_row \<Rightarrow> bool" where
  "tooltip_fits opts chart row \<longleftrightarrow>
     to_labelKey opts = None \<and>
     (case to_nameKey opts of
        None \<Rightarrow>
          list_all (\<lambda>key. key \<noteq> [] \<and> map_of (cc_config chart) key \<noteq> None \<and> string_prop row key = None \<and>
             map_of row key \<noteq> None \<and>
             (case to_formatter opts of
                None \<Rightarrow> True
              | Some f \<Rightarrow> list_all (\<lambda>v. fst (f v key) = map_option fst (map_of (cc_config chart) key))
                             (case map_of row key of None \<Rightarrow> [] | Some v \<Rightarrow> [v]))) (cc_series chart)
      | Some k \<Rightarrow>
          k = cc_axis chart \<and> to_formatter opts = None \<and>
          (case string_prop row k of None \<Rightarrow> False | Some s \<Rightarrow> map_of (cc_config chart) s \<noteq> None) \<and>
          (case map_of row (hd (cc_series chart)) of Some (Amount x) \<Rightarrow> True | _ \<Rightarrow> False))"

lemma series_config:
  assumes "series_item row key item" "string_prop row key = None"
  shows "getPayloadConfigFromPayload config item key = map_of config key"
  using assms by (simp add: series_item_def getPayloadConfigFromPayload_def Let_def split: option.splits)

lemma series_line:
  assumes "series_item row key item" "string_prop row key = None" "key \<noteq> []" "map_of row key \<noteq> None"
    and "to_nameKey opts = None" "map_of config key \<noteq> None"
    and "\<And>f v. to_formatter opts = Some f \<Longrightarrow> map_of row key = Some v \<Longrightarrow> fst (f v key) = map_option fst (map_of config key)"
  shows "(tr_name (tooltip_row opts config nested item), tr_value (tooltip_row opts config nested item)) =
         (map_option fst (map_of config key), shown_value opts row key)"
  using assms series_config [OF assms(1,2), of config]
  by (auto simp: tooltip_row_def Let_def series_item_def key_or_def or_else_def shown_value_def truthy_def
      split: option.splits)

lemma slice_line:
  assumes "slice_item chart row item" "tooltip_fits opts chart row" "to_nameKey opts = Some k"
  shows "[(tr_name (tooltip_row opts (cc_config chart) nested item), tr_value (tooltip_row opts (cc_config chart) nested item))] =
         tooltip_lines opts chart row"
  using assms
  by (auto simp: tooltip_row_def Let_def slice_item_def key_or_def or_else_def tooltip_fits_def tooltip_lines_def
      getPayloadConfigFromPayload_def split: option.splits)

lemma tooltip_reads_row:
  assumes fits: "tooltip_fits opts chart row" and payload: "tooltip_payload opts chart row items" and items: "items \<noteq> []"
  shows "\<exists>t. ChartTooltipContent opts (cc_config chart) True label items = Some t \<and>
             map (\<lambda>r. (tr_name r, tr_value r)) (tt_rows t) = tooltip_lines opts chart row"
proof -
  let ?line = "\<lambda>nested item. (tr_name (tooltip_row opts (cc_config chart) nested item),
                              tr_value (tooltip_row opts (cc_config chart) nested item))"
  have drawn: "drawn_items items = items"
    using payload
    by (auto simp: drawn_items_def tooltip_payload_def series_item_def slice_item_def list_all_iff filter_id_conv
        split: option.splits dest!: list_all2_conv_all_nth [THEN iffD1] simp: in_set_conv_nth)
  have lines: "map (?line nested) items = tooltip_lines opts chart row" for nested
  proof (cases "to_nameKey opts")
    case None
    have "list_all2 (series_item row) (present chart row) items" using payload None by (simp add: tooltip_payload_def)
    moreover have "?line nested item = (map_option fst (map_of (cc_config chart) key), shown_value opts row key)"
      if "series_item row key item" "key \<in> set (present chart row)" for key item
      by (rule series_line [OF that(1)]) (use fits that(2) None in \<open>auto simp: tooltip_fits_def present_def list_all_iff\<close>)
    ultimately have "map (?line nested) items =
        map (\<lambda>key. (map_option fst (map_of (cc_config chart) key), shown_value opts row key)) (present chart row)"
      by (induction rule: list_all2_induct) auto
    then show ?thesis using None by (simp add: tooltip_lines_def)
  next
    case (Some k)
    then obtain item where "items = [item]" "slice_item chart row item"
      using payload by (auto simp: tooltip_payload_def length_Suc_conv)
    then show ?thesis using slice_line [OF _ fits Some] by simp
  qed
  show ?thesis using items lines by (simp add: ChartTooltipContent_def Let_def drawn comp_def)
qed

definition complete_lines :: "(string option \<times> string option) list \<Rightarrow> bool" where
  "complete_lines = list_all (\<lambda>(name, value). name \<noteq> None \<and> value \<noteq> None)"

lemma fitting_lines_complete: "tooltip_fits opts chart row \<Longrightarrow> complete_lines (tooltip_lines opts chart row)"
proof (cases "to_nameKey opts")
  case None
  have "value_text v \<noteq> None" if "v \<noteq> None" "v \<noteq> Some Gap" for v
    using that by (cases v rule: value_text.cases) auto
  then show "tooltip_fits opts chart row \<Longrightarrow> ?thesis"
    using None
    by (auto simp: tooltip_fits_def tooltip_lines_def complete_lines_def list_all_iff present_def shown_value_def
        split: option.splits)
qed (auto simp: tooltip_fits_def tooltip_lines_def complete_lines_def split: option.splits chart_value.splits)

text \<open>Numbers are no texts, so no value of a series is taken for the key of a label.\<close>

lemma number_props [simp]:
  "map_of ps k = Some (count_value n) \<Longrightarrow> string_prop ps k = None"
  "map_of ps k = Some (Amount x) \<Longrightarrow> string_prop ps k = None"
  by (simp_all add: string_prop_def count_value_def)

lemma number_is_no_text [simp]:
  "numeric v \<Longrightarrow> (case toNumber v of Words s \<Rightarrow> Some s | _ \<Rightarrow> None) = None"
  "numeric (Some t) \<Longrightarrow> (case Number_value t of Words s \<Rightarrow> Some s | _ \<Rightarrow> None) = None"
  by (auto simp: toNumber_def Number_value_def numeric_def split: option.splits)

lemma kpi_tooltip:
  assumes "list_all kpi_numeric rows" "row \<in> set (kpi_data rows)"
  shows "tooltip_fits (date_tooltip other) (KpiTrendCard rows) row" "tooltip_fits default_tooltip (KpiTrendChart rows) row"
  using assms
  by (auto simp: tooltip_fits_def date_tooltip_def default_tooltip_def KpiTrendCard_def KpiTrendChart_def KPI_CONFIG_def
      CHART_CONFIG_def kpi_data_def kpi_numeric_def list_all_iff string_prop_def)

lemma outcome_key: "(k, l, v, paint) \<in> set (outcome_slices b) \<Longrightarrow> map_of DELIVERY_CONFIG k \<noteq> None"
  by (auto simp: outcome_slices_def map_of_eq_None_iff image_iff Bex_def)

lemma outcome_tooltip:
  "row \<in> set (cc_data (ShipmentOutcomeCard b)) \<Longrightarrow> tooltip_fits (slice_tooltip ''key'') (ShipmentOutcomeCard b) row"
  using outcome_key
  by (fastforce simp: tooltip_fits_def slice_tooltip_def default_tooltip_def ShipmentOutcomeCard_def string_prop_def count_value_def)

lemma status_tooltip:
  assumes "row \<in> set (cc_data (OrderStatusCard statuses))"
  shows "tooltip_fits (slice_tooltip ''label'') (OrderStatusCard statuses) row"
proof -
  have "map_of (status_config statuses) l \<noteq> None" if "(l, n) \<in> set statuses" for l n
    using status_config_entry [OF that] weak_map_of_SomeI by fastforce
  then show ?thesis using assms
    by (fastforce simp: tooltip_fits_def slice_tooltip_def default_tooltip_def OrderStatusCard_def string_prop_def count_value_def)
qed

lemma order_tooltip:
  assumes "list_all day_numeric days" "row \<in> set (cc_data (OrderActivityCard days))"
  shows "tooltip_fits (activity_tooltip other digits) (OrderActivityCard days) row"
proof -
  have "numeric (Some (da_order_value d))" if "d \<in> set days" for d
    using assms(1) that by (simp add: list_all_iff day_numeric_def)
  then show ?thesis using assms(2)
    by (auto simp: tooltip_fits_def activity_tooltip_def date_tooltip_def default_tooltip_def OrderActivityCard_def
        activity_formatter_def ACTIVITY_CONFIG_def day_row_def string_prop_def count_value_def)
qed

lemma other_tooltips:
  "row \<in> set (cc_data (DeliveriesCard days)) \<Longrightarrow> tooltip_fits (date_tooltip other) (DeliveriesCard days) row"
  "row \<in> set (cc_data (NewExceptionsCard counts)) \<Longrightarrow> tooltip_fits (date_tooltip other) (NewExceptionsCard counts) row"
  "row \<in> set (cc_data (WarehouseStockCard ws)) \<Longrightarrow> tooltip_fits default_tooltip (WarehouseStockCard ws) row"
  "row \<in> set (cc_data (TopProductsCard products)) \<Longrightarrow> tooltip_fits default_tooltip (TopProductsCard products) row"
  "row \<in> set (cc_data (OpenExceptionsCard flags)) \<Longrightarrow>
     tooltip_fits (default_tooltip\<lparr>to_hideLabel := True\<rparr>) (OpenExceptionsCard flags) row"
  by (auto simp: tooltip_fits_def date_tooltip_def default_tooltip_def DeliveriesCard_def NewExceptionsCard_def
      WarehouseStockCard_def TopProductsCard_def OpenExceptionsCard_def day_row_def stock_row_def)

lemma charts_tooltips_fit:
  assumes "overview_numeric ov" "list_all kpi_numeric rows" "row \<in> set (cc_data chart)"
    and "(chart, opts) \<in> set (zip (KpiTrendChart rows # overview_cards ov) (default_tooltip # overview_tooltips other digits))"
  shows "tooltip_fits opts chart row"
proof -
  have "cc_data (KpiTrendChart rows) = kpi_data rows" "cc_data (KpiTrendCard (ov_kpi_trend ov)) = kpi_data (ov_kpi_trend ov)"
    by (simp_all add: KpiTrendChart_def KpiTrendCard_def)
  then show ?thesis
    using assms kpi_tooltip outcome_tooltip status_tooltip order_tooltip other_tooltips
    by (auto simp: overview_cards_def overview_tooltips_def overview_numeric_def)
qed

text \<open>Pointing at a chart of the Overview or of Analytics reads out exactly what the row holds: for every chart, every row of its data
  and whatever the chart library hands over for that row, the tooltip has one line for each series
  with a value there (for a pie, one for the slice), in the order of the series, with the label that
  the chart's configuration gives the series or slice and with the row's value; no line lacks either.\<close>

theorem tooltips_read_out_the_row:
  assumes "overview_numeric ov" "list_all kpi_numeric rows"
    and "(chart, opts) \<in> set (zip (KpiTrendChart rows # overview_cards ov) (default_tooltip # overview_tooltips other digits))"
    and "row \<in> set (cc_data chart)" "tooltip_payload opts chart row items" "items \<noteq> []"
  shows "\<exists>t. ChartTooltipContent opts (cc_config chart) True label items = Some t \<and>
             map (\<lambda>r. (tr_name r, tr_value r)) (tt_rows t) = tooltip_lines opts chart row \<and>
             complete_lines (tooltip_lines opts chart row)"
  using tooltip_reads_row [OF charts_tooltips_fit [OF assms(1,2,4,3)] assms(5,6)]
    fitting_lines_complete [OF charts_tooltips_fit [OF assms(1,2,4,3)]]
  by blast

text \<open>An Overview with a day of three new exceptions, and the item handed over for it.\<close>

definition sample_overview :: overview where
  "sample_overview =
     \<lparr>ov_as_of = ''2026-09-14'', ov_window_start = ''2026-09-14'', ov_window_days = 1, ov_kpi_trend = [],
      ov_daily_activity = [], ov_sales_order_status = [],
      ov_shipment_delivery = \<lparr>sb_delivered_on_time = 0, sb_delivered_late = 0, sb_in_progress = 0, sb_exception = 0\<rparr>,
      ov_inventory_by_warehouse = [], ov_suppliers = [], ov_top_products = [],
      ov_open_exceptions_by_category = [], ov_new_exceptions_per_day = [(''2026-09-14'', 3)]\<rparr>"

definition sample_day :: chart_row where
  "sample_day = [(''simulation_date'', Words ''2026-09-14''), (''count'', count_value 3)]"

definition sample_day_item :: chart_item where
  "sample_day_item =
     \<lparr>ci_props = [(''dataKey'', Words ''count''), (''name'', Words ''count''), (''value'', count_value 3)],
      ci_payload = Some sample_day\<rparr>"

theorem tooltips_read_out_the_row_witness:
  "\<exists>t. ChartTooltipContent (date_tooltip (\<lambda>s. s)) [(''count'', ''New exceptions'', chart_color 4)] True
         (Some ''2026-09-14'') [sample_day_item] = Some t \<and>
       map (\<lambda>r. (tr_name r, tr_value r)) (tt_rows t) = [(Some ''New exceptions'', Some ''3'')]"
proof -
  let ?chart = "NewExceptionsCard [(''2026-09-14'', 3)]" and ?opts = "date_tooltip (\<lambda>s. s)"
  have z: "(?chart, ?opts) \<in> set (zip (KpiTrendChart [] # overview_cards sample_overview)
      (default_tooltip # overview_tooltips (\<lambda>s. s) (\<lambda>x. [])))"
    by (simp add: overview_cards_def overview_tooltips_def sample_overview_def)
  have n: "overview_numeric sample_overview" "list_all kpi_numeric []" by (simp_all add: overview_numeric_def sample_overview_def)
  have d: "sample_day \<in> set (cc_data ?chart)" by (simp add: NewExceptionsCard_def sample_day_def)
  have p: "tooltip_payload ?opts ?chart sample_day [sample_day_item]"
    by (simp add: tooltip_payload_def date_tooltip_def default_tooltip_def NewExceptionsCard_def present_def series_item_def
        sample_day_item_def sample_day_def string_prop_def count_value_def)
  have "value_text (Some (count_value 3)) = Some ''3''" by code_simp
  then have lines: "tooltip_lines ?opts ?chart sample_day = [(Some ''New exceptions'', Some ''3'')]"
    by (simp add: tooltip_lines_def date_tooltip_def default_tooltip_def NewExceptionsCard_def present_def sample_day_def
        shown_value_def) (simp add: count_value_def)
  have config: "cc_config ?chart = [(''count'', ''New exceptions'', chart_color 4)]" by (simp add: NewExceptionsCard_def)
  show ?thesis
    using tooltips_read_out_the_row [OF n z d p list.distinct(2), of "Some ''2026-09-14''"] unfolding lines config
    by (elim exE conjE) (intro exI conjI)
qed

section \<open>Legends\<close>

text \<open>
  The payload of a legend: for a chart with an axis one entry for each series, under its key; for a
  pie one for each row of its data.
\<close>

definition legend_entry :: "string option \<Rightarrow> chart_card \<Rightarrow> string \<Rightarrow> chart_item \<Rightarrow> bool" where
  "legend_entry nameKey chart name item \<longleftrightarrow>
     string_prop (ci_props item) ''type'' \<noteq> Some ''none'' \<and>
     (case nameKey of
        None \<Rightarrow> string_prop (ci_props item) ''dataKey'' = Some name \<and> string_prop (ci_props item) name = None \<and>
                (case ci_payload item of None \<Rightarrow> True | Some row \<Rightarrow> string_prop row name = None)
      | Some k \<Rightarrow> string_prop (ci_props item) k = None \<and>
                  Option.bind (ci_payload item) (\<lambda>row. string_prop row k) = Some name)"

definition legend_names :: "string option \<Rightarrow> chart_card \<Rightarrow> string list" where
  "legend_names nameKey chart =
     (case nameKey of
        None \<Rightarrow> cc_series chart
      | Some k \<Rightarrow> concat (map (\<lambda>row. case string_prop row k of None \<Rightarrow> [] | Some s \<Rightarrow> [s]) (cc_data chart)))"

definition legend_payload :: "string option \<Rightarrow> chart_card \<Rightarrow> chart_item list \<Rightarrow> bool" where
  "legend_payload nameKey chart items \<longleftrightarrow> list_all2 (legend_entry nameKey chart) (legend_names nameKey chart) items"

lemma legend_label:
  assumes "legend_entry nameKey chart name item" "map_of config name \<noteq> None"
  shows "getPayloadConfigFromPayload config item (key_or [nameKey, string_prop (ci_props item) ''dataKey'']) = map_of config name"
  using assms
  by (auto simp: legend_entry_def getPayloadConfigFromPayload_def key_or_def or_else_def Let_def split: option.splits)

text \<open>Where a card has a legend, each of its names is a key of the configuration.\<close>

definition legend_fits :: "string option \<Rightarrow> chart_card \<Rightarrow> bool" where
  "legend_fits nameKey chart \<longleftrightarrow>
     list_all (\<lambda>name. map_of (cc_config chart) name \<noteq> None) (legend_names nameKey chart)"

lemma outcome_legend: "legend_fits (Some ''key'') (ShipmentOutcomeCard b)"
  using outcome_key
  by (fastforce simp: legend_fits_def legend_names_def ShipmentOutcomeCard_def list_all_iff string_prop_def)

lemma status_legend: "legend_fits (Some ''label'') (OrderStatusCard statuses)"
proof -
  have "map_of (status_config statuses) l \<noteq> None" if "(l, n) \<in> set statuses" for l n
    using status_config_entry [OF that] weak_map_of_SomeI by fastforce
  then show ?thesis
    by (fastforce simp: legend_fits_def legend_names_def OrderStatusCard_def list_all_iff string_prop_def)
qed

lemma series_legends:
  "legend_fits None (KpiTrendChart rows)" "legend_fits None (KpiTrendCard rows)"
  "legend_fits None (OrderActivityCard days)" "legend_fits None (DeliveriesCard days)"
  "legend_fits None (WarehouseStockCard ws)" "legend_fits None (TopProductsCard products)"
  by (simp_all add: legend_fits_def legend_names_def KpiTrendChart_def KpiTrendCard_def KPI_CONFIG_def CHART_CONFIG_def
      OrderActivityCard_def DeliveriesCard_def WarehouseStockCard_def TopProductsCard_def)

lemma legend_reads:
  assumes "legend_fits nameKey chart" "legend_payload nameKey chart items" "items \<noteq> []"
  shows "\<exists>es. ChartLegendContent nameKey (cc_config chart) items = Some es \<and>
              map snd es = map (\<lambda>name. map_option fst (map_of (cc_config chart) name)) (legend_names nameKey chart)"
proof -
  have all: "list_all2 (legend_entry nameKey chart) (legend_names nameKey chart) items"
    using assms(2) by (simp add: legend_payload_def)
  then have "\<forall>item\<in>set items. string_prop (ci_props item) ''type'' \<noteq> Some ''none''"
    by (fastforce simp: list_all2_conv_all_nth legend_entry_def in_set_conv_nth)
  then have drawn: "drawn_items items = items" by (auto simp: drawn_items_def filter_id_conv)
  have "map (\<lambda>item. map_option fst (getPayloadConfigFromPayload (cc_config chart) item
          (key_or [nameKey, string_prop (ci_props item) ''dataKey'']))) items =
        map (\<lambda>name. map_option fst (map_of (cc_config chart) name)) (legend_names nameKey chart)"
    using all assms(1) unfolding legend_fits_def
    by (induction rule: list_all2_induct) (auto simp: legend_label)
  then show ?thesis using assms(3) by (simp add: ChartLegendContent_def Let_def drawn comp_def)
qed

text \<open>The legend of a chart of the Overview or of Analytics names each of its series, or each slice of a pie,
  by the label of the configuration, in order, and none of them is missing.\<close>

theorem legends_name_the_series:
  assumes "(chart, Some nameKey) \<in> set (zip (KpiTrendChart rows # overview_cards ov) (Some None # overview_legends))"
    and "legend_payload nameKey chart items" "items \<noteq> []"
  shows "\<exists>es. ChartLegendContent nameKey (cc_config chart) items = Some es \<and>
              map snd es = map (\<lambda>name. map_option fst (map_of (cc_config chart) name)) (legend_names nameKey chart) \<and>
              list_all (\<lambda>label. label \<noteq> None) (map snd es)"
proof -
  have "legend_fits nameKey chart"
    using assms(1) outcome_legend status_legend series_legends
    by (auto simp: overview_cards_def overview_legends_def)
  moreover from this have "list_all (\<lambda>label. label \<noteq> None)
      (map (\<lambda>name. map_option fst (map_of (cc_config chart) name)) (legend_names nameKey chart))"
    by (auto simp: legend_fits_def list_all_iff)
  ultimately show ?thesis using legend_reads [OF _ assms(2,3)] by metis
qed

end
