(* ===== verification/Orbyn_Shell.thy ===== *)
theory Orbyn_Shell
  imports Layout Nav
begin

text \<open>
  The shell around Subsystem 1's pages (\<open>app/(app)/layout.tsx\<close>): the configuration of the theme with
  its copy in the browser's storage (\<open>components/theme-customizer.tsx\<close>), the provider of the side bar
  (\<open>components/ui/sidebar.tsx\<close>), the entries of the side bar (\<open>components/app-sidebar.tsx\<close>) and the
  header's breadcrumb and palette (\<open>components/app-header.tsx\<close>). Shown: what is picked survives a
  reload, the side bar behaves like the Builder's, and which entries are highlighted.
\<close>

section \<open>ThemeConfigProvider\<close>

text \<open>
  What \<open>localStorage\<close> holds under the customiser's key, after \<open>JSON.parse\<close>: an object with some of the
  properties, of the types this code writes, or a text that is no JSON.
\<close>

record partial_theme =
  pt_accent :: "string option"
  pt_radius :: "nat option"
  pt_font :: "string option"
  pt_sidebarVariant :: "string option"
  pt_sidebarCollapsible :: "string option"
  pt_contentLayout :: "string option"

datatype stored_theme = Stored partial_theme | Unreadable

text \<open>\<open>{ ...defaultConfig, ...JSON.parse(raw) }\<close> and \<open>JSON.stringify(config)\<close>\<close>

definition given :: "'a option \<Rightarrow> 'a \<Rightarrow> 'a" where
  "given v d = (case v of Some x \<Rightarrow> x | None \<Rightarrow> d)"

definition spread_config :: "partial_theme \<Rightarrow> theme_config" where
  "spread_config p =
     \<lparr>tc_accent = given (pt_accent p) (tc_accent defaultConfig), tc_radius = given (pt_radius p) (tc_radius defaultConfig),
      tc_font = given (pt_font p) (tc_font defaultConfig),
      tc_sidebarVariant = given (pt_sidebarVariant p) (tc_sidebarVariant defaultConfig),
      tc_sidebarCollapsible = given (pt_sidebarCollapsible p) (tc_sidebarCollapsible defaultConfig),
      tc_contentLayout = given (pt_contentLayout p) (tc_contentLayout defaultConfig)\<rparr>"

definition stringify_config :: "theme_config \<Rightarrow> stored_theme" where
  "stringify_config c = Stored
     \<lparr>pt_accent = Some (tc_accent c), pt_radius = Some (tc_radius c), pt_font = Some (tc_font c),
      pt_sidebarVariant = Some (tc_sidebarVariant c), pt_sidebarCollapsible = Some (tc_sidebarCollapsible c),
      pt_contentLayout = Some (tc_contentLayout c)\<rparr>"

text \<open>
  The provider: its configuration, whether the sheet is open, the root element's style and its
  \<open>data-content\<close>, the storage, whether reading it throws (access is denied) and whether writing
  it does (access is denied, or it is full).
\<close>

record theme_provider =
  tp_config :: theme_config
  tp_open :: bool
  tp_style :: style
  tp_content :: "string option"
  tp_stored :: "stored_theme option"
  tp_unreadable :: bool
  tp_unwritable :: bool

text \<open>What the effect of the mount finds; an error is ignored.\<close>

definition persisted_config :: "theme_provider \<Rightarrow> theme_config option" where
  "persisted_config t =
     (if tp_unreadable t then None
      else case tp_stored t of Some (Stored p) \<Rightarrow> Some (spread_config p) | _ \<Rightarrow> None)"

definition apply_and_persist :: "theme_provider \<Rightarrow> theme_provider" where
  "apply_and_persist t =
     t\<lparr>tp_style := applyConfig (tp_config t) (tp_style t),
       tp_content := Some (tc_contentLayout (tp_config t)),
       tp_stored := (if tp_unwritable t then tp_stored t else Some (stringify_config (tp_config t)))\<rparr>"

text \<open>
  A mount renders the default configuration and runs both effects: the first asks for the stored
  configuration, the second applies and stores the default one; then the configuration asked for is
  rendered and its effect runs. In development React's strict mode runs the effects of a mount twice
  before it renders again, and the last configuration asked for counts.
\<close>

definition mount_effects :: "theme_provider \<Rightarrow> theme_config option \<times> theme_provider" where
  "mount_effects t = (persisted_config t, apply_and_persist t)"

definition ThemeConfigProvider :: "bool \<Rightarrow> style \<Rightarrow> stored_theme option \<Rightarrow> bool \<Rightarrow> bool \<Rightarrow> theme_provider" where
  "ThemeConfigProvider strict base stored unreadable unwritable =
     (let t0 = \<lparr>tp_config = defaultConfig, tp_open = False, tp_style = base, tp_content = None,
               tp_stored = stored, tp_unreadable = unreadable, tp_unwritable = unwritable\<rparr>;
          (asked1, t1) = mount_effects t0;
          (asked, t2) = (if strict
             then let (asked2, t') = mount_effects t1
                  in (case asked2 of Some c \<Rightarrow> Some c | None \<Rightarrow> asked1, t')
             else (asked1, t1))
      in case asked of
           None \<Rightarrow> t2
         | Some c \<Rightarrow> apply_and_persist (t2\<lparr>tp_config := c\<rparr>))"

definition setConfig :: "(theme_config \<Rightarrow> theme_config) \<Rightarrow> theme_provider \<Rightarrow> theme_provider" where
  "setConfig f t = apply_and_persist (t\<lparr>tp_config := f (tp_config t)\<rparr>)"

text \<open>The options of the customiser, with the keys and labels of their buttons.\<close>

definition orbyn_sidebarVariants :: "(string \<times> string) list" where
  "orbyn_sidebarVariants = [(''inset'', ''Inset''), (''sidebar'', ''Sidebar''), (''floating'', ''Floating'')]"

definition collapsibleModes :: "(string \<times> string) list" where
  "collapsibleModes = [(''icon'', ''Icon''), (''offcanvas'', ''Off-canvas'')]"

definition contentLayouts :: "(string \<times> string) list" where
  "contentLayouts = [(''full'', ''Full width''), (''centered'', ''Centered'')]"

datatype theme_pick =
    Pick_accent string
  | Pick_radius nat
  | Pick_font string
  | Pick_variant string
  | Pick_collapse string
  | Pick_layout string
  | Pick_reset

text \<open>The buttons of the sheet; a pick that no button offers does nothing.\<close>

definition pick_offered :: "theme_pick \<Rightarrow> bool" where
  "pick_offered p =
     (case p of
        Pick_accent k \<Rightarrow> k \<in> set (map ac_key accents)
      | Pick_radius n \<Rightarrow> n \<in> set (map snd radii)
      | Pick_font k \<Rightarrow> k \<in> set (map fst fonts)
      | Pick_variant k \<Rightarrow> k \<in> set (map fst orbyn_sidebarVariants)
      | Pick_collapse k \<Rightarrow> k \<in> set (map fst collapsibleModes)
      | Pick_layout k \<Rightarrow> k \<in> set (map fst contentLayouts)
      | Pick_reset \<Rightarrow> True)"

fun ThemeCustomizer :: "theme_pick \<Rightarrow> theme_config \<Rightarrow> theme_config" where
  "ThemeCustomizer (Pick_accent k) c = c\<lparr>tc_accent := k\<rparr>"
| "ThemeCustomizer (Pick_radius n) c = c\<lparr>tc_radius := n\<rparr>"
| "ThemeCustomizer (Pick_font k) c = c\<lparr>tc_font := k\<rparr>"
| "ThemeCustomizer (Pick_variant k) c = c\<lparr>tc_sidebarVariant := k\<rparr>"
| "ThemeCustomizer (Pick_collapse k) c = c\<lparr>tc_sidebarCollapsible := k\<rparr>"
| "ThemeCustomizer (Pick_layout k) c = c\<lparr>tc_contentLayout := k\<rparr>"
| "ThemeCustomizer Pick_reset c = defaultConfig"

text \<open>The buttons shown as active, section by section.\<close>

definition active_buttons :: "theme_config \<Rightarrow> string list list" where
  "active_buttons c =
     [map ac_label (filter (\<lambda>a. tc_accent c = ac_key a) accents),
      map fst (filter (\<lambda>r. tc_radius c = snd r) radii),
      map (\<lambda>(k, l, s). l) (filter (\<lambda>(k, l, s). tc_font c = k) fonts),
      map snd (filter (\<lambda>v. tc_sidebarVariant c = fst v) orbyn_sidebarVariants),
      map snd (filter (\<lambda>m. tc_sidebarCollapsible c = fst m) collapsibleModes),
      map snd (filter (\<lambda>l. tc_contentLayout c = fst l) contentLayouts)]"

text \<open>
  The mode (light, dark or the system's) is not part of this configuration: \<open>next-themes\<close> holds, applies
  and stores it. The components use its documented interface: \<open>setTheme\<close> sets the theme, and
  \<open>resolvedTheme\<close> is the theme, or the system's preference under \<open>system\<close>. The first section of the
  customiser sets it, and so does the button in the header.
\<close>

definition modes :: "(theme_mode \<times> string) list" where
  "modes = [(Light, ''Light''), (Dark, ''Dark''), (System, ''Auto'')]"

definition active_mode :: "theme_mode \<Rightarrow> string list" where
  "active_mode theme = map snd (filter (\<lambda>m. theme = fst m) modes)"

definition resolved_dark :: "theme_mode \<Rightarrow> bool \<Rightarrow> bool" where
  "resolved_dark theme prefersDark \<longleftrightarrow> theme = Dark \<or> theme = System \<and> prefersDark"

definition ThemeToggle :: "theme_mode \<Rightarrow> bool \<Rightarrow> theme_mode" where
  "ThemeToggle theme prefersDark = (if resolved_dark theme prefersDark then Light else Dark)"

section \<open>The side bar\<close>

record orbyn_frame =
  of_width :: nat
  of_isMobile :: "bool option"
  of_open :: bool
  of_openMobile :: bool
  of_cookie :: "bool option"

definition orbyn_useIsMobile :: "orbyn_frame \<Rightarrow> bool" where
  "orbyn_useIsMobile f = (of_isMobile f = Some True)"

definition orbyn_onChange :: "orbyn_frame \<Rightarrow> orbyn_frame" where
  "orbyn_onChange f = f\<lparr>of_isMobile := Some (of_width f < 768)\<rparr>"

text \<open>The query \<open>max-width: 767px\<close> changes when the width crosses it.\<close>

definition orbyn_resize :: "nat \<Rightarrow> orbyn_frame \<Rightarrow> orbyn_frame" where
  "orbyn_resize w f =
     (if (w \<le> 767) = (of_width f \<le> 767) then f\<lparr>of_width := w\<rparr> else orbyn_onChange (f\<lparr>of_width := w\<rparr>))"

definition SidebarProvider :: "nat \<Rightarrow> bool option \<Rightarrow> orbyn_frame" where
  "SidebarProvider w cookie =
     orbyn_onChange \<lparr>of_width = w, of_isMobile = None, of_open = True, of_openMobile = False, of_cookie = cookie\<rparr>"

definition orbyn_setOpen :: "bool \<Rightarrow> orbyn_frame \<Rightarrow> orbyn_frame" where
  "orbyn_setOpen v f = f\<lparr>of_open := v, of_cookie := Some v\<rparr>"

definition orbyn_toggleSidebar :: "orbyn_frame \<Rightarrow> orbyn_frame" where
  "orbyn_toggleSidebar f =
     (if orbyn_useIsMobile f then f\<lparr>of_openMobile := \<not> of_openMobile f\<rparr> else orbyn_setOpen (\<not> of_open f) f)"

definition orbyn_handleKeyDown :: "string \<Rightarrow> bool \<Rightarrow> bool \<Rightarrow> orbyn_frame \<Rightarrow> orbyn_frame" where
  "orbyn_handleKeyDown key metaKey ctrlKey f =
     (if key = ''b'' \<and> (metaKey \<or> ctrlKey) then orbyn_toggleSidebar f else f)"

definition orbyn_state :: "orbyn_frame \<Rightarrow> string" where
  "orbyn_state f = (if of_open f then ''expanded'' else ''collapsed'')"

text \<open>\<open>AppSidebar\<close> passes the configuration's variant and collapsible; the side is the default, left.\<close>

definition orbyn_Sidebar :: "theme_config \<Rightarrow> orbyn_frame \<Rightarrow> sidebar_view" where
  "orbyn_Sidebar c f =
     (if tc_sidebarCollapsible c = ''none'' then Static_bar
      else if orbyn_useIsMobile f then Mobile_sheet (of_openMobile f) ''left''
      else Desktop_bar (orbyn_state f) (if orbyn_state f = ''collapsed'' then tc_sidebarCollapsible c else [])
             (tc_sidebarVariant c) ''left'')"

text \<open>The tooltip of a menu button is hidden unless the bar is collapsed beside the page.\<close>

definition SidebarMenuButton :: "orbyn_frame \<Rightarrow> string \<Rightarrow> string option" where
  "SidebarMenuButton f tooltip =
     (if tooltip = [] \<or> orbyn_state f \<noteq> ''collapsed'' \<or> orbyn_useIsMobile f then None else Some tooltip)"

section \<open>Entries\<close>

datatype nav_view =
    Flat_view string string bool \<comment> \<open>title, link, active\<close>
  | Menu_view string bool bool "(string \<times> string \<times> bool) list" \<comment> \<open>title, active, open, its links\<close>

text \<open>\<open>shown\<close>: the titles of the menus that are open.\<close>

definition NavEntry :: "string \<Rightarrow> string list \<Rightarrow> nav_item \<Rightarrow> nav_view" where
  "NavEntry pathname shown item =
     (if ni_items item \<noteq> []
      then Menu_view (ni_title item) (childActive pathname item) (ni_title item \<in> set shown)
             (map (\<lambda>c. (nc_title c, nc_url c, pathname = nc_url c)) (ni_items item))
      else Flat_view (ni_title item) (case ni_url item of Some u \<Rightarrow> u | None \<Rightarrow> ''#'') (entry_active pathname item))"

definition AppSidebar :: "string option \<Rightarrow> string \<Rightarrow> string list \<Rightarrow> (string \<times> nav_view list) list" where
  "AppSidebar role pathname shown =
     map (\<lambda>g. (ng_label g, map (NavEntry pathname shown) (ng_items g))) (visibleGroups role navGroups)"

text \<open>\<open>defaultOpen={childActive}\<close>, read when the entry is mounted.\<close>

definition defaultOpen :: "string \<Rightarrow> string list" where
  "defaultOpen pathname =
     map ni_title (filter (\<lambda>i. ni_items i \<noteq> [] \<and> childActive pathname i) (concat (map ng_items navGroups)))"

fun view_active :: "nav_view \<Rightarrow> bool" where
  "view_active (Flat_view t u a) = a"
| "view_active (Menu_view t a s cs) = a"

fun view_title :: "nav_view \<Rightarrow> string" where
  "view_title (Flat_view t u a) = t"
| "view_title (Menu_view t a s cs) = t"

definition highlighted :: "string option \<Rightarrow> string \<Rightarrow> string list" where
  "highlighted role pathname =
     map view_title (filter view_active (concat (map snd (AppSidebar role pathname []))))"

section \<open>The header's breadcrumb\<close>

text \<open>\<open>\b\w\<close>: a letter, digit or underscore that does not follow one.\<close>

definition word_char :: "char \<Rightarrow> bool" where
  "word_char c \<longleftrightarrow> is_alnum c \<or> c = CHR ''_''"

definition upper_char :: "char \<Rightarrow> char" where
  "upper_char c = (if byte CHR ''a'' \<le> byte c \<and> byte c \<le> byte CHR ''z'' then char_of (byte c - 32) else c)"

fun title_case :: "bool \<Rightarrow> string \<Rightarrow> string" where
  "title_case inside [] = []"
| "title_case inside (c # cs) = (if word_char c \<and> \<not> inside then upper_char c else c) # title_case (word_char c) cs"

definition crumb :: "string \<Rightarrow> string" where
  "crumb s = (if s = ''api'' then ''API'' else title_case False (map (\<lambda>c. if c = CHR ''-'' then CHR '' '' else c) s))"

definition useBreadcrumb :: "string \<Rightarrow> string list" where
  "useBreadcrumb pathname = map crumb (filter (\<lambda>s. s \<noteq> []) (split_slash pathname))"

section \<open>The machine\<close>

text \<open>\<open>sh_menus\<close>: the menus of the side bar that are open; \<open>sh_palette\<close>: the command palette is.\<close>

record shell =
  sh_theme :: theme_provider
  sh_frame :: orbyn_frame
  sh_menus :: "string list"
  sh_palette :: bool
  sh_path :: string
  sh_mode :: theme_mode
  sh_prefersDark :: bool

definition AppLayout ::
  "bool \<Rightarrow> nat \<Rightarrow> string \<Rightarrow> style \<Rightarrow> stored_theme option \<Rightarrow> bool \<Rightarrow> bool \<Rightarrow> theme_mode \<times> bool \<Rightarrow> bool option \<Rightarrow> shell" where
  "AppLayout strict w path base stored unreadable unwritable look cookie =
     \<lparr>sh_theme = ThemeConfigProvider strict base stored unreadable unwritable, sh_frame = SidebarProvider w cookie,
      sh_menus = defaultOpen path, sh_palette = False, sh_path = path,
      sh_mode = fst look, sh_prefersDark = snd look\<rparr>"

datatype shell_event =
    Customize_clicked
  | Customizer_changed bool
  | Picked theme_pick
  | Mode_picked theme_mode
  | Mode_toggled
  | System_changed bool
  | Shell_resized nat
  | Shell_key string bool bool
  | Toggle_clicked
  | Mobile_sheet_changed bool
  | Entry_clicked string
  | Menu_clicked string
  | Palette_clicked
  | Palette_changed bool
  | Palette_selected string

text \<open>A link in the side bar closes the sheet it may stand in; \<open>go\<close> closes the palette.\<close>

definition closeMobile :: "orbyn_frame \<Rightarrow> orbyn_frame" where
  "closeMobile f = f\<lparr>of_openMobile := False\<rparr>"

fun shell_step :: "shell \<Rightarrow> shell_event \<Rightarrow> shell" where
  "shell_step st Customize_clicked = st\<lparr>sh_theme := (sh_theme st)\<lparr>tp_open := True\<rparr>\<rparr>"
| "shell_step st (Customizer_changed v) = st\<lparr>sh_theme := (sh_theme st)\<lparr>tp_open := v\<rparr>\<rparr>"
| "shell_step st (Picked k) =
     (if pick_offered k then st\<lparr>sh_theme := setConfig (ThemeCustomizer k) (sh_theme st)\<rparr> else st)"
| "shell_step st (Mode_picked m) = st\<lparr>sh_mode := m\<rparr>"
| "shell_step st Mode_toggled = st\<lparr>sh_mode := ThemeToggle (sh_mode st) (sh_prefersDark st)\<rparr>"
| "shell_step st (System_changed dark) = st\<lparr>sh_prefersDark := dark\<rparr>"
| "shell_step st (Shell_resized w) = st\<lparr>sh_frame := orbyn_resize w (sh_frame st)\<rparr>"
| "shell_step st (Shell_key key metaKey ctrlKey) =
     st\<lparr>sh_frame := orbyn_handleKeyDown key metaKey ctrlKey (sh_frame st),
        sh_palette := (if key = ''k'' \<and> (metaKey \<or> ctrlKey) then \<not> sh_palette st else sh_palette st)\<rparr>"
| "shell_step st Toggle_clicked = st\<lparr>sh_frame := orbyn_toggleSidebar (sh_frame st)\<rparr>"
| "shell_step st (Mobile_sheet_changed v) = st\<lparr>sh_frame := (sh_frame st)\<lparr>of_openMobile := v\<rparr>\<rparr>"
| "shell_step st (Entry_clicked url) = st\<lparr>sh_frame := closeMobile (sh_frame st), sh_path := url\<rparr>"
| "shell_step st (Menu_clicked t) =
     st\<lparr>sh_menus := (if t \<in> set (sh_menus st) then removeAll t (sh_menus st) else t # sh_menus st)\<rparr>"
| "shell_step st Palette_clicked = st\<lparr>sh_palette := True\<rparr>"
| "shell_step st (Palette_changed v) = st\<lparr>sh_palette := v\<rparr>"
| "shell_step st (Palette_selected url) = st\<lparr>sh_palette := False, sh_path := url\<rparr>"

definition shell_run :: "shell \<Rightarrow> shell_event list \<Rightarrow> shell" where
  "shell_run = foldl shell_step"

section \<open>The configuration survives a reload\<close>

lemma spread_stringify: "stringify_config c = Stored p \<Longrightarrow> spread_config p = c"
  by (auto simp: stringify_config_def spread_config_def given_def)

definition config_props :: "theme_config \<Rightarrow> string \<Rightarrow> string option" where
  "config_props c p = map_of (applyConfig c []) p"

lemma map_of_applyConfig:
  "map_of (applyConfig c s) p = (if p \<in> set managed_props then config_props c p else map_of s p)"
  using accent_primary_Some [of c] font_stack_Some [of c]
  by (cases "accent_primary c"; cases "font_stack c")
     (auto simp: config_props_def applyConfig_def managed_props_def accent_props_def Let_def map_of_setProperty
        map_of_removeProperty)

text \<open>In every state the document shows the configuration over the style the page came with, and it is stored.\<close>

definition theme_ok :: "style \<Rightarrow> theme_provider \<Rightarrow> bool" where
  "theme_ok base t \<longleftrightarrow>
     map_of (tp_style t) = map_of (applyConfig (tp_config t) base) \<and>
     tp_content t = Some (tc_contentLayout (tp_config t)) \<and>
     (tp_unwritable t \<or> tp_stored t = Some (stringify_config (tp_config t)))"

lemma apply_ok: "map_of (tp_style t) = map_of (applyConfig c base) \<or> tp_style t = base \<Longrightarrow> theme_ok base (apply_and_persist t)"
  by (auto simp: theme_ok_def apply_and_persist_def fun_eq_iff map_of_applyConfig)

lemma apply_kept [simp]:
  "tp_config (apply_and_persist t) = tp_config t" "tp_unreadable (apply_and_persist t) = tp_unreadable t"
  "tp_unwritable (apply_and_persist t) = tp_unwritable t"
  by (simp_all add: apply_and_persist_def)

lemma provider_ok: "theme_ok base (ThemeConfigProvider strict base stored unreadable unwritable)"
  "tp_unwritable (ThemeConfigProvider strict base stored unreadable unwritable) = unwritable"
proof -
  have first: "theme_ok base (apply_and_persist t)" if "tp_style t = base" for t
    using that by (intro apply_ok) simp
  have again: "theme_ok base (apply_and_persist (t\<lparr>tp_config := c\<rparr>))" if "theme_ok base t" for t c
    using that by (intro apply_ok [where c = "tp_config t"]) (simp add: theme_ok_def)
  have same: "theme_ok base (apply_and_persist t)" if "theme_ok base t" for t
    using that by (intro apply_ok [where c = "tp_config t"]) (simp add: theme_ok_def)
  let ?t = "\<lparr>tp_config = defaultConfig, tp_open = False, tp_style = base, tp_content = None,
              tp_stored = stored, tp_unreadable = unreadable, tp_unwritable = unwritable\<rparr>"
  have "theme_ok base (apply_and_persist ?t)" by (rule first) simp
  moreover from this have "theme_ok base (apply_and_persist (apply_and_persist ?t))" by (rule same)
  ultimately show "theme_ok base (ThemeConfigProvider strict base stored unreadable unwritable)"
    by (simp add: ThemeConfigProvider_def mount_effects_def Let_def again split: option.splits)
  show "tp_unwritable (ThemeConfigProvider strict base stored unreadable unwritable) = unwritable"
    by (auto simp: ThemeConfigProvider_def mount_effects_def Let_def split: option.splits)
qed

lemma setConfig_ok: "theme_ok base t \<Longrightarrow> theme_ok base (setConfig f t)" "tp_unwritable (setConfig f t) = tp_unwritable t"
  unfolding setConfig_def by (intro apply_ok [where c = "tp_config t"]) (simp_all add: theme_ok_def)

lemma setConfig_stored: "tp_unwritable t \<Longrightarrow> tp_stored (setConfig f t) = tp_stored t"
  by (simp add: setConfig_def apply_and_persist_def)

lemma shell_step_theme:
  "theme_ok base (sh_theme st) \<Longrightarrow> theme_ok base (sh_theme (shell_step st e))"
  "tp_unwritable (sh_theme (shell_step st e)) = tp_unwritable (sh_theme st)"
  "tp_unwritable (sh_theme st) \<Longrightarrow> tp_stored (sh_theme (shell_step st e)) = tp_stored (sh_theme st)"
  by (cases e; simp add: setConfig_ok setConfig_stored; simp add: theme_ok_def)+

lemma shell_run_theme:
  "theme_ok base (sh_theme st) \<Longrightarrow> theme_ok base (sh_theme (shell_run st es))"
  "tp_unwritable (sh_theme (shell_run st es)) = tp_unwritable (sh_theme st)"
  "tp_unwritable (sh_theme st) \<Longrightarrow> tp_stored (sh_theme (shell_run st es)) = tp_stored (sh_theme st)"
  by (induction es arbitrary: st) (auto simp: shell_run_def shell_step_theme)

text \<open>A mount that cannot write leaves the storage alone, one that cannot read shows the default, one in
  production shows what was stored, and one in development has overwritten it.\<close>

lemma provider_stored: "tp_stored (ThemeConfigProvider strict base stored unreadable True) = stored"
  by (simp add: ThemeConfigProvider_def mount_effects_def apply_and_persist_def Let_def split: option.split)

lemma provider_unreadable: "tp_config (ThemeConfigProvider strict base stored True unwritable) = defaultConfig"
  by (cases strict) (simp_all add: ThemeConfigProvider_def mount_effects_def persisted_config_def Let_def)

lemma provider_reads:
  assumes "theme_ok base t" "\<not> tp_unwritable t"
  shows "tp_config (ThemeConfigProvider False base (tp_stored t) False unwritable) = tp_config t"
proof -
  obtain p where "tp_stored t = Some (Stored p)" "spread_config p = tp_config t"
    using assms spread_stringify by (auto simp: theme_ok_def stringify_config_def)
  then show ?thesis
    by (simp add: ThemeConfigProvider_def mount_effects_def persisted_config_def Let_def)
qed

lemma strict_mode_forgets: "tp_config (ThemeConfigProvider True base stored False False) = defaultConfig"
proof -
  obtain p where "stringify_config defaultConfig = Stored p" "spread_config p = defaultConfig"
    using spread_stringify by (auto simp: stringify_config_def)
  then show ?thesis
    by (simp add: ThemeConfigProvider_def mount_effects_def persisted_config_def apply_and_persist_def Let_def)
qed

text \<open>C38: What a reload of Subsystem 1 makes of the customiser's picks, after any sequence of actions in the
  shell. In a production build, with a storage that can be read and written, the configuration is the one
  before the reload. Under React's strict mode, which \<open>next dev\<close> turns on, it is the default: the effects of
  the mount run twice and the first run overwrites what the second reads. When the storage can be read
  but not written it is the configuration of the first visit, and when it cannot be read it is the
  default. In all four cases, before and after the reload, the properties on the document and its
  content layout are exactly those of the configuration over the style the page comes with, however many
  picks came before. The mode is not the customiser's: next-themes keeps it.\<close>

theorem theme_survives_reload:
  fixes es :: "shell_event list" and w w' :: nat and path path' :: string and base :: style
    and stored :: "stored_theme option" and cookie cookie' :: "bool option" and look look' :: "theme_mode \<times> bool"
    and strict unreadable unwritable :: bool
  defines "first \<equiv> AppLayout strict w path base stored unreadable unwritable look cookie"
  defines "before \<equiv> sh_theme (shell_run first es)"
  defines "reloaded \<equiv> sh_theme (AppLayout strict w' path' base (tp_stored before) unreadable unwritable look' cookie')"
  shows "tp_config reloaded =
      (if unreadable then defaultConfig
       else if unwritable then tp_config (sh_theme first)
       else if strict then defaultConfig
       else tp_config before)
    \<and> map_of (tp_style before) = map_of (applyConfig (tp_config before) base)
    \<and> map_of (tp_style reloaded) = map_of (applyConfig (tp_config reloaded) base)
    \<and> tp_content before = Some (tc_contentLayout (tp_config before))
    \<and> tp_content reloaded = Some (tc_contentLayout (tp_config reloaded))"
proof -
  have ok: "theme_ok base before" and written: "tp_unwritable before = unwritable"
    by (simp_all add: before_def first_def AppLayout_def shell_run_theme provider_ok)
  have "tp_stored before = stored" if "unwritable"
    using that provider_stored by (simp add: before_def first_def AppLayout_def shell_run_theme(3) provider_ok)
  then have "tp_config reloaded =
      (if unreadable then defaultConfig
       else if unwritable then tp_config (sh_theme first)
       else if strict then defaultConfig
       else tp_config before)"
    using provider_reads [OF ok] written
    by (simp add: reloaded_def first_def AppLayout_def provider_unreadable strict_mode_forgets)
  moreover have "theme_ok base reloaded" by (simp add: reloaded_def AppLayout_def provider_ok)
  ultimately show ?thesis using ok by (simp add: theme_ok_def)
qed

text \<open>With configurations that the customiser itself wrote, every section shows exactly one button as active.\<close>

definition config_offered :: "theme_config \<Rightarrow> bool" where
  "config_offered c \<longleftrightarrow> list_all (\<lambda>bs. length bs = 1) (active_buttons c)"

lemma find_one: "distinct (map f xs) \<Longrightarrow> length (filter (\<lambda>x. k = f x) xs) = (if k \<in> set (map f xs) then 1 else 0)"
  by (induction xs) (auto simp: filter_empty_conv)

lemma offered_iff:
  "config_offered c \<longleftrightarrow>
     tc_accent c \<in> set (map ac_key accents) \<and> tc_radius c \<in> set (map snd radii) \<and> tc_font c \<in> set (map fst fonts) \<and>
     tc_sidebarVariant c \<in> set (map fst orbyn_sidebarVariants) \<and>
     tc_sidebarCollapsible c \<in> set (map fst collapsibleModes) \<and> tc_contentLayout c \<in> set (map fst contentLayouts)"
proof -
  have "distinct (map ac_key accents)" "distinct (map snd radii)" "distinct (map fst fonts)"
    "distinct (map fst orbyn_sidebarVariants)" "distinct (map fst collapsibleModes)" "distinct (map fst contentLayouts)"
    by code_simp+
  note one = this [THEN find_one]
  show ?thesis
    by (simp add: config_offered_def active_buttons_def case_prod_unfold one del: set_map)
qed

lemma default_offered: "config_offered defaultConfig"
  by code_simp

lemma pick_keeps_offered: "config_offered c \<Longrightarrow> pick_offered k \<Longrightarrow> config_offered (ThemeCustomizer k c)"
  using default_offered by (cases k) (auto simp: offered_iff pick_offered_def simp del: set_map)

lemma shell_step_offered:
  "config_offered (tp_config (sh_theme st)) \<Longrightarrow> config_offered (tp_config (sh_theme (shell_step st e)))"
  by (cases e) (simp_all add: setConfig_def pick_keeps_offered)

theorem one_button_active:
  "config_offered (tp_config (sh_theme (shell_run (AppLayout strict w path base None unreadable unwritable look cookie) es)))
   \<and> length (active_mode (sh_mode (shell_run (AppLayout strict w path base None unreadable unwritable look cookie) es))) = 1"
proof -
  have "config_offered (tp_config (sh_theme (shell_run st es)))" if "config_offered (tp_config (sh_theme st))" for st
    using that by (induction es arbitrary: st) (auto simp: shell_run_def shell_step_offered)
  moreover have "tp_config (ThemeConfigProvider strict base None unreadable unwritable) = defaultConfig"
    using strict_mode_forgets [of base None] provider_unreadable [of strict base None unwritable]
    by (cases unreadable; cases strict; cases unwritable)
       (simp_all add: ThemeConfigProvider_def mount_effects_def persisted_config_def apply_and_persist_def Let_def)
  moreover have "length (active_mode m) = 1" for m by (cases m) (simp_all add: active_mode_def modes_def)
  ultimately show ?thesis by (simp add: AppLayout_def default_offered)
qed

section \<open>One side bar in two copies\<close>

text \<open>Subsystem 1's provider as the Builder's, with the configuration its side bar is given.\<close>

definition shell_sidebar :: "theme_config \<Rightarrow> sidebar_config" where
  "shell_sidebar c =
     \<lparr>sc_variant = tc_sidebarVariant c, sc_collapsible = tc_sidebarCollapsible c, sc_side = ''left''\<rparr>"

definition as_frame :: "theme_config \<Rightarrow> orbyn_frame \<Rightarrow> frame" where
  "as_frame c f =
     \<lparr>fr_width = of_width f, fr_isMobile = of_isMobile f, fr_open = of_open f, fr_openMobile = of_openMobile f,
      fr_cookie = of_cookie f, fr_config = shell_sidebar c\<rparr>"

text \<open>The side bars of the two applications are the same machine: mounting, resizing, toggling and the
  keyboard shortcut of Subsystem 1's provider are those of the Builder's under the configuration
  that the customiser gives the bar, and both show the same bar, sheet or nothing of it in the same
  states.\<close>

theorem sidebar_copies_agree:
  "as_frame c (SidebarProvider w cookie) = (mountFrame w cookie)\<lparr>fr_config := shell_sidebar c\<rparr> \<and>
   as_frame c (orbyn_resize w f) = resize w (as_frame c f) \<and>
   as_frame c (orbyn_toggleSidebar f) = toggleSidebar (as_frame c f) \<and>
   as_frame c (orbyn_handleKeyDown key metaKey ctrlKey f) = handleKeyDown key metaKey ctrlKey (as_frame c f) \<and>
   orbyn_Sidebar c f = Sidebar (as_frame c f)"
  by (simp add: as_frame_def shell_sidebar_def SidebarProvider_def mountFrame_def orbyn_onChange_def measure_width_def
      MOBILE_BREAKPOINT_def orbyn_resize_def resize_def Let_def orbyn_toggleSidebar_def toggleSidebar_def
      orbyn_useIsMobile_def useIsMobile_def orbyn_setOpen_def setOpen_def orbyn_handleKeyDown_def handleKeyDown_def
      orbyn_Sidebar_def Sidebar_def orbyn_state_def sidebarState_def)

text \<open>A link leaves no sheet over the page it opens, and a tooltip shows only beside a collapsed bar.\<close>

lemma link_closes_sheet:
  "of_openMobile (sh_frame (shell_step st (Entry_clicked url))) = False"
  "of_open (sh_frame (shell_step st (Entry_clicked url))) = of_open (sh_frame st)"
  "SidebarMenuButton f t = Some u \<Longrightarrow> orbyn_Sidebar c f = Static_bar \<or>
     (\<exists>col v. orbyn_Sidebar c f = Desktop_bar ''collapsed'' col v ''left'')"
  by (auto simp: closeMobile_def SidebarMenuButton_def orbyn_Sidebar_def split: if_splits)

section \<open>What the side bar highlights\<close>

definition item_active :: "string \<Rightarrow> nav_item \<Rightarrow> bool" where
  "item_active p i \<longleftrightarrow> (if ni_items i \<noteq> [] then childActive p i else entry_active p i)"

text \<open>The paths an item is active for, as exact paths and as prefixes.\<close>

datatype url_pattern = Exactly string | Below string

fun matches :: "string \<Rightarrow> url_pattern \<Rightarrow> bool" where
  "matches p (Exactly u) \<longleftrightarrow> p = u"
| "matches p (Below u) \<longleftrightarrow> starts_with p u"

definition patterns :: "nav_item \<Rightarrow> url_pattern list" where
  "patterns i =
     (if ni_items i \<noteq> [] then map (\<lambda>c. Exactly (nc_url c)) (ni_items i)
      else case ni_url i of
             None \<Rightarrow> []
           | Some u \<Rightarrow> if u = ''/dashboard'' \<or> u = [] then [Exactly u] else [Below u])"

lemma item_active_patterns: "item_active p i \<longleftrightarrow> list_ex (matches p) (patterns i)"
proof -
  have self: "starts_with p p" using starts_with_append [of p "[]"] by simp
  show ?thesis
  proof (cases "ni_url i")
    case (Some u)
    then show ?thesis using self
      by (cases "ni_items i = []"; cases "u = []"; cases "u = ''/dashboard''")
         (auto simp: item_active_def patterns_def childActive_def entry_active_def list_ex_iff)
  qed (auto simp: item_active_def patterns_def childActive_def entry_active_def list_ex_iff)
qed

fun apart :: "url_pattern \<Rightarrow> url_pattern \<Rightarrow> bool" where
  "apart (Exactly a) (Exactly b) \<longleftrightarrow> a \<noteq> b"
| "apart (Exactly a) (Below b) \<longleftrightarrow> \<not> starts_with a b"
| "apart (Below a) (Exactly b) \<longleftrightarrow> \<not> starts_with b a"
| "apart (Below a) (Below b) \<longleftrightarrow> \<not> starts_with a b \<and> \<not> starts_with b a"

lemma apart_patterns: "apart a b \<Longrightarrow> matches p a \<Longrightarrow> matches p b \<Longrightarrow> False"
  by (cases "(a, b)" rule: apart.cases) (auto simp: starts_with_iff append_eq_append_conv2)

definition items_apart :: "nav_item \<Rightarrow> nav_item \<Rightarrow> bool" where
  "items_apart i j \<longleftrightarrow> list_all (\<lambda>a. list_all (apart a) (patterns j)) (patterns i)"

lemma items_apart_active: "items_apart i j \<Longrightarrow> item_active p i \<Longrightarrow> \<not> item_active p j"
  using apart_patterns by (fastforce simp: item_active_patterns items_apart_def list_ex_iff list_all_iff)

lemma one_active:
  "sorted_wrt items_apart is \<Longrightarrow> length (filter (item_active p) is) \<le> 1"
proof (induction "is")
  case (Cons i js)
  have "filter (item_active p) js = []" if "item_active p i"
    using Cons.prems that items_apart_active by (fastforce simp: filter_empty_conv)
  with Cons show ?case by (cases "item_active p i") auto
qed simp

definition shown_items :: "string option \<Rightarrow> nav_item list" where
  "shown_items role = filter (\<lambda>i. \<not> ni_adminOnly i \<or> role = Some ''admin'') (concat (map ng_items navGroups))"

lemma visible_shown: "concat (map ng_items (visibleGroups role navGroups)) = shown_items role"
proof -
  have "concat (map ng_items (visibleGroups role gs)) =
        filter (\<lambda>i. \<not> ni_adminOnly i \<or> role = Some ''admin'') (concat (map ng_items gs))" for gs
    by (induction gs) (auto simp: visibleGroups_def)
  then show ?thesis by (simp add: shown_items_def)
qed

lemma highlighted_items: "highlighted role p = map ni_title (filter (item_active p) (shown_items role))"
proof -
  have view: "view_active (NavEntry p s i) = item_active p i" "view_title (NavEntry p s i) = ni_title i" for s i
    by (auto simp: NavEntry_def item_active_def)
  have "concat (map snd (AppSidebar role p [])) = map (NavEntry p []) (shown_items role)"
    by (simp add: AppSidebar_def comp_def map_concat flip: visible_shown)
  then show ?thesis by (simp add: highlighted_def filter_map comp_def view)
qed

lemma all_items_apart: "sorted_wrt items_apart (concat (map ng_items navGroups))"
  by code_simp

lemma at_most_one_highlighted: "length (highlighted role p) \<le> 1"
proof -
  have "sorted_wrt items_apart (shown_items role)"
    unfolding shown_items_def by (rule sorted_wrt_filter [OF all_items_apart])
  from one_active [OF this] show ?thesis by (simp only: highlighted_items length_map)
qed

lemma overview_entry:
  "list_all (\<lambda>i. ni_title i = ''Overview'' \<longrightarrow> ni_items i = [] \<and> ni_url i = Some ''/dashboard'') (concat (map ng_items navGroups))"
  by code_simp

lemma overview_item: "i \<in> set (shown_items role) \<Longrightarrow> ni_title i = ''Overview'' \<Longrightarrow> ni_items i = [] \<and> ni_url i = Some ''/dashboard''"
  using overview_entry by (auto simp: shown_items_def list_all_iff)

lemma overview_highlighted: "''Overview'' \<in> set (highlighted role p) \<Longrightarrow> p = ''/dashboard''"
  using overview_item by (fastforce simp: highlighted_items item_active_def entry_active_def)

lemma highlighted_all:
  "highlighted role p =
     map ni_title (filter (\<lambda>i. \<not> ni_adminOnly i \<or> role = Some ''admin'')
       (filter (item_active p) (concat (map ng_items navGroups))))"
  by (simp add: highlighted_items shown_items_def conj_commute)

lemma active_entries:
  "list_all (\<lambda>p. filter (item_active p) (concat (map ng_items navGroups)) = [])
     [''/dashboard/logistics'', ''/orders/1'', ''/customers/1'']"
  "map (\<lambda>i. (ni_title i, ni_adminOnly i)) (filter (item_active ''/reports/1'') (concat (map ng_items navGroups))) = [(''Reports'', False)]"
  "map (\<lambda>i. (ni_title i, ni_adminOnly i)) (filter (item_active ''/orders/sales'') (concat (map ng_items navGroups))) = [(''Orders'', False)]"
  by code_simp+

lemma shown_not_dashboard: "orbyn_load net c path = Show (AppPage page) \<Longrightarrow> page \<noteq> ''/dashboard''"
  by (auto simp: orbyn_load_def orbyn_page_def split: option.splits outcome.splits if_splits)

text \<open>Wherever a visit to Subsystem 1 ends, the side bar highlights at most one entry, for every role. Yet no
  page that is ever shown highlights Overview: its entry waits for the path /dashboard, which only
  redirects to the page it means, so the page one lands on after signing in has no entry
  highlighted, nor have the pages of one order or customer.\<close>

theorem sidebar_highlights_one:
  assumes "orbyn_load net c path = Show (AppPage page)"
  shows "length (highlighted role page) \<le> 1 \<and> ''Overview'' \<notin> set (highlighted role page) \<and>
         list_all (\<lambda>p. highlighted role p = []) [''/dashboard/logistics'', ''/orders/1'', ''/customers/1''] \<and>
         highlighted role ''/reports/1'' = [''Reports''] \<and> highlighted role ''/orders/sales'' = [''Orders'']"
proof -
  have "highlighted role ''/dashboard/logistics'' = []" "highlighted role ''/orders/1'' = []" "highlighted role ''/customers/1'' = []"
    using active_entries(1) by (simp_all add: highlighted_all del: filter_filter)
  moreover have "highlighted role ''/reports/1'' = [''Reports'']" "highlighted role ''/orders/sales'' = [''Orders'']"
    using active_entries(2,3) by (auto simp: highlighted_all map_eq_Cons_conv simp del: filter_filter)
  ultimately show ?thesis
    using at_most_one_highlighted shown_not_dashboard [OF assms] overview_highlighted by auto
qed

definition analyst_visitor :: ctx where
  "analyst_visitor =
     \<lparr>cx_cookies = [(''meadowops_session'', ''tok'')], cx_base_url = Some ''http://api'', cx_production = True\<rparr>"

theorem sidebar_highlights_one_witness:
  "''Overview'' \<notin> set (highlighted (Some ''analyst'') ''/dashboard/logistics'')"
proof -
  have "orbyn_load (sample_backend 200 (JObj [(''role'', JStr ''analyst'')])) analyst_visitor ''/dashboard/logistics'' =
          Show (AppPage ''/dashboard/logistics'')"
    by (simp add: orbyn_load_def orbyn_proxy_def orbyn_page_def is_page_def orbyn_app_pages_def orbyn_open_pages_def
        segments_def analyst_visitor_def get_cookie_def orbyn_session_def orbyn_getCurrentRole_def login_runs
        sample_backend_def resp_ok_def role_of_def is_authed_def)
  from sidebar_highlights_one [OF this, of "Some ''analyst''"] show ?thesis by blast
qed

end
