(* ===== verification/Spec2Isabelle.thy ===== *)
theory Spec2Isabelle
  imports Api_Relay Sessions Navigation Nav Composer Inbox Chat_Socket Ledger Scenarios Playground Theme
    Master_Data Settings_Schemas Repopulate Mail_Panels Scenario_Page Sign_In Data_Pages Css_Import Layout
    Tweakcn Detail_Views Overview_Reply Chat_Types Template_Settings
    Chart_Tooltips Orbyn_Shell
begin

text \<open>
  MeadowOps is a simulation of a supply-chain company with two web applications over one backend.
  Subsystem 1, the Analyst's application (\<open>src/frontend/subsystem_1/orbynadmin\<close>), shows
  dashboards, a chat with simulated stakeholders, a ledger of decisions and a query playground.
  Subsystem 2, the Builder (\<open>src/frontend/subsystem_2/shadcn-dashboard/nextjs-version\<close>), is
  the administrator's application: scenarios, the same chat from the other side, evaluations. Both
  are Next.js programs in TypeScript: pages call route handlers of their own server below
  \<open>/api\<close>, and these call the backend (FastAPI, \<open>src/backend\<close>) with the session token
  from a cookie. This development models the TypeScript of both applications. Definitions of the
  Builder that have a namesake in Subsystem 1 carry the prefix \<open>b_\<close> or \<open>builder_\<close>.

  \<^bold>\<open>Server side.\<close> \<open>Http_Fetch\<close> has JSON values, requests, replies and programs that send
  requests (\<open>'a io\<close>: a function of the network that gives the requests sent and an outcome, a
  value or a thrown error). The network, hence the backend, is a parameter of every statement.
  \<open>Session_Proxy\<close> has the gate every client function goes through (cookie, base URL, bearer
  header) as the locales \<open>session_gated\<close> and \<open>session_json\<close>, the calculus \<open>gated\<close> and
  the ways a reply is relayed. \<open>Orbyn_Api\<close> and \<open>Builder_Api\<close> model \<open>src/lib/*-api.ts\<close>
  function by function and interpret the locales for each fetch helper; \<open>Orbyn_Routes\<close> and
  \<open>Builder_Routes\<close> model every \<open>route.ts\<close> and the router (\<open>orbyn_dispatch\<close>,
  \<open>builder_dispatch\<close>), with log-in, log-out and the expiry of a session in \<open>Session_Routes\<close>;
  \<open>Api_Relay\<close> proves which replies are passed on unchanged. \<open>Sessions\<close> models what these do to the
  browser's cookies, and the cookie gates (\<open>proxy.ts\<close>, \<open>middleware.ts\<close>);
  \<open>Navigation\<close> what a browser ends up with when it asks for a page: gates, layouts and
  redirects, followed with fuel. Fuel 3 is enough for Subsystem 1 and 5 for the Builder, because
  each redirect lowers a rank below 3 and 5 (locale \<open>site\<close>, interpreted for both);
  \<open>navigation_always_ends\<close> states it.

  \<^bold>\<open>Client side.\<close> A component is a state record with one function per handler,
  effect and continuation after an \<open>await\<close>; a run is a list of events, or a step
  relation, in which user actions, timers, frames and replies interleave freely.
  \<open>Draft_Buffer\<close>: the composer's drafts in \<open>localStorage\<close> (locale
  \<open>draft_store\<close>). \<open>Composer\<close>: \<open>thread-view.tsx\<close> of both
  applications, its handlers first (\<open>b_compose\<close>, \<open>orbyn_compose\<close>), then each inside its view: the
  Builder's with the suggestions its AI panel writes (\<open>mail_compose\<close>), Subsystem 1's with the message
  box that a completed thread hides (\<open>chat_step\<close>). \<open>Inbox\<close>: \<open>chat-inbox.tsx\<close> and \<open>mail.tsx\<close>.
  \<open>Chat_Socket\<close>: the two copies of \<open>useChatSocket\<close>.
  \<open>Chat_Data\<close>: types, labels, notifications. \<open>Ledger\<close>,
  \<open>Scenarios\<close>: the forms and buttons, checked against the backend's own transition
  tables and, in \<open>Scenario_Backend\<close>, against the operations of its scenario service with every refusal. \<open>Playground\<close>: the query page and the diagram of the schema.
  \<open>Nav\<close>: sidebars and palettes. \<open>Theme_Presets\<close>, \<open>Tweakcn_Presets\<close>,
  \<open>Theme\<close>, \<open>Tweakcn\<close>: the customisers and their two preset files; \<open>Css_Import\<close> reads a pasted style sheet, \<open>Layout\<close> is the
  Builder's side bar and its options, \<open>Orbyn_Shell\<close> the shell of Subsystem 1: its customiser with the copy in
  the browser's storage, its side bar and what that highlights. \<open>Master_Data\<close>: the settings pages and their
  create/edit dialog; \<open>Settings_Schemas\<close> compares what its forms send, and what the browser lets through,
  with the backend's request schemas. \<open>Scenario_Page\<close>: the forms, panels and the export of one
  scenario. \<open>Repopulate\<close>: the rebuild of the simulation. \<open>Mail_Panels\<close>:
  the AI assistance over the composer and the dialog for a new thread. \<open>Sign_In\<close>: both
  log-in forms with the handler, the cookie jar and the navigation that follows.
  \<open>Data_Pages\<close>: what each page requests and makes of the replies.
  \<open>Form_Kit\<close>, \<open>Template_Settings\<close>: the Builder's form components and the four settings
  pages it keeps from its template, over \<open>react-hook-form\<close> and zod as a parameter.
  \<open>Ui_Common\<close>: error texts. \<open>Uri_Codec\<close>: \<open>encodeURIComponent\<close>
  and \<open>URLSearchParams\<close> with their decoders. \<open>MO_Prelude\<close>: strings.

  \<^bold>\<open>From a reply to the screen.\<close> \<open>Reply_Types\<close> has the TypeScript types and the backend's
  response schemas as data, with the values of the one (\<open>has_type\<close>) and the JSON values the other is
  serialised to (\<open>dumps\<close>); \<open>Dashboard_Types\<close> and \<open>Chat_Types\<close> hold all of them, field by field, from
  \<open>src/types\<close>, \<open>src/lib\<close> and \<open>src/backend/app/schemas\<close>, and compare each page's type with its
  endpoint's schema. \<open>Doubles\<close> is the arithmetic of JavaScript numbers: rationals rounded to 53 bits,
  ties to even, with \<open>Number\<close> and \<open>toFixed\<close>; overflow and subnormals are left out, since the figures of a
  reply are far from both. \<open>Dashboard_Format\<close>: \<open>dashboard-format.ts\<close>. \<open>Overview_Page\<close> and
  \<open>Overview_Charts\<close>: the cards, tiles and charts of \<open>components/overview\<close>; \<open>Overview_Reply\<close> joins them to
  the page's request; \<open>Chart_Tooltips\<close>: what their tooltips and legends say of the data. \<open>Tables\<close>: the columns and
  cells of every \<open>components/*-table.tsx\<close>, of the settings pages, the query playground and the Overview's suppliers;
  \<open>Row_Links\<close>: where the rows lead; \<open>Detail_Views\<close>: the detail pages.

  \<^bold>\<open>What is shown.\<close> Of the API: requests carry only the caller's own token and the log-in's only the
  submitted credentials, nothing else is sent without a session, JSON replies come back unchanged, ids stay data. Of pages: redirects end, a
  Builder page is rendered only for an admin, logging out is complete. Of the clients: an edit is never
  filed under a thread other than the one whose view wrote it and is not lost by leaving, deleted threads stay away, messages show once, the
  socket is in exactly one phase and uses a ticket once, nothing runs as confirmed unasked, offered
  actions are exactly those the backend allows for a status, forms send the fields of the backend's
  schemas within their bounds, a settings form is well typed in every run and an unchanged row is saved as it was, a
  rebuild needs the typed word, the assistance runs once at a time. Of what is drawn: every reply's type but
  that of a query's result and of the portfolio export is what the backend serialises, every row, record and overview that it serialises is shown without an
  error or a \<open>NaN\<close>, rounded figures are within their bounds, links of rows reach the record they name, a preset
  of the customiser is applied exactly in both modes. This theory holds the statements that join
  components: a button or a form, its request, its handler, the backend's reply and the toast. Some theorems
  record behaviour that is not what the code means to do (a late history shown under another
  thread, a send that erases later text, a late suggestion written into another thread, an open form
  that undoes a regeneration, a reset that depends on the past, buttons that submit a form unasked, and others).

  \<^bold>\<open>Conventions.\<close> Strings are lists of bytes of the UTF-8 text. React commits state between
  events, so a handler sees the state of the last event; \<open>useRef\<close> and \<open>useState\<close> are record
  fields alike. Identifiers the code draws from the backend are strings. Requests in flight are part of
  the state and may be answered at any later step, or never.

  \<^bold>\<open>Not modelled.\<close> Layout and styling, the UI kits, the drawing of charts, the
  table library's sorting, filtering and paging, dates in the local time zone (a parameter of the tables);
  the backend itself, beyond the transition tables, request and response schemas and scenario operations
  that the pages are compared with; the validity of pasted CSS values, which the browser would ignore; the template's landing pages and components that no page uses. What the browser checks of an e-mail
  address, a number or a query parameter is an argument of the definitions that rely on it.
\<close>

section \<open>The applications' own API\<close>

text \<open>C4: Whatever request a page or an attacker sends to Subsystem 1's API, with any method, path and body, the
  handler it reaches sends at most one request to the backend, below the configured base URL. The
  log-in handler's is the log-in itself, with the e-mail and password of the request's body and no
  token; every other handler's carries the bearer token of the caller's own session cookie.\<close>

theorem orbyn_requests_authorised:
  assumes "orbyn_dispatch m path c q = Some p"
  shows "length (sent p net) \<le> 1 \<and> (\<forall>rq \<in> set (sent p net).
    if path = [''login''] then m = ''POST'' \<and> login_attempt c q rq else authorised orbyn_session c rq)"
proof (cases "path = [''login'']")
  case True
  with assms orbyn_dispatch_login [of m c q p] login_sends(1) [of c q net] show ?thesis by auto
next
  case False
  with orbyn_dispatch_gated [OF assms] show ?thesis by (auto simp: gated_def list_all_iff)
qed

definition signed_in :: ctx where
  "signed_in = \<lparr>cx_cookies = [(''meadowops_session'', ''tok''), (''meadowops_scenarios_session'', ''adm'')],
                cx_base_url = Some ''http://api'', cx_production = True\<rparr>"

lemma signed_in_simps [simp]:
  "truthy (get_cookie signed_in orbyn_session) = Some ''tok''"
  "truthy (get_cookie signed_in builder_session) = Some ''adm''"
  "truthy (cx_base_url signed_in) = Some ''http://api''"
  by (simp_all add: signed_in_def get_cookie_def truthy_def orbyn_session_def builder_session_def)

definition down :: network where
  "down = (\<lambda>rq. NetError)"

definition no_body :: ui_request where
  "no_body = \<lparr>ui_json = None, ui_form = None\<rparr>"

theorem orbyn_requests_authorised_witness:
  "list_all (authorised orbyn_session signed_in) (sent (thread_DELETE signed_in ''t1'') down)"
  using orbyn_requests_authorised [of "''DELETE''" "[''chat'', ''threads'', ''t1'']" signed_in no_body "thread_DELETE signed_in ''t1''" down]
  by (simp add: orbyn_dispatch_def list_all_iff)

text \<open>C5: The same of the Builder's API and its own session cookie: the log-in sends the credentials of its body
  and no token, every other handler, log-out and the route for an expired session included, sends at most
  one request, with the caller's own token.\<close>

theorem builder_requests_authorised:
  assumes "builder_dispatch m path c q = Some p"
  shows "length (sent p net) \<le> 1 \<and> (\<forall>rq \<in> set (sent p net).
    if path = [''login''] then m = ''POST'' \<and> login_attempt c q rq else authorised builder_session c rq)"
proof (cases "path = [''login'']")
  case True
  with assms builder_dispatch_login [of m c q p] login_sends(2) [of c q net] show ?thesis by auto
next
  case False
  with builder_dispatch_gated [OF assms] show ?thesis by (auto simp: gated_def list_all_iff)
qed

theorem builder_requests_authorised_witness:
  "list_all (authorised builder_session signed_in) (sent (b_approve_POST signed_in ''s1'') down)"
  using builder_requests_authorised [of "''POST''" "[''scenarios'', ''s1'', ''approve'']" signed_in no_body
      "b_approve_POST signed_in ''s1''" down]
  by (simp add: builder_dispatch_def list_all_iff)

text \<open>Without the application's session cookie, or without a configured backend, no handler of either API
  but the log-in contacts the backend at all; the other application's cookie does not help.\<close>

theorem no_session_no_request:
  assumes "truthy (get_cookie c cookie) = None \<or> truthy (cx_base_url c) = None"
    and "cookie = orbyn_session \<and> orbyn_dispatch m path c q = Some p
       \<or> cookie = builder_session \<and> builder_dispatch m path c q = Some p"
    and "path \<noteq> [''login'']"
  shows "sent p net = []"
proof -
  have "gated cookie c p" using assms(2,3) orbyn_dispatch_gated builder_dispatch_gated by blast
  then show ?thesis
    using assms(1)
    by (cases "sent p net") (auto simp: gated_def authorised_def list_all_iff dest!: spec [of _ net] split: option.splits)
qed

theorem no_session_no_request_witness:
  "sent (b_approve_POST (signed_in\<lparr>cx_cookies := [(''meadowops_session'', ''tok'')]\<rparr>) ''s1'') down = []"
  by (rule no_session_no_request [where cookie = builder_session and m = "''POST''" and path = "[''scenarios'', ''s1'', ''approve'']"
        and c = "signed_in\<lparr>cx_cookies := [(''meadowops_session'', ''tok'')]\<rparr>" and q = no_body])
    (simp_all add: get_cookie_def truthy_def builder_session_def builder_dispatch_def)

text \<open>C7: Subsystem 1's API is transparent: when a handler has contacted the backend and got a JSON answer with
  a status that can carry a body, the browser gets exactly this JSON with this status, and when
  the backend cannot be reached the handler rejects. Two handlers are of another kind: the attachment
  download passes bytes, and the log-in never shows the backend's answer but turns it into a cookie or a 401
  or 429 with the backend's reason.\<close>

theorem orbyn_relays_backend:
  assumes "orbyn_dispatch m path c q = Some p"
    and "\<forall>i. path \<noteq> [''chat'', ''messages'', i, ''attachment'']"
    and "sent p net = [rq]"
  shows "case net rq of
      NetError \<Rightarrow> result p net = Thrown TypeErr
    | Reply r \<Rightarrow> (\<forall>j. rs_body r = BodyJson j \<longrightarrow> relayable (rs_status r) \<longrightarrow>
                   result p net =
                     (if path = [''login''] then login_outcome orbyn_session c r j
                      else Returned (json_response j (rs_status r))))"
proof (cases "path = [''login'']")
  case True
  with assms(1) orbyn_dispatch_login [of m c q p] have p: "p = orbyn_login_POST c q" by simp
  show ?thesis using orbyn_login_relays [of c q net rq] assms(3) True unfolding p by (auto split: fetch_result.splits)
next
  case False
  with orbyn_dispatch_passes [OF assms(1) _ assms(2)] assms(3)
  have "case net rq of NetError \<Rightarrow> result p net = Thrown TypeErr
    | Reply r \<Rightarrow> (\<forall>j. rs_body r = BodyJson j \<longrightarrow> relayable (rs_status r) \<longrightarrow> result p net = Returned (json_response j (rs_status r)))"
    by (simp add: passes_on_def)
  with False show ?thesis by (auto split: fetch_result.splits)
qed

theorem orbyn_relays_backend_witness:
  "result (messages_GET signed_in ''t1'') (\<lambda>rq. Reply (json_response (JArr []) 403)) = Returned (json_response (JArr []) 403)"
  using orbyn_relays_backend [of "''GET''" "[''chat'', ''threads'', ''t1'', ''messages'']" signed_in no_body
      "messages_GET signed_in ''t1''" "\<lambda>rq. Reply (json_response (JArr []) 403)"]
  by (simp add: orbyn_dispatch_def messages_GET_def orbyn_listMessages_def orbyn_chatFetch_def gate_simps
      sent_and_then relay_silent [unfolded silent_def] json_response_def relayable_def status_in_range_def null_body_status_def)

text \<open>So is the Builder's, except for the log-in, the attachment download and the threads of a scenario, which it
  filters.\<close>

theorem builder_relays_backend:
  assumes "builder_dispatch m path c q = Some p"
    and "path \<noteq> [''login'']" and "\<forall>i. path \<noteq> [''chat'', ''messages'', i, ''attachment'']"
    and "\<forall>i. path \<noteq> [''scenarios'', i, ''threads'']" and "sent p net = [rq]"
  shows "case net rq of
      NetError \<Rightarrow> result p net = Thrown TypeErr
    | Reply r \<Rightarrow> (\<forall>j. rs_body r = BodyJson j \<longrightarrow> relayable (rs_status r) \<longrightarrow>
                   result p net = Returned (json_response j (rs_status r)))"
  using builder_dispatch_passes [OF assms(1-4)] assms(5) by (simp add: passes_on_def)

theorem builder_relays_backend_witness:
  "result (b_approve_POST signed_in ''s1'') (\<lambda>rq. NetError) = Thrown TypeErr"
  using builder_relays_backend [of "''POST''" "[''scenarios'', ''s1'', ''approve'']" signed_in no_body
      "b_approve_POST signed_in ''s1''" "\<lambda>rq. NetError"]
  by (simp add: builder_dispatch_def b_approve_POST_def approveScenario_def scenarioFetch_def gate_simps sent_and_then)

text \<open>The id in a route is data: for every id, whatever bytes it holds, the request of the route that deletes
  a thread names one path segment below \<open>threads\<close>, which decodes to the id.\<close>

theorem thread_id_stays_one_segment:
  assumes "truthy (get_cookie c orbyn_session) = Some token" and "truthy (cx_base_url c) = Some base"
  shows "\<exists>url. sent (thread_DELETE c i) net = [bearer_json_request token base url (with_method ''DELETE'')]
    \<and> map decode_component (split_slash url) = map Some [[], ''api'', ''v1'', ''chat'', ''threads'', i]
    \<and> CHR ''?'' \<notin> set url"
proof (intro exI conjI)
  let ?url = "''/api/v1/chat/threads/'' @ encodeURIComponent i"
  show "sent (thread_DELETE c i) net = [bearer_json_request token base ?url (with_method ''DELETE'')]"
    using assms
    by (simp add: thread_DELETE_def orbyn_deleteThread_def orbyn_chatFetch_def thread_path_def gate_simps sent_and_then
        relay_silent [unfolded silent_def] split: fetch_result.split)
  have "split_slash (encodeURIComponent i) = [encodeURIComponent i]"
    by (rule split_slash_segment) simp
  then show "map decode_component (split_slash ?url) = map Some [[], ''api'', ''v1'', ''chat'', ''threads'', i]"
    by (simp add: decode_encode)
  show "CHR ''?'' \<notin> set ?url" by simp
qed

theorem thread_id_stays_one_segment_witness:
  "\<exists>url. sent (thread_DELETE signed_in ''../admin?x'') down = [bearer_json_request ''tok'' ''http://api'' url (with_method ''DELETE'')]
    \<and> map decode_component (split_slash url) = map Some [[], ''api'', ''v1'', ''chat'', ''threads'', ''../admin?x'']"
  using thread_id_stays_one_segment [of signed_in "''tok''" "''http://api''" "''../admin?x''" down] by auto

text \<open>The query string the dashboard client builds says what it was given: parsed as a form query, it has the
  parameters that were set, in order, with their values, whatever bytes they hold; no parameter
  gives no question mark.\<close>

theorem dashboard_query_round_trip:
  "if [(k, v). (k, Some v) \<leftarrow> params] = [] then toQuery params = []
   else \<exists>q. toQuery params = ''?'' @ q \<and> parse_query q = map Some [(k, v). (k, Some v) \<leftarrow> params]"
  by (simp add: toQuery_def Let_def parse_query_string)

definition dashboard_calls ::
  "ctx \<Rightarrow> string \<Rightarrow> string \<Rightarrow> string option \<Rightarrow> bool \<Rightarrow> int option \<Rightarrow> http_response io list" where
  "dashboard_calls c i k opt flag days =
     [getExecutiveSummary c, getExecutiveTrend c, listInventoryPositions c opt, listInventoryTransactions c i k,
      listSupplierPerformance c, listSupplierPurchaseOrders c i, listPurchaseOrders c, getPurchaseOrderDetail c i,
      listSalesOrders c, getSalesOrderDetail c i, listShipments c, listExceptions c opt flag,
      getExceptionDrilldown c i, getOverview c days]"

definition dashboard_read :: "ctx \<Rightarrow> http_response io \<Rightarrow> bool" where
  "dashboard_read c p \<longleftrightarrow> (\<exists>path. p = dashboardFetch c path \<and> starts_with path ''/api/v1/dashboard/'')"

lemma dashboard_readI: "starts_with path ''/api/v1/dashboard/'' \<Longrightarrow> dashboard_read c (dashboardFetch c path)"
  by (auto simp: dashboard_read_def)

lemma dashboard_calls_read: "list_all (dashboard_read c) (dashboard_calls c i k opt flag days)"
  unfolding dashboard_calls_def getExecutiveSummary_def getExecutiveTrend_def
    listInventoryPositions_def listInventoryTransactions_def listSupplierPerformance_def
    listSupplierPurchaseOrders_def listPurchaseOrders_def getPurchaseOrderDetail_def listSalesOrders_def
    getSalesOrderDetail_def listShipments_def listExceptions_def getExceptionDrilldown_def getOverview_def
  by (simp only: list.pred_inject simp_thms, intro conjI dashboard_readI; simp add: starts_with_def)

lemma dashboardFetch_sent:
  "rq \<in> set (sent (dashboardFetch c path) net) \<Longrightarrow>
     rq_method rq = ''GET'' \<and> rq_body rq = NoBody \<and> (\<exists>base. truthy (cx_base_url c) = Some base \<and> rq_url rq = base @ path)"
  by (auto simp: dashboardFetch_def session_gate_def bearer_request_def split: option.splits)

text \<open>The dashboard client of Subsystem 1 only reads: every one of its calls, whatever its arguments, sends at
  most one request, a GET without a body below the dashboard's part of the backend, with the
  caller's own token.\<close>

theorem dashboard_only_reads:
  assumes "p \<in> set (dashboard_calls c i k opt flag days)"
  shows "length (sent p net) \<le> 1 \<and> (\<forall>rq \<in> set (sent p net). rq_method rq = ''GET'' \<and> rq_body rq = NoBody
    \<and> authorised orbyn_session c rq
    \<and> (\<exists>base path. truthy (cx_base_url c) = Some base \<and> rq_url rq = base @ path \<and> starts_with path ''/api/v1/dashboard/''))"
proof -
  obtain path where p: "p = dashboardFetch c path" "starts_with path ''/api/v1/dashboard/''"
    using dashboard_calls_read [of c i k opt flag days] assms
    by (auto simp: list_all_iff dashboard_read_def)
  have "gated orbyn_session c p" unfolding p by (rule orbyn_fetch_gated)
  then show ?thesis
    using dashboardFetch_sent [of _ c path net] p(2)
    unfolding p(1) gated_def list_all_iff by fast
qed

theorem dashboard_only_reads_witness:
  "list_all (\<lambda>rq. rq_method rq = ''GET'' \<and> authorised orbyn_session signed_in rq)
     (sent (getPurchaseOrderDetail signed_in ''po/1'') down)"
  using dashboard_only_reads [of "getPurchaseOrderDetail signed_in ''po/1''" signed_in "''po/1''" "[]" None False None down]
  by (simp add: dashboard_calls_def list_all_iff)

text \<open>A JSON \<open>null\<close> sent to the draft routes is neither saved nor answered: reading its \<open>body\<close> throws in the
  handler, where another payload without a text, a number say, gets a 400.\<close>

theorem draft_null_payload_throws:
  "result (draft_PUT c \<lparr>ui_json = Some JNull, ui_form = f\<rparr> i) net = Thrown TypeErr
   \<and> result (b_draft_PUT c \<lparr>ui_json = Some JNull, ui_form = f\<rparr> i) net = Thrown TypeErr
   \<and> sent (draft_PUT c \<lparr>ui_json = Some JNull, ui_form = f\<rparr> i) net = []
   \<and> (\<forall>n. result (draft_PUT c \<lparr>ui_json = Some (JNum n), ui_form = f\<rparr> i) net
          = Returned (json_response (detail ''body must be a string'') 400))"
  by (simp add: draft_PUT_def b_draft_PUT_def next_json_def status_in_range_def null_body_status_def)

text \<open>The threads the Builder shows for a scenario are those of the backend's list that name the scenario,
  in order and unchanged.\<close>

theorem scenario_threads_filtered:
  assumes "truthy (get_cookie c builder_session) = Some token" and "truthy (cx_base_url c) = Some base"
    and "\<And>rq. net rq = Reply (json_response (JArr ts) 200)" and "\<forall>t \<in> set ts. \<exists>ps. t = JObj ps"
  shows "result (b_scenario_threads_GET c i) net =
    Returned (json_response (JArr (filter (\<lambda>t. opt_prop t ''scenario_id'' = Some (JStr i)) ts)) 200)"
  using assms keep_scenario_objects [OF assms(4), of i]
  by (simp add: b_scenario_threads_GET_def listThreadsForScenario_def builder_listThreads_def builder_chatFetch_def
      gate_simps result_and_then resp_json_def json_response_def resp_ok_def filter_threads_def relay_def next_json_def
      status_in_range_def null_body_status_def)

theorem scenario_threads_filtered_witness:
  "result (b_scenario_threads_GET signed_in ''s1'')
     (\<lambda>rq. Reply (json_response (JArr [JObj [(''scenario_id'', JStr ''s2'')], JObj [(''scenario_id'', JStr ''s1'')]]) 200)) =
   Returned (json_response (JArr [JObj [(''scenario_id'', JStr ''s1'')]]) 200)"
  using scenario_threads_filtered [of signed_in "''adm''" "''http://api''"
      "\<lambda>rq. Reply (json_response (JArr [JObj [(''scenario_id'', JStr ''s2'')], JObj [(''scenario_id'', JStr ''s1'')]]) 200)"
      "[JObj [(''scenario_id'', JStr ''s2'')], JObj [(''scenario_id'', JStr ''s1'')]]" "''s1''"]
  by simp

section \<open>From a button to the backend\<close>

text \<open>
  A component's request reaches the handler its path names. The ids the pages put into their paths
  are the backend's own (UUIDs); the end-to-end statements take them to be of characters that
  need no escape.
\<close>

definition api_route :: "ui_call \<Rightarrow> string list" where
  "api_route u =
     map (\<lambda>s. case decode_component s of Some d \<Rightarrow> d | None \<Rightarrow> s) (drop 2 (split_slash (uc_path u)))"

definition orbyn_server :: "ctx \<Rightarrow> ui_call \<Rightarrow> http_response io option" where
  "orbyn_server c u = orbyn_dispatch (uc_method u) (api_route u) c \<lparr>ui_json = uc_body u, ui_form = None\<rparr>"

definition builder_server :: "ctx \<Rightarrow> ui_call \<Rightarrow> http_response io option" where
  "builder_server c u = builder_dispatch (uc_method u) (api_route u) c \<lparr>ui_json = uc_body u, ui_form = None\<rparr>"

definition plain_id :: "string \<Rightarrow> bool" where
  "plain_id i \<longleftrightarrow> i \<noteq> [] \<and> list_all uri_unreserved i"

lemma plain_id_simps:
  assumes "plain_id i"
  shows "encodeURIComponent i = i" "decode_component i = Some i" "CHR ''/'' \<notin> set i"
proof -
  show e: "encodeURIComponent i = i" using assms by (simp add: plain_id_def encode_unreserved)
  show "decode_component i = Some i" using decode_encode [of i] e by simp
  show "CHR ''/'' \<notin> set i" using no_slash_encoded [of i] e by simp
qed

lemma split_plain: "plain_id i \<Longrightarrow> split_slash (i @ CHR ''/'' # s) = i # split_slash s"
  using split_slash_append_slash [of i s] plain_id_simps(3) [of i] by simp

lemmas route_eval = api_route_def split_plain plain_id_simps post_def

lemma one_call_relay_run:
  assumes "net rq = Reply r" and "rs_body r = BodyJson j" and "relayable (rs_status r)"
  shows "sent (and_then (fetch rq) relay) net = [rq]"
    "result (and_then (fetch rq) relay) net = Returned (json_response j (rs_status r))"
  using assms
  by (simp_all add: sent_and_then result_and_then relay_silent [unfolded silent_def] relay_json json_reply_def)

lemma action_answer_json:
  "action_answer done (Reply (json_response j (rs_status r))) =
     (if resp_ok r then (Success done, True) else (Failure (extractErrorMessage j), False))"
  by (simp add: action_answer_def resp_ok_def json_response_def body_or_empty_def)

lemma ledger_button_handler:
  assumes "truthy (get_cookie c orbyn_session) = Some token" and "truthy (cx_base_url c) = Some base"
    and "plain_id i"
  shows "orbyn_server c (runSimpleAction a i) = Some (and_then (fetch (bearer_json_request token base
      (''/api/v1/ledger/decisions/'' @ i @ ''/'' @ action_segment a) (with_method ''POST''))) relay)"
  using assms
  by (cases a)
    (simp_all add: runSimpleAction_def orbyn_server_def orbyn_dispatch_def route_eval orbyn_route_defs
      requestClarification_def resubmitDecision_def rejectDecision_def markImplemented_def markPartiallyImplemented_def
      decision_path_def ledgerFetch_def gate_simps)

text \<open>C1: A button of the decision ledger does what it says, end to end: its request reaches the handler of its
  action, which calls the backend's transition of that decision once, with the caller's token;
  the backend's verdict comes back as the toast, a success with a refresh for a 2xx and the
  backend's own reason otherwise.\<close>

theorem ledger_action_end_to_end:
  assumes "truthy (get_cookie c orbyn_session) = Some token" and "truthy (cx_base_url c) = Some base"
    and "plain_id (de_id d)" and "run_action confirms a d None = Some u"
    and "net (bearer_json_request token base (''/api/v1/ledger/decisions/'' @ de_id d @ ''/'' @ action_segment a) (with_method ''POST''))
         = Reply r"
    and "rs_body r = BodyJson j" and "relayable (rs_status r)"
  shows "\<exists>p. orbyn_server c u = Some p
    \<and> sent p net = [bearer_json_request token base (''/api/v1/ledger/decisions/'' @ de_id d @ ''/'' @ action_segment a) (with_method ''POST'')]
    \<and> (\<exists>r'. result p net = Returned r'
         \<and> run_answer a (Reply r') =
             (if resp_ok r then (Success (SIMPLE_ACTION_LABEL a), True) else (Failure (extractErrorMessage j), False)))"
proof -
  have u: "u = runSimpleAction a (de_id d)" using assms(4) by (simp add: run_action_def split: if_splits)
  note h = ledger_button_handler [OF assms(1-3), of a] and run = one_call_relay_run [of net, OF assms(5-7)]
  show ?thesis unfolding u h run_answer_def by (intro exI conjI) (rule refl run action_answer_json)+
qed

theorem ledger_action_end_to_end_witness:
  "\<exists>p r'. orbyn_server signed_in (post ''/api/ledger/decisions/d-1/reject'' None) = Some p
    \<and> result p (\<lambda>rq. Reply (json_response (detail ''no'') 409)) = Returned r'
    \<and> run_answer Reject (Reply r') = (Failure ''no'', False)"
proof -
  let ?d = "(sample_decision proposed)\<lparr>de_id := ''d-1''\<rparr>"
  have id: "plain_id (de_id ?d)" by (simp add: plain_id_def uri_unreserved_def is_alnum_def byte_def)
  have run: "run_action True Reject ?d None = Some (post ''/api/ledger/decisions/d-1/reject'' None)"
    by (simp add: run_action_def runSimpleAction_def)
  show ?thesis
    using ledger_action_end_to_end [of signed_in "''tok''" "''http://api''" ?d True Reject
        "post ''/api/ledger/decisions/d-1/reject'' None" "\<lambda>rq. Reply (json_response (detail ''no'') 409)"
        "json_response (detail ''no'') 409" "detail ''no''"] id run
    by (auto simp: json_response_def relayable_def status_in_range_def null_body_status_def resp_ok_def detail_def
        extractErrorMessage_def)
qed

lemma scenario_button_handler:
  assumes "truthy (get_cookie c builder_session) = Some token" and "truthy (cx_base_url c) = Some base"
    and "plain_id i"
  shows "builder_server c (post (''/api/scenarios/'' @ i @ ''/'' @ scenario_segment a) None) =
    Some (and_then (fetch (bearer_json_request token base
      (''/api/v1/admin/scenarios/'' @ i @ ''/'' @ scenario_segment a) (with_method ''POST''))) relay)"
  using assms
  by (cases a)
    (simp_all add: builder_server_def builder_dispatch_def route_eval builder_route_defs
      regenerateScenario_def approveScenario_def activateScenario_def cancelScenario_def
      scenario_path_def scenarioFetch_def gate_simps)

text \<open>What the page tells the author after each action.\<close>

fun scenario_done :: "scenario_action \<Rightarrow> string" where
  "scenario_done Regenerate = ''Scenario regenerated''"
| "scenario_done Approve = ''Scenario approved''"
| "scenario_done Activate = ''Scenario activated''"
| "scenario_done Cancel = ''Scenario removed (cancelled)''"

lemma scenario_answer_json:
  "scenario_answer a (Reply (json_response j (rs_status r))) =
    (if resp_ok r then (Success (scenario_done a), True)
     else (Failure (case b_extractErrorMessage j of Some m \<Rightarrow> m | None \<Rightarrow> unreachable), False))"
  by (cases a) (simp_all add: scenario_answer_def resp_ok_def json_response_def body_or_empty_def split: option.split)

text \<open>C2: So does a button of a scenario in the Builder: one POST to the backend on that scenario with the
  administrator's token; a 2xx is announced as what was done (regenerated, approved, activated, removed)
  and refreshes the page, and any other verdict is shown with the backend's own reason and refreshes
  nothing.\<close>

theorem scenario_action_end_to_end:
  assumes "truthy (get_cookie c builder_session) = Some token" and "truthy (cx_base_url c) = Some base"
    and "plain_id i" and "run_scenario_action confirms a i None = Some u"
    and "net (bearer_json_request token base (''/api/v1/admin/scenarios/'' @ i @ ''/'' @ scenario_segment a) (with_method ''POST''))
         = Reply r"
    and "rs_body r = BodyJson j" and "relayable (rs_status r)"
  shows "\<exists>p. builder_server c u = Some p
    \<and> sent p net = [bearer_json_request token base (''/api/v1/admin/scenarios/'' @ i @ ''/'' @ scenario_segment a) (with_method ''POST'')]
    \<and> (\<exists>r'. result p net = Returned r'
         \<and> scenario_answer a (Reply r') =
             (if resp_ok r then (Success (scenario_done a), True)
              else (Failure (case b_extractErrorMessage j of Some m \<Rightarrow> m | None \<Rightarrow> unreachable), False)))"
proof -
  have u: "u = post (''/api/scenarios/'' @ i @ ''/'' @ scenario_segment a) None"
    using assms(4) by (simp add: run_scenario_action_def split: if_splits)
  note h = scenario_button_handler [OF assms(1-3), of a] and run = one_call_relay_run [of net, OF assms(5-7)]
  show ?thesis unfolding u h by (intro exI conjI) (rule refl run scenario_answer_json)+
qed

theorem scenario_action_end_to_end_witness:
  "\<exists>p r'. builder_server signed_in (post ''/api/scenarios/s-1/approve'' None) = Some p
    \<and> result p (\<lambda>rq. Reply (json_response (JObj []) 200)) = Returned r'
    \<and> scenario_answer Approve (Reply r') = (Success ''Scenario approved'', True)"
proof -
  have id: "plain_id ''s-1''" by (simp add: plain_id_def uri_unreserved_def is_alnum_def byte_def)
  have run: "run_scenario_action False Approve ''s-1'' None = Some (post ''/api/scenarios/s-1/approve'' None)"
    by (simp add: run_scenario_action_def)
  show ?thesis
    using scenario_action_end_to_end [of signed_in "''adm''" "''http://api''" "''s-1''" False Approve
        "post ''/api/scenarios/s-1/approve'' None" "\<lambda>rq. Reply (json_response (JObj []) 200)"
        "json_response (JObj []) 200" "JObj []"] id run
    by (auto simp: json_response_def relayable_def status_in_range_def null_body_status_def resp_ok_def)
qed

section \<open>A settings form to the backend\<close>

text \<open>The entities' ids are chosen by the administrator, so they may hold any characters; only an empty one
  and the two dot segments do not survive as a segment of a URL.\<close>

definition segment_id :: "string \<Rightarrow> bool" where
  "segment_id i \<longleftrightarrow> i \<notin> {[], ''.'', ''..''}"

definition settings_pages :: "string option \<Rightarrow> md_props list" where
  "settings_pages role =
     [CarriersSettingsPage role, WarehousesSettingsPage role, ProductsSettingsPage role, SuppliersSettingsPage role]"

definition backend_path :: "md_props \<Rightarrow> md_dialog \<Rightarrow> string" where
  "backend_path p d =
     ''/api/v1/admin/'' @ mp_entity p @ (case d of Editing row \<Rightarrow> ''/'' @ encodeURIComponent (mr_id row) | _ \<Rightarrow> [])"

lemma split_encoded: "split_slash (encodeURIComponent i) = [encodeURIComponent i]"
  by (simp add: no_slash_encoded split_slash_segment)

lemma settings_handler:
  assumes "truthy (get_cookie c orbyn_session) = Some token" and "truthy (cx_base_url c) = Some base"
    and "p \<in> set (settings_pages role)" and "submit_call p d values = Some u" and "uc_body u = Some body"
  shows "orbyn_server c u = Some (and_then (fetch (bearer_json_request token base (backend_path p d)
      (with_json (uc_method u) body))) relay)"
proof (cases d)
  case Closed
  with assms(4) show ?thesis by (simp add: submit_call_def)
next
  case Creating
  with assms show ?thesis
    by (auto simp: submit_call_def settings_pages_def page_defs collection_path_def backend_path_def
        orbyn_server_def orbyn_dispatch_def api_route_def post_def orbyn_route_defs createMasterData_def adminFetch_def gate_simps
        read_json_def)
next
  case (Editing row)
  with assms show ?thesis
    by (auto simp: submit_call_def settings_pages_def page_defs row_path_def backend_path_def patch_def
        orbyn_server_def orbyn_dispatch_def api_route_def split_encoded decode_encode orbyn_route_defs updateMasterData_def
        adminFetch_def gate_simps read_json_def)
qed

lemma submit_reply_json:
  assumes "cr_flight st = Some b" and "j \<noteq> JNull"
  shows "submitReplied p (Reply (json_response j (rs_status r))) st =
    (if resp_ok r
     then st\<lparr>cr_shown := cr_shown st @ [Toast_success (mp_label p @ (if b then '' created'' else '' updated''))],
             cr_dialog := Closed, cr_refreshes := Suc (cr_refreshes st), cr_submitting := False, cr_flight := None\<rparr>
     else st\<lparr>cr_error := Some (detail_text j ''Request failed''), cr_submitting := False, cr_flight := None\<rparr>)"
  using assms by (simp add: submitReplied_def resp_ok_def json_response_def body_or_empty_def)

text \<open>What a submission is to send: every field shown, with its value in the form, and the \<open>sku\<close> of a new
  product.\<close>

definition form_request :: "string \<Rightarrow> string \<Rightarrow> md_props \<Rightarrow> crud \<Rightarrow> http_request" where
  "form_request token base p st =
     bearer_json_request token base (backend_path p (cr_dialog st))
       (with_json (if cr_dialog st = Creating then ''POST'' else ''PATCH'')
          (JObj (form_body p (cr_dialog st = Creating) (cr_values st))))"

lemma submit_method:
  "submit_call p d values = Some u \<Longrightarrow> uc_method u = (if d = Creating then ''POST'' else ''PATCH'')"
  by (cases d) (auto simp: submit_call_def post_def patch_def)



end
